(* ===== verification/Prelude.thy ===== *)
theory Prelude
  imports Main "HOL-Library.Word"
begin

unbundle bit_operations_syntax

text \<open>
  Shared vocabulary of the development: the C integer types as words, the two ways the
  code touches a byte buffer (reading a slice, overwriting a slice), and the collections
  of facts the component theories add to.  Sizes and offsets (\<open>size_t\<close>) are natural
  numbers wherever the code cannot leave the range of the type, and 64-bit words or an
  explicit \<open>mod 2 ^ 64\<close> where it can.
\<close>

type_synonym u8 = "8 word"
type_synonym u16 = "16 word"
type_synonym u32 = "32 word"
type_synonym u64 = "64 word"
type_synonym byte = "8 word"
type_synonym amqp_channel_t = "16 word"
type_synonym amqp_method_number_t = "32 word"
type_synonym amqp_flags_t = "32 word"

text \<open>\<open>amqp_boolean_t\<close> is a C \<open>int\<close>: any non-zero value is true.\<close>

type_synonym amqp_boolean_t = int

text \<open>
  An \<open>amqp_bytes_t\<close> is a length and a pointer.  Decoded values are modelled by the
  bytes the descriptor denotes at the time of the call.
\<close>

type_synonym amqp_bytes_t = "byte list"

named_theorems codec_emits "which bytes an encoder writes"
named_theorems codec_reads "which value a decoder reads from which bytes"
named_theorems dec_sound_intros "decoders stay inside the buffer and report only statuses"
named_theorems dec_mem_intros "decoders keep the pool well formed and leak nothing"
named_theorems enc_frame_intros "encoders leave the bytes before their offset alone"

section \<open>Slices of a buffer\<close>

definition chunk :: "nat \<Rightarrow> nat \<Rightarrow> 'a list \<Rightarrow> 'a list" where
  "chunk off n xs = take n (drop off xs)"

definition write_at :: "'a list \<Rightarrow> nat \<Rightarrow> 'a list \<Rightarrow> 'a list" where
  "write_at buf off w = take off buf @ w @ drop (off + length w) buf"

lemma length_chunk [simp]: "off + n \<le> length xs \<Longrightarrow> length (chunk off n xs) = n"
  by (simp add: chunk_def)

lemma chunk_0 [simp]: "chunk off 0 xs = []"
  by (simp add: chunk_def)

lemma chunk_all: "chunk 0 (length xs) xs = xs"
  by (simp add: chunk_def)

lemma chunk_append_left:
  assumes "chunk off (length w1 + n) xs = w1 @ w2"
  shows "chunk off (length w1) xs = w1"
proof -
  have "take (length w1) (take (length w1 + n) (drop off xs)) = w1"
    using assms by (simp add: chunk_def)
  then show ?thesis by (simp add: chunk_def min_def)
qed

lemma chunk_append_right:
  assumes "chunk off (length w1 + n) xs = w1 @ w2"
  shows "chunk (off + length w1) n xs = w2"
proof -
  have "drop (length w1) (take (length w1 + n) (drop off xs)) = w2"
    using assms by (simp add: chunk_def)
  then show ?thesis
    by (simp add: chunk_def drop_take add.commute)
qed

lemma chunk_chunk:
  assumes "i + n \<le> m"
  shows "chunk i n (chunk off m xs) = chunk (off + i) n xs"
proof -
  have "drop i (take m (drop off xs)) = take (m - i) (drop (off + i) xs)"
    by (simp add: drop_take add.commute)
  then show ?thesis
    using assms by (simp add: chunk_def min_absorb1)
qed

lemma chunk_append_drop: "length xs \<le> off \<Longrightarrow> chunk off n (xs @ ys) = chunk (off - length xs) n ys"
  by (simp add: chunk_def)

lemma length_write_at [simp]:
  "off + length w \<le> length buf \<Longrightarrow> length (write_at buf off w) = length buf"
  by (simp add: write_at_def)

lemma write_at_Nil [simp]: "write_at buf off [] = buf"
  by (simp add: write_at_def)

lemma write_at_append:
  assumes "off + length w1 + length w2 \<le> length buf"
  shows "write_at (write_at buf off w1) (off + length w1) w2 = write_at buf off (w1 @ w2)"
proof -
  have "drop (length w1 + (length w2 + off)) buf = drop (off + (length w1 + length w2)) buf"
    by (simp add: ac_simps)
  moreover have "w1 = []" if "length buf \<le> off"
    using assms that by (cases w1) auto
  ultimately show ?thesis
    using assms by (auto simp: write_at_def min_def add.assoc add.left_commute add.commute)
qed

lemma chunk_write_at_same:
  "off + length w \<le> length buf \<Longrightarrow> chunk off (length w) (write_at buf off w) = w"
  by (simp add: chunk_def write_at_def min_def)

lemma take_write_at: "k \<le> off \<Longrightarrow> off \<le> length buf \<Longrightarrow> take k (write_at buf off w) = take k buf"
  by (simp add: write_at_def min_def)

lemma chunk_write_at_before:
  "off + n \<le> o' \<Longrightarrow> o' \<le> length buf \<Longrightarrow> chunk off n (write_at buf o' w) = chunk off n buf"
  by (simp add: chunk_def take_drop take_write_at add.commute)

lemma drop_write_at:
  "off + length w \<le> length buf \<Longrightarrow> off + length w \<le> k \<Longrightarrow> drop k (write_at buf off w) = drop k buf"
  by (simp add: write_at_def min_def)

end
