(* ===== verification/Amqp_Status.thy ===== *)
theory Amqp_Status
  imports Prelude
begin

text \<open>
  Status codes (\<open>amqp_status_enum\<close> of \<open>rabbitmq-c/amqp.h\<close>) and the error strings
  \<open>amqp_error_string2\<close> and \<open>amqp_error_string\<close> of \<open>amqp_api.c\<close> give for them.
  An \<open>int\<close> result of the library that is a status is modelled by the enumeration;
  \<open>status_code\<close> gives the number of each constant, on which the error strings work.
\<close>

datatype amqp_status_enum =
    AMQP_STATUS_OK
  | AMQP_STATUS_NO_MEMORY
  | AMQP_STATUS_BAD_AMQP_DATA
  | AMQP_STATUS_UNKNOWN_CLASS
  | AMQP_STATUS_UNKNOWN_METHOD
  | AMQP_STATUS_HOSTNAME_RESOLUTION_FAILED
  | AMQP_STATUS_INCOMPATIBLE_AMQP_VERSION
  | AMQP_STATUS_CONNECTION_CLOSED
  | AMQP_STATUS_BAD_URL
  | AMQP_STATUS_SOCKET_ERROR
  | AMQP_STATUS_INVALID_PARAMETER
  | AMQP_STATUS_TABLE_TOO_BIG
  | AMQP_STATUS_WRONG_METHOD
  | AMQP_STATUS_TIMEOUT
  | AMQP_STATUS_TIMER_FAILURE
  | AMQP_STATUS_HEARTBEAT_TIMEOUT
  | AMQP_STATUS_UNEXPECTED_STATE
  | AMQP_STATUS_SOCKET_CLOSED
  | AMQP_STATUS_SOCKET_INUSE
  | AMQP_STATUS_BROKER_UNSUPPORTED_SASL_METHOD
  | AMQP_STATUS_UNSUPPORTED
  | AMQP_STATUS_TCP_ERROR
  | AMQP_STATUS_TCP_SOCKETLIB_INIT_ERROR
  | AMQP_STATUS_SSL_ERROR
  | AMQP_STATUS_SSL_HOSTNAME_VERIFY_FAILED
  | AMQP_STATUS_SSL_PEER_VERIFY_FAILED
  | AMQP_STATUS_SSL_CONNECTION_FAILED
  | AMQP_STATUS_SSL_SET_ENGINE_FAILED

fun status_code :: "amqp_status_enum \<Rightarrow> int" where
  "status_code AMQP_STATUS_OK = 0x0"
| "status_code AMQP_STATUS_NO_MEMORY = - 0x0001"
| "status_code AMQP_STATUS_BAD_AMQP_DATA = - 0x0002"
| "status_code AMQP_STATUS_UNKNOWN_CLASS = - 0x0003"
| "status_code AMQP_STATUS_UNKNOWN_METHOD = - 0x0004"
| "status_code AMQP_STATUS_HOSTNAME_RESOLUTION_FAILED = - 0x0005"
| "status_code AMQP_STATUS_INCOMPATIBLE_AMQP_VERSION = - 0x0006"
| "status_code AMQP_STATUS_CONNECTION_CLOSED = - 0x0007"
| "status_code AMQP_STATUS_BAD_URL = - 0x0008"
| "status_code AMQP_STATUS_SOCKET_ERROR = - 0x0009"
| "status_code AMQP_STATUS_INVALID_PARAMETER = - 0x000A"
| "status_code AMQP_STATUS_TABLE_TOO_BIG = - 0x000B"
| "status_code AMQP_STATUS_WRONG_METHOD = - 0x000C"
| "status_code AMQP_STATUS_TIMEOUT = - 0x000D"
| "status_code AMQP_STATUS_TIMER_FAILURE = - 0x000E"
| "status_code AMQP_STATUS_HEARTBEAT_TIMEOUT = - 0x000F"
| "status_code AMQP_STATUS_UNEXPECTED_STATE = - 0x0010"
| "status_code AMQP_STATUS_SOCKET_CLOSED = - 0x0011"
| "status_code AMQP_STATUS_SOCKET_INUSE = - 0x0012"
| "status_code AMQP_STATUS_BROKER_UNSUPPORTED_SASL_METHOD = - 0x0013"
| "status_code AMQP_STATUS_UNSUPPORTED = - 0x0014"
| "status_code AMQP_STATUS_TCP_ERROR = - 0x0100"
| "status_code AMQP_STATUS_TCP_SOCKETLIB_INIT_ERROR = - 0x0101"
| "status_code AMQP_STATUS_SSL_ERROR = - 0x0200"
| "status_code AMQP_STATUS_SSL_HOSTNAME_VERIFY_FAILED = - 0x0201"
| "status_code AMQP_STATUS_SSL_PEER_VERIFY_FAILED = - 0x0202"
| "status_code AMQP_STATUS_SSL_CONNECTION_FAILED = - 0x0203"
| "status_code AMQP_STATUS_SSL_SET_ENGINE_FAILED = - 0x0204"

text \<open>The code tests \<open>res < 0\<close> for failure: that is every status but \<open>AMQP_STATUS_OK\<close>.\<close>

lemma status_code_neg_iff: "status_code s < 0 \<longleftrightarrow> s \<noteq> AMQP_STATUS_OK"
  by (cases s) simp_all

section \<open>Error strings\<close>

definition base_error_strings :: "string list" where
  "base_error_strings =
    [''operation completed successfully'',
     ''could not allocate memory'',
     ''invalid AMQP data'',
     ''unknown AMQP class id'',
     ''unknown AMQP method id'',
     ''hostname lookup failed'',
     ''incompatible AMQP version'',
     ''connection closed unexpectedly'',
     ''could not parse AMQP URL'',
     ''a socket error occurred'',
     ''invalid parameter'',
     ''table too large for buffer'',
     ''unexpected method received'',
     ''request timed out'',
     ''system timer has failed'',
     ''heartbeat timeout, connection closed'',
     ''unexpected protocol state'',
     ''socket is closed'',
     ''socket already open'',
     ''unsupported sasl method requested'',
     ''parameter value is unsupported'']"

definition tcp_error_strings :: "string list" where
  "tcp_error_strings =
    [''a socket error occurred'',
     ''socket library initialization failed'']"

definition ssl_error_strings :: "string list" where
  "ssl_error_strings =
    [''a SSL error occurred'',
     ''SSL hostname verification failed'',
     ''SSL peer cert verification failed'',
     ''SSL handshake failed'',
     ''SSL setting engine failed'']"

definition unknown_error_string :: string where
  "unknown_error_string = ''(unknown error)''"

text \<open>
  \<open>amqp_error_string2\<close>.  The argument is a C \<open>int\<close>: negation and the masks act on its
  32-bit two's complement representation.
\<close>

definition amqp_error_string2 :: "32 word \<Rightarrow> string" where
  "amqp_error_string2 code =
    (let category = unat (drop_bit 8 ((- code) AND 0xFF00));
         error = unat ((- code) AND 0x00FF);
         entry = (\<lambda>strings. if error < length strings then strings ! error else unknown_error_string)
     in if category = 0 then entry base_error_strings
        else if category = 1 then entry tcp_error_strings
        else if category = 2 then entry ssl_error_strings
        else unknown_error_string)"

text \<open>\<open>amqp_error_string\<close>: the deprecated variant maps positive codes to negative ones first.\<close>

definition amqp_error_string :: "32 word \<Rightarrow> string" where
  "amqp_error_string code =
    amqp_error_string2 (if 0 <s code then - code else code)"

lemmas error_string_defs = amqp_error_string2_def amqp_error_string_def
  base_error_strings_def tcp_error_strings_def ssl_error_strings_def unknown_error_string_def

end
