(* ===== verification/Amqp_Codec.thy ===== *)
theory Amqp_Codec
  imports Amqp_Status
begin

text \<open>
  The integer and byte-string codecs of \<open>amqp_private.h\<close>: \<open>amqp_e8\<close> to \<open>amqp_d64\<close>
  with their byte swaps on little-endian hosts, the functions
  \<open>DECLARE_CODEC_BASE_TYPE\<close> declares, and \<open>amqp_encode_bytes\<close> and
  \<open>amqp_decode_bytes\<close>.  The locale \<open>base_codec\<close> is the contract of one integer
  codec; it is interpreted for each of the four widths.
\<close>

section \<open>Big-endian byte sequences\<close>

definition be_bytes :: "nat \<Rightarrow> 'a::len word \<Rightarrow> byte list" where
  "be_bytes n v = map (\<lambda>i. ucast (drop_bit (8 * i) v)) (rev [0..<n])"

definition be_value :: "byte list \<Rightarrow> 'a::len word" where
  "be_value bs = foldl (\<lambda>acc b. push_bit 8 acc OR ucast b) 0 bs"

lemma be_bytes_0 [simp]: "be_bytes 0 v = []"
  by (simp add: be_bytes_def)

lemma be_bytes_Suc: "be_bytes (Suc n) v = ucast (drop_bit (8 * n) v) # be_bytes n v"
  by (simp add: be_bytes_def)

lemma length_be_bytes [simp]: "length (be_bytes n v) = n"
  by (simp add: be_bytes_def)

lemma foldl_be_bytes:
  "foldl (\<lambda>acc b. push_bit 8 acc OR ucast b) a (be_bytes n v) =
     push_bit (8 * n) a OR take_bit (8 * n) (v :: 'a::len word)"
proof (induction n arbitrary: a)
  case 0
  then show ?case by simp
next
  case (Suc n)
  have "push_bit (8 * n) (push_bit 8 a OR ucast (ucast (drop_bit (8 * n) v) :: byte)) OR take_bit (8 * n) v
     = push_bit (8 * Suc n) a OR take_bit (8 * Suc n) v"
    by (rule bit_word_eqI) (auto simp: bit_simps algebra_simps)
  then show ?case by (simp add: be_bytes_Suc Suc.IH)
qed

lemma be_value_be_bytes: "LENGTH('a) \<le> 8 * n \<Longrightarrow> be_value (be_bytes n v) = (v :: 'a::len word)"
  by (simp add: be_value_def foldl_be_bytes take_bit_word_eq_self)

lemma be_bytes_snoc: "be_bytes (Suc n) v = be_bytes n (drop_bit 8 v) @ [ucast (v :: 'a::len word)]"
  by (induction n) (simp_all add: be_bytes_Suc ac_simps)

lemma be_bytes_take_bit: "8 * n \<le> m \<Longrightarrow> be_bytes n (take_bit m v) = be_bytes n (v :: 'a::len word)"
proof (induction n)
  case (Suc n)
  have "(ucast (drop_bit (8 * n) (take_bit m v)) :: byte) = ucast (drop_bit (8 * n) v)"
    using Suc.prems by (intro bit_word_eqI) (auto simp: bit_simps)
  with Suc show ?case by (simp add: be_bytes_Suc)
qed simp

lemma be_bytes_be_value:
  "8 * length bs \<le> LENGTH('a) \<Longrightarrow> be_bytes (length bs) (be_value bs :: 'a::len word) = bs"
proof (induction bs rule: rev_induct)
  case (snoc b bs)
  let ?x = "be_value bs :: 'a word"
  have d: "drop_bit 8 (push_bit 8 ?x OR ucast b) = take_bit (LENGTH('a) - 8) ?x"
    by (rule bit_word_eqI) (auto simp: bit_simps dest: bit_imp_le_length)
  have u: "(ucast (push_bit 8 ?x OR ucast b) :: byte) = b"
    using snoc.prems by (intro bit_word_eqI) (auto simp: bit_simps)
  have "be_bytes (length bs) ?x = bs"
    using snoc by simp
  moreover have "8 * length bs \<le> LENGTH('a) - 8"
    using snoc.prems by simp
  ultimately show ?case
    using d u by (simp add: be_value_def be_bytes_snoc be_bytes_take_bit)
qed simp

section \<open>Byte order of the host\<close>

text \<open>
  \<open>memcpy\<close> between an integer and memory uses the byte order of the host, which
  \<open>is_bigendian\<close> finds out at run time.  The functions below take it as an argument
  (\<open>be\<close>); the codecs use the order of the host the sources are configured for
  (\<open>config.h\<close>: Linux, little-endian).  The lemmas \<open>amqp_e16_be\<close> to \<open>amqp_d64_be\<close> show
  that the argument makes no difference.
\<close>

definition native_bytes :: "bool \<Rightarrow> nat \<Rightarrow> 'a::len word \<Rightarrow> byte list" where
  "native_bytes be n v = (if be then be_bytes n v else rev (be_bytes n v))"

definition native_value :: "bool \<Rightarrow> byte list \<Rightarrow> 'a::len word" where
  "native_value be bs = be_value (if be then bs else rev bs)"

definition is_bigendian :: bool where
  "is_bigendian = False"

definition swap16 :: "u16 \<Rightarrow> u16" where
  "swap16 val = drop_bit 8 (val AND 0xFF00) OR push_bit 8 (val AND 0x00FF)"

definition swap32 :: "u32 \<Rightarrow> u32" where
  "swap32 val = drop_bit 24 (val AND 0xFF000000) OR drop_bit 8 (val AND 0x00FF0000) OR
     push_bit 8 (val AND 0x0000FF00) OR push_bit 24 (val AND 0x000000FF)"

definition swap64 :: "u64 \<Rightarrow> u64" where
  "swap64 val = drop_bit 56 (val AND 0xFF00000000000000) OR
     drop_bit 40 (val AND 0x00FF000000000000) OR
     drop_bit 24 (val AND 0x0000FF0000000000) OR
     drop_bit 8 (val AND 0x000000FF00000000) OR
     push_bit 8 (val AND 0x00000000FF000000) OR
     push_bit 24 (val AND 0x0000000000FF0000) OR
     push_bit 40 (val AND 0x000000000000FF00) OR
     push_bit 56 (val AND 0x00000000000000FF)"

definition amqp_e8 :: "bool \<Rightarrow> u8 \<Rightarrow> byte list" where
  "amqp_e8 be val = native_bytes be 1 val"

definition amqp_d8 :: "bool \<Rightarrow> byte list \<Rightarrow> u8" where
  "amqp_d8 be data = native_value be data"

definition amqp_e16 :: "bool \<Rightarrow> u16 \<Rightarrow> byte list" where
  "amqp_e16 be val = native_bytes be 2 (if \<not> be then swap16 val else val)"

definition amqp_d16 :: "bool \<Rightarrow> byte list \<Rightarrow> u16" where
  "amqp_d16 be data = (let val = native_value be data in if \<not> be then swap16 val else val)"

definition amqp_e32 :: "bool \<Rightarrow> u32 \<Rightarrow> byte list" where
  "amqp_e32 be val = native_bytes be 4 (if \<not> be then swap32 val else val)"

definition amqp_d32 :: "bool \<Rightarrow> byte list \<Rightarrow> u32" where
  "amqp_d32 be data = (let val = native_value be data in if \<not> be then swap32 val else val)"

definition amqp_e64 :: "bool \<Rightarrow> u64 \<Rightarrow> byte list" where
  "amqp_e64 be val = native_bytes be 8 (if \<not> be then swap64 val else val)"

definition amqp_d64 :: "bool \<Rightarrow> byte list \<Rightarrow> u64" where
  "amqp_d64 be data = (let val = native_value be data in if \<not> be then swap64 val else val)"

lemma byte_masks:
  "(0xFF00 :: 'a::len word) = push_bit 8 (mask 8)"
  "(0xFF :: 'a::len word) = mask 8"
  "(0xFF0000 :: 'a::len word) = push_bit 16 (mask 8)"
  "(0xFF000000 :: 'a::len word) = push_bit 24 (mask 8)"
  "(0xFF00000000 :: 'a::len word) = push_bit 32 (mask 8)"
  "(0xFF0000000000 :: 'a::len word) = push_bit 40 (mask 8)"
  "(0xFF000000000000 :: 'a::len word) = push_bit 48 (mask 8)"
  "(0xFF00000000000000 :: 'a::len word) = push_bit 56 (mask 8)"
  by (simp_all add: mask_eq_exp_minus_1 push_bit_eq_mult)

lemma upt_widths: "[0..<1] = [0]" "[0..<2] = [0, 1]" "[0..<4] = [0, 1, 2, 3]"
  "[0..<8] = [0, 1, 2, 3, 4, 5, 6, 7]"
  by (simp_all add: upt_rec numeral_eq_Suc)

lemma be_bytes_swap16: "be_bytes 2 (swap16 v) = rev (be_bytes 2 v)"
  unfolding be_bytes_def swap16_def byte_masks upt_widths
  by simp (intro conjI; rule bit_word_eqI; auto simp: bit_simps)

lemma be_bytes_swap32: "be_bytes 4 (swap32 v) = rev (be_bytes 4 v)"
  unfolding be_bytes_def swap32_def byte_masks upt_widths
  by simp (intro conjI; rule bit_word_eqI; auto simp: bit_simps)

lemma be_bytes_swap64: "be_bytes 8 (swap64 v) = rev (be_bytes 8 v)"
  unfolding be_bytes_def swap64_def byte_masks upt_widths
  by simp (intro conjI; rule bit_word_eqI; auto simp: bit_simps)

lemma swap_native:
  fixes sw :: "'a::len word \<Rightarrow> 'a word"
  assumes w: "8 * n = LENGTH('a)" and swap: "\<And>v. be_bytes n (sw v) = rev (be_bytes n v)"
    and bs: "length bs = n"
  shows "sw (be_value (rev bs)) = be_value bs"
proof -
  have "be_bytes n (sw (be_value (rev bs))) = bs"
    using swap [of "be_value (rev bs)"] be_bytes_be_value [of "rev bs", where 'a = 'a] w bs by simp
  then show ?thesis
    using be_value_be_bytes [of n "sw (be_value (rev bs))"] w by simp
qed

lemma amqp_e8_be: "amqp_e8 be val = be_bytes 1 val"
  by (simp add: amqp_e8_def native_bytes_def be_bytes_def)

lemma amqp_d8_be: "length data = 1 \<Longrightarrow> amqp_d8 be data = be_value data"
  by (cases data) (simp_all add: amqp_d8_def native_value_def)

lemma amqp_e16_be: "amqp_e16 be val = be_bytes 2 val"
  by (simp add: amqp_e16_def native_bytes_def be_bytes_swap16)

lemma amqp_d16_be: "length data = 2 \<Longrightarrow> amqp_d16 be data = be_value data"
  by (simp add: amqp_d16_def native_value_def swap_native [OF _ be_bytes_swap16])

lemma amqp_e32_be: "amqp_e32 be val = be_bytes 4 val"
  by (simp add: amqp_e32_def native_bytes_def be_bytes_swap32)

lemma amqp_d32_be: "length data = 4 \<Longrightarrow> amqp_d32 be data = be_value data"
  by (simp add: amqp_d32_def native_value_def swap_native [OF _ be_bytes_swap32])

lemma amqp_e64_be: "amqp_e64 be val = be_bytes 8 val"
  by (simp add: amqp_e64_def native_bytes_def be_bytes_swap64)

lemma amqp_d64_be: "length data = 8 \<Longrightarrow> amqp_d64 be data = be_value data"
  by (simp add: amqp_d64_def native_value_def swap_native [OF _ be_bytes_swap64])

lemmas amqp_e_be = amqp_e8_be amqp_e16_be amqp_e32_be amqp_e64_be
lemmas amqp_d_be = amqp_d8_be amqp_d16_be amqp_d32_be amqp_d64_be


section \<open>Encoding into a buffer\<close>

text \<open>
  The state of an encoder is the output buffer (whose length is \<open>encoded.len\<close>) and the
  offset.  The C functions return 1 or 0 and advance the offset in both cases.
\<close>

record enc_state =
  ebuf :: "byte list"
  eoff :: nat

text \<open>
  \<open>DECLARE_CODEC_BASE_TYPE(bits)\<close>: \<open>amqp_encode_base\<close> is the body of
  \<open>amqp_encode_##bits\<close> with \<open>n = bits / 8\<close> and \<open>e = amqp_e##bits\<close>.
\<close>

definition amqp_encode_base :: "nat \<Rightarrow> ('a \<Rightarrow> byte list) \<Rightarrow> 'a \<Rightarrow> enc_state \<Rightarrow> bool \<times> enc_state" where
  "amqp_encode_base n e input s =
    (let o' = eoff s; s' = s\<lparr>eoff := o' + n\<rparr>
     in if o' + n \<le> length (ebuf s)
        then (True, s'\<lparr>ebuf := write_at (ebuf s) o' (e input)\<rparr>)
        else (False, s'))"

definition amqp_encode_8 :: "u8 \<Rightarrow> enc_state \<Rightarrow> bool \<times> enc_state" where
  "amqp_encode_8 = amqp_encode_base 1 (amqp_e8 is_bigendian)"

definition amqp_encode_16 :: "u16 \<Rightarrow> enc_state \<Rightarrow> bool \<times> enc_state" where
  "amqp_encode_16 = amqp_encode_base 2 (amqp_e16 is_bigendian)"

definition amqp_encode_32 :: "u32 \<Rightarrow> enc_state \<Rightarrow> bool \<times> enc_state" where
  "amqp_encode_32 = amqp_encode_base 4 (amqp_e32 is_bigendian)"

definition amqp_encode_64 :: "u64 \<Rightarrow> enc_state \<Rightarrow> bool \<times> enc_state" where
  "amqp_encode_64 = amqp_encode_base 8 (amqp_e64 is_bigendian)"

definition amqp_encode_bytes :: "amqp_bytes_t \<Rightarrow> enc_state \<Rightarrow> bool \<times> enc_state" where
  "amqp_encode_bytes input s =
    (let o' = eoff s in
     if length input = 0 then (True, s)
     else let s' = s\<lparr>eoff := o' + length input\<rparr> in
       if o' + length input \<le> length (ebuf s)
       then (True, s'\<lparr>ebuf := write_at (ebuf s) o' input\<rparr>)
       else (False, s'))"

text \<open>
  An encoder runs until the first failing step: \<open>enc_check p err\<close> is
  \<open>if (!p) return err\<close>, \<open>enc_seqs\<close> a sequence of steps.  Its status is
  \<open>AMQP_STATUS_OK\<close> when all of them succeeded.
\<close>

type_synonym encoder = "enc_state \<Rightarrow> amqp_status_enum \<times> enc_state"

definition enc_check :: "(enc_state \<Rightarrow> bool \<times> enc_state) \<Rightarrow> amqp_status_enum \<Rightarrow> encoder" where
  "enc_check p err s = (case p s of (ok, s') \<Rightarrow> (if ok then AMQP_STATUS_OK else err, s'))"

definition enc_fail :: "amqp_status_enum \<Rightarrow> encoder" where
  "enc_fail err s = (err, s)"

fun enc_seqs :: "encoder list \<Rightarrow> encoder" where
  "enc_seqs [] s = (AMQP_STATUS_OK, s)"
| "enc_seqs (e # es) s =
    (case e s of (r, s') \<Rightarrow> if r = AMQP_STATUS_OK then enc_seqs es s' else (r, s'))"

subsection \<open>What an encoder emits\<close>

text \<open>
  \<open>emits e w\<close>: from any offset inside the buffer, \<open>e\<close> writes exactly the bytes \<open>w\<close> at
  that offset and advances the offset past them when they fit, and fails when they do
  not; in both cases the bytes before the offset and the length of the buffer stay.
\<close>

definition enc_frame :: "encoder \<Rightarrow> bool" where
  "enc_frame e \<longleftrightarrow>
    (\<forall>s. length (ebuf (snd (e s))) = length (ebuf s) \<and> eoff s \<le> eoff (snd (e s)) \<and>
         take (eoff s) (ebuf (snd (e s))) = take (eoff s) (ebuf s) \<and>
         (fst (e s) = AMQP_STATUS_OK \<longrightarrow> eoff s \<le> length (ebuf s) \<longrightarrow>
            eoff (snd (e s)) \<le> length (ebuf s)))"

definition emits :: "encoder \<Rightarrow> byte list \<Rightarrow> bool" where
  "emits e w \<longleftrightarrow>
    (\<forall>s. eoff s \<le> length (ebuf s) \<longrightarrow>
      (if eoff s + length w \<le> length (ebuf s)
       then e s = (AMQP_STATUS_OK,
                   s\<lparr>ebuf := write_at (ebuf s) (eoff s) w, eoff := eoff s + length w\<rparr>)
       else fst (e s) \<noteq> AMQP_STATUS_OK))"

lemma emitsI:
  assumes "\<And>s. eoff s + length w \<le> length (ebuf s) \<Longrightarrow>
      e s = (AMQP_STATUS_OK, s\<lparr>ebuf := write_at (ebuf s) (eoff s) w, eoff := eoff s + length w\<rparr>)"
    and "\<And>s. eoff s \<le> length (ebuf s) \<Longrightarrow> length (ebuf s) < eoff s + length w \<Longrightarrow>
      fst (e s) \<noteq> AMQP_STATUS_OK"
  shows "emits e w"
  using assms by (simp add: emits_def not_le)

lemma emits_fits:
  "emits e w \<Longrightarrow> eoff s + length w \<le> length (ebuf s) \<Longrightarrow>
    e s = (AMQP_STATUS_OK, s\<lparr>ebuf := write_at (ebuf s) (eoff s) w, eoff := eoff s + length w\<rparr>)"
  by (simp add: emits_def)

lemma emits_overflow:
  "emits e w \<Longrightarrow> eoff s \<le> length (ebuf s) \<Longrightarrow> length (ebuf s) < eoff s + length w \<Longrightarrow>
    fst (e s) \<noteq> AMQP_STATUS_OK"
  by (simp add: emits_def)

lemma emits_Nil [codec_emits]: "emits (enc_seqs []) []"
  by (simp add: emits_def)

lemma emits_Cons [codec_emits]:
  assumes e: "emits e w" and es: "emits (enc_seqs es) ws"
  shows "emits (enc_seqs (e # es)) (w @ ws)"
proof (rule emitsI)
  fix s :: enc_state
  assume "eoff s + length (w @ ws) \<le> length (ebuf s)"
  then show "enc_seqs (e # es) s = (AMQP_STATUS_OK,
      s\<lparr>ebuf := write_at (ebuf s) (eoff s) (w @ ws), eoff := eoff s + length (w @ ws)\<rparr>)"
    by (simp add: emits_fits [OF e] emits_fits [OF es] write_at_append add.assoc)
next
  fix s :: enc_state
  assume le: "eoff s \<le> length (ebuf s)" and gt: "length (ebuf s) < eoff s + length (w @ ws)"
  show "fst (enc_seqs (e # es) s) \<noteq> AMQP_STATUS_OK"
  proof (cases "eoff s + length w \<le> length (ebuf s)")
    case True
    with gt show ?thesis
      by (simp add: emits_fits [OF e] emits_overflow [OF es])
  next
    case False
    with emits_overflow [OF e le] show ?thesis
      by (auto split: prod.split)
  qed
qed

lemma enc_frame_seqs [enc_frame_intros]:
  "(\<And>e. e \<in> set es \<Longrightarrow> enc_frame e) \<Longrightarrow> enc_frame (enc_seqs es)"
proof (induction es)
  case Nil
  then show ?case by (simp add: enc_frame_def)
next
  case (Cons e es)
  then have e: "enc_frame e" and es: "enc_frame (enc_seqs es)" by auto
  show ?case
    unfolding enc_frame_def
  proof (intro allI)
    fix s :: enc_state
    obtain r s1 where es1: "e s = (r, s1)" by fastforce
    obtain r2 s2 where es2: "enc_seqs es s1 = (r2, s2)" by fastforce
    have 1: "length (ebuf s1) = length (ebuf s)" "eoff s \<le> eoff s1"
        "take (eoff s) (ebuf s1) = take (eoff s) (ebuf s)"
      using e es1 unfolding enc_frame_def by (metis snd_conv)+
    have 2: "length (ebuf s2) = length (ebuf s1)" "eoff s1 \<le> eoff s2"
        "take (eoff s1) (ebuf s2) = take (eoff s1) (ebuf s1)"
      using es es2 unfolding enc_frame_def by (metis snd_conv)+
    have 3: "take (eoff s) (ebuf s2) = take (eoff s) (ebuf s)"
      using 1(2,3) 2(3) by (metis min.absorb1 take_take)
    have 4: "r = AMQP_STATUS_OK \<longrightarrow> eoff s \<le> length (ebuf s) \<longrightarrow> eoff s1 \<le> length (ebuf s)"
      using e es1 unfolding enc_frame_def by (metis fst_conv snd_conv)
    have 5: "r2 = AMQP_STATUS_OK \<longrightarrow> eoff s1 \<le> length (ebuf s1) \<longrightarrow> eoff s2 \<le> length (ebuf s1)"
      using es es2 unfolding enc_frame_def by (metis fst_conv snd_conv)
    show "length (ebuf (snd (enc_seqs (e # es) s))) = length (ebuf s) \<and>
        eoff s \<le> eoff (snd (enc_seqs (e # es) s)) \<and>
        take (eoff s) (ebuf (snd (enc_seqs (e # es) s))) = take (eoff s) (ebuf s) \<and>
        (fst (enc_seqs (e # es) s) = AMQP_STATUS_OK \<longrightarrow> eoff s \<le> length (ebuf s) \<longrightarrow>
          eoff (snd (enc_seqs (e # es) s)) \<le> length (ebuf s))"
      using 1 2 3 4 5 es1 es2 by simp
  qed
qed

section \<open>Decoding from a buffer\<close>

text \<open>
  A decoder is given an \<open>amqp_bytes_t\<close>: \<open>vlen\<close> is its length field and \<open>vmem\<close> the
  bytes the pointer really gives access to.  The two agree unless a caller passes a wrong
  length.  A read the length field allows and the memory does not is \<open>Overrun\<close>: undefined
  behaviour in C.  \<open>Short\<close> is the return value 0 of the C functions.  The offset
  advances in every case.  An offset is at most \<open>length vmem\<close> when a decoder goes on, and
  it adds at most \<open>2 ^ 32\<close> to it, so \<open>size_t\<close> additions do not wrap.
\<close>

record amqp_view =
  vmem :: "byte list"
  vlen :: nat

datatype 'a prim = Got 'a | Short | Overrun

definition amqp_decode_base ::
  "nat \<Rightarrow> (byte list \<Rightarrow> 'a) \<Rightarrow> amqp_view \<Rightarrow> nat \<Rightarrow> 'a prim \<times> nat" where
  "amqp_decode_base n d encoded o' =
    (if o' + n \<le> vlen encoded
     then (if o' + n \<le> length (vmem encoded) then Got (d (chunk o' n (vmem encoded))) else Overrun)
     else Short, o' + n)"

definition amqp_decode_8 :: "amqp_view \<Rightarrow> nat \<Rightarrow> u8 prim \<times> nat" where
  "amqp_decode_8 = amqp_decode_base 1 (amqp_d8 is_bigendian)"

definition amqp_decode_16 :: "amqp_view \<Rightarrow> nat \<Rightarrow> u16 prim \<times> nat" where
  "amqp_decode_16 = amqp_decode_base 2 (amqp_d16 is_bigendian)"

definition amqp_decode_32 :: "amqp_view \<Rightarrow> nat \<Rightarrow> u32 prim \<times> nat" where
  "amqp_decode_32 = amqp_decode_base 4 (amqp_d32 is_bigendian)"

definition amqp_decode_64 :: "amqp_view \<Rightarrow> nat \<Rightarrow> u64 prim \<times> nat" where
  "amqp_decode_64 = amqp_decode_base 8 (amqp_d64 is_bigendian)"

text \<open>\<open>amqp_decode_bytes\<close> returns a descriptor of the bytes in place.\<close>

definition amqp_decode_bytes :: "nat \<Rightarrow> amqp_view \<Rightarrow> nat \<Rightarrow> amqp_bytes_t prim \<times> nat" where
  "amqp_decode_bytes n encoded o' =
    (if o' + n \<le> vlen encoded
     then (if o' + n \<le> length (vmem encoded) then Got (chunk o' n (vmem encoded)) else Overrun)
     else Short, o' + n)"

lemma amqp_decode_bytes_base: "amqp_decode_bytes n = amqp_decode_base n (\<lambda>bs. bs)"
  by (intro ext) (simp add: amqp_decode_bytes_def amqp_decode_base_def)

text \<open>A view is honest when its length field does not exceed the memory behind it.\<close>

definition honest :: "amqp_view \<Rightarrow> bool" where
  "honest v \<longleftrightarrow> vlen v \<le> length (vmem v)"

text \<open>\<open>at v o w\<close>: the bytes at offset \<open>o\<close> of the view are \<open>w\<close>, all within its length.\<close>

definition at :: "amqp_view \<Rightarrow> nat \<Rightarrow> byte list \<Rightarrow> bool" where
  "at v o' w \<longleftrightarrow> honest v \<and> o' + length w \<le> vlen v \<and> chunk o' (length w) (vmem v) = w"

lemma at_append: "at v o' (w1 @ w2) \<longleftrightarrow> at v o' w1 \<and> at v (o' + length w1) w2"
proof
  assume a: "at v o' (w1 @ w2)"
  then have c: "chunk o' (length w1 + length w2) (vmem v) = w1 @ w2"
    by (simp add: at_def)
  show "at v o' w1 \<and> at v (o' + length w1) w2"
    using a chunk_append_left [OF c] chunk_append_right [OF c] by (simp add: at_def add.assoc)
next
  assume a: "at v o' w1 \<and> at v (o' + length w1) w2"
  have "chunk o' (length w1 + length w2) (vmem v)
      = chunk o' (length w1) (vmem v) @ chunk (o' + length w1) (length w2) (vmem v)"
    by (simp add: chunk_def take_add add.commute)
  with a show "at v o' (w1 @ w2)"
    by (simp add: at_def add.assoc)
qed

section \<open>The contract of an integer codec\<close>

locale base_codec =
  fixes n :: nat and e :: "'a \<Rightarrow> byte list" and d :: "byte list \<Rightarrow> 'a"
  assumes length_e: "length (e x) = n"
    and d_e: "d (e x) = x"
    and e_d: "length bs = n \<Longrightarrow> e (d bs) = bs"
begin

lemma emits_check:
  assumes "err \<noteq> AMQP_STATUS_OK"
  shows "emits (enc_check (amqp_encode_base n e x) err) (e x)"
  using assms
  by (intro emitsI) (simp_all add: enc_check_def amqp_encode_base_def length_e Let_def)

lemma frame_check:
  assumes "err \<noteq> AMQP_STATUS_OK"
  shows "enc_frame (enc_check (amqp_encode_base n e x) err)"
  using assms
  by (auto simp: enc_frame_def enc_check_def amqp_encode_base_def length_e Let_def take_write_at)

lemma decode_at:
  assumes "at v o' (e x)"
  shows "amqp_decode_base n d v o' = (Got x, o' + n)"
  using assms by (simp add: at_def honest_def amqp_decode_base_def length_e d_e)

text \<open>What is decoded is what was there: encoding the result gives the bytes back.\<close>

lemma decode_Got:
  assumes "amqp_decode_base n d v o' = (Got x, o2)" and "honest v"
  shows "at v o' (e x)"
  using assms by (auto simp: at_def honest_def amqp_decode_base_def length_e e_d split: if_splits)

end

interpretation codec8: base_codec 1 "amqp_e8 be" "amqp_d8 be"
proof unfold_locales
  fix x :: u8 and bs :: "byte list"
  show "length (amqp_e8 be x) = 1" by (simp add: amqp_e8_be)
  show "amqp_d8 be (amqp_e8 be x) = x" by (simp add: amqp_e8_be amqp_d8_be be_value_be_bytes)
  assume "length bs = 1"
  then show "amqp_e8 be (amqp_d8 be bs) = bs"
    using be_bytes_be_value [of bs, where 'a = 8] by (simp add: amqp_e8_be amqp_d8_be)
qed

interpretation codec16: base_codec 2 "amqp_e16 be" "amqp_d16 be"
proof unfold_locales
  fix x :: u16 and bs :: "byte list"
  show "length (amqp_e16 be x) = 2" by (simp add: amqp_e16_be)
  show "amqp_d16 be (amqp_e16 be x) = x" by (simp add: amqp_e16_be amqp_d16_be be_value_be_bytes)
  assume "length bs = 2"
  then show "amqp_e16 be (amqp_d16 be bs) = bs"
    using be_bytes_be_value [of bs, where 'a = 16] by (simp add: amqp_e16_be amqp_d16_be)
qed

interpretation codec32: base_codec 4 "amqp_e32 be" "amqp_d32 be"
proof unfold_locales
  fix x :: u32 and bs :: "byte list"
  show "length (amqp_e32 be x) = 4" by (simp add: amqp_e32_be)
  show "amqp_d32 be (amqp_e32 be x) = x" by (simp add: amqp_e32_be amqp_d32_be be_value_be_bytes)
  assume "length bs = 4"
  then show "amqp_e32 be (amqp_d32 be bs) = bs"
    using be_bytes_be_value [of bs, where 'a = 32] by (simp add: amqp_e32_be amqp_d32_be)
qed

interpretation codec64: base_codec 8 "amqp_e64 be" "amqp_d64 be"
proof unfold_locales
  fix x :: u64 and bs :: "byte list"
  show "length (amqp_e64 be x) = 8" by (simp add: amqp_e64_be)
  show "amqp_d64 be (amqp_e64 be x) = x" by (simp add: amqp_e64_be amqp_d64_be be_value_be_bytes)
  assume "length bs = 8"
  then show "amqp_e64 be (amqp_d64 be bs) = bs"
    using be_bytes_be_value [of bs, where 'a = 64] by (simp add: amqp_e64_be amqp_d64_be)
qed

text \<open>Wire forms: network byte order, whatever the host.\<close>

definition w8 :: "u8 \<Rightarrow> byte list" where "w8 x = be_bytes 1 x"
definition w16 :: "u16 \<Rightarrow> byte list" where "w16 x = be_bytes 2 x"
definition w32 :: "u32 \<Rightarrow> byte list" where "w32 x = be_bytes 4 x"
definition w64 :: "u64 \<Rightarrow> byte list" where "w64 x = be_bytes 8 x"

lemma length_wire [simp]:
  "length (w8 a) = 1" "length (w16 b) = 2" "length (w32 c) = 4" "length (w64 d) = 8"
  by (simp_all add: w8_def w16_def w32_def w64_def)

lemmas emits_8 [codec_emits] = codec8.emits_check [of _ is_bigendian, folded amqp_encode_8_def, unfolded amqp_e8_be, folded w8_def]
lemmas emits_16 [codec_emits] = codec16.emits_check [of _ is_bigendian, folded amqp_encode_16_def, unfolded amqp_e16_be, folded w16_def]
lemmas emits_32 [codec_emits] = codec32.emits_check [of _ is_bigendian, folded amqp_encode_32_def, unfolded amqp_e32_be, folded w32_def]
lemmas emits_64 [codec_emits] = codec64.emits_check [of _ is_bigendian, folded amqp_encode_64_def, unfolded amqp_e64_be, folded w64_def]

lemmas frame_8 [enc_frame_intros] = codec8.frame_check [of _ is_bigendian, folded amqp_encode_8_def]
lemmas frame_16 [enc_frame_intros] = codec16.frame_check [of _ is_bigendian, folded amqp_encode_16_def]
lemmas frame_32 [enc_frame_intros] = codec32.frame_check [of _ is_bigendian, folded amqp_encode_32_def]
lemmas frame_64 [enc_frame_intros] = codec64.frame_check [of _ is_bigendian, folded amqp_encode_64_def]

lemma emits_bytes [codec_emits]:
  assumes "err \<noteq> AMQP_STATUS_OK"
  shows "emits (enc_check (amqp_encode_bytes input) err) input"
  using assms
  by (intro emitsI) (auto simp: enc_check_def amqp_encode_bytes_def Let_def)

lemma frame_bytes [enc_frame_intros]:
  assumes "err \<noteq> AMQP_STATUS_OK"
  shows "enc_frame (enc_check (amqp_encode_bytes input) err)"
  using assms
  by (auto simp: enc_frame_def enc_check_def amqp_encode_bytes_def Let_def take_write_at)

lemmas decode_8_at = codec8.decode_at [of _ _ is_bigendian, folded amqp_decode_8_def, unfolded amqp_e8_be, folded w8_def]
lemmas decode_16_at = codec16.decode_at [of _ _ is_bigendian, folded amqp_decode_16_def, unfolded amqp_e16_be, folded w16_def]
lemmas decode_32_at = codec32.decode_at [of _ _ is_bigendian, folded amqp_decode_32_def, unfolded amqp_e32_be, folded w32_def]
lemmas decode_64_at = codec64.decode_at [of _ _ is_bigendian, folded amqp_decode_64_def, unfolded amqp_e64_be, folded w64_def]

end
