(* ===== verification/Amqp_Mem.thy ===== *)
theory Amqp_Mem
  imports Prelude
begin

text \<open>
  Memory: the C allocator as a heap of numbered blocks, and the pools of \<open>amqp_mem.c\<close>
  (\<open>init_amqp_pool\<close>, \<open>recycle_amqp_pool\<close>, \<open>empty_amqp_pool\<close>, \<open>amqp_pool_alloc\<close>).
  The lemmas show that a pool hands out aligned regions inside live blocks, that two
  regions handed out between recycles never overlap, and that emptying the pool frees
  every block it holds exactly once.
\<close>

section \<open>The heap\<close>

text \<open>
  \<open>fails k n\<close> says whether the \<open>k\<close>-th allocation request, of \<open>n\<close> bytes, is refused: any
  pattern of failures is possible.  Block numbers are never reused, so a block outside
  \<open>live\<close> has been freed; freeing such a block sets \<open>bad_free\<close>.  The bytes of a block
  obtained by \<open>malloc\<close> are whatever \<open>content\<close> holds, \<open>calloc\<close> clears them.
\<close>

record heap =
  next_id :: nat
  fails :: "nat \<Rightarrow> nat \<Rightarrow> bool"
  live :: "nat set"
  bad_free :: bool
  content :: "nat \<Rightarrow> byte list"

definition malloc :: "nat \<Rightarrow> heap \<Rightarrow> nat option \<times> heap" where
  "malloc n h =
    (let b = next_id h; h' = h\<lparr>next_id := Suc b\<rparr>
     in if fails h b n then (None, h') else (Some b, h'\<lparr>live := insert b (live h)\<rparr>))"

definition calloc :: "nat \<Rightarrow> heap \<Rightarrow> nat option \<times> heap" where
  "calloc n h =
    (case malloc n h of
       (None, h') \<Rightarrow> (None, h')
     | (Some b, h') \<Rightarrow> (Some b, h'\<lparr>content := (content h')(b := replicate n 0)\<rparr>))"

definition free :: "nat option \<Rightarrow> heap \<Rightarrow> heap" where
  "free p h =
    (case p of
       None \<Rightarrow> h
     | Some b \<Rightarrow> h\<lparr>live := live h - {b}, bad_free := bad_free h \<or> b \<notin> live h\<rparr>)"

text \<open>\<open>realloc\<close> leaves the old block alone when it fails, else moves the bytes to a new one.\<close>

definition realloc :: "nat option \<Rightarrow> nat \<Rightarrow> heap \<Rightarrow> nat option \<times> heap" where
  "realloc p n h =
    (case malloc n h of
       (None, h') \<Rightarrow> (None, h')
     | (Some b, h') \<Rightarrow>
         (Some b, free p (case p of
            None \<Rightarrow> h'
          | Some b0 \<Rightarrow> h'\<lparr>content := (content h')(b := take n (content h' b0))\<rparr>)))"

text \<open>No request of the heap is ever refused.\<close>

definition roomy :: "heap \<Rightarrow> bool" where
  "roomy h \<longleftrightarrow> (\<forall>k n. \<not> fails h k n)"

text \<open>Live blocks have been handed out before.\<close>

definition heap_ok :: "heap \<Rightarrow> bool" where
  "heap_ok h \<longleftrightarrow> (\<forall>b \<in> live h. b < next_id h) \<and> \<not> bad_free h"

lemma malloc_cases:
  obtains h' where "malloc n h = (None, h')" "h' = h\<lparr>next_id := Suc (next_id h)\<rparr>" "\<not> roomy h"
  | h' where "malloc n h = (Some (next_id h), h')"
      "h' = h\<lparr>next_id := Suc (next_id h), live := insert (next_id h) (live h)\<rparr>"
  by (cases "fails h (next_id h) n") (auto simp: malloc_def Let_def roomy_def)

lemma calloc_cases:
  obtains h' where "calloc n h = (None, h')" "h' = h\<lparr>next_id := Suc (next_id h)\<rparr>" "\<not> roomy h"
  | h' where "calloc n h = (Some (next_id h), h')"
      "h' = h\<lparr>next_id := Suc (next_id h), live := insert (next_id h) (live h),
             content := (content h)(next_id h := replicate n 0)\<rparr>"
  by (cases rule: malloc_cases [of n h]) (auto simp: calloc_def)

lemma fails_malloc [simp]: "fails (snd (malloc n h)) = fails h"
  by (cases rule: malloc_cases [of n h]) simp_all

lemma fails_calloc [simp]: "fails (snd (calloc n h)) = fails h"
  by (cases rule: calloc_cases [of n h]) simp_all

lemma fails_free [simp]: "fails (free p h) = fails h"
  by (cases p) (simp_all add: free_def)

lemma fails_realloc [simp]: "fails (snd (realloc p n h)) = fails h"
  by (cases rule: malloc_cases [of n h]) (auto simp: realloc_def split: option.splits)

lemma roomy_cong: "fails h = fails h' \<Longrightarrow> roomy h = roomy h'"
  by (simp add: roomy_def)

lemma roomy_malloc: "roomy h \<Longrightarrow> fst (malloc n h) = Some (next_id h)"
  by (cases rule: malloc_cases [of n h]) auto

section \<open>Pools\<close>

record amqp_pool_blocklist_t =
  blocklist :: "nat option"
  blocks :: "nat list"

text \<open>
  \<open>blocklist\<close> is the block of the pointer array (NULL at first), \<open>blocks\<close> its elements;
  \<open>num_blocks\<close> is their number.
\<close>

abbreviation num_blocks :: "amqp_pool_blocklist_t \<Rightarrow> nat" where
  "num_blocks x \<equiv> length (blocks x)"

record amqp_pool_t =
  pagesize :: nat
  pages :: amqp_pool_blocklist_t
  large_blocks :: amqp_pool_blocklist_t
  next_page :: nat
  alloc_block :: "nat option"
  alloc_used :: nat

text \<open>A pointer into the heap: a block and an offset into it.\<close>

type_synonym addr = "nat \<times> nat"

definition empty_bl :: amqp_pool_blocklist_t where
  "empty_bl = \<lparr>blocklist = None, blocks = []\<rparr>"

definition init_amqp_pool :: "nat \<Rightarrow> amqp_pool_t" where
  "init_amqp_pool psize =
    \<lparr>pagesize = (if psize \<noteq> 0 then psize else 4096),
     pages = \<lparr>blocklist = None, blocks = []\<rparr>,
     large_blocks = \<lparr>blocklist = None, blocks = []\<rparr>,
     next_page = 0, alloc_block = None, alloc_used = 0\<rparr>"

fun free_all :: "nat list \<Rightarrow> heap \<Rightarrow> heap" where
  "free_all [] h = h"
| "free_all (b # bs) h = free_all bs (free (Some b) h)"

definition empty_blocklist :: "amqp_pool_blocklist_t \<Rightarrow> heap \<Rightarrow> amqp_pool_blocklist_t \<times> heap" where
  "empty_blocklist x h =
    (\<lparr>blocklist = None, blocks = []\<rparr>,
     if blocklist x \<noteq> None then free (blocklist x) (free_all (blocks x) h) else h)"

definition recycle_amqp_pool :: "amqp_pool_t \<Rightarrow> heap \<Rightarrow> amqp_pool_t \<times> heap" where
  "recycle_amqp_pool pool h =
    (case empty_blocklist (large_blocks pool) h of (bl, h') \<Rightarrow>
      (pool\<lparr>large_blocks := bl, next_page := 0, alloc_block := None, alloc_used := 0\<rparr>, h'))"

definition empty_amqp_pool :: "amqp_pool_t \<Rightarrow> heap \<Rightarrow> amqp_pool_t \<times> heap" where
  "empty_amqp_pool pool h =
    (case recycle_amqp_pool pool h of (pool', h') \<Rightarrow>
      (case empty_blocklist (pages pool') h' of (bl, h'') \<Rightarrow> (pool'\<lparr>pages := bl\<rparr>, h'')))"

definition SIZEOF_PTR :: nat where "SIZEOF_PTR = 8"

definition record_pool_block ::
  "amqp_pool_blocklist_t \<Rightarrow> nat \<Rightarrow> heap \<Rightarrow> bool \<times> amqp_pool_blocklist_t \<times> heap" where
  "record_pool_block x block h =
    (let blocklistlength = SIZEOF_PTR * (num_blocks x + 1) in
     case (if blocklist x = None then malloc blocklistlength h
           else realloc (blocklist x) blocklistlength h) of
       (None, h') \<Rightarrow> (False, x, h')
     | (Some newbl, h') \<Rightarrow> (True, \<lparr>blocklist = Some newbl, blocks = blocks x @ [block]\<rparr>, h'))"

text \<open>The rounding of \<open>amqp_pool_alloc\<close> is done in \<open>size_t\<close>, a 64-bit unsigned integer.\<close>

definition round_up_8 :: "nat \<Rightarrow> nat" where
  "round_up_8 amount = unat ((of_nat amount + 7 :: u64) AND NOT 7)"

definition amqp_pool_alloc :: "amqp_pool_t \<Rightarrow> nat \<Rightarrow> heap \<Rightarrow> addr option \<times> amqp_pool_t \<times> heap" where
  "amqp_pool_alloc pool amount0 h =
    (if amount0 = 0 then (None, pool, h) else
     let amount = round_up_8 amount0 in
     if amount > pagesize pool then
       (case calloc amount h of
          (None, h1) \<Rightarrow> (None, pool, h1)
        | (Some result, h1) \<Rightarrow>
            (case record_pool_block (large_blocks pool) result h1 of
               (False, _, h2) \<Rightarrow> (None, pool, free (Some result) h2)
             | (True, bl, h2) \<Rightarrow> (Some (result, 0), pool\<lparr>large_blocks := bl\<rparr>, h2)))
     else if alloc_block pool \<noteq> None \<and> alloc_used pool + amount \<le> pagesize pool then
       (Some (the (alloc_block pool), alloc_used pool),
        pool\<lparr>alloc_used := alloc_used pool + amount\<rparr>, h)
     else if next_page pool \<ge> num_blocks (pages pool) then
       (case calloc (pagesize pool) h of
          (None, h1) \<Rightarrow> (None, pool\<lparr>alloc_block := None\<rparr>, h1)
        | (Some page, h1) \<Rightarrow>
            (case record_pool_block (pages pool) page h1 of
               (False, _, h2) \<Rightarrow> (None, pool\<lparr>alloc_block := Some page\<rparr>, h2)
             | (True, bl, h2) \<Rightarrow>
                 (Some (page, 0),
                  pool\<lparr>alloc_block := Some page, pages := bl, next_page := num_blocks bl,
                       alloc_used := amount\<rparr>, h2)))
     else
       let page = blocks (pages pool) ! next_page pool in
       (Some (page, 0),
        pool\<lparr>alloc_block := Some page, next_page := next_page pool + 1, alloc_used := amount\<rparr>, h))"

definition amqp_pool_alloc_bytes ::
  "amqp_pool_t \<Rightarrow> nat \<Rightarrow> heap \<Rightarrow> (nat \<times> addr option) \<times> amqp_pool_t \<times> heap" where
  "amqp_pool_alloc_bytes pool amount h =
    (case amqp_pool_alloc pool amount h of (p, pool', h') \<Rightarrow> ((amount, p), pool', h'))"

section \<open>Rounding\<close>

lemma unat_and_not_7: "unat ((x :: u64) AND - 8) = unat x div 8 * 8"
proof -
  have "x AND NOT (mask 3) = push_bit 3 (drop_bit 3 x)"
    by (rule bit_word_eqI) (auto simp: bit_simps)
  moreover have "NOT (mask 3) = (- 8 :: u64)"
    by (simp add: mask_eq_exp_minus_1)
  ultimately have "x AND - 8 = push_bit 3 (drop_bit 3 x)"
    by simp
  moreover have "unat x < 2 ^ LENGTH(64)"
    by (rule unsigned_less)
  ultimately show ?thesis
    by (simp add: unat_word_ariths unat_div_distrib drop_bit_eq_div push_bit_eq_mult)
qed

lemma round_up_8_eq:
  assumes "amount + 7 < 2 ^ 64"
  shows "round_up_8 amount = (amount + 7) div 8 * 8"
proof -
  have "unat (of_nat amount + 7 :: u64) = amount + 7"
    using assms by (simp add: unat_word_ariths unat_of_nat)
  then show ?thesis
    by (simp add: round_up_8_def unat_and_not_7)
qed

lemma round_up_8_mod [simp]: "round_up_8 amount mod 8 = 0"
  by (simp add: round_up_8_def unat_and_not_7)

lemma round_up_8_ge: "amount + 7 < 2 ^ 64 \<Longrightarrow> amount \<le> round_up_8 amount"
  using round_up_8_eq [of amount] by presburger

section \<open>Invariant\<close>

definition bl_owned :: "amqp_pool_blocklist_t \<Rightarrow> nat set" where
  "bl_owned x = set (blocks x) \<union> set_option (blocklist x)"

definition pool_owned :: "amqp_pool_t \<Rightarrow> nat set" where
  "pool_owned pool = bl_owned (pages pool) \<union> bl_owned (large_blocks pool)"

definition bl_ok :: "amqp_pool_blocklist_t \<Rightarrow> heap \<Rightarrow> bool" where
  "bl_ok x h \<longleftrightarrow> distinct (blocks x) \<and> set (blocks x) \<inter> set_option (blocklist x) = {} \<and>
     (blocklist x = None \<longrightarrow> blocks x = []) \<and> bl_owned x \<subseteq> live h"

definition pool_ok :: "amqp_pool_t \<Rightarrow> heap \<Rightarrow> bool" where
  "pool_ok pool h \<longleftrightarrow>
     heap_ok h \<and> pagesize pool > 0 \<and>
     bl_ok (pages pool) h \<and> bl_ok (large_blocks pool) h \<and>
     bl_owned (pages pool) \<inter> bl_owned (large_blocks pool) = {} \<and>
     next_page pool \<le> num_blocks (pages pool) \<and>
     (\<forall>b \<in> set (blocks (pages pool)). length (content h b) = pagesize pool) \<and>
     alloc_used pool mod 8 = 0 \<and> alloc_used pool \<le> pagesize pool \<and>
     (\<forall>b. alloc_block pool = Some b \<longrightarrow>
        b \<in> live h \<and> b \<notin> set_option (blocklist (pages pool)) \<union> set_option (blocklist (large_blocks pool)) \<and>
        length (content h b) = pagesize pool \<and>
        b \<notin> set (drop (next_page pool) (blocks (pages pool))))"

lemma pool_ok_init: "heap_ok h \<Longrightarrow> pool_ok (init_amqp_pool n) h"
  by (simp add: pool_ok_def init_amqp_pool_def bl_ok_def bl_owned_def)

text \<open>The outcomes of \<open>record_pool_block\<close> and of \<open>amqp_pool_alloc\<close>.\<close>

lemma record_pool_block_cases:
  obtains h' where "record_pool_block x b h = (False, x, h')"
      "h' = h\<lparr>next_id := Suc (next_id h)\<rparr>" "\<not> roomy h"
  | h' where "record_pool_block x b h =
        (True, \<lparr>blocklist = Some (next_id h), blocks = blocks x @ [b]\<rparr>, h')"
      "fails h' = fails h" "next_id h' = Suc (next_id h)"
      "live h' = insert (next_id h) (live h) - set_option (blocklist x)"
      "bad_free h' = (bad_free h \<or> (\<exists>a. blocklist x = Some a \<and> a \<notin> insert (next_id h) (live h)))"
      "\<And>b. b \<noteq> next_id h \<Longrightarrow> content h' b = content h b"
  by (cases rule: malloc_cases [of "SIZEOF_PTR * (num_blocks x + 1)" h]; cases "blocklist x")
    (auto simp: record_pool_block_def realloc_def Let_def free_def split: option.splits prod.splits)

lemma record_pool_block_outcomes:
  obtains (full) "record_pool_block x b h = (False, x, h\<lparr>next_id := Suc (next_id h)\<rparr>)" "\<not> roomy h"
  | (ok) bl h' where "record_pool_block x b h = (True, bl, h')"
  by (cases rule: record_pool_block_cases [of x b h]) auto

text \<open>The branches of \<open>amqp_pool_alloc\<close>, each with the state it leaves.\<close>

lemma amqp_pool_alloc_cases:
  assumes "amqp_pool_alloc pool n h = (r, pool', h')"
  obtains
    (zero) "n = 0" "r = None" "pool' = pool" "h' = h"
  | (no_memory) "n > 0" "r = None" "pool' = pool \<or> pool' = pool\<lparr>alloc_block := None\<rparr>"
      "h' = h\<lparr>next_id := Suc (next_id h)\<rparr>" "\<not> roomy h"
  | (large_unrecorded) h1 where "n > 0" "r = None" "pool' = pool" "\<not> roomy h"
      "calloc (round_up_8 n) h = (Some (next_id h), h1)"
      "h' = free (Some (next_id h)) (h1\<lparr>next_id := Suc (next_id h1)\<rparr>)"
  | (large) h1 bl where "n > 0" "round_up_8 n > pagesize pool" "r = Some (next_id h, 0)"
      "pool' = pool\<lparr>large_blocks := bl\<rparr>"
      "calloc (round_up_8 n) h = (Some (next_id h), h1)"
      "record_pool_block (large_blocks pool) (next_id h) h1 = (True, bl, h')"
  | (fits) b where "n > 0" "alloc_block pool = Some b"
      "alloc_used pool + round_up_8 n \<le> pagesize pool" "r = Some (b, alloc_used pool)"
      "pool' = pool\<lparr>alloc_used := alloc_used pool + round_up_8 n\<rparr>" "h' = h"
  | (page_unrecorded) h1 where "n > 0" "r = None" "\<not> roomy h"
      "num_blocks (pages pool) \<le> next_page pool"
      "pool' = pool\<lparr>alloc_block := Some (next_id h)\<rparr>"
      "calloc (pagesize pool) h = (Some (next_id h), h1)"
      "h' = h1\<lparr>next_id := Suc (next_id h1)\<rparr>"
  | (new_page) h1 bl where "n > 0" "round_up_8 n \<le> pagesize pool"
      "num_blocks (pages pool) \<le> next_page pool" "r = Some (next_id h, 0)"
      "pool' = pool\<lparr>alloc_block := Some (next_id h), pages := bl, next_page := num_blocks bl,
                    alloc_used := round_up_8 n\<rparr>"
      "calloc (pagesize pool) h = (Some (next_id h), h1)"
      "record_pool_block (pages pool) (next_id h) h1 = (True, bl, h')"
  | (old_page) "n > 0" "round_up_8 n \<le> pagesize pool" "next_page pool < num_blocks (pages pool)"
      "r = Some (blocks (pages pool) ! next_page pool, 0)"
      "pool' = pool\<lparr>alloc_block := Some (blocks (pages pool) ! next_page pool),
                    next_page := next_page pool + 1, alloc_used := round_up_8 n\<rparr>" "h' = h"
proof -
  have roomy_next: "\<not> roomy h1 \<Longrightarrow> calloc m h = (p, h1) \<Longrightarrow> \<not> roomy h" for m p h1
    using roomy_cong [OF fails_calloc, of m h] by simp
  consider "n = 0" | "n > 0" "round_up_8 n > pagesize pool"
    | "n > 0" "round_up_8 n \<le> pagesize pool"
        "alloc_block pool \<noteq> None \<and> alloc_used pool + round_up_8 n \<le> pagesize pool"
    | "n > 0" "round_up_8 n \<le> pagesize pool"
        "\<not> (alloc_block pool \<noteq> None \<and> alloc_used pool + round_up_8 n \<le> pagesize pool)"
        "num_blocks (pages pool) \<le> next_page pool"
    | "n > 0" "round_up_8 n \<le> pagesize pool"
        "\<not> (alloc_block pool \<noteq> None \<and> alloc_used pool + round_up_8 n \<le> pagesize pool)"
        "next_page pool < num_blocks (pages pool)"
    by linarith
  then show thesis
  proof cases
    case 1
    with assms zero show thesis by (simp add: amqp_pool_alloc_def)
  next
    case 2
    note g = this
    show thesis
    proof (cases rule: calloc_cases [of "round_up_8 n" h])
      case (1 h1)
      with g assms no_memory show thesis by (simp add: amqp_pool_alloc_def Let_def)
    next
      case (2 h1)
      note c = 2(1)
      show thesis
      proof (cases rule: record_pool_block_outcomes [of "large_blocks pool" "next_id h" h1])
        case full
        with g assms c roomy_next [OF _ c] show thesis
          by (intro large_unrecorded [OF _ _ _ _ c]) (simp_all add: amqp_pool_alloc_def Let_def)
      next
        case (ok bl h2)
        with g assms c show thesis
          by (intro large [OF _ _ _ _ c]) (simp_all add: amqp_pool_alloc_def Let_def)
      qed
    qed
  next
    case 3
    with assms fits show thesis by (auto simp: amqp_pool_alloc_def Let_def)
  next
    case 4
    note g = this
    have unfit: "\<not> (alloc_block pool \<noteq> None \<and> alloc_used pool + round_up_8 n \<le> pagesize pool)"
      by (rule 4(3))
    note alloc = assms [unfolded amqp_pool_alloc_def Let_def if_not_P [OF unfit]]
    show thesis
    proof (cases rule: calloc_cases [of "pagesize pool" h])
      case (1 h1)
      with g alloc no_memory show thesis by simp
    next
      case (2 h1)
      note c = 2(1)
      show thesis
      proof (cases rule: record_pool_block_outcomes [of "pages pool" "next_id h" h1])
        case full
        with g alloc c roomy_next [OF _ c] show thesis
          by (intro page_unrecorded [OF _ _ _ _ _ c]) simp_all
      next
        case (ok bl h2)
        with g alloc c show thesis
          by (intro new_page [OF _ _ _ _ _ c]) simp_all
      qed
    qed
  next
    case 5
    with assms old_page show thesis by (auto simp: amqp_pool_alloc_def Let_def)
  qed
qed

lemma calloc_Some:
  assumes "calloc n h = (Some b, h')"
  shows "b = next_id h \<and> h' = h\<lparr>next_id := Suc (next_id h), live := insert (next_id h) (live h),
             content := (content h)(next_id h := replicate n 0)\<rparr>"
  using assms by (cases rule: calloc_cases [of n h]) auto

lemma heap_ok_fresh: "heap_ok h \<Longrightarrow> next_id h \<le> k \<Longrightarrow> k \<notin> live h"
  by (auto simp: heap_ok_def)

text \<open>
  A block obtained by \<open>calloc\<close> and recorded in the list \<open>x\<close>: the list \<open>x\<close> stays well
  formed, the other list \<open>y\<close> of the pool is not touched, nor are the bytes of any block.
\<close>

lemma calloc_record:
  assumes h: "heap_ok h" and x: "bl_ok x h" and y: "bl_ok y h"
    and xy: "bl_owned x \<inter> bl_owned y = {}"
    and call: "calloc n h = (Some (next_id h), h1)"
    and rec: "record_pool_block x (next_id h) h1 = (True, bl, h')"
  shows "heap_ok h'" and "bl_ok bl h'" and "bl_ok y h'" and "bl_owned bl \<inter> bl_owned y = {}"
    and "blocks bl = blocks x @ [next_id h]" and "blocklist bl = Some (Suc (next_id h))"
    and "next_id h \<in> live h'" and "length (content h' (next_id h)) = n"
    and "k < next_id h \<Longrightarrow> content h' k = content h k"
    and "k \<in> live h \<Longrightarrow> k \<notin> set_option (blocklist x) \<Longrightarrow> k \<in> live h'"
    and "next_id h' = Suc (Suc (next_id h))" and "fails h' = fails h"
    and "live h' - bl_owned bl = live h - bl_owned x"
proof -
  note h1 = conjunct2 [OF calloc_Some [OF call]]
  have f0: "next_id h \<notin> live h" and f1: "Suc (next_id h) \<notin> live h"
    using heap_ok_fresh [OF h] by simp_all
  have own: "bl_owned x \<subseteq> live h" "bl_owned y \<subseteq> live h"
    using x y by (simp_all add: bl_ok_def)
  have arr: "set_option (blocklist x) \<subseteq> live h"
    using own by (auto simp: bl_owned_def)
  show g1: "next_id h' = Suc (Suc (next_id h))" and g2: "fails h' = fails h"
    and g3: "blocks bl = blocks x @ [next_id h]" and g4: "blocklist bl = Some (Suc (next_id h))"
    using rec h1 by (cases rule: record_pool_block_cases [of x "next_id h" h1]; simp)+
  have g5: "live h' = insert (Suc (next_id h)) (insert (next_id h) (live h - set_option (blocklist x)))"
    using rec h1 arr f0 f1 by (cases rule: record_pool_block_cases [of x "next_id h" h1]) auto
  have g6: "bad_free h' = bad_free h"
    using rec h1 arr by (cases rule: record_pool_block_cases [of x "next_id h" h1]) auto
  show g7: "content h' k = content h k" if "k < next_id h" for k
    using rec h1 that by (cases rule: record_pool_block_cases [of x "next_id h" h1]) auto
  show "length (content h' (next_id h)) = n"
    using rec h1 by (cases rule: record_pool_block_cases [of x "next_id h" h1]) auto
  show "heap_ok h'"
    using h g1 g5 g6 by (auto simp: heap_ok_def)
  have n0: "next_id h \<notin> bl_owned x" "next_id h \<notin> bl_owned y"
    "Suc (next_id h) \<notin> bl_owned x" "Suc (next_id h) \<notin> bl_owned y"
    using own f0 f1 by auto
  have own': "bl_owned bl = insert (next_id h) (insert (Suc (next_id h)) (set (blocks x)))"
    using g3 g4 by (auto simp: bl_owned_def)
  have xs: "distinct (blocks x)" "set (blocks x) \<inter> set_option (blocklist x) = {}"
    using x by (simp_all add: bl_ok_def)
  show "bl_ok bl h'"
    using xs n0 own g3 g4 g5 by (auto simp: bl_ok_def bl_owned_def)
  have "bl_owned y \<subseteq> live h'"
    using own(2) xy g5 by (auto simp: bl_owned_def)
  then show "bl_ok y h'"
    using y by (simp add: bl_ok_def)
  show "bl_owned bl \<inter> bl_owned y = {}"
    using own' n0 xy by (auto simp: bl_owned_def)
  show "next_id h \<in> live h'" using g5 by simp
  show "k \<in> live h \<Longrightarrow> k \<notin> set_option (blocklist x) \<Longrightarrow> k \<in> live h'"
    using g5 by simp
  show "live h' - bl_owned bl = live h - bl_owned x"
    using g5 own' f0 f1 by (auto simp: bl_owned_def)
qed

definition alloc_block_ok :: "amqp_pool_t \<Rightarrow> heap \<Rightarrow> bool" where
  "alloc_block_ok pool h \<longleftrightarrow>
     (\<forall>b. alloc_block pool = Some b \<longrightarrow>
        b \<in> live h \<and> b \<notin> set_option (blocklist (pages pool)) \<union> set_option (blocklist (large_blocks pool)) \<and>
        length (content h b) = pagesize pool \<and>
        b \<notin> set (drop (next_page pool) (blocks (pages pool))))"

lemma pool_ok_iff:
  "pool_ok pool h \<longleftrightarrow>
     heap_ok h \<and> pagesize pool > 0 \<and> bl_ok (pages pool) h \<and> bl_ok (large_blocks pool) h \<and>
     bl_owned (pages pool) \<inter> bl_owned (large_blocks pool) = {} \<and>
     next_page pool \<le> num_blocks (pages pool) \<and>
     (\<forall>b \<in> set (blocks (pages pool)). length (content h b) = pagesize pool) \<and>
     alloc_used pool mod 8 = 0 \<and> alloc_used pool \<le> pagesize pool \<and> alloc_block_ok pool h"
  unfolding pool_ok_def alloc_block_ok_def by simp

lemma alloc_block_ok_mono:
  assumes "alloc_block_ok pool h" and "\<And>b. alloc_block pool = Some b \<Longrightarrow> b \<in> live h'"
    and "\<And>b. b \<in> live h \<Longrightarrow> content h' b = content h b"
  shows "alloc_block_ok pool h'"
  using assms by (simp add: alloc_block_ok_def)

lemma bl_live: "bl_ok x h \<Longrightarrow> b \<in> set (blocks x) \<Longrightarrow> b \<in> live h"
  by (auto simp: bl_ok_def bl_owned_def)

lemma bl_ok_live: "bl_ok x h \<Longrightarrow> live h \<subseteq> live h' \<Longrightarrow> bl_ok x h'"
  by (auto simp: bl_ok_def)

text \<open>Nothing the pool refers to has changed.\<close>

lemma pool_ok_frame:
  assumes "pool_ok pool h" and "heap_ok h'" and "live h \<subseteq> live h'"
    and c: "\<And>b. b \<in> live h \<Longrightarrow> content h' b = content h b"
  shows "pool_ok pool h'"
proof -
  have p: "bl_ok (pages pool) h" "bl_ok (large_blocks pool) h" "alloc_block_ok pool h"
    using assms(1) by (simp_all add: pool_ok_iff)
  have "alloc_block_ok pool h'"
  proof (rule alloc_block_ok_mono [OF p(3) _ c])
    show "b \<in> live h'" if "alloc_block pool = Some b" for b
      using p(3) that assms(3) by (auto simp: alloc_block_ok_def)
  qed
  moreover have "bl_ok (pages pool) h'" "bl_ok (large_blocks pool) h'"
    using p assms(3) by (blast intro: bl_ok_live)+
  moreover have "\<forall>b \<in> set (blocks (pages pool)). length (content h' b) = pagesize pool"
    using assms(1) c bl_live [OF p(1)] by (simp add: pool_ok_iff)
  ultimately show ?thesis
    using assms(1,2) by (simp add: pool_ok_iff)
qed

lemma pool_alloc_invariant:
  assumes ok: "pool_ok pool h" and alloc: "amqp_pool_alloc pool n h = (r, pool', h')"
  shows "pool_ok pool' h'"
proof -
  have h: "heap_ok h" and bp: "bl_ok (pages pool) h" and bl: "bl_ok (large_blocks pool) h"
    and apart: "bl_owned (pages pool) \<inter> bl_owned (large_blocks pool) = {}"
    and pagelen: "\<forall>b \<in> set (blocks (pages pool)). length (content h b) = pagesize pool"
    and abo: "alloc_block_ok pool h"
    using ok by (simp_all add: pool_ok_iff)
  have old: "b < next_id h" if "b \<in> live h" for b
    using h that by (auto simp: heap_ok_def)
  have old2: "b < Suc (Suc (next_id h))" if "b \<in> live h" for b
    using old [OF that] by simp
  have owned: "b < next_id h" if "b \<in> set (blocks (pages pool))" for b
    using bl_live [OF bp that] by (rule old)
  from alloc show ?thesis
  proof (cases rule: amqp_pool_alloc_cases)
    case zero
    with ok show ?thesis by simp
  next
    case no_memory
    have "pool_ok pool h'"
      using no_memory(4) h by (intro pool_ok_frame [OF ok]) (auto simp: heap_ok_def)
    with no_memory(3) show ?thesis by (auto simp: pool_ok_iff alloc_block_ok_def)
  next
    case (large_unrecorded h1)
    note h1 = conjunct2 [OF calloc_Some [OF large_unrecorded(5)]]
    have "heap_ok h'" and "live h \<subseteq> live h'" and "\<And>b. b \<in> live h \<Longrightarrow> content h' b = content h b"
      using large_unrecorded(6) h1 h heap_ok_fresh [OF h, of "next_id h"]
      by (auto simp: free_def heap_ok_def)
    with large_unrecorded(3) show ?thesis by (simp add: pool_ok_frame [OF ok])
  next
    case (large h1 bl')
    have apart': "bl_owned (large_blocks pool) \<inter> bl_owned (pages pool) = {}"
      using apart by blast
    note cr = calloc_record [OF h bl bp apart' large(5,6)]
    have "alloc_block_ok pool' h'"
      unfolding alloc_block_ok_def
    proof (intro allI impI)
      fix b assume b: "alloc_block pool' = Some b"
      then have a: "b \<in> live h" "b \<notin> set_option (blocklist (large_blocks pool))"
        using abo large(4) by (auto simp: alloc_block_ok_def)
      then show "b \<in> live h' \<and> b \<notin> set_option (blocklist (pages pool')) \<union> set_option (blocklist (large_blocks pool')) \<and>
        length (content h' b) = pagesize pool' \<and>
        b \<notin> set (drop (next_page pool') (blocks (pages pool')))"
        using abo b large(4) cr(6) cr(9) [OF old [OF a(1)]] cr(10) [OF a] old [OF a(1)]
        by (auto simp: alloc_block_ok_def)
    qed
    then show ?thesis
      using ok large(4) cr(1,2,3,4) cr(9) owned by (auto simp: pool_ok_iff)
  next
    case (fits b)
    with ok show ?thesis by (auto simp: pool_ok_iff alloc_block_ok_def)
  next
    case (page_unrecorded h1)
    note h1 = conjunct2 [OF calloc_Some [OF page_unrecorded(6)]]
    have "pool_ok pool h'"
      using h1 page_unrecorded(7) h old old2
      by (intro pool_ok_frame [OF ok]) (auto simp: heap_ok_def)
    moreover have "alloc_block_ok pool' h'"
      using page_unrecorded(4,5,7) h1 bp bl heap_ok_fresh [OF h, of "next_id h"]
      by (auto simp: alloc_block_ok_def bl_ok_def bl_owned_def)
    ultimately show ?thesis
      using page_unrecorded(5) by (simp add: pool_ok_iff)
  next
    case (new_page h1 bl')
    note cr = calloc_record [OF h bp bl apart new_page(6,7)]
    have f: "next_id h \<noteq> k" if "k \<in> live h" for k
      using old [OF that] by simp
    have "alloc_block_ok pool' h'"
      using new_page(5) cr(5,6,7,8) bl f by (auto simp: alloc_block_ok_def bl_ok_def bl_owned_def)
    moreover have "\<forall>b \<in> set (blocks bl'). length (content h' b) = pagesize pool"
      using cr(5,8) cr(9) pagelen owned by auto
    ultimately show ?thesis
      using ok new_page(2,5) cr(1,2,3,4) by (simp add: pool_ok_iff)
  next
    case old_page
    let ?b = "blocks (pages pool) ! next_page pool"
    have b: "?b \<in> set (blocks (pages pool))"
      using old_page(3) by simp
    have "blocks (pages pool) = take (next_page pool) (blocks (pages pool)) @ ?b # drop (Suc (next_page pool)) (blocks (pages pool))"
      using old_page(3) by (simp add: id_take_nth_drop)
    then have "?b \<notin> set (drop (Suc (next_page pool)) (blocks (pages pool)))"
      using bp unfolding bl_ok_def by (metis distinct.simps(2) distinct_append)
    moreover have "?b \<notin> set_option (blocklist (pages pool)) \<union> set_option (blocklist (large_blocks pool))"
      using b bp apart by (auto simp: bl_ok_def bl_owned_def)
    ultimately have "alloc_block_ok pool' h'"
      using old_page(5,6) b bl_live [OF bp b] pagelen by (simp add: alloc_block_ok_def)
    then show ?thesis
      using ok old_page by (simp add: pool_ok_iff)
  qed
qed

section \<open>Regions never overlap\<close>

text \<open>A region is a block, an offset and a size in bytes.\<close>

type_synonym region = "nat \<times> nat \<times> nat"

fun apart :: "region \<Rightarrow> region \<Rightarrow> bool" where
  "apart (b, off, n) (b', off', n') \<longleftrightarrow> b \<noteq> b' \<or> off + n \<le> off' \<or> off' + n' \<le> off"

text \<open>The regions a sequence of requests obtains; refused requests obtain none.\<close>

fun regions :: "(nat \<Rightarrow> 's \<Rightarrow> addr option \<times> 's) \<Rightarrow> nat list \<Rightarrow> 's \<Rightarrow> region list" where
  "regions alloc [] s = []"
| "regions alloc (n # ns) s =
    (case alloc n s of
       (None, s') \<Rightarrow> regions alloc ns s'
     | (Some (b, off), s') \<Rightarrow> (b, off, n) # regions alloc ns s')"

text \<open>
  The contract of an allocator over a state \<open>'s\<close>: what it hands out lies apart from every
  region already in use, and is in use from then on.
\<close>

locale region_allocator =
  fixes inv :: "'s \<Rightarrow> bool"
    and alloc :: "nat \<Rightarrow> 's \<Rightarrow> addr option \<times> 's"
    and in_use :: "'s \<Rightarrow> region \<Rightarrow> bool"
    and size_ok :: "nat \<Rightarrow> bool"
  assumes alloc_inv: "inv s \<Longrightarrow> size_ok n \<Longrightarrow> alloc n s = (r, s') \<Longrightarrow> inv s'"
    and in_use_mono: "inv s \<Longrightarrow> size_ok n \<Longrightarrow> alloc n s = (r, s') \<Longrightarrow> in_use s reg \<Longrightarrow> in_use s' reg"
    and in_use_new: "inv s \<Longrightarrow> size_ok n \<Longrightarrow> alloc n s = (Some (b, off), s') \<Longrightarrow> in_use s' (b, off, n)"
    and apart_new: "inv s \<Longrightarrow> size_ok n \<Longrightarrow> alloc n s = (Some (b, off), s') \<Longrightarrow> in_use s reg \<Longrightarrow>
      apart reg (b, off, n)"
begin

lemma regions_apart_in_use:
  "inv s \<Longrightarrow> \<forall>n \<in> set ns. size_ok n \<Longrightarrow> in_use s reg \<Longrightarrow> reg' \<in> set (regions alloc ns s) \<Longrightarrow> apart reg reg'"
proof (induction ns arbitrary: s)
  case Nil
  then show ?case by simp
next
  case (Cons n ns)
  obtain r s' where a: "alloc n s = (r, s')" by fastforce
  have inv': "inv s'" and use': "in_use s' reg"
    using alloc_inv [OF Cons.prems(1) _ a] in_use_mono [OF Cons.prems(1) _ a Cons.prems(3)]
      Cons.prems(2) by simp_all
  show ?case
    using Cons.prems Cons.IH [OF inv' _ use'] a apart_new [OF Cons.prems(1) _ _ Cons.prems(3)]
    by (cases r) (auto simp del: apart.simps split: prod.splits)
qed

lemma regions_pairwise_apart:
  "inv s \<Longrightarrow> \<forall>n \<in> set ns. size_ok n \<Longrightarrow> i < j \<Longrightarrow> j < length (regions alloc ns s) \<Longrightarrow>
    apart (regions alloc ns s ! i) (regions alloc ns s ! j)"
proof (induction ns arbitrary: s i j)
  case Nil
  then show ?case by simp
next
  case (Cons n ns)
  obtain r s' where a: "alloc n s = (r, s')" by fastforce
  have inv': "inv s'" using alloc_inv [OF Cons.prems(1) _ a] Cons.prems(2) by simp
  have ns: "\<forall>n \<in> set ns. size_ok n" using Cons.prems by simp
  show ?case
  proof (cases r)
    case None
    with a Cons.prems Cons.IH [OF inv' ns] show ?thesis by (simp del: apart.simps)
  next
    case (Some p)
    obtain b off where p: "p = (b, off)" by fastforce
    have new: "in_use s' (b, off, n)"
      using in_use_new [OF Cons.prems(1)] Cons.prems(2) a Some p by simp
    show ?thesis
    proof (cases i)
      case 0
      then have "regions alloc (n # ns) s ! j \<in> set (regions alloc ns s')"
        using a Some p Cons.prems(3,4) by (simp add: nth_Cons')
      with 0 a Some p regions_apart_in_use [OF inv' ns new] show ?thesis by (simp del: apart.simps)
    next
      case (Suc i')
      then obtain j' where "j = Suc j'" using Cons.prems(3) by (cases j) auto
      with Suc a Some p Cons.prems Cons.IH [OF inv' ns, of i' j'] show ?thesis by (simp del: apart.simps)
    qed
  qed
qed

end

definition pool_request :: "nat \<Rightarrow> amqp_pool_t \<times> heap \<Rightarrow> addr option \<times> (amqp_pool_t \<times> heap)" where
  "pool_request n s = (case s of (pool, h) \<Rightarrow> amqp_pool_alloc pool n h)"

definition pool_in_use :: "amqp_pool_t \<times> heap \<Rightarrow> region \<Rightarrow> bool" where
  "pool_in_use s reg = (case s of (pool, h) \<Rightarrow> case reg of (b, off, n) \<Rightarrow>
     b < next_id h \<and> b \<notin> set (drop (next_page pool) (blocks (pages pool))) \<and>
     (alloc_block pool = Some b \<longrightarrow> off + n \<le> alloc_used pool))"

definition pool_size_ok :: "nat \<Rightarrow> bool" where
  "pool_size_ok n \<longleftrightarrow> n + 7 < 2 ^ 64"

lemma next_id_mono: "amqp_pool_alloc pool n h = (r, pool', h') \<Longrightarrow> next_id h \<le> next_id h'"
proof (erule amqp_pool_alloc_cases)
  fix h1 bl
  assume "calloc (round_up_8 n) h = (Some (next_id h), h1)"
    "record_pool_block (large_blocks pool) (next_id h) h1 = (True, bl, h')"
  then show "next_id h \<le> next_id h'"
    by (cases rule: record_pool_block_cases [of "large_blocks pool" "next_id h" h1])
      (auto dest!: calloc_Some)
next
  fix h1 bl
  assume "calloc (pagesize pool) h = (Some (next_id h), h1)"
    "record_pool_block (pages pool) (next_id h) h1 = (True, bl, h')"
  then show "next_id h \<le> next_id h'"
    by (cases rule: record_pool_block_cases [of "pages pool" "next_id h" h1])
      (auto dest!: calloc_Some)
qed (auto simp: free_def dest!: calloc_Some)

lemma record_blocks: "record_pool_block x b h = (True, bl, h') \<Longrightarrow> blocks bl = blocks x @ [b]"
  by (cases rule: record_pool_block_cases [of x b h]) auto

interpretation pool_allocator:
  region_allocator "\<lambda>(pool, h). pool_ok pool h" pool_request pool_in_use pool_size_ok
proof (unfold_locales, goal_cases)
  case (1 s n r s')
  then show ?case
    by (auto simp: pool_request_def intro: pool_alloc_invariant split: prod.splits)
next
  case (2 s n r s' reg)
  obtain pool h pool' h' b off m where [simp]: "s = (pool, h)" "s' = (pool', h')" "reg = (b, off, m)"
    by (metis prod_cases3 surj_pair)
  have alloc: "amqp_pool_alloc pool n h = (r, pool', h')" and use: "pool_in_use (pool, h) (b, off, m)"
    using 2 by (simp_all add: pool_request_def)
  have b: "b < next_id h'" using use next_id_mono [OF alloc] by (simp add: pool_in_use_def)
  from alloc show ?case
  proof (cases rule: amqp_pool_alloc_cases)
    case old_page
    have "drop (next_page pool) (blocks (pages pool)) =
        blocks (pages pool) ! next_page pool # drop (Suc (next_page pool)) (blocks (pages pool))"
      using old_page(3) by (simp add: Cons_nth_drop_Suc)
    with old_page use b show ?thesis by (auto simp: pool_in_use_def)
  qed (use use b in \<open>auto simp: pool_in_use_def record_blocks\<close>)
next
  case (3 s n b off s')
  obtain pool h pool' h' where [simp]: "s = (pool, h)" "s' = (pool', h')"
    by (metis surj_pair)
  have alloc: "amqp_pool_alloc pool n h = (Some (b, off), pool', h')" and ok: "pool_ok pool h"
    using 3 by (simp_all add: pool_request_def)
  have h: "heap_ok h" using ok by (simp add: pool_ok_iff)
  have n: "n \<le> round_up_8 n" using 3 by (simp add: pool_size_ok_def round_up_8_ge)
  have ok': "pool_ok pool' h'" by (rule pool_alloc_invariant [OF ok alloc])
  have live_lt: "k \<in> live h \<Longrightarrow> k < next_id h" for k using h by (auto simp: heap_ok_def)
  from alloc show ?case
  proof (cases rule: amqp_pool_alloc_cases)
    case (large h1 bl)
    have "alloc_block pool \<noteq> Some b"
      using large(3) ok live_lt [of b] by (auto simp: pool_ok_iff alloc_block_ok_def)
    moreover have "b \<notin> set (blocks (pages pool))"
      using large(3) ok bl_live [of "pages pool" h b] live_lt [of b] by (auto simp: pool_ok_iff)
    moreover have "b < next_id h'"
      using large(3,5,6) by (cases rule: record_pool_block_cases [of "large_blocks pool" "next_id h" h1])
        (auto dest!: calloc_Some)
    ultimately show ?thesis
      using large by (auto simp: pool_in_use_def dest: in_set_dropD)
  next
    case (new_page h1 bl)
    have "b < next_id h'"
      using new_page(4,6,7) by (cases rule: record_pool_block_cases [of "pages pool" "next_id h" h1])
        (auto dest!: calloc_Some)
    with new_page n show ?thesis by (auto simp: pool_in_use_def)
  next
    case (fits b')
    with ok n live_lt [of b] show ?thesis
      by (auto simp: pool_in_use_def pool_ok_iff alloc_block_ok_def)
  next
    case old_page
    have "b \<in> live h"
      using old_page(3,4) ok bl_live [of "pages pool" h b] by (auto simp: pool_ok_iff)
    moreover have "b \<notin> set (drop (next_page pool') (blocks (pages pool')))"
      using ok' old_page(4,5) by (auto simp: pool_ok_iff alloc_block_ok_def)
    ultimately show ?thesis
      using old_page n live_lt [of b] by (auto simp: pool_in_use_def)
  qed auto
next
  case (4 s n b off s' reg)
  obtain pool h pool' h' b1 off1 m where [simp]: "s = (pool, h)" "s' = (pool', h')" "reg = (b1, off1, m)"
    by (metis prod_cases3 surj_pair)
  have alloc: "amqp_pool_alloc pool n h = (Some (b, off), pool', h')" and use: "pool_in_use (pool, h) (b1, off1, m)"
    using 4 by (simp_all add: pool_request_def)
  from alloc show ?case
  proof (cases rule: amqp_pool_alloc_cases)
    case old_page
    then have "b \<in> set (drop (next_page pool) (blocks (pages pool)))"
      by (metis Cons_nth_drop_Suc list.set_intros(1) option.inject prod.inject)
    with use show ?thesis by (auto simp: pool_in_use_def)
  qed (use use in \<open>auto simp: pool_in_use_def\<close>)
qed

section \<open>What an allocation gives\<close>

lemma fails_record_pool_block [simp]: "fails (snd (snd (record_pool_block x b h))) = fails h"
  by (cases rule: record_pool_block_cases [of x b h]) auto

lemma fails_pool_alloc:
  assumes "amqp_pool_alloc pool n h = (r, pool', h')"
  shows "fails h' = fails h"
  using assms
proof (cases rule: amqp_pool_alloc_cases)
  case (large h1 bl)
  then show ?thesis
    using fails_record_pool_block [of "large_blocks pool" "next_id h" h1] by (auto dest!: calloc_Some)
next
  case (new_page h1 bl)
  then show ?thesis
    using fails_record_pool_block [of "pages pool" "next_id h" h1] by (auto dest!: calloc_Some)
qed (auto dest!: calloc_Some)

lemma pool_alloc_roomy:
  assumes "amqp_pool_alloc pool n h = (r, pool', h')" and "roomy h"
  shows "roomy h' \<and> (r = None \<longleftrightarrow> n = 0)"
  using assms(2) roomy_cong [OF fails_pool_alloc [OF assms(1)]]
  by (cases rule: amqp_pool_alloc_cases [OF assms(1)]) auto

lemma pool_alloc_content:
  assumes "amqp_pool_alloc pool n h = (r, pool', h')" and k: "k < next_id h"
  shows "content h' k = content h k"
  using assms(1)
proof (cases rule: amqp_pool_alloc_cases)
  case (large h1 bl)
  with k show ?thesis
    by (cases rule: record_pool_block_cases [of "large_blocks pool" "next_id h" h1])
      (auto dest!: calloc_Some)
next
  case (new_page h1 bl)
  with k show ?thesis
    by (cases rule: record_pool_block_cases [of "pages pool" "next_id h" h1])
      (auto dest!: calloc_Some)
qed (use k in \<open>auto simp: free_def dest!: calloc_Some\<close>)

lemma pool_alloc_pagesize:
  "amqp_pool_alloc pool n h = (r, pool', h') \<Longrightarrow> pagesize pool' = pagesize pool"
  by (erule amqp_pool_alloc_cases) auto

lemma pool_alloc_region:
  assumes ok: "pool_ok pool h" and n: "n + 7 < 2 ^ 64"
    and alloc: "amqp_pool_alloc pool n h = (Some (b, off), pool', h')"
  shows "off mod 8 = 0 \<and> b \<in> live h' \<and> off + n \<le> length (content h' b)"
proof -
  have h: "heap_ok h" and bp: "bl_ok (pages pool) h" and bl: "bl_ok (large_blocks pool) h"
    and sep: "bl_owned (pages pool) \<inter> bl_owned (large_blocks pool) = {}"
    using ok by (simp_all add: pool_ok_iff)
  have n8: "n \<le> round_up_8 n" using n by (rule round_up_8_ge)
  from alloc show ?thesis
  proof (cases rule: amqp_pool_alloc_cases)
    case (large h1 bl')
    have "bl_owned (large_blocks pool) \<inter> bl_owned (pages pool) = {}" using sep by blast
    note cr = calloc_record [OF h bl bp this large(5,6)]
    from large(3) cr(7,8) n8 show ?thesis by simp
  next
    case (fits b')
    with ok n8 show ?thesis by (auto simp: pool_ok_iff alloc_block_ok_def)
  next
    case (new_page h1 bl')
    note cr = calloc_record [OF h bp bl sep new_page(6,7)]
    from new_page(2,4) cr(7,8) n8 show ?thesis by simp
  next
    case old_page
    with ok n8 bl_live [OF bp, of b] show ?thesis by (auto simp: pool_ok_iff)
  qed simp_all
qed

section \<open>Emptying a pool\<close>

lemma free_all_fields:
  "live (free_all bs h) = live h - set bs" "next_id (free_all bs h) = next_id h"
  "content (free_all bs h) = content h" "fails (free_all bs h) = fails h"
  by (induction bs arbitrary: h) (auto simp: free_def)

lemma bad_free_free_all:
  "distinct bs \<Longrightarrow> set bs \<subseteq> live h \<Longrightarrow> bad_free (free_all bs h) = bad_free h"
proof (induction bs arbitrary: h)
  case Nil
  then show ?case by simp
next
  case (Cons b bs)
  then have "set bs \<subseteq> live (free (Some b) h)" by (auto simp: free_def)
  with Cons show ?case by (simp add: free_def)
qed

lemma empty_blocklist_frees:
  assumes ok: "bl_ok x h" and e: "empty_blocklist x h = (x', h')"
  shows "blocks x' = [] \<and> blocklist x' = None \<and> live h' = live h - bl_owned x \<and>
    bad_free h' = bad_free h \<and> next_id h' = next_id h \<and> content h' = content h \<and> fails h' = fails h"
proof (cases "blocklist x")
  case None
  with ok e show ?thesis by (auto simp: empty_blocklist_def bl_ok_def bl_owned_def)
next
  case (Some a)
  have "a \<in> live (free_all (blocks x) h)"
    using ok Some by (auto simp: bl_ok_def bl_owned_def free_all_fields)
  moreover have "bad_free (free_all (blocks x) h) = bad_free h"
    using ok by (intro bad_free_free_all) (auto simp: bl_ok_def bl_owned_def)
  moreover have "h' = free (Some a) (free_all (blocks x) h)" "blocks x' = []" "blocklist x' = None"
    using e Some by (auto simp: empty_blocklist_def)
  moreover have "bl_owned x = insert a (set (blocks x))"
    using Some by (auto simp: bl_owned_def)
  ultimately show ?thesis
    by (auto simp: free_def free_all_fields)
qed

lemma bl_ok_minus:
  "bl_ok x h \<Longrightarrow> live h' = live h - B \<Longrightarrow> bl_owned x \<inter> B = {} \<Longrightarrow> bl_ok x h'"
  by (auto simp: bl_ok_def)

lemma recycle_amqp_pool_ok:
  assumes ok: "pool_ok pool h" and r: "recycle_amqp_pool pool h = (pool', h')"
  shows "pool_ok pool' h' \<and> pages pool' = pages pool \<and> bl_owned (large_blocks pool') = {} \<and>
    next_page pool' = 0 \<and> alloc_block pool' = None \<and> pagesize pool' = pagesize pool \<and>
    live h' = live h - bl_owned (large_blocks pool) \<and> next_id h' = next_id h \<and>
    content h' = content h \<and> fails h' = fails h"
proof -
  obtain bl where e: "empty_blocklist (large_blocks pool) h = (bl, h')"
    and p: "pool' = pool\<lparr>large_blocks := bl, next_page := 0, alloc_block := None, alloc_used := 0\<rparr>"
    using r by (auto simp: recycle_amqp_pool_def split: prod.splits)
  have "bl_ok (large_blocks pool) h" using ok by (simp add: pool_ok_iff)
  note f = empty_blocklist_frees [OF this e]
  have pg: "bl_ok (pages pool) h'"
  proof (rule bl_ok_minus)
    show "bl_ok (pages pool) h" and "bl_owned (pages pool) \<inter> bl_owned (large_blocks pool) = {}"
      using ok by (simp_all add: pool_ok_iff)
    show "live h' = live h - bl_owned (large_blocks pool)" using f by simp
  qed
  have bl: "bl_ok bl h'" "bl_owned bl = {}"
    using f by (simp_all add: bl_ok_def bl_owned_def)
  have h: "heap_ok h'"
    using ok f by (simp add: pool_ok_iff heap_ok_def)
  have "alloc_block_ok pool' h'"
    using p by (simp add: alloc_block_ok_def)
  then have "pool_ok pool' h'"
    using ok pg bl h f by (simp add: p pool_ok_iff)
  with f p bl show ?thesis by simp
qed

lemma empty_amqp_pool_frees:
  assumes ok: "pool_ok pool h" and e: "empty_amqp_pool pool h = (pool', h')"
  shows "pool_ok pool' h' \<and> pool_owned pool' = {} \<and> live h' = live h - pool_owned pool"
proof -
  obtain pool1 h1 bl where r: "recycle_amqp_pool pool h = (pool1, h1)"
    and b: "empty_blocklist (pages pool1) h1 = (bl, h')" and p: "pool' = pool1\<lparr>pages := bl\<rparr>"
    using e by (auto simp: empty_amqp_pool_def split: prod.splits)
  note rec = recycle_amqp_pool_ok [OF ok r]
  then have ok1: "pool_ok pool1 h1" by simp
  then have "bl_ok (pages pool1) h1" by (simp only: pool_ok_iff)
  note f = empty_blocklist_frees [OF this b]
  have large: "blocks (large_blocks pool1) = []" "blocklist (large_blocks pool1) = None"
    using rec by (auto simp: bl_owned_def)
  have "heap_ok h'" and "pagesize pool1 > 0" and "alloc_used pool1 mod 8 = 0 \<and> alloc_used pool1 \<le> pagesize pool1"
    using ok1 f by (simp_all add: pool_ok_iff heap_ok_def)
  then have "pool_ok pool' h'"
    using f p large rec by (simp add: pool_ok_iff alloc_block_ok_def bl_ok_def bl_owned_def)
  moreover have "pool_owned pool' = {}"
    using f p large by (simp add: pool_owned_def bl_owned_def)
  moreover have "live h' = live h - pool_owned pool"
    using f rec by (auto simp: pool_owned_def)
  ultimately show ?thesis by simp
qed

section \<open>Byte strings\<close>

text \<open>\<open>amqp_bytes_equal\<close>: equal lengths and equal bytes (the test on the pointers is a shortcut).\<close>

definition amqp_bytes_equal :: "amqp_bytes_t \<Rightarrow> amqp_bytes_t \<Rightarrow> bool" where
  "amqp_bytes_equal r l \<longleftrightarrow> length r = length l \<and> (\<forall>i \<in> {..<length r}. r ! i = l ! i)"

lemma amqp_bytes_equal_iff [simp]: "amqp_bytes_equal r l \<longleftrightarrow> r = l"
  by (auto simp: amqp_bytes_equal_def intro: nth_equalityI)

text \<open>\<open>amqp_cstring_bytes\<close>: the bytes of a C string up to its terminator.\<close>

definition amqp_cstring_bytes :: "string \<Rightarrow> amqp_bytes_t" where
  "amqp_cstring_bytes cstr = map of_char (takeWhile (\<lambda>c. c \<noteq> CHR 0x00) cstr)"

end
