(* ===== verification/Amqp_Decoder.thy ===== *)
theory Amqp_Decoder
  imports Amqp_Codec Amqp_Mem
begin

text \<open>
  Decoding functions of the library take an encoded buffer, an offset and a pool to
  allocate from, and return a value or a status.  This theory gives their common shape:
  the state they thread (offset, pool, heap), their results, sequencing with early
  return, and three properties that carry over to compositions: \<open>reads\<close> (which value
  they read from which bytes), \<open>dec_sound\<close> (they stay inside the buffer) and
  \<open>dec_mem\<close> (they keep the pool well formed and leak nothing).  The locale
  \<open>field_codec\<close> is the contract of an encoder and decoder of one kind of field.
\<close>

record dec_state =
  doff :: nat
  dpool :: amqp_pool_t
  dheap :: heap

text \<open>
  \<open>Fails\<close> is a status the C function returns.  \<open>Undefined\<close> stands for a read past the
  memory of the buffer and \<open>OutOfFuel\<close> for the exhausted recursion bound of the table
  decoder; \<open>dec_sound\<close> excludes both.
\<close>

datatype 'a dres = Returns 'a | Fails amqp_status_enum | Undefined | OutOfFuel

type_synonym 'a decoder = "amqp_view \<Rightarrow> dec_state \<Rightarrow> 'a dres \<times> dec_state"

definition dec_return :: "'a \<Rightarrow> 'a decoder" where
  "dec_return x v s = (Returns x, s)"

definition dec_fail :: "amqp_status_enum \<Rightarrow> 'a decoder" where
  "dec_fail err v s = (Fails err, s)"

text \<open>\<open>if (!p) return err;\<close>\<close>

definition dec_check :: "(amqp_view \<Rightarrow> nat \<Rightarrow> 'a prim \<times> nat) \<Rightarrow> amqp_status_enum \<Rightarrow> 'a decoder" where
  "dec_check p err v s =
    (case p v (doff s) of
       (Got x, off) \<Rightarrow> (Returns x, s\<lparr>doff := off\<rparr>)
     | (Short, off) \<Rightarrow> (Fails err, s\<lparr>doff := off\<rparr>)
     | (Overrun, off) \<Rightarrow> (Undefined, s\<lparr>doff := off\<rparr>))"

definition dec_bind :: "'a decoder \<Rightarrow> ('a \<Rightarrow> 'b decoder) \<Rightarrow> 'b decoder" where
  "dec_bind d f v s =
    (case d v s of
       (Returns x, s') \<Rightarrow> f x v s'
     | (Fails err, s') \<Rightarrow> (Fails err, s')
     | (Undefined, s') \<Rightarrow> (Undefined, s')
     | (OutOfFuel, s') \<Rightarrow> (OutOfFuel, s'))"

text \<open>\<open>amqp_pool_alloc\<close> followed by the test for NULL.\<close>

definition dec_alloc :: "nat \<Rightarrow> addr decoder" where
  "dec_alloc n v s =
    (case amqp_pool_alloc (dpool s) n (dheap s) of (p, pool, h) \<Rightarrow>
      (case p of None \<Rightarrow> Fails AMQP_STATUS_NO_MEMORY | Some a \<Rightarrow> Returns a,
       s\<lparr>dpool := pool, dheap := h\<rparr>))"

section \<open>Reading a value\<close>

definition reads :: "'a decoder \<Rightarrow> byte list \<Rightarrow> 'a \<Rightarrow> bool" where
  "reads d w x \<longleftrightarrow>
    (\<forall>v s. at v (doff s) w \<longrightarrow> roomy (dheap s) \<longrightarrow>
      (\<exists>s'. d v s = (Returns x, s') \<and> doff s' = doff s + length w \<and> roomy (dheap s')))"

lemma readsI:
  assumes "\<And>v s. at v (doff s) w \<Longrightarrow> roomy (dheap s) \<Longrightarrow>
      \<exists>s'. d v s = (Returns x, s') \<and> doff s' = doff s + length w \<and> roomy (dheap s')"
  shows "reads d w x"
  using assms by (simp add: reads_def)

lemma readsE:
  assumes "reads d w x" and "at v (doff s) w" and "roomy (dheap s)"
  obtains s' where "d v s = (Returns x, s')" "doff s' = doff s + length w" "roomy (dheap s')"
  using assms by (auto simp: reads_def)

lemma reads_return: "x = y \<Longrightarrow> reads (dec_return x) [] y"
  by (auto intro!: readsI simp: dec_return_def)

lemma reads_bind:
  assumes d: "reads d w1 x" and f: "reads (f x) w2 y"
  shows "reads (dec_bind d f) (w1 @ w2) y"
proof (rule readsI)
  fix v and s :: dec_state
  assume "at v (doff s) (w1 @ w2)" and r: "roomy (dheap s)"
  then have a: "at v (doff s) w1" "at v (doff s + length w1) w2"
    by (simp_all add: at_append)
  obtain s1 where 1: "d v s = (Returns x, s1)" "doff s1 = doff s + length w1" "roomy (dheap s1)"
    using readsE [OF d a(1) r] by blast
  then obtain s2 where "f x v s1 = (Returns y, s2)" "doff s2 = doff s1 + length w2" "roomy (dheap s2)"
    using readsE [OF f, of v s1] a(2) by auto
  with 1 show "\<exists>s'. dec_bind d f v s = (Returns y, s') \<and>
      doff s' = doff s + length (w1 @ w2) \<and> roomy (dheap s')"
    by (simp add: dec_bind_def)
qed

lemma reads_alloc:
  assumes "n > 0" and "\<And>a. reads (f a) w x"
  shows "reads (dec_bind (dec_alloc n) f) w x"
proof (rule readsI)
  fix v and s :: dec_state
  assume a: "at v (doff s) w" and r: "roomy (dheap s)"
  obtain p pool h where al: "amqp_pool_alloc (dpool s) n (dheap s) = (p, pool, h)"
    by (metis prod_cases3)
  with pool_alloc_roomy [OF al r] assms(1) obtain q where q: "p = Some q" "roomy h" by auto
  let ?s = "s\<lparr>dpool := pool, dheap := h\<rparr>"
  have "at v (doff ?s) w" and "roomy (dheap ?s)" using a q by simp_all
  then obtain s' where "f q v ?s = (Returns x, s')" "doff s' = doff ?s + length w" "roomy (dheap s')"
    by (rule readsE [OF assms(2) [of q]])
  with al q show "\<exists>s'. dec_bind (dec_alloc n) f v s = (Returns x, s') \<and>
      doff s' = doff s + length w \<and> roomy (dheap s')"
    by (simp add: dec_bind_def dec_alloc_def)
qed

lemma reads_8 [codec_reads]: "reads (dec_check amqp_decode_8 err) (w8 x) x"
  by (rule readsI)
    (simp add: dec_check_def decode_8_at)

lemma reads_16 [codec_reads]: "reads (dec_check amqp_decode_16 err) (w16 x) x"
  by (rule readsI)
    (simp add: dec_check_def decode_16_at)

lemma reads_32 [codec_reads]: "reads (dec_check amqp_decode_32 err) (w32 x) x"
  by (rule readsI)
    (simp add: dec_check_def decode_32_at)

lemma reads_64 [codec_reads]: "reads (dec_check amqp_decode_64 err) (w64 x) x"
  by (rule readsI)
    (simp add: dec_check_def decode_64_at)

lemma reads_bytes [codec_reads]: "n = length bs \<Longrightarrow> reads (dec_check (amqp_decode_bytes n) err) bs bs"
  by (rule readsI)
    (auto simp: dec_check_def amqp_decode_bytes_def at_def honest_def)

section \<open>Staying inside the buffer\<close>

text \<open>
  \<open>dec_sound d\<close>: on an honest view the decoder never reads outside the buffer and never
  runs out of fuel, the offset only grows, and on success it is within the length.
\<close>

definition dec_sound :: "'a decoder \<Rightarrow> bool" where
  "dec_sound d \<longleftrightarrow>
    (\<forall>v s. honest v \<longrightarrow>
      fst (d v s) \<noteq> Undefined \<and> fst (d v s) \<noteq> OutOfFuel \<and> doff s \<le> doff (snd (d v s)) \<and>
      (\<forall>x. fst (d v s) = Returns x \<longrightarrow> doff s \<le> vlen v \<longrightarrow> doff (snd (d v s)) \<le> vlen v))"

lemma dec_soundI:
  assumes "\<And>v (s :: dec_state) r s'. honest v \<Longrightarrow> d v s = (r, s') \<Longrightarrow>
      r \<noteq> Undefined \<and> r \<noteq> OutOfFuel \<and> doff s \<le> doff s' \<and>
      (\<forall>x. r = Returns x \<longrightarrow> doff s \<le> vlen v \<longrightarrow> doff s' \<le> vlen v)"
  shows "dec_sound d"
  unfolding dec_sound_def using assms by (metis prod.collapse)

lemma dec_soundD:
  assumes "dec_sound d" and "honest v" and "d v s = (r, s')"
  shows "r \<noteq> Undefined" and "r \<noteq> OutOfFuel" and "doff s \<le> doff s'"
    and "r = Returns x \<Longrightarrow> doff s \<le> vlen v \<Longrightarrow> doff s' \<le> vlen v"
  using assms unfolding dec_sound_def by (metis fst_conv snd_conv)+

lemma dec_sound_return [dec_sound_intros]: "dec_sound (dec_return x)"
  by (rule dec_soundI) (auto simp: dec_return_def)

lemma dec_sound_fail [dec_sound_intros]: "dec_sound (dec_fail err)"
  by (rule dec_soundI) (auto simp: dec_fail_def)

lemma dec_sound_bind [dec_sound_intros]:
  assumes d: "dec_sound d" and f: "\<And>x. dec_sound (f x)"
  shows "dec_sound (dec_bind d f)"
proof (rule dec_soundI)
  fix v and s :: dec_state and r s'
  assume v: "honest v" and b: "dec_bind d f v s = (r, s')"
  obtain r1 s1 where 1: "d v s = (r1, s1)" by fastforce
  note d1 = dec_soundD [OF d v 1]
  show "r \<noteq> Undefined \<and> r \<noteq> OutOfFuel \<and> doff s \<le> doff s' \<and>
      (\<forall>x. r = Returns x \<longrightarrow> doff s \<le> vlen v \<longrightarrow> doff s' \<le> vlen v)"
  proof (cases r1)
    case (Returns x)
    with b 1 have "f x v s1 = (r, s')" by (simp add: dec_bind_def)
    note f1 = dec_soundD [OF f v this]
    from d1 f1 Returns show ?thesis by auto
  qed (use d1 b 1 in \<open>auto simp: dec_bind_def\<close>)
qed

lemma dec_sound_base:
  "dec_sound (dec_check (amqp_decode_base n d) err)"
  by (rule dec_soundI)
    (auto simp: dec_check_def amqp_decode_base_def honest_def split: if_splits)

lemma dec_sound_prims [dec_sound_intros]:
  "dec_sound (dec_check amqp_decode_8 err)" "dec_sound (dec_check amqp_decode_16 err)"
  "dec_sound (dec_check amqp_decode_32 err)" "dec_sound (dec_check amqp_decode_64 err)"
  "dec_sound (dec_check (amqp_decode_bytes n) err)"
  by (simp_all add: amqp_decode_8_def amqp_decode_16_def amqp_decode_32_def amqp_decode_64_def
      amqp_decode_bytes_base dec_sound_base)

lemma dec_sound_alloc [dec_sound_intros]: "dec_sound (dec_alloc n)"
  by (rule dec_soundI) (auto simp: dec_alloc_def split: prod.splits option.splits)

section \<open>Keeping the pool\<close>

text \<open>
  \<open>dec_mem d\<close>: the pool stays well formed, no block outside the pool is freed, and when
  no allocation is refused every block obtained belongs to the pool at the end
  (a decoder that runs into undefined behaviour is not at its end).
\<close>

definition foreign :: "dec_state \<Rightarrow> nat set" where
  "foreign s = live (dheap s) - pool_owned (dpool s)"

text \<open>A private block is not the pool's current page either (which the pool need not own).\<close>

definition private_blocks :: "dec_state \<Rightarrow> nat set" where
  "private_blocks s = foreign s - set_option (alloc_block (dpool s))"

definition contents_kept :: "nat set \<Rightarrow> dec_state \<Rightarrow> dec_state \<Rightarrow> bool" where
  "contents_kept B s s' \<longleftrightarrow> (\<forall>b \<in> private_blocks s - B. content (dheap s') b = content (dheap s) b)"

lemma contents_kept_same: "content (dheap s') = content (dheap s) \<Longrightarrow> contents_kept B s s'"
  by (simp add: contents_kept_def)

lemma contents_kept_mono: "contents_kept {} s s' \<Longrightarrow> contents_kept B s s'"
  by (simp add: contents_kept_def)

lemma contents_kept_trans:
  "contents_kept {} s s1 \<Longrightarrow> private_blocks s \<subseteq> private_blocks s1 \<Longrightarrow> contents_kept B s1 s2 \<Longrightarrow> contents_kept B s s2"
  unfolding contents_kept_def by (metis Diff_empty Diff_iff subsetD)

text \<open>\<open>mem_step B s e s'\<close>: a step that frees the blocks \<open>B\<close>; \<open>e\<close> says that it came to an end.\<close>

definition mem_step :: "nat set \<Rightarrow> dec_state \<Rightarrow> bool \<Rightarrow> dec_state \<Rightarrow> bool" where
  "mem_step B s ended s' \<longleftrightarrow>
    pool_ok (dpool s') (dheap s') \<and> foreign s - B \<subseteq> foreign s' \<and>
    private_blocks s - B \<subseteq> private_blocks s' \<and> fails (dheap s') = fails (dheap s) \<and>
    contents_kept B s s' \<and> (roomy (dheap s) \<longrightarrow> ended \<longrightarrow> foreign s' = foreign s - B)"

definition defined_result :: "'a dres \<Rightarrow> bool" where
  "defined_result r \<longleftrightarrow> r \<noteq> Undefined \<and> r \<noteq> OutOfFuel"

lemma defined_result_simps [simp]:
  "defined_result (Returns x)" "defined_result (Fails err)"
  "\<not> defined_result Undefined" "\<not> defined_result OutOfFuel"
  by (simp_all add: defined_result_def)

definition dec_mem :: "'a decoder \<Rightarrow> bool" where
  "dec_mem d \<longleftrightarrow>
    (\<forall>v s r s'. pool_ok (dpool s) (dheap s) \<longrightarrow> d v s = (r, s') \<longrightarrow> mem_step {} s (defined_result r) s')"

lemma dec_memI:
  assumes "\<And>v (s :: dec_state) r s'. pool_ok (dpool s) (dheap s) \<Longrightarrow> d v s = (r, s') \<Longrightarrow>
      mem_step {} s (defined_result r) s'"
  shows "dec_mem d"
  using assms by (simp add: dec_mem_def)

lemma dec_memD:
  "dec_mem d \<Longrightarrow> pool_ok (dpool s) (dheap s) \<Longrightarrow> d v s = (r, s') \<Longrightarrow> mem_step {} s (defined_result r) s'"
  by (simp add: dec_mem_def)

lemma mem_step_ok: "mem_step B s e s' \<Longrightarrow> pool_ok (dpool s') (dheap s')"
  by (simp add: mem_step_def)

lemma mem_step_private: "mem_step {} s e s' \<Longrightarrow> b \<in> private_blocks s \<Longrightarrow> b \<in> private_blocks s'"
  by (auto simp: mem_step_def)

lemma mem_step_refl: "pool_ok (dpool s) (dheap s) \<Longrightarrow> mem_step {} s e (s\<lparr>doff := n\<rparr>)"
  by (simp add: mem_step_def foreign_def private_blocks_def contents_kept_same)

lemma mem_step_trans:
  assumes 1: "mem_step {} s True s1" and 2: "mem_step B s1 e s2"
  shows "mem_step B s e s2"
proof -
  have "contents_kept B s s2"
    using 1 2 unfolding mem_step_def by (intro contents_kept_trans [of s s1 B s2]) auto
  with 1 2 show ?thesis unfolding mem_step_def by (auto simp: roomy_def)
qed

lemma mem_step_undefined: "mem_step {} s e s1 \<Longrightarrow> mem_step B s False s1"
  unfolding mem_step_def by (auto intro: contents_kept_mono)

lemma mem_step_weaken: "mem_step B s True s' \<Longrightarrow> mem_step B s e s'"
  unfolding mem_step_def by auto

lemma dec_mem_bind [dec_mem_intros]:
  assumes d: "dec_mem d" and f: "\<And>x. dec_mem (f x)"
  shows "dec_mem (dec_bind d f)"
proof (rule dec_memI)
  fix v and s :: dec_state and r s'
  assume p: "pool_ok (dpool s) (dheap s)" and b: "dec_bind d f v s = (r, s')"
  obtain r1 s1 where 1: "d v s = (r1, s1)" by fastforce
  note d1 = dec_memD [OF d p 1]
  show "mem_step {} s (defined_result r) s'"
  proof (cases r1)
    case (Returns x)
    with b 1 have "f x v s1 = (r, s')" by (simp add: dec_bind_def)
    from mem_step_trans [OF _ dec_memD [OF f mem_step_ok [OF d1] this]] d1 Returns
    show ?thesis by simp
  qed (use d1 b 1 in \<open>auto simp: dec_bind_def\<close>)
qed

lemma dec_mem_return [dec_mem_intros]: "dec_mem (dec_return x)"
  by (rule dec_memI) (auto simp: dec_return_def mem_step_def contents_kept_same)

lemma dec_mem_fail [dec_mem_intros]: "dec_mem (dec_fail err)"
  by (rule dec_memI) (auto simp: dec_fail_def mem_step_def contents_kept_same)

lemma dec_mem_check [dec_mem_intros]: "dec_mem (dec_check p err)"
  by (rule dec_memI) (auto simp: dec_check_def mem_step_refl split: prod.splits prim.splits)

lemma pool_alloc_foreign:
  assumes ok: "pool_ok pool h" and alloc: "amqp_pool_alloc pool n h = (r, pool', h')"
  shows "live h - pool_owned pool \<subseteq> live h' - pool_owned pool' \<and>
    live h - pool_owned pool - set_option (alloc_block pool) \<subseteq>
      live h' - pool_owned pool' - set_option (alloc_block pool') \<and>
    (roomy h \<longrightarrow> live h' - pool_owned pool' = live h - pool_owned pool)"
proof -
  have h: "heap_ok h" and bp: "bl_ok (pages pool) h" and bl: "bl_ok (large_blocks pool) h"
    and sep: "bl_owned (pages pool) \<inter> bl_owned (large_blocks pool) = {}"
    using ok by (simp_all add: pool_ok_iff)
  have own: "bl_owned (pages pool) \<subseteq> live h" "bl_owned (large_blocks pool) \<subseteq> live h"
    using bp bl by (simp_all add: bl_ok_def)
  have f0: "next_id h \<notin> live h" using heap_ok_fresh [OF h] by simp
  from alloc show ?thesis
  proof (cases rule: amqp_pool_alloc_cases)
    case no_memory
    then show ?thesis by (auto simp: pool_owned_def)
  next
    case (large_unrecorded h1)
    with f0 show ?thesis by (auto simp: free_def dest!: calloc_Some)
  next
    case (large h1 bl')
    have "bl_owned (large_blocks pool) \<inter> bl_owned (pages pool) = {}" using sep by blast
    note cr = calloc_record [OF h bl bp this large(5,6)]
    from large(4) cr(13) show ?thesis by (auto simp: pool_owned_def)
  next
    case (page_unrecorded h1)
    with f0 own show ?thesis by (auto simp: pool_owned_def dest!: calloc_Some)
  next
    case (new_page h1 bl')
    note cr = calloc_record [OF h bp bl sep new_page(6,7)]
    from new_page(5) cr(13) f0 show ?thesis by (auto simp: pool_owned_def)
  qed (auto simp: pool_owned_def bl_owned_def)
qed

lemma pool_alloc_live_content:
  assumes "pool_ok pool h" and "amqp_pool_alloc pool n h = (r, pool', h')" and "b \<in> live h"
  shows "content h' b = content h b"
  using assms by (intro pool_alloc_content) (auto simp: pool_ok_iff heap_ok_def)

lemma dec_mem_alloc [dec_mem_intros]: "dec_mem (dec_alloc n)"
proof (rule dec_memI)
  fix v and s :: dec_state and r s'
  assume p: "pool_ok (dpool s) (dheap s)" and d: "dec_alloc n v s = (r, s')"
  obtain q pool h where a: "amqp_pool_alloc (dpool s) n (dheap s) = (q, pool, h)"
    by (metis prod_cases3)
  with d have "s' = s\<lparr>dpool := pool, dheap := h\<rparr>" by (simp add: dec_alloc_def)
  with pool_alloc_invariant [OF p a] pool_alloc_foreign [OF p a] fails_pool_alloc [OF a]
    pool_alloc_live_content [OF p a]
  show "mem_step {} s (defined_result r) s'"
    by (simp add: mem_step_def foreign_def private_blocks_def contents_kept_def)
qed

section \<open>The contract of a field\<close>

text \<open>
  A kind of field: which values it can carry, their encoding, their decoding, and their
  bytes on the wire.
\<close>

locale field_codec =
  fixes valid :: "'a \<Rightarrow> bool"
    and put :: "'a \<Rightarrow> encoder"
    and get :: "'a decoder"
    and wire :: "'a \<Rightarrow> byte list"
  assumes put_emits: "valid x \<Longrightarrow> emits (put x) (wire x)"
    and get_reads: "valid x \<Longrightarrow> reads get (wire x) x"
begin

text \<open>What was written into a buffer is read back from it.\<close>

lemma put_get:
  assumes "valid x" and "eoff s \<le> length (ebuf s)" and "put x s = (AMQP_STATUS_OK, s')"
    and "roomy (dheap t)" and "doff t = eoff s" and "vmem v = ebuf s'" and "vlen v \<ge> eoff s'" and "honest v"
  shows "\<exists>t'. get v t = (Returns x, t') \<and> doff t' = eoff s'"
proof -
  have fit: "eoff s + length (wire x) \<le> length (ebuf s)"
    using emits_overflow [OF put_emits [OF assms(1)] assms(2)] assms(3) by force
  have s': "s' = s\<lparr>ebuf := write_at (ebuf s) (eoff s) (wire x), eoff := eoff s + length (wire x)\<rparr>"
    using emits_fits [OF put_emits [OF assms(1)] fit] assms(3) by simp
  have "at v (doff t) (wire x)"
    using assms(5-8) fit by (simp add: at_def s' chunk_write_at_same)
  from readsE [OF get_reads [OF assms(1)] this assms(4)] show ?thesis
    using assms(5) s' by fastforce
qed

end

interpretation u8_field: field_codec "\<lambda>_. True"
  "\<lambda>x. enc_check (amqp_encode_8 x) AMQP_STATUS_BAD_AMQP_DATA"
  "dec_check amqp_decode_8 AMQP_STATUS_BAD_AMQP_DATA" "\<lambda>x. w8 x"
  by unfold_locales (simp_all add: codec_emits codec_reads)

interpretation u16_field: field_codec "\<lambda>_. True"
  "\<lambda>x. enc_check (amqp_encode_16 x) AMQP_STATUS_BAD_AMQP_DATA"
  "dec_check amqp_decode_16 AMQP_STATUS_BAD_AMQP_DATA" "\<lambda>x. w16 x"
  by unfold_locales (simp_all add: codec_emits codec_reads)

interpretation u32_field: field_codec "\<lambda>_. True"
  "\<lambda>x. enc_check (amqp_encode_32 x) AMQP_STATUS_BAD_AMQP_DATA"
  "dec_check amqp_decode_32 AMQP_STATUS_BAD_AMQP_DATA" "\<lambda>x. w32 x"
  by unfold_locales (simp_all add: codec_emits codec_reads)

interpretation u64_field: field_codec "\<lambda>_. True"
  "\<lambda>x. enc_check (amqp_encode_64 x) AMQP_STATUS_BAD_AMQP_DATA"
  "dec_check amqp_decode_64 AMQP_STATUS_BAD_AMQP_DATA" "\<lambda>x. w64 x"
  by unfold_locales (simp_all add: codec_emits codec_reads)

end
