(* ===== verification/Amqp_Table.thy ===== *)
theory Amqp_Table
  imports Amqp_Decoder
begin

text \<open>
  Field values and field tables (\<open>amqp_table.c\<close>): their data types, decoding, encoding,
  lookup, comparison, cloning and construction.  Decoding is mutually recursive with
  loops bounded by offsets, so its functions take fuel; \<open>amqp_decode_table\<close> supplies an
  amount that never runs out (\<open>dec_sound_table\<close>).
\<close>

section \<open>Data\<close>

datatype amqp_field_value_kind_t =
    AMQP_FIELD_KIND_BOOLEAN
  | AMQP_FIELD_KIND_I8
  | AMQP_FIELD_KIND_U8
  | AMQP_FIELD_KIND_I16
  | AMQP_FIELD_KIND_U16
  | AMQP_FIELD_KIND_I32
  | AMQP_FIELD_KIND_U32
  | AMQP_FIELD_KIND_I64
  | AMQP_FIELD_KIND_U64
  | AMQP_FIELD_KIND_F32
  | AMQP_FIELD_KIND_F64
  | AMQP_FIELD_KIND_DECIMAL
  | AMQP_FIELD_KIND_UTF8
  | AMQP_FIELD_KIND_ARRAY
  | AMQP_FIELD_KIND_TIMESTAMP
  | AMQP_FIELD_KIND_TABLE
  | AMQP_FIELD_KIND_VOID
  | AMQP_FIELD_KIND_BYTES

fun kind_char :: "amqp_field_value_kind_t \<Rightarrow> char" where
  "kind_char AMQP_FIELD_KIND_BOOLEAN = CHR ''t''"
| "kind_char AMQP_FIELD_KIND_I8 = CHR ''b''"
| "kind_char AMQP_FIELD_KIND_U8 = CHR ''B''"
| "kind_char AMQP_FIELD_KIND_I16 = CHR ''s''"
| "kind_char AMQP_FIELD_KIND_U16 = CHR ''u''"
| "kind_char AMQP_FIELD_KIND_I32 = CHR ''I''"
| "kind_char AMQP_FIELD_KIND_U32 = CHR ''i''"
| "kind_char AMQP_FIELD_KIND_I64 = CHR ''l''"
| "kind_char AMQP_FIELD_KIND_U64 = CHR ''L''"
| "kind_char AMQP_FIELD_KIND_F32 = CHR ''f''"
| "kind_char AMQP_FIELD_KIND_F64 = CHR ''d''"
| "kind_char AMQP_FIELD_KIND_DECIMAL = CHR ''D''"
| "kind_char AMQP_FIELD_KIND_UTF8 = CHR ''S''"
| "kind_char AMQP_FIELD_KIND_ARRAY = CHR ''A''"
| "kind_char AMQP_FIELD_KIND_TIMESTAMP = CHR ''T''"
| "kind_char AMQP_FIELD_KIND_TABLE = CHR ''F''"
| "kind_char AMQP_FIELD_KIND_VOID = CHR ''V''"
| "kind_char AMQP_FIELD_KIND_BYTES = CHR ''x''"

definition kind_code :: "amqp_field_value_kind_t \<Rightarrow> u8" where
  "kind_code k = of_char (kind_char k)"

definition all_kinds :: "amqp_field_value_kind_t list" where
  "all_kinds =
    [AMQP_FIELD_KIND_BOOLEAN, AMQP_FIELD_KIND_I8, AMQP_FIELD_KIND_U8, AMQP_FIELD_KIND_I16,
     AMQP_FIELD_KIND_U16, AMQP_FIELD_KIND_I32, AMQP_FIELD_KIND_U32, AMQP_FIELD_KIND_I64,
     AMQP_FIELD_KIND_U64, AMQP_FIELD_KIND_F32, AMQP_FIELD_KIND_F64, AMQP_FIELD_KIND_DECIMAL,
     AMQP_FIELD_KIND_UTF8, AMQP_FIELD_KIND_ARRAY, AMQP_FIELD_KIND_TIMESTAMP,
     AMQP_FIELD_KIND_TABLE, AMQP_FIELD_KIND_VOID, AMQP_FIELD_KIND_BYTES]"

text \<open>The \<open>switch\<close> on a kind byte: which case it selects, \<open>None\<close> for \<open>default\<close>.\<close>

definition kind_of_code :: "u8 \<Rightarrow> amqp_field_value_kind_t option" where
  "kind_of_code c = find (\<lambda>k. kind_code k = c) all_kinds"

lemma kind_of_kind_code [simp]: "kind_of_code (kind_code k) = Some k"
  by (cases k) (simp_all add: kind_of_code_def all_kinds_def kind_code_def)

text \<open>
  \<open>amqp_field_value_t\<close>: one constructor per kind, with the union member the kind selects.
  Signed integers and floating-point numbers are kept as the bit patterns the union
  holds.  \<open>Fv_other\<close> is a value whose kind byte is none of the enumeration.  An array or
  table without entries has a NULL pointer, as the decoder and the empty constants of
  the library make it.
\<close>

datatype amqp_field_value_t =
    Fv_boolean amqp_boolean_t
  | Fv_i8 u8
  | Fv_u8 u8
  | Fv_i16 u16
  | Fv_u16 u16
  | Fv_i32 u32
  | Fv_u32 u32
  | Fv_i64 u64
  | Fv_u64 u64
  | Fv_f32 u32
  | Fv_f64 u64
  | Fv_decimal u8 u32
  | Fv_utf8 amqp_bytes_t
  | Fv_array "amqp_field_value_t list"
  | Fv_timestamp u64
  | Fv_table "amqp_table_entry_t list"
  | Fv_void
  | Fv_bytes amqp_bytes_t
  | Fv_other u8
and amqp_table_entry_t =
    Entry (key: amqp_bytes_t) (entry_value: amqp_field_value_t)

type_synonym amqp_array_t = "amqp_field_value_t list"
type_synonym amqp_table_t = "amqp_table_entry_t list"

fun field_kind :: "amqp_field_value_t \<Rightarrow> u8" where
  "field_kind (Fv_boolean _) = kind_code AMQP_FIELD_KIND_BOOLEAN"
| "field_kind (Fv_i8 _) = kind_code AMQP_FIELD_KIND_I8"
| "field_kind (Fv_u8 _) = kind_code AMQP_FIELD_KIND_U8"
| "field_kind (Fv_i16 _) = kind_code AMQP_FIELD_KIND_I16"
| "field_kind (Fv_u16 _) = kind_code AMQP_FIELD_KIND_U16"
| "field_kind (Fv_i32 _) = kind_code AMQP_FIELD_KIND_I32"
| "field_kind (Fv_u32 _) = kind_code AMQP_FIELD_KIND_U32"
| "field_kind (Fv_i64 _) = kind_code AMQP_FIELD_KIND_I64"
| "field_kind (Fv_u64 _) = kind_code AMQP_FIELD_KIND_U64"
| "field_kind (Fv_f32 _) = kind_code AMQP_FIELD_KIND_F32"
| "field_kind (Fv_f64 _) = kind_code AMQP_FIELD_KIND_F64"
| "field_kind (Fv_decimal _ _) = kind_code AMQP_FIELD_KIND_DECIMAL"
| "field_kind (Fv_utf8 _) = kind_code AMQP_FIELD_KIND_UTF8"
| "field_kind (Fv_array _) = kind_code AMQP_FIELD_KIND_ARRAY"
| "field_kind (Fv_timestamp _) = kind_code AMQP_FIELD_KIND_TIMESTAMP"
| "field_kind (Fv_table _) = kind_code AMQP_FIELD_KIND_TABLE"
| "field_kind Fv_void = kind_code AMQP_FIELD_KIND_VOID"
| "field_kind (Fv_bytes _) = kind_code AMQP_FIELD_KIND_BYTES"
| "field_kind (Fv_other k) = k"

section \<open>Decoding\<close>

definition INITIAL_ARRAY_SIZE :: nat where "INITIAL_ARRAY_SIZE = 16"
definition INITIAL_TABLE_SIZE :: nat where "INITIAL_TABLE_SIZE = 16"

text \<open>Sizes of the C structures on the configured host (64-bit pointers).\<close>

definition SIZEOF_FIELD_VALUE :: nat where "SIZEOF_FIELD_VALUE = 24"
definition SIZEOF_TABLE_ENTRY :: nat where "SIZEOF_TABLE_ENTRY = 40"

text \<open>
  The temporary array of the loops: \<open>temp_grow\<close> doubles it by \<open>realloc\<close> when it is full
  (\<open>None\<close>: refused), \<open>dec_out\<close> is the label \<open>out\<close>, which frees it.
\<close>

definition temp_grow ::
  "nat \<Rightarrow> nat \<Rightarrow> nat \<Rightarrow> nat \<Rightarrow> dec_state \<Rightarrow> (nat \<times> nat) option \<times> dec_state" where
  "temp_grow elem num_entries allocated_entries entries s =
    (if num_entries \<ge> allocated_entries
     then (case realloc (Some entries) (allocated_entries * 2 * elem) (dheap s) of
             (None, h) \<Rightarrow> (None, s\<lparr>dheap := h\<rparr>)
           | (Some newentries, h) \<Rightarrow> (Some (newentries, allocated_entries * 2), s\<lparr>dheap := h\<rparr>))
     else (Some (entries, allocated_entries), s))"

definition dec_out :: "nat \<Rightarrow> 'a dres \<times> dec_state \<Rightarrow> 'a dres \<times> dec_state" where
  "dec_out entries rs = (case rs of (r, s) \<Rightarrow> (r, s\<lparr>dheap := free (Some entries) (dheap s)\<rparr>))"

text \<open>
  \<open>sized_block sz elem n loop\<close>: the common start of the array and table decoders after
  the size field; \<open>store_entries\<close>: their end, which copies the entries into the pool.
\<close>

definition sized_block ::
  "u32 \<Rightarrow> nat \<Rightarrow> nat \<Rightarrow> (nat \<Rightarrow> nat \<Rightarrow> 'a decoder) \<Rightarrow> 'a decoder" where
  "sized_block sz elem allocated_entries loop v s =
    (if unat sz + doff s > vlen v then (Fails AMQP_STATUS_BAD_AMQP_DATA, s)
     else case malloc (allocated_entries * elem) (dheap s) of
       (None, h) \<Rightarrow> (Fails AMQP_STATUS_NO_MEMORY, s\<lparr>dheap := h\<rparr>)
     | (Some entries, h) \<Rightarrow> loop entries (doff s + unat sz) v (s\<lparr>dheap := h\<rparr>))"

definition store_entries :: "nat \<Rightarrow> 'a list \<Rightarrow> dec_state \<Rightarrow> 'a list dres \<times> dec_state" where
  "store_entries elem entries s =
    (case amqp_pool_alloc (dpool s) (length entries * elem) (dheap s) of (p, pool, h) \<Rightarrow>
      (if p = None \<and> length entries \<noteq> 0 then Fails AMQP_STATUS_NO_MEMORY else Returns entries,
       s\<lparr>dpool := pool, dheap := h\<rparr>))"

abbreviation "BAD \<equiv> AMQP_STATUS_BAD_AMQP_DATA"

definition dec_fuel :: "'a decoder" where
  "dec_fuel v s = (OutOfFuel, s)"

text \<open>\<open>TRIVIAL_FIELD_DECODER\<close> and \<open>SIMPLE_FIELD_DECODER\<close>\<close>

definition simple_field :: "(amqp_view \<Rightarrow> nat \<Rightarrow> 'a prim \<times> nat) \<Rightarrow> ('a \<Rightarrow> amqp_field_value_t) \<Rightarrow>
    amqp_field_value_t decoder" where
  "simple_field p how = dec_bind (dec_check p BAD) (\<lambda>val. dec_return (how val))"

definition bytes_field :: "(amqp_bytes_t \<Rightarrow> amqp_field_value_t) \<Rightarrow> amqp_field_value_t decoder" where
  "bytes_field how =
    dec_bind (dec_check amqp_decode_32 BAD) (\<lambda>len.
    dec_bind (dec_check (amqp_decode_bytes (unat len)) BAD) (\<lambda>bs.
    dec_return (how bs)))"

fun decode_field_value :: "nat \<Rightarrow> amqp_field_value_t decoder"
and decode_array :: "nat \<Rightarrow> amqp_array_t decoder"
and decode_array_loop :: "nat \<Rightarrow> nat \<Rightarrow> amqp_array_t \<Rightarrow> nat \<Rightarrow> nat \<Rightarrow> amqp_array_t decoder"
and decode_table :: "nat \<Rightarrow> amqp_table_t decoder"
and decode_table_loop :: "nat \<Rightarrow> nat \<Rightarrow> amqp_table_t \<Rightarrow> nat \<Rightarrow> nat \<Rightarrow> amqp_table_t decoder" where
  "decode_field_value 0 = dec_fuel"
| "decode_field_value (Suc n) =
    dec_bind (dec_check amqp_decode_8 BAD) (\<lambda>kind.
      case kind_of_code kind of
        Some AMQP_FIELD_KIND_BOOLEAN \<Rightarrow> simple_field amqp_decode_8 (\<lambda>val. Fv_boolean (if val \<noteq> 0 then 1 else 0))
      | Some AMQP_FIELD_KIND_I8 \<Rightarrow> simple_field amqp_decode_8 Fv_i8
      | Some AMQP_FIELD_KIND_U8 \<Rightarrow> simple_field amqp_decode_8 Fv_u8
      | Some AMQP_FIELD_KIND_I16 \<Rightarrow> simple_field amqp_decode_16 Fv_i16
      | Some AMQP_FIELD_KIND_U16 \<Rightarrow> simple_field amqp_decode_16 Fv_u16
      | Some AMQP_FIELD_KIND_I32 \<Rightarrow> simple_field amqp_decode_32 Fv_i32
      | Some AMQP_FIELD_KIND_U32 \<Rightarrow> simple_field amqp_decode_32 Fv_u32
      | Some AMQP_FIELD_KIND_I64 \<Rightarrow> simple_field amqp_decode_64 Fv_i64
      | Some AMQP_FIELD_KIND_U64 \<Rightarrow> simple_field amqp_decode_64 Fv_u64
      | Some AMQP_FIELD_KIND_F32 \<Rightarrow> simple_field amqp_decode_32 Fv_f32
      | Some AMQP_FIELD_KIND_F64 \<Rightarrow> simple_field amqp_decode_64 Fv_f64
      | Some AMQP_FIELD_KIND_DECIMAL \<Rightarrow>
          dec_bind (dec_check amqp_decode_8 BAD) (\<lambda>decimals. simple_field amqp_decode_32 (Fv_decimal decimals))
      | Some AMQP_FIELD_KIND_UTF8 \<Rightarrow> bytes_field Fv_utf8
      | Some AMQP_FIELD_KIND_BYTES \<Rightarrow> bytes_field Fv_bytes
      | Some AMQP_FIELD_KIND_ARRAY \<Rightarrow> dec_bind (decode_array n) (\<lambda>a. dec_return (Fv_array a))
      | Some AMQP_FIELD_KIND_TIMESTAMP \<Rightarrow> simple_field amqp_decode_64 Fv_timestamp
      | Some AMQP_FIELD_KIND_TABLE \<Rightarrow> dec_bind (decode_table n) (\<lambda>t. dec_return (Fv_table t))
      | Some AMQP_FIELD_KIND_VOID \<Rightarrow> dec_return Fv_void
      | None \<Rightarrow> dec_fail BAD)"
| "decode_array 0 = dec_fuel"
| "decode_array (Suc n) =
    dec_bind (dec_check amqp_decode_32 BAD) (\<lambda>arraysize.
      sized_block arraysize SIZEOF_FIELD_VALUE INITIAL_ARRAY_SIZE
        (decode_array_loop n INITIAL_ARRAY_SIZE []))"
| "decode_array_loop 0 allocated_entries entries block limit = dec_fuel"
| "decode_array_loop (Suc n) allocated_entries entries block limit = (\<lambda>v s.
    if doff s < limit
    then (case temp_grow SIZEOF_FIELD_VALUE (length entries) allocated_entries block s of
            (None, s1) \<Rightarrow> dec_out block (Fails AMQP_STATUS_NO_MEMORY, s1)
          | (Some (block', allocated'), s1) \<Rightarrow>
              (case decode_field_value n v s1 of
                 (Returns x, s2) \<Rightarrow> decode_array_loop n allocated' (entries @ [x]) block' limit v s2
               | (Fails err, s2) \<Rightarrow> dec_out block' (Fails err, s2)
               | (Undefined, s2) \<Rightarrow> (Undefined, s2)
               | (OutOfFuel, s2) \<Rightarrow> (OutOfFuel, s2)))
    else dec_out block (store_entries SIZEOF_FIELD_VALUE entries s))"
| "decode_table 0 = dec_fuel"
| "decode_table (Suc n) =
    dec_bind (dec_check amqp_decode_32 BAD) (\<lambda>tablesize.
      sized_block tablesize SIZEOF_TABLE_ENTRY INITIAL_TABLE_SIZE
        (decode_table_loop n INITIAL_TABLE_SIZE []))"
| "decode_table_loop 0 allocated_entries entries block limit = dec_fuel"
| "decode_table_loop (Suc n) allocated_entries entries block limit = (\<lambda>v s.
    if doff s < limit
    then (case dec_check amqp_decode_8 BAD v s of
            (Returns keylen, s0) \<Rightarrow>
              (case temp_grow SIZEOF_TABLE_ENTRY (length entries) allocated_entries block s0 of
                 (None, s1) \<Rightarrow> dec_out block (Fails AMQP_STATUS_NO_MEMORY, s1)
               | (Some (block', allocated'), s1) \<Rightarrow>
                   (case dec_bind (dec_check (amqp_decode_bytes (unat keylen)) BAD) (\<lambda>k.
                         dec_bind (decode_field_value n) (\<lambda>x. dec_return (Entry k x))) v s1 of
                      (Returns e, s2) \<Rightarrow> decode_table_loop n allocated' (entries @ [e]) block' limit v s2
                    | (Fails err, s2) \<Rightarrow> dec_out block' (Fails err, s2)
                    | (Undefined, s2) \<Rightarrow> (Undefined, s2)
                    | (OutOfFuel, s2) \<Rightarrow> (OutOfFuel, s2)))
          | (Fails err, s0) \<Rightarrow> dec_out block (Fails err, s0)
          | (Undefined, s0) \<Rightarrow> (Undefined, s0)
          | (OutOfFuel, s0) \<Rightarrow> (OutOfFuel, s0))
    else dec_out block (store_entries SIZEOF_TABLE_ENTRY entries s))"

text \<open>
  Every call of the recursion that goes deeper or further has advanced the offset, so
  twice the size of the memory is enough fuel.
\<close>

definition amqp_decode_table :: "amqp_table_t decoder" where
  "amqp_decode_table v s = decode_table (2 * length (vmem v) + 2) v s"

section \<open>Encoding\<close>

text \<open>
  \<open>enc_sized body\<close> is the shape of \<open>amqp_encode_array\<close> and \<open>amqp_encode_table\<close>: room
  for the size is skipped, the body is encoded, the size is filled in.
\<close>

definition enc_sized :: "encoder \<Rightarrow> encoder" where
  "enc_sized body s =
    (let start = eoff s in
     case body (s\<lparr>eoff := start + 4\<rparr>) of (r, s2) \<Rightarrow>
       if r \<noteq> AMQP_STATUS_OK then (r, s2)
       else case amqp_encode_32 (of_nat (eoff s2 - start - 4)) (s2\<lparr>eoff := start\<rparr>) of (ok, s3) \<Rightarrow>
         (if ok then AMQP_STATUS_OK else AMQP_STATUS_TABLE_TOO_BIG, s3\<lparr>eoff := eoff s2\<rparr>))"

abbreviation "TOO_BIG \<equiv> AMQP_STATUS_TABLE_TOO_BIG"

definition put_bytes_field :: "amqp_bytes_t \<Rightarrow> encoder" where
  "put_bytes_field bs =
    enc_seqs [enc_check (amqp_encode_32 (of_nat (length bs))) TOO_BIG,
              enc_check (amqp_encode_bytes bs) TOO_BIG]"

fun amqp_encode_field_value :: "amqp_field_value_t \<Rightarrow> encoder"
and encode_entries :: "amqp_field_value_t list \<Rightarrow> encoder list"
and encode_table_entries :: "amqp_table_entry_t list \<Rightarrow> encoder list" where
  "amqp_encode_field_value x =
    enc_seqs
     [enc_check (amqp_encode_8 (field_kind x)) BAD,
      case x of
        Fv_boolean b \<Rightarrow> enc_check (amqp_encode_8 (if b \<noteq> 0 then 1 else 0)) TOO_BIG
      | Fv_i8 a \<Rightarrow> enc_check (amqp_encode_8 a) TOO_BIG
      | Fv_u8 a \<Rightarrow> enc_check (amqp_encode_8 a) TOO_BIG
      | Fv_i16 a \<Rightarrow> enc_check (amqp_encode_16 a) TOO_BIG
      | Fv_u16 a \<Rightarrow> enc_check (amqp_encode_16 a) TOO_BIG
      | Fv_i32 a \<Rightarrow> enc_check (amqp_encode_32 a) TOO_BIG
      | Fv_u32 a \<Rightarrow> enc_check (amqp_encode_32 a) TOO_BIG
      | Fv_i64 a \<Rightarrow> enc_check (amqp_encode_64 a) TOO_BIG
      | Fv_u64 a \<Rightarrow> enc_check (amqp_encode_64 a) TOO_BIG
      | Fv_f32 a \<Rightarrow> enc_check (amqp_encode_32 a) TOO_BIG
      | Fv_f64 a \<Rightarrow> enc_check (amqp_encode_64 a) TOO_BIG
      | Fv_decimal decimals a \<Rightarrow>
          enc_seqs [enc_check (amqp_encode_8 decimals) TOO_BIG, enc_check (amqp_encode_32 a) TOO_BIG]
      | Fv_utf8 bs \<Rightarrow> put_bytes_field bs
      | Fv_bytes bs \<Rightarrow> put_bytes_field bs
      | Fv_array xs \<Rightarrow> enc_sized (enc_seqs (encode_entries xs))
      | Fv_timestamp a \<Rightarrow> enc_check (amqp_encode_64 a) TOO_BIG
      | Fv_table es \<Rightarrow> enc_sized (enc_seqs (encode_table_entries es))
      | Fv_void \<Rightarrow> enc_seqs []
      | Fv_other _ \<Rightarrow> enc_fail AMQP_STATUS_INVALID_PARAMETER]"
| "encode_entries [] = []"
| "encode_entries (x # xs) = amqp_encode_field_value x # encode_entries xs"
| "encode_table_entries [] = []"
| "encode_table_entries (Entry k x # es) =
    enc_check (amqp_encode_8 (of_nat (length k))) TOO_BIG #
    enc_check (amqp_encode_bytes k) TOO_BIG #
    amqp_encode_field_value x #
    encode_table_entries es"

definition amqp_encode_array :: "amqp_array_t \<Rightarrow> encoder" where
  "amqp_encode_array input = enc_sized (enc_seqs (encode_entries input))"

definition amqp_encode_table :: "amqp_table_t \<Rightarrow> encoder" where
  "amqp_encode_table input = enc_sized (enc_seqs (encode_table_entries input))"

section \<open>What is encoded\<close>

text \<open>
  The bytes of a value on the wire, as a function of the value alone: the reference the
  encoder and the decoder are compared with.
\<close>

fun wire_field_value :: "amqp_field_value_t \<Rightarrow> byte list"
and wire_entries :: "amqp_field_value_t list \<Rightarrow> byte list"
and wire_table_entries :: "amqp_table_entry_t list \<Rightarrow> byte list" where
  "wire_field_value x =
    w8 (field_kind x) @
    (case x of
       Fv_boolean b \<Rightarrow> w8 (if b \<noteq> 0 then 1 else 0)
     | Fv_i8 a \<Rightarrow> w8 a
     | Fv_u8 a \<Rightarrow> w8 a
     | Fv_i16 a \<Rightarrow> w16 a
     | Fv_u16 a \<Rightarrow> w16 a
     | Fv_i32 a \<Rightarrow> w32 a
     | Fv_u32 a \<Rightarrow> w32 a
     | Fv_i64 a \<Rightarrow> w64 a
     | Fv_u64 a \<Rightarrow> w64 a
     | Fv_f32 a \<Rightarrow> w32 a
     | Fv_f64 a \<Rightarrow> w64 a
     | Fv_decimal decimals a \<Rightarrow> w8 decimals @ w32 a
     | Fv_utf8 bs \<Rightarrow> w32 (of_nat (length bs)) @ bs
     | Fv_bytes bs \<Rightarrow> w32 (of_nat (length bs)) @ bs
     | Fv_array xs \<Rightarrow> w32 (of_nat (length (wire_entries xs))) @ wire_entries xs
     | Fv_timestamp a \<Rightarrow> w64 a
     | Fv_table es \<Rightarrow> w32 (of_nat (length (wire_table_entries es))) @ wire_table_entries es
     | Fv_void \<Rightarrow> []
     | Fv_other _ \<Rightarrow> [])"
| "wire_entries [] = []"
| "wire_entries (x # xs) = wire_field_value x @ wire_entries xs"
| "wire_table_entries [] = []"
| "wire_table_entries (Entry k x # es) =
    w8 (of_nat (length k)) @ k @ wire_field_value x @ wire_table_entries es"

definition wire_table :: "amqp_table_t \<Rightarrow> byte list" where
  "wire_table t = w32 (of_nat (length (wire_table_entries t))) @ wire_table_entries t"

fun known_value :: "amqp_field_value_t \<Rightarrow> bool" where
  "known_value (Fv_other _) = False"
| "known_value (Fv_array xs) = (\<forall>x \<in> set xs. known_value x)"
| "known_value (Fv_table es) = (\<forall>e \<in> set es. case e of Entry k x \<Rightarrow> known_value x)"
| "known_value _ = True"

lemma write_at_prepend:
  assumes "off + length h + length w \<le> length buf"
  shows "write_at (write_at buf (off + length h) w) off h = write_at buf off (h @ w)"
proof -
  have "drop (length w + (off + length h)) buf = drop (off + (length h + length w)) buf"
    by (simp add: ac_simps)
  then show ?thesis
    using assms by (simp add: write_at_def add.assoc add.commute)
qed

lemma enc_frameI:
  assumes "\<And>s r s'. e s = (r, s') \<Longrightarrow>
    length (ebuf s') = length (ebuf s) \<and> eoff s \<le> eoff s' \<and>
    take (eoff s) (ebuf s') = take (eoff s) (ebuf s) \<and>
    (r = AMQP_STATUS_OK \<longrightarrow> eoff s \<le> length (ebuf s) \<longrightarrow> eoff s' \<le> length (ebuf s))"
  shows "enc_frame e"
  unfolding enc_frame_def using assms by (metis prod.collapse)

lemma enc_frameD:
  assumes "enc_frame e" and "e s = (r, s')"
  shows "length (ebuf s') = length (ebuf s)" and "eoff s \<le> eoff s'"
    and "take (eoff s) (ebuf s') = take (eoff s) (ebuf s)"
    and "r = AMQP_STATUS_OK \<Longrightarrow> eoff s \<le> length (ebuf s) \<Longrightarrow> eoff s' \<le> length (ebuf s)"
  using assms unfolding enc_frame_def by (metis fst_conv snd_conv)+

lemma frame_fail [enc_frame_intros]: "err \<noteq> AMQP_STATUS_OK \<Longrightarrow> enc_frame (enc_fail err)"
  by (rule enc_frameI) (auto simp: enc_fail_def)

lemma frame_sized [enc_frame_intros]:
  assumes "enc_frame body"
  shows "enc_frame (enc_sized body)"
proof (rule enc_frameI)
  fix s :: enc_state and r s'
  assume e: "enc_sized body s = (r, s')"
  obtain r2 s2 where b: "body (s\<lparr>eoff := eoff s + 4\<rparr>) = (r2, s2)" by fastforce
  note f = enc_frameD [OF assms b]
  have tk: "take (eoff s) (ebuf s2) = take (eoff s) (ebuf s)"
    using arg_cong [OF f(3), of "take (eoff s)"] by (simp add: min_def)
  show "length (ebuf s') = length (ebuf s) \<and> eoff s \<le> eoff s' \<and>
    take (eoff s) (ebuf s') = take (eoff s) (ebuf s) \<and>
    (r = AMQP_STATUS_OK \<longrightarrow> eoff s \<le> length (ebuf s) \<longrightarrow> eoff s' \<le> length (ebuf s))"
    using e b f tk
    by (auto simp: enc_sized_def Let_def amqp_encode_32_def amqp_encode_base_def amqp_e32_be w32_def
        take_write_at split: if_splits)
qed

lemma emits_sized [codec_emits]:
  assumes "emits body w" and fr: "enc_frame body"
  shows "emits (enc_sized body) (w32 (of_nat (length w)) @ w)"
proof (rule emitsI)
  fix s :: enc_state
  assume fit: "eoff s + length (w32 (of_nat (length w)) @ w) \<le> length (ebuf s)"
  let ?s = "s\<lparr>eoff := eoff s + 4\<rparr>"
  have "body ?s = (AMQP_STATUS_OK, ?s\<lparr>ebuf := write_at (ebuf s) (eoff s + 4) w, eoff := eoff s + 4 + length w\<rparr>)"
    using emits_fits [OF assms(1), of ?s] fit by simp
  then show "enc_sized body s = (AMQP_STATUS_OK,
      s\<lparr>ebuf := write_at (ebuf s) (eoff s) (w32 (of_nat (length w)) @ w),
        eoff := eoff s + length (w32 (of_nat (length w)) @ w)\<rparr>)"
    using fit write_at_prepend [of "eoff s" "w32 (of_nat (length w))" w "ebuf s"]
    by (simp add: enc_sized_def Let_def amqp_encode_32_def amqp_encode_base_def amqp_e32_be w32_def add.assoc)
next
  fix s :: enc_state
  assume le: "eoff s \<le> length (ebuf s)"
    and gt: "length (ebuf s) < eoff s + length (w32 (of_nat (length w)) @ w)"
  obtain r2 s2 where b: "body (s\<lparr>eoff := eoff s + 4\<rparr>) = (r2, s2)" by fastforce
  show "fst (enc_sized body s) \<noteq> AMQP_STATUS_OK"
  proof (cases "eoff s + 4 \<le> length (ebuf s)")
    case True
    with emits_overflow [OF assms(1), of "s\<lparr>eoff := eoff s + 4\<rparr>"] gt b show ?thesis
      by (auto simp: enc_sized_def)
  next
    case False
    with b enc_frameD(1) [OF fr b] show ?thesis
      by (auto simp: enc_sized_def Let_def amqp_encode_32_def amqp_encode_base_def)
  qed
qed

lemma frame_seqs_list [enc_frame_intros]:
  "enc_frame (enc_seqs [])"
  "enc_frame e \<Longrightarrow> enc_frame (enc_seqs es) \<Longrightarrow> enc_frame (enc_seqs (e # es))"
  by (auto simp: enc_frame_def split: prod.splits) (metis fst_conv min.absorb1 order_trans snd_conv take_take)+

declare amqp_encode_field_value.simps [simp del] wire_field_value.simps [simp del]

lemma frame_put_bytes [enc_frame_intros]: "enc_frame (put_bytes_field bs)"
  unfolding put_bytes_field_def by (intro enc_frame_intros) simp_all

declare enc_seqs.simps [simp del]

lemma frame_field_value [enc_frame_intros]:
  "enc_frame (amqp_encode_field_value x)"
  "enc_frame (enc_seqs (encode_entries xs))"
  "enc_frame (enc_seqs (encode_table_entries es))"
proof (induction x and xs and es rule: amqp_encode_field_value_encode_entries_encode_table_entries.induct)
  case (1 x)
  then show ?case
    by (cases x) (auto simp: amqp_encode_field_value.simps intro!: enc_frame_intros)
qed (auto intro!: frame_seqs_list intro: enc_frame_intros)

lemma emits_put_bytes [codec_emits]:
  "emits (put_bytes_field bs) (w32 (of_nat (length bs)) @ bs)"
  unfolding put_bytes_field_def
  using emits_Cons [OF emits_32 emits_Cons [OF emits_bytes emits_Nil]] by simp

lemma emits_pair: "emits a u \<Longrightarrow> emits b w \<Longrightarrow> emits (enc_seqs [a, b]) (u @ w)"
  using emits_Cons [OF _ emits_Cons [OF _ emits_Nil], of a u b w] by simp

lemma emits_last: "emits a u \<Longrightarrow> emits (enc_seqs [a, enc_seqs []]) u"
  using emits_pair [OF _ emits_Nil] by simp

lemma emits_field_value:
  "known_value x \<Longrightarrow> emits (amqp_encode_field_value x) (wire_field_value x)"
  "\<forall>x \<in> set xs. known_value x \<Longrightarrow> emits (enc_seqs (encode_entries xs)) (wire_entries xs)"
  "\<forall>e \<in> set es. known_value (entry_value e) \<Longrightarrow> emits (enc_seqs (encode_table_entries es)) (wire_table_entries es)"
proof (induction x and xs and es rule: amqp_encode_field_value_encode_entries_encode_table_entries.induct)
  case (1 x)
  note IH = 1
  from IH show ?case
    by (cases x) (auto simp: amqp_encode_field_value.simps wire_field_value.simps enc_frame_intros amqp_table_entry_t.case_eq_if intro!: emits_pair emits_last codec_emits emits_sized del: emits_Cons)
qed (auto intro!: codec_emits)
lemma frame_table [enc_frame_intros]: "enc_frame (amqp_encode_table t)"
  unfolding amqp_encode_table_def [abs_def] by (intro enc_frame_intros frame_field_value)

lemma emits_table:
  assumes "\<forall>e \<in> set t. known_value (entry_value e)"
  shows "emits (amqp_encode_table t) (wire_table t)"
  unfolding amqp_encode_table_def [abs_def] wire_table_def
  by (intro emits_sized emits_field_value frame_field_value assms)

section \<open>What is decoded\<close>

text \<open>
  Values the wire format can carry: C booleans are 0 or 1, lengths fit their length
  fields.
\<close>

fun valid_value :: "amqp_field_value_t \<Rightarrow> bool" where
  "valid_value (Fv_boolean b) = (b = 0 \<or> b = 1)"
| "valid_value (Fv_utf8 bs) = (length bs < 2 ^ 32)"
| "valid_value (Fv_bytes bs) = (length bs < 2 ^ 32)"
| "valid_value (Fv_array xs) = ((\<forall>x \<in> set xs. valid_value x) \<and> length (wire_entries xs) < 2 ^ 32)"
| "valid_value (Fv_table es) =
    ((\<forall>e \<in> set es. case e of Entry k x \<Rightarrow> length k < 256 \<and> valid_value x) \<and>
     length (wire_table_entries es) < 2 ^ 32)"
| "valid_value (Fv_other _) = False"
| "valid_value _ = True"

definition valid_table :: "amqp_table_t \<Rightarrow> bool" where
  "valid_table es \<longleftrightarrow> valid_value (Fv_table es)"

lemma valid_known: "valid_value x \<Longrightarrow> known_value x"
  by (induction x rule: valid_value.induct) (auto split: amqp_table_entry_t.splits)

lemma temp_grow_roomy:
  assumes "roomy (dheap s)"
  obtains b m s' where "temp_grow elem n k block s = (Some (b, m), s')" "doff s' = doff s" "roomy (dheap s')"
proof (cases rule: malloc_cases [of "k * 2 * elem" "dheap s"])
  case 2
  with assms show thesis
    by (intro that [of "if k \<le> n then next_id (dheap s) else block" "if k \<le> n then k * 2 else k"
          "if k \<le> n then s\<lparr>dheap := snd (realloc (Some block) (k * 2 * elem) (dheap s))\<rparr> else s"])
      (auto simp: temp_grow_def realloc_def free_def roomy_def)
qed (use assms in simp)

lemma store_entries_roomy:
  assumes "roomy (dheap s)" and "elem > 0"
  obtains s' where "dec_out block (store_entries elem xs s) = (Returns xs, s')" "doff s' = doff s" "roomy (dheap s')"
proof -
  obtain p pool h where a: "amqp_pool_alloc (dpool s) (length xs * elem) (dheap s) = (p, pool, h)"
    by (metis prod_cases3)
  note r = pool_alloc_roomy [OF a assms(1)]
  have "roomy (free (Some block) h)"
    using r roomy_cong [OF fails_free] by simp
  then show thesis
    using that a r assms(2) by (auto simp: store_entries_def dec_out_def)
qed

lemma sized_block_reads:
  assumes "\<And>v s block. at v (doff s) w \<Longrightarrow> roomy (dheap s) \<Longrightarrow>
      \<exists>s'. loop block (doff s + length w) v s = (Returns x, s') \<and> doff s' = doff s + length w \<and> roomy (dheap s')"
    and "length w < 2 ^ 32"
  shows "reads (sized_block (of_nat (length w)) elem m loop) w x"
proof (rule readsI)
  fix v and s :: dec_state
  assume a: "at v (doff s) w" and r: "roomy (dheap s)"
  have u: "unat (of_nat (length w) :: u32) = length w"
    using assms(2) by (simp add: unat_of_nat take_bit_eq_mod)
  obtain b h where m: "malloc (m * elem) (dheap s) = (Some b, h)" "roomy h"
    using r roomy_malloc [OF r] roomy_cong [OF fails_malloc] by (metis prod.collapse)
  let ?s = "s\<lparr>dheap := h\<rparr>"
  have "at v (doff ?s) w" "roomy (dheap ?s)" using a m by simp_all
  from assms(1) [OF this, of b] show "\<exists>s'. sized_block (of_nat (length w)) elem m loop v s = (Returns x, s') \<and>
      doff s' = doff s + length w \<and> roomy (dheap s')"
    using a m u by (auto simp: sized_block_def at_def)
qed

lemma wire_field_value_pos: "length (wire_field_value x) \<ge> 1"
  by (simp add: wire_field_value.simps)

declare decode_field_value.simps [simp del] decode_array.simps [simp del] decode_table.simps [simp del]
  decode_array_loop.simps [simp del] decode_table_loop.simps [simp del]

lemma reads_map:
  "reads d w a \<Longrightarrow> how a = x \<Longrightarrow> reads (dec_bind d (\<lambda>a. dec_return (how a))) w x"
  using reads_bind [where ?w2.0 = "[]", OF _ reads_return] by fastforce

lemma reads_simple:
  "reads (dec_check p BAD) w a \<Longrightarrow> how a = x \<Longrightarrow> reads (simple_field p how) w x"
  unfolding simple_field_def by (rule reads_map)

lemma reads_bytes_field:
  "length bs < 2 ^ 32 \<Longrightarrow> how bs = x \<Longrightarrow> reads (bytes_field how) (w32 (of_nat (length bs)) @ bs) x"
  unfolding bytes_field_def
  by (intro reads_bind [OF reads_32] reads_map reads_bytes) (simp_all add: unat_of_nat take_bit_eq_mod reads_bytes)

lemma reads_decimal:
  "reads (dec_bind (dec_check amqp_decode_8 BAD) (\<lambda>decimals. simple_field amqp_decode_32 (Fv_decimal decimals)))
    (w8 d @ w32 a) (Fv_decimal d a)"
  by (intro reads_bind [OF reads_8] reads_simple [OF reads_32 refl])

definition reads_loop :: "(nat \<Rightarrow> nat \<Rightarrow> 'a decoder) \<Rightarrow> byte list \<Rightarrow> 'a \<Rightarrow> bool" where
  "reads_loop loop w x \<longleftrightarrow>
    (\<forall>v s block. at v (doff s) w \<longrightarrow> roomy (dheap s) \<longrightarrow>
      (\<exists>s'. loop block (doff s + length w) v s = (Returns x, s') \<and>
        doff s' = doff s + length w \<and> roomy (dheap s')))"

lemma reads_loopE:
  assumes "reads_loop loop w x" and "at v (doff s) w" and "roomy (dheap s)" and "off = doff s + length w"
  obtains s' where "loop block off v s = (Returns x, s')" "doff s' = off" "roomy (dheap s')"
  using assms unfolding reads_loop_def by blast

lemma reads_sized:
  assumes "reads_loop loop w x" and "length w < 2 ^ 32"
  shows "reads (dec_bind (dec_check amqp_decode_32 BAD) (\<lambda>sz. sized_block sz elem m loop))
    (w32 (of_nat (length w)) @ w) x"
  using assms
  by (intro reads_bind [OF reads_32] sized_block_reads) (simp_all add: reads_loop_def)

lemma reads_loop_Nil:
  shows "reads_loop (decode_array_loop (Suc n) m xs) [] xs"
    and "reads_loop (decode_table_loop (Suc n) m' es) [] es"
  unfolding reads_loop_def
  using store_entries_roomy [where elem = SIZEOF_FIELD_VALUE and xs = xs]
    store_entries_roomy [where elem = SIZEOF_TABLE_ENTRY and xs = es]
  by (simp_all add: SIZEOF_FIELD_VALUE_def SIZEOF_TABLE_ENTRY_def decode_array_loop.simps decode_table_loop.simps) metis+

lemma reads_loop_array:
  assumes x: "reads (decode_field_value n) w1 x" and "w1 \<noteq> []"
    and rest: "\<And>m. reads_loop (decode_array_loop n m (acc @ [x])) w2 y"
  shows "reads_loop (decode_array_loop (Suc n) m acc) (w1 @ w2) y"
  unfolding reads_loop_def
proof (intro allI impI)
  fix v and s :: dec_state and block
  assume a: "at v (doff s) (w1 @ w2)" and r: "roomy (dheap s)"
  obtain b m' s1 where g: "temp_grow SIZEOF_FIELD_VALUE (length acc) m block s = (Some (b, m'), s1)"
      "doff s1 = doff s" "roomy (dheap s1)"
    using temp_grow_roomy [OF r] by blast
  obtain s2 where d: "decode_field_value n v s1 = (Returns x, s2)" "doff s2 = doff s1 + length w1" "roomy (dheap s2)"
    using readsE [OF x, of v s1] a g by (auto simp: at_append)
  have "at v (doff s2) w2" using a g d by (simp add: at_append)
  then obtain s3 where "decode_array_loop n m' (acc @ [x]) b (doff s2 + length w2) v s2 = (Returns y, s3)"
      "doff s3 = doff s2 + length w2" "roomy (dheap s3)"
    by (rule reads_loopE [OF rest _ d(3) refl])
  then show "\<exists>s'. decode_array_loop (Suc n) m acc block (doff s + length (w1 @ w2)) v s = (Returns y, s') \<and>
      doff s' = doff s + length (w1 @ w2) \<and> roomy (dheap s')"
    using g d assms(2) by (auto simp: add.assoc decode_array_loop.simps)
qed

lemma reads_loop_table:
  assumes x: "reads (decode_field_value n) w1 x" and k: "length k < 256"
    and rest: "\<And>m. reads_loop (decode_table_loop n m (acc @ [Entry k x])) w2 y"
  shows "reads_loop (decode_table_loop (Suc n) m acc) (w8 (of_nat (length k)) @ k @ w1 @ w2) y"
  unfolding reads_loop_def
proof (intro allI impI)
  fix v and s :: dec_state and block
  let ?w = "w8 (of_nat (length k)) @ k @ w1 @ w2"
  assume a: "at v (doff s) ?w" and r: "roomy (dheap s)"
  obtain s0 where k8: "dec_check amqp_decode_8 BAD v s = (Returns (of_nat (length k)), s0)"
      "doff s0 = doff s + 1" "roomy (dheap s0)"
    using readsE [OF reads_8 [of BAD "of_nat (length k)"], of v s] a r by (auto simp: at_append)
  obtain b m' s1 where g: "temp_grow SIZEOF_TABLE_ENTRY (length acc) m block s0 = (Some (b, m'), s1)"
      "doff s1 = doff s0" "roomy (dheap s1)"
    using temp_grow_roomy [OF k8(3)] by blast
  have u: "unat (of_nat (length k) :: u8) = length k"
    using k by (simp add: unat_of_nat take_bit_eq_mod)
  have "reads (dec_bind (dec_check (amqp_decode_bytes (length k)) BAD) (\<lambda>k.
      dec_bind (decode_field_value n) (\<lambda>x. dec_return (Entry k x)))) (k @ w1) (Entry k x)"
    by (intro reads_bind [OF reads_bytes] reads_map [OF x]) simp_all
  from readsE [OF this, of v s1] obtain s2 where d: "dec_bind (dec_check (amqp_decode_bytes (length k)) BAD) (\<lambda>k.
      dec_bind (decode_field_value n) (\<lambda>x. dec_return (Entry k x))) v s1 = (Returns (Entry k x), s2)"
      "doff s2 = doff s1 + length (k @ w1)" "roomy (dheap s2)"
    using a g k8 by (auto simp: at_append)
  have "at v (doff s2) w2" using a g d k8 by (simp add: at_append add.assoc)
  then obtain s3 where "decode_table_loop n m' (acc @ [Entry k x]) b (doff s2 + length w2) v s2 = (Returns y, s3)"
      "doff s3 = doff s2 + length w2" "roomy (dheap s3)"
    by (rule reads_loopE [OF rest _ d(3) refl])
  then show "\<exists>s'. decode_table_loop (Suc n) m acc block (doff s + length ?w) v s = (Returns y, s') \<and>
      doff s' = doff s + length ?w \<and> roomy (dheap s')"
    using g d k8 u by (auto simp: add.assoc decode_table_loop.simps)
qed

lemma reads_field_value:
  "valid_value x \<Longrightarrow> n \<ge> 2 * length (wire_field_value x) \<Longrightarrow>
    reads (decode_field_value n) (wire_field_value x) x"
  "\<forall>x \<in> set xs. valid_value x \<Longrightarrow> n \<ge> 2 * length (wire_entries xs) + 1 \<Longrightarrow>
    reads_loop (decode_array_loop n m acc) (wire_entries xs) (acc @ xs)"
  "\<forall>e \<in> set es. length (key e) < 256 \<and> valid_value (entry_value e) \<Longrightarrow>
    n \<ge> 2 * length (wire_table_entries es) + 1 \<Longrightarrow>
    reads_loop (decode_table_loop n m' acc') (wire_table_entries es) (acc' @ es)"
proof (induction x and xs and es arbitrary: n and n m acc and n m' acc'
    rule: wire_field_value_wire_entries_wire_table_entries.induct)
  case (1 x)
  have "length (wire_field_value x) \<ge> 1" by (rule wire_field_value_pos)
  with 1(6) obtain n' where n: "n = Suc n'" by (cases n) auto
  have arr: "x = Fv_array a \<Longrightarrow> reads (decode_array n') (w32 (of_nat (length (wire_entries a))) @ wire_entries a) a" for a
    using 1(1) [of a _ _ "[]"] 1(5,6) n
    by (cases n') (auto simp: decode_array.simps wire_field_value.simps intro!: reads_sized)
  have tab: "x = Fv_table t \<Longrightarrow> reads (decode_table n') (w32 (of_nat (length (wire_table_entries t))) @ wire_table_entries t) t" for t
    using 1(3) [of t _ _ "[]"] 1(5,6) n
    by (cases n') (auto simp: decode_table.simps wire_field_value.simps amqp_table_entry_t.case_eq_if intro!: reads_sized)
  show ?case
    unfolding n decode_field_value.simps wire_field_value.simps
    apply (rule reads_bind [OF reads_8])
    using 1(5) arr tab
    by (cases x) (auto intro!: reads_simple reads_bytes_field reads_map reads_return reads_decimal codec_reads)
next
  case 2
  then obtain n' where "n = Suc n'" by (cases n) auto
  then show ?case by (simp add: reads_loop_Nil)
next
  case (3 x xs)
  then obtain n' where n: "n = Suc n'" by (cases n) auto
  have ne: "wire_field_value x \<noteq> []" using wire_field_value_pos [of x] by auto
  have f: "reads (decode_field_value n') (wire_field_value x) x"
    using 3(3,4) n by (intro 3(1)) auto
  have l: "reads_loop (decode_array_loop n' m (acc @ [x])) (wire_entries xs) ((acc @ [x]) @ xs)" for m
    using 3(3,4) n wire_field_value_pos [of x] by (intro 3(2)) auto
  show ?case
    unfolding n wire_entries.simps using reads_loop_array [OF f ne l] by simp
next
  case 4
  then obtain n' where "n = Suc n'" by (cases n) auto
  then show ?case by (simp add: reads_loop_Nil)
next
  case (5 k x es)
  then obtain n' where n: "n = Suc n'" by (cases n) auto
  have k: "length k < 256" using 5(3) by simp
  have f: "reads (decode_field_value n') (wire_field_value x) x"
    using 5(3,4) n by (intro 5(1)) auto
  have l: "reads_loop (decode_table_loop n' m (acc' @ [Entry k x])) (wire_table_entries es) ((acc' @ [Entry k x]) @ es)" for m
    using 5(3,4) n wire_field_value_pos [of x] by (intro 5(2)) auto
  show ?case
    unfolding n wire_table_entries.simps using reads_loop_table [OF f k l] by simp
qed

lemma reads_table:
  assumes "valid_table t"
  shows "reads amqp_decode_table (wire_table t) t"
proof (rule readsI)
  fix v and s :: dec_state
  assume a: "at v (doff s) (wire_table t)" and r: "roomy (dheap s)"
  let ?n = "2 * length (vmem v) + 1"
  have len: "length (wire_table t) \<le> length (vmem v)"
    using a by (simp add: at_def honest_def)
  have "reads_loop (decode_table_loop ?n INITIAL_TABLE_SIZE []) (wire_table_entries t) ([] @ t)"
    using assms len by (intro reads_field_value) (auto simp: valid_table_def wire_table_def amqp_table_entry_t.case_eq_if)
  then have "reads (decode_table (Suc ?n)) (wire_table t) t"
    using assms unfolding wire_table_def decode_table.simps
    by (intro reads_sized) (simp_all add: valid_table_def)
  from readsE [OF this a r] show "\<exists>s'. amqp_decode_table v s = (Returns t, s') \<and>
      doff s' = doff s + length (wire_table t) \<and> roomy (dheap s')"
    by (auto simp: amqp_decode_table_def)
qed

interpretation table_field: field_codec valid_table amqp_encode_table amqp_decode_table wire_table
  by unfold_locales
    (auto simp: reads_table valid_table_def amqp_table_entry_t.case_eq_if valid_known intro!: emits_table)

section \<open>Decoding ends and stays inside the buffer\<close>

text \<open>
  \<open>sound_at v R strict d\<close>: \<open>dec_sound\<close> for the states with at most \<open>R\<close> bytes of the view
  left, where \<open>strict\<close> adds that a returned value has consumed something.
\<close>

definition sound_at :: "amqp_view \<Rightarrow> nat \<Rightarrow> bool \<Rightarrow> 'a decoder \<Rightarrow> bool" where
  "sound_at v R strict d \<longleftrightarrow>
    (\<forall>s r s'. length (vmem v) - doff s \<le> R \<longrightarrow> d v s = (r, s') \<longrightarrow>
      r \<noteq> Undefined \<and> r \<noteq> OutOfFuel \<and> doff s \<le> doff s' \<and>
      (\<forall>x. r = Returns x \<longrightarrow>
        (if strict then doff s < doff s' \<and> doff s' \<le> vlen v else doff s' \<le> vlen v \<or> doff s' = doff s)))"

lemma sound_atD:
  assumes "sound_at v R strict d" and "length (vmem v) - doff s \<le> R" and "d v s = (r, s')"
  shows "r \<noteq> Undefined" and "r \<noteq> OutOfFuel" and "doff s \<le> doff s'"
    and "r = Returns x \<Longrightarrow> strict \<Longrightarrow> doff s < doff s' \<and> doff s' \<le> vlen v"
    and "r = Returns x \<Longrightarrow> doff s' \<le> vlen v \<or> doff s' = doff s"
  using assms unfolding sound_at_def by (auto split: if_splits)

lemma sound_at_weaken: "sound_at v R True d \<Longrightarrow> sound_at v R False d"
  by (auto simp: sound_at_def)

lemma sound_at_return: "sound_at v R False (dec_return x)"
  by (simp add: sound_at_def dec_return_def)

lemma sound_at_fail: "sound_at v R strict (dec_fail err)"
  by (simp add: sound_at_def dec_fail_def)

lemma sound_at_base: "honest v \<Longrightarrow> sound_at v R False (dec_check (amqp_decode_base n d) err)"
  by (auto simp: sound_at_def dec_check_def amqp_decode_base_def honest_def split: if_splits)

lemma sound_at_bind_base:
  assumes v: "honest v" and "n > 0" and f: "\<And>x. n \<le> R \<Longrightarrow> sound_at v (R - n) False (f x)"
  shows "sound_at v R strict (dec_bind (dec_check (amqp_decode_base n d) err) f)"
  unfolding sound_at_def
proof (intro allI impI)
  fix s r and s' :: dec_state
  assume R: "length (vmem v) - doff s \<le> R"
    and b: "dec_bind (dec_check (amqp_decode_base n d) err) f v s = (r, s')"
  show "r \<noteq> Undefined \<and> r \<noteq> OutOfFuel \<and> doff s \<le> doff s' \<and>
      (\<forall>x. r = Returns x \<longrightarrow>
        (if strict then doff s < doff s' \<and> doff s' \<le> vlen v else doff s' \<le> vlen v \<or> doff s' = doff s))"
  proof (cases "doff s + n \<le> vlen v")
    case True
    let ?x = "d (chunk (doff s) n (vmem v))" and ?s = "s\<lparr>doff := doff s + n\<rparr>"
    have "n \<le> R" and R': "length (vmem v) - doff ?s \<le> R - n"
      using True R v by (auto simp: honest_def)
    moreover have "f ?x v ?s = (r, s')"
      using b True v by (simp add: dec_bind_def dec_check_def amqp_decode_base_def honest_def)
    ultimately show ?thesis
      using sound_atD [OF f R'] True assms(2) by fastforce
  next
    case False
    with b show ?thesis
      by (auto simp: dec_bind_def dec_check_def amqp_decode_base_def)
  qed
qed

lemma sound_at_bind:
  assumes d: "sound_at v R False d" and f: "\<And>x. sound_at v R False (f x)"
  shows "sound_at v R False (dec_bind d f)"
  unfolding sound_at_def
proof (intro allI impI)
  fix s r and s' :: dec_state
  assume R: "length (vmem v) - doff s \<le> R" and b: "dec_bind d f v s = (r, s')"
  obtain r1 s1 where 1: "d v s = (r1, s1)" by fastforce
  note d1 = sound_atD [OF d R 1]
  then have R1: "length (vmem v) - doff s1 \<le> R" using R by simp
  show "r \<noteq> Undefined \<and> r \<noteq> OutOfFuel \<and> doff s \<le> doff s' \<and>
      (\<forall>x. r = Returns x \<longrightarrow>
        (if False then doff s < doff s' \<and> doff s' \<le> vlen v else doff s' \<le> vlen v \<or> doff s' = doff s))"
  proof (cases r1)
    case (Returns x)
    with b 1 have "f x v s1 = (r, s')" by (simp add: dec_bind_def)
    note f1 = sound_atD [OF f R1 this]
    from d1 f1 Returns show ?thesis by force
  qed (use d1 b 1 in \<open>auto simp: dec_bind_def\<close>)
qed

lemmas prims_base = amqp_decode_8_def amqp_decode_16_def amqp_decode_32_def amqp_decode_64_def
  amqp_decode_bytes_base

lemma sound_at_simple: "honest v \<Longrightarrow> sound_at v R False (dec_check p BAD) \<Longrightarrow> sound_at v R False (simple_field p how)"
  unfolding simple_field_def by (intro sound_at_bind sound_at_return)

lemma sound_at_bytes_field: "honest v \<Longrightarrow> sound_at v R False (bytes_field how)"
  unfolding bytes_field_def prims_base by (intro sound_at_bind sound_at_return sound_at_base)

lemma sound_at_field:
  assumes v: "honest v"
    and a: "\<And>R'. R' < R \<Longrightarrow> sound_at v R' False (decode_array n)"
    and t: "\<And>R'. R' < R \<Longrightarrow> sound_at v R' False (decode_table n)"
  shows "sound_at v R True (decode_field_value (Suc n))"
  unfolding decode_field_value.simps prims_base
  apply (rule sound_at_bind_base)
  using assms
  by (auto intro!: sound_at_simple sound_at_bytes_field sound_at_bind sound_at_return sound_at_base sound_at_fail
      split: option.splits amqp_field_value_kind_t.splits)

lemma sound_at_sized:
  assumes v: "honest v" and loop: "\<And>R' block limit. R' < R \<Longrightarrow> sound_at v R' False (loop block limit)"
  shows "sound_at v R False (dec_bind (dec_check amqp_decode_32 BAD) (\<lambda>sz. sized_block sz elem m loop))"
  unfolding prims_base
proof (rule sound_at_bind_base [OF v])
  fix sz :: u32
  assume "4 \<le> R"
  then have l: "sound_at v (R - 4) False (loop b limit)" for b limit by (intro loop) simp
  show "sound_at v (R - 4) False (sized_block sz elem m loop)"
    unfolding sound_at_def
  proof (intro allI impI)
    fix s r and s' :: dec_state
    assume R: "length (vmem v) - doff s \<le> R - 4" and b: "sized_block sz elem m loop v s = (r, s')"
    have R': "length (vmem v) - doff (s\<lparr>dheap := h\<rparr>) \<le> R - 4" for h using R by simp
    obtain q h where m: "malloc (m * elem) (dheap s) = (q, h)" by fastforce
    show "r \<noteq> Undefined \<and> r \<noteq> OutOfFuel \<and> doff s \<le> doff s' \<and>
      (\<forall>x. r = Returns x \<longrightarrow>
        (if False then doff s < doff s' \<and> doff s' \<le> vlen v else doff s' \<le> vlen v \<or> doff s' = doff s))"
    proof (cases "\<exists>block. q = Some block \<and> unat sz + doff s \<le> vlen v")
      case True
      then obtain block where "q = Some block" "unat sz + doff s \<le> vlen v" by blast
      with b m have "loop block (doff s + unat sz) v (s\<lparr>dheap := h\<rparr>) = (r, s')"
        by (simp add: sized_block_def)
      from sound_atD [OF l R' this] show ?thesis by simp
    qed (use b m in \<open>auto simp: sized_block_def split: if_splits option.splits\<close>)
  qed
qed simp

lemma sound_at_array_loop:
  assumes v: "honest v" and field: "sound_at v R True (decode_field_value n)"
    and loop: "\<And>R' m acc block. R' < R \<Longrightarrow> sound_at v R' False (decode_array_loop n m acc block limit)"
  shows "sound_at v R False (decode_array_loop (Suc n) m acc block limit)"
  unfolding sound_at_def
proof (intro allI impI)
  fix s r and s' :: dec_state
  assume R: "length (vmem v) - doff s \<le> R"
    and b: "decode_array_loop (Suc n) m acc block limit v s = (r, s')"
  let ?goal = "r \<noteq> Undefined \<and> r \<noteq> OutOfFuel \<and> doff s \<le> doff s' \<and>
      (\<forall>x. r = Returns x \<longrightarrow>
        (if False then doff s < doff s' \<and> doff s' \<le> vlen v else doff s' \<le> vlen v \<or> doff s' = doff s))"
  show ?goal
  proof (cases "doff s < limit")
    case False
    with b show ?thesis
      by (auto simp: decode_array_loop.simps dec_out_def store_entries_def split: prod.splits if_splits)
  next
    case True
    obtain g s1 where g: "temp_grow SIZEOF_FIELD_VALUE (length acc) m block s = (g, s1)" by fastforce
    then have s1: "doff s1 = doff s"
      by (auto simp: temp_grow_def split: if_splits prod.splits option.splits)
    show ?thesis
    proof (cases g)
      case None
      with g b True s1 show ?thesis by (auto simp: decode_array_loop.simps dec_out_def)
    next
      case (Some bm)
      obtain b' m' where bm: "bm = (b', m')" by fastforce
      obtain r2 s2 where 2: "decode_field_value n v s1 = (r2, s2)" by fastforce
      have R1: "length (vmem v) - doff s1 \<le> R" using R s1 by simp
      note f = sound_atD [OF field R1 2]
      show ?thesis
      proof (cases r2)
        case (Returns x)
        then have less: "doff s1 < doff s2" "doff s2 \<le> vlen v" using f by auto
        with v R1 have R2: "length (vmem v) - doff s2 < R" by (auto simp: honest_def)
        have "decode_array_loop n m' (acc @ [x]) b' limit v s2 = (r, s')"
          using b True g Some bm 2 Returns by (simp add: decode_array_loop.simps)
        from sound_atD [OF loop [OF R2] order_refl this] less s1 show ?thesis by auto
      qed (use b True g Some bm 2 f s1 in \<open>auto simp: decode_array_loop.simps dec_out_def\<close>)
    qed
  qed
qed

lemma temp_grow_doff: "temp_grow elem k m block s = (g, s1) \<Longrightarrow> doff s1 = doff s"
  by (auto simp: temp_grow_def split: if_splits prod.splits option.splits)

lemma sound_at_table_loop:
  assumes v: "honest v" and field: "sound_at v R True (decode_field_value n)"
    and loop: "\<And>R' m acc block. R' < R \<Longrightarrow> sound_at v R' False (decode_table_loop n m acc block limit)"
  shows "sound_at v R False (decode_table_loop (Suc n) m acc block limit)"
  unfolding sound_at_def
proof (intro allI impI)
  fix s r and s' :: dec_state
  assume R: "length (vmem v) - doff s \<le> R"
    and b: "decode_table_loop (Suc n) m acc block limit v s = (r, s')"
  let ?goal = "r \<noteq> Undefined \<and> r \<noteq> OutOfFuel \<and> doff s \<le> doff s' \<and>
      (\<forall>x. r = Returns x \<longrightarrow>
        (if False then doff s < doff s' \<and> doff s' \<le> vlen v else doff s' \<le> vlen v \<or> doff s' = doff s))"
  obtain r0 s0 where 0: "dec_check amqp_decode_8 BAD v s = (r0, s0)" by fastforce
  have r0: "r0 \<noteq> Undefined" "r0 \<noteq> OutOfFuel" "doff s0 = doff s + 1" "\<And>x. r0 = Returns x \<Longrightarrow> doff s0 \<le> vlen v"
    using 0 v by (auto simp: dec_check_def prims_base amqp_decode_base_def honest_def split: if_splits)
  show ?goal
  proof (cases "doff s < limit \<and> (\<exists>x. r0 = Returns x)")
    case False
    with b r0 0 show ?thesis
      by (cases r0) (auto simp: decode_table_loop.simps dec_out_def store_entries_def split: prod.splits if_splits)
  next
    case True
    then obtain keylen where keylen: "r0 = Returns keylen" by blast
    obtain g s1 where g: "temp_grow SIZEOF_TABLE_ENTRY (length acc) m block s0 = (g, s1)" by fastforce
    note s1 = temp_grow_doff [OF g]
    show ?thesis
    proof (cases g)
      case None
      with g b True 0 keylen s1 r0 show ?thesis by (auto simp: decode_table_loop.simps dec_out_def)
    next
      case (Some bm)
      obtain b' m' where bm: "bm = (b', m')" by fastforce
      let ?entry = "dec_bind (dec_check (amqp_decode_bytes (unat keylen)) BAD) (\<lambda>k.
          dec_bind (decode_field_value n) (\<lambda>x. dec_return (Entry k x)))"
      obtain r2 s2 where 2: "?entry v s1 = (r2, s2)" by fastforce
      have R1: "length (vmem v) - doff s1 \<le> R" using R s1 r0 by simp
      have "sound_at v R False ?entry"
        unfolding amqp_decode_bytes_base
        by (intro sound_at_bind sound_at_base sound_at_return sound_at_weaken field v)
      note f = sound_atD [OF this R1 2]
      show ?thesis
      proof (cases r2)
        case (Returns e)
        then have less: "doff s < doff s2" "doff s2 \<le> vlen v" using f r0 s1 keylen by auto
        with v R have R2: "length (vmem v) - doff s2 < R" by (auto simp: honest_def)
        have "decode_table_loop n m' (acc @ [e]) b' limit v s2 = (r, s')"
          using b True g Some bm 2 0 keylen Returns by (simp add: decode_table_loop.simps)
        from sound_atD [OF loop [OF R2] order_refl this] less s1 show ?thesis by auto
      qed (use b True g Some bm 2 f s1 r0 0 keylen in \<open>auto simp: decode_table_loop.simps dec_out_def\<close>)
    qed
  qed
qed

lemma sound_at_decode:
  assumes v: "honest v"
  shows "2 * R + 1 \<le> n \<Longrightarrow> sound_at v R True (decode_field_value n)"
    and "2 * R + 2 \<le> n \<Longrightarrow> sound_at v R False (decode_array n)"
    and "2 * R + 2 \<le> n \<Longrightarrow> sound_at v R False (decode_table n)"
    and "2 * R + 2 \<le> n \<Longrightarrow> sound_at v R False (decode_array_loop n m acc block limit)"
    and "2 * R + 2 \<le> n \<Longrightarrow> sound_at v R False (decode_table_loop n m acc' block limit)"
proof (induction n arbitrary: R m acc acc' block limit)
  case (Suc n)
  {
    case 1
    then show ?case using Suc.IH(2,3) by (intro sound_at_field v) auto
  next
    case 2
    then show ?case using Suc.IH(4) by (auto simp: decode_array.simps intro!: sound_at_sized v)
  next
    case 3
    then show ?case using Suc.IH(5) by (auto simp: decode_table.simps intro!: sound_at_sized v)
  next
    case 4
    then show ?case using Suc.IH(1,4) by (auto intro!: sound_at_array_loop v)
  next
    case 5
    then show ?case using Suc.IH(1,5) by (auto intro!: sound_at_table_loop v)
  }
qed simp_all

lemma dec_sound_table [dec_sound_intros]: "dec_sound amqp_decode_table"
proof (rule dec_soundI)
  fix v s r s'
  assume v: "honest v" and d: "amqp_decode_table v s = (r, s')"
  have "sound_at v (length (vmem v)) False (decode_table (2 * length (vmem v) + 2))"
    by (intro sound_at_decode v) simp
  from sound_atD [OF this _ d [unfolded amqp_decode_table_def]]
  show "r \<noteq> Undefined \<and> r \<noteq> OutOfFuel \<and> doff s \<le> doff s' \<and>
      (\<forall>x. r = Returns x \<longrightarrow> doff s \<le> vlen v \<longrightarrow> doff s' \<le> vlen v)"
    by auto
qed

section \<open>Decoding and memory\<close>

text \<open>
  The loops own the temporary block they are started with and free it on every path.
\<close>

definition loop_mem :: "(nat \<Rightarrow> nat \<Rightarrow> 'a decoder) \<Rightarrow> bool" where
  "loop_mem loop \<longleftrightarrow>
    (\<forall>block limit v s r s'. pool_ok (dpool s) (dheap s) \<longrightarrow> block \<in> private_blocks s \<longrightarrow>
      loop block limit v s = (r, s') \<longrightarrow> mem_step {block} s (defined_result r) s')"

lemma private_block:
  assumes "pool_ok (dpool s) (dheap s)" and "b \<in> private_blocks s"
  shows "b \<in> live (dheap s)" and "b \<notin> pool_owned (dpool s)" and "alloc_block (dpool s) \<noteq> Some b"
  using assms by (auto simp: private_blocks_def foreign_def)

lemma pool_owned_live: "pool_ok pool h \<Longrightarrow> pool_owned pool \<subseteq> live h"
  by (auto simp: pool_ok_iff bl_ok_def pool_owned_def)

text \<open>Obtaining and freeing blocks the pool does not know.\<close>

lemma pool_ok_add:
  assumes "pool_ok pool h"
  shows "pool_ok pool (h\<lparr>next_id := Suc (next_id h), live := insert (next_id h) (live h)\<rparr>)"
  using assms by (intro pool_ok_frame [OF assms]) (auto simp: pool_ok_iff heap_ok_def)

lemma pool_ok_skip: "pool_ok pool h \<Longrightarrow> pool_ok pool (h\<lparr>next_id := Suc (next_id h)\<rparr>)"
  by (rule pool_ok_frame) (auto simp: pool_ok_iff heap_ok_def)

lemma pool_ok_content:
  assumes "pool_ok pool h" and "\<And>b. b \<in> pool_owned pool \<union> set_option (alloc_block pool) \<Longrightarrow> c b = content h b"
  shows "pool_ok pool (h\<lparr>content := c\<rparr>)"
  using assms
  by (auto simp: pool_ok_iff heap_ok_def bl_ok_def alloc_block_ok_def pool_owned_def bl_owned_def)

lemma pool_ok_free:
  assumes "pool_ok pool h" and "b \<in> live h" and "b \<notin> pool_owned pool" and "alloc_block pool \<noteq> Some b"
  shows "pool_ok pool (free (Some b) h)"
  using assms
  by (auto simp: pool_ok_iff heap_ok_def bl_ok_def alloc_block_ok_def pool_owned_def free_def)

lemma mem_step_malloc:
  assumes ok: "pool_ok (dpool s) (dheap s)" and m: "malloc n (dheap s) = (p, h)"
  shows "p = None \<Longrightarrow> \<not> roomy (dheap s) \<and> mem_step {} s e (s\<lparr>dheap := h\<rparr>)"
    and "p = Some b \<Longrightarrow> pool_ok (dpool s) h \<and> b \<notin> live (dheap s) \<and> live h = insert b (live (dheap s)) \<and>
      fails h = fails (dheap s) \<and> alloc_block (dpool s) \<noteq> Some b \<and> content h = content (dheap s)"
proof -
  have f: "next_id (dheap s) \<notin> live (dheap s)"
    using ok heap_ok_fresh [of "dheap s"] by (simp add: pool_ok_iff)
  then have na: "alloc_block (dpool s) \<noteq> Some (next_id (dheap s))"
    using ok by (auto simp: pool_ok_iff alloc_block_ok_def)
  show "p = None \<Longrightarrow> \<not> roomy (dheap s) \<and> mem_step {} s e (s\<lparr>dheap := h\<rparr>)"
    using m pool_ok_skip [OF ok]
    by (cases rule: malloc_cases [of n "dheap s"]) (auto simp: mem_step_def foreign_def private_blocks_def contents_kept_same)
  show "p = Some b \<Longrightarrow> pool_ok (dpool s) h \<and> b \<notin> live (dheap s) \<and> live h = insert b (live (dheap s)) \<and>
      fails h = fails (dheap s) \<and> alloc_block (dpool s) \<noteq> Some b \<and> content h = content (dheap s)"
    using m pool_ok_add [OF ok] f na by (cases rule: malloc_cases [of n "dheap s"]) auto
qed

lemma mem_step_free:
  assumes "pool_ok (dpool s) (dheap s)" and "b \<in> private_blocks s"
  shows "mem_step {b} s e (s\<lparr>dheap := free (Some b) (dheap s)\<rparr>)"
  using pool_ok_free [OF assms(1) private_block [OF assms]]
  by (auto simp: mem_step_def foreign_def private_blocks_def free_def contents_kept_same)

lemma mem_step_out:
  assumes s1: "mem_step {} s (defined_result r) s1" and b: "b \<in> private_blocks s"
    and out: "dec_out b (r, s1) = (r', s')"
  shows "mem_step {b} s (defined_result r') s'"
proof -
  have "mem_step {b} s1 True s'" and r: "r' = r"
    using mem_step_free [OF mem_step_ok [OF s1] mem_step_private [OF s1 b]] out
    by (auto simp: dec_out_def)
  moreover have "contents_kept {b} s s'"
    using s1 \<open>mem_step {b} s1 True s'\<close> unfolding mem_step_def
    by (intro contents_kept_trans [of s s1 "{b}" s']) auto
  ultimately show ?thesis using s1 by (auto simp: mem_step_def roomy_def)
qed

lemma store_entries_mem:
  assumes "pool_ok (dpool s) (dheap s)" and "store_entries elem xs s = (r, s1)"
  shows "mem_step {} s True s1"
proof -
  obtain q pool h where a: "amqp_pool_alloc (dpool s) (length xs * elem) (dheap s) = (q, pool, h)"
    by (metis prod_cases3)
  with assms(2) have "s1 = s\<lparr>dpool := pool, dheap := h\<rparr>" by (simp add: store_entries_def)
  with pool_alloc_invariant [OF assms(1) a] pool_alloc_foreign [OF assms(1) a] fails_pool_alloc [OF a]
    pool_alloc_live_content [OF assms(1) a]
  show ?thesis by (simp add: mem_step_def foreign_def private_blocks_def contents_kept_def)
qed

text \<open>
  Growing the temporary array either fails and leaves it alone, or moves it to a block
  that is private again.
\<close>

lemma temp_grow_mem:
  assumes ok: "pool_ok (dpool s) (dheap s)" and b: "block \<in> private_blocks s"
    and g: "temp_grow elem k m block s = (res, s1)"
  shows "res = None \<Longrightarrow> mem_step {} s e s1"
    and "res = Some (b', m') \<Longrightarrow> pool_ok (dpool s1) (dheap s1) \<and> b' \<in> private_blocks s1 \<and>
      (mem_step {b'} s1 e' s2 \<longrightarrow> mem_step {block} s e' s2)"
proof -
  obtain p h where m: "malloc (m * 2 * elem) (dheap s) = (p, h)" by fastforce
  note mm = mem_step_malloc [OF ok m]
  show "res = None \<Longrightarrow> mem_step {} s e s1"
    using g m mm(1) by (auto simp: temp_grow_def realloc_def split: if_splits option.splits)
  assume res: "res = Some (b', m')"
  show "pool_ok (dpool s1) (dheap s1) \<and> b' \<in> private_blocks s1 \<and>
      (mem_step {b'} s1 e' s2 \<longrightarrow> mem_step {block} s e' s2)"
  proof (cases "m \<le> k")
    case False
    with g res ok b show ?thesis by (auto simp: temp_grow_def)
  next
    case True
    with g m res have p: "p = Some b'" and
      s1: "s1 = s\<lparr>dheap := free (Some block) (h\<lparr>content := (content h)(b' := take (m * 2 * elem) (content h block))\<rparr>)\<rparr>"
      by (auto simp: temp_grow_def realloc_def split: option.splits)
    from mm(2) [OF p] have h: "pool_ok (dpool s) h" "b' \<notin> live (dheap s)" "live h = insert b' (live (dheap s))"
      "fails h = fails (dheap s)" "alloc_block (dpool s) \<noteq> Some b'" by auto
    have b'o: "b' \<notin> pool_owned (dpool s)" using pool_owned_live [OF ok] h(2) by auto
    note pb = private_block [OF ok b]
    have "pool_ok (dpool s) (h\<lparr>content := (content h)(b' := take (m * 2 * elem) (content h block))\<rparr>)"
      using h b'o by (intro pool_ok_content) auto
    then have "pool_ok (dpool s1) (dheap s1)"
      unfolding s1 using pb h by (auto intro!: pool_ok_free)
    moreover have "b' \<in> private_blocks s1"
      using h b'o pb by (auto simp: s1 private_blocks_def foreign_def free_def)
    moreover have "mem_step {block} s e' s2" if st: "mem_step {b'} s1 e' s2"
    proof -
      have "contents_kept {block} s s2"
        using st mm(2) [OF p] pb
        by (auto simp: mem_step_def contents_kept_def s1 private_blocks_def foreign_def free_def)
      with st h pb b'o show ?thesis
        by (auto simp: mem_step_def s1 private_blocks_def foreign_def free_def roomy_def)
    qed
    ultimately show ?thesis by blast
  qed
qed

lemma sized_block_mem:
  assumes "loop_mem loop"
  shows "dec_mem (sized_block sz elem m loop)"
proof (rule dec_memI)
  fix v and s :: dec_state and r s'
  assume ok: "pool_ok (dpool s) (dheap s)" and b: "sized_block sz elem m loop v s = (r, s')"
  obtain p h where m: "malloc (m * elem) (dheap s) = (p, h)" by fastforce
  note mm = mem_step_malloc [OF ok m]
  show "mem_step {} s (defined_result r) s'"
  proof (cases "\<exists>block. p = Some block \<and> unat sz + doff s \<le> vlen v")
    case True
    then obtain block where p: "p = Some block" "unat sz + doff s \<le> vlen v" by blast
    let ?s = "s\<lparr>dheap := h\<rparr>"
    from p b m have l: "loop block (doff s + unat sz) v ?s = (r, s')"
      by (simp add: sized_block_def)
    note h = mm(2) [OF p(1)]
    have bo: "block \<notin> pool_owned (dpool s)" using h pool_owned_live [OF ok] by auto
    have "block \<in> private_blocks ?s"
      using h bo by (auto simp: private_blocks_def foreign_def)
    with assms l h have "mem_step {block} ?s (defined_result r) s'"
      by (auto simp: loop_mem_def)
    moreover from this have "contents_kept {} s s'"
      using h bo by (auto simp: mem_step_def contents_kept_def private_blocks_def foreign_def)
    ultimately show ?thesis
      using h bo by (auto simp: mem_step_def private_blocks_def foreign_def roomy_def)
  next
    case False
    with b m mm(1) ok show ?thesis
      by (cases p) (auto simp: sized_block_def mem_step_def contents_kept_same split: if_splits)
  qed
qed

lemma array_loop_mem:
  assumes field: "dec_mem (decode_field_value n)"
    and loop: "\<And>m acc. loop_mem (decode_array_loop n m acc)"
  shows "loop_mem (decode_array_loop (Suc n) m acc)"
  unfolding loop_mem_def
proof (intro allI impI)
  fix block limit v and s :: dec_state and r s'
  assume ok: "pool_ok (dpool s) (dheap s)" and p: "block \<in> private_blocks s"
    and b: "decode_array_loop (Suc n) m acc block limit v s = (r, s')"
  show "mem_step {block} s (defined_result r) s'"
  proof (cases "doff s < limit")
    case False
    obtain r1 s1 where st: "store_entries SIZEOF_FIELD_VALUE acc s = (r1, s1)" by fastforce
    have "dec_out block (r1, s1) = (r, s')"
      using b st False by (simp add: decode_array_loop.simps)
    from mem_step_out [OF mem_step_weaken [OF store_entries_mem [OF ok st]] p this]
    show ?thesis .
  next
    case True
    obtain g s1 where g: "temp_grow SIZEOF_FIELD_VALUE (length acc) m block s = (g, s1)" by fastforce
    note tg = temp_grow_mem [OF ok p g]
    show ?thesis
    proof (cases g)
      case None
      with b True g have "dec_out block (Fails AMQP_STATUS_NO_MEMORY, s1) = (r, s')"
        by (simp add: decode_array_loop.simps)
      with mem_step_out [OF tg(1) [OF None] p] show ?thesis by blast
    next
      case (Some bm)
      obtain b' m' where bm: "bm = (b', m')" by fastforce
      note tg2 = tg(2) [OF Some [unfolded bm]]
      obtain r2 s2 where 2: "decode_field_value n v s1 = (r2, s2)" by fastforce
      have ok1: "pool_ok (dpool s1) (dheap s1)" and p1: "b' \<in> private_blocks s1" using tg2 by auto
      note f = dec_memD [OF field ok1 2]
      have "mem_step {b'} s1 (defined_result r) s'"
      proof (cases r2)
        case (Returns x)
        then have f': "mem_step {} s1 True s2" using f by simp
        have "decode_array_loop n m' (acc @ [x]) b' limit v s2 = (r, s')"
          using b True g Some bm 2 Returns by (simp add: decode_array_loop.simps)
        then have "mem_step {b'} s2 (defined_result r) s'"
          using loop mem_step_ok [OF f'] mem_step_private [OF f' p1] unfolding loop_mem_def by blast
        with f' show ?thesis by (rule mem_step_trans)
      next
        case (Fails err)
        with b True g Some bm 2 have o: "dec_out b' (Fails err :: amqp_array_t dres, s2) = (r, s')"
          by (auto simp: decode_array_loop.simps dec_out_def)
        from mem_step_out [OF _ p1 o] f Fails show ?thesis by simp
      qed (use b True g Some bm 2 f in \<open>auto simp: decode_array_loop.simps intro: mem_step_undefined\<close>)
      with tg2 show ?thesis by blast
    qed
  qed
qed

lemma table_loop_mem:
  assumes field: "dec_mem (decode_field_value n)"
    and loop: "\<And>m acc. loop_mem (decode_table_loop n m acc)"
  shows "loop_mem (decode_table_loop (Suc n) m acc)"
  unfolding loop_mem_def
proof (intro allI impI)
  fix block limit v and s :: dec_state and r s'
  assume ok: "pool_ok (dpool s) (dheap s)" and p: "block \<in> private_blocks s"
    and b: "decode_table_loop (Suc n) m acc block limit v s = (r, s')"
  obtain r0 s0 where 0: "dec_check amqp_decode_8 BAD v s = (r0, s0)" by fastforce
  note k = dec_memD [OF dec_mem_check ok 0]
  note ok0 = mem_step_ok [OF k] and p0 = mem_step_private [OF k p]
  show "mem_step {block} s (defined_result r) s'"
  proof (cases "doff s < limit")
    case False
    obtain r1 s1 where st: "store_entries SIZEOF_TABLE_ENTRY acc s = (r1, s1)" by fastforce
    have "dec_out block (r1, s1) = (r, s')"
      using b st False by (simp add: decode_table_loop.simps)
    from mem_step_out [OF mem_step_weaken [OF store_entries_mem [OF ok st]] p this]
    show ?thesis .
  next
    case True
    show ?thesis
    proof (cases r0)
      case (Fails err)
      with b True 0 have o: "dec_out block (Fails err :: amqp_table_t dres, s0) = (r, s')"
        by (auto simp: decode_table_loop.simps dec_out_def)
      from mem_step_out [OF _ p o] k Fails show ?thesis by simp
    next
      case (Returns keylen)
      let ?entry = "dec_bind (dec_check (amqp_decode_bytes (unat keylen)) BAD) (\<lambda>k.
          dec_bind (decode_field_value n) (\<lambda>x. dec_return (Entry k x)))"
      have entry: "dec_mem ?entry" by (intro dec_mem_intros field)
      obtain g s1 where g: "temp_grow SIZEOF_TABLE_ENTRY (length acc) m block s0 = (g, s1)" by fastforce
      note tg = temp_grow_mem [OF ok0 p0 g]
      have "mem_step {block} s0 (defined_result r) s'"
      proof (cases g)
        case None
        with b True g 0 Returns have "dec_out block (Fails AMQP_STATUS_NO_MEMORY, s1) = (r, s')"
          by (simp add: decode_table_loop.simps)
        with mem_step_out [OF tg(1) [OF None] p0] show ?thesis by blast
      next
        case (Some bm)
        obtain b' m' where bm: "bm = (b', m')" by fastforce
        note tg2 = tg(2) [OF Some [unfolded bm]]
        obtain r2 s2 where 2: "?entry v s1 = (r2, s2)" by fastforce
        have ok1: "pool_ok (dpool s1) (dheap s1)" and p1: "b' \<in> private_blocks s1" using tg2 by auto
        note f = dec_memD [OF entry ok1 2]
        have "mem_step {b'} s1 (defined_result r) s'"
        proof (cases r2)
          case (Returns e)
          then have f': "mem_step {} s1 True s2" using f by simp
          have "decode_table_loop n m' (acc @ [e]) b' limit v s2 = (r, s')"
            using b True g Some bm 2 0 \<open>r0 = Returns keylen\<close> Returns by (simp add: decode_table_loop.simps)
          then have "mem_step {b'} s2 (defined_result r) s'"
            using loop mem_step_ok [OF f'] mem_step_private [OF f' p1] unfolding loop_mem_def by blast
          with f' show ?thesis by (rule mem_step_trans)
        next
          case (Fails err)
          with b True g Some bm 2 0 Returns have o: "dec_out b' (Fails err :: amqp_table_t dres, s2) = (r, s')"
            by (auto simp: decode_table_loop.simps dec_out_def)
          from mem_step_out [OF _ p1 o] f Fails show ?thesis by simp
        qed (use b True g Some bm 2 f 0 Returns in \<open>auto simp: decode_table_loop.simps intro: mem_step_undefined\<close>)
        with tg2 show ?thesis by blast
      qed
      with k Returns show ?thesis by (auto intro: mem_step_trans)
    qed (use b True 0 k in \<open>auto simp: decode_table_loop.simps intro: mem_step_undefined\<close>)
  qed
qed

lemma dec_mem_fuel [dec_mem_intros]: "dec_mem dec_fuel"
  by (rule dec_memI) (auto simp: dec_fuel_def mem_step_def contents_kept_same)

lemma loop_mem_fuel: "loop_mem (\<lambda>block limit. dec_fuel)"
  by (auto simp: loop_mem_def dec_fuel_def mem_step_def contents_kept_same)

lemma dec_mem_simple [dec_mem_intros]: "dec_mem (simple_field p how)" "dec_mem (bytes_field how')"
  unfolding simple_field_def bytes_field_def by (intro dec_mem_intros)+

lemma dec_mem_decode:
  "dec_mem (decode_field_value n)"
  "dec_mem (decode_array n)"
  "dec_mem (decode_table n)"
  "loop_mem (decode_array_loop n m acc)"
  "loop_mem (decode_table_loop n m acc')"
proof (induction n arbitrary: m acc acc')
  case 0
  {
    case 4 show ?case using loop_mem_fuel by (simp add: decode_array_loop.simps)
  next
    case 5 show ?case using loop_mem_fuel by (simp add: decode_table_loop.simps)
  }
qed (auto simp: decode_field_value.simps decode_array.simps decode_table.simps
    intro!: dec_mem_intros sized_block_mem array_loop_mem table_loop_mem
    split: option.splits amqp_field_value_kind_t.splits)

lemma dec_mem_table [dec_mem_intros]: "dec_mem amqp_decode_table"
  using dec_mem_decode(3) unfolding dec_mem_def amqp_decode_table_def by blast

end
