(* ===== verification/Amqp_Methods.thy ===== *)
theory Amqp_Methods
  imports Amqp_Table
begin

text \<open>
  The data of \<open>framing.h\<close>: constants, method numbers, one record per method struct
  and per properties struct, and the tagged unions \<open>amqp_method_t\<close> and
  \<open>amqp_properties_t\<close> of them, with the lookup functions of \<open>amqp_framing.c\<close> that map
  numbers to names.  A field \<open>f\<close> of the struct \<open>s\<close> is written \<open>s.f\<close>.  Structs that only
  hold a dummy field carry no data.
\<close>

section \<open>Constants\<close>

definition AMQP_FRAME_METHOD :: int where "AMQP_FRAME_METHOD = 1"
definition AMQP_FRAME_HEADER :: int where "AMQP_FRAME_HEADER = 2"
definition AMQP_FRAME_BODY :: int where "AMQP_FRAME_BODY = 3"
definition AMQP_FRAME_HEARTBEAT :: int where "AMQP_FRAME_HEARTBEAT = 8"
definition AMQP_FRAME_MIN_SIZE :: int where "AMQP_FRAME_MIN_SIZE = 4096"
definition AMQP_FRAME_END :: int where "AMQP_FRAME_END = 206"
definition AMQP_REPLY_SUCCESS :: int where "AMQP_REPLY_SUCCESS = 200"
definition AMQP_CONTENT_TOO_LARGE :: int where "AMQP_CONTENT_TOO_LARGE = 311"
definition AMQP_NO_ROUTE :: int where "AMQP_NO_ROUTE = 312"
definition AMQP_NO_CONSUMERS :: int where "AMQP_NO_CONSUMERS = 313"
definition AMQP_ACCESS_REFUSED :: int where "AMQP_ACCESS_REFUSED = 403"
definition AMQP_NOT_FOUND :: int where "AMQP_NOT_FOUND = 404"
definition AMQP_RESOURCE_LOCKED :: int where "AMQP_RESOURCE_LOCKED = 405"
definition AMQP_PRECONDITION_FAILED :: int where "AMQP_PRECONDITION_FAILED = 406"
definition AMQP_CONNECTION_FORCED :: int where "AMQP_CONNECTION_FORCED = 320"
definition AMQP_INVALID_PATH :: int where "AMQP_INVALID_PATH = 402"
definition AMQP_FRAME_ERROR :: int where "AMQP_FRAME_ERROR = 501"
definition AMQP_SYNTAX_ERROR :: int where "AMQP_SYNTAX_ERROR = 502"
definition AMQP_COMMAND_INVALID :: int where "AMQP_COMMAND_INVALID = 503"
definition AMQP_CHANNEL_ERROR :: int where "AMQP_CHANNEL_ERROR = 504"
definition AMQP_UNEXPECTED_FRAME :: int where "AMQP_UNEXPECTED_FRAME = 505"
definition AMQP_RESOURCE_ERROR :: int where "AMQP_RESOURCE_ERROR = 506"
definition AMQP_NOT_ALLOWED :: int where "AMQP_NOT_ALLOWED = 530"
definition AMQP_NOT_IMPLEMENTED :: int where "AMQP_NOT_IMPLEMENTED = 540"
definition AMQP_INTERNAL_ERROR :: int where "AMQP_INTERNAL_ERROR = 541"

lemmas constant_numbers =
  AMQP_FRAME_METHOD_def
  AMQP_FRAME_HEADER_def
  AMQP_FRAME_BODY_def
  AMQP_FRAME_HEARTBEAT_def
  AMQP_FRAME_MIN_SIZE_def
  AMQP_FRAME_END_def
  AMQP_REPLY_SUCCESS_def
  AMQP_CONTENT_TOO_LARGE_def
  AMQP_NO_ROUTE_def
  AMQP_NO_CONSUMERS_def
  AMQP_ACCESS_REFUSED_def
  AMQP_NOT_FOUND_def
  AMQP_RESOURCE_LOCKED_def
  AMQP_PRECONDITION_FAILED_def
  AMQP_CONNECTION_FORCED_def
  AMQP_INVALID_PATH_def
  AMQP_FRAME_ERROR_def
  AMQP_SYNTAX_ERROR_def
  AMQP_COMMAND_INVALID_def
  AMQP_CHANNEL_ERROR_def
  AMQP_UNEXPECTED_FRAME_def
  AMQP_RESOURCE_ERROR_def
  AMQP_NOT_ALLOWED_def
  AMQP_NOT_IMPLEMENTED_def
  AMQP_INTERNAL_ERROR_def

definition amqp_constant_name :: "int \<Rightarrow> string" where
  "amqp_constant_name constantNumber =
    (if constantNumber = AMQP_FRAME_METHOD then ''AMQP_FRAME_METHOD''
     else if constantNumber = AMQP_FRAME_HEADER then ''AMQP_FRAME_HEADER''
     else if constantNumber = AMQP_FRAME_BODY then ''AMQP_FRAME_BODY''
     else if constantNumber = AMQP_FRAME_HEARTBEAT then ''AMQP_FRAME_HEARTBEAT''
     else if constantNumber = AMQP_FRAME_MIN_SIZE then ''AMQP_FRAME_MIN_SIZE''
     else if constantNumber = AMQP_FRAME_END then ''AMQP_FRAME_END''
     else if constantNumber = AMQP_REPLY_SUCCESS then ''AMQP_REPLY_SUCCESS''
     else if constantNumber = AMQP_CONTENT_TOO_LARGE then ''AMQP_CONTENT_TOO_LARGE''
     else if constantNumber = AMQP_NO_ROUTE then ''AMQP_NO_ROUTE''
     else if constantNumber = AMQP_NO_CONSUMERS then ''AMQP_NO_CONSUMERS''
     else if constantNumber = AMQP_ACCESS_REFUSED then ''AMQP_ACCESS_REFUSED''
     else if constantNumber = AMQP_NOT_FOUND then ''AMQP_NOT_FOUND''
     else if constantNumber = AMQP_RESOURCE_LOCKED then ''AMQP_RESOURCE_LOCKED''
     else if constantNumber = AMQP_PRECONDITION_FAILED then ''AMQP_PRECONDITION_FAILED''
     else if constantNumber = AMQP_CONNECTION_FORCED then ''AMQP_CONNECTION_FORCED''
     else if constantNumber = AMQP_INVALID_PATH then ''AMQP_INVALID_PATH''
     else if constantNumber = AMQP_FRAME_ERROR then ''AMQP_FRAME_ERROR''
     else if constantNumber = AMQP_SYNTAX_ERROR then ''AMQP_SYNTAX_ERROR''
     else if constantNumber = AMQP_COMMAND_INVALID then ''AMQP_COMMAND_INVALID''
     else if constantNumber = AMQP_CHANNEL_ERROR then ''AMQP_CHANNEL_ERROR''
     else if constantNumber = AMQP_UNEXPECTED_FRAME then ''AMQP_UNEXPECTED_FRAME''
     else if constantNumber = AMQP_RESOURCE_ERROR then ''AMQP_RESOURCE_ERROR''
     else if constantNumber = AMQP_NOT_ALLOWED then ''AMQP_NOT_ALLOWED''
     else if constantNumber = AMQP_NOT_IMPLEMENTED then ''AMQP_NOT_IMPLEMENTED''
     else if constantNumber = AMQP_INTERNAL_ERROR then ''AMQP_INTERNAL_ERROR''
     else ''(unknown)'')"

definition amqp_constant_is_hard_error :: "int \<Rightarrow> amqp_boolean_t" where
  "amqp_constant_is_hard_error constantNumber =
    (if constantNumber \<in> set
       [AMQP_CONNECTION_FORCED,
        AMQP_INVALID_PATH,
        AMQP_FRAME_ERROR,
        AMQP_SYNTAX_ERROR,
        AMQP_COMMAND_INVALID,
        AMQP_CHANNEL_ERROR,
        AMQP_UNEXPECTED_FRAME,
        AMQP_RESOURCE_ERROR,
        AMQP_NOT_ALLOWED,
        AMQP_NOT_IMPLEMENTED,
        AMQP_INTERNAL_ERROR]
     then 1 else 0)"

section \<open>Method numbers\<close>

named_theorems method_numbers "the method numbers"

definition AMQP_CONNECTION_START_METHOD :: amqp_method_number_t where [method_numbers]: "AMQP_CONNECTION_START_METHOD = 0x000A000A"
definition AMQP_CONNECTION_START_OK_METHOD :: amqp_method_number_t where [method_numbers]: "AMQP_CONNECTION_START_OK_METHOD = 0x000A000B"
definition AMQP_CONNECTION_SECURE_METHOD :: amqp_method_number_t where [method_numbers]: "AMQP_CONNECTION_SECURE_METHOD = 0x000A0014"
definition AMQP_CONNECTION_SECURE_OK_METHOD :: amqp_method_number_t where [method_numbers]: "AMQP_CONNECTION_SECURE_OK_METHOD = 0x000A0015"
definition AMQP_CONNECTION_TUNE_METHOD :: amqp_method_number_t where [method_numbers]: "AMQP_CONNECTION_TUNE_METHOD = 0x000A001E"
definition AMQP_CONNECTION_TUNE_OK_METHOD :: amqp_method_number_t where [method_numbers]: "AMQP_CONNECTION_TUNE_OK_METHOD = 0x000A001F"
definition AMQP_CONNECTION_OPEN_METHOD :: amqp_method_number_t where [method_numbers]: "AMQP_CONNECTION_OPEN_METHOD = 0x000A0028"
definition AMQP_CONNECTION_OPEN_OK_METHOD :: amqp_method_number_t where [method_numbers]: "AMQP_CONNECTION_OPEN_OK_METHOD = 0x000A0029"
definition AMQP_CONNECTION_CLOSE_METHOD :: amqp_method_number_t where [method_numbers]: "AMQP_CONNECTION_CLOSE_METHOD = 0x000A0032"
definition AMQP_CONNECTION_CLOSE_OK_METHOD :: amqp_method_number_t where [method_numbers]: "AMQP_CONNECTION_CLOSE_OK_METHOD = 0x000A0033"
definition AMQP_CONNECTION_BLOCKED_METHOD :: amqp_method_number_t where [method_numbers]: "AMQP_CONNECTION_BLOCKED_METHOD = 0x000A003C"
definition AMQP_CONNECTION_UNBLOCKED_METHOD :: amqp_method_number_t where [method_numbers]: "AMQP_CONNECTION_UNBLOCKED_METHOD = 0x000A003D"
definition AMQP_CONNECTION_UPDATE_SECRET_METHOD :: amqp_method_number_t where [method_numbers]: "AMQP_CONNECTION_UPDATE_SECRET_METHOD = 0x000A0046"
definition AMQP_CONNECTION_UPDATE_SECRET_OK_METHOD :: amqp_method_number_t where [method_numbers]: "AMQP_CONNECTION_UPDATE_SECRET_OK_METHOD = 0x000A0047"
definition AMQP_CHANNEL_OPEN_METHOD :: amqp_method_number_t where [method_numbers]: "AMQP_CHANNEL_OPEN_METHOD = 0x0014000A"
definition AMQP_CHANNEL_OPEN_OK_METHOD :: amqp_method_number_t where [method_numbers]: "AMQP_CHANNEL_OPEN_OK_METHOD = 0x0014000B"
definition AMQP_CHANNEL_FLOW_METHOD :: amqp_method_number_t where [method_numbers]: "AMQP_CHANNEL_FLOW_METHOD = 0x00140014"
definition AMQP_CHANNEL_FLOW_OK_METHOD :: amqp_method_number_t where [method_numbers]: "AMQP_CHANNEL_FLOW_OK_METHOD = 0x00140015"
definition AMQP_CHANNEL_CLOSE_METHOD :: amqp_method_number_t where [method_numbers]: "AMQP_CHANNEL_CLOSE_METHOD = 0x00140028"
definition AMQP_CHANNEL_CLOSE_OK_METHOD :: amqp_method_number_t where [method_numbers]: "AMQP_CHANNEL_CLOSE_OK_METHOD = 0x00140029"
definition AMQP_ACCESS_REQUEST_METHOD :: amqp_method_number_t where [method_numbers]: "AMQP_ACCESS_REQUEST_METHOD = 0x001E000A"
definition AMQP_ACCESS_REQUEST_OK_METHOD :: amqp_method_number_t where [method_numbers]: "AMQP_ACCESS_REQUEST_OK_METHOD = 0x001E000B"
definition AMQP_EXCHANGE_DECLARE_METHOD :: amqp_method_number_t where [method_numbers]: "AMQP_EXCHANGE_DECLARE_METHOD = 0x0028000A"
definition AMQP_EXCHANGE_DECLARE_OK_METHOD :: amqp_method_number_t where [method_numbers]: "AMQP_EXCHANGE_DECLARE_OK_METHOD = 0x0028000B"
definition AMQP_EXCHANGE_DELETE_METHOD :: amqp_method_number_t where [method_numbers]: "AMQP_EXCHANGE_DELETE_METHOD = 0x00280014"
definition AMQP_EXCHANGE_DELETE_OK_METHOD :: amqp_method_number_t where [method_numbers]: "AMQP_EXCHANGE_DELETE_OK_METHOD = 0x00280015"
definition AMQP_EXCHANGE_BIND_METHOD :: amqp_method_number_t where [method_numbers]: "AMQP_EXCHANGE_BIND_METHOD = 0x0028001E"
definition AMQP_EXCHANGE_BIND_OK_METHOD :: amqp_method_number_t where [method_numbers]: "AMQP_EXCHANGE_BIND_OK_METHOD = 0x0028001F"
definition AMQP_EXCHANGE_UNBIND_METHOD :: amqp_method_number_t where [method_numbers]: "AMQP_EXCHANGE_UNBIND_METHOD = 0x00280028"
definition AMQP_EXCHANGE_UNBIND_OK_METHOD :: amqp_method_number_t where [method_numbers]: "AMQP_EXCHANGE_UNBIND_OK_METHOD = 0x00280033"
definition AMQP_QUEUE_DECLARE_METHOD :: amqp_method_number_t where [method_numbers]: "AMQP_QUEUE_DECLARE_METHOD = 0x0032000A"
definition AMQP_QUEUE_DECLARE_OK_METHOD :: amqp_method_number_t where [method_numbers]: "AMQP_QUEUE_DECLARE_OK_METHOD = 0x0032000B"
definition AMQP_QUEUE_BIND_METHOD :: amqp_method_number_t where [method_numbers]: "AMQP_QUEUE_BIND_METHOD = 0x00320014"
definition AMQP_QUEUE_BIND_OK_METHOD :: amqp_method_number_t where [method_numbers]: "AMQP_QUEUE_BIND_OK_METHOD = 0x00320015"
definition AMQP_QUEUE_PURGE_METHOD :: amqp_method_number_t where [method_numbers]: "AMQP_QUEUE_PURGE_METHOD = 0x0032001E"
definition AMQP_QUEUE_PURGE_OK_METHOD :: amqp_method_number_t where [method_numbers]: "AMQP_QUEUE_PURGE_OK_METHOD = 0x0032001F"
definition AMQP_QUEUE_DELETE_METHOD :: amqp_method_number_t where [method_numbers]: "AMQP_QUEUE_DELETE_METHOD = 0x00320028"
definition AMQP_QUEUE_DELETE_OK_METHOD :: amqp_method_number_t where [method_numbers]: "AMQP_QUEUE_DELETE_OK_METHOD = 0x00320029"
definition AMQP_QUEUE_UNBIND_METHOD :: amqp_method_number_t where [method_numbers]: "AMQP_QUEUE_UNBIND_METHOD = 0x00320032"
definition AMQP_QUEUE_UNBIND_OK_METHOD :: amqp_method_number_t where [method_numbers]: "AMQP_QUEUE_UNBIND_OK_METHOD = 0x00320033"
definition AMQP_BASIC_QOS_METHOD :: amqp_method_number_t where [method_numbers]: "AMQP_BASIC_QOS_METHOD = 0x003C000A"
definition AMQP_BASIC_QOS_OK_METHOD :: amqp_method_number_t where [method_numbers]: "AMQP_BASIC_QOS_OK_METHOD = 0x003C000B"
definition AMQP_BASIC_CONSUME_METHOD :: amqp_method_number_t where [method_numbers]: "AMQP_BASIC_CONSUME_METHOD = 0x003C0014"
definition AMQP_BASIC_CONSUME_OK_METHOD :: amqp_method_number_t where [method_numbers]: "AMQP_BASIC_CONSUME_OK_METHOD = 0x003C0015"
definition AMQP_BASIC_CANCEL_METHOD :: amqp_method_number_t where [method_numbers]: "AMQP_BASIC_CANCEL_METHOD = 0x003C001E"
definition AMQP_BASIC_CANCEL_OK_METHOD :: amqp_method_number_t where [method_numbers]: "AMQP_BASIC_CANCEL_OK_METHOD = 0x003C001F"
definition AMQP_BASIC_PUBLISH_METHOD :: amqp_method_number_t where [method_numbers]: "AMQP_BASIC_PUBLISH_METHOD = 0x003C0028"
definition AMQP_BASIC_RETURN_METHOD :: amqp_method_number_t where [method_numbers]: "AMQP_BASIC_RETURN_METHOD = 0x003C0032"
definition AMQP_BASIC_DELIVER_METHOD :: amqp_method_number_t where [method_numbers]: "AMQP_BASIC_DELIVER_METHOD = 0x003C003C"
definition AMQP_BASIC_GET_METHOD :: amqp_method_number_t where [method_numbers]: "AMQP_BASIC_GET_METHOD = 0x003C0046"
definition AMQP_BASIC_GET_OK_METHOD :: amqp_method_number_t where [method_numbers]: "AMQP_BASIC_GET_OK_METHOD = 0x003C0047"
definition AMQP_BASIC_GET_EMPTY_METHOD :: amqp_method_number_t where [method_numbers]: "AMQP_BASIC_GET_EMPTY_METHOD = 0x003C0048"
definition AMQP_BASIC_ACK_METHOD :: amqp_method_number_t where [method_numbers]: "AMQP_BASIC_ACK_METHOD = 0x003C0050"
definition AMQP_BASIC_REJECT_METHOD :: amqp_method_number_t where [method_numbers]: "AMQP_BASIC_REJECT_METHOD = 0x003C005A"
definition AMQP_BASIC_RECOVER_ASYNC_METHOD :: amqp_method_number_t where [method_numbers]: "AMQP_BASIC_RECOVER_ASYNC_METHOD = 0x003C0064"
definition AMQP_BASIC_RECOVER_METHOD :: amqp_method_number_t where [method_numbers]: "AMQP_BASIC_RECOVER_METHOD = 0x003C006E"
definition AMQP_BASIC_RECOVER_OK_METHOD :: amqp_method_number_t where [method_numbers]: "AMQP_BASIC_RECOVER_OK_METHOD = 0x003C006F"
definition AMQP_BASIC_NACK_METHOD :: amqp_method_number_t where [method_numbers]: "AMQP_BASIC_NACK_METHOD = 0x003C0078"
definition AMQP_TX_SELECT_METHOD :: amqp_method_number_t where [method_numbers]: "AMQP_TX_SELECT_METHOD = 0x005A000A"
definition AMQP_TX_SELECT_OK_METHOD :: amqp_method_number_t where [method_numbers]: "AMQP_TX_SELECT_OK_METHOD = 0x005A000B"
definition AMQP_TX_COMMIT_METHOD :: amqp_method_number_t where [method_numbers]: "AMQP_TX_COMMIT_METHOD = 0x005A0014"
definition AMQP_TX_COMMIT_OK_METHOD :: amqp_method_number_t where [method_numbers]: "AMQP_TX_COMMIT_OK_METHOD = 0x005A0015"
definition AMQP_TX_ROLLBACK_METHOD :: amqp_method_number_t where [method_numbers]: "AMQP_TX_ROLLBACK_METHOD = 0x005A001E"
definition AMQP_TX_ROLLBACK_OK_METHOD :: amqp_method_number_t where [method_numbers]: "AMQP_TX_ROLLBACK_OK_METHOD = 0x005A001F"
definition AMQP_CONFIRM_SELECT_METHOD :: amqp_method_number_t where [method_numbers]: "AMQP_CONFIRM_SELECT_METHOD = 0x0055000A"
definition AMQP_CONFIRM_SELECT_OK_METHOD :: amqp_method_number_t where [method_numbers]: "AMQP_CONFIRM_SELECT_OK_METHOD = 0x0055000B"

definition all_method_names :: "(amqp_method_number_t \<times> string) list" where
  "all_method_names =
    [(AMQP_CONNECTION_START_METHOD, ''AMQP_CONNECTION_START_METHOD''),
     (AMQP_CONNECTION_START_OK_METHOD, ''AMQP_CONNECTION_START_OK_METHOD''),
     (AMQP_CONNECTION_SECURE_METHOD, ''AMQP_CONNECTION_SECURE_METHOD''),
     (AMQP_CONNECTION_SECURE_OK_METHOD, ''AMQP_CONNECTION_SECURE_OK_METHOD''),
     (AMQP_CONNECTION_TUNE_METHOD, ''AMQP_CONNECTION_TUNE_METHOD''),
     (AMQP_CONNECTION_TUNE_OK_METHOD, ''AMQP_CONNECTION_TUNE_OK_METHOD''),
     (AMQP_CONNECTION_OPEN_METHOD, ''AMQP_CONNECTION_OPEN_METHOD''),
     (AMQP_CONNECTION_OPEN_OK_METHOD, ''AMQP_CONNECTION_OPEN_OK_METHOD''),
     (AMQP_CONNECTION_CLOSE_METHOD, ''AMQP_CONNECTION_CLOSE_METHOD''),
     (AMQP_CONNECTION_CLOSE_OK_METHOD, ''AMQP_CONNECTION_CLOSE_OK_METHOD''),
     (AMQP_CONNECTION_BLOCKED_METHOD, ''AMQP_CONNECTION_BLOCKED_METHOD''),
     (AMQP_CONNECTION_UNBLOCKED_METHOD, ''AMQP_CONNECTION_UNBLOCKED_METHOD''),
     (AMQP_CONNECTION_UPDATE_SECRET_METHOD, ''AMQP_CONNECTION_UPDATE_SECRET_METHOD''),
     (AMQP_CONNECTION_UPDATE_SECRET_OK_METHOD, ''AMQP_CONNECTION_UPDATE_SECRET_OK_METHOD''),
     (AMQP_CHANNEL_OPEN_METHOD, ''AMQP_CHANNEL_OPEN_METHOD''),
     (AMQP_CHANNEL_OPEN_OK_METHOD, ''AMQP_CHANNEL_OPEN_OK_METHOD''),
     (AMQP_CHANNEL_FLOW_METHOD, ''AMQP_CHANNEL_FLOW_METHOD''),
     (AMQP_CHANNEL_FLOW_OK_METHOD, ''AMQP_CHANNEL_FLOW_OK_METHOD''),
     (AMQP_CHANNEL_CLOSE_METHOD, ''AMQP_CHANNEL_CLOSE_METHOD''),
     (AMQP_CHANNEL_CLOSE_OK_METHOD, ''AMQP_CHANNEL_CLOSE_OK_METHOD''),
     (AMQP_ACCESS_REQUEST_METHOD, ''AMQP_ACCESS_REQUEST_METHOD''),
     (AMQP_ACCESS_REQUEST_OK_METHOD, ''AMQP_ACCESS_REQUEST_OK_METHOD''),
     (AMQP_EXCHANGE_DECLARE_METHOD, ''AMQP_EXCHANGE_DECLARE_METHOD''),
     (AMQP_EXCHANGE_DECLARE_OK_METHOD, ''AMQP_EXCHANGE_DECLARE_OK_METHOD''),
     (AMQP_EXCHANGE_DELETE_METHOD, ''AMQP_EXCHANGE_DELETE_METHOD''),
     (AMQP_EXCHANGE_DELETE_OK_METHOD, ''AMQP_EXCHANGE_DELETE_OK_METHOD''),
     (AMQP_EXCHANGE_BIND_METHOD, ''AMQP_EXCHANGE_BIND_METHOD''),
     (AMQP_EXCHANGE_BIND_OK_METHOD, ''AMQP_EXCHANGE_BIND_OK_METHOD''),
     (AMQP_EXCHANGE_UNBIND_METHOD, ''AMQP_EXCHANGE_UNBIND_METHOD''),
     (AMQP_EXCHANGE_UNBIND_OK_METHOD, ''AMQP_EXCHANGE_UNBIND_OK_METHOD''),
     (AMQP_QUEUE_DECLARE_METHOD, ''AMQP_QUEUE_DECLARE_METHOD''),
     (AMQP_QUEUE_DECLARE_OK_METHOD, ''AMQP_QUEUE_DECLARE_OK_METHOD''),
     (AMQP_QUEUE_BIND_METHOD, ''AMQP_QUEUE_BIND_METHOD''),
     (AMQP_QUEUE_BIND_OK_METHOD, ''AMQP_QUEUE_BIND_OK_METHOD''),
     (AMQP_QUEUE_PURGE_METHOD, ''AMQP_QUEUE_PURGE_METHOD''),
     (AMQP_QUEUE_PURGE_OK_METHOD, ''AMQP_QUEUE_PURGE_OK_METHOD''),
     (AMQP_QUEUE_DELETE_METHOD, ''AMQP_QUEUE_DELETE_METHOD''),
     (AMQP_QUEUE_DELETE_OK_METHOD, ''AMQP_QUEUE_DELETE_OK_METHOD''),
     (AMQP_QUEUE_UNBIND_METHOD, ''AMQP_QUEUE_UNBIND_METHOD''),
     (AMQP_QUEUE_UNBIND_OK_METHOD, ''AMQP_QUEUE_UNBIND_OK_METHOD''),
     (AMQP_BASIC_QOS_METHOD, ''AMQP_BASIC_QOS_METHOD''),
     (AMQP_BASIC_QOS_OK_METHOD, ''AMQP_BASIC_QOS_OK_METHOD''),
     (AMQP_BASIC_CONSUME_METHOD, ''AMQP_BASIC_CONSUME_METHOD''),
     (AMQP_BASIC_CONSUME_OK_METHOD, ''AMQP_BASIC_CONSUME_OK_METHOD''),
     (AMQP_BASIC_CANCEL_METHOD, ''AMQP_BASIC_CANCEL_METHOD''),
     (AMQP_BASIC_CANCEL_OK_METHOD, ''AMQP_BASIC_CANCEL_OK_METHOD''),
     (AMQP_BASIC_PUBLISH_METHOD, ''AMQP_BASIC_PUBLISH_METHOD''),
     (AMQP_BASIC_RETURN_METHOD, ''AMQP_BASIC_RETURN_METHOD''),
     (AMQP_BASIC_DELIVER_METHOD, ''AMQP_BASIC_DELIVER_METHOD''),
     (AMQP_BASIC_GET_METHOD, ''AMQP_BASIC_GET_METHOD''),
     (AMQP_BASIC_GET_OK_METHOD, ''AMQP_BASIC_GET_OK_METHOD''),
     (AMQP_BASIC_GET_EMPTY_METHOD, ''AMQP_BASIC_GET_EMPTY_METHOD''),
     (AMQP_BASIC_ACK_METHOD, ''AMQP_BASIC_ACK_METHOD''),
     (AMQP_BASIC_REJECT_METHOD, ''AMQP_BASIC_REJECT_METHOD''),
     (AMQP_BASIC_RECOVER_ASYNC_METHOD, ''AMQP_BASIC_RECOVER_ASYNC_METHOD''),
     (AMQP_BASIC_RECOVER_METHOD, ''AMQP_BASIC_RECOVER_METHOD''),
     (AMQP_BASIC_RECOVER_OK_METHOD, ''AMQP_BASIC_RECOVER_OK_METHOD''),
     (AMQP_BASIC_NACK_METHOD, ''AMQP_BASIC_NACK_METHOD''),
     (AMQP_TX_SELECT_METHOD, ''AMQP_TX_SELECT_METHOD''),
     (AMQP_TX_SELECT_OK_METHOD, ''AMQP_TX_SELECT_OK_METHOD''),
     (AMQP_TX_COMMIT_METHOD, ''AMQP_TX_COMMIT_METHOD''),
     (AMQP_TX_COMMIT_OK_METHOD, ''AMQP_TX_COMMIT_OK_METHOD''),
     (AMQP_TX_ROLLBACK_METHOD, ''AMQP_TX_ROLLBACK_METHOD''),
     (AMQP_TX_ROLLBACK_OK_METHOD, ''AMQP_TX_ROLLBACK_OK_METHOD''),
     (AMQP_CONFIRM_SELECT_METHOD, ''AMQP_CONFIRM_SELECT_METHOD''),
     (AMQP_CONFIRM_SELECT_OK_METHOD, ''AMQP_CONFIRM_SELECT_OK_METHOD'')]"

text \<open>The \<open>switch\<close> of \<open>amqp_method_name\<close>; \<open>None\<close> is NULL.\<close>

definition amqp_method_name :: "amqp_method_number_t \<Rightarrow> string option" where
  "amqp_method_name methodNumber = map_of all_method_names methodNumber"

definition amqp_method_has_content :: "amqp_method_number_t \<Rightarrow> amqp_boolean_t" where
  "amqp_method_has_content methodNumber =
    (if methodNumber \<in> set
       [AMQP_BASIC_PUBLISH_METHOD,
        AMQP_BASIC_RETURN_METHOD,
        AMQP_BASIC_DELIVER_METHOD,
        AMQP_BASIC_GET_OK_METHOD]
     then 1 else 0)"

section \<open>Method structs\<close>

record amqp_connection_start_t =
  version_major :: u8
  version_minor :: u8
  server_properties :: amqp_table_t
  mechanisms :: amqp_bytes_t
  locales :: amqp_bytes_t

record amqp_connection_start_ok_t =
  client_properties :: amqp_table_t
  mechanism :: amqp_bytes_t
  response :: amqp_bytes_t
  "locale" :: amqp_bytes_t

record amqp_connection_secure_t =
  challenge :: amqp_bytes_t

record amqp_connection_secure_ok_t =
  response :: amqp_bytes_t

record amqp_connection_tune_t =
  channel_max :: u16
  frame_max :: u32
  heartbeat :: u16

record amqp_connection_tune_ok_t =
  channel_max :: u16
  frame_max :: u32
  heartbeat :: u16

record amqp_connection_open_t =
  virtual_host :: amqp_bytes_t
  capabilities :: amqp_bytes_t
  insist :: amqp_boolean_t

record amqp_connection_open_ok_t =
  known_hosts :: amqp_bytes_t

record amqp_connection_close_t =
  reply_code :: u16
  reply_text :: amqp_bytes_t
  class_id :: u16
  method_id :: u16

record amqp_connection_blocked_t =
  reason :: amqp_bytes_t

record amqp_connection_update_secret_t =
  new_secret :: amqp_bytes_t
  reason :: amqp_bytes_t

record amqp_channel_open_t =
  out_of_band :: amqp_bytes_t

record amqp_channel_open_ok_t =
  channel_id :: amqp_bytes_t

record amqp_channel_flow_t =
  active :: amqp_boolean_t

record amqp_channel_flow_ok_t =
  active :: amqp_boolean_t

record amqp_channel_close_t =
  reply_code :: u16
  reply_text :: amqp_bytes_t
  class_id :: u16
  method_id :: u16

record amqp_access_request_t =
  realm :: amqp_bytes_t
  exclusive :: amqp_boolean_t
  "passive" :: amqp_boolean_t
  active :: amqp_boolean_t
  "write" :: amqp_boolean_t
  read :: amqp_boolean_t

record amqp_access_request_ok_t =
  ticket :: u16

record amqp_exchange_declare_t =
  ticket :: u16
  exchange :: amqp_bytes_t
  "type" :: amqp_bytes_t
  "passive" :: amqp_boolean_t
  durable :: amqp_boolean_t
  auto_delete :: amqp_boolean_t
  "internal" :: amqp_boolean_t
  nowait :: amqp_boolean_t
  arguments :: amqp_table_t

record amqp_exchange_delete_t =
  ticket :: u16
  exchange :: amqp_bytes_t
  if_unused :: amqp_boolean_t
  nowait :: amqp_boolean_t

record amqp_exchange_bind_t =
  ticket :: u16
  destination :: amqp_bytes_t
  source :: amqp_bytes_t
  routing_key :: amqp_bytes_t
  nowait :: amqp_boolean_t
  arguments :: amqp_table_t

record amqp_exchange_unbind_t =
  ticket :: u16
  destination :: amqp_bytes_t
  source :: amqp_bytes_t
  routing_key :: amqp_bytes_t
  nowait :: amqp_boolean_t
  arguments :: amqp_table_t

record amqp_queue_declare_t =
  ticket :: u16
  queue :: amqp_bytes_t
  "passive" :: amqp_boolean_t
  durable :: amqp_boolean_t
  exclusive :: amqp_boolean_t
  auto_delete :: amqp_boolean_t
  nowait :: amqp_boolean_t
  arguments :: amqp_table_t

record amqp_queue_declare_ok_t =
  queue :: amqp_bytes_t
  message_count :: u32
  consumer_count :: u32

record amqp_queue_bind_t =
  ticket :: u16
  queue :: amqp_bytes_t
  exchange :: amqp_bytes_t
  routing_key :: amqp_bytes_t
  nowait :: amqp_boolean_t
  arguments :: amqp_table_t

record amqp_queue_purge_t =
  ticket :: u16
  queue :: amqp_bytes_t
  nowait :: amqp_boolean_t

record amqp_queue_purge_ok_t =
  message_count :: u32

record amqp_queue_delete_t =
  ticket :: u16
  queue :: amqp_bytes_t
  if_unused :: amqp_boolean_t
  if_empty :: amqp_boolean_t
  nowait :: amqp_boolean_t

record amqp_queue_delete_ok_t =
  message_count :: u32

record amqp_queue_unbind_t =
  ticket :: u16
  queue :: amqp_bytes_t
  exchange :: amqp_bytes_t
  routing_key :: amqp_bytes_t
  arguments :: amqp_table_t

record amqp_basic_qos_t =
  prefetch_size :: u32
  prefetch_count :: u16
  "global" :: amqp_boolean_t

record amqp_basic_consume_t =
  ticket :: u16
  queue :: amqp_bytes_t
  consumer_tag :: amqp_bytes_t
  no_local :: amqp_boolean_t
  no_ack :: amqp_boolean_t
  exclusive :: amqp_boolean_t
  nowait :: amqp_boolean_t
  arguments :: amqp_table_t

record amqp_basic_consume_ok_t =
  consumer_tag :: amqp_bytes_t

record amqp_basic_cancel_t =
  consumer_tag :: amqp_bytes_t
  nowait :: amqp_boolean_t

record amqp_basic_cancel_ok_t =
  consumer_tag :: amqp_bytes_t

record amqp_basic_publish_t =
  ticket :: u16
  exchange :: amqp_bytes_t
  routing_key :: amqp_bytes_t
  mandatory :: amqp_boolean_t
  immediate :: amqp_boolean_t

record amqp_basic_return_t =
  reply_code :: u16
  reply_text :: amqp_bytes_t
  exchange :: amqp_bytes_t
  routing_key :: amqp_bytes_t

record amqp_basic_deliver_t =
  consumer_tag :: amqp_bytes_t
  delivery_tag :: u64
  redelivered :: amqp_boolean_t
  exchange :: amqp_bytes_t
  routing_key :: amqp_bytes_t

record amqp_basic_get_t =
  ticket :: u16
  queue :: amqp_bytes_t
  no_ack :: amqp_boolean_t

record amqp_basic_get_ok_t =
  delivery_tag :: u64
  redelivered :: amqp_boolean_t
  exchange :: amqp_bytes_t
  routing_key :: amqp_bytes_t
  message_count :: u32

record amqp_basic_get_empty_t =
  cluster_id :: amqp_bytes_t

record amqp_basic_ack_t =
  delivery_tag :: u64
  multiple :: amqp_boolean_t

record amqp_basic_reject_t =
  delivery_tag :: u64
  requeue :: amqp_boolean_t

record amqp_basic_recover_async_t =
  requeue :: amqp_boolean_t

record amqp_basic_recover_t =
  requeue :: amqp_boolean_t

record amqp_basic_nack_t =
  delivery_tag :: u64
  multiple :: amqp_boolean_t
  requeue :: amqp_boolean_t

record amqp_confirm_select_t =
  nowait :: amqp_boolean_t

text \<open>
  A method: its number selects the struct that \<open>decoded\<close> points to.  \<open>M_unknown\<close> is a
  number \<open>amqp_framing.c\<close> does not know.
\<close>

datatype (plugins only: size code) amqp_method_t =
    M_connection_start amqp_connection_start_t
  | M_connection_start_ok amqp_connection_start_ok_t
  | M_connection_secure amqp_connection_secure_t
  | M_connection_secure_ok amqp_connection_secure_ok_t
  | M_connection_tune amqp_connection_tune_t
  | M_connection_tune_ok amqp_connection_tune_ok_t
  | M_connection_open amqp_connection_open_t
  | M_connection_open_ok amqp_connection_open_ok_t
  | M_connection_close amqp_connection_close_t
  | M_connection_close_ok
  | M_connection_blocked amqp_connection_blocked_t
  | M_connection_unblocked
  | M_connection_update_secret amqp_connection_update_secret_t
  | M_connection_update_secret_ok
  | M_channel_open amqp_channel_open_t
  | M_channel_open_ok amqp_channel_open_ok_t
  | M_channel_flow amqp_channel_flow_t
  | M_channel_flow_ok amqp_channel_flow_ok_t
  | M_channel_close amqp_channel_close_t
  | M_channel_close_ok
  | M_access_request amqp_access_request_t
  | M_access_request_ok amqp_access_request_ok_t
  | M_exchange_declare amqp_exchange_declare_t
  | M_exchange_declare_ok
  | M_exchange_delete amqp_exchange_delete_t
  | M_exchange_delete_ok
  | M_exchange_bind amqp_exchange_bind_t
  | M_exchange_bind_ok
  | M_exchange_unbind amqp_exchange_unbind_t
  | M_exchange_unbind_ok
  | M_queue_declare amqp_queue_declare_t
  | M_queue_declare_ok amqp_queue_declare_ok_t
  | M_queue_bind amqp_queue_bind_t
  | M_queue_bind_ok
  | M_queue_purge amqp_queue_purge_t
  | M_queue_purge_ok amqp_queue_purge_ok_t
  | M_queue_delete amqp_queue_delete_t
  | M_queue_delete_ok amqp_queue_delete_ok_t
  | M_queue_unbind amqp_queue_unbind_t
  | M_queue_unbind_ok
  | M_basic_qos amqp_basic_qos_t
  | M_basic_qos_ok
  | M_basic_consume amqp_basic_consume_t
  | M_basic_consume_ok amqp_basic_consume_ok_t
  | M_basic_cancel amqp_basic_cancel_t
  | M_basic_cancel_ok amqp_basic_cancel_ok_t
  | M_basic_publish amqp_basic_publish_t
  | M_basic_return amqp_basic_return_t
  | M_basic_deliver amqp_basic_deliver_t
  | M_basic_get amqp_basic_get_t
  | M_basic_get_ok amqp_basic_get_ok_t
  | M_basic_get_empty amqp_basic_get_empty_t
  | M_basic_ack amqp_basic_ack_t
  | M_basic_reject amqp_basic_reject_t
  | M_basic_recover_async amqp_basic_recover_async_t
  | M_basic_recover amqp_basic_recover_t
  | M_basic_recover_ok
  | M_basic_nack amqp_basic_nack_t
  | M_tx_select
  | M_tx_select_ok
  | M_tx_commit
  | M_tx_commit_ok
  | M_tx_rollback
  | M_tx_rollback_ok
  | M_confirm_select amqp_confirm_select_t
  | M_confirm_select_ok
  | M_unknown amqp_method_number_t

primrec method_number :: "amqp_method_t \<Rightarrow> amqp_method_number_t" where
  "method_number (M_connection_start _) = AMQP_CONNECTION_START_METHOD"
| "method_number (M_connection_start_ok _) = AMQP_CONNECTION_START_OK_METHOD"
| "method_number (M_connection_secure _) = AMQP_CONNECTION_SECURE_METHOD"
| "method_number (M_connection_secure_ok _) = AMQP_CONNECTION_SECURE_OK_METHOD"
| "method_number (M_connection_tune _) = AMQP_CONNECTION_TUNE_METHOD"
| "method_number (M_connection_tune_ok _) = AMQP_CONNECTION_TUNE_OK_METHOD"
| "method_number (M_connection_open _) = AMQP_CONNECTION_OPEN_METHOD"
| "method_number (M_connection_open_ok _) = AMQP_CONNECTION_OPEN_OK_METHOD"
| "method_number (M_connection_close _) = AMQP_CONNECTION_CLOSE_METHOD"
| "method_number M_connection_close_ok = AMQP_CONNECTION_CLOSE_OK_METHOD"
| "method_number (M_connection_blocked _) = AMQP_CONNECTION_BLOCKED_METHOD"
| "method_number M_connection_unblocked = AMQP_CONNECTION_UNBLOCKED_METHOD"
| "method_number (M_connection_update_secret _) = AMQP_CONNECTION_UPDATE_SECRET_METHOD"
| "method_number M_connection_update_secret_ok = AMQP_CONNECTION_UPDATE_SECRET_OK_METHOD"
| "method_number (M_channel_open _) = AMQP_CHANNEL_OPEN_METHOD"
| "method_number (M_channel_open_ok _) = AMQP_CHANNEL_OPEN_OK_METHOD"
| "method_number (M_channel_flow _) = AMQP_CHANNEL_FLOW_METHOD"
| "method_number (M_channel_flow_ok _) = AMQP_CHANNEL_FLOW_OK_METHOD"
| "method_number (M_channel_close _) = AMQP_CHANNEL_CLOSE_METHOD"
| "method_number M_channel_close_ok = AMQP_CHANNEL_CLOSE_OK_METHOD"
| "method_number (M_access_request _) = AMQP_ACCESS_REQUEST_METHOD"
| "method_number (M_access_request_ok _) = AMQP_ACCESS_REQUEST_OK_METHOD"
| "method_number (M_exchange_declare _) = AMQP_EXCHANGE_DECLARE_METHOD"
| "method_number M_exchange_declare_ok = AMQP_EXCHANGE_DECLARE_OK_METHOD"
| "method_number (M_exchange_delete _) = AMQP_EXCHANGE_DELETE_METHOD"
| "method_number M_exchange_delete_ok = AMQP_EXCHANGE_DELETE_OK_METHOD"
| "method_number (M_exchange_bind _) = AMQP_EXCHANGE_BIND_METHOD"
| "method_number M_exchange_bind_ok = AMQP_EXCHANGE_BIND_OK_METHOD"
| "method_number (M_exchange_unbind _) = AMQP_EXCHANGE_UNBIND_METHOD"
| "method_number M_exchange_unbind_ok = AMQP_EXCHANGE_UNBIND_OK_METHOD"
| "method_number (M_queue_declare _) = AMQP_QUEUE_DECLARE_METHOD"
| "method_number (M_queue_declare_ok _) = AMQP_QUEUE_DECLARE_OK_METHOD"
| "method_number (M_queue_bind _) = AMQP_QUEUE_BIND_METHOD"
| "method_number M_queue_bind_ok = AMQP_QUEUE_BIND_OK_METHOD"
| "method_number (M_queue_purge _) = AMQP_QUEUE_PURGE_METHOD"
| "method_number (M_queue_purge_ok _) = AMQP_QUEUE_PURGE_OK_METHOD"
| "method_number (M_queue_delete _) = AMQP_QUEUE_DELETE_METHOD"
| "method_number (M_queue_delete_ok _) = AMQP_QUEUE_DELETE_OK_METHOD"
| "method_number (M_queue_unbind _) = AMQP_QUEUE_UNBIND_METHOD"
| "method_number M_queue_unbind_ok = AMQP_QUEUE_UNBIND_OK_METHOD"
| "method_number (M_basic_qos _) = AMQP_BASIC_QOS_METHOD"
| "method_number M_basic_qos_ok = AMQP_BASIC_QOS_OK_METHOD"
| "method_number (M_basic_consume _) = AMQP_BASIC_CONSUME_METHOD"
| "method_number (M_basic_consume_ok _) = AMQP_BASIC_CONSUME_OK_METHOD"
| "method_number (M_basic_cancel _) = AMQP_BASIC_CANCEL_METHOD"
| "method_number (M_basic_cancel_ok _) = AMQP_BASIC_CANCEL_OK_METHOD"
| "method_number (M_basic_publish _) = AMQP_BASIC_PUBLISH_METHOD"
| "method_number (M_basic_return _) = AMQP_BASIC_RETURN_METHOD"
| "method_number (M_basic_deliver _) = AMQP_BASIC_DELIVER_METHOD"
| "method_number (M_basic_get _) = AMQP_BASIC_GET_METHOD"
| "method_number (M_basic_get_ok _) = AMQP_BASIC_GET_OK_METHOD"
| "method_number (M_basic_get_empty _) = AMQP_BASIC_GET_EMPTY_METHOD"
| "method_number (M_basic_ack _) = AMQP_BASIC_ACK_METHOD"
| "method_number (M_basic_reject _) = AMQP_BASIC_REJECT_METHOD"
| "method_number (M_basic_recover_async _) = AMQP_BASIC_RECOVER_ASYNC_METHOD"
| "method_number (M_basic_recover _) = AMQP_BASIC_RECOVER_METHOD"
| "method_number M_basic_recover_ok = AMQP_BASIC_RECOVER_OK_METHOD"
| "method_number (M_basic_nack _) = AMQP_BASIC_NACK_METHOD"
| "method_number M_tx_select = AMQP_TX_SELECT_METHOD"
| "method_number M_tx_select_ok = AMQP_TX_SELECT_OK_METHOD"
| "method_number M_tx_commit = AMQP_TX_COMMIT_METHOD"
| "method_number M_tx_commit_ok = AMQP_TX_COMMIT_OK_METHOD"
| "method_number M_tx_rollback = AMQP_TX_ROLLBACK_METHOD"
| "method_number M_tx_rollback_ok = AMQP_TX_ROLLBACK_OK_METHOD"
| "method_number (M_confirm_select _) = AMQP_CONFIRM_SELECT_METHOD"
| "method_number M_confirm_select_ok = AMQP_CONFIRM_SELECT_OK_METHOD"
| "method_number (M_unknown n) = n"

section \<open>Properties\<close>

text \<open>Only the class basic has properties; the others hold the flags word.\<close>

definition AMQP_BASIC_CONTENT_TYPE_FLAG :: amqp_flags_t where "AMQP_BASIC_CONTENT_TYPE_FLAG = push_bit 15 1"
definition AMQP_BASIC_CONTENT_ENCODING_FLAG :: amqp_flags_t where "AMQP_BASIC_CONTENT_ENCODING_FLAG = push_bit 14 1"
definition AMQP_BASIC_HEADERS_FLAG :: amqp_flags_t where "AMQP_BASIC_HEADERS_FLAG = push_bit 13 1"
definition AMQP_BASIC_DELIVERY_MODE_FLAG :: amqp_flags_t where "AMQP_BASIC_DELIVERY_MODE_FLAG = push_bit 12 1"
definition AMQP_BASIC_PRIORITY_FLAG :: amqp_flags_t where "AMQP_BASIC_PRIORITY_FLAG = push_bit 11 1"
definition AMQP_BASIC_CORRELATION_ID_FLAG :: amqp_flags_t where "AMQP_BASIC_CORRELATION_ID_FLAG = push_bit 10 1"
definition AMQP_BASIC_REPLY_TO_FLAG :: amqp_flags_t where "AMQP_BASIC_REPLY_TO_FLAG = push_bit 9 1"
definition AMQP_BASIC_EXPIRATION_FLAG :: amqp_flags_t where "AMQP_BASIC_EXPIRATION_FLAG = push_bit 8 1"
definition AMQP_BASIC_MESSAGE_ID_FLAG :: amqp_flags_t where "AMQP_BASIC_MESSAGE_ID_FLAG = push_bit 7 1"
definition AMQP_BASIC_TIMESTAMP_FLAG :: amqp_flags_t where "AMQP_BASIC_TIMESTAMP_FLAG = push_bit 6 1"
definition AMQP_BASIC_TYPE_FLAG :: amqp_flags_t where "AMQP_BASIC_TYPE_FLAG = push_bit 5 1"
definition AMQP_BASIC_USER_ID_FLAG :: amqp_flags_t where "AMQP_BASIC_USER_ID_FLAG = push_bit 4 1"
definition AMQP_BASIC_APP_ID_FLAG :: amqp_flags_t where "AMQP_BASIC_APP_ID_FLAG = push_bit 3 1"
definition AMQP_BASIC_CLUSTER_ID_FLAG :: amqp_flags_t where "AMQP_BASIC_CLUSTER_ID_FLAG = push_bit 2 1"

lemmas basic_flags =
  AMQP_BASIC_CONTENT_TYPE_FLAG_def
  AMQP_BASIC_CONTENT_ENCODING_FLAG_def
  AMQP_BASIC_HEADERS_FLAG_def
  AMQP_BASIC_DELIVERY_MODE_FLAG_def
  AMQP_BASIC_PRIORITY_FLAG_def
  AMQP_BASIC_CORRELATION_ID_FLAG_def
  AMQP_BASIC_REPLY_TO_FLAG_def
  AMQP_BASIC_EXPIRATION_FLAG_def
  AMQP_BASIC_MESSAGE_ID_FLAG_def
  AMQP_BASIC_TIMESTAMP_FLAG_def
  AMQP_BASIC_TYPE_FLAG_def
  AMQP_BASIC_USER_ID_FLAG_def
  AMQP_BASIC_APP_ID_FLAG_def
  AMQP_BASIC_CLUSTER_ID_FLAG_def

record amqp_basic_properties_t =
  props_flags :: amqp_flags_t
  content_type :: amqp_bytes_t
  content_encoding :: amqp_bytes_t
  headers :: amqp_table_t
  delivery_mode :: u8
  priority :: u8
  correlation_id :: amqp_bytes_t
  reply_to :: amqp_bytes_t
  expiration :: amqp_bytes_t
  message_id :: amqp_bytes_t
  timestamp :: u64
  "type" :: amqp_bytes_t
  user_id :: amqp_bytes_t
  app_id :: amqp_bytes_t
  cluster_id :: amqp_bytes_t

datatype amqp_properties_t =
    P_connection amqp_flags_t
  | P_channel amqp_flags_t
  | P_access amqp_flags_t
  | P_exchange amqp_flags_t
  | P_queue amqp_flags_t
  | P_basic amqp_basic_properties_t
  | P_tx amqp_flags_t
  | P_confirm amqp_flags_t

end
