(* ===== verification/Amqp_Time.thy ===== *)
theory Amqp_Time
  imports Amqp_Status
begin

text \<open>
  Deadlines (\<open>amqp_time.c\<close>): points in time as 64-bit counts of nanoseconds of the
  monotonic clock, where the largest value means never.  The reading of the clock at
  the call is the argument \<open>now_ns\<close>, 0 when it failed.
\<close>

definition AMQP_NS_PER_S :: u64 where "AMQP_NS_PER_S = 1000000000"
definition AMQP_NS_PER_MS :: u64 where "AMQP_NS_PER_MS = 1000000"
definition AMQP_NS_PER_US :: u64 where "AMQP_NS_PER_US = 1000"

record timeval =
  tv_sec :: int
  tv_usec :: int

record amqp_time_t =
  time_point_ns :: u64

text \<open>The POSIX clock: \<open>clock_gettime\<close> yields seconds and nanoseconds or fails.\<close>

definition amqp_get_monotonic_timestamp :: "(int \<times> int) option \<Rightarrow> u64" where
  "amqp_get_monotonic_timestamp tp =
    (case tp of
       None \<Rightarrow> 0
     | Some (sec, nsec) \<Rightarrow> of_int sec * AMQP_NS_PER_S + of_int nsec)"

definition UINT64_MAX :: u64 where "UINT64_MAX = - 1"

definition amqp_time_infinite :: amqp_time_t where
  "amqp_time_infinite = \<lparr>time_point_ns = UINT64_MAX\<rparr>"

text \<open>Results: a status, and the time point when one was stored.\<close>

definition amqp_time_from_now :: "u64 \<Rightarrow> timeval option \<Rightarrow> amqp_status_enum \<times> amqp_time_t option" where
  "amqp_time_from_now now_ns timeout =
    (case timeout of
       None \<Rightarrow> (AMQP_STATUS_OK, Some amqp_time_infinite)
     | Some tv \<Rightarrow>
         if tv_sec tv < 0 \<or> tv_usec tv < 0 then (AMQP_STATUS_INVALID_PARAMETER, None)
         else let delta_ns = of_int (tv_sec tv) * AMQP_NS_PER_S + of_int (tv_usec tv) * AMQP_NS_PER_US in
           if now_ns = 0 then (AMQP_STATUS_TIMER_FAILURE, None)
           else let t = now_ns + delta_ns in
             (if now_ns > t \<or> delta_ns > t then AMQP_STATUS_INVALID_PARAMETER else AMQP_STATUS_OK,
              Some \<lparr>time_point_ns = t\<rparr>))"

definition amqp_time_s_from_now :: "u64 \<Rightarrow> int \<Rightarrow> amqp_status_enum \<times> amqp_time_t option" where
  "amqp_time_s_from_now now_ns seconds =
    (if 0 \<ge> seconds then (AMQP_STATUS_OK, Some amqp_time_infinite)
     else if now_ns = 0 then (AMQP_STATUS_TIMER_FAILURE, None)
     else let delta_ns = of_int seconds * AMQP_NS_PER_S; t = now_ns + delta_ns in
       (if now_ns > t \<or> delta_ns > t then AMQP_STATUS_INVALID_PARAMETER else AMQP_STATUS_OK,
        Some \<lparr>time_point_ns = t\<rparr>))"

text \<open>\<open>(int)\<close> of an unsigned 64-bit number keeps the low 32 bits.\<close>

definition int_of_u64 :: "u64 \<Rightarrow> int" where
  "int_of_u64 x = sint (ucast x :: 32 word)"

definition amqp_time_ms_until :: "u64 \<Rightarrow> amqp_time_t \<Rightarrow> int" where
  "amqp_time_ms_until now_ns time =
    (if time_point_ns time = UINT64_MAX then - 1
     else if time_point_ns time = 0 then 0
     else if now_ns = 0 then status_code AMQP_STATUS_TIMER_FAILURE
     else if now_ns \<ge> time_point_ns time then 0
     else int_of_u64 ((time_point_ns time - now_ns) div AMQP_NS_PER_MS))"

text \<open>
  \<open>amqp_time_tv_until\<close> stores into \<open>in\<close> and lets \<open>out\<close> point to it or to NULL; the second
  component is what \<open>out\<close> points to, the outer \<open>None\<close> says that it is left alone.
\<close>

definition amqp_time_tv_until ::
  "u64 \<Rightarrow> amqp_time_t \<Rightarrow> amqp_status_enum \<times> timeval option option" where
  "amqp_time_tv_until now_ns time =
    (if time_point_ns time = UINT64_MAX then (AMQP_STATUS_OK, Some None)
     else if time_point_ns time = 0 then (AMQP_STATUS_OK, Some (Some \<lparr>tv_sec = 0, tv_usec = 0\<rparr>))
     else if now_ns = 0 then (AMQP_STATUS_TIMER_FAILURE, None)
     else if now_ns \<ge> time_point_ns time
       then (AMQP_STATUS_OK, Some (Some \<lparr>tv_sec = 0, tv_usec = 0\<rparr>))
     else let delta_ns = time_point_ns time - now_ns in
       (AMQP_STATUS_OK,
        Some (Some \<lparr>tv_sec = int_of_u64 (delta_ns div AMQP_NS_PER_S),
                    tv_usec = int_of_u64 ((delta_ns mod AMQP_NS_PER_S) div AMQP_NS_PER_US)\<rparr>)))"

definition amqp_time_has_past :: "u64 \<Rightarrow> amqp_time_t \<Rightarrow> amqp_status_enum" where
  "amqp_time_has_past now_ns time =
    (if time_point_ns time = UINT64_MAX then AMQP_STATUS_OK
     else if now_ns = 0 then AMQP_STATUS_TIMER_FAILURE
     else if now_ns > time_point_ns time then AMQP_STATUS_TIMEOUT
     else AMQP_STATUS_OK)"

definition amqp_time_first :: "amqp_time_t \<Rightarrow> amqp_time_t \<Rightarrow> amqp_time_t" where
  "amqp_time_first l r = (if time_point_ns l < time_point_ns r then l else r)"

definition amqp_time_equal :: "amqp_time_t \<Rightarrow> amqp_time_t \<Rightarrow> bool" where
  "amqp_time_equal l r \<longleftrightarrow> time_point_ns l = time_point_ns r"

section \<open>Points in time as numbers\<close>

lemma add_no_wrap:
  fixes a b :: u64
  shows "\<not> (a > a + b \<or> b > a + b) \<longleftrightarrow> unat a + unat b < 2 ^ 64"
    and "unat a + unat b < 2 ^ 64 \<Longrightarrow> unat (a + b) = unat a + unat b"
proof -
  have u: "unat (a + b) = (unat a + unat b) mod 2 ^ 64"
    by (simp add: unat_word_ariths)
  show "unat a + unat b < 2 ^ 64 \<Longrightarrow> unat (a + b) = unat a + unat b"
    by (simp add: u)
  have lt: "unat a < 2 ^ 64" "unat b < 2 ^ 64" using unsigned_less [of a] unsigned_less [of b] by simp_all
  show "\<not> (a > a + b \<or> b > a + b) \<longleftrightarrow> unat a + unat b < 2 ^ 64"
  proof (cases "unat a + unat b < 2 ^ 64")
    case True
    then show ?thesis by (simp add: word_less_nat_alt u)
  next
    case False
    then have "(unat a + unat b) mod 2 ^ 64 = unat a + unat b - 2 ^ 64"
      using lt by (simp add: mod_if)
    moreover have "unat a + unat b - 2 ^ 64 < unat a"
      using False lt by linarith
    ultimately have "unat (a + b) < unat a" using u by simp
    with False show ?thesis by (simp add: word_less_nat_alt)
  qed
qed

text \<open>The nanoseconds of a non-negative time value, as a number.\<close>

definition tv_ns :: "timeval \<Rightarrow> nat" where
  "tv_ns tv = nat (tv_sec tv) * 1000000000 + nat (tv_usec tv) * 1000"

lemma tv_nanoseconds:
  assumes "0 \<le> tv_sec tv" and "0 \<le> tv_usec tv"
  shows "unat (of_int (tv_sec tv) * AMQP_NS_PER_S + of_int (tv_usec tv) * AMQP_NS_PER_US :: u64) = tv_ns tv mod 2 ^ 64"
proof -
  have "of_int (tv_sec tv) * AMQP_NS_PER_S + of_int (tv_usec tv) * AMQP_NS_PER_US
      = (of_nat (tv_ns tv) :: u64)"
    using assms by (simp add: tv_ns_def AMQP_NS_PER_S_def AMQP_NS_PER_US_def of_nat_nat)
  then show ?thesis by (simp add: unat_of_nat take_bit_eq_mod)
qed

lemma time_from_now_wraps:
  assumes "0 \<le> tv_sec tv" and "0 \<le> tv_usec tv" and "now_ns \<noteq> 0"
  shows "amqp_time_from_now now_ns (Some tv) = (AMQP_STATUS_OK, Some t) \<longleftrightarrow>
    unat (time_point_ns t) = unat now_ns + tv_ns tv mod 2 ^ 64"
proof -
  let ?d = "of_int (tv_sec tv) * AMQP_NS_PER_S + of_int (tv_usec tv) * AMQP_NS_PER_US :: u64"
  have d: "unat ?d = tv_ns tv mod 2 ^ 64" using tv_nanoseconds [OF assms(1,2)] .
  have e: "amqp_time_from_now now_ns (Some tv) =
      (if unat now_ns + unat ?d < 2 ^ 64 then AMQP_STATUS_OK else AMQP_STATUS_INVALID_PARAMETER,
       Some \<lparr>time_point_ns = now_ns + ?d\<rparr>)"
    using assms add_no_wrap(1) [of now_ns ?d]
    by (auto simp: amqp_time_from_now_def Let_def)
  show ?thesis
  proof (cases "unat now_ns + unat ?d < 2 ^ 64")
    case True
    have s: "unat (now_ns + ?d) = unat now_ns + tv_ns tv mod 2 ^ 64" using add_no_wrap(2) [OF True] d by simp
    have "amqp_time_from_now now_ns (Some tv) = (AMQP_STATUS_OK, Some t) \<longleftrightarrow> time_point_ns t = now_ns + ?d"
      using e True by (cases t) auto
    then show ?thesis using s by (metis word_unat_eq_iff)
  next
    case False
    moreover have "unat (time_point_ns t) < 2 ^ 64" using unsigned_less [of "time_point_ns t"] by simp
    ultimately have "unat (time_point_ns t) \<noteq> unat now_ns + tv_ns tv mod 2 ^ 64" using d by auto
    with False e show ?thesis by simp
  qed
qed

lemma amqp_time_first_min: "time_point_ns (amqp_time_first l r) = min (time_point_ns l) (time_point_ns r)"
  by (auto simp: amqp_time_first_def min_def)

lemma amqp_time_first_infinite [simp]: "amqp_time_first amqp_time_infinite t = t"
  by (simp add: amqp_time_first_def amqp_time_infinite_def UINT64_MAX_def not_less word_order.extremum)

text \<open>What is left until a deadline, in milliseconds, is cut to 32 bits and read as signed.\<close>

lemma int_of_u64_mod:
  "int_of_u64 x = (let k = unat x mod 2 ^ 32 in if k < 2 ^ 31 then int k else int k - 2 ^ 32)"
proof -
  let ?w = "ucast x :: 32 word"
  have u: "uint ?w = int (unat x mod 2 ^ 32)"
    by (simp add: unsigned_ucast_eq take_bit_eq_mod zmod_int)
  have lt: "uint ?w < 2 ^ 32" using u by (simp add: zmod_int)
  have ge: "0 \<le> uint ?w" by simp
  have t: "take_bit 32 (uint ?w) = uint ?w" using lt ge by (simp add: take_bit_int_eq_self)
  have b: "bit (uint ?w) 31 \<longleftrightarrow> 2 ^ 31 \<le> uint ?w"
  proof -
    have "uint ?w div 2 ^ 31 \<in> {0, 1}" using lt ge by auto
    then show ?thesis using lt ge by (auto simp: bit_iff_odd)
  qed
  have "sint ?w = take_bit (Suc 31) (uint ?w) - 2 ^ Suc 31 * of_bool (bit (uint ?w) 31)"
    unfolding sint_uint by (simp add: signed_take_bit_eq_take_bit_minus)
  then show ?thesis using t b u by (auto simp: int_of_u64_def Let_def)
qed

lemma ms_until_truncated:
  assumes "now_ns \<noteq> 0" and "unat now_ns < unat (time_point_ns d)" and "unat (time_point_ns d) < 2 ^ 64 - 1"
  shows "amqp_time_ms_until now_ns d =
    (let k = (unat (time_point_ns d) - unat now_ns) div 1000000 mod 2 ^ 32 in if k < 2 ^ 31 then int k else int k - 2 ^ 32)"
proof -
  let ?x = "(time_point_ns d - now_ns) div AMQP_NS_PER_MS"
  have le: "now_ns \<le> time_point_ns d" "\<not> now_ns \<ge> time_point_ns d" using assms(2) by (simp_all add: word_le_nat_alt)
  have u: "unat ?x = (unat (time_point_ns d) - unat now_ns) div 1000000"
    using unat_sub [OF le(1)] by (simp add: unat_div_distrib AMQP_NS_PER_MS_def)
  have "time_point_ns d \<noteq> 0" using assms(2) by auto
  moreover have "time_point_ns d \<noteq> UINT64_MAX"
    using assms(3) by (auto simp: UINT64_MAX_def unsigned_minus_1_eq_mask mask_eq_exp_minus_1)
  ultimately show ?thesis
    using assms(1) le(2) by (simp add: amqp_time_ms_until_def int_of_u64_mod u)
qed

end
