(* ===== verification/Amqp_State.thy ===== *)
theory Amqp_State
  imports Amqp_Methods Amqp_Time
begin

text \<open>
  The connection object (\<open>struct amqp_connection_state_t_\<close>, \<open>amqp_private.h\<close>), the
  frames it produces (\<open>amqp.h\<close>), its table of per-channel pools (\<open>amqp_mem.c\<close>), and the
  operations that create, tune and destroy it (\<open>amqp_connection.c\<close>).  The locale
  \<open>keyed_store\<close> is the contract of the pool table: what a lookup returns after a store.
  The heap is passed beside the object.
\<close>

section \<open>Numbers of type \<open>size_t\<close>\<close>

text \<open>Subtraction and conversion from \<open>int\<close> wrap around at \<open>2 ^ 64\<close>.\<close>

definition size_t_sub :: "nat \<Rightarrow> nat \<Rightarrow> nat" where
  "size_t_sub a b = (if b \<le> a then a - b else 2 ^ 64 - (b - a))"

definition size_t_of_int :: "int \<Rightarrow> nat" where
  "size_t_of_int i = nat (i mod 2 ^ 64)"

section \<open>Frames\<close>

datatype amqp_payload_t =
    Method_payload amqp_method_t
  | Properties_payload u16 u64 amqp_properties_t amqp_bytes_t
  | Body_payload amqp_bytes_t
  | Protocol_header_payload u8 u8 u8 u8
  | No_payload

record amqp_frame_t =
  frame_type :: u8
  channel :: amqp_channel_t
  payload :: amqp_payload_t

definition AMQP_PSEUDOFRAME_PROTOCOL_HEADER :: int where
  "AMQP_PSEUDOFRAME_PROTOCOL_HEADER = 65"

definition HEADER_SIZE :: nat where "HEADER_SIZE = 7"
definition FOOTER_SIZE :: nat where "FOOTER_SIZE = 1"
definition POOL_TABLE_SIZE :: nat where "POOL_TABLE_SIZE = 16"

lemmas frame_sizes = HEADER_SIZE_def FOOTER_SIZE_def

datatype amqp_response_type_enum =
    AMQP_RESPONSE_NONE
  | AMQP_RESPONSE_NORMAL
  | AMQP_RESPONSE_LIBRARY_EXCEPTION
  | AMQP_RESPONSE_SERVER_EXCEPTION

text \<open>\<open>reply\<close> is \<open>None\<close> when \<open>reply.decoded\<close> is NULL.\<close>

record amqp_rpc_reply_t =
  reply_type :: amqp_response_type_enum
  reply :: "amqp_method_t option"
  library_error :: int

section \<open>The connection object\<close>

datatype amqp_connection_state_enum =
    CONNECTION_STATE_IDLE
  | CONNECTION_STATE_INITIAL
  | CONNECTION_STATE_HEADER
  | CONNECTION_STATE_BODY

record amqp_pool_table_entry_t =
  entry_block :: nat
  entry_pool :: amqp_pool_t
  entry_channel :: amqp_channel_t

text \<open>
  Where \<open>inbound_buffer\<close> points to: into the object itself, into a pool, or nowhere after
  a failed allocation.
\<close>

datatype inbound_t = In_header_buffer | In_pool addr | In_null

text \<open>
  \<open>first_queued_frame\<close> is the list of queued frames, front first.  \<open>outbound_buffer\<close> and
  \<open>sock_inbound_buffer\<close> are the contents of the two heap blocks named beside them.
\<close>

record amqp_connection_state_t =
  pool_table :: "amqp_pool_table_entry_t list list"
  state :: amqp_connection_state_enum
  channel_max :: int
  frame_max :: int
  heartbeat :: int
  next_recv_heartbeat :: amqp_time_t
  next_send_heartbeat :: amqp_time_t
  header_buffer :: "byte list"
  inbound_buffer :: inbound_t
  inbound_offset :: nat
  target_size :: nat
  outbound_block :: "nat option"
  outbound_buffer :: "byte list"
  sock_inbound_block :: "nat option"
  sock_inbound_buffer :: "byte list"
  sock_inbound_offset :: nat
  sock_inbound_limit :: nat
  first_queued_frame :: "amqp_frame_t list"
  most_recent_api_result :: amqp_rpc_reply_t
  server_properties :: amqp_table_t
  client_properties :: amqp_table_t
  properties_pool :: amqp_pool_t
  handshake_timeout :: "timeval option"
  rpc_timeout :: "timeval option"

section \<open>The pool table\<close>

text \<open>The contract of a store of values under keys.\<close>

locale keyed_store =
  fixes fetch :: "'s \<Rightarrow> 'k \<Rightarrow> 'v option"
    and put :: "'k \<Rightarrow> 'v \<Rightarrow> 's \<Rightarrow> 's"
    and ok :: "'s \<Rightarrow> bool"
  assumes fetch_put: "ok s \<Longrightarrow> fetch (put k v s) k' = (if k' = k then Some v else fetch s k')"
    and put_ok: "ok s \<Longrightarrow> ok (put k v s)"
begin

lemma fetch_put_same: "ok s \<Longrightarrow> fetch (put k v s) k = Some v"
  by (simp add: fetch_put)

lemma fetch_put_other: "ok s \<Longrightarrow> k' \<noteq> k \<Longrightarrow> fetch (put k v s) k' = fetch s k'"
  by (simp add: fetch_put)

lemma fetch_put_put: "ok s \<Longrightarrow> fetch (put k v (put k u s)) k' = fetch (put k v s) k'"
  by (simp add: fetch_put put_ok)

end

definition pool_index :: "amqp_channel_t \<Rightarrow> nat" where
  "pool_index ch = unat ch mod POOL_TABLE_SIZE"

definition amqp_get_channel_pool :: "amqp_connection_state_t \<Rightarrow> amqp_channel_t \<Rightarrow> amqp_pool_t option" where
  "amqp_get_channel_pool c ch =
    map_option entry_pool (find (\<lambda>e. entry_channel e = ch) (pool_table c ! pool_index ch))"

text \<open>
  Functions that get a pointer to a pool change it in place: \<open>set_channel_pool\<close> stores the
  changed pool back into its entry.
\<close>

fun update_entry :: "amqp_channel_t \<Rightarrow> amqp_pool_t \<Rightarrow> amqp_pool_table_entry_t list \<Rightarrow> amqp_pool_table_entry_t list" where
  "update_entry ch pool [] = []"
| "update_entry ch pool (e # es) =
    (if entry_channel e = ch then e\<lparr>entry_pool := pool\<rparr> # es else e # update_entry ch pool es)"

definition set_channel_pool ::
  "amqp_channel_t \<Rightarrow> amqp_pool_t \<Rightarrow> amqp_connection_state_t \<Rightarrow> amqp_connection_state_t" where
  "set_channel_pool ch pool c =
    c\<lparr>pool_table := (pool_table c)[pool_index ch := update_entry ch pool (pool_table c ! pool_index ch)]\<rparr>"

definition SIZEOF_POOL_TABLE_ENTRY :: nat where "SIZEOF_POOL_TABLE_ENTRY = 80"

definition add_pool_entry ::
  "nat \<Rightarrow> amqp_channel_t \<Rightarrow> amqp_pool_t \<Rightarrow> amqp_connection_state_t \<Rightarrow> amqp_connection_state_t" where
  "add_pool_entry b ch pool c =
    c\<lparr>pool_table := (pool_table c)[pool_index ch :=
        \<lparr>entry_block = b, entry_pool = pool, entry_channel = ch\<rparr> # pool_table c ! pool_index ch]\<rparr>"

definition amqp_get_or_create_channel_pool ::
  "amqp_connection_state_t \<Rightarrow> amqp_channel_t \<Rightarrow> heap \<Rightarrow>
    amqp_pool_t option \<times> amqp_connection_state_t \<times> heap" where
  "amqp_get_or_create_channel_pool c ch h =
    (case amqp_get_channel_pool c ch of
       Some pool \<Rightarrow> (Some pool, c, h)
     | None \<Rightarrow>
         (case malloc SIZEOF_POOL_TABLE_ENTRY h of
            (None, h') \<Rightarrow> (None, c, h')
          | (Some b, h') \<Rightarrow>
              let pool = init_amqp_pool (size_t_of_int (frame_max c)) in
              (Some pool, add_pool_entry b ch pool c, h')))"

definition table_ok :: "amqp_connection_state_t \<Rightarrow> bool" where
  "table_ok c \<longleftrightarrow> length (pool_table c) = POOL_TABLE_SIZE"

lemma pool_index_less [simp]: "pool_index ch < POOL_TABLE_SIZE"
  by (simp add: pool_index_def POOL_TABLE_SIZE_def)

lemma find_update_entry:
  "find (\<lambda>e. entry_channel e = ch') (update_entry ch pool es) =
    (if ch' = ch then map_option (\<lambda>e. e\<lparr>entry_pool := pool\<rparr>) (find (\<lambda>e. entry_channel e = ch) es)
     else find (\<lambda>e. entry_channel e = ch') es)"
  by (induction es) auto

lemma get_set_channel_pool:
  assumes "table_ok c" and "amqp_get_channel_pool c ch = Some p0"
  shows "amqp_get_channel_pool (set_channel_pool ch pool c) ch' =
    (if ch' = ch then Some pool else amqp_get_channel_pool c ch')"
  using assms
  by (cases "pool_index ch' = pool_index ch")
    (auto simp: amqp_get_channel_pool_def set_channel_pool_def table_ok_def find_update_entry nth_list_update option.map_comp o_def)

lemma get_add_pool_entry:
  assumes "table_ok c"
  shows "amqp_get_channel_pool (add_pool_entry b ch pool c) ch' =
    (if ch' = ch then Some pool else amqp_get_channel_pool c ch')"
  using assms
  by (cases "pool_index ch' = pool_index ch")
    (auto simp: amqp_get_channel_pool_def add_pool_entry_def table_ok_def nth_list_update)

text \<open>
  The table as a store of pools: the entry is made when there is none and changed when
  there is one.
\<close>

definition store_pool ::
  "amqp_channel_t \<Rightarrow> amqp_pool_t \<Rightarrow> amqp_connection_state_t \<Rightarrow> amqp_connection_state_t" where
  "store_pool ch pool c =
    (if amqp_get_channel_pool c ch = None then add_pool_entry 0 ch pool c else set_channel_pool ch pool c)"

lemma table_ok_set [simp]: "table_ok (set_channel_pool ch pool c) = table_ok c"
  by (simp add: table_ok_def set_channel_pool_def)

lemma table_ok_add [simp]: "table_ok (add_pool_entry b ch pool c) = table_ok c"
  by (simp add: table_ok_def add_pool_entry_def)

interpretation pools: keyed_store amqp_get_channel_pool store_pool table_ok
  by unfold_locales
    (auto simp: store_pool_def get_set_channel_pool get_add_pool_entry)

lemma get_or_create_get:
  assumes "amqp_get_or_create_channel_pool c ch h = (Some pool, c', h')" and "table_ok c"
  shows "amqp_get_channel_pool c' ch = Some pool" and "table_ok c'"
    and "ch' \<noteq> ch \<Longrightarrow> amqp_get_channel_pool c' ch' = amqp_get_channel_pool c ch'"
  using assms
  by (auto simp: amqp_get_or_create_channel_pool_def get_add_pool_entry Let_def
      split: option.splits prod.splits)

lemma get_or_create_fields [simp]:
  assumes "amqp_get_or_create_channel_pool c ch h = (p, c', h')"
  shows "c' = c\<lparr>pool_table := pool_table c'\<rparr>"
  using assms
  by (auto simp: amqp_get_or_create_channel_pool_def add_pool_entry_def Let_def
      split: option.splits prod.splits)

section \<open>The heartbeats of a connection\<close>

text \<open>
  The receiver waits two heartbeats.  The product is one of type \<open>int\<close>; \<open>None\<close>: it does not
  fit, which is undefined.
\<close>

definition amqp_heartbeat_send :: "amqp_connection_state_t \<Rightarrow> int" where
  "amqp_heartbeat_send c = heartbeat c"

definition amqp_heartbeat_recv :: "amqp_connection_state_t \<Rightarrow> int option" where
  "amqp_heartbeat_recv c =
    (let twice = 2 * heartbeat c in if - (2 ^ 31) \<le> twice \<and> twice < 2 ^ 31 then Some twice else None)"

end
