(* ===== verification/Amqp_Pools.thy ===== *)
theory Amqp_Pools
  imports Amqp_State
begin

text \<open>
  The pools of a connection share one heap.  \<open>pools_ok\<close> says that each is well formed and
  that no block belongs to two of them; allocating, decoding and recycling in the pool of
  one channel keeps it, because these touch no block of another pool.
\<close>

section \<open>The blocks of a pool\<close>

definition pool_touched :: "amqp_pool_t \<Rightarrow> nat set" where
  "pool_touched pool = pool_owned pool \<union> set_option (alloc_block pool)"

definition pools_ok :: "amqp_connection_state_t \<Rightarrow> heap \<Rightarrow> bool" where
  "pools_ok c h \<longleftrightarrow> table_ok c \<and> heap_ok h \<and>
    (\<forall>ch pool. amqp_get_channel_pool c ch = Some pool \<longrightarrow> pool_ok pool h) \<and>
    (\<forall>ch ch' pool pool'. amqp_get_channel_pool c ch = Some pool \<longrightarrow>
      amqp_get_channel_pool c ch' = Some pool' \<longrightarrow> ch \<noteq> ch' \<longrightarrow>
      pool_touched pool \<inter> pool_touched pool' = {})"

lemma pools_okD:
  assumes "pools_ok c h"
  shows "table_ok c" and "heap_ok h"
    and "amqp_get_channel_pool c ch = Some pool \<Longrightarrow> pool_ok pool h"
    and "amqp_get_channel_pool c ch = Some pool \<Longrightarrow> amqp_get_channel_pool c ch' = Some pool' \<Longrightarrow>
      ch \<noteq> ch' \<Longrightarrow> pool_touched pool \<inter> pool_touched pool' = {}"
  using assms unfolding pools_ok_def by blast+

lemma pools_ok_cong:
  "pool_table c' = pool_table c \<Longrightarrow> pools_ok c' h = pools_ok c h"
  by (simp add: pools_ok_def table_ok_def amqp_get_channel_pool_def)

lemma pool_touched_live: "pool_ok pool h \<Longrightarrow> pool_touched pool \<subseteq> live h"
  by (auto simp: pool_touched_def pool_ok_iff bl_ok_def pool_owned_def alloc_block_ok_def)

text \<open>A pool depends on its own blocks only.\<close>

lemma pool_ok_elsewhere:
  assumes ok: "pool_ok pool h" and h': "heap_ok h'"
    and same: "\<And>b. b \<in> pool_touched pool \<Longrightarrow> b \<in> live h' \<and> content h' b = content h b"
  shows "pool_ok pool h'"
proof -
  have own: "bl_owned (pages pool) \<subseteq> pool_touched pool" "bl_owned (large_blocks pool) \<subseteq> pool_touched pool"
    by (auto simp: pool_touched_def pool_owned_def)
  have "bl_ok (pages pool) h'" "bl_ok (large_blocks pool) h'"
    using ok own same by (auto simp: pool_ok_iff bl_ok_def)
  moreover have "alloc_block_ok pool h'"
    using ok same by (auto simp: pool_ok_iff alloc_block_ok_def pool_touched_def)
  moreover have "\<forall>b \<in> set (blocks (pages pool)). length (content h' b) = pagesize pool"
    using ok same own by (auto simp: pool_ok_iff bl_owned_def)
  ultimately show ?thesis using ok h' by (simp add: pool_ok_iff)
qed

section \<open>Working in one pool\<close>

text \<open>
  \<open>pool_step pool h pool' h'\<close>: the pool is well formed afterwards, and what was live
  outside of it is live, outside of it and unchanged.
\<close>

definition pool_step :: "amqp_pool_t \<Rightarrow> heap \<Rightarrow> amqp_pool_t \<Rightarrow> heap \<Rightarrow> bool" where
  "pool_step pool h pool' h' \<longleftrightarrow> pool_ok pool' h' \<and>
    (\<forall>b \<in> live h - pool_touched pool. b \<in> live h' - pool_touched pool' \<and> content h' b = content h b)"

lemma pool_step_alloc:
  assumes ok: "pool_ok pool h" and a: "amqp_pool_alloc pool n h = (r, pool', h')"
  shows "pool_step pool h pool' h'"
  using pool_alloc_invariant [OF ok a] pool_alloc_foreign [OF ok a] pool_alloc_live_content [OF ok a]
  unfolding pool_step_def pool_touched_def by blast

lemma pool_step_decoder:
  assumes d: "dec_mem d" and ok: "pool_ok pool h"
    and r: "d v \<lparr>doff = n, dpool = pool, dheap = h\<rparr> = (r, s)"
  shows "pool_step pool h (dpool s) (dheap s)"
proof -
  let ?s = "\<lparr>doff = n, dpool = pool, dheap = h\<rparr>"
  have m: "mem_step {} ?s (defined_result r) s"
    using dec_memD [OF d _ r] ok by simp
  then have "private_blocks ?s \<subseteq> private_blocks s" "contents_kept {} ?s s" "pool_ok (dpool s) (dheap s)"
    by (simp_all add: mem_step_def)
  then show ?thesis
    by (auto simp: pool_step_def contents_kept_def private_blocks_def foreign_def pool_touched_def)
qed

text \<open>Writing into a block keeps the pools well formed as long as the block keeps its size.\<close>

lemma pools_ok_write:
  assumes "pools_ok c h" and "length w = length (content h b)"
  shows "pools_ok c (h\<lparr>content := (content h)(b := w)\<rparr>)"
proof -
  have "pool_ok q (h\<lparr>content := (content h)(b := w)\<rparr>)" if "pool_ok q h" for q
    using that assms(2) by (simp add: pool_ok_iff heap_ok_def bl_ok_def alloc_block_ok_def)
  with assms(1) show ?thesis by (simp add: pools_ok_def heap_ok_def)
qed

lemma pool_step_trans:
  "pool_step p h p1 h1 \<Longrightarrow> pool_step p1 h1 p2 h2 \<Longrightarrow> pool_step p h p2 h2"
  unfolding pool_step_def by (metis Diff_iff)

text \<open>Storing the changed pool back keeps the whole table well formed.\<close>

lemma pools_ok_step:
  assumes ok: "pools_ok c h" and get: "amqp_get_channel_pool c ch = Some pool"
    and step: "pool_step pool h pool' h'"
  shows "pools_ok (set_channel_pool ch pool' c) h'"
proof -
  note D = pools_okD [OF ok]
  have p': "pool_ok pool' h'" using step by (simp add: pool_step_def)
  have h': "heap_ok h'" using p' by (simp add: pool_ok_iff)
  have get': "amqp_get_channel_pool (set_channel_pool ch pool' c) x =
      (if x = ch then Some pool' else amqp_get_channel_pool c x)" for x
    using get_set_channel_pool [OF D(1) get] by simp
  have other: "pool_ok q h' \<and> pool_touched q \<inter> pool_touched pool' = {}"
    if q: "amqp_get_channel_pool c x = Some q" and x: "x \<noteq> ch" for x q
  proof -
    have dis: "pool_touched q \<inter> pool_touched pool = {}" using D(4) [OF q get x] .
    have "pool_touched q \<subseteq> live h" by (rule pool_touched_live [OF D(3) [OF q]])
    with dis have "pool_touched q \<subseteq> live h - pool_touched pool" by blast
    with step have s: "\<And>b. b \<in> pool_touched q \<Longrightarrow>
        b \<in> live h' - pool_touched pool' \<and> content h' b = content h b"
      unfolding pool_step_def by blast
    have "pool_ok q h'" by (rule pool_ok_elsewhere [OF D(3) [OF q] h']) (use s in blast)
    with s show ?thesis by blast
  qed
  show ?thesis
    unfolding pools_ok_def
  proof (intro conjI allI impI)
    fix x q assume "amqp_get_channel_pool (set_channel_pool ch pool' c) x = Some q"
    then show "pool_ok q h'" using other p' by (auto simp: get' split: if_splits)
  next
    fix x y q r
    assume "amqp_get_channel_pool (set_channel_pool ch pool' c) x = Some q"
      and "amqp_get_channel_pool (set_channel_pool ch pool' c) y = Some r" and "x \<noteq> y"
    then show "pool_touched q \<inter> pool_touched r = {}"
      using other D(4) [of x q y r] by (auto simp: get' Int_commute split: if_splits)
  qed (use D(1) h' in simp_all)
qed

section \<open>Getting a pool\<close>

lemma init_pool_touched [simp]: "pool_touched (init_amqp_pool n) = {}"
  by (simp add: pool_touched_def pool_owned_def bl_owned_def init_amqp_pool_def)

lemma pools_ok_heap:
  assumes ok: "pools_ok c h" and h': "heap_ok h'"
    and same: "\<And>b. b \<in> live h \<Longrightarrow> b \<in> live h' \<and> content h' b = content h b"
  shows "pools_ok c h'"
proof -
  note D = pools_okD [OF ok]
  have "pool_ok q h'" if "amqp_get_channel_pool c x = Some q" for x q
    using pool_ok_elsewhere [OF D(3) [OF that] h'] same pool_touched_live [OF D(3) [OF that]] by blast
  then show ?thesis using D(1,4) h' unfolding pools_ok_def by blast
qed

lemma get_or_create_ok:
  assumes ok: "pools_ok c h" and g: "amqp_get_or_create_channel_pool c ch h = (r, c', h')"
  shows "pools_ok c' h'" and "r = Some pool \<Longrightarrow> amqp_get_channel_pool c' ch = Some pool"
    and "roomy h \<Longrightarrow> r \<noteq> None" and "fails h' = fails h"
    and "b \<in> live h \<Longrightarrow> b \<in> live h' \<and> content h' b = content h b"
proof -
  note D = pools_okD [OF ok]
  show "r = Some pool \<Longrightarrow> amqp_get_channel_pool c' ch = Some pool"
    using get_or_create_get(1) [OF _ D(1)] g by simp
  show "roomy h \<Longrightarrow> r \<noteq> None" "fails h' = fails h"
    using g by (cases rule: malloc_cases [of SIZEOF_POOL_TABLE_ENTRY h];
      auto simp: amqp_get_or_create_channel_pool_def Let_def split: option.splits)+
  show keep: "b \<in> live h \<Longrightarrow> b \<in> live h' \<and> content h' b = content h b" for b
    using g by (cases rule: malloc_cases [of SIZEOF_POOL_TABLE_ENTRY h])
      (auto simp: amqp_get_or_create_channel_pool_def Let_def split: option.splits)
  have h': "heap_ok h'"
    using g D(2) by (cases rule: malloc_cases [of SIZEOF_POOL_TABLE_ENTRY h])
      (auto simp: amqp_get_or_create_channel_pool_def Let_def heap_ok_def less_SucI split: option.splits)
  have ok': "pools_ok c h'" using pools_ok_heap [OF ok h' keep] .
  show "pools_ok c' h'"
  proof (cases "c' = c")
    case False
    with g obtain b where c': "c' = add_pool_entry b ch (init_amqp_pool (size_t_of_int (frame_max c))) c"
      by (auto simp: amqp_get_or_create_channel_pool_def Let_def split: option.splits prod.splits)
    note D' = pools_okD [OF ok']
    have get': "amqp_get_channel_pool c' x =
        (if x = ch then Some (init_amqp_pool (size_t_of_int (frame_max c))) else amqp_get_channel_pool c x)" for x
      using get_add_pool_entry [OF D(1)] by (simp add: c')
    show ?thesis
      unfolding pools_ok_def
    proof (intro conjI allI impI)
      fix x q assume "amqp_get_channel_pool c' x = Some q"
      then show "pool_ok q h'" using D'(3) pool_ok_init [OF h'] by (auto simp: get' split: if_splits)
    next
      fix x y q r
      assume "amqp_get_channel_pool c' x = Some q" and "amqp_get_channel_pool c' y = Some r" and "x \<noteq> y"
      then show "pool_touched q \<inter> pool_touched r = {}"
        using D'(4) [of x q y r] by (auto simp: get' split: if_splits)
    qed (use D(1) h' c' in simp_all)
  qed (use ok' in simp)
qed

section \<open>Blocks that stay\<close>

text \<open>
  Blocks that hold data, as opposed to the arrays of pointers, which move when they grow:
  they survive every allocation, with their contents.
\<close>

definition pool_arrays :: "amqp_pool_t \<Rightarrow> nat set" where
  "pool_arrays pool = set_option (blocklist (pages pool)) \<union> set_option (blocklist (large_blocks pool))"

definition data_block :: "amqp_connection_state_t \<Rightarrow> heap \<Rightarrow> nat \<Rightarrow> bool" where
  "data_block c h b \<longleftrightarrow> b \<in> live h \<and>
     (\<forall>ch pool. amqp_get_channel_pool c ch = Some pool \<longrightarrow> b \<notin> pool_arrays pool)"

lemma pool_alloc_stays:
  assumes ok: "pool_ok pool h" and a: "amqp_pool_alloc pool n h = (r, pool', h')"
    and b: "b \<in> live h" "b \<notin> pool_arrays pool"
  shows "b \<in> live h' \<and> b \<notin> pool_arrays pool' \<and> content h' b = content h b"
proof -
  have old: "b < next_id h" using ok b by (auto simp: pool_ok_iff heap_ok_def)
  have c: "content h' b = content h b" by (rule pool_alloc_live_content [OF ok a b(1)])
  have rec: "b \<in> live h2 \<and> b \<notin> set_option (blocklist bl)"
    if "calloc m h = (Some (next_id h), h1)" "record_pool_block x k h1 = (True, bl, h2)"
      "b \<notin> set_option (blocklist x)" for m h1 x k bl h2
  proof -
    have h1: "live h1 = insert (next_id h) (live h)" "next_id h1 = Suc (next_id h)"
      using calloc_Some [OF that(1)] by simp_all
    show ?thesis
    proof (cases rule: record_pool_block_cases [of x k h1])
      case (2 h3)
      with that(2,3) h1 old b show ?thesis by auto
    qed (use that(2) in simp)
  qed
  from a have "b \<in> live h' \<and> b \<notin> pool_arrays pool'"
  proof (cases rule: amqp_pool_alloc_cases)
    case (large h1 bl)
    with rec [OF large(5,6)] b show ?thesis by (auto simp: pool_arrays_def)
  next
    case (new_page h1 bl)
    with rec [OF new_page(6,7)] b show ?thesis by (auto simp: pool_arrays_def)
  next
    case (large_unrecorded h1)
    have "live h1 = insert (next_id h) (live h)"
      using calloc_Some [OF large_unrecorded(5)] by simp
    with large_unrecorded b old show ?thesis by (simp add: free_def pool_arrays_def)
  next
    case (page_unrecorded h1)
    have "live h1 = insert (next_id h) (live h)"
      using calloc_Some [OF page_unrecorded(6)] by simp
    with page_unrecorded b show ?thesis by (simp add: pool_arrays_def)
  qed (use b in \<open>auto simp: pool_arrays_def\<close>)
  with c show ?thesis by simp
qed

text \<open>What an allocation hands out is data.\<close>

lemma pool_alloc_data:
  assumes "pool_ok pool h" and "amqp_pool_alloc pool n h = (Some (b, off), pool', h')"
  shows "b \<in> live h' \<and> b \<in> pool_touched pool' \<and> b \<notin> pool_arrays pool'"
proof -
  have ok: "pool_ok pool' h'" by (rule pool_alloc_invariant [OF assms])
  have "b \<in> set (blocks (pages pool')) \<union> set (blocks (large_blocks pool')) \<union> set_option (alloc_block pool')"
    using assms(2)
    by (auto simp: amqp_pool_alloc_def record_pool_block_def Let_def split: if_splits option.splits prod.splits)
  with ok show ?thesis
    by (auto simp: pool_ok_iff bl_ok_def bl_owned_def alloc_block_ok_def pool_arrays_def pool_touched_def pool_owned_def)
qed

lemma data_block_alloc:
  assumes ok: "pools_ok c h" and get: "amqp_get_channel_pool c ch = Some pool"
    and a: "amqp_pool_alloc pool n h = (Some (b, off), pool', h')"
  shows "data_block (set_channel_pool ch pool' c) h' b"
proof -
  note D = pools_okD [OF ok]
  note d = pool_alloc_data [OF D(3) [OF get] a]
  have "b \<notin> pool_arrays q" if "amqp_get_channel_pool (set_channel_pool ch pool' c) x = Some q" for x q
  proof (cases "x = ch")
    case True
    with that d get_set_channel_pool [OF D(1) get] show ?thesis by simp
  next
    case False
    have p: "pools_ok (set_channel_pool ch pool' c) h'"
      by (rule pools_ok_step [OF ok get pool_step_alloc [OF D(3) [OF get] a]])
    have "amqp_get_channel_pool (set_channel_pool ch pool' c) ch = Some pool'"
      using get_set_channel_pool [OF D(1) get] by simp
    from pools_okD(4) [OF p that this False] d have "b \<notin> pool_touched q" by blast
    then show ?thesis by (auto simp: pool_touched_def pool_owned_def bl_owned_def pool_arrays_def)
  qed
  with d show ?thesis by (simp add: data_block_def)
qed

lemma data_block_get_or_create:
  assumes "pools_ok c h" and "amqp_get_or_create_channel_pool c ch h = (r, c', h')" and "data_block c h b"
  shows "data_block c' h' b \<and> content h' b = content h b"
proof -
  note G = get_or_create_ok [OF assms(1,2)]
  have "b \<notin> pool_arrays q" if "amqp_get_channel_pool c' x = Some q" for x q
  proof (cases "c' = c")
    case True
    with that assms(3) show ?thesis by (simp add: data_block_def)
  next
    case False
    with assms(2) obtain k where "c' = add_pool_entry k ch (init_amqp_pool (size_t_of_int (frame_max c))) c"
      by (auto simp: amqp_get_or_create_channel_pool_def Let_def split: option.splits prod.splits)
    with that assms(3) get_add_pool_entry [OF pools_okD(1) [OF assms(1)]] show ?thesis
      by (auto simp: data_block_def pool_arrays_def init_amqp_pool_def split: if_splits)
  qed
  with assms(3) G(5) show ?thesis by (simp add: data_block_def)
qed

lemma data_block_set:
  assumes ok: "pools_ok c h" and get: "amqp_get_channel_pool c ch = Some pool" and b: "data_block c h b"
    and s: "b \<in> live h' \<and> b \<notin> pool_arrays pool'"
  shows "data_block (set_channel_pool ch pool' c) h' b"
  using s b get_set_channel_pool [OF pools_okD(1) [OF ok] get]
  by (auto simp: data_block_def split: if_splits)

end
