(* ===== verification/Amqp_Lifecycle.thy ===== *)
theory Amqp_Lifecycle
  imports Amqp_Pools Amqp_Time
begin

text \<open>
  The life of a connection object: \<open>amqp_new_connection\<close>, \<open>amqp_tune_connection\<close>,
  \<open>amqp_destroy_connection\<close> and the setters and getters of \<open>amqp_connection.c\<close>, the socket
  object of \<open>amqp_tcp_socket.c\<close>, and the timeouts of \<open>amqp_api.c\<close>.  The lemmas show who owns
  which block of the heap: the parts of a connection never share one, and destroying the
  connection frees each of them once.
\<close>

section \<open>The objects\<close>

text \<open>
  A connection as the program holds it: the block of the object itself, its fields, and the
  socket it owns.  A socket that is closed has the descriptor \<open>-1\<close>.
\<close>

record amqp_tcp_socket_t =
  socket_block :: nat
  socket_fd :: int

record amqp_connection =
  self :: nat
  obj :: amqp_connection_state_t
  socket :: "amqp_tcp_socket_t option"

definition AMQP_INITIAL_FRAME_POOL_PAGE_SIZE :: int where "AMQP_INITIAL_FRAME_POOL_PAGE_SIZE = 65536"
definition AMQP_INITIAL_INBOUND_SOCK_BUFFER_SIZE :: nat where "AMQP_INITIAL_INBOUND_SOCK_BUFFER_SIZE = 131072"
definition AMQP_DEFAULT_LOGIN_TIMEOUT_SEC :: int where "AMQP_DEFAULT_LOGIN_TIMEOUT_SEC = 12"
definition SIZEOF_CONNECTION_STATE :: nat where "SIZEOF_CONNECTION_STATE = 448"
definition SIZEOF_TCP_SOCKET :: nat where "SIZEOF_TCP_SOCKET = 24"

section \<open>The socket object\<close>

text \<open>
  Deleting closes the descriptor: the functions return the descriptors they hand to the
  operating system for closing.
\<close>

definition amqp_tcp_socket_delete :: "amqp_tcp_socket_t \<Rightarrow> heap \<Rightarrow> int list \<times> heap" where
  "amqp_tcp_socket_delete s h =
    (if socket_fd s = -1 then [] else [socket_fd s], free (Some (socket_block s)) h)"

definition amqp_socket_delete :: "amqp_tcp_socket_t option \<Rightarrow> heap \<Rightarrow> int list \<times> heap" where
  "amqp_socket_delete s h = (case s of None \<Rightarrow> ([], h) | Some s \<Rightarrow> amqp_tcp_socket_delete s h)"

definition amqp_set_socket ::
  "amqp_tcp_socket_t option \<Rightarrow> amqp_connection \<Rightarrow> heap \<Rightarrow> int list \<times> amqp_connection \<times> heap" where
  "amqp_set_socket s c h =
    (case amqp_socket_delete (socket c) h of (closed, h') \<Rightarrow> (closed, c\<lparr>socket := s\<rparr>, h'))"

definition amqp_tcp_socket_new ::
  "amqp_connection \<Rightarrow> heap \<Rightarrow> amqp_tcp_socket_t option \<times> int list \<times> amqp_connection \<times> heap" where
  "amqp_tcp_socket_new c h =
    (case calloc SIZEOF_TCP_SOCKET h of
       (None, h') \<Rightarrow> (None, [], c, h')
     | (Some b, h') \<Rightarrow>
         let s = Some \<lparr>socket_block = b, socket_fd = -1\<rparr> in (s, amqp_set_socket s c h'))"

definition amqp_tcp_socket_set_sockfd :: "int \<Rightarrow> amqp_tcp_socket_t \<Rightarrow> amqp_tcp_socket_t" where
  "amqp_tcp_socket_set_sockfd fd s = s\<lparr>socket_fd := fd\<rparr>"

text \<open>\<open>None\<close>: the program is aborted.\<close>

definition amqp_set_sockfd :: "int \<Rightarrow> amqp_connection \<Rightarrow> heap \<Rightarrow> (int list \<times> amqp_connection \<times> heap) option" where
  "amqp_set_sockfd fd c h =
    (case amqp_tcp_socket_new c h of
       (None, _) \<Rightarrow> None
     | (Some _, closed, c', h') \<Rightarrow>
         Some (closed, c'\<lparr>socket := map_option (amqp_tcp_socket_set_sockfd fd) (socket c')\<rparr>, h'))"

definition amqp_get_socket :: "amqp_connection \<Rightarrow> amqp_tcp_socket_t option" where
  "amqp_get_socket c = socket c"

definition amqp_get_sockfd :: "amqp_connection \<Rightarrow> int" where
  "amqp_get_sockfd c = (case socket c of None \<Rightarrow> -1 | Some s \<Rightarrow> socket_fd s)"

section \<open>Tuning\<close>

text \<open>
  \<open>realloc\<close> to 0 bytes is left to the implementation by the C standard; the GNU C library
  frees the block and returns NULL.
\<close>

definition realloc_buffer :: "nat option \<Rightarrow> nat \<Rightarrow> heap \<Rightarrow> nat option \<times> heap" where
  "realloc_buffer p n h = (if n = 0 \<and> p \<noteq> None then (None, free p h) else realloc p n h)"

text \<open>
  \<open>resize n xs\<close>: \<open>n\<close> bytes that begin with \<open>xs\<close>.  Bytes that were never written are shown
  as 0.  The length of the buffer is set before the memory is there: after a failure it is
  that of the block that was not obtained, while \<open>outbound_block\<close> is still the old block.
  Bytes of \<open>outbound_buffer\<close> behind the end of that block are outside of the memory of the
  program, and what the model says of them does not describe the code.
\<close>

definition resize :: "nat \<Rightarrow> byte list \<Rightarrow> byte list" where
  "resize n xs = take n xs @ replicate (n - length xs) 0"

text \<open>
  \<open>now_send\<close> and \<open>now_recv\<close> are the readings of the clock; \<open>None\<close>: the program is aborted, or
  twice the heartbeat does not fit an \<open>int\<close>.
\<close>

definition amqp_tune_connection ::
  "u64 \<Rightarrow> u64 \<Rightarrow> int \<Rightarrow> int \<Rightarrow> int \<Rightarrow> amqp_connection_state_t \<Rightarrow> heap \<Rightarrow>
    (amqp_status_enum \<times> amqp_connection_state_t \<times> heap) option" where
  "amqp_tune_connection now_send now_recv channel_max' frame_max' heartbeat' c h =
    (if state c \<noteq> CONNECTION_STATE_IDLE then None else
     let c1 = c\<lparr>channel_max := channel_max', frame_max := frame_max',
                heartbeat := (if 0 > heartbeat' then 0 else heartbeat')\<rparr> in
     case amqp_time_s_from_now now_send (amqp_heartbeat_send c1) of (res, t) \<Rightarrow>
       let c2 = (case t of None \<Rightarrow> c1 | Some t \<Rightarrow> c1\<lparr>next_send_heartbeat := t\<rparr>) in
       if res \<noteq> AMQP_STATUS_OK then Some (res, c2, h) else
       (case amqp_heartbeat_recv c2 of
          None \<Rightarrow> None
        | Some seconds \<Rightarrow> (case amqp_time_s_from_now now_recv seconds of (res, t) \<Rightarrow>
            let c3 = (case t of None \<Rightarrow> c2 | Some t \<Rightarrow> c2\<lparr>next_recv_heartbeat := t\<rparr>) in
            if res \<noteq> AMQP_STATUS_OK then Some (res, c3, h) else
            let c4 = c3\<lparr>outbound_buffer := resize (size_t_of_int frame_max') (outbound_buffer c3)\<rparr> in
            (case realloc_buffer (outbound_block c4) (size_t_of_int frame_max') h of
               (None, h') \<Rightarrow> Some (AMQP_STATUS_NO_MEMORY, c4, h')
             | (Some b, h') \<Rightarrow> Some (AMQP_STATUS_OK, c4\<lparr>outbound_block := Some b\<rparr>, h')))))"

definition amqp_get_channel_max :: "amqp_connection_state_t \<Rightarrow> int" where
  "amqp_get_channel_max c = channel_max c"

definition amqp_get_frame_max :: "amqp_connection_state_t \<Rightarrow> int" where
  "amqp_get_frame_max c = frame_max c"

definition amqp_get_heartbeat :: "amqp_connection_state_t \<Rightarrow> int" where
  "amqp_get_heartbeat c = heartbeat c"

section \<open>Creating\<close>

text \<open>The object as \<open>calloc\<close> leaves it: the first state of the enumeration, no pointers.\<close>

definition zeroed_pool :: amqp_pool_t where
  "zeroed_pool = \<lparr>pagesize = 0, pages = empty_bl, large_blocks = empty_bl,
     next_page = 0, alloc_block = None, alloc_used = 0\<rparr>"

definition zeroed_connection :: amqp_connection_state_t where
  "zeroed_connection = \<lparr>pool_table = replicate POOL_TABLE_SIZE [], state = CONNECTION_STATE_IDLE,
     channel_max = 0, frame_max = 0, heartbeat = 0, next_recv_heartbeat = \<lparr>time_point_ns = 0\<rparr>,
     next_send_heartbeat = \<lparr>time_point_ns = 0\<rparr>, header_buffer = replicate (HEADER_SIZE + 1) 0,
     inbound_buffer = In_null, inbound_offset = 0, target_size = 0, outbound_block = None,
     outbound_buffer = [], sock_inbound_block = None, sock_inbound_buffer = [],
     sock_inbound_offset = 0, sock_inbound_limit = 0, first_queued_frame = [],
     most_recent_api_result = \<lparr>reply_type = AMQP_RESPONSE_NONE, reply = None, library_error = 0\<rparr>,
     server_properties = [], client_properties = [], properties_pool = zeroed_pool,
     handshake_timeout = None, rpc_timeout = None\<rparr>"

text \<open>The tuning of a zeroed object needs no clock: without heartbeats no deadline is computed.\<close>

definition amqp_new_connection :: "heap \<Rightarrow> amqp_connection option \<times> heap" where
  "amqp_new_connection h =
    (case calloc SIZEOF_CONNECTION_STATE h of
       (None, h1) \<Rightarrow> (None, h1)
     | (Some b, h1) \<Rightarrow>
         (case amqp_tune_connection 0 0 0 AMQP_INITIAL_FRAME_POOL_PAGE_SIZE 0 zeroed_connection h1 of
            None \<Rightarrow> (None, h1)
          | Some (res, c, h2) \<Rightarrow>
              if res \<noteq> AMQP_STATUS_OK then (None, free (Some b) (free (sock_inbound_block c) h2)) else
              let c1 = c\<lparr>inbound_buffer := In_header_buffer, state := CONNECTION_STATE_INITIAL, target_size := 8,
                         sock_inbound_buffer := resize AMQP_INITIAL_INBOUND_SOCK_BUFFER_SIZE []\<rparr> in
              (case malloc AMQP_INITIAL_INBOUND_SOCK_BUFFER_SIZE h2 of
                 (None, h3) \<Rightarrow> (None, free (Some b) (free (sock_inbound_block c1) h3))
               | (Some sb, h3) \<Rightarrow>
                   (Some \<lparr>self = b,
                      obj = c1\<lparr>sock_inbound_block := Some sb, properties_pool := init_amqp_pool 512,
                        handshake_timeout := Some \<lparr>tv_sec = AMQP_DEFAULT_LOGIN_TIMEOUT_SEC, tv_usec = 0\<rparr>\<rparr>,
                      socket = None\<rparr>, h3))))"

section \<open>Destroying\<close>

fun empty_entries :: "amqp_pool_table_entry_t list \<Rightarrow> heap \<Rightarrow> heap" where
  "empty_entries [] h = h"
| "empty_entries (e # es) h = empty_entries es (free (Some (entry_block e)) (snd (empty_amqp_pool (entry_pool e) h)))"

fun empty_table :: "amqp_pool_table_entry_t list list \<Rightarrow> heap \<Rightarrow> heap" where
  "empty_table [] h = h"
| "empty_table (row # rows) h = empty_table rows (empty_entries row h)"

text \<open>The argument may be NULL; the result always is \<open>AMQP_STATUS_OK\<close>.\<close>

definition amqp_destroy_connection :: "amqp_connection option \<Rightarrow> heap \<Rightarrow> amqp_status_enum \<times> int list \<times> heap" where
  "amqp_destroy_connection c h =
    (AMQP_STATUS_OK,
     case c of
       None \<Rightarrow> ([], h)
     | Some c \<Rightarrow>
         let h1 = empty_table (pool_table (obj c)) h;
             h2 = free (outbound_block (obj c)) h1;
             h3 = free (sock_inbound_block (obj c)) h2 in
         (case amqp_socket_delete (socket c) h3 of (closed, h4) \<Rightarrow>
           (closed, free (Some (self c)) (snd (empty_amqp_pool (properties_pool (obj c)) h4)))))"

section \<open>Timeouts\<close>

definition amqp_get_handshake_timeout :: "amqp_connection_state_t \<Rightarrow> timeval option" where
  "amqp_get_handshake_timeout c = handshake_timeout c"

definition amqp_get_rpc_timeout :: "amqp_connection_state_t \<Rightarrow> timeval option" where
  "amqp_get_rpc_timeout c = rpc_timeout c"

definition amqp_set_handshake_timeout ::
  "timeval option \<Rightarrow> amqp_connection_state_t \<Rightarrow> amqp_status_enum \<times> amqp_connection_state_t" where
  "amqp_set_handshake_timeout t c =
    (case t of
       Some tv \<Rightarrow> if tv_sec tv < 0 \<or> tv_usec tv < 0 then (AMQP_STATUS_INVALID_PARAMETER, c)
         else (AMQP_STATUS_OK, c\<lparr>handshake_timeout := Some tv\<rparr>)
     | None \<Rightarrow> (AMQP_STATUS_OK, c\<lparr>handshake_timeout := None\<rparr>))"

definition amqp_set_rpc_timeout ::
  "timeval option \<Rightarrow> amqp_connection_state_t \<Rightarrow> amqp_status_enum \<times> amqp_connection_state_t" where
  "amqp_set_rpc_timeout t c =
    (case t of
       Some tv \<Rightarrow> if tv_sec tv < 0 \<or> tv_usec tv < 0 then (AMQP_STATUS_INVALID_PARAMETER, c)
         else (AMQP_STATUS_OK, c\<lparr>rpc_timeout := Some tv\<rparr>)
     | None \<Rightarrow> (AMQP_STATUS_OK, c\<lparr>rpc_timeout := None\<rparr>))"

section \<open>Releasing memory\<close>

text \<open>
  \<open>releases f S\<close>: when the blocks \<open>S\<close> are live, \<open>f\<close> frees them and no others, each once.
\<close>

definition releases :: "(heap \<Rightarrow> heap) \<Rightarrow> nat set \<Rightarrow> bool" where
  "releases f S \<longleftrightarrow> (\<forall>h. S \<subseteq> live h \<longrightarrow>
     live (f h) = live h - S \<and> bad_free (f h) = bad_free h \<and> next_id (f h) = next_id h \<and>
     fails (f h) = fails h \<and> content (f h) = content h)"

lemma releasesD:
  assumes "releases f S" and "S \<subseteq> live h"
  shows "live (f h) = live h - S" and "bad_free (f h) = bad_free h" and "next_id (f h) = next_id h"
    and "fails (f h) = fails h" and "content (f h) = content h"
  using assms by (simp_all add: releases_def)

lemma releases_none: "releases (\<lambda>h. h) {}"
  by (simp add: releases_def)

lemma releases_free: "releases (free p) (set_option p)"
  by (cases p) (auto simp: releases_def free_def)

lemma releases_comp:
  assumes f: "releases f S" and g: "releases g T" and "S \<inter> T = {}"
  shows "releases (\<lambda>h. g (f h)) (S \<union> T)"
  unfolding releases_def
proof (intro allI impI)
  fix h :: heap assume "S \<union> T \<subseteq> live h"
  then have s: "S \<subseteq> live h" and t: "T \<subseteq> live (f h)"
    using releasesD(1) [OF f, of h] assms(3) by auto
  show "live (g (f h)) = live h - (S \<union> T) \<and> bad_free (g (f h)) = bad_free h \<and> next_id (g (f h)) = next_id h \<and>
      fails (g (f h)) = fails h \<and> content (g (f h)) = content h"
    using releasesD [OF f s] releasesD [OF g t] by auto
qed

text \<open>The blocks of a pool are distinct whatever the heap; that they are live is a matter of it.\<close>

definition list_shape :: "amqp_pool_blocklist_t \<Rightarrow> bool" where
  "list_shape x \<longleftrightarrow> distinct (blocks x) \<and> set (blocks x) \<inter> set_option (blocklist x) = {} \<and>
     (blocklist x = None \<longrightarrow> blocks x = [])"

definition pool_shape :: "amqp_pool_t \<Rightarrow> bool" where
  "pool_shape pool \<longleftrightarrow> list_shape (pages pool) \<and> list_shape (large_blocks pool) \<and>
     bl_owned (pages pool) \<inter> bl_owned (large_blocks pool) = {}"

lemma bl_ok_shape: "bl_ok x h \<longleftrightarrow> list_shape x \<and> bl_owned x \<subseteq> live h"
  by (auto simp: bl_ok_def list_shape_def)

lemma pool_ok_shape: "pool_ok pool h \<Longrightarrow> pool_shape pool \<and> pool_owned pool \<subseteq> live h"
  by (simp add: pool_ok_iff pool_shape_def bl_ok_shape pool_owned_def)

lemma releases_blocklist: "list_shape x \<Longrightarrow> releases (\<lambda>h. snd (empty_blocklist x h)) (bl_owned x)"
  unfolding releases_def
  using empty_blocklist_frees [of x] by (metis bl_ok_shape prod.collapse)

lemma releases_pool:
  assumes "pool_shape pool"
  shows "releases (\<lambda>h. snd (empty_amqp_pool pool h)) (pool_owned pool)"
proof -
  have e: "snd (empty_amqp_pool pool h) =
      snd (empty_blocklist (pages pool) (snd (empty_blocklist (large_blocks pool) h)))" for h
    by (simp add: empty_amqp_pool_def recycle_amqp_pool_def split: prod.splits)
  have "releases (\<lambda>h. snd (empty_blocklist (pages pool) (snd (empty_blocklist (large_blocks pool) h))))
      (bl_owned (large_blocks pool) \<union> bl_owned (pages pool))"
    using assms by (intro releases_comp releases_blocklist) (auto simp: pool_shape_def)
  then show ?thesis by (simp add: e pool_owned_def Un_commute)
qed

section \<open>Who owns what\<close>

text \<open>
  The parts of a connection, in the order in which they are freed; no two of them share a
  block, and all of them are live.
\<close>

definition entry_parts :: "amqp_pool_table_entry_t \<Rightarrow> nat set list" where
  "entry_parts e = [pool_owned (entry_pool e), {entry_block e}]"

definition table_parts :: "amqp_pool_table_entry_t list list \<Rightarrow> nat set list" where
  "table_parts rows = concat (map entry_parts (concat rows))"

definition other_parts :: "amqp_connection \<Rightarrow> nat set list" where
  "other_parts c = [set_option (outbound_block (obj c)), set_option (sock_inbound_block (obj c)),
     set_option (map_option socket_block (socket c)), pool_owned (properties_pool (obj c)), {self c}]"

definition parts :: "amqp_connection \<Rightarrow> nat set list" where
  "parts c = table_parts (pool_table (obj c)) @ other_parts c"

definition connection_blocks :: "amqp_connection \<Rightarrow> nat set" where
  "connection_blocks c = \<Union> (set (parts c))"

definition separate :: "nat set list \<Rightarrow> bool" where
  "separate ps \<longleftrightarrow> sorted_wrt (\<lambda>A B. A \<inter> B = {}) ps"

definition connection_ok :: "amqp_connection \<Rightarrow> heap \<Rightarrow> bool" where
  "connection_ok c h \<longleftrightarrow> heap_ok h \<and> separate (parts c) \<and> connection_blocks c \<subseteq> live h \<and>
     pool_shape (properties_pool (obj c)) \<and>
     (\<forall>row \<in> set (pool_table (obj c)). \<forall>e \<in> set row. pool_shape (entry_pool e))"

lemma separate_append:
  "separate (ps @ qs) \<longleftrightarrow> separate ps \<and> separate qs \<and> \<Union> (set ps) \<inter> \<Union> (set qs) = {}"
  by (auto simp: separate_def sorted_wrt_append)

lemma separate_Cons: "separate (A # ps) \<longleftrightarrow> separate ps \<and> A \<inter> \<Union> (set ps) = {}"
  by (auto simp: separate_def)

lemma releases_entries:
  assumes "separate (concat (map entry_parts es))" and "\<forall>e \<in> set es. pool_shape (entry_pool e)"
  shows "releases (empty_entries es) (\<Union> (set (concat (map entry_parts es))))"
  using assms
proof (induction es)
  case (Cons e es)
  let ?rest = "\<Union> (set (concat (map entry_parts es)))"
  have s: "pool_owned (entry_pool e) \<inter> {entry_block e} = {}"
    "(pool_owned (entry_pool e) \<union> {entry_block e}) \<inter> ?rest = {}" "separate (concat (map entry_parts es))"
    using Cons.prems(1) by (auto simp: entry_parts_def [of e] separate_Cons)
  have "releases (\<lambda>h. free (Some (entry_block e)) (snd (empty_amqp_pool (entry_pool e) h)))
      (pool_owned (entry_pool e) \<union> {entry_block e})"
    using releases_comp [OF releases_pool releases_free [of "Some (entry_block e)"], of "entry_pool e"] Cons.prems(2) s(1)
    by simp
  from releases_comp [OF this Cons.IH s(2)] s(3) Cons.prems(2) show ?case
    by (simp add: entry_parts_def [of e] Un_assoc)
qed (simp add: releases_def)

lemma releases_table:
  assumes "separate (table_parts rows)" and "\<forall>row \<in> set rows. \<forall>e \<in> set row. pool_shape (entry_pool e)"
  shows "releases (empty_table rows) (\<Union> (set (table_parts rows)))"
  using assms
proof (induction rows)
  case (Cons row rows)
  have s: "separate (concat (map entry_parts row))" "separate (table_parts rows)"
    "\<Union> (set (concat (map entry_parts row))) \<inter> \<Union> (set (table_parts rows)) = {}"
    using Cons.prems(1) by (simp_all add: table_parts_def separate_append)
  have "releases (\<lambda>h. empty_table rows (empty_entries row h))
      (\<Union> (set (concat (map entry_parts row))) \<union> \<Union> (set (table_parts rows)))"
    by (intro releases_comp releases_entries Cons.IH) (use s Cons.prems(2) in auto)
  then show ?case by (simp add: table_parts_def Un_Union_image)
qed (simp add: table_parts_def releases_def)

lemma releases_socket:
  "releases (\<lambda>h. snd (amqp_socket_delete s h)) (set_option (map_option socket_block s))"
  using releases_free [of "map_option socket_block s"] releases_none
  by (cases s) (simp_all add: amqp_socket_delete_def amqp_tcp_socket_delete_def)

lemma releases_connection:
  assumes "connection_ok c h0"
  shows "releases (\<lambda>h. snd (snd (amqp_destroy_connection (Some c) h))) (connection_blocks c)"
proof -
  let ?T = "\<Union> (set (table_parts (pool_table (obj c))))"
  let ?O = "set_option (outbound_block (obj c))" and ?I = "set_option (sock_inbound_block (obj c))"
    and ?S = "set_option (map_option socket_block (socket c))" and ?P = "pool_owned (properties_pool (obj c))"
  note ok = assms [unfolded connection_ok_def parts_def separate_append]
  have s: "separate (table_parts (pool_table (obj c)))" "?T \<inter> ?O = {}" "(?T \<union> ?O) \<inter> ?I = {}"
    "(?T \<union> ?O \<union> ?I) \<inter> ?S = {}" "(?T \<union> ?O \<union> ?I \<union> ?S) \<inter> ?P = {}" "(?T \<union> ?O \<union> ?I \<union> ?S \<union> ?P) \<inter> {self c} = {}"
    using ok by (auto simp: other_parts_def separate_Cons)
  have "releases (\<lambda>h. free (Some (self c)) (snd (empty_amqp_pool (properties_pool (obj c))
      (snd (amqp_socket_delete (socket c) (free (sock_inbound_block (obj c)) (free (outbound_block (obj c))
        (empty_table (pool_table (obj c)) h))))))))
      (?T \<union> ?O \<union> ?I \<union> ?S \<union> ?P \<union> set_option (Some (self c)))"
    by (intro releases_comp [OF _ releases_free] releases_comp [OF _ releases_pool] releases_comp [OF _ releases_socket]
        releases_table)
      (use ok s in auto)
  moreover have "?T \<union> ?O \<union> ?I \<union> ?S \<union> ?P \<union> set_option (Some (self c)) = connection_blocks c"
    by (auto simp: connection_blocks_def parts_def other_parts_def)
  ultimately show ?thesis
    by (simp add: amqp_destroy_connection_def Let_def case_prod_unfold)
qed

section \<open>A new connection\<close>

text \<open>
  Three allocations, in this order; when the third is refused the block of the second, the
  buffer for frames to be sent, is lost.
\<close>

lemma tune_new:
  "amqp_tune_connection now now' 0 AMQP_INITIAL_FRAME_POOL_PAGE_SIZE 0 zeroed_connection h =
    Some (case malloc 65536 h of
      (None, h') \<Rightarrow> (AMQP_STATUS_NO_MEMORY, zeroed_connection\<lparr>frame_max := 65536, next_send_heartbeat := amqp_time_infinite,
         next_recv_heartbeat := amqp_time_infinite, outbound_buffer := resize 65536 []\<rparr>, h')
    | (Some b, h') \<Rightarrow> (AMQP_STATUS_OK, zeroed_connection\<lparr>frame_max := 65536, next_send_heartbeat := amqp_time_infinite,
         next_recv_heartbeat := amqp_time_infinite, outbound_buffer := resize 65536 [], outbound_block := Some b\<rparr>, h'))"
  by (cases "malloc 65536 h"; cases "fst (malloc 65536 h)")
    (simp_all add: amqp_tune_connection_def amqp_heartbeat_recv_def amqp_heartbeat_send_def zeroed_connection_def amqp_time_s_from_now_def realloc_buffer_def realloc_def
      AMQP_INITIAL_FRAME_POOL_PAGE_SIZE_def size_t_of_int_def free_def Let_def)

definition new_object :: "nat \<Rightarrow> nat \<Rightarrow> nat \<Rightarrow> amqp_connection" where
  "new_object b ob sb = \<lparr>self = b,
     obj = zeroed_connection\<lparr>frame_max := 65536, next_send_heartbeat := amqp_time_infinite,
       next_recv_heartbeat := amqp_time_infinite, outbound_buffer := resize 65536 [],
       outbound_block := Some ob, inbound_buffer := In_header_buffer,
       state := CONNECTION_STATE_INITIAL, target_size := 8,
       sock_inbound_buffer := resize AMQP_INITIAL_INBOUND_SOCK_BUFFER_SIZE [],
       sock_inbound_block := Some sb, properties_pool := init_amqp_pool 512,
       handshake_timeout := Some \<lparr>tv_sec = AMQP_DEFAULT_LOGIN_TIMEOUT_SEC, tv_usec = 0\<rparr>\<rparr>,
     socket = None\<rparr>"

lemma new_connection_allocs:
  "amqp_new_connection h =
    (case calloc SIZEOF_CONNECTION_STATE h of
       (None, h1) \<Rightarrow> (None, h1)
     | (Some b, h1) \<Rightarrow>
         (case malloc 65536 h1 of
            (None, h2) \<Rightarrow> (None, free (Some b) h2)
          | (Some ob, h2) \<Rightarrow>
              (case malloc AMQP_INITIAL_INBOUND_SOCK_BUFFER_SIZE h2 of
                 (None, h3) \<Rightarrow> (None, free (Some b) h3)
               | (Some sb, h3) \<Rightarrow> (Some (new_object b ob sb), h3))))"
  unfolding amqp_new_connection_def tune_new
  by (simp add: Let_def zeroed_connection_def new_object_def free_def [of None] split: prod.split option.split)

lemma new_connection_cases:
  assumes n: "amqp_new_connection h = (r, h')"
  obtains (no_object) "r = None" "live h' = live h" "bad_free h' = bad_free h" "next_id h' = Suc (next_id h)"
  | (no_buffer) "r = None" "live h' = live h - {next_id h}" "bad_free h' = bad_free h"
      "next_id h' = Suc (Suc (next_id h))"
  | (lost) "r = None" "live h' = insert (Suc (next_id h)) (live h) - {next_id h}" "bad_free h' = bad_free h"
      "next_id h' = Suc (Suc (Suc (next_id h)))"
      "fails h (Suc (Suc (next_id h))) AMQP_INITIAL_INBOUND_SOCK_BUFFER_SIZE"
  | (made) "r = Some (new_object (next_id h) (Suc (next_id h)) (Suc (Suc (next_id h))))"
      "live h' = {next_id h, Suc (next_id h), Suc (Suc (next_id h))} \<union> live h" "bad_free h' = bad_free h"
      "next_id h' = Suc (Suc (Suc (next_id h)))"
proof (cases rule: calloc_cases [of SIZEOF_CONNECTION_STATE h])
  case (1 h1)
  with n show thesis by (intro no_object) (auto simp: new_connection_allocs)
next
  case (2 h1)
  show thesis
  proof (cases rule: malloc_cases [of 65536 h1])
    case o: (1 h2)
    with 2 n show thesis
      by (intro no_buffer) (auto simp: new_connection_allocs free_def)
  next
    case o: (2 h2)
    show thesis
    proof (cases rule: malloc_cases [of AMQP_INITIAL_INBOUND_SOCK_BUFFER_SIZE h2])
      case i: (1 h3)
      have "fails h (Suc (Suc (next_id h))) AMQP_INITIAL_INBOUND_SOCK_BUFFER_SIZE"
        using i(1) 2(2) o(2) by (auto simp: malloc_def Let_def split: if_splits)
      with i 2 o n show thesis
        by (intro lost) (auto simp: new_connection_allocs free_def)
    next
      case i: (2 h3)
      with n 2 o show thesis by (intro made) (auto simp: new_connection_allocs)
    qed
  qed
qed

lemma new_connection_some:
  assumes h: "heap_ok h" and n: "amqp_new_connection h = (Some c, h')"
  shows "connection_ok c h' \<and> live h' = live h \<union> connection_blocks c \<and> live h \<inter> connection_blocks c = {}"
  using n
proof (cases rule: new_connection_cases)
  case made
  have p: "parts c = [{Suc (next_id h)}, {Suc (Suc (next_id h))}, {}, {}, {next_id h}]"
    using made(1) by (simp add: parts_def table_parts_def other_parts_def zeroed_connection_def new_object_def
        init_amqp_pool_def pool_owned_def bl_owned_def)
  have f: "next_id h \<notin> live h" "Suc (next_id h) \<notin> live h" "Suc (Suc (next_id h)) \<notin> live h"
    using heap_ok_fresh [OF h] by simp_all
  have s: "pool_shape (properties_pool (obj c))" "\<forall>row \<in> set (pool_table (obj c)). row = []"
    using made(1) by (auto simp: new_object_def pool_shape_def list_shape_def init_amqp_pool_def bl_owned_def zeroed_connection_def)
  have "heap_ok h'" using h made by (auto simp: heap_ok_def)
  with made p f s show ?thesis
    by (auto simp: connection_ok_def connection_blocks_def separate_def)
qed simp_all

lemma new_connection_none:
  assumes h: "heap_ok h" and n: "amqp_new_connection h = (None, h')"
  shows "heap_ok h' \<and> (live h' = live h \<or> live h' = insert (Suc (next_id h)) (live h) \<and>
    fails h (Suc (Suc (next_id h))) AMQP_INITIAL_INBOUND_SOCK_BUFFER_SIZE)"
proof -
  have f: "next_id h \<notin> live h" "Suc (next_id h) \<notin> live h"
    using heap_ok_fresh [OF h] by simp_all
  from n show ?thesis
    by (cases rule: new_connection_cases) (use h f in \<open>auto simp: heap_ok_def less_SucI\<close>)
qed

section \<open>Keeping the parts apart\<close>

lemma update_entry_split:
  assumes "find (\<lambda>e. entry_channel e = ch) row = Some e"
  shows "\<exists>r1 r2. row = r1 @ e # r2 \<and> (\<forall>p. update_entry ch p row = r1 @ e\<lparr>entry_pool := p\<rparr> # r2)"
  using assms
proof (induction row)
  case (Cons x row)
  show ?case
  proof (cases "entry_channel x = ch")
    case True
    with Cons.prems show ?thesis by (intro exI [of _ "[]"] exI [of _ row]) auto
  next
    case False
    with Cons obtain r1 r2 where "row = r1 @ e # r2" "\<forall>p. update_entry ch p row = r1 @ e\<lparr>entry_pool := p\<rparr> # r2" by auto
    with False show ?thesis by (intro exI [of _ "x # r1"] exI [of _ r2]) auto
  qed
qed simp

text \<open>A pool of a channel is one part, in the midst of the others.\<close>

lemma channel_pool_split:
  assumes t: "table_ok c" and g: "amqp_get_channel_pool c ch = Some pool"
  shows "\<exists>ps qs. table_parts (pool_table c) = ps @ pool_owned pool # qs \<and>
    (\<forall>p. table_parts (pool_table (set_channel_pool ch p c)) = ps @ pool_owned p # qs)"
proof -
  let ?row = "pool_table c ! pool_index ch"
  have l: "pool_index ch < length (pool_table c)" using t by (simp add: table_ok_def)
  from g obtain e where e: "find (\<lambda>e. entry_channel e = ch) ?row = Some e" "entry_pool e = pool"
    by (auto simp: amqp_get_channel_pool_def)
  from update_entry_split [OF e(1)] obtain r1 r2 where r: "?row = r1 @ e # r2"
    "\<forall>p. update_entry ch p ?row = r1 @ e\<lparr>entry_pool := p\<rparr> # r2" by blast
  let ?a = "take (pool_index ch) (pool_table c)" and ?b = "drop (Suc (pool_index ch)) (pool_table c)"
  have "pool_table c = ?a @ (r1 @ e # r2) # ?b" using id_take_nth_drop [OF l] r(1) by simp
  then have "table_parts (pool_table c) =
      (table_parts ?a @ table_parts [r1]) @ pool_owned pool # {entry_block e} # table_parts [r2] @ table_parts ?b"
    using e(2) by (metis (no_types, lifting) append.assoc append_Cons append_Nil concat.simps concat_append entry_parts_def
        list.simps(9) map_append self_append_conv table_parts_def)
  moreover have "table_parts (pool_table (set_channel_pool ch p c)) =
      (table_parts ?a @ table_parts [r1]) @ pool_owned p # {entry_block e} # table_parts [r2] @ table_parts ?b" for p
    using l r(2) by (simp add: set_channel_pool_def upd_conv_take_nth_drop table_parts_def entry_parts_def)
  ultimately show ?thesis by blast
qed

lemma separate_replace:
  assumes "separate (ps @ A # qs)" and "B \<inter> (\<Union> (set ps) \<union> \<Union> (set qs)) = {}"
  shows "separate (ps @ B # qs)"
  using assms by (auto simp: separate_append separate_Cons)

text \<open>
  What is done in the pool of a channel - allocating, decoding, recycling - keeps the parts
  apart: the pool takes only blocks that are new, or its own.
\<close>

lemma connection_ok_in_pool:
  assumes ok: "connection_ok c h" and t: "table_ok (obj c)" and g: "amqp_get_channel_pool (obj c) ch = Some pool"
    and p': "pool_ok pool' h'" and away: "live h - pool_owned pool \<subseteq> live h' - pool_owned pool'"
  shows "connection_ok (c\<lparr>obj := set_channel_pool ch pool' (obj c)\<rparr>) h'"
proof -
  let ?c = "c\<lparr>obj := set_channel_pool ch pool' (obj c)\<rparr>"
  from channel_pool_split [OF t g] obtain ps qs where
    s: "table_parts (pool_table (obj c)) = ps @ pool_owned pool # qs"
       "table_parts (pool_table (obj ?c)) = ps @ pool_owned pool' # qs" by auto
  let ?O = "other_parts c"
  have o: "other_parts ?c = ?O" "properties_pool (obj ?c) = properties_pool (obj c)"
    by (simp_all add: other_parts_def set_channel_pool_def)
  have p: "parts c = ps @ pool_owned pool # (qs @ ?O)" "parts ?c = ps @ pool_owned pool' # (qs @ ?O)"
    using s o by (simp_all add: parts_def)
  have sep: "separate (ps @ pool_owned pool # (qs @ ?O))" and lv: "connection_blocks c \<subseteq> live h"
    using ok p by (simp_all add: connection_ok_def)
  let ?rest = "\<Union> (set ps) \<union> \<Union> (set (qs @ ?O))"
  have "?rest \<inter> pool_owned pool = {}" using sep by (auto simp: separate_append separate_Cons)
  moreover have "?rest \<subseteq> live h" using lv p by (auto simp: connection_blocks_def)
  ultimately have r: "?rest \<subseteq> live h' - pool_owned pool'" using away by blast
  have "separate (parts ?c)"
    unfolding p(2) by (rule separate_replace [OF sep]) (use r in blast)
  moreover have "connection_blocks ?c \<subseteq> live h'"
    using r pool_ok_shape [OF p'] p by (auto simp: connection_blocks_def)
  moreover have "\<forall>row \<in> set (pool_table (obj ?c)). \<forall>e \<in> set row. pool_shape (entry_pool e)"
  proof -
    have "e \<in> set (update_entry ch pool' es) \<Longrightarrow> e \<in> set es \<or> entry_pool e = pool'" for e es
      by (induction es) (auto split: if_splits)
    moreover have "pool_index ch < length (pool_table (obj c))" using t by (simp add: table_ok_def)
    ultimately show ?thesis
      using ok pool_ok_shape [OF p'] unfolding connection_ok_def
      by (auto simp: set_channel_pool_def dest!: set_update_subset_insert [THEN subsetD]) (metis nth_mem)+
  qed
  ultimately show ?thesis
    using ok p' o by (simp add: connection_ok_def pool_ok_iff)
qed

text \<open>
  \<open>strangers c h\<close>: the live blocks that the connection does not own.  A pool that takes a new
  block leaves them as they are.
\<close>

definition strangers :: "amqp_connection \<Rightarrow> heap \<Rightarrow> nat set" where
  "strangers c h = live h - connection_blocks c"

lemma strangers_in_pool:
  assumes t: "table_ok (obj c)" and g: "amqp_get_channel_pool (obj c) ch = Some pool"
    and away: "live h' - pool_owned pool' = live h - pool_owned pool"
  shows "strangers (c\<lparr>obj := set_channel_pool ch pool' (obj c)\<rparr>) h' = strangers c h"
proof -
  let ?c = "c\<lparr>obj := set_channel_pool ch pool' (obj c)\<rparr>"
  from channel_pool_split [OF t g] obtain ps qs where
    s: "table_parts (pool_table (obj c)) = ps @ pool_owned pool # qs"
       "table_parts (pool_table (obj ?c)) = ps @ pool_owned pool' # qs" by auto
  let ?rest = "\<Union> (set ps) \<union> \<Union> (set (qs @ other_parts c))"
  have "other_parts ?c = other_parts c" by (simp add: other_parts_def set_channel_pool_def)
  with s have "connection_blocks c = pool_owned pool \<union> ?rest" "connection_blocks ?c = pool_owned pool' \<union> ?rest"
    by (auto simp: connection_blocks_def parts_def)
  then have "strangers ?c h' = (live h' - pool_owned pool') - ?rest" "strangers c h = (live h - pool_owned pool) - ?rest"
    by (auto simp: strangers_def)
  then show ?thesis by (simp add: away)
qed

lemma connection_ok_get_or_create:
  assumes ok: "connection_ok c h" and t: "table_ok (obj c)"
    and g: "amqp_get_or_create_channel_pool (obj c) ch h = (r, c', h')"
  shows "connection_ok (c\<lparr>obj := c'\<rparr>) h' \<and> strangers (c\<lparr>obj := c'\<rparr>) h' = strangers c h"
proof (cases "amqp_get_channel_pool (obj c) ch")
  case (Some pool)
  with g have "c' = obj c" "h' = h" by (auto simp: amqp_get_or_create_channel_pool_def)
  with ok show ?thesis by simp
next
  case None
  show ?thesis
  proof (cases rule: malloc_cases [of SIZEOF_POOL_TABLE_ENTRY h])
    case (1 h1)
    with None ok g show ?thesis
      by (auto simp: amqp_get_or_create_channel_pool_def connection_ok_def strangers_def heap_ok_def less_SucI)
  next
    case (2 h1)
    let ?pool = "init_amqp_pool (size_t_of_int (frame_max (obj c)))" and ?b = "next_id h"
    let ?c = "c\<lparr>obj := add_pool_entry ?b ch ?pool (obj c)\<rparr>"
    have g': "c' = add_pool_entry ?b ch ?pool (obj c)" "h' = h1"
      using g None 2 by (auto simp: amqp_get_or_create_channel_pool_def Let_def)
    let ?a = "take (pool_index ch) (pool_table (obj c))" and ?d = "drop (Suc (pool_index ch)) (pool_table (obj c))"
    have l: "pool_index ch < length (pool_table (obj c))" using t by (simp add: table_ok_def)
    have "pool_table (obj c) = ?a @ (pool_table (obj c) ! pool_index ch) # ?d" using id_take_nth_drop [OF l] .
    then have "table_parts (pool_table (obj c)) = table_parts ?a @ table_parts (pool_table (obj c) ! pool_index ch # ?d)"
      by (metis concat_append map_append table_parts_def)
    then obtain ps qs where s: "table_parts (pool_table (obj c)) = ps @ qs"
      "table_parts (pool_table (obj ?c)) = ps @ pool_owned ?pool # {?b} # qs"
      using l by (intro that [of "table_parts ?a" "table_parts (pool_table (obj c) ! pool_index ch # ?d)"])
        (simp_all add: add_pool_entry_def upd_conv_take_nth_drop table_parts_def entry_parts_def)
    have o: "other_parts ?c = other_parts c" by (simp add: other_parts_def add_pool_entry_def)
    have b: "?b \<notin> live h" using ok heap_ok_fresh by (auto simp: connection_ok_def)
    have own: "pool_owned ?pool = {}" by (simp add: init_amqp_pool_def pool_owned_def bl_owned_def)
    have "separate (ps @ qs @ other_parts c)" and lv: "connection_blocks c \<subseteq> live h"
      using ok s by (simp_all add: connection_ok_def parts_def)
    moreover have "connection_blocks c = \<Union> (set (ps @ qs @ other_parts c))"
      using s by (simp add: connection_blocks_def parts_def)
    ultimately have "separate (ps @ {} # {?b} # qs @ other_parts c)" and "?b \<notin> connection_blocks c"
      using b by (auto simp: separate_append separate_Cons)
    moreover have "parts ?c = ps @ {} # {?b} # qs @ other_parts c" using s o own by (simp add: parts_def)
    moreover have "connection_blocks ?c = insert ?b (connection_blocks c)"
      using s o own by (auto simp: connection_blocks_def parts_def)
    moreover have "\<forall>row \<in> set (pool_table (obj ?c)). \<forall>e \<in> set row. pool_shape (entry_pool e)"
    proof (intro ballI)
      fix row e assume "row \<in> set (pool_table (obj ?c))" and e: "e \<in> set row"
      then have "row \<in> set (pool_table (obj c)) \<or>
          row = \<lparr>entry_block = ?b, entry_pool = ?pool, entry_channel = ch\<rparr> # pool_table (obj c) ! pool_index ch"
        using set_update_subset_insert by (fastforce simp: add_pool_entry_def)
      with e nth_mem [OF l] have "entry_pool e = ?pool \<or> (\<exists>row \<in> set (pool_table (obj c)). e \<in> set row)" by auto
      moreover have "pool_shape ?pool" by (simp add: pool_shape_def list_shape_def init_amqp_pool_def bl_owned_def)
      ultimately show "pool_shape (entry_pool e)" using ok unfolding connection_ok_def by metis
    qed
    moreover have "heap_ok h1" using ok 2 by (auto simp: connection_ok_def heap_ok_def)
    ultimately show ?thesis
      using ok 2 lv g' b by (auto simp: connection_ok_def strangers_def add_pool_entry_def)
  qed
qed

text \<open>What the ownership of blocks depends on.\<close>

lemma connection_ok_cong:
  assumes "pool_table (obj c') = pool_table (obj c)" and "outbound_block (obj c') = outbound_block (obj c)"
    and "sock_inbound_block (obj c') = sock_inbound_block (obj c)" and "socket c' = socket c" and "self c' = self c"
    and "properties_pool (obj c') = properties_pool (obj c)"
    and "live h' = live h" and "next_id h' = next_id h" and "bad_free h' = bad_free h"
  shows "connection_ok c' h' = connection_ok c h"
proof -
  have "parts c' = parts c" using assms by (simp add: parts_def other_parts_def)
  then show ?thesis using assms by (simp add: connection_ok_def connection_blocks_def heap_ok_def)
qed

text \<open>Exchanging a block that belongs to the connection for a new one, or for none.\<close>

lemma connection_ok_exchange:
  assumes ok: "connection_ok c h" and p: "parts c = ps @ A # qs" and p': "parts c' = ps @ B # qs"
    and h': "heap_ok h'" and l: "live h - A \<subseteq> live h' - B" "B \<subseteq> live h'"
    and s: "properties_pool (obj c') = properties_pool (obj c)" "pool_table (obj c') = pool_table (obj c)"
  shows "connection_ok c' h'"
proof -
  have sep: "separate (ps @ A # qs)" and lv: "connection_blocks c \<subseteq> live h"
    using ok p by (simp_all add: connection_ok_def)
  let ?rest = "\<Union> (set ps) \<union> \<Union> (set qs)"
  have "?rest \<inter> A = {}" using sep by (auto simp: separate_append separate_Cons)
  moreover have "?rest \<subseteq> live h" using lv p by (auto simp: connection_blocks_def)
  ultimately have r: "?rest \<subseteq> live h' - B" using l by blast
  have "separate (parts c')"
    unfolding p' by (rule separate_replace [OF sep]) (use r in blast)
  moreover have "connection_blocks c' \<subseteq> live h'"
    using r l p' by (auto simp: connection_blocks_def)
  ultimately show ?thesis using ok h' s by (simp add: connection_ok_def)
qed

lemma realloc_buffer_live:
  assumes h: "heap_ok h" and r: "realloc_buffer p n h = (Some b, h')" and p: "set_option p \<subseteq> live h"
  shows "heap_ok h' \<and> b \<in> live h' \<and> b \<notin> live h \<and> live h' = insert b (live h - set_option p)"
proof (cases rule: malloc_cases [of n h])
  case (2 h1)
  have "next_id h \<notin> live h" using heap_ok_fresh [OF h] by simp
  with 2 r h p show ?thesis
    by (cases p) (auto simp: realloc_buffer_def realloc_def free_def heap_ok_def less_SucI split: if_splits)
qed (use r in \<open>auto simp: realloc_buffer_def realloc_def split: if_splits\<close>)

lemma realloc_buffer_refused:
  assumes "heap_ok h" and "realloc_buffer p n h = (None, h')" and "n \<noteq> 0 \<or> p = None"
  shows "heap_ok h' \<and> live h' = live h"
  using assms(2,3)
  by (cases rule: malloc_cases [of n h]) (use assms(1) in \<open>auto simp: realloc_buffer_def realloc_def heap_ok_def less_SucI split: if_splits\<close>)

lemma connection_ok_tune:
  assumes ok: "connection_ok c h"
    and t: "amqp_tune_connection now now' cm fm hb (obj c) h = Some (res, c', h')"
    and fm: "size_t_of_int fm \<noteq> 0 \<or> outbound_block (obj c) = None"
  shows "connection_ok (c\<lparr>obj := c'\<rparr>) h'"
proof -
  have h: "heap_ok h" and b: "set_option (outbound_block (obj c)) \<subseteq> live h"
    using ok by (auto simp: connection_ok_def connection_blocks_def parts_def other_parts_def)
  define same where "same (x :: amqp_connection_state_t) \<longleftrightarrow> pool_table x = pool_table (obj c) \<and> sock_inbound_block x = sock_inbound_block (obj c) \<and>
    properties_pool x = properties_pool (obj c)" for x
  have "same c' \<and> (outbound_block c' = outbound_block (obj c) \<and> h' = h \<or>
      outbound_block c' = outbound_block (obj c) \<and> realloc_buffer (outbound_block (obj c)) (size_t_of_int fm) h = (None, h') \<or>
      (\<exists>b. outbound_block c' = Some b \<and> realloc_buffer (outbound_block (obj c)) (size_t_of_int fm) h = (Some b, h')))"
    using t by (auto simp: amqp_tune_connection_def Let_def same_def split: if_splits prod.splits option.splits)
  moreover have p: "parts c = table_parts (pool_table (obj c)) @ set_option (outbound_block (obj c)) # tl (other_parts c)"
    by (simp add: parts_def other_parts_def)
  moreover have "parts (c\<lparr>obj := c'\<rparr>) = table_parts (pool_table (obj c)) @ set_option (outbound_block c') # tl (other_parts c)"
    if "same c'" using that by (simp add: parts_def other_parts_def same_def)
  ultimately consider
      (kept) "same c'" "outbound_block c' = outbound_block (obj c)" "heap_ok h'" "live h' = live h"
    | (moved) b where "same c'" "outbound_block c' = Some b" "heap_ok h'" "live h' = insert b (live h - set_option (outbound_block (obj c)))"
        "b \<notin> live h"
    using h b fm realloc_buffer_live [OF h _ b] realloc_buffer_refused [OF h] by metis
  then show ?thesis
  proof cases
    case kept
    with ok show ?thesis
      by (simp add: same_def connection_ok_def connection_blocks_def parts_def other_parts_def)
  next
    case moved
    show ?thesis
      by (rule connection_ok_exchange [OF ok p]) (use moved in \<open>auto simp: same_def parts_def other_parts_def\<close>)
  qed
qed

lemma connection_ok_socket_new:
  assumes ok: "connection_ok c h" and n: "amqp_tcp_socket_new c h = (r, closed, c', h')"
  shows "connection_ok c' h'"
proof (cases rule: calloc_cases [of SIZEOF_TCP_SOCKET h])
  case (1 h1)
  with n ok show ?thesis
    by (auto simp: amqp_tcp_socket_new_def connection_ok_def heap_ok_def less_SucI)
next
  case (2 h1)
  have h: "heap_ok h" and b: "set_option (map_option socket_block (socket c)) \<subseteq> live h"
    using ok by (auto simp: connection_ok_def connection_blocks_def parts_def other_parts_def)
  have f: "next_id h \<notin> live h" using heap_ok_fresh [OF h] by simp
  have c': "c' = c\<lparr>socket := Some \<lparr>socket_block = next_id h, socket_fd = -1\<rparr>\<rparr>"
    and h': "h' = snd (amqp_socket_delete (socket c) h1)"
    using n 2 by (auto simp: amqp_tcp_socket_new_def amqp_set_socket_def Let_def split: prod.splits)
  note R = releasesD [OF releases_socket [of "socket c"], of h1]
  have s: "set_option (map_option socket_block (socket c)) \<subseteq> live h1" using b 2 by auto
  let ?ps = "table_parts (pool_table (obj c)) @ take 2 (other_parts c)" and ?qs = "drop 3 (other_parts c)"
  show ?thesis
  proof (rule connection_ok_exchange [OF ok, of ?ps _ ?qs])
    show "parts c = ?ps @ set_option (map_option socket_block (socket c)) # ?qs"
      by (simp add: parts_def other_parts_def numeral_eq_Suc)
    show "parts c' = ?ps @ {next_id h} # ?qs"
      by (simp add: parts_def other_parts_def numeral_eq_Suc c')
    show "heap_ok h'" using h h' 2 R(1-3) [OF s] by (auto simp: heap_ok_def less_SucI)
  qed (use h' 2 R(1) [OF s] f b c' in auto)
qed

text \<open>
  With \<open>frame_max\<close> 0 the buffer is freed but the pointer to it stays: destroying the
  connection afterwards frees it again.
\<close>

lemma tune_zero_frees_twice:
  assumes "connection_ok c h" and "state (obj c) = CONNECTION_STATE_IDLE" and "outbound_block (obj c) = Some b"
  shows "\<exists>c' h'. amqp_tune_connection now now' cm 0 0 (obj c) h = Some (AMQP_STATUS_NO_MEMORY, c', h') \<and>
    outbound_block c' = Some b \<and> h' = free (Some b) h \<and> pool_table c' = pool_table (obj c)"
  using assms(2,3)
  by (simp add: amqp_tune_connection_def amqp_heartbeat_recv_def amqp_heartbeat_send_def Let_def amqp_time_s_from_now_def realloc_buffer_def size_t_of_int_def)

end
