(* ===== verification/Amqp_Framing.thy ===== *)
theory Amqp_Framing
  imports Amqp_Methods
begin

text \<open>
  \<open>amqp_framing.c\<close>: decoding and encoding of methods and of content properties.  Each
  \<open>case\<close> of the four \<open>switch\<close> statements is a definition of its own, the functions
  themselves select among them.  \<open>agree\<close> relates the two directions of a case;
  \<open>dec_sound\<close> and \<open>dec_mem\<close> hold for every decoder.
\<close>

section \<open>Fields\<close>

named_theorems method_decoders "the cases of amqp_decode_method"
named_theorems method_encoders "the cases of amqp_encode_method"
named_theorems agree_intros "an encoder and a decoder of the same bytes"

subsection \<open>Layout of C structures\<close>

text \<open>Size and alignment of the types of struct members on the configured host.\<close>

definition round_to :: "nat \<Rightarrow> nat \<Rightarrow> nat" where
  "round_to al n = (n + al - 1) div al * al"

definition sizeof_struct :: "(nat \<times> nat) list \<Rightarrow> nat" where
  "sizeof_struct members =
    round_to (foldl max 1 (map snd members))
      (foldl (\<lambda>off (sz, al). round_to al off + sz) 0 members)"

abbreviation c_u8 :: "nat \<times> nat" where "c_u8 \<equiv> (1, 1)"
abbreviation c_u16 :: "nat \<times> nat" where "c_u16 \<equiv> (2, 2)"
abbreviation c_u32 :: "nat \<times> nat" where "c_u32 \<equiv> (4, 4)"
abbreviation c_u64 :: "nat \<times> nat" where "c_u64 \<equiv> (8, 8)"
abbreviation c_boolean :: "nat \<times> nat" where "c_boolean \<equiv> (4, 4)"
abbreviation c_bytes :: "nat \<times> nat" where "c_bytes \<equiv> (16, 8)"
abbreviation c_table :: "nat \<times> nat" where "c_table \<equiv> (16, 8)"

subsection \<open>Decoding and encoding of a field\<close>

abbreviation dec_8 :: "u8 decoder" where "dec_8 \<equiv> dec_check amqp_decode_8 BAD"
abbreviation dec_16 :: "u16 decoder" where "dec_16 \<equiv> dec_check amqp_decode_16 BAD"
abbreviation dec_32 :: "u32 decoder" where "dec_32 \<equiv> dec_check amqp_decode_32 BAD"
abbreviation dec_64 :: "u64 decoder" where "dec_64 \<equiv> dec_check amqp_decode_64 BAD"
abbreviation enc_8 :: "u8 \<Rightarrow> encoder" where "enc_8 x \<equiv> enc_check (amqp_encode_8 x) BAD"
abbreviation enc_16 :: "u16 \<Rightarrow> encoder" where "enc_16 x \<equiv> enc_check (amqp_encode_16 x) BAD"
abbreviation enc_32 :: "u32 \<Rightarrow> encoder" where "enc_32 x \<equiv> enc_check (amqp_encode_32 x) BAD"
abbreviation enc_64 :: "u64 \<Rightarrow> encoder" where "enc_64 x \<equiv> enc_check (amqp_encode_64 x) BAD"

text \<open>Strings with a length of one byte and of four bytes.\<close>

definition dec_shortstr :: "amqp_bytes_t decoder" where
  "dec_shortstr = dec_bind dec_8 (\<lambda>len. dec_check (amqp_decode_bytes (unat len)) BAD)"

definition dec_longstr :: "amqp_bytes_t decoder" where
  "dec_longstr = dec_bind dec_32 (\<lambda>len. dec_check (amqp_decode_bytes (unat len)) BAD)"

definition UINT8_MAX :: nat where "UINT8_MAX = 0xFF"
definition UINT32_MAX :: nat where "UINT32_MAX = 0xFFFFFFFF"

definition enc_shortstr :: "amqp_bytes_t \<Rightarrow> encoder" where
  "enc_shortstr b =
    (if UINT8_MAX < length b then enc_fail BAD
     else enc_seqs [enc_8 (of_nat (length b)), enc_check (amqp_encode_bytes b) BAD])"

definition enc_longstr :: "amqp_bytes_t \<Rightarrow> encoder" where
  "enc_longstr b =
    (if UINT32_MAX < length b then enc_fail BAD
     else enc_seqs [enc_32 (of_nat (length b)), enc_check (amqp_encode_bytes b) BAD])"

text \<open>Booleans share a byte: flag number \<open>i\<close> is bit \<open>i\<close>.\<close>

definition bit_flag :: "u8 \<Rightarrow> nat \<Rightarrow> amqp_boolean_t" where
  "bit_flag buffer i = (if buffer AND push_bit i 1 \<noteq> 0 then 1 else 0)"

fun set_bits_from :: "nat \<Rightarrow> amqp_boolean_t list \<Rightarrow> u8 \<Rightarrow> u8" where
  "set_bits_from i [] buffer = buffer"
| "set_bits_from i (b # bs) buffer =
    set_bits_from (Suc i) bs (if b \<noteq> 0 then buffer OR push_bit i 1 else buffer)"

definition bit_buffer :: "amqp_boolean_t list \<Rightarrow> u8" where
  "bit_buffer bs = set_bits_from 0 bs 0"

section \<open>Decoding of methods\<close>

definition decode_connection_start :: "amqp_method_t decoder" where [method_decoders]:
  "decode_connection_start =
    dec_bind (dec_alloc (sizeof_struct [c_u8, c_u8, c_table, c_bytes, c_bytes])) (\<lambda>_.
    dec_bind dec_8 (\<lambda>version_major.
    dec_bind dec_8 (\<lambda>version_minor.
    dec_bind amqp_decode_table (\<lambda>server_properties.
    dec_bind dec_longstr (\<lambda>mechanisms.
    dec_bind dec_longstr (\<lambda>locales.
    dec_return (M_connection_start
      \<lparr>amqp_connection_start_t.version_major = version_major,
       amqp_connection_start_t.version_minor = version_minor,
       amqp_connection_start_t.server_properties = server_properties,
       amqp_connection_start_t.mechanisms = mechanisms,
       amqp_connection_start_t.locales = locales\<rparr>)))))))"

definition decode_connection_start_ok :: "amqp_method_t decoder" where [method_decoders]:
  "decode_connection_start_ok =
    dec_bind (dec_alloc (sizeof_struct [c_table, c_bytes, c_bytes, c_bytes])) (\<lambda>_.
    dec_bind amqp_decode_table (\<lambda>client_properties.
    dec_bind dec_shortstr (\<lambda>mechanism.
    dec_bind dec_longstr (\<lambda>response.
    dec_bind dec_shortstr (\<lambda>locale'.
    dec_return (M_connection_start_ok
      \<lparr>amqp_connection_start_ok_t.client_properties = client_properties,
       amqp_connection_start_ok_t.mechanism = mechanism,
       amqp_connection_start_ok_t.response = response,
       amqp_connection_start_ok_t.locale = locale'\<rparr>))))))"

definition decode_connection_secure :: "amqp_method_t decoder" where [method_decoders]:
  "decode_connection_secure =
    dec_bind (dec_alloc (sizeof_struct [c_bytes])) (\<lambda>_.
    dec_bind dec_longstr (\<lambda>challenge.
    dec_return (M_connection_secure
      \<lparr>amqp_connection_secure_t.challenge = challenge\<rparr>)))"

definition decode_connection_secure_ok :: "amqp_method_t decoder" where [method_decoders]:
  "decode_connection_secure_ok =
    dec_bind (dec_alloc (sizeof_struct [c_bytes])) (\<lambda>_.
    dec_bind dec_longstr (\<lambda>response.
    dec_return (M_connection_secure_ok
      \<lparr>amqp_connection_secure_ok_t.response = response\<rparr>)))"

definition decode_connection_tune :: "amqp_method_t decoder" where [method_decoders]:
  "decode_connection_tune =
    dec_bind (dec_alloc (sizeof_struct [c_u16, c_u32, c_u16])) (\<lambda>_.
    dec_bind dec_16 (\<lambda>channel_max.
    dec_bind dec_32 (\<lambda>frame_max.
    dec_bind dec_16 (\<lambda>heartbeat.
    dec_return (M_connection_tune
      \<lparr>amqp_connection_tune_t.channel_max = channel_max,
       amqp_connection_tune_t.frame_max = frame_max,
       amqp_connection_tune_t.heartbeat = heartbeat\<rparr>)))))"

definition decode_connection_tune_ok :: "amqp_method_t decoder" where [method_decoders]:
  "decode_connection_tune_ok =
    dec_bind (dec_alloc (sizeof_struct [c_u16, c_u32, c_u16])) (\<lambda>_.
    dec_bind dec_16 (\<lambda>channel_max.
    dec_bind dec_32 (\<lambda>frame_max.
    dec_bind dec_16 (\<lambda>heartbeat.
    dec_return (M_connection_tune_ok
      \<lparr>amqp_connection_tune_ok_t.channel_max = channel_max,
       amqp_connection_tune_ok_t.frame_max = frame_max,
       amqp_connection_tune_ok_t.heartbeat = heartbeat\<rparr>)))))"

definition decode_connection_open :: "amqp_method_t decoder" where [method_decoders]:
  "decode_connection_open =
    dec_bind (dec_alloc (sizeof_struct [c_bytes, c_bytes, c_boolean])) (\<lambda>_.
    dec_bind dec_shortstr (\<lambda>virtual_host.
    dec_bind dec_shortstr (\<lambda>capabilities.
    dec_bind dec_8 (\<lambda>bit_buffer.
    dec_return (M_connection_open
      \<lparr>amqp_connection_open_t.virtual_host = virtual_host,
       amqp_connection_open_t.capabilities = capabilities,
       amqp_connection_open_t.insist = bit_flag bit_buffer 0\<rparr>)))))"

definition decode_connection_open_ok :: "amqp_method_t decoder" where [method_decoders]:
  "decode_connection_open_ok =
    dec_bind (dec_alloc (sizeof_struct [c_bytes])) (\<lambda>_.
    dec_bind dec_shortstr (\<lambda>known_hosts.
    dec_return (M_connection_open_ok
      \<lparr>amqp_connection_open_ok_t.known_hosts = known_hosts\<rparr>)))"

definition decode_connection_close :: "amqp_method_t decoder" where [method_decoders]:
  "decode_connection_close =
    dec_bind (dec_alloc (sizeof_struct [c_u16, c_bytes, c_u16, c_u16])) (\<lambda>_.
    dec_bind dec_16 (\<lambda>reply_code.
    dec_bind dec_shortstr (\<lambda>reply_text.
    dec_bind dec_16 (\<lambda>class_id.
    dec_bind dec_16 (\<lambda>method_id.
    dec_return (M_connection_close
      \<lparr>amqp_connection_close_t.reply_code = reply_code,
       amqp_connection_close_t.reply_text = reply_text,
       amqp_connection_close_t.class_id = class_id,
       amqp_connection_close_t.method_id = method_id\<rparr>))))))"

definition decode_connection_close_ok :: "amqp_method_t decoder" where [method_decoders]:
  "decode_connection_close_ok =
    dec_bind (dec_alloc (sizeof_struct [c_u8])) (\<lambda>_.
    dec_return M_connection_close_ok)"

definition decode_connection_blocked :: "amqp_method_t decoder" where [method_decoders]:
  "decode_connection_blocked =
    dec_bind (dec_alloc (sizeof_struct [c_bytes])) (\<lambda>_.
    dec_bind dec_shortstr (\<lambda>reason.
    dec_return (M_connection_blocked
      \<lparr>amqp_connection_blocked_t.reason = reason\<rparr>)))"

definition decode_connection_unblocked :: "amqp_method_t decoder" where [method_decoders]:
  "decode_connection_unblocked =
    dec_bind (dec_alloc (sizeof_struct [c_u8])) (\<lambda>_.
    dec_return M_connection_unblocked)"

definition decode_connection_update_secret :: "amqp_method_t decoder" where [method_decoders]:
  "decode_connection_update_secret =
    dec_bind (dec_alloc (sizeof_struct [c_bytes, c_bytes])) (\<lambda>_.
    dec_bind dec_longstr (\<lambda>new_secret.
    dec_bind dec_shortstr (\<lambda>reason.
    dec_return (M_connection_update_secret
      \<lparr>amqp_connection_update_secret_t.new_secret = new_secret,
       amqp_connection_update_secret_t.reason = reason\<rparr>))))"

definition decode_connection_update_secret_ok :: "amqp_method_t decoder" where [method_decoders]:
  "decode_connection_update_secret_ok =
    dec_bind (dec_alloc (sizeof_struct [c_u8])) (\<lambda>_.
    dec_return M_connection_update_secret_ok)"

definition decode_channel_open :: "amqp_method_t decoder" where [method_decoders]:
  "decode_channel_open =
    dec_bind (dec_alloc (sizeof_struct [c_bytes])) (\<lambda>_.
    dec_bind dec_shortstr (\<lambda>out_of_band.
    dec_return (M_channel_open
      \<lparr>amqp_channel_open_t.out_of_band = out_of_band\<rparr>)))"

definition decode_channel_open_ok :: "amqp_method_t decoder" where [method_decoders]:
  "decode_channel_open_ok =
    dec_bind (dec_alloc (sizeof_struct [c_bytes])) (\<lambda>_.
    dec_bind dec_longstr (\<lambda>channel_id.
    dec_return (M_channel_open_ok
      \<lparr>amqp_channel_open_ok_t.channel_id = channel_id\<rparr>)))"

definition decode_channel_flow :: "amqp_method_t decoder" where [method_decoders]:
  "decode_channel_flow =
    dec_bind (dec_alloc (sizeof_struct [c_boolean])) (\<lambda>_.
    dec_bind dec_8 (\<lambda>bit_buffer.
    dec_return (M_channel_flow
      \<lparr>amqp_channel_flow_t.active = bit_flag bit_buffer 0\<rparr>)))"

definition decode_channel_flow_ok :: "amqp_method_t decoder" where [method_decoders]:
  "decode_channel_flow_ok =
    dec_bind (dec_alloc (sizeof_struct [c_boolean])) (\<lambda>_.
    dec_bind dec_8 (\<lambda>bit_buffer.
    dec_return (M_channel_flow_ok
      \<lparr>amqp_channel_flow_ok_t.active = bit_flag bit_buffer 0\<rparr>)))"

definition decode_channel_close :: "amqp_method_t decoder" where [method_decoders]:
  "decode_channel_close =
    dec_bind (dec_alloc (sizeof_struct [c_u16, c_bytes, c_u16, c_u16])) (\<lambda>_.
    dec_bind dec_16 (\<lambda>reply_code.
    dec_bind dec_shortstr (\<lambda>reply_text.
    dec_bind dec_16 (\<lambda>class_id.
    dec_bind dec_16 (\<lambda>method_id.
    dec_return (M_channel_close
      \<lparr>amqp_channel_close_t.reply_code = reply_code,
       amqp_channel_close_t.reply_text = reply_text,
       amqp_channel_close_t.class_id = class_id,
       amqp_channel_close_t.method_id = method_id\<rparr>))))))"

definition decode_channel_close_ok :: "amqp_method_t decoder" where [method_decoders]:
  "decode_channel_close_ok =
    dec_bind (dec_alloc (sizeof_struct [c_u8])) (\<lambda>_.
    dec_return M_channel_close_ok)"

definition decode_access_request :: "amqp_method_t decoder" where [method_decoders]:
  "decode_access_request =
    dec_bind (dec_alloc (sizeof_struct [c_bytes, c_boolean, c_boolean, c_boolean, c_boolean, c_boolean])) (\<lambda>_.
    dec_bind dec_shortstr (\<lambda>realm.
    dec_bind dec_8 (\<lambda>bit_buffer.
    dec_return (M_access_request
      \<lparr>amqp_access_request_t.realm = realm,
       amqp_access_request_t.exclusive = bit_flag bit_buffer 0,
       amqp_access_request_t.passive = bit_flag bit_buffer 1,
       amqp_access_request_t.active = bit_flag bit_buffer 2,
       amqp_access_request_t.write = bit_flag bit_buffer 3,
       amqp_access_request_t.read = bit_flag bit_buffer 4\<rparr>))))"

definition decode_access_request_ok :: "amqp_method_t decoder" where [method_decoders]:
  "decode_access_request_ok =
    dec_bind (dec_alloc (sizeof_struct [c_u16])) (\<lambda>_.
    dec_bind dec_16 (\<lambda>ticket.
    dec_return (M_access_request_ok
      \<lparr>amqp_access_request_ok_t.ticket = ticket\<rparr>)))"

definition decode_exchange_declare :: "amqp_method_t decoder" where [method_decoders]:
  "decode_exchange_declare =
    dec_bind (dec_alloc (sizeof_struct [c_u16, c_bytes, c_bytes, c_boolean, c_boolean, c_boolean, c_boolean, c_boolean, c_table])) (\<lambda>_.
    dec_bind dec_16 (\<lambda>ticket.
    dec_bind dec_shortstr (\<lambda>exchange.
    dec_bind dec_shortstr (\<lambda>type'.
    dec_bind dec_8 (\<lambda>bit_buffer.
    dec_bind amqp_decode_table (\<lambda>arguments.
    dec_return (M_exchange_declare
      \<lparr>amqp_exchange_declare_t.ticket = ticket,
       amqp_exchange_declare_t.exchange = exchange,
       amqp_exchange_declare_t.type = type',
       amqp_exchange_declare_t.passive = bit_flag bit_buffer 0,
       amqp_exchange_declare_t.durable = bit_flag bit_buffer 1,
       amqp_exchange_declare_t.auto_delete = bit_flag bit_buffer 2,
       amqp_exchange_declare_t.internal = bit_flag bit_buffer 3,
       amqp_exchange_declare_t.nowait = bit_flag bit_buffer 4,
       amqp_exchange_declare_t.arguments = arguments\<rparr>)))))))"

definition decode_exchange_declare_ok :: "amqp_method_t decoder" where [method_decoders]:
  "decode_exchange_declare_ok =
    dec_bind (dec_alloc (sizeof_struct [c_u8])) (\<lambda>_.
    dec_return M_exchange_declare_ok)"

definition decode_exchange_delete :: "amqp_method_t decoder" where [method_decoders]:
  "decode_exchange_delete =
    dec_bind (dec_alloc (sizeof_struct [c_u16, c_bytes, c_boolean, c_boolean])) (\<lambda>_.
    dec_bind dec_16 (\<lambda>ticket.
    dec_bind dec_shortstr (\<lambda>exchange.
    dec_bind dec_8 (\<lambda>bit_buffer.
    dec_return (M_exchange_delete
      \<lparr>amqp_exchange_delete_t.ticket = ticket,
       amqp_exchange_delete_t.exchange = exchange,
       amqp_exchange_delete_t.if_unused = bit_flag bit_buffer 0,
       amqp_exchange_delete_t.nowait = bit_flag bit_buffer 1\<rparr>)))))"

definition decode_exchange_delete_ok :: "amqp_method_t decoder" where [method_decoders]:
  "decode_exchange_delete_ok =
    dec_bind (dec_alloc (sizeof_struct [c_u8])) (\<lambda>_.
    dec_return M_exchange_delete_ok)"

definition decode_exchange_bind :: "amqp_method_t decoder" where [method_decoders]:
  "decode_exchange_bind =
    dec_bind (dec_alloc (sizeof_struct [c_u16, c_bytes, c_bytes, c_bytes, c_boolean, c_table])) (\<lambda>_.
    dec_bind dec_16 (\<lambda>ticket.
    dec_bind dec_shortstr (\<lambda>destination.
    dec_bind dec_shortstr (\<lambda>source.
    dec_bind dec_shortstr (\<lambda>routing_key.
    dec_bind dec_8 (\<lambda>bit_buffer.
    dec_bind amqp_decode_table (\<lambda>arguments.
    dec_return (M_exchange_bind
      \<lparr>amqp_exchange_bind_t.ticket = ticket,
       amqp_exchange_bind_t.destination = destination,
       amqp_exchange_bind_t.source = source,
       amqp_exchange_bind_t.routing_key = routing_key,
       amqp_exchange_bind_t.nowait = bit_flag bit_buffer 0,
       amqp_exchange_bind_t.arguments = arguments\<rparr>))))))))"

definition decode_exchange_bind_ok :: "amqp_method_t decoder" where [method_decoders]:
  "decode_exchange_bind_ok =
    dec_bind (dec_alloc (sizeof_struct [c_u8])) (\<lambda>_.
    dec_return M_exchange_bind_ok)"

definition decode_exchange_unbind :: "amqp_method_t decoder" where [method_decoders]:
  "decode_exchange_unbind =
    dec_bind (dec_alloc (sizeof_struct [c_u16, c_bytes, c_bytes, c_bytes, c_boolean, c_table])) (\<lambda>_.
    dec_bind dec_16 (\<lambda>ticket.
    dec_bind dec_shortstr (\<lambda>destination.
    dec_bind dec_shortstr (\<lambda>source.
    dec_bind dec_shortstr (\<lambda>routing_key.
    dec_bind dec_8 (\<lambda>bit_buffer.
    dec_bind amqp_decode_table (\<lambda>arguments.
    dec_return (M_exchange_unbind
      \<lparr>amqp_exchange_unbind_t.ticket = ticket,
       amqp_exchange_unbind_t.destination = destination,
       amqp_exchange_unbind_t.source = source,
       amqp_exchange_unbind_t.routing_key = routing_key,
       amqp_exchange_unbind_t.nowait = bit_flag bit_buffer 0,
       amqp_exchange_unbind_t.arguments = arguments\<rparr>))))))))"

definition decode_exchange_unbind_ok :: "amqp_method_t decoder" where [method_decoders]:
  "decode_exchange_unbind_ok =
    dec_bind (dec_alloc (sizeof_struct [c_u8])) (\<lambda>_.
    dec_return M_exchange_unbind_ok)"

definition decode_queue_declare :: "amqp_method_t decoder" where [method_decoders]:
  "decode_queue_declare =
    dec_bind (dec_alloc (sizeof_struct [c_u16, c_bytes, c_boolean, c_boolean, c_boolean, c_boolean, c_boolean, c_table])) (\<lambda>_.
    dec_bind dec_16 (\<lambda>ticket.
    dec_bind dec_shortstr (\<lambda>queue.
    dec_bind dec_8 (\<lambda>bit_buffer.
    dec_bind amqp_decode_table (\<lambda>arguments.
    dec_return (M_queue_declare
      \<lparr>amqp_queue_declare_t.ticket = ticket,
       amqp_queue_declare_t.queue = queue,
       amqp_queue_declare_t.passive = bit_flag bit_buffer 0,
       amqp_queue_declare_t.durable = bit_flag bit_buffer 1,
       amqp_queue_declare_t.exclusive = bit_flag bit_buffer 2,
       amqp_queue_declare_t.auto_delete = bit_flag bit_buffer 3,
       amqp_queue_declare_t.nowait = bit_flag bit_buffer 4,
       amqp_queue_declare_t.arguments = arguments\<rparr>))))))"

definition decode_queue_declare_ok :: "amqp_method_t decoder" where [method_decoders]:
  "decode_queue_declare_ok =
    dec_bind (dec_alloc (sizeof_struct [c_bytes, c_u32, c_u32])) (\<lambda>_.
    dec_bind dec_shortstr (\<lambda>queue.
    dec_bind dec_32 (\<lambda>message_count.
    dec_bind dec_32 (\<lambda>consumer_count.
    dec_return (M_queue_declare_ok
      \<lparr>amqp_queue_declare_ok_t.queue = queue,
       amqp_queue_declare_ok_t.message_count = message_count,
       amqp_queue_declare_ok_t.consumer_count = consumer_count\<rparr>)))))"

definition decode_queue_bind :: "amqp_method_t decoder" where [method_decoders]:
  "decode_queue_bind =
    dec_bind (dec_alloc (sizeof_struct [c_u16, c_bytes, c_bytes, c_bytes, c_boolean, c_table])) (\<lambda>_.
    dec_bind dec_16 (\<lambda>ticket.
    dec_bind dec_shortstr (\<lambda>queue.
    dec_bind dec_shortstr (\<lambda>exchange.
    dec_bind dec_shortstr (\<lambda>routing_key.
    dec_bind dec_8 (\<lambda>bit_buffer.
    dec_bind amqp_decode_table (\<lambda>arguments.
    dec_return (M_queue_bind
      \<lparr>amqp_queue_bind_t.ticket = ticket,
       amqp_queue_bind_t.queue = queue,
       amqp_queue_bind_t.exchange = exchange,
       amqp_queue_bind_t.routing_key = routing_key,
       amqp_queue_bind_t.nowait = bit_flag bit_buffer 0,
       amqp_queue_bind_t.arguments = arguments\<rparr>))))))))"

definition decode_queue_bind_ok :: "amqp_method_t decoder" where [method_decoders]:
  "decode_queue_bind_ok =
    dec_bind (dec_alloc (sizeof_struct [c_u8])) (\<lambda>_.
    dec_return M_queue_bind_ok)"

definition decode_queue_purge :: "amqp_method_t decoder" where [method_decoders]:
  "decode_queue_purge =
    dec_bind (dec_alloc (sizeof_struct [c_u16, c_bytes, c_boolean])) (\<lambda>_.
    dec_bind dec_16 (\<lambda>ticket.
    dec_bind dec_shortstr (\<lambda>queue.
    dec_bind dec_8 (\<lambda>bit_buffer.
    dec_return (M_queue_purge
      \<lparr>amqp_queue_purge_t.ticket = ticket,
       amqp_queue_purge_t.queue = queue,
       amqp_queue_purge_t.nowait = bit_flag bit_buffer 0\<rparr>)))))"

definition decode_queue_purge_ok :: "amqp_method_t decoder" where [method_decoders]:
  "decode_queue_purge_ok =
    dec_bind (dec_alloc (sizeof_struct [c_u32])) (\<lambda>_.
    dec_bind dec_32 (\<lambda>message_count.
    dec_return (M_queue_purge_ok
      \<lparr>amqp_queue_purge_ok_t.message_count = message_count\<rparr>)))"

definition decode_queue_delete :: "amqp_method_t decoder" where [method_decoders]:
  "decode_queue_delete =
    dec_bind (dec_alloc (sizeof_struct [c_u16, c_bytes, c_boolean, c_boolean, c_boolean])) (\<lambda>_.
    dec_bind dec_16 (\<lambda>ticket.
    dec_bind dec_shortstr (\<lambda>queue.
    dec_bind dec_8 (\<lambda>bit_buffer.
    dec_return (M_queue_delete
      \<lparr>amqp_queue_delete_t.ticket = ticket,
       amqp_queue_delete_t.queue = queue,
       amqp_queue_delete_t.if_unused = bit_flag bit_buffer 0,
       amqp_queue_delete_t.if_empty = bit_flag bit_buffer 1,
       amqp_queue_delete_t.nowait = bit_flag bit_buffer 2\<rparr>)))))"

definition decode_queue_delete_ok :: "amqp_method_t decoder" where [method_decoders]:
  "decode_queue_delete_ok =
    dec_bind (dec_alloc (sizeof_struct [c_u32])) (\<lambda>_.
    dec_bind dec_32 (\<lambda>message_count.
    dec_return (M_queue_delete_ok
      \<lparr>amqp_queue_delete_ok_t.message_count = message_count\<rparr>)))"

definition decode_queue_unbind :: "amqp_method_t decoder" where [method_decoders]:
  "decode_queue_unbind =
    dec_bind (dec_alloc (sizeof_struct [c_u16, c_bytes, c_bytes, c_bytes, c_table])) (\<lambda>_.
    dec_bind dec_16 (\<lambda>ticket.
    dec_bind dec_shortstr (\<lambda>queue.
    dec_bind dec_shortstr (\<lambda>exchange.
    dec_bind dec_shortstr (\<lambda>routing_key.
    dec_bind amqp_decode_table (\<lambda>arguments.
    dec_return (M_queue_unbind
      \<lparr>amqp_queue_unbind_t.ticket = ticket,
       amqp_queue_unbind_t.queue = queue,
       amqp_queue_unbind_t.exchange = exchange,
       amqp_queue_unbind_t.routing_key = routing_key,
       amqp_queue_unbind_t.arguments = arguments\<rparr>)))))))"

definition decode_queue_unbind_ok :: "amqp_method_t decoder" where [method_decoders]:
  "decode_queue_unbind_ok =
    dec_bind (dec_alloc (sizeof_struct [c_u8])) (\<lambda>_.
    dec_return M_queue_unbind_ok)"

definition decode_basic_qos :: "amqp_method_t decoder" where [method_decoders]:
  "decode_basic_qos =
    dec_bind (dec_alloc (sizeof_struct [c_u32, c_u16, c_boolean])) (\<lambda>_.
    dec_bind dec_32 (\<lambda>prefetch_size.
    dec_bind dec_16 (\<lambda>prefetch_count.
    dec_bind dec_8 (\<lambda>bit_buffer.
    dec_return (M_basic_qos
      \<lparr>amqp_basic_qos_t.prefetch_size = prefetch_size,
       amqp_basic_qos_t.prefetch_count = prefetch_count,
       amqp_basic_qos_t.global = bit_flag bit_buffer 0\<rparr>)))))"

definition decode_basic_qos_ok :: "amqp_method_t decoder" where [method_decoders]:
  "decode_basic_qos_ok =
    dec_bind (dec_alloc (sizeof_struct [c_u8])) (\<lambda>_.
    dec_return M_basic_qos_ok)"

definition decode_basic_consume :: "amqp_method_t decoder" where [method_decoders]:
  "decode_basic_consume =
    dec_bind (dec_alloc (sizeof_struct [c_u16, c_bytes, c_bytes, c_boolean, c_boolean, c_boolean, c_boolean, c_table])) (\<lambda>_.
    dec_bind dec_16 (\<lambda>ticket.
    dec_bind dec_shortstr (\<lambda>queue.
    dec_bind dec_shortstr (\<lambda>consumer_tag.
    dec_bind dec_8 (\<lambda>bit_buffer.
    dec_bind amqp_decode_table (\<lambda>arguments.
    dec_return (M_basic_consume
      \<lparr>amqp_basic_consume_t.ticket = ticket,
       amqp_basic_consume_t.queue = queue,
       amqp_basic_consume_t.consumer_tag = consumer_tag,
       amqp_basic_consume_t.no_local = bit_flag bit_buffer 0,
       amqp_basic_consume_t.no_ack = bit_flag bit_buffer 1,
       amqp_basic_consume_t.exclusive = bit_flag bit_buffer 2,
       amqp_basic_consume_t.nowait = bit_flag bit_buffer 3,
       amqp_basic_consume_t.arguments = arguments\<rparr>)))))))"

definition decode_basic_consume_ok :: "amqp_method_t decoder" where [method_decoders]:
  "decode_basic_consume_ok =
    dec_bind (dec_alloc (sizeof_struct [c_bytes])) (\<lambda>_.
    dec_bind dec_shortstr (\<lambda>consumer_tag.
    dec_return (M_basic_consume_ok
      \<lparr>amqp_basic_consume_ok_t.consumer_tag = consumer_tag\<rparr>)))"

definition decode_basic_cancel :: "amqp_method_t decoder" where [method_decoders]:
  "decode_basic_cancel =
    dec_bind (dec_alloc (sizeof_struct [c_bytes, c_boolean])) (\<lambda>_.
    dec_bind dec_shortstr (\<lambda>consumer_tag.
    dec_bind dec_8 (\<lambda>bit_buffer.
    dec_return (M_basic_cancel
      \<lparr>amqp_basic_cancel_t.consumer_tag = consumer_tag,
       amqp_basic_cancel_t.nowait = bit_flag bit_buffer 0\<rparr>))))"

definition decode_basic_cancel_ok :: "amqp_method_t decoder" where [method_decoders]:
  "decode_basic_cancel_ok =
    dec_bind (dec_alloc (sizeof_struct [c_bytes])) (\<lambda>_.
    dec_bind dec_shortstr (\<lambda>consumer_tag.
    dec_return (M_basic_cancel_ok
      \<lparr>amqp_basic_cancel_ok_t.consumer_tag = consumer_tag\<rparr>)))"

definition decode_basic_publish :: "amqp_method_t decoder" where [method_decoders]:
  "decode_basic_publish =
    dec_bind (dec_alloc (sizeof_struct [c_u16, c_bytes, c_bytes, c_boolean, c_boolean])) (\<lambda>_.
    dec_bind dec_16 (\<lambda>ticket.
    dec_bind dec_shortstr (\<lambda>exchange.
    dec_bind dec_shortstr (\<lambda>routing_key.
    dec_bind dec_8 (\<lambda>bit_buffer.
    dec_return (M_basic_publish
      \<lparr>amqp_basic_publish_t.ticket = ticket,
       amqp_basic_publish_t.exchange = exchange,
       amqp_basic_publish_t.routing_key = routing_key,
       amqp_basic_publish_t.mandatory = bit_flag bit_buffer 0,
       amqp_basic_publish_t.immediate = bit_flag bit_buffer 1\<rparr>))))))"

definition decode_basic_return :: "amqp_method_t decoder" where [method_decoders]:
  "decode_basic_return =
    dec_bind (dec_alloc (sizeof_struct [c_u16, c_bytes, c_bytes, c_bytes])) (\<lambda>_.
    dec_bind dec_16 (\<lambda>reply_code.
    dec_bind dec_shortstr (\<lambda>reply_text.
    dec_bind dec_shortstr (\<lambda>exchange.
    dec_bind dec_shortstr (\<lambda>routing_key.
    dec_return (M_basic_return
      \<lparr>amqp_basic_return_t.reply_code = reply_code,
       amqp_basic_return_t.reply_text = reply_text,
       amqp_basic_return_t.exchange = exchange,
       amqp_basic_return_t.routing_key = routing_key\<rparr>))))))"

definition decode_basic_deliver :: "amqp_method_t decoder" where [method_decoders]:
  "decode_basic_deliver =
    dec_bind (dec_alloc (sizeof_struct [c_bytes, c_u64, c_boolean, c_bytes, c_bytes])) (\<lambda>_.
    dec_bind dec_shortstr (\<lambda>consumer_tag.
    dec_bind dec_64 (\<lambda>delivery_tag.
    dec_bind dec_8 (\<lambda>bit_buffer.
    dec_bind dec_shortstr (\<lambda>exchange.
    dec_bind dec_shortstr (\<lambda>routing_key.
    dec_return (M_basic_deliver
      \<lparr>amqp_basic_deliver_t.consumer_tag = consumer_tag,
       amqp_basic_deliver_t.delivery_tag = delivery_tag,
       amqp_basic_deliver_t.redelivered = bit_flag bit_buffer 0,
       amqp_basic_deliver_t.exchange = exchange,
       amqp_basic_deliver_t.routing_key = routing_key\<rparr>)))))))"

definition decode_basic_get :: "amqp_method_t decoder" where [method_decoders]:
  "decode_basic_get =
    dec_bind (dec_alloc (sizeof_struct [c_u16, c_bytes, c_boolean])) (\<lambda>_.
    dec_bind dec_16 (\<lambda>ticket.
    dec_bind dec_shortstr (\<lambda>queue.
    dec_bind dec_8 (\<lambda>bit_buffer.
    dec_return (M_basic_get
      \<lparr>amqp_basic_get_t.ticket = ticket,
       amqp_basic_get_t.queue = queue,
       amqp_basic_get_t.no_ack = bit_flag bit_buffer 0\<rparr>)))))"

definition decode_basic_get_ok :: "amqp_method_t decoder" where [method_decoders]:
  "decode_basic_get_ok =
    dec_bind (dec_alloc (sizeof_struct [c_u64, c_boolean, c_bytes, c_bytes, c_u32])) (\<lambda>_.
    dec_bind dec_64 (\<lambda>delivery_tag.
    dec_bind dec_8 (\<lambda>bit_buffer.
    dec_bind dec_shortstr (\<lambda>exchange.
    dec_bind dec_shortstr (\<lambda>routing_key.
    dec_bind dec_32 (\<lambda>message_count.
    dec_return (M_basic_get_ok
      \<lparr>amqp_basic_get_ok_t.delivery_tag = delivery_tag,
       amqp_basic_get_ok_t.redelivered = bit_flag bit_buffer 0,
       amqp_basic_get_ok_t.exchange = exchange,
       amqp_basic_get_ok_t.routing_key = routing_key,
       amqp_basic_get_ok_t.message_count = message_count\<rparr>)))))))"

definition decode_basic_get_empty :: "amqp_method_t decoder" where [method_decoders]:
  "decode_basic_get_empty =
    dec_bind (dec_alloc (sizeof_struct [c_bytes])) (\<lambda>_.
    dec_bind dec_shortstr (\<lambda>cluster_id.
    dec_return (M_basic_get_empty
      \<lparr>amqp_basic_get_empty_t.cluster_id = cluster_id\<rparr>)))"

definition decode_basic_ack :: "amqp_method_t decoder" where [method_decoders]:
  "decode_basic_ack =
    dec_bind (dec_alloc (sizeof_struct [c_u64, c_boolean])) (\<lambda>_.
    dec_bind dec_64 (\<lambda>delivery_tag.
    dec_bind dec_8 (\<lambda>bit_buffer.
    dec_return (M_basic_ack
      \<lparr>amqp_basic_ack_t.delivery_tag = delivery_tag,
       amqp_basic_ack_t.multiple = bit_flag bit_buffer 0\<rparr>))))"

definition decode_basic_reject :: "amqp_method_t decoder" where [method_decoders]:
  "decode_basic_reject =
    dec_bind (dec_alloc (sizeof_struct [c_u64, c_boolean])) (\<lambda>_.
    dec_bind dec_64 (\<lambda>delivery_tag.
    dec_bind dec_8 (\<lambda>bit_buffer.
    dec_return (M_basic_reject
      \<lparr>amqp_basic_reject_t.delivery_tag = delivery_tag,
       amqp_basic_reject_t.requeue = bit_flag bit_buffer 0\<rparr>))))"

definition decode_basic_recover_async :: "amqp_method_t decoder" where [method_decoders]:
  "decode_basic_recover_async =
    dec_bind (dec_alloc (sizeof_struct [c_boolean])) (\<lambda>_.
    dec_bind dec_8 (\<lambda>bit_buffer.
    dec_return (M_basic_recover_async
      \<lparr>amqp_basic_recover_async_t.requeue = bit_flag bit_buffer 0\<rparr>)))"

definition decode_basic_recover :: "amqp_method_t decoder" where [method_decoders]:
  "decode_basic_recover =
    dec_bind (dec_alloc (sizeof_struct [c_boolean])) (\<lambda>_.
    dec_bind dec_8 (\<lambda>bit_buffer.
    dec_return (M_basic_recover
      \<lparr>amqp_basic_recover_t.requeue = bit_flag bit_buffer 0\<rparr>)))"

definition decode_basic_recover_ok :: "amqp_method_t decoder" where [method_decoders]:
  "decode_basic_recover_ok =
    dec_bind (dec_alloc (sizeof_struct [c_u8])) (\<lambda>_.
    dec_return M_basic_recover_ok)"

definition decode_basic_nack :: "amqp_method_t decoder" where [method_decoders]:
  "decode_basic_nack =
    dec_bind (dec_alloc (sizeof_struct [c_u64, c_boolean, c_boolean])) (\<lambda>_.
    dec_bind dec_64 (\<lambda>delivery_tag.
    dec_bind dec_8 (\<lambda>bit_buffer.
    dec_return (M_basic_nack
      \<lparr>amqp_basic_nack_t.delivery_tag = delivery_tag,
       amqp_basic_nack_t.multiple = bit_flag bit_buffer 0,
       amqp_basic_nack_t.requeue = bit_flag bit_buffer 1\<rparr>))))"

definition decode_tx_select :: "amqp_method_t decoder" where [method_decoders]:
  "decode_tx_select =
    dec_bind (dec_alloc (sizeof_struct [c_u8])) (\<lambda>_.
    dec_return M_tx_select)"

definition decode_tx_select_ok :: "amqp_method_t decoder" where [method_decoders]:
  "decode_tx_select_ok =
    dec_bind (dec_alloc (sizeof_struct [c_u8])) (\<lambda>_.
    dec_return M_tx_select_ok)"

definition decode_tx_commit :: "amqp_method_t decoder" where [method_decoders]:
  "decode_tx_commit =
    dec_bind (dec_alloc (sizeof_struct [c_u8])) (\<lambda>_.
    dec_return M_tx_commit)"

definition decode_tx_commit_ok :: "amqp_method_t decoder" where [method_decoders]:
  "decode_tx_commit_ok =
    dec_bind (dec_alloc (sizeof_struct [c_u8])) (\<lambda>_.
    dec_return M_tx_commit_ok)"

definition decode_tx_rollback :: "amqp_method_t decoder" where [method_decoders]:
  "decode_tx_rollback =
    dec_bind (dec_alloc (sizeof_struct [c_u8])) (\<lambda>_.
    dec_return M_tx_rollback)"

definition decode_tx_rollback_ok :: "amqp_method_t decoder" where [method_decoders]:
  "decode_tx_rollback_ok =
    dec_bind (dec_alloc (sizeof_struct [c_u8])) (\<lambda>_.
    dec_return M_tx_rollback_ok)"

definition decode_confirm_select :: "amqp_method_t decoder" where [method_decoders]:
  "decode_confirm_select =
    dec_bind (dec_alloc (sizeof_struct [c_boolean])) (\<lambda>_.
    dec_bind dec_8 (\<lambda>bit_buffer.
    dec_return (M_confirm_select
      \<lparr>amqp_confirm_select_t.nowait = bit_flag bit_buffer 0\<rparr>)))"

definition decode_confirm_select_ok :: "amqp_method_t decoder" where [method_decoders]:
  "decode_confirm_select_ok =
    dec_bind (dec_alloc (sizeof_struct [c_u8])) (\<lambda>_.
    dec_return M_confirm_select_ok)"

definition amqp_decode_method :: "amqp_method_number_t \<Rightarrow> amqp_method_t decoder" where
  "amqp_decode_method methodNumber =
    (if methodNumber = AMQP_CONNECTION_START_METHOD then decode_connection_start
     else if methodNumber = AMQP_CONNECTION_START_OK_METHOD then decode_connection_start_ok
     else if methodNumber = AMQP_CONNECTION_SECURE_METHOD then decode_connection_secure
     else if methodNumber = AMQP_CONNECTION_SECURE_OK_METHOD then decode_connection_secure_ok
     else if methodNumber = AMQP_CONNECTION_TUNE_METHOD then decode_connection_tune
     else if methodNumber = AMQP_CONNECTION_TUNE_OK_METHOD then decode_connection_tune_ok
     else if methodNumber = AMQP_CONNECTION_OPEN_METHOD then decode_connection_open
     else if methodNumber = AMQP_CONNECTION_OPEN_OK_METHOD then decode_connection_open_ok
     else if methodNumber = AMQP_CONNECTION_CLOSE_METHOD then decode_connection_close
     else if methodNumber = AMQP_CONNECTION_CLOSE_OK_METHOD then decode_connection_close_ok
     else if methodNumber = AMQP_CONNECTION_BLOCKED_METHOD then decode_connection_blocked
     else if methodNumber = AMQP_CONNECTION_UNBLOCKED_METHOD then decode_connection_unblocked
     else if methodNumber = AMQP_CONNECTION_UPDATE_SECRET_METHOD then decode_connection_update_secret
     else if methodNumber = AMQP_CONNECTION_UPDATE_SECRET_OK_METHOD then decode_connection_update_secret_ok
     else if methodNumber = AMQP_CHANNEL_OPEN_METHOD then decode_channel_open
     else if methodNumber = AMQP_CHANNEL_OPEN_OK_METHOD then decode_channel_open_ok
     else if methodNumber = AMQP_CHANNEL_FLOW_METHOD then decode_channel_flow
     else if methodNumber = AMQP_CHANNEL_FLOW_OK_METHOD then decode_channel_flow_ok
     else if methodNumber = AMQP_CHANNEL_CLOSE_METHOD then decode_channel_close
     else if methodNumber = AMQP_CHANNEL_CLOSE_OK_METHOD then decode_channel_close_ok
     else if methodNumber = AMQP_ACCESS_REQUEST_METHOD then decode_access_request
     else if methodNumber = AMQP_ACCESS_REQUEST_OK_METHOD then decode_access_request_ok
     else if methodNumber = AMQP_EXCHANGE_DECLARE_METHOD then decode_exchange_declare
     else if methodNumber = AMQP_EXCHANGE_DECLARE_OK_METHOD then decode_exchange_declare_ok
     else if methodNumber = AMQP_EXCHANGE_DELETE_METHOD then decode_exchange_delete
     else if methodNumber = AMQP_EXCHANGE_DELETE_OK_METHOD then decode_exchange_delete_ok
     else if methodNumber = AMQP_EXCHANGE_BIND_METHOD then decode_exchange_bind
     else if methodNumber = AMQP_EXCHANGE_BIND_OK_METHOD then decode_exchange_bind_ok
     else if methodNumber = AMQP_EXCHANGE_UNBIND_METHOD then decode_exchange_unbind
     else if methodNumber = AMQP_EXCHANGE_UNBIND_OK_METHOD then decode_exchange_unbind_ok
     else if methodNumber = AMQP_QUEUE_DECLARE_METHOD then decode_queue_declare
     else if methodNumber = AMQP_QUEUE_DECLARE_OK_METHOD then decode_queue_declare_ok
     else if methodNumber = AMQP_QUEUE_BIND_METHOD then decode_queue_bind
     else if methodNumber = AMQP_QUEUE_BIND_OK_METHOD then decode_queue_bind_ok
     else if methodNumber = AMQP_QUEUE_PURGE_METHOD then decode_queue_purge
     else if methodNumber = AMQP_QUEUE_PURGE_OK_METHOD then decode_queue_purge_ok
     else if methodNumber = AMQP_QUEUE_DELETE_METHOD then decode_queue_delete
     else if methodNumber = AMQP_QUEUE_DELETE_OK_METHOD then decode_queue_delete_ok
     else if methodNumber = AMQP_QUEUE_UNBIND_METHOD then decode_queue_unbind
     else if methodNumber = AMQP_QUEUE_UNBIND_OK_METHOD then decode_queue_unbind_ok
     else if methodNumber = AMQP_BASIC_QOS_METHOD then decode_basic_qos
     else if methodNumber = AMQP_BASIC_QOS_OK_METHOD then decode_basic_qos_ok
     else if methodNumber = AMQP_BASIC_CONSUME_METHOD then decode_basic_consume
     else if methodNumber = AMQP_BASIC_CONSUME_OK_METHOD then decode_basic_consume_ok
     else if methodNumber = AMQP_BASIC_CANCEL_METHOD then decode_basic_cancel
     else if methodNumber = AMQP_BASIC_CANCEL_OK_METHOD then decode_basic_cancel_ok
     else if methodNumber = AMQP_BASIC_PUBLISH_METHOD then decode_basic_publish
     else if methodNumber = AMQP_BASIC_RETURN_METHOD then decode_basic_return
     else if methodNumber = AMQP_BASIC_DELIVER_METHOD then decode_basic_deliver
     else if methodNumber = AMQP_BASIC_GET_METHOD then decode_basic_get
     else if methodNumber = AMQP_BASIC_GET_OK_METHOD then decode_basic_get_ok
     else if methodNumber = AMQP_BASIC_GET_EMPTY_METHOD then decode_basic_get_empty
     else if methodNumber = AMQP_BASIC_ACK_METHOD then decode_basic_ack
     else if methodNumber = AMQP_BASIC_REJECT_METHOD then decode_basic_reject
     else if methodNumber = AMQP_BASIC_RECOVER_ASYNC_METHOD then decode_basic_recover_async
     else if methodNumber = AMQP_BASIC_RECOVER_METHOD then decode_basic_recover
     else if methodNumber = AMQP_BASIC_RECOVER_OK_METHOD then decode_basic_recover_ok
     else if methodNumber = AMQP_BASIC_NACK_METHOD then decode_basic_nack
     else if methodNumber = AMQP_TX_SELECT_METHOD then decode_tx_select
     else if methodNumber = AMQP_TX_SELECT_OK_METHOD then decode_tx_select_ok
     else if methodNumber = AMQP_TX_COMMIT_METHOD then decode_tx_commit
     else if methodNumber = AMQP_TX_COMMIT_OK_METHOD then decode_tx_commit_ok
     else if methodNumber = AMQP_TX_ROLLBACK_METHOD then decode_tx_rollback
     else if methodNumber = AMQP_TX_ROLLBACK_OK_METHOD then decode_tx_rollback_ok
     else if methodNumber = AMQP_CONFIRM_SELECT_METHOD then decode_confirm_select
     else if methodNumber = AMQP_CONFIRM_SELECT_OK_METHOD then decode_confirm_select_ok
     else dec_fail AMQP_STATUS_UNKNOWN_METHOD)"

section \<open>Encoding of methods\<close>

definition encode_connection_start :: "amqp_connection_start_t \<Rightarrow> encoder" where [method_encoders]:
  "encode_connection_start m = enc_seqs
    [enc_8 (amqp_connection_start_t.version_major m),
     enc_8 (amqp_connection_start_t.version_minor m),
     amqp_encode_table (amqp_connection_start_t.server_properties m),
     enc_longstr (amqp_connection_start_t.mechanisms m),
     enc_longstr (amqp_connection_start_t.locales m)]"

definition encode_connection_start_ok :: "amqp_connection_start_ok_t \<Rightarrow> encoder" where [method_encoders]:
  "encode_connection_start_ok m = enc_seqs
    [amqp_encode_table (amqp_connection_start_ok_t.client_properties m),
     enc_shortstr (amqp_connection_start_ok_t.mechanism m),
     enc_longstr (amqp_connection_start_ok_t.response m),
     enc_shortstr (amqp_connection_start_ok_t.locale m)]"

definition encode_connection_secure :: "amqp_connection_secure_t \<Rightarrow> encoder" where [method_encoders]:
  "encode_connection_secure m = enc_seqs
    [enc_longstr (amqp_connection_secure_t.challenge m)]"

definition encode_connection_secure_ok :: "amqp_connection_secure_ok_t \<Rightarrow> encoder" where [method_encoders]:
  "encode_connection_secure_ok m = enc_seqs
    [enc_longstr (amqp_connection_secure_ok_t.response m)]"

definition encode_connection_tune :: "amqp_connection_tune_t \<Rightarrow> encoder" where [method_encoders]:
  "encode_connection_tune m = enc_seqs
    [enc_16 (amqp_connection_tune_t.channel_max m),
     enc_32 (amqp_connection_tune_t.frame_max m),
     enc_16 (amqp_connection_tune_t.heartbeat m)]"

definition encode_connection_tune_ok :: "amqp_connection_tune_ok_t \<Rightarrow> encoder" where [method_encoders]:
  "encode_connection_tune_ok m = enc_seqs
    [enc_16 (amqp_connection_tune_ok_t.channel_max m),
     enc_32 (amqp_connection_tune_ok_t.frame_max m),
     enc_16 (amqp_connection_tune_ok_t.heartbeat m)]"

definition encode_connection_open :: "amqp_connection_open_t \<Rightarrow> encoder" where [method_encoders]:
  "encode_connection_open m = enc_seqs
    [enc_shortstr (amqp_connection_open_t.virtual_host m),
     enc_shortstr (amqp_connection_open_t.capabilities m),
     enc_8 (bit_buffer [amqp_connection_open_t.insist m])]"

definition encode_connection_open_ok :: "amqp_connection_open_ok_t \<Rightarrow> encoder" where [method_encoders]:
  "encode_connection_open_ok m = enc_seqs
    [enc_shortstr (amqp_connection_open_ok_t.known_hosts m)]"

definition encode_connection_close :: "amqp_connection_close_t \<Rightarrow> encoder" where [method_encoders]:
  "encode_connection_close m = enc_seqs
    [enc_16 (amqp_connection_close_t.reply_code m),
     enc_shortstr (amqp_connection_close_t.reply_text m),
     enc_16 (amqp_connection_close_t.class_id m),
     enc_16 (amqp_connection_close_t.method_id m)]"

definition encode_connection_close_ok :: encoder where [method_encoders]:
  "encode_connection_close_ok = enc_seqs []"

definition encode_connection_blocked :: "amqp_connection_blocked_t \<Rightarrow> encoder" where [method_encoders]:
  "encode_connection_blocked m = enc_seqs
    [enc_shortstr (amqp_connection_blocked_t.reason m)]"

definition encode_connection_unblocked :: encoder where [method_encoders]:
  "encode_connection_unblocked = enc_seqs []"

definition encode_connection_update_secret :: "amqp_connection_update_secret_t \<Rightarrow> encoder" where [method_encoders]:
  "encode_connection_update_secret m = enc_seqs
    [enc_longstr (amqp_connection_update_secret_t.new_secret m),
     enc_shortstr (amqp_connection_update_secret_t.reason m)]"

definition encode_connection_update_secret_ok :: encoder where [method_encoders]:
  "encode_connection_update_secret_ok = enc_seqs []"

definition encode_channel_open :: "amqp_channel_open_t \<Rightarrow> encoder" where [method_encoders]:
  "encode_channel_open m = enc_seqs
    [enc_shortstr (amqp_channel_open_t.out_of_band m)]"

definition encode_channel_open_ok :: "amqp_channel_open_ok_t \<Rightarrow> encoder" where [method_encoders]:
  "encode_channel_open_ok m = enc_seqs
    [enc_longstr (amqp_channel_open_ok_t.channel_id m)]"

definition encode_channel_flow :: "amqp_channel_flow_t \<Rightarrow> encoder" where [method_encoders]:
  "encode_channel_flow m = enc_seqs
    [enc_8 (bit_buffer [amqp_channel_flow_t.active m])]"

definition encode_channel_flow_ok :: "amqp_channel_flow_ok_t \<Rightarrow> encoder" where [method_encoders]:
  "encode_channel_flow_ok m = enc_seqs
    [enc_8 (bit_buffer [amqp_channel_flow_ok_t.active m])]"

definition encode_channel_close :: "amqp_channel_close_t \<Rightarrow> encoder" where [method_encoders]:
  "encode_channel_close m = enc_seqs
    [enc_16 (amqp_channel_close_t.reply_code m),
     enc_shortstr (amqp_channel_close_t.reply_text m),
     enc_16 (amqp_channel_close_t.class_id m),
     enc_16 (amqp_channel_close_t.method_id m)]"

definition encode_channel_close_ok :: encoder where [method_encoders]:
  "encode_channel_close_ok = enc_seqs []"

definition encode_access_request :: "amqp_access_request_t \<Rightarrow> encoder" where [method_encoders]:
  "encode_access_request m = enc_seqs
    [enc_shortstr (amqp_access_request_t.realm m),
     enc_8 (bit_buffer [amqp_access_request_t.exclusive m, amqp_access_request_t.passive m, amqp_access_request_t.active m, amqp_access_request_t.write m, amqp_access_request_t.read m])]"

definition encode_access_request_ok :: "amqp_access_request_ok_t \<Rightarrow> encoder" where [method_encoders]:
  "encode_access_request_ok m = enc_seqs
    [enc_16 (amqp_access_request_ok_t.ticket m)]"

definition encode_exchange_declare :: "amqp_exchange_declare_t \<Rightarrow> encoder" where [method_encoders]:
  "encode_exchange_declare m = enc_seqs
    [enc_16 (amqp_exchange_declare_t.ticket m),
     enc_shortstr (amqp_exchange_declare_t.exchange m),
     enc_shortstr (amqp_exchange_declare_t.type m),
     enc_8 (bit_buffer [amqp_exchange_declare_t.passive m, amqp_exchange_declare_t.durable m, amqp_exchange_declare_t.auto_delete m, amqp_exchange_declare_t.internal m, amqp_exchange_declare_t.nowait m]),
     amqp_encode_table (amqp_exchange_declare_t.arguments m)]"

definition encode_exchange_declare_ok :: encoder where [method_encoders]:
  "encode_exchange_declare_ok = enc_seqs []"

definition encode_exchange_delete :: "amqp_exchange_delete_t \<Rightarrow> encoder" where [method_encoders]:
  "encode_exchange_delete m = enc_seqs
    [enc_16 (amqp_exchange_delete_t.ticket m),
     enc_shortstr (amqp_exchange_delete_t.exchange m),
     enc_8 (bit_buffer [amqp_exchange_delete_t.if_unused m, amqp_exchange_delete_t.nowait m])]"

definition encode_exchange_delete_ok :: encoder where [method_encoders]:
  "encode_exchange_delete_ok = enc_seqs []"

definition encode_exchange_bind :: "amqp_exchange_bind_t \<Rightarrow> encoder" where [method_encoders]:
  "encode_exchange_bind m = enc_seqs
    [enc_16 (amqp_exchange_bind_t.ticket m),
     enc_shortstr (amqp_exchange_bind_t.destination m),
     enc_shortstr (amqp_exchange_bind_t.source m),
     enc_shortstr (amqp_exchange_bind_t.routing_key m),
     enc_8 (bit_buffer [amqp_exchange_bind_t.nowait m]),
     amqp_encode_table (amqp_exchange_bind_t.arguments m)]"

definition encode_exchange_bind_ok :: encoder where [method_encoders]:
  "encode_exchange_bind_ok = enc_seqs []"

definition encode_exchange_unbind :: "amqp_exchange_unbind_t \<Rightarrow> encoder" where [method_encoders]:
  "encode_exchange_unbind m = enc_seqs
    [enc_16 (amqp_exchange_unbind_t.ticket m),
     enc_shortstr (amqp_exchange_unbind_t.destination m),
     enc_shortstr (amqp_exchange_unbind_t.source m),
     enc_shortstr (amqp_exchange_unbind_t.routing_key m),
     enc_8 (bit_buffer [amqp_exchange_unbind_t.nowait m]),
     amqp_encode_table (amqp_exchange_unbind_t.arguments m)]"

definition encode_exchange_unbind_ok :: encoder where [method_encoders]:
  "encode_exchange_unbind_ok = enc_seqs []"

definition encode_queue_declare :: "amqp_queue_declare_t \<Rightarrow> encoder" where [method_encoders]:
  "encode_queue_declare m = enc_seqs
    [enc_16 (amqp_queue_declare_t.ticket m),
     enc_shortstr (amqp_queue_declare_t.queue m),
     enc_8 (bit_buffer [amqp_queue_declare_t.passive m, amqp_queue_declare_t.durable m, amqp_queue_declare_t.exclusive m, amqp_queue_declare_t.auto_delete m, amqp_queue_declare_t.nowait m]),
     amqp_encode_table (amqp_queue_declare_t.arguments m)]"

definition encode_queue_declare_ok :: "amqp_queue_declare_ok_t \<Rightarrow> encoder" where [method_encoders]:
  "encode_queue_declare_ok m = enc_seqs
    [enc_shortstr (amqp_queue_declare_ok_t.queue m),
     enc_32 (amqp_queue_declare_ok_t.message_count m),
     enc_32 (amqp_queue_declare_ok_t.consumer_count m)]"

definition encode_queue_bind :: "amqp_queue_bind_t \<Rightarrow> encoder" where [method_encoders]:
  "encode_queue_bind m = enc_seqs
    [enc_16 (amqp_queue_bind_t.ticket m),
     enc_shortstr (amqp_queue_bind_t.queue m),
     enc_shortstr (amqp_queue_bind_t.exchange m),
     enc_shortstr (amqp_queue_bind_t.routing_key m),
     enc_8 (bit_buffer [amqp_queue_bind_t.nowait m]),
     amqp_encode_table (amqp_queue_bind_t.arguments m)]"

definition encode_queue_bind_ok :: encoder where [method_encoders]:
  "encode_queue_bind_ok = enc_seqs []"

definition encode_queue_purge :: "amqp_queue_purge_t \<Rightarrow> encoder" where [method_encoders]:
  "encode_queue_purge m = enc_seqs
    [enc_16 (amqp_queue_purge_t.ticket m),
     enc_shortstr (amqp_queue_purge_t.queue m),
     enc_8 (bit_buffer [amqp_queue_purge_t.nowait m])]"

definition encode_queue_purge_ok :: "amqp_queue_purge_ok_t \<Rightarrow> encoder" where [method_encoders]:
  "encode_queue_purge_ok m = enc_seqs
    [enc_32 (amqp_queue_purge_ok_t.message_count m)]"

definition encode_queue_delete :: "amqp_queue_delete_t \<Rightarrow> encoder" where [method_encoders]:
  "encode_queue_delete m = enc_seqs
    [enc_16 (amqp_queue_delete_t.ticket m),
     enc_shortstr (amqp_queue_delete_t.queue m),
     enc_8 (bit_buffer [amqp_queue_delete_t.if_unused m, amqp_queue_delete_t.if_empty m, amqp_queue_delete_t.nowait m])]"

definition encode_queue_delete_ok :: "amqp_queue_delete_ok_t \<Rightarrow> encoder" where [method_encoders]:
  "encode_queue_delete_ok m = enc_seqs
    [enc_32 (amqp_queue_delete_ok_t.message_count m)]"

definition encode_queue_unbind :: "amqp_queue_unbind_t \<Rightarrow> encoder" where [method_encoders]:
  "encode_queue_unbind m = enc_seqs
    [enc_16 (amqp_queue_unbind_t.ticket m),
     enc_shortstr (amqp_queue_unbind_t.queue m),
     enc_shortstr (amqp_queue_unbind_t.exchange m),
     enc_shortstr (amqp_queue_unbind_t.routing_key m),
     amqp_encode_table (amqp_queue_unbind_t.arguments m)]"

definition encode_queue_unbind_ok :: encoder where [method_encoders]:
  "encode_queue_unbind_ok = enc_seqs []"

definition encode_basic_qos :: "amqp_basic_qos_t \<Rightarrow> encoder" where [method_encoders]:
  "encode_basic_qos m = enc_seqs
    [enc_32 (amqp_basic_qos_t.prefetch_size m),
     enc_16 (amqp_basic_qos_t.prefetch_count m),
     enc_8 (bit_buffer [amqp_basic_qos_t.global m])]"

definition encode_basic_qos_ok :: encoder where [method_encoders]:
  "encode_basic_qos_ok = enc_seqs []"

definition encode_basic_consume :: "amqp_basic_consume_t \<Rightarrow> encoder" where [method_encoders]:
  "encode_basic_consume m = enc_seqs
    [enc_16 (amqp_basic_consume_t.ticket m),
     enc_shortstr (amqp_basic_consume_t.queue m),
     enc_shortstr (amqp_basic_consume_t.consumer_tag m),
     enc_8 (bit_buffer [amqp_basic_consume_t.no_local m, amqp_basic_consume_t.no_ack m, amqp_basic_consume_t.exclusive m, amqp_basic_consume_t.nowait m]),
     amqp_encode_table (amqp_basic_consume_t.arguments m)]"

definition encode_basic_consume_ok :: "amqp_basic_consume_ok_t \<Rightarrow> encoder" where [method_encoders]:
  "encode_basic_consume_ok m = enc_seqs
    [enc_shortstr (amqp_basic_consume_ok_t.consumer_tag m)]"

definition encode_basic_cancel :: "amqp_basic_cancel_t \<Rightarrow> encoder" where [method_encoders]:
  "encode_basic_cancel m = enc_seqs
    [enc_shortstr (amqp_basic_cancel_t.consumer_tag m),
     enc_8 (bit_buffer [amqp_basic_cancel_t.nowait m])]"

definition encode_basic_cancel_ok :: "amqp_basic_cancel_ok_t \<Rightarrow> encoder" where [method_encoders]:
  "encode_basic_cancel_ok m = enc_seqs
    [enc_shortstr (amqp_basic_cancel_ok_t.consumer_tag m)]"

definition encode_basic_publish :: "amqp_basic_publish_t \<Rightarrow> encoder" where [method_encoders]:
  "encode_basic_publish m = enc_seqs
    [enc_16 (amqp_basic_publish_t.ticket m),
     enc_shortstr (amqp_basic_publish_t.exchange m),
     enc_shortstr (amqp_basic_publish_t.routing_key m),
     enc_8 (bit_buffer [amqp_basic_publish_t.mandatory m, amqp_basic_publish_t.immediate m])]"

definition encode_basic_return :: "amqp_basic_return_t \<Rightarrow> encoder" where [method_encoders]:
  "encode_basic_return m = enc_seqs
    [enc_16 (amqp_basic_return_t.reply_code m),
     enc_shortstr (amqp_basic_return_t.reply_text m),
     enc_shortstr (amqp_basic_return_t.exchange m),
     enc_shortstr (amqp_basic_return_t.routing_key m)]"

definition encode_basic_deliver :: "amqp_basic_deliver_t \<Rightarrow> encoder" where [method_encoders]:
  "encode_basic_deliver m = enc_seqs
    [enc_shortstr (amqp_basic_deliver_t.consumer_tag m),
     enc_64 (amqp_basic_deliver_t.delivery_tag m),
     enc_8 (bit_buffer [amqp_basic_deliver_t.redelivered m]),
     enc_shortstr (amqp_basic_deliver_t.exchange m),
     enc_shortstr (amqp_basic_deliver_t.routing_key m)]"

definition encode_basic_get :: "amqp_basic_get_t \<Rightarrow> encoder" where [method_encoders]:
  "encode_basic_get m = enc_seqs
    [enc_16 (amqp_basic_get_t.ticket m),
     enc_shortstr (amqp_basic_get_t.queue m),
     enc_8 (bit_buffer [amqp_basic_get_t.no_ack m])]"

definition encode_basic_get_ok :: "amqp_basic_get_ok_t \<Rightarrow> encoder" where [method_encoders]:
  "encode_basic_get_ok m = enc_seqs
    [enc_64 (amqp_basic_get_ok_t.delivery_tag m),
     enc_8 (bit_buffer [amqp_basic_get_ok_t.redelivered m]),
     enc_shortstr (amqp_basic_get_ok_t.exchange m),
     enc_shortstr (amqp_basic_get_ok_t.routing_key m),
     enc_32 (amqp_basic_get_ok_t.message_count m)]"

definition encode_basic_get_empty :: "amqp_basic_get_empty_t \<Rightarrow> encoder" where [method_encoders]:
  "encode_basic_get_empty m = enc_seqs
    [enc_shortstr (amqp_basic_get_empty_t.cluster_id m)]"

definition encode_basic_ack :: "amqp_basic_ack_t \<Rightarrow> encoder" where [method_encoders]:
  "encode_basic_ack m = enc_seqs
    [enc_64 (amqp_basic_ack_t.delivery_tag m),
     enc_8 (bit_buffer [amqp_basic_ack_t.multiple m])]"

definition encode_basic_reject :: "amqp_basic_reject_t \<Rightarrow> encoder" where [method_encoders]:
  "encode_basic_reject m = enc_seqs
    [enc_64 (amqp_basic_reject_t.delivery_tag m),
     enc_8 (bit_buffer [amqp_basic_reject_t.requeue m])]"

definition encode_basic_recover_async :: "amqp_basic_recover_async_t \<Rightarrow> encoder" where [method_encoders]:
  "encode_basic_recover_async m = enc_seqs
    [enc_8 (bit_buffer [amqp_basic_recover_async_t.requeue m])]"

definition encode_basic_recover :: "amqp_basic_recover_t \<Rightarrow> encoder" where [method_encoders]:
  "encode_basic_recover m = enc_seqs
    [enc_8 (bit_buffer [amqp_basic_recover_t.requeue m])]"

definition encode_basic_recover_ok :: encoder where [method_encoders]:
  "encode_basic_recover_ok = enc_seqs []"

definition encode_basic_nack :: "amqp_basic_nack_t \<Rightarrow> encoder" where [method_encoders]:
  "encode_basic_nack m = enc_seqs
    [enc_64 (amqp_basic_nack_t.delivery_tag m),
     enc_8 (bit_buffer [amqp_basic_nack_t.multiple m, amqp_basic_nack_t.requeue m])]"

definition encode_tx_select :: encoder where [method_encoders]:
  "encode_tx_select = enc_seqs []"

definition encode_tx_select_ok :: encoder where [method_encoders]:
  "encode_tx_select_ok = enc_seqs []"

definition encode_tx_commit :: encoder where [method_encoders]:
  "encode_tx_commit = enc_seqs []"

definition encode_tx_commit_ok :: encoder where [method_encoders]:
  "encode_tx_commit_ok = enc_seqs []"

definition encode_tx_rollback :: encoder where [method_encoders]:
  "encode_tx_rollback = enc_seqs []"

definition encode_tx_rollback_ok :: encoder where [method_encoders]:
  "encode_tx_rollback_ok = enc_seqs []"

definition encode_confirm_select :: "amqp_confirm_select_t \<Rightarrow> encoder" where [method_encoders]:
  "encode_confirm_select m = enc_seqs
    [enc_8 (bit_buffer [amqp_confirm_select_t.nowait m])]"

definition encode_confirm_select_ok :: encoder where [method_encoders]:
  "encode_confirm_select_ok = enc_seqs []"

primrec encode_method_body :: "amqp_method_t \<Rightarrow> encoder" where
  "encode_method_body (M_connection_start m) = encode_connection_start m"
| "encode_method_body (M_connection_start_ok m) = encode_connection_start_ok m"
| "encode_method_body (M_connection_secure m) = encode_connection_secure m"
| "encode_method_body (M_connection_secure_ok m) = encode_connection_secure_ok m"
| "encode_method_body (M_connection_tune m) = encode_connection_tune m"
| "encode_method_body (M_connection_tune_ok m) = encode_connection_tune_ok m"
| "encode_method_body (M_connection_open m) = encode_connection_open m"
| "encode_method_body (M_connection_open_ok m) = encode_connection_open_ok m"
| "encode_method_body (M_connection_close m) = encode_connection_close m"
| "encode_method_body M_connection_close_ok = encode_connection_close_ok"
| "encode_method_body (M_connection_blocked m) = encode_connection_blocked m"
| "encode_method_body M_connection_unblocked = encode_connection_unblocked"
| "encode_method_body (M_connection_update_secret m) = encode_connection_update_secret m"
| "encode_method_body M_connection_update_secret_ok = encode_connection_update_secret_ok"
| "encode_method_body (M_channel_open m) = encode_channel_open m"
| "encode_method_body (M_channel_open_ok m) = encode_channel_open_ok m"
| "encode_method_body (M_channel_flow m) = encode_channel_flow m"
| "encode_method_body (M_channel_flow_ok m) = encode_channel_flow_ok m"
| "encode_method_body (M_channel_close m) = encode_channel_close m"
| "encode_method_body M_channel_close_ok = encode_channel_close_ok"
| "encode_method_body (M_access_request m) = encode_access_request m"
| "encode_method_body (M_access_request_ok m) = encode_access_request_ok m"
| "encode_method_body (M_exchange_declare m) = encode_exchange_declare m"
| "encode_method_body M_exchange_declare_ok = encode_exchange_declare_ok"
| "encode_method_body (M_exchange_delete m) = encode_exchange_delete m"
| "encode_method_body M_exchange_delete_ok = encode_exchange_delete_ok"
| "encode_method_body (M_exchange_bind m) = encode_exchange_bind m"
| "encode_method_body M_exchange_bind_ok = encode_exchange_bind_ok"
| "encode_method_body (M_exchange_unbind m) = encode_exchange_unbind m"
| "encode_method_body M_exchange_unbind_ok = encode_exchange_unbind_ok"
| "encode_method_body (M_queue_declare m) = encode_queue_declare m"
| "encode_method_body (M_queue_declare_ok m) = encode_queue_declare_ok m"
| "encode_method_body (M_queue_bind m) = encode_queue_bind m"
| "encode_method_body M_queue_bind_ok = encode_queue_bind_ok"
| "encode_method_body (M_queue_purge m) = encode_queue_purge m"
| "encode_method_body (M_queue_purge_ok m) = encode_queue_purge_ok m"
| "encode_method_body (M_queue_delete m) = encode_queue_delete m"
| "encode_method_body (M_queue_delete_ok m) = encode_queue_delete_ok m"
| "encode_method_body (M_queue_unbind m) = encode_queue_unbind m"
| "encode_method_body M_queue_unbind_ok = encode_queue_unbind_ok"
| "encode_method_body (M_basic_qos m) = encode_basic_qos m"
| "encode_method_body M_basic_qos_ok = encode_basic_qos_ok"
| "encode_method_body (M_basic_consume m) = encode_basic_consume m"
| "encode_method_body (M_basic_consume_ok m) = encode_basic_consume_ok m"
| "encode_method_body (M_basic_cancel m) = encode_basic_cancel m"
| "encode_method_body (M_basic_cancel_ok m) = encode_basic_cancel_ok m"
| "encode_method_body (M_basic_publish m) = encode_basic_publish m"
| "encode_method_body (M_basic_return m) = encode_basic_return m"
| "encode_method_body (M_basic_deliver m) = encode_basic_deliver m"
| "encode_method_body (M_basic_get m) = encode_basic_get m"
| "encode_method_body (M_basic_get_ok m) = encode_basic_get_ok m"
| "encode_method_body (M_basic_get_empty m) = encode_basic_get_empty m"
| "encode_method_body (M_basic_ack m) = encode_basic_ack m"
| "encode_method_body (M_basic_reject m) = encode_basic_reject m"
| "encode_method_body (M_basic_recover_async m) = encode_basic_recover_async m"
| "encode_method_body (M_basic_recover m) = encode_basic_recover m"
| "encode_method_body M_basic_recover_ok = encode_basic_recover_ok"
| "encode_method_body (M_basic_nack m) = encode_basic_nack m"
| "encode_method_body M_tx_select = encode_tx_select"
| "encode_method_body M_tx_select_ok = encode_tx_select_ok"
| "encode_method_body M_tx_commit = encode_tx_commit"
| "encode_method_body M_tx_commit_ok = encode_tx_commit_ok"
| "encode_method_body M_tx_rollback = encode_tx_rollback"
| "encode_method_body M_tx_rollback_ok = encode_tx_rollback_ok"
| "encode_method_body (M_confirm_select m) = encode_confirm_select m"
| "encode_method_body M_confirm_select_ok = encode_confirm_select_ok"
| "encode_method_body (M_unknown n) = enc_fail AMQP_STATUS_UNKNOWN_METHOD"

text \<open>
  The result of \<open>amqp_encode_method\<close> is a status or \<open>(int)offset\<close>, with the buffer that
  was written; the buffers of the library are far shorter than \<open>2 ^ 31\<close>.
\<close>

definition enc_result :: "amqp_status_enum \<times> enc_state \<Rightarrow> (amqp_status_enum + nat) \<times> byte list" where
  "enc_result rs = (case rs of (r, s) \<Rightarrow>
    (if r = AMQP_STATUS_OK then Inr (eoff s) else Inl r, ebuf s))"

definition amqp_encode_method ::
  "amqp_method_t \<Rightarrow> byte list \<Rightarrow> (amqp_status_enum + nat) \<times> byte list" where
  "amqp_encode_method m encoded = enc_result (encode_method_body m \<lparr>ebuf = encoded, eoff = 0\<rparr>)"

section \<open>Properties of content headers\<close>

subsection \<open>Flag words\<close>

text \<open>
  The loop that reads the flag words.  Word number \<open>flagword_index\<close> is promoted to \<open>int\<close> and
  shifted by \<open>16 * flagword_index\<close>.  C leaves the shift undefined when it is by at least the
  width of the type, as from the third word on, and when the result is not an \<open>int\<close>, as for a
  second word with its highest bit set.
\<close>

definition shift_defined :: "nat \<Rightarrow> u16 \<Rightarrow> bool" where
  "shift_defined flagword_index partial_flags \<longleftrightarrow>
    flagword_index * 16 < 32 \<and> unat partial_flags * 2 ^ (flagword_index * 16) < 2 ^ 31"

lemma shift_defined_simps [simp]:
  "shift_defined 0 w" "shift_defined (Suc 0) w \<longleftrightarrow> w < 0x8000" "\<not> shift_defined (Suc (Suc 0)) w"
proof -
  have "unat w < 2 ^ 16" using unsigned_less [of w] by simp
  then show "shift_defined 0 w" "shift_defined (Suc 0) w \<longleftrightarrow> w < 0x8000" "\<not> shift_defined (Suc (Suc 0)) w"
    by (simp_all add: shift_defined_def word_less_nat_alt)
qed

fun decode_flags :: "nat \<Rightarrow> nat \<Rightarrow> amqp_flags_t \<Rightarrow> amqp_flags_t decoder" where
  "decode_flags 0 flagword_index flags = dec_fuel"
| "decode_flags (Suc n) flagword_index flags =
    dec_bind dec_16 (\<lambda>partial_flags.
      if \<not> shift_defined flagword_index partial_flags then (\<lambda>v s. (Undefined, s))
      else let flags' = flags OR push_bit (flagword_index * 16) (ucast partial_flags) in
        if partial_flags AND 1 \<noteq> 0 then decode_flags n (Suc flagword_index) flags'
        else dec_return flags')"

text \<open>The loop cannot start more than three rounds.\<close>

definition decode_flag_words :: "amqp_flags_t decoder" where
  "decode_flag_words = decode_flags 3 0 0"

text \<open>The loop that writes them: the low word with its lowest bit cleared or set as more follow.\<close>

definition flag_word :: "amqp_flags_t \<Rightarrow> u16" where
  "flag_word remaining_flags =
    ucast (remaining_flags AND 0xFFFE) OR (if drop_bit 16 remaining_flags \<noteq> 0 then 1 else 0)"

function encode_flags :: "amqp_flags_t \<Rightarrow> encoder list" where
  "encode_flags remaining_flags =
    enc_16 (flag_word remaining_flags) #
    (if drop_bit 16 remaining_flags \<noteq> 0 then encode_flags (drop_bit 16 remaining_flags) else [])"
  by pat_completeness auto
termination
proof (relation "measure unat")
  fix f :: amqp_flags_t
  assume "drop_bit 16 f \<noteq> 0"
  then have "unat f \<noteq> 0" by (metis drop_bit_of_0 unat_eq_zero)
  moreover have "unat (drop_bit 16 f) = unat f div 65536"
    by (simp add: drop_bit_eq_div unat_div)
  ultimately show "(drop_bit 16 f, f) \<in> measure unat"
    by simp
qed simp

subsection \<open>The class basic\<close>

text \<open>A field that is read when its flag is set.  Otherwise the member keeps what the memory
  of the struct happened to hold, which is the parameter \<open>p0\<close> below (pools reuse pages
  without clearing them).\<close>

definition dec_if :: "bool \<Rightarrow> 'a decoder \<Rightarrow> 'a \<Rightarrow> 'a decoder" where
  "dec_if c d absent = (if c then d else dec_return absent)"

definition enc_if :: "bool \<Rightarrow> encoder \<Rightarrow> encoder" where
  "enc_if c e = (if c then e else enc_seqs [])"

definition decode_basic_properties ::
  "amqp_basic_properties_t \<Rightarrow> amqp_flags_t \<Rightarrow> amqp_properties_t decoder" where
  "decode_basic_properties p0 flags =
    dec_bind (dec_alloc (sizeof_struct [c_u32, c_bytes, c_bytes, c_table, c_u8, c_u8, c_bytes, c_bytes, c_bytes, c_bytes, c_u64, c_bytes, c_bytes, c_bytes, c_bytes])) (\<lambda>_.
    dec_bind (dec_if (flags AND AMQP_BASIC_CONTENT_TYPE_FLAG \<noteq> 0) dec_shortstr (amqp_basic_properties_t.content_type p0)) (\<lambda>content_type.
    dec_bind (dec_if (flags AND AMQP_BASIC_CONTENT_ENCODING_FLAG \<noteq> 0) dec_shortstr (amqp_basic_properties_t.content_encoding p0)) (\<lambda>content_encoding.
    dec_bind (dec_if (flags AND AMQP_BASIC_HEADERS_FLAG \<noteq> 0) amqp_decode_table (amqp_basic_properties_t.headers p0)) (\<lambda>headers.
    dec_bind (dec_if (flags AND AMQP_BASIC_DELIVERY_MODE_FLAG \<noteq> 0) dec_8 (amqp_basic_properties_t.delivery_mode p0)) (\<lambda>delivery_mode.
    dec_bind (dec_if (flags AND AMQP_BASIC_PRIORITY_FLAG \<noteq> 0) dec_8 (amqp_basic_properties_t.priority p0)) (\<lambda>priority.
    dec_bind (dec_if (flags AND AMQP_BASIC_CORRELATION_ID_FLAG \<noteq> 0) dec_shortstr (amqp_basic_properties_t.correlation_id p0)) (\<lambda>correlation_id.
    dec_bind (dec_if (flags AND AMQP_BASIC_REPLY_TO_FLAG \<noteq> 0) dec_shortstr (amqp_basic_properties_t.reply_to p0)) (\<lambda>reply_to.
    dec_bind (dec_if (flags AND AMQP_BASIC_EXPIRATION_FLAG \<noteq> 0) dec_shortstr (amqp_basic_properties_t.expiration p0)) (\<lambda>expiration.
    dec_bind (dec_if (flags AND AMQP_BASIC_MESSAGE_ID_FLAG \<noteq> 0) dec_shortstr (amqp_basic_properties_t.message_id p0)) (\<lambda>message_id.
    dec_bind (dec_if (flags AND AMQP_BASIC_TIMESTAMP_FLAG \<noteq> 0) dec_64 (amqp_basic_properties_t.timestamp p0)) (\<lambda>timestamp.
    dec_bind (dec_if (flags AND AMQP_BASIC_TYPE_FLAG \<noteq> 0) dec_shortstr (amqp_basic_properties_t.type p0)) (\<lambda>type'.
    dec_bind (dec_if (flags AND AMQP_BASIC_USER_ID_FLAG \<noteq> 0) dec_shortstr (amqp_basic_properties_t.user_id p0)) (\<lambda>user_id.
    dec_bind (dec_if (flags AND AMQP_BASIC_APP_ID_FLAG \<noteq> 0) dec_shortstr (amqp_basic_properties_t.app_id p0)) (\<lambda>app_id.
    dec_bind (dec_if (flags AND AMQP_BASIC_CLUSTER_ID_FLAG \<noteq> 0) dec_shortstr (amqp_basic_properties_t.cluster_id p0)) (\<lambda>cluster_id.
    dec_return (P_basic
      \<lparr>props_flags = flags,
       amqp_basic_properties_t.content_type = content_type,
       amqp_basic_properties_t.content_encoding = content_encoding,
       amqp_basic_properties_t.headers = headers,
       amqp_basic_properties_t.delivery_mode = delivery_mode,
       amqp_basic_properties_t.priority = priority,
       amqp_basic_properties_t.correlation_id = correlation_id,
       amqp_basic_properties_t.reply_to = reply_to,
       amqp_basic_properties_t.expiration = expiration,
       amqp_basic_properties_t.message_id = message_id,
       amqp_basic_properties_t.timestamp = timestamp,
       amqp_basic_properties_t.type = type',
       amqp_basic_properties_t.user_id = user_id,
       amqp_basic_properties_t.app_id = app_id,
       amqp_basic_properties_t.cluster_id = cluster_id\<rparr>))))))))))))))))"

definition encode_basic_properties :: "amqp_basic_properties_t \<Rightarrow> encoder" where
  "encode_basic_properties p = (let flags = props_flags p in enc_seqs
    [enc_if (flags AND AMQP_BASIC_CONTENT_TYPE_FLAG \<noteq> 0) (enc_shortstr (amqp_basic_properties_t.content_type p)),
     enc_if (flags AND AMQP_BASIC_CONTENT_ENCODING_FLAG \<noteq> 0) (enc_shortstr (amqp_basic_properties_t.content_encoding p)),
     enc_if (flags AND AMQP_BASIC_HEADERS_FLAG \<noteq> 0) (amqp_encode_table (amqp_basic_properties_t.headers p)),
     enc_if (flags AND AMQP_BASIC_DELIVERY_MODE_FLAG \<noteq> 0) (enc_8 (amqp_basic_properties_t.delivery_mode p)),
     enc_if (flags AND AMQP_BASIC_PRIORITY_FLAG \<noteq> 0) (enc_8 (amqp_basic_properties_t.priority p)),
     enc_if (flags AND AMQP_BASIC_CORRELATION_ID_FLAG \<noteq> 0) (enc_shortstr (amqp_basic_properties_t.correlation_id p)),
     enc_if (flags AND AMQP_BASIC_REPLY_TO_FLAG \<noteq> 0) (enc_shortstr (amqp_basic_properties_t.reply_to p)),
     enc_if (flags AND AMQP_BASIC_EXPIRATION_FLAG \<noteq> 0) (enc_shortstr (amqp_basic_properties_t.expiration p)),
     enc_if (flags AND AMQP_BASIC_MESSAGE_ID_FLAG \<noteq> 0) (enc_shortstr (amqp_basic_properties_t.message_id p)),
     enc_if (flags AND AMQP_BASIC_TIMESTAMP_FLAG \<noteq> 0) (enc_64 (amqp_basic_properties_t.timestamp p)),
     enc_if (flags AND AMQP_BASIC_TYPE_FLAG \<noteq> 0) (enc_shortstr (amqp_basic_properties_t.type p)),
     enc_if (flags AND AMQP_BASIC_USER_ID_FLAG \<noteq> 0) (enc_shortstr (amqp_basic_properties_t.user_id p)),
     enc_if (flags AND AMQP_BASIC_APP_ID_FLAG \<noteq> 0) (enc_shortstr (amqp_basic_properties_t.app_id p)),
     enc_if (flags AND AMQP_BASIC_CLUSTER_ID_FLAG \<noteq> 0) (enc_shortstr (amqp_basic_properties_t.cluster_id p))])"

text \<open>Classes without properties only store the flags.\<close>

definition dec_flags_only :: "(amqp_flags_t \<Rightarrow> amqp_properties_t) \<Rightarrow> amqp_flags_t \<Rightarrow> amqp_properties_t decoder" where
  "dec_flags_only p flags =
    dec_bind (dec_alloc (sizeof_struct [c_u32, c_u8])) (\<lambda>_. dec_return (p flags))"

text \<open>The \<open>switch\<close> on the class.\<close>

definition decode_class_properties ::
  "amqp_basic_properties_t \<Rightarrow> u16 \<Rightarrow> amqp_flags_t \<Rightarrow> amqp_properties_t decoder" where
  "decode_class_properties p0 cls flags =
    (if cls = 10 then dec_flags_only P_connection flags
     else if cls = 20 then dec_flags_only P_channel flags
     else if cls = 30 then dec_flags_only P_access flags
     else if cls = 40 then dec_flags_only P_exchange flags
     else if cls = 50 then dec_flags_only P_queue flags
     else if cls = 60 then decode_basic_properties p0 flags
     else if cls = 90 then dec_flags_only P_tx flags
     else if cls = 85 then dec_flags_only P_confirm flags
     else dec_fail AMQP_STATUS_UNKNOWN_CLASS)"

definition amqp_decode_properties ::
  "amqp_basic_properties_t \<Rightarrow> u16 \<Rightarrow> amqp_properties_t decoder" where
  "amqp_decode_properties p0 cls = dec_bind decode_flag_words (decode_class_properties p0 cls)"

primrec properties_class :: "amqp_properties_t \<Rightarrow> u16" where
  "properties_class (P_connection _) = 10"
| "properties_class (P_channel _) = 20"
| "properties_class (P_access _) = 30"
| "properties_class (P_exchange _) = 40"
| "properties_class (P_queue _) = 50"
| "properties_class (P_basic _) = 60"
| "properties_class (P_tx _) = 90"
| "properties_class (P_confirm _) = 85"

text \<open>\<open>flags = *(amqp_flags_t *)decoded\<close>: the first member of every properties struct.\<close>

primrec properties_flags :: "amqp_properties_t \<Rightarrow> amqp_flags_t" where
  "properties_flags (P_connection p) = p"
| "properties_flags (P_channel p) = p"
| "properties_flags (P_access p) = p"
| "properties_flags (P_exchange p) = p"
| "properties_flags (P_queue p) = p"
| "properties_flags (P_basic p) = props_flags p"
| "properties_flags (P_tx p) = p"
| "properties_flags (P_confirm p) = p"

primrec encode_properties_body :: "amqp_properties_t \<Rightarrow> encoder" where
  "encode_properties_body (P_connection p) = enc_seqs []"
| "encode_properties_body (P_channel p) = enc_seqs []"
| "encode_properties_body (P_access p) = enc_seqs []"
| "encode_properties_body (P_exchange p) = enc_seqs []"
| "encode_properties_body (P_queue p) = enc_seqs []"
| "encode_properties_body (P_basic p) = encode_basic_properties p"
| "encode_properties_body (P_tx p) = enc_seqs []"
| "encode_properties_body (P_confirm p) = enc_seqs []"

definition amqp_encode_properties ::
  "amqp_properties_t \<Rightarrow> byte list \<Rightarrow> (amqp_status_enum + nat) \<times> byte list" where
  "amqp_encode_properties p encoded = enc_result
    (enc_seqs (encode_flags (properties_flags p) @ [encode_properties_body p]) \<lparr>ebuf = encoded, eoff = 0\<rparr>)"

section \<open>Encoders and decoders that agree\<close>

text \<open>
  \<open>agree e d x\<close>: there are bytes that \<open>e\<close> writes (and only those, and it fails only for
  want of room) and from which \<open>d\<close> reads \<open>x\<close>.
\<close>

definition agree :: "encoder \<Rightarrow> 'a decoder \<Rightarrow> 'a \<Rightarrow> bool" where
  "agree e d x \<longleftrightarrow> (\<exists>w. emits e w \<and> reads d w x)"

context field_codec begin

lemma agree_field: "valid x \<Longrightarrow> agree (put x) get x"
  using put_emits get_reads by (auto simp: agree_def)

end

lemma agree_prims [agree_intros]:
  "agree (enc_8 a) dec_8 a" "agree (enc_16 b) dec_16 b" "agree (enc_32 c) dec_32 c" "agree (enc_64 d) dec_64 d"
  "valid_table t \<Longrightarrow> agree (amqp_encode_table t) amqp_decode_table t"
  by (auto intro: u8_field.agree_field u16_field.agree_field u32_field.agree_field u64_field.agree_field
      table_field.agree_field)

lemma agree_return [agree_intros]: "x = y \<Longrightarrow> agree (enc_seqs []) (dec_return x) y"
  by (auto simp: agree_def intro: emits_Nil reads_return)

lemma agree_bind [agree_intros]:
  "agree e d a \<Longrightarrow> agree (enc_seqs es) (f a) x \<Longrightarrow> agree (enc_seqs (e # es)) (dec_bind d f) x"
  unfolding agree_def by (metis emits_Cons reads_bind)

lemma agree_alloc: "0 < n \<Longrightarrow> agree e d x \<Longrightarrow> agree e (dec_bind (dec_alloc n) (\<lambda>_. d)) x"
  unfolding agree_def by (metis reads_alloc)

lemma round_to_ge: "0 < al \<Longrightarrow> n \<le> round_to al n"
  using div_mult_mod_eq [of "n + al - 1" al] mod_less_divisor [of al "n + al - 1"]
  unfolding round_to_def by linarith

lemma sizeof_struct_pos:
  assumes "list_all (\<lambda>(sz, al). 0 < sz \<and> 0 < al) members" and "members \<noteq> []"
  shows "0 < sizeof_struct members"
proof -
  have mx: "a \<le> foldl max a xs" for a :: nat and xs
    by (induction xs arbitrary: a) (auto intro: order_trans [OF max.cobounded1])
  let ?off = "foldl (\<lambda>off (sz, al). round_to al off + sz) 0 members"
  obtain ms sz al where ms: "members = ms @ [(sz, al)]"
    using assms(2) by (metis prod.exhaust rev_exhaust)
  have "0 < ?off" using assms(1) by (simp add: ms)
  moreover have "?off \<le> sizeof_struct members"
    unfolding sizeof_struct_def using mx [of 1] by (intro round_to_ge) (simp add: Suc_le_eq)
  ultimately show ?thesis by linarith
qed

lemma agree_struct:
  "list_all (\<lambda>(sz, al). 0 < sz \<and> 0 < al) members \<Longrightarrow> members \<noteq> [] \<Longrightarrow> agree e d x \<Longrightarrow>
    agree e (dec_bind (dec_alloc (sizeof_struct members)) (\<lambda>_. d)) x"
  by (intro agree_alloc sizeof_struct_pos)

text \<open>Strings and flags the fields can carry.\<close>

definition shortstr :: "amqp_bytes_t \<Rightarrow> bool" where
  "shortstr b \<longleftrightarrow> length b \<le> UINT8_MAX"

definition longstr :: "amqp_bytes_t \<Rightarrow> bool" where
  "longstr b \<longleftrightarrow> length b \<le> UINT32_MAX"

definition is_flag :: "amqp_boolean_t \<Rightarrow> bool" where
  "is_flag b \<longleftrightarrow> b = 0 \<or> b = 1"

lemma unat_length:
  "length (bs :: 'a list) < 2 ^ LENGTH('b) \<Longrightarrow> unat (of_nat (length bs) :: 'b::len word) = length bs"
  by (simp add: unat_of_nat take_bit_eq_mod)

interpretation shortstr_field: field_codec shortstr enc_shortstr dec_shortstr
  "\<lambda>b. w8 (of_nat (length b)) @ b"
proof unfold_locales
  fix b
  assume "shortstr b"
  then have b: "length b \<le> 255" by (simp add: shortstr_def UINT8_MAX_def)
  then have u: "unat (of_nat (length b) :: u8) = length b" by (intro unat_length) simp
  show "emits (enc_shortstr b) (w8 (of_nat (length b)) @ b)"
    using b emits_pair [OF emits_8 emits_bytes] by (simp add: enc_shortstr_def UINT8_MAX_def)
  show "reads dec_shortstr (w8 (of_nat (length b)) @ b) b"
    unfolding dec_shortstr_def by (intro reads_bind [OF reads_8] reads_bytes u)
qed

interpretation longstr_field: field_codec longstr enc_longstr dec_longstr
  "\<lambda>b. w32 (of_nat (length b)) @ b"
proof unfold_locales
  fix b
  assume "longstr b"
  then have b: "length b \<le> 4294967295" by (simp add: longstr_def UINT32_MAX_def)
  then have u: "unat (of_nat (length b) :: u32) = length b" by (intro unat_length) simp
  show "emits (enc_longstr b) (w32 (of_nat (length b)) @ b)"
    using b emits_pair [OF emits_32 emits_bytes] by (simp add: enc_longstr_def UINT32_MAX_def)
  show "reads dec_longstr (w32 (of_nat (length b)) @ b) b"
    unfolding dec_longstr_def by (intro reads_bind [OF reads_32] reads_bytes u)
qed

lemma agree_strings [agree_intros]:
  "shortstr b \<Longrightarrow> agree (enc_shortstr b) dec_shortstr b"
  "longstr b \<Longrightarrow> agree (enc_longstr b) dec_longstr b"
  by (rule shortstr_field.agree_field longstr_field.agree_field, assumption)+

lemma bit_flag_iff: "bit_flag buffer i = (if bit buffer i then 1 else 0)"
  by (simp add: bit_flag_def bit_iff_and_push_bit_not_eq_0)

lemma bit_set_bits_from:
  "i + length bs \<le> 8 \<Longrightarrow> bit (set_bits_from i bs buffer) k \<longleftrightarrow>
    bit buffer k \<or> (i \<le> k \<and> k < i + length bs \<and> bs ! (k - i) \<noteq> 0)"
proof (induction bs arbitrary: i buffer)
  case (Cons b bs)
  have "bit (set_bits_from (Suc i) bs (if b \<noteq> 0 then buffer OR push_bit i 1 else buffer)) k \<longleftrightarrow>
      bit buffer k \<or> (k = i \<and> b \<noteq> 0) \<or> (Suc i \<le> k \<and> k < Suc i + length bs \<and> bs ! (k - Suc i) \<noteq> 0)"
    using Cons.prems by (subst Cons.IH) (auto simp: bit_simps)
  also have "\<dots> \<longleftrightarrow> bit buffer k \<or> (i \<le> k \<and> k < i + length (b # bs) \<and> (b # bs) ! (k - i) \<noteq> 0)"
    by (cases "k = i") (auto simp: nth_Cons' Suc_diff_Suc)
  finally show ?case by simp
qed auto

text \<open>Each flag is read back from its own bit.\<close>

lemma bit_flag_buffer [simp]:
  assumes "i < length bs" and "length bs \<le> 8" and "is_flag (bs ! i)"
  shows "bit_flag (bit_buffer bs) i = bs ! i"
  using assms by (simp add: bit_flag_iff bit_buffer_def bit_set_bits_from is_flag_def) auto

section \<open>Methods there and back\<close>

primrec valid_method :: "amqp_method_t \<Rightarrow> bool" where
  "valid_method (M_connection_start m) \<longleftrightarrow> valid_table (amqp_connection_start_t.server_properties m) \<and>
    longstr (amqp_connection_start_t.mechanisms m) \<and>
    longstr (amqp_connection_start_t.locales m)"
| "valid_method (M_connection_start_ok m) \<longleftrightarrow> valid_table (amqp_connection_start_ok_t.client_properties m) \<and>
    shortstr (amqp_connection_start_ok_t.mechanism m) \<and>
    longstr (amqp_connection_start_ok_t.response m) \<and>
    shortstr (amqp_connection_start_ok_t.locale m)"
| "valid_method (M_connection_secure m) \<longleftrightarrow> longstr (amqp_connection_secure_t.challenge m)"
| "valid_method (M_connection_secure_ok m) \<longleftrightarrow> longstr (amqp_connection_secure_ok_t.response m)"
| "valid_method (M_connection_tune m) \<longleftrightarrow> True"
| "valid_method (M_connection_tune_ok m) \<longleftrightarrow> True"
| "valid_method (M_connection_open m) \<longleftrightarrow> shortstr (amqp_connection_open_t.virtual_host m) \<and>
    shortstr (amqp_connection_open_t.capabilities m) \<and>
    is_flag (amqp_connection_open_t.insist m)"
| "valid_method (M_connection_open_ok m) \<longleftrightarrow> shortstr (amqp_connection_open_ok_t.known_hosts m)"
| "valid_method (M_connection_close m) \<longleftrightarrow> shortstr (amqp_connection_close_t.reply_text m)"
| "valid_method M_connection_close_ok = True"
| "valid_method (M_connection_blocked m) \<longleftrightarrow> shortstr (amqp_connection_blocked_t.reason m)"
| "valid_method M_connection_unblocked = True"
| "valid_method (M_connection_update_secret m) \<longleftrightarrow> longstr (amqp_connection_update_secret_t.new_secret m) \<and>
    shortstr (amqp_connection_update_secret_t.reason m)"
| "valid_method M_connection_update_secret_ok = True"
| "valid_method (M_channel_open m) \<longleftrightarrow> shortstr (amqp_channel_open_t.out_of_band m)"
| "valid_method (M_channel_open_ok m) \<longleftrightarrow> longstr (amqp_channel_open_ok_t.channel_id m)"
| "valid_method (M_channel_flow m) \<longleftrightarrow> is_flag (amqp_channel_flow_t.active m)"
| "valid_method (M_channel_flow_ok m) \<longleftrightarrow> is_flag (amqp_channel_flow_ok_t.active m)"
| "valid_method (M_channel_close m) \<longleftrightarrow> shortstr (amqp_channel_close_t.reply_text m)"
| "valid_method M_channel_close_ok = True"
| "valid_method (M_access_request m) \<longleftrightarrow> shortstr (amqp_access_request_t.realm m) \<and>
    is_flag (amqp_access_request_t.exclusive m) \<and>
    is_flag (amqp_access_request_t.passive m) \<and>
    is_flag (amqp_access_request_t.active m) \<and>
    is_flag (amqp_access_request_t.write m) \<and>
    is_flag (amqp_access_request_t.read m)"
| "valid_method (M_access_request_ok m) \<longleftrightarrow> True"
| "valid_method (M_exchange_declare m) \<longleftrightarrow> shortstr (amqp_exchange_declare_t.exchange m) \<and>
    shortstr (amqp_exchange_declare_t.type m) \<and>
    is_flag (amqp_exchange_declare_t.passive m) \<and>
    is_flag (amqp_exchange_declare_t.durable m) \<and>
    is_flag (amqp_exchange_declare_t.auto_delete m) \<and>
    is_flag (amqp_exchange_declare_t.internal m) \<and>
    is_flag (amqp_exchange_declare_t.nowait m) \<and>
    valid_table (amqp_exchange_declare_t.arguments m)"
| "valid_method M_exchange_declare_ok = True"
| "valid_method (M_exchange_delete m) \<longleftrightarrow> shortstr (amqp_exchange_delete_t.exchange m) \<and>
    is_flag (amqp_exchange_delete_t.if_unused m) \<and>
    is_flag (amqp_exchange_delete_t.nowait m)"
| "valid_method M_exchange_delete_ok = True"
| "valid_method (M_exchange_bind m) \<longleftrightarrow> shortstr (amqp_exchange_bind_t.destination m) \<and>
    shortstr (amqp_exchange_bind_t.source m) \<and>
    shortstr (amqp_exchange_bind_t.routing_key m) \<and>
    is_flag (amqp_exchange_bind_t.nowait m) \<and>
    valid_table (amqp_exchange_bind_t.arguments m)"
| "valid_method M_exchange_bind_ok = True"
| "valid_method (M_exchange_unbind m) \<longleftrightarrow> shortstr (amqp_exchange_unbind_t.destination m) \<and>
    shortstr (amqp_exchange_unbind_t.source m) \<and>
    shortstr (amqp_exchange_unbind_t.routing_key m) \<and>
    is_flag (amqp_exchange_unbind_t.nowait m) \<and>
    valid_table (amqp_exchange_unbind_t.arguments m)"
| "valid_method M_exchange_unbind_ok = True"
| "valid_method (M_queue_declare m) \<longleftrightarrow> shortstr (amqp_queue_declare_t.queue m) \<and>
    is_flag (amqp_queue_declare_t.passive m) \<and>
    is_flag (amqp_queue_declare_t.durable m) \<and>
    is_flag (amqp_queue_declare_t.exclusive m) \<and>
    is_flag (amqp_queue_declare_t.auto_delete m) \<and>
    is_flag (amqp_queue_declare_t.nowait m) \<and>
    valid_table (amqp_queue_declare_t.arguments m)"
| "valid_method (M_queue_declare_ok m) \<longleftrightarrow> shortstr (amqp_queue_declare_ok_t.queue m)"
| "valid_method (M_queue_bind m) \<longleftrightarrow> shortstr (amqp_queue_bind_t.queue m) \<and>
    shortstr (amqp_queue_bind_t.exchange m) \<and>
    shortstr (amqp_queue_bind_t.routing_key m) \<and>
    is_flag (amqp_queue_bind_t.nowait m) \<and>
    valid_table (amqp_queue_bind_t.arguments m)"
| "valid_method M_queue_bind_ok = True"
| "valid_method (M_queue_purge m) \<longleftrightarrow> shortstr (amqp_queue_purge_t.queue m) \<and>
    is_flag (amqp_queue_purge_t.nowait m)"
| "valid_method (M_queue_purge_ok m) \<longleftrightarrow> True"
| "valid_method (M_queue_delete m) \<longleftrightarrow> shortstr (amqp_queue_delete_t.queue m) \<and>
    is_flag (amqp_queue_delete_t.if_unused m) \<and>
    is_flag (amqp_queue_delete_t.if_empty m) \<and>
    is_flag (amqp_queue_delete_t.nowait m)"
| "valid_method (M_queue_delete_ok m) \<longleftrightarrow> True"
| "valid_method (M_queue_unbind m) \<longleftrightarrow> shortstr (amqp_queue_unbind_t.queue m) \<and>
    shortstr (amqp_queue_unbind_t.exchange m) \<and>
    shortstr (amqp_queue_unbind_t.routing_key m) \<and>
    valid_table (amqp_queue_unbind_t.arguments m)"
| "valid_method M_queue_unbind_ok = True"
| "valid_method (M_basic_qos m) \<longleftrightarrow> is_flag (amqp_basic_qos_t.global m)"
| "valid_method M_basic_qos_ok = True"
| "valid_method (M_basic_consume m) \<longleftrightarrow> shortstr (amqp_basic_consume_t.queue m) \<and>
    shortstr (amqp_basic_consume_t.consumer_tag m) \<and>
    is_flag (amqp_basic_consume_t.no_local m) \<and>
    is_flag (amqp_basic_consume_t.no_ack m) \<and>
    is_flag (amqp_basic_consume_t.exclusive m) \<and>
    is_flag (amqp_basic_consume_t.nowait m) \<and>
    valid_table (amqp_basic_consume_t.arguments m)"
| "valid_method (M_basic_consume_ok m) \<longleftrightarrow> shortstr (amqp_basic_consume_ok_t.consumer_tag m)"
| "valid_method (M_basic_cancel m) \<longleftrightarrow> shortstr (amqp_basic_cancel_t.consumer_tag m) \<and>
    is_flag (amqp_basic_cancel_t.nowait m)"
| "valid_method (M_basic_cancel_ok m) \<longleftrightarrow> shortstr (amqp_basic_cancel_ok_t.consumer_tag m)"
| "valid_method (M_basic_publish m) \<longleftrightarrow> shortstr (amqp_basic_publish_t.exchange m) \<and>
    shortstr (amqp_basic_publish_t.routing_key m) \<and>
    is_flag (amqp_basic_publish_t.mandatory m) \<and>
    is_flag (amqp_basic_publish_t.immediate m)"
| "valid_method (M_basic_return m) \<longleftrightarrow> shortstr (amqp_basic_return_t.reply_text m) \<and>
    shortstr (amqp_basic_return_t.exchange m) \<and>
    shortstr (amqp_basic_return_t.routing_key m)"
| "valid_method (M_basic_deliver m) \<longleftrightarrow> shortstr (amqp_basic_deliver_t.consumer_tag m) \<and>
    is_flag (amqp_basic_deliver_t.redelivered m) \<and>
    shortstr (amqp_basic_deliver_t.exchange m) \<and>
    shortstr (amqp_basic_deliver_t.routing_key m)"
| "valid_method (M_basic_get m) \<longleftrightarrow> shortstr (amqp_basic_get_t.queue m) \<and>
    is_flag (amqp_basic_get_t.no_ack m)"
| "valid_method (M_basic_get_ok m) \<longleftrightarrow> is_flag (amqp_basic_get_ok_t.redelivered m) \<and>
    shortstr (amqp_basic_get_ok_t.exchange m) \<and>
    shortstr (amqp_basic_get_ok_t.routing_key m)"
| "valid_method (M_basic_get_empty m) \<longleftrightarrow> shortstr (amqp_basic_get_empty_t.cluster_id m)"
| "valid_method (M_basic_ack m) \<longleftrightarrow> is_flag (amqp_basic_ack_t.multiple m)"
| "valid_method (M_basic_reject m) \<longleftrightarrow> is_flag (amqp_basic_reject_t.requeue m)"
| "valid_method (M_basic_recover_async m) \<longleftrightarrow> is_flag (amqp_basic_recover_async_t.requeue m)"
| "valid_method (M_basic_recover m) \<longleftrightarrow> is_flag (amqp_basic_recover_t.requeue m)"
| "valid_method M_basic_recover_ok = True"
| "valid_method (M_basic_nack m) \<longleftrightarrow> is_flag (amqp_basic_nack_t.multiple m) \<and>
    is_flag (amqp_basic_nack_t.requeue m)"
| "valid_method M_tx_select = True"
| "valid_method M_tx_select_ok = True"
| "valid_method M_tx_commit = True"
| "valid_method M_tx_commit_ok = True"
| "valid_method M_tx_rollback = True"
| "valid_method M_tx_rollback_ok = True"
| "valid_method (M_confirm_select m) \<longleftrightarrow> is_flag (amqp_confirm_select_t.nowait m)"
| "valid_method M_confirm_select_ok = True"
| "valid_method (M_unknown n) = False"


lemma amqp_decode_method_simps [simp]:
  "amqp_decode_method AMQP_CONNECTION_START_METHOD = decode_connection_start"
  "amqp_decode_method AMQP_CONNECTION_START_OK_METHOD = decode_connection_start_ok"
  "amqp_decode_method AMQP_CONNECTION_SECURE_METHOD = decode_connection_secure"
  "amqp_decode_method AMQP_CONNECTION_SECURE_OK_METHOD = decode_connection_secure_ok"
  "amqp_decode_method AMQP_CONNECTION_TUNE_METHOD = decode_connection_tune"
  "amqp_decode_method AMQP_CONNECTION_TUNE_OK_METHOD = decode_connection_tune_ok"
  "amqp_decode_method AMQP_CONNECTION_OPEN_METHOD = decode_connection_open"
  "amqp_decode_method AMQP_CONNECTION_OPEN_OK_METHOD = decode_connection_open_ok"
  "amqp_decode_method AMQP_CONNECTION_CLOSE_METHOD = decode_connection_close"
  "amqp_decode_method AMQP_CONNECTION_CLOSE_OK_METHOD = decode_connection_close_ok"
  "amqp_decode_method AMQP_CONNECTION_BLOCKED_METHOD = decode_connection_blocked"
  "amqp_decode_method AMQP_CONNECTION_UNBLOCKED_METHOD = decode_connection_unblocked"
  "amqp_decode_method AMQP_CONNECTION_UPDATE_SECRET_METHOD = decode_connection_update_secret"
  "amqp_decode_method AMQP_CONNECTION_UPDATE_SECRET_OK_METHOD = decode_connection_update_secret_ok"
  "amqp_decode_method AMQP_CHANNEL_OPEN_METHOD = decode_channel_open"
  "amqp_decode_method AMQP_CHANNEL_OPEN_OK_METHOD = decode_channel_open_ok"
  "amqp_decode_method AMQP_CHANNEL_FLOW_METHOD = decode_channel_flow"
  "amqp_decode_method AMQP_CHANNEL_FLOW_OK_METHOD = decode_channel_flow_ok"
  "amqp_decode_method AMQP_CHANNEL_CLOSE_METHOD = decode_channel_close"
  "amqp_decode_method AMQP_CHANNEL_CLOSE_OK_METHOD = decode_channel_close_ok"
  "amqp_decode_method AMQP_ACCESS_REQUEST_METHOD = decode_access_request"
  "amqp_decode_method AMQP_ACCESS_REQUEST_OK_METHOD = decode_access_request_ok"
  "amqp_decode_method AMQP_EXCHANGE_DECLARE_METHOD = decode_exchange_declare"
  "amqp_decode_method AMQP_EXCHANGE_DECLARE_OK_METHOD = decode_exchange_declare_ok"
  "amqp_decode_method AMQP_EXCHANGE_DELETE_METHOD = decode_exchange_delete"
  "amqp_decode_method AMQP_EXCHANGE_DELETE_OK_METHOD = decode_exchange_delete_ok"
  "amqp_decode_method AMQP_EXCHANGE_BIND_METHOD = decode_exchange_bind"
  "amqp_decode_method AMQP_EXCHANGE_BIND_OK_METHOD = decode_exchange_bind_ok"
  "amqp_decode_method AMQP_EXCHANGE_UNBIND_METHOD = decode_exchange_unbind"
  "amqp_decode_method AMQP_EXCHANGE_UNBIND_OK_METHOD = decode_exchange_unbind_ok"
  "amqp_decode_method AMQP_QUEUE_DECLARE_METHOD = decode_queue_declare"
  "amqp_decode_method AMQP_QUEUE_DECLARE_OK_METHOD = decode_queue_declare_ok"
  "amqp_decode_method AMQP_QUEUE_BIND_METHOD = decode_queue_bind"
  "amqp_decode_method AMQP_QUEUE_BIND_OK_METHOD = decode_queue_bind_ok"
  "amqp_decode_method AMQP_QUEUE_PURGE_METHOD = decode_queue_purge"
  "amqp_decode_method AMQP_QUEUE_PURGE_OK_METHOD = decode_queue_purge_ok"
  "amqp_decode_method AMQP_QUEUE_DELETE_METHOD = decode_queue_delete"
  "amqp_decode_method AMQP_QUEUE_DELETE_OK_METHOD = decode_queue_delete_ok"
  "amqp_decode_method AMQP_QUEUE_UNBIND_METHOD = decode_queue_unbind"
  "amqp_decode_method AMQP_QUEUE_UNBIND_OK_METHOD = decode_queue_unbind_ok"
  "amqp_decode_method AMQP_BASIC_QOS_METHOD = decode_basic_qos"
  "amqp_decode_method AMQP_BASIC_QOS_OK_METHOD = decode_basic_qos_ok"
  "amqp_decode_method AMQP_BASIC_CONSUME_METHOD = decode_basic_consume"
  "amqp_decode_method AMQP_BASIC_CONSUME_OK_METHOD = decode_basic_consume_ok"
  "amqp_decode_method AMQP_BASIC_CANCEL_METHOD = decode_basic_cancel"
  "amqp_decode_method AMQP_BASIC_CANCEL_OK_METHOD = decode_basic_cancel_ok"
  "amqp_decode_method AMQP_BASIC_PUBLISH_METHOD = decode_basic_publish"
  "amqp_decode_method AMQP_BASIC_RETURN_METHOD = decode_basic_return"
  "amqp_decode_method AMQP_BASIC_DELIVER_METHOD = decode_basic_deliver"
  "amqp_decode_method AMQP_BASIC_GET_METHOD = decode_basic_get"
  "amqp_decode_method AMQP_BASIC_GET_OK_METHOD = decode_basic_get_ok"
  "amqp_decode_method AMQP_BASIC_GET_EMPTY_METHOD = decode_basic_get_empty"
  "amqp_decode_method AMQP_BASIC_ACK_METHOD = decode_basic_ack"
  "amqp_decode_method AMQP_BASIC_REJECT_METHOD = decode_basic_reject"
  "amqp_decode_method AMQP_BASIC_RECOVER_ASYNC_METHOD = decode_basic_recover_async"
  "amqp_decode_method AMQP_BASIC_RECOVER_METHOD = decode_basic_recover"
  "amqp_decode_method AMQP_BASIC_RECOVER_OK_METHOD = decode_basic_recover_ok"
  "amqp_decode_method AMQP_BASIC_NACK_METHOD = decode_basic_nack"
  "amqp_decode_method AMQP_TX_SELECT_METHOD = decode_tx_select"
  "amqp_decode_method AMQP_TX_SELECT_OK_METHOD = decode_tx_select_ok"
  "amqp_decode_method AMQP_TX_COMMIT_METHOD = decode_tx_commit"
  "amqp_decode_method AMQP_TX_COMMIT_OK_METHOD = decode_tx_commit_ok"
  "amqp_decode_method AMQP_TX_ROLLBACK_METHOD = decode_tx_rollback"
  "amqp_decode_method AMQP_TX_ROLLBACK_OK_METHOD = decode_tx_rollback_ok"
  "amqp_decode_method AMQP_CONFIRM_SELECT_METHOD = decode_confirm_select"
  "amqp_decode_method AMQP_CONFIRM_SELECT_OK_METHOD = decode_confirm_select_ok"
  by (simp_all add: amqp_decode_method_def method_numbers)

text \<open>Both directions of every case.\<close>

lemma agree_case:
  "valid_method (M_connection_start m0) \<Longrightarrow> agree (encode_connection_start m0) decode_connection_start (M_connection_start m0)"
  "valid_method (M_connection_start_ok m1) \<Longrightarrow> agree (encode_connection_start_ok m1) decode_connection_start_ok (M_connection_start_ok m1)"
  "valid_method (M_connection_secure m2) \<Longrightarrow> agree (encode_connection_secure m2) decode_connection_secure (M_connection_secure m2)"
  "valid_method (M_connection_secure_ok m3) \<Longrightarrow> agree (encode_connection_secure_ok m3) decode_connection_secure_ok (M_connection_secure_ok m3)"
  "valid_method (M_connection_tune m4) \<Longrightarrow> agree (encode_connection_tune m4) decode_connection_tune (M_connection_tune m4)"
  "valid_method (M_connection_tune_ok m5) \<Longrightarrow> agree (encode_connection_tune_ok m5) decode_connection_tune_ok (M_connection_tune_ok m5)"
  "valid_method (M_connection_open m6) \<Longrightarrow> agree (encode_connection_open m6) decode_connection_open (M_connection_open m6)"
  "valid_method (M_connection_open_ok m7) \<Longrightarrow> agree (encode_connection_open_ok m7) decode_connection_open_ok (M_connection_open_ok m7)"
  "valid_method (M_connection_close m8) \<Longrightarrow> agree (encode_connection_close m8) decode_connection_close (M_connection_close m8)"
  "agree encode_connection_close_ok decode_connection_close_ok M_connection_close_ok"
  "valid_method (M_connection_blocked m10) \<Longrightarrow> agree (encode_connection_blocked m10) decode_connection_blocked (M_connection_blocked m10)"
  "agree encode_connection_unblocked decode_connection_unblocked M_connection_unblocked"
  "valid_method (M_connection_update_secret m12) \<Longrightarrow> agree (encode_connection_update_secret m12) decode_connection_update_secret (M_connection_update_secret m12)"
  "agree encode_connection_update_secret_ok decode_connection_update_secret_ok M_connection_update_secret_ok"
  "valid_method (M_channel_open m14) \<Longrightarrow> agree (encode_channel_open m14) decode_channel_open (M_channel_open m14)"
  "valid_method (M_channel_open_ok m15) \<Longrightarrow> agree (encode_channel_open_ok m15) decode_channel_open_ok (M_channel_open_ok m15)"
  "valid_method (M_channel_flow m16) \<Longrightarrow> agree (encode_channel_flow m16) decode_channel_flow (M_channel_flow m16)"
  "valid_method (M_channel_flow_ok m17) \<Longrightarrow> agree (encode_channel_flow_ok m17) decode_channel_flow_ok (M_channel_flow_ok m17)"
  "valid_method (M_channel_close m18) \<Longrightarrow> agree (encode_channel_close m18) decode_channel_close (M_channel_close m18)"
  "agree encode_channel_close_ok decode_channel_close_ok M_channel_close_ok"
  "valid_method (M_access_request m20) \<Longrightarrow> agree (encode_access_request m20) decode_access_request (M_access_request m20)"
  "valid_method (M_access_request_ok m21) \<Longrightarrow> agree (encode_access_request_ok m21) decode_access_request_ok (M_access_request_ok m21)"
  "valid_method (M_exchange_declare m22) \<Longrightarrow> agree (encode_exchange_declare m22) decode_exchange_declare (M_exchange_declare m22)"
  "agree encode_exchange_declare_ok decode_exchange_declare_ok M_exchange_declare_ok"
  "valid_method (M_exchange_delete m24) \<Longrightarrow> agree (encode_exchange_delete m24) decode_exchange_delete (M_exchange_delete m24)"
  "agree encode_exchange_delete_ok decode_exchange_delete_ok M_exchange_delete_ok"
  "valid_method (M_exchange_bind m26) \<Longrightarrow> agree (encode_exchange_bind m26) decode_exchange_bind (M_exchange_bind m26)"
  "agree encode_exchange_bind_ok decode_exchange_bind_ok M_exchange_bind_ok"
  "valid_method (M_exchange_unbind m28) \<Longrightarrow> agree (encode_exchange_unbind m28) decode_exchange_unbind (M_exchange_unbind m28)"
  "agree encode_exchange_unbind_ok decode_exchange_unbind_ok M_exchange_unbind_ok"
  "valid_method (M_queue_declare m30) \<Longrightarrow> agree (encode_queue_declare m30) decode_queue_declare (M_queue_declare m30)"
  "valid_method (M_queue_declare_ok m31) \<Longrightarrow> agree (encode_queue_declare_ok m31) decode_queue_declare_ok (M_queue_declare_ok m31)"
  "valid_method (M_queue_bind m32) \<Longrightarrow> agree (encode_queue_bind m32) decode_queue_bind (M_queue_bind m32)"
  "agree encode_queue_bind_ok decode_queue_bind_ok M_queue_bind_ok"
  "valid_method (M_queue_purge m34) \<Longrightarrow> agree (encode_queue_purge m34) decode_queue_purge (M_queue_purge m34)"
  "valid_method (M_queue_purge_ok m35) \<Longrightarrow> agree (encode_queue_purge_ok m35) decode_queue_purge_ok (M_queue_purge_ok m35)"
  "valid_method (M_queue_delete m36) \<Longrightarrow> agree (encode_queue_delete m36) decode_queue_delete (M_queue_delete m36)"
  "valid_method (M_queue_delete_ok m37) \<Longrightarrow> agree (encode_queue_delete_ok m37) decode_queue_delete_ok (M_queue_delete_ok m37)"
  "valid_method (M_queue_unbind m38) \<Longrightarrow> agree (encode_queue_unbind m38) decode_queue_unbind (M_queue_unbind m38)"
  "agree encode_queue_unbind_ok decode_queue_unbind_ok M_queue_unbind_ok"
  "valid_method (M_basic_qos m40) \<Longrightarrow> agree (encode_basic_qos m40) decode_basic_qos (M_basic_qos m40)"
  "agree encode_basic_qos_ok decode_basic_qos_ok M_basic_qos_ok"
  "valid_method (M_basic_consume m42) \<Longrightarrow> agree (encode_basic_consume m42) decode_basic_consume (M_basic_consume m42)"
  "valid_method (M_basic_consume_ok m43) \<Longrightarrow> agree (encode_basic_consume_ok m43) decode_basic_consume_ok (M_basic_consume_ok m43)"
  "valid_method (M_basic_cancel m44) \<Longrightarrow> agree (encode_basic_cancel m44) decode_basic_cancel (M_basic_cancel m44)"
  "valid_method (M_basic_cancel_ok m45) \<Longrightarrow> agree (encode_basic_cancel_ok m45) decode_basic_cancel_ok (M_basic_cancel_ok m45)"
  "valid_method (M_basic_publish m46) \<Longrightarrow> agree (encode_basic_publish m46) decode_basic_publish (M_basic_publish m46)"
  "valid_method (M_basic_return m47) \<Longrightarrow> agree (encode_basic_return m47) decode_basic_return (M_basic_return m47)"
  "valid_method (M_basic_deliver m48) \<Longrightarrow> agree (encode_basic_deliver m48) decode_basic_deliver (M_basic_deliver m48)"
  "valid_method (M_basic_get m49) \<Longrightarrow> agree (encode_basic_get m49) decode_basic_get (M_basic_get m49)"
  "valid_method (M_basic_get_ok m50) \<Longrightarrow> agree (encode_basic_get_ok m50) decode_basic_get_ok (M_basic_get_ok m50)"
  "valid_method (M_basic_get_empty m51) \<Longrightarrow> agree (encode_basic_get_empty m51) decode_basic_get_empty (M_basic_get_empty m51)"
  "valid_method (M_basic_ack m52) \<Longrightarrow> agree (encode_basic_ack m52) decode_basic_ack (M_basic_ack m52)"
  "valid_method (M_basic_reject m53) \<Longrightarrow> agree (encode_basic_reject m53) decode_basic_reject (M_basic_reject m53)"
  "valid_method (M_basic_recover_async m54) \<Longrightarrow> agree (encode_basic_recover_async m54) decode_basic_recover_async (M_basic_recover_async m54)"
  "valid_method (M_basic_recover m55) \<Longrightarrow> agree (encode_basic_recover m55) decode_basic_recover (M_basic_recover m55)"
  "agree encode_basic_recover_ok decode_basic_recover_ok M_basic_recover_ok"
  "valid_method (M_basic_nack m57) \<Longrightarrow> agree (encode_basic_nack m57) decode_basic_nack (M_basic_nack m57)"
  "agree encode_tx_select decode_tx_select M_tx_select"
  "agree encode_tx_select_ok decode_tx_select_ok M_tx_select_ok"
  "agree encode_tx_commit decode_tx_commit M_tx_commit"
  "agree encode_tx_commit_ok decode_tx_commit_ok M_tx_commit_ok"
  "agree encode_tx_rollback decode_tx_rollback M_tx_rollback"
  "agree encode_tx_rollback_ok decode_tx_rollback_ok M_tx_rollback_ok"
  "valid_method (M_confirm_select m64) \<Longrightarrow> agree (encode_confirm_select m64) decode_confirm_select (M_confirm_select m64)"
  "agree encode_confirm_select_ok decode_confirm_select_ok M_confirm_select_ok"
  unfolding method_decoders method_encoders
  by ((rule agree_struct, simp, simp, (auto intro!: agree_intros)[1])+)

lemma agree_method:
  "valid_method m \<Longrightarrow> agree (encode_method_body m) (amqp_decode_method (method_number m)) m"
  by (cases m) (auto simp del: valid_method.simps(1-66) intro: agree_case)

section \<open>Every decoder is safe\<close>

lemma dec_sound_if [dec_sound_intros]: "dec_sound d \<Longrightarrow> dec_sound e \<Longrightarrow> dec_sound (if c then d else e)"
  by simp

lemma dec_mem_if [dec_mem_intros]: "dec_mem d \<Longrightarrow> dec_mem e \<Longrightarrow> dec_mem (if c then d else e)"
  by simp

lemma dec_sound_strings [dec_sound_intros]: "dec_sound dec_shortstr" "dec_sound dec_longstr"
  unfolding dec_shortstr_def dec_longstr_def by (intro dec_sound_intros)+

lemma dec_mem_strings [dec_mem_intros]: "dec_mem dec_shortstr" "dec_mem dec_longstr"
  unfolding dec_shortstr_def dec_longstr_def by (intro dec_mem_intros)+

lemma dec_sound_method [dec_sound_intros]: "dec_sound (amqp_decode_method n)"
  unfolding amqp_decode_method_def method_decoders by (intro dec_sound_intros)

lemma dec_mem_method [dec_mem_intros]: "dec_mem (amqp_decode_method n)"
  unfolding amqp_decode_method_def method_decoders by (intro dec_mem_intros)

text \<open>\<open>yields P d\<close>: everything \<open>d\<close> returns satisfies \<open>P\<close>.\<close>

definition yields :: "('a \<Rightarrow> bool) \<Rightarrow> 'a decoder \<Rightarrow> bool" where
  "yields P d \<longleftrightarrow> (\<forall>v s x s'. d v s = (Returns x, s') \<longrightarrow> P x)"

lemma yields_return: "P x \<Longrightarrow> yields P (dec_return x)"
  by (simp add: yields_def dec_return_def)

lemma yields_fail: "yields P (dec_fail err)"
  by (simp add: yields_def dec_fail_def)

lemma yields_bind: "(\<And>x. yields P (f x)) \<Longrightarrow> yields P (dec_bind d f)"
  unfolding yields_def dec_bind_def by (fastforce split: prod.splits dres.splits)

lemma yields_if: "(c \<Longrightarrow> yields P d) \<Longrightarrow> (\<not> c \<Longrightarrow> yields P e) \<Longrightarrow> yields P (if c then d else e)"
  by simp

lemma yields_method: "yields (\<lambda>m. method_number m = n \<and> (\<forall>k. m \<noteq> M_unknown k)) (amqp_decode_method n)"
  unfolding amqp_decode_method_def method_decoders
  by (intro yields_if yields_bind yields_return yields_fail) simp_all


section \<open>Results of encoding\<close>

lemma encode_fits:
  assumes "emits e w" and "length w \<le> length buf"
  shows "enc_result (e \<lparr>ebuf = buf, eoff = 0\<rparr>) = (Inr (length w), w @ drop (length w) buf)"
  using emits_fits [OF assms(1), of "\<lparr>ebuf = buf, eoff = 0\<rparr>"] assms(2)
  by (simp add: enc_result_def write_at_def)

lemma encode_overflow:
  assumes "emits e w" and "length buf < length w"
  shows "\<exists>err out. enc_result (e \<lparr>ebuf = buf, eoff = 0\<rparr>) = (Inl err, out)"
  using emits_overflow [OF assms(1), of "\<lparr>ebuf = buf, eoff = 0\<rparr>"] assms(2)
  by (cases "e \<lparr>ebuf = buf, eoff = 0\<rparr>") (simp add: enc_result_def)

text \<open>What an encoder has put into a buffer is decoded from the bytes it reports.\<close>

lemma encode_decode:
  assumes "agree e d x" and "enc_result (e \<lparr>ebuf = buf, eoff = 0\<rparr>) = (Inr n, out)"
    and "roomy (dheap s)" and "doff s = 0"
  shows "\<exists>s'. d \<lparr>vmem = take n out, vlen = n\<rparr> s = (Returns x, s') \<and> doff s' = n"
proof -
  obtain w where e: "emits e w" and d: "reads d w x"
    using assms(1) by (auto simp: agree_def)
  have "length w \<le> length buf"
    using encode_overflow [OF e, of buf] assms(2) by (rule_tac ccontr) auto
  from encode_fits [OF e this] assms(2) have n: "n = length w" "out = w @ drop n buf" by auto
  have "at \<lparr>vmem = take n out, vlen = n\<rparr> (doff s) w"
    by (simp add: at_def honest_def n assms(4) chunk_def)
  from readsE [OF d this assms(3)] show ?thesis
    using n assms(4) by fastforce
qed

section \<open>Properties there and back\<close>

definition has_prop :: "amqp_basic_properties_t \<Rightarrow> amqp_flags_t \<Rightarrow> bool" where
  "has_prop p flag \<longleftrightarrow> props_flags p AND flag \<noteq> 0"

text \<open>
  Flags that fit one flag word: the property flags of AMQP 0-9-1 are bits 2 to 15, bit 0
  says that another word follows.
\<close>

definition plain_flags :: "amqp_flags_t \<Rightarrow> bool" where
  "plain_flags flags \<longleftrightarrow> drop_bit 16 flags = 0 \<and> flags AND 1 = 0"

definition valid_basic_properties :: "amqp_basic_properties_t \<Rightarrow> bool" where
  "valid_basic_properties p \<longleftrightarrow>
    (has_prop p AMQP_BASIC_CONTENT_TYPE_FLAG \<longrightarrow> shortstr (amqp_basic_properties_t.content_type p)) \<and>
    (has_prop p AMQP_BASIC_CONTENT_ENCODING_FLAG \<longrightarrow> shortstr (amqp_basic_properties_t.content_encoding p)) \<and>
    (has_prop p AMQP_BASIC_HEADERS_FLAG \<longrightarrow> valid_table (amqp_basic_properties_t.headers p)) \<and>
    (has_prop p AMQP_BASIC_CORRELATION_ID_FLAG \<longrightarrow> shortstr (amqp_basic_properties_t.correlation_id p)) \<and>
    (has_prop p AMQP_BASIC_REPLY_TO_FLAG \<longrightarrow> shortstr (amqp_basic_properties_t.reply_to p)) \<and>
    (has_prop p AMQP_BASIC_EXPIRATION_FLAG \<longrightarrow> shortstr (amqp_basic_properties_t.expiration p)) \<and>
    (has_prop p AMQP_BASIC_MESSAGE_ID_FLAG \<longrightarrow> shortstr (amqp_basic_properties_t.message_id p)) \<and>
    (has_prop p AMQP_BASIC_TYPE_FLAG \<longrightarrow> shortstr (amqp_basic_properties_t.type p)) \<and>
    (has_prop p AMQP_BASIC_USER_ID_FLAG \<longrightarrow> shortstr (amqp_basic_properties_t.user_id p)) \<and>
    (has_prop p AMQP_BASIC_APP_ID_FLAG \<longrightarrow> shortstr (amqp_basic_properties_t.app_id p)) \<and>
    (has_prop p AMQP_BASIC_CLUSTER_ID_FLAG \<longrightarrow> shortstr (amqp_basic_properties_t.cluster_id p))"

text \<open>The properties of \<open>p\<close> that its flags say are present, the other members from \<open>p0\<close>.\<close>

definition present_properties ::
  "amqp_basic_properties_t \<Rightarrow> amqp_basic_properties_t \<Rightarrow> amqp_basic_properties_t" where
  "present_properties p p0 =
    \<lparr>props_flags = props_flags p,
     amqp_basic_properties_t.content_type = (if has_prop p AMQP_BASIC_CONTENT_TYPE_FLAG then amqp_basic_properties_t.content_type p else amqp_basic_properties_t.content_type p0),
     amqp_basic_properties_t.content_encoding = (if has_prop p AMQP_BASIC_CONTENT_ENCODING_FLAG then amqp_basic_properties_t.content_encoding p else amqp_basic_properties_t.content_encoding p0),
     amqp_basic_properties_t.headers = (if has_prop p AMQP_BASIC_HEADERS_FLAG then amqp_basic_properties_t.headers p else amqp_basic_properties_t.headers p0),
     amqp_basic_properties_t.delivery_mode = (if has_prop p AMQP_BASIC_DELIVERY_MODE_FLAG then amqp_basic_properties_t.delivery_mode p else amqp_basic_properties_t.delivery_mode p0),
     amqp_basic_properties_t.priority = (if has_prop p AMQP_BASIC_PRIORITY_FLAG then amqp_basic_properties_t.priority p else amqp_basic_properties_t.priority p0),
     amqp_basic_properties_t.correlation_id = (if has_prop p AMQP_BASIC_CORRELATION_ID_FLAG then amqp_basic_properties_t.correlation_id p else amqp_basic_properties_t.correlation_id p0),
     amqp_basic_properties_t.reply_to = (if has_prop p AMQP_BASIC_REPLY_TO_FLAG then amqp_basic_properties_t.reply_to p else amqp_basic_properties_t.reply_to p0),
     amqp_basic_properties_t.expiration = (if has_prop p AMQP_BASIC_EXPIRATION_FLAG then amqp_basic_properties_t.expiration p else amqp_basic_properties_t.expiration p0),
     amqp_basic_properties_t.message_id = (if has_prop p AMQP_BASIC_MESSAGE_ID_FLAG then amqp_basic_properties_t.message_id p else amqp_basic_properties_t.message_id p0),
     amqp_basic_properties_t.timestamp = (if has_prop p AMQP_BASIC_TIMESTAMP_FLAG then amqp_basic_properties_t.timestamp p else amqp_basic_properties_t.timestamp p0),
     amqp_basic_properties_t.type = (if has_prop p AMQP_BASIC_TYPE_FLAG then amqp_basic_properties_t.type p else amqp_basic_properties_t.type p0),
     amqp_basic_properties_t.user_id = (if has_prop p AMQP_BASIC_USER_ID_FLAG then amqp_basic_properties_t.user_id p else amqp_basic_properties_t.user_id p0),
     amqp_basic_properties_t.app_id = (if has_prop p AMQP_BASIC_APP_ID_FLAG then amqp_basic_properties_t.app_id p else amqp_basic_properties_t.app_id p0),
     amqp_basic_properties_t.cluster_id = (if has_prop p AMQP_BASIC_CLUSTER_ID_FLAG then amqp_basic_properties_t.cluster_id p else amqp_basic_properties_t.cluster_id p0)\<rparr>"

primrec valid_properties :: "amqp_properties_t \<Rightarrow> bool" where
  "valid_properties (P_connection f) = plain_flags f"
| "valid_properties (P_channel f) = plain_flags f"
| "valid_properties (P_access f) = plain_flags f"
| "valid_properties (P_exchange f) = plain_flags f"
| "valid_properties (P_queue f) = plain_flags f"
| "valid_properties (P_basic p) = (plain_flags (props_flags p) \<and> valid_basic_properties p)"
| "valid_properties (P_tx f) = plain_flags f"
| "valid_properties (P_confirm f) = plain_flags f"

primrec as_decoded :: "amqp_basic_properties_t \<Rightarrow> amqp_properties_t \<Rightarrow> amqp_properties_t" where
  "as_decoded p0 (P_connection f) = P_connection f"
| "as_decoded p0 (P_channel f) = P_channel f"
| "as_decoded p0 (P_access f) = P_access f"
| "as_decoded p0 (P_exchange f) = P_exchange f"
| "as_decoded p0 (P_queue f) = P_queue f"
| "as_decoded p0 (P_basic p) = P_basic (present_properties p p0)"
| "as_decoded p0 (P_tx f) = P_tx f"
| "as_decoded p0 (P_confirm f) = P_confirm f"

declare encode_flags.simps [simp del]

lemma agree_if:
  "(c \<Longrightarrow> agree e d x) \<Longrightarrow> agree (enc_if c e) (dec_if c d a) (if c then x else a)"
  using agree_return [of a a] by (simp add: enc_if_def dec_if_def)

lemma agree_optional:
  "c \<longrightarrow> shortstr x \<Longrightarrow> agree (enc_if c (enc_shortstr x)) (dec_if c dec_shortstr a) (if c then x else a)"
  "c \<longrightarrow> valid_table t \<Longrightarrow>
    agree (enc_if c (amqp_encode_table t)) (dec_if c amqp_decode_table a') (if c then t else a')"
  "agree (enc_if c (enc_8 i)) (dec_if c dec_8 j) (if c then i else j)"
  "agree (enc_if c (enc_64 k)) (dec_if c dec_64 l) (if c then k else l)"
  by (intro agree_if agree_prims agree_strings; simp)+

lemma plain_flag_word:
  assumes "plain_flags f"
  shows "(ucast (flag_word f) :: amqp_flags_t) = f" and "flag_word f AND 1 = 0"
proof -
  have "bit (drop_bit 16 f) (i - 16) \<longleftrightarrow> bit f i" if "i \<ge> 16" for i
    using that by (simp add: bit_simps)
  then have h: "\<not> bit f i" if "i \<ge> 16" for i
    using assms that by (auto simp: plain_flags_def)
  have "bit (f AND 1) 0 \<longleftrightarrow> bit f 0" by (simp add: bit_simps)
  then have l: "\<not> bit f 0"
    using assms by (simp add: plain_flags_def)
  have m: "bit (0xFFFE :: u32) i \<longleftrightarrow> 0 < i \<and> i < 16" for i
  proof -
    have e: "(0xFFFE :: u32) = push_bit 1 (mask 15)" by (simp add: mask_eq_exp_minus_1 push_bit_eq_mult)
    show ?thesis unfolding e by (simp only: bit_push_bit_iff bit_mask_iff) auto
  qed
  have w: "flag_word f = ucast (f AND 0xFFFE)"
    using assms by (simp add: flag_word_def plain_flags_def)
  have b: "bit (flag_word f) i \<longleftrightarrow> i < 16 \<and> 0 < i \<and> bit f i" for i
    unfolding w by (simp only: bit_unsigned_iff bit_and_iff m) auto
  have b': "bit f i \<Longrightarrow> i < 16 \<and> 0 < i" for i
    using h [of i] l by (cases "i = 0"; cases "i < 16") auto
  show "(ucast (flag_word f) :: amqp_flags_t) = f"
    using b' by (intro bit_word_eqI) (auto simp: bit_simps b)
  show "flag_word f AND 1 = 0"
    by (rule bit_word_eqI) (auto simp: bit_simps b)
qed

lemma agree_flags:
  assumes "plain_flags f"
  shows "agree (enc_16 (flag_word f)) decode_flag_words f"
proof -
  have "reads decode_flag_words (w16 (flag_word f) @ []) f"
    unfolding decode_flag_words_def numeral_3_eq_3 decode_flags.simps
    using plain_flag_word [OF assms]
    by (intro reads_bind [OF reads_16]) (simp add: reads_return)
  moreover have "emits (enc_16 (flag_word f)) (w16 (flag_word f))" by (simp add: codec_emits)
  ultimately show ?thesis unfolding agree_def by auto
qed

lemma agree_basic_properties:
  assumes "valid_basic_properties p"
  shows "agree (encode_basic_properties p) (decode_basic_properties p0 (props_flags p))
    (P_basic (present_properties p p0))"
  unfolding decode_basic_properties_def encode_basic_properties_def Let_def
  by (rule agree_struct, simp, simp,
      (rule agree_bind, ((rule agree_optional(1,2),
        simp add: assms [unfolded valid_basic_properties_def has_prop_def]) | rule agree_optional(3,4)))+,
      rule agree_return)
    (simp add: has_prop_def present_properties_def split del: if_split)

lemma agree_flags_only: "agree (enc_seqs []) (dec_flags_only P f) (P f)"
  unfolding dec_flags_only_def by (rule agree_struct) (auto intro: agree_intros)

lemma enc_seqs_single: "enc_seqs [e] = e"
  by (rule ext) (simp add: enc_seqs.simps split: prod.split)

lemma agree_properties:
  assumes "valid_properties p"
  shows "agree (enc_seqs (encode_flags (properties_flags p) @ [encode_properties_body p]))
    (amqp_decode_properties p0 (properties_class p)) (as_decoded p0 p)"
proof -
  have pf: "plain_flags (properties_flags p)" using assms by (cases p) auto
  then have fl: "encode_flags (properties_flags p) = [enc_16 (flag_word (properties_flags p))]"
    by (subst encode_flags.simps) (simp add: plain_flags_def)
  have body: "agree (enc_seqs [encode_properties_body p])
      (decode_class_properties p0 (properties_class p) (properties_flags p)) (as_decoded p0 p)"
    using assms
    by (cases p) (simp_all add: enc_seqs_single decode_class_properties_def agree_flags_only agree_basic_properties)
  show ?thesis
    unfolding amqp_decode_properties_def fl append_Cons append_Nil
    by (rule agree_bind, rule agree_flags [OF pf], rule body)
qed

lemma dec_mem_undefined [dec_mem_intros]: "dec_mem (\<lambda>v s. (Undefined, s))"
  by (rule dec_memI) (auto simp: mem_step_def contents_kept_same)

lemma dec_mem_flags: "dec_mem (decode_flags n i f)"
  by (induction n arbitrary: i f) (auto simp: Let_def intro!: dec_mem_intros)

lemma dec_mem_basic_if [dec_mem_intros]: "dec_mem d \<Longrightarrow> dec_mem (dec_if c d a)"
  unfolding dec_if_def by (intro dec_mem_intros)

lemma dec_mem_properties [dec_mem_intros]: "dec_mem (amqp_decode_properties p0 cls)"
  unfolding amqp_decode_properties_def decode_flag_words_def decode_class_properties_def dec_flags_only_def decode_basic_properties_def
  by (intro dec_mem_intros dec_mem_flags)

text \<open>
  The decoder of properties is safe except for shifts that are not defined: a second flag word
  with its highest bit set, or a third one.
\<close>

definition bad_flag_words :: "amqp_view \<Rightarrow> nat \<Rightarrow> bool" where
  "bad_flag_words v off \<longleftrightarrow>
    (\<exists>w1 w2. at v off (w16 w1) \<and> w1 AND 1 \<noteq> 0 \<and> at v (off + 2) (w16 w2) \<and>
      (0x8000 \<le> w2 \<or> (w2 AND 1 \<noteq> 0 \<and> (\<exists>w3. at v (off + 4) (w16 w3)))))"

lemma dec_16_cases:
  assumes "honest v"
  obtains x where "at v (doff s) (w16 x)" "dec_16 v s = (Returns x, s\<lparr>doff := doff s + 2\<rparr>)"
  | "vlen v < doff s + 2" "dec_16 v s = (Fails BAD, s\<lparr>doff := doff s + 2\<rparr>)"
proof (cases "amqp_decode_16 v (doff s)")
  case (Pair p off)
  then have off: "off = doff s + 2" by (auto simp: amqp_decode_16_def amqp_decode_base_def)
  show thesis
  proof (cases p)
    case (Got x)
    have "at v (doff s) (amqp_e16 is_bigendian x)"
      using codec16.decode_Got [OF _ assms, of is_bigendian "doff s" x off] Pair Got
      by (simp add: amqp_decode_16_def)
    then have "at v (doff s) (w16 x)" by (simp add: amqp_e16_be w16_def)
    then show thesis using that(1) Pair Got off by (simp add: dec_check_def)
  next
    case Short
    then show thesis
      using that(2) Pair off by (auto simp: dec_check_def amqp_decode_16_def amqp_decode_base_def split: if_splits)
  next
    case Overrun
    then show thesis
      using assms Pair by (auto simp: amqp_decode_16_def amqp_decode_base_def honest_def split: if_splits)
  qed
qed

lemma w16_at_inj: "at v off (w16 x) \<Longrightarrow> at v off (w16 y) \<Longrightarrow> x = y"
  using codec16.d_e [of is_bigendian] by (metis amqp_e16_be at_def length_wire(2) w16_def)

lemma at_vlen: "at v off w \<Longrightarrow> off + length w \<le> vlen v"
  by (simp add: at_def)

lemma bad_flag_words_first:
  assumes "at v off (w16 w1)"
  shows "bad_flag_words v off \<longleftrightarrow> w1 AND 1 \<noteq> 0 \<and>
    (\<exists>w2. at v (off + 2) (w16 w2) \<and> (0x8000 \<le> w2 \<or> (w2 AND 1 \<noteq> 0 \<and> (\<exists>w3. at v (off + 4) (w16 w3)))))"
proof -
  have first: "at v off (w16 x) \<longleftrightarrow> x = w1" for x
    using w16_at_inj [OF assms, of x] assms by auto
  show ?thesis unfolding bad_flag_words_def first by auto
qed

lemma decode_flag_words_undefined:
  assumes v: "honest v"
  shows "fst (decode_flag_words v s) = Undefined \<longleftrightarrow> bad_flag_words v (doff s)"
    and "fst (decode_flag_words v s) \<noteq> OutOfFuel" and "doff s \<le> doff (snd (decode_flag_words v s))"
proof -
  have "(fst (decode_flag_words v s) = Undefined \<longleftrightarrow> bad_flag_words v (doff s)) \<and>
      fst (decode_flag_words v s) \<noteq> OutOfFuel \<and> doff s \<le> doff (snd (decode_flag_words v s))"
  proof (cases rule: dec_16_cases [OF v, of s])
    case 2
    then have "\<not> at v (doff s) (w16 w)" for w by (auto dest: at_vlen)
    with 2 show ?thesis by (simp add: decode_flag_words_def numeral_3_eq_3 dec_bind_def bad_flag_words_def)
  next
    case (1 w1)
    note bad = bad_flag_words_first [OF 1(1)]
    show ?thesis
    proof (cases "w1 AND 1 = 0")
      case True
      then show ?thesis
        using 1 bad by (simp add: decode_flag_words_def numeral_3_eq_3 dec_bind_def dec_return_def)
    next
      case w1: False
      let ?s = "s\<lparr>doff := doff s + 2\<rparr>"
      show ?thesis
      proof (cases rule: dec_16_cases [OF v, of ?s])
        case 2
        then have "\<not> at v (doff s + 2) (w16 w)" for w by (auto dest: at_vlen)
        with 1 2 w1 bad show ?thesis by (simp add: decode_flag_words_def numeral_3_eq_3 dec_bind_def Let_def)
      next
        case (1 w2)
        have bad2: "bad_flag_words v (doff s) \<longleftrightarrow> 0x8000 \<le> w2 \<or> (w2 AND 1 \<noteq> 0 \<and> (\<exists>w3. at v (doff s + 4) (w16 w3)))"
        proof -
          have "at v (doff s + 2) (w16 x) \<longleftrightarrow> x = w2" for x using w16_at_inj [OF 1(1), of x] 1(1) by auto
          with bad w1 show ?thesis by simp
        qed
        consider (big) "\<not> w2 < 0x8000" | (last) "w2 < 0x8000" "w2 AND 1 = 0" | (more) "w2 < 0x8000" "w2 AND 1 \<noteq> 0" by blast
        then show ?thesis
        proof cases
          case big
          then show ?thesis
            using 1 \<open>dec_16 v s = _\<close> w1 bad2
            by (simp add: decode_flag_words_def numeral_3_eq_3 dec_bind_def Let_def not_less)
        next
          case last
          then show ?thesis
            using 1 \<open>dec_16 v s = _\<close> w1 bad2
            by (simp add: decode_flag_words_def numeral_3_eq_3 dec_bind_def dec_return_def Let_def not_le)
        next
          case w2: more
          let ?t = "?s\<lparr>doff := doff ?s + 2\<rparr>"
          show ?thesis
          proof (cases rule: dec_16_cases [OF v, of ?t])
            case 2
            then have "\<not> at v (doff s + 4) (w16 w)" for w by (auto dest: at_vlen)
            with 1 2 \<open>dec_16 v s = _\<close> w1 w2 bad2 show ?thesis
              by (simp add: decode_flag_words_def numeral_3_eq_3 dec_bind_def Let_def not_le)
          next
            case (1 w3)
            then have "\<exists>w3. at v (doff s + 4) (w16 w3)" by (auto simp: eval_nat_numeral)
            with 1 \<open>dec_16 v s = _\<close> \<open>dec_16 v ?s = _\<close> w1 w2 bad2 show ?thesis
              by (simp add: decode_flag_words_def numeral_3_eq_3 dec_bind_def Let_def not_le)
          qed
        qed
      qed
    qed
  qed
  then show "fst (decode_flag_words v s) = Undefined \<longleftrightarrow> bad_flag_words v (doff s)"
    and "fst (decode_flag_words v s) \<noteq> OutOfFuel" and "doff s \<le> doff (snd (decode_flag_words v s))"
    by auto
qed

lemma dec_sound_basic_if [dec_sound_intros]: "dec_sound d \<Longrightarrow> dec_sound (dec_if c d a)"
  unfolding dec_if_def by (intro dec_sound_intros)

lemma dec_sound_class [dec_sound_intros]: "dec_sound (decode_class_properties p0 cls flags)"
  unfolding decode_class_properties_def dec_flags_only_def decode_basic_properties_def
  by (intro dec_sound_intros)

lemma properties_undefined:
  assumes v: "honest v"
  shows "fst (amqp_decode_properties p0 cls v s) = Undefined \<longleftrightarrow> bad_flag_words v (doff s)"
    and "fst (amqp_decode_properties p0 cls v s) \<noteq> OutOfFuel"
proof -
  note fw = decode_flag_words_undefined [OF v, of s]
  have "(fst (amqp_decode_properties p0 cls v s) = Undefined \<longleftrightarrow> bad_flag_words v (doff s)) \<and>
      fst (amqp_decode_properties p0 cls v s) \<noteq> OutOfFuel"
  proof (cases "decode_flag_words v s")
    case (Pair r s1)
    show ?thesis
    proof (cases r)
      case (Returns flags)
      obtain r2 s2 where 2: "decode_class_properties p0 cls flags v s1 = (r2, s2)" by fastforce
      with dec_soundD(1,2) [OF dec_sound_class v 2] fw Pair Returns show ?thesis
        by (simp add: amqp_decode_properties_def dec_bind_def)
    qed (use Pair fw in \<open>simp_all add: amqp_decode_properties_def dec_bind_def\<close>)
  qed
  then show "fst (amqp_decode_properties p0 cls v s) = Undefined \<longleftrightarrow> bad_flag_words v (doff s)"
    and "fst (amqp_decode_properties p0 cls v s) \<noteq> OutOfFuel" by auto
qed

end
