(* ===== verification/Amqp_Input.thy ===== *)
theory Amqp_Input
  imports Amqp_State Amqp_Framing
begin

text \<open>
  Input of a connection (\<open>amqp_handle_input\<close> of \<open>amqp_connection.c\<close>): the state machine
  that collects the bytes of a frame header, then of the frame, and decodes the frame;
  and the release of the buffers of a channel.
\<close>

section \<open>Collecting bytes\<close>

definition return_to_idle :: "amqp_connection_state_t \<Rightarrow> amqp_connection_state_t" where
  "return_to_idle c =
    c\<lparr>inbound_buffer := In_header_buffer, inbound_offset := 0, target_size := HEADER_SIZE,
      state := CONNECTION_STATE_IDLE\<rparr>"

text \<open>
  \<open>consume_data\<close> copies what is available and wanted; the result is the number of bytes
  and the rest of the data.  \<open>None\<close> is a copy outside the memory of the buffer.
\<close>

definition consume_data ::
  "amqp_connection_state_t \<Rightarrow> byte list \<Rightarrow> heap \<Rightarrow>
    (nat \<times> byte list \<times> amqp_connection_state_t \<times> heap) option" where
  "consume_data c data h =
    (let n = min (length data) (size_t_sub (target_size c) (inbound_offset c));
         off = inbound_offset c; new = take n data; rest = drop n data
     in case inbound_buffer c of
          In_header_buffer \<Rightarrow>
            if off + n \<le> length (header_buffer c)
            then Some (n, rest,
              c\<lparr>header_buffer := write_at (header_buffer c) off new, inbound_offset := off + n\<rparr>, h)
            else None
        | In_pool (b, base) \<Rightarrow>
            if base + off + n \<le> length (content h b)
            then Some (n, rest, c\<lparr>inbound_offset := off + n\<rparr>,
              h\<lparr>content := (content h)(b := write_at (content h b) (base + off) new)\<rparr>)
            else None
        | In_null \<Rightarrow> if n = 0 then Some (n, rest, c, h) else None)"

section \<open>Decoding a complete frame\<close>

text \<open>
  Results carry the number of bytes consumed, the connection, the heap and the frame
  passed by the caller, which is filled in step by step.  When a payload is not decoded,
  the payload member of the frame is left as it was.
\<close>

type_synonym input_result =
  "nat dres \<times> amqp_connection_state_t \<times> heap \<times> amqp_frame_t"

text \<open>
  \<open>decode_payload\<close>: a decoder run on the pool of the frame's channel.  \<open>wrap\<close> makes the
  payload of its value.
\<close>

definition decode_payload ::
  "'a decoder \<Rightarrow> ('a \<Rightarrow> amqp_payload_t) \<Rightarrow> amqp_view \<Rightarrow> amqp_pool_t \<Rightarrow> nat \<Rightarrow>
    amqp_connection_state_t \<Rightarrow> heap \<Rightarrow> amqp_frame_t \<Rightarrow> input_result" where
  "decode_payload d wrap encoded pool bytes_consumed c h f =
    (case d encoded \<lparr>doff = 0, dpool = pool, dheap = h\<rparr> of (r, s) \<Rightarrow>
      let c' = set_channel_pool (channel f) (dpool s) c; h' = dheap s in
      case r of
        Returns x \<Rightarrow> (Returns bytes_consumed, return_to_idle c', h', f\<lparr>payload := wrap x\<rparr>)
      | Fails err \<Rightarrow> (Fails err, c', h', f)
      | Undefined \<Rightarrow> (Undefined, c', h', f)
      | OutOfFuel \<Rightarrow> (OutOfFuel, c', h', f))"

text \<open>
  The memory of the frame is the allocation of \<open>target_size\<close> bytes; its payload starts
  after the header.  \<open>encoded.len\<close> is computed in \<open>size_t\<close>, so it wraps around for
  payloads that are too short.
\<close>

definition decode_method_frame ::
  "byte list \<Rightarrow> amqp_pool_t \<Rightarrow> nat \<Rightarrow> amqp_connection_state_t \<Rightarrow> heap \<Rightarrow> amqp_frame_t \<Rightarrow> input_result" where
  "decode_method_frame raw pool n c h f =
    (if length raw < HEADER_SIZE + 4 then (Undefined, c, h, f)
     else decode_payload
       (amqp_decode_method (amqp_d32 is_bigendian (chunk HEADER_SIZE 4 raw))) Method_payload
       \<lparr>vmem = drop (HEADER_SIZE + 4) raw,
        vlen = size_t_sub (target_size c) (HEADER_SIZE + 4 + FOOTER_SIZE)\<rparr> pool n c h f)"

definition decode_header_frame ::
  "amqp_basic_properties_t \<Rightarrow> byte list \<Rightarrow> amqp_pool_t \<Rightarrow> nat \<Rightarrow> amqp_connection_state_t \<Rightarrow> heap \<Rightarrow>
    amqp_frame_t \<Rightarrow> input_result" where
  "decode_header_frame p0 raw pool n c h f =
    (if length raw < HEADER_SIZE + 12 then (Undefined, c, h, f)
     else let cls = amqp_d16 is_bigendian (chunk HEADER_SIZE 2 raw);
              body_size = amqp_d64 is_bigendian (chunk (HEADER_SIZE + 4) 8 raw);
              encoded = \<lparr>vmem = drop (HEADER_SIZE + 12) raw,
                         vlen = size_t_sub (target_size c) (HEADER_SIZE + 12 + FOOTER_SIZE)\<rparr>
       in decode_payload (amqp_decode_properties p0 cls)
         (\<lambda>p. Properties_payload cls body_size p (take (vlen encoded) (vmem encoded)))
         encoded pool n c h f)"

text \<open>The \<open>switch\<close> over the type of the frame.\<close>

definition decode_raw_frame ::
  "amqp_basic_properties_t \<Rightarrow> byte list \<Rightarrow> amqp_pool_t \<Rightarrow> nat \<Rightarrow> amqp_connection_state_t \<Rightarrow> heap \<Rightarrow>
    amqp_frame_t \<Rightarrow> input_result" where
  "decode_raw_frame p0 raw pool n c h f =
    (let ty = uint (frame_type f) in
     if ty = AMQP_FRAME_METHOD then decode_method_frame raw pool n c h f
     else if ty = AMQP_FRAME_HEADER then decode_header_frame p0 raw pool n c h f
     else if ty = AMQP_FRAME_BODY
       then (Returns n, return_to_idle c, h,
         f\<lparr>payload := Body_payload (chunk HEADER_SIZE (target_size c - HEADER_SIZE - FOOTER_SIZE) raw)\<rparr>)
     else if ty = AMQP_FRAME_HEARTBEAT then (Returns n, return_to_idle c, h, f)
     else (Returns n, return_to_idle c, h, f\<lparr>frame_type := 0\<rparr>))"

definition handle_body ::
  "amqp_basic_properties_t \<Rightarrow> nat \<Rightarrow> amqp_connection_state_t \<Rightarrow> heap \<Rightarrow> amqp_frame_t \<Rightarrow> input_result" where
  "handle_body p0 bytes_consumed c h f =
    (case inbound_buffer c of
       In_pool (b, base) \<Rightarrow>
         let raw = chunk base (target_size c) (content h b) in
         if uint (amqp_d8 is_bigendian (chunk (target_size c - 1) 1 raw)) \<noteq> AMQP_FRAME_END
         then (Fails AMQP_STATUS_BAD_AMQP_DATA, c, h, f)
         else
           let f1 = f\<lparr>frame_type := amqp_d8 is_bigendian (chunk 0 1 raw),
                       channel := amqp_d16 is_bigendian (chunk 1 2 raw)\<rparr> in
           (case amqp_get_or_create_channel_pool c (channel f1) h of
              (None, c1, h1) \<Rightarrow> (Fails AMQP_STATUS_NO_MEMORY, c1, h1, f1)
            | (Some pool, c1, h1) \<Rightarrow> decode_raw_frame p0 raw pool bytes_consumed c1 h1 f1)
     | _ \<Rightarrow> (Undefined, c, h, f))"

section \<open>A complete header\<close>

definition INT32_MAX :: nat where "INT32_MAX = 0x7FFFFFFF"

text \<open>
  The case \<open>CONNECTION_STATE_HEADER\<close>.  \<open>open_frame\<close> is its first half: the buffer of the
  frame is allocated from the pool of its channel and the header is copied into it; the
  status is that of an early return.  \<open>collect_body\<close> is the second half: the collecting
  goes on with the rest of the data, up to the complete frame.
\<close>

definition open_frame ::
  "amqp_connection_state_t \<Rightarrow> heap \<Rightarrow> amqp_status_enum option \<times> amqp_connection_state_t \<times> heap" where
  "open_frame c h =
    (let raw = header_buffer c;
         ch = amqp_d16 is_bigendian (chunk 1 2 raw);
         frame_size = unat (amqp_d32 is_bigendian (chunk 3 4 raw)) in
     if frame_size \<ge> INT32_MAX then (Some AMQP_STATUS_BAD_AMQP_DATA, c, h)
     else let c1 = c\<lparr>target_size := frame_size + HEADER_SIZE + FOOTER_SIZE\<rparr> in
     if size_t_of_int (frame_max c1) < target_size c1 then (Some AMQP_STATUS_BAD_AMQP_DATA, c1, h)
     else case amqp_get_or_create_channel_pool c1 ch h of
       (None, c2, h2) \<Rightarrow> (Some AMQP_STATUS_NO_MEMORY, c2, h2)
     | (Some pool, c2, h2) \<Rightarrow>
         (case amqp_pool_alloc_bytes pool (target_size c2) h2 of
            ((_, None), pool3, h3) \<Rightarrow>
              (Some AMQP_STATUS_NO_MEMORY, (set_channel_pool ch pool3 c2)\<lparr>inbound_buffer := In_null\<rparr>, h3)
          | ((_, Some (b, base)), pool3, h3) \<Rightarrow>
              (None,
               (set_channel_pool ch pool3 c2)
                 \<lparr>inbound_buffer := In_pool (b, base), state := CONNECTION_STATE_BODY\<rparr>,
               h3\<lparr>content := (content h3)
                 (b := write_at (content h3 b) base (take HEADER_SIZE (header_buffer c2)))\<rparr>)))"

definition collect_body ::
  "amqp_basic_properties_t \<Rightarrow> nat \<Rightarrow> byte list \<Rightarrow> amqp_connection_state_t \<Rightarrow> heap \<Rightarrow> amqp_frame_t \<Rightarrow>
    input_result" where
  "collect_body p0 bytes_consumed received_data c h f =
    (case consume_data c received_data h of
       None \<Rightarrow> (Undefined, c, h, f)
     | Some (m, _, c', h') \<Rightarrow>
         if inbound_offset c' < target_size c' then (Returns (bytes_consumed + m), c', h', f)
         else handle_body p0 (bytes_consumed + m) c' h' f)"

definition handle_header ::
  "amqp_basic_properties_t \<Rightarrow> nat \<Rightarrow> byte list \<Rightarrow> amqp_connection_state_t \<Rightarrow> heap \<Rightarrow> amqp_frame_t \<Rightarrow>
    input_result" where
  "handle_header p0 bytes_consumed received_data c h f =
    (case open_frame c h of
       (Some err, c', h') \<Rightarrow> (Fails err, c', h', f)
     | (None, c', h') \<Rightarrow> collect_body p0 bytes_consumed received_data c' h' f)"

text \<open>The case \<open>CONNECTION_STATE_INITIAL\<close>: a protocol header or the header of a first frame.\<close>

definition AMQP_magic :: "byte list" where
  "AMQP_magic = map of_char ''AMQP''"

definition handle_initial ::
  "amqp_basic_properties_t \<Rightarrow> nat \<Rightarrow> byte list \<Rightarrow> amqp_connection_state_t \<Rightarrow> heap \<Rightarrow> amqp_frame_t \<Rightarrow>
    input_result" where
  "handle_initial p0 bytes_consumed received_data c h f =
    (let raw = header_buffer c; d8 = (\<lambda>i. amqp_d8 is_bigendian (chunk i 1 raw)) in
     if chunk 0 4 raw = AMQP_magic
     then (Returns bytes_consumed, return_to_idle c, h,
       f\<lparr>frame_type := word_of_int AMQP_PSEUDOFRAME_PROTOCOL_HEADER, channel := 0,
         payload := Protocol_header_payload (d8 4) (d8 5) (d8 6) (d8 7)\<rparr>)
     else handle_header p0 bytes_consumed received_data c h f)"

section \<open>The state machine\<close>

definition amqp_handle_input ::
  "amqp_basic_properties_t \<Rightarrow> amqp_connection_state_t \<Rightarrow> byte list \<Rightarrow> heap \<Rightarrow> amqp_frame_t \<Rightarrow>
    input_result" where
  "amqp_handle_input p0 c received_data h decoded_frame =
    (let f = decoded_frame\<lparr>frame_type := 0\<rparr> in
     if received_data = [] then (Returns 0, c, h, f)
     else let c1 = (if state c = CONNECTION_STATE_IDLE then c\<lparr>state := CONNECTION_STATE_HEADER\<rparr> else c) in
     case consume_data c1 received_data h of
       None \<Rightarrow> (Undefined, c1, h, f)
     | Some (n, rest, c2, h2) \<Rightarrow>
         if inbound_offset c2 < target_size c2 then (Returns n, c2, h2, f)
         else case state c2 of
           CONNECTION_STATE_INITIAL \<Rightarrow> handle_initial p0 n rest c2 h2 f
         | CONNECTION_STATE_HEADER \<Rightarrow> handle_header p0 n rest c2 h2 f
         | CONNECTION_STATE_BODY \<Rightarrow> handle_body p0 n c2 h2 f
         | CONNECTION_STATE_IDLE \<Rightarrow> (Undefined, c2, h2, f))"

text \<open>\<open>CONNECTION_STATE_IDLE\<close> is left before the \<open>switch\<close>, whose \<open>default\<close> is not reached.\<close>

section \<open>Releasing buffers\<close>

definition amqp_release_buffers_ok :: "amqp_connection_state_t \<Rightarrow> bool" where
  "amqp_release_buffers_ok c \<longleftrightarrow> state c = CONNECTION_STATE_IDLE"

definition amqp_maybe_release_buffers_on_channel ::
  "amqp_connection_state_t \<Rightarrow> amqp_channel_t \<Rightarrow> heap \<Rightarrow> amqp_connection_state_t \<times> heap" where
  "amqp_maybe_release_buffers_on_channel c ch h =
    (if state c \<noteq> CONNECTION_STATE_IDLE then (c, h)
     else if (\<exists>f \<in> set (first_queued_frame c). channel f = ch) then (c, h)
     else case amqp_get_channel_pool c ch of
       None \<Rightarrow> (c, h)
     | Some pool \<Rightarrow> (case recycle_amqp_pool pool h of (pool', h') \<Rightarrow> (set_channel_pool ch pool' c, h')))"

text \<open>
  \<open>amqp_release_buffers\<close> goes through the entries of the table; releasing a channel
  changes no channel number.  \<open>None\<close> is the abort of \<open>ENFORCE_STATE\<close>.
\<close>

fun release_channels ::
  "amqp_channel_t list \<Rightarrow> amqp_connection_state_t \<Rightarrow> heap \<Rightarrow> amqp_connection_state_t \<times> heap" where
  "release_channels [] c h = (c, h)"
| "release_channels (ch # chs) c h =
    (case amqp_maybe_release_buffers_on_channel c ch h of (c', h') \<Rightarrow> release_channels chs c' h')"

definition amqp_release_buffers ::
  "amqp_connection_state_t \<Rightarrow> heap \<Rightarrow> (amqp_connection_state_t \<times> heap) option" where
  "amqp_release_buffers c h =
    (if state c \<noteq> CONNECTION_STATE_IDLE then None
     else Some (release_channels (map entry_channel (concat (pool_table c))) c h))"

definition amqp_maybe_release_buffers ::
  "amqp_connection_state_t \<Rightarrow> heap \<Rightarrow> (amqp_connection_state_t \<times> heap) option" where
  "amqp_maybe_release_buffers c h =
    (if amqp_release_buffers_ok c then amqp_release_buffers c h else Some (c, h))"

end
