(* ===== verification/Input_Machine.thy ===== *)
theory Input_Machine
  imports Amqp_Input Amqp_Pools
begin

text \<open>
  What \<open>amqp_handle_input\<close> promises: it keeps the invariant \<open>input_ok\<close> of the connection,
  it takes all data it is given unless a frame is complete, and the pieces in which data
  arrives do not matter (\<open>feed_concat\<close>).
\<close>

section \<open>The invariant\<close>

text \<open>The size field of a frame, and the size of the whole frame.\<close>

definition frame_size :: "byte list \<Rightarrow> nat" where
  "frame_size raw = unat (amqp_d32 is_bigendian (chunk 3 4 raw))"

definition frame_total :: "byte list \<Rightarrow> nat" where
  "frame_total raw = frame_size raw + HEADER_SIZE + FOOTER_SIZE"

text \<open>\<open>size_ok fm raw\<close>: a connection with this \<open>frame_max\<close> accepts the frame.\<close>

definition size_ok :: "int \<Rightarrow> byte list \<Rightarrow> bool" where
  "size_ok fm raw \<longleftrightarrow> frame_size raw < INT32_MAX \<and> frame_total raw \<le> size_t_of_int fm"

text \<open>A frame that is being collected lies in a block of its own and has the announced size.\<close>

definition own_buffer :: "amqp_connection_state_t \<Rightarrow> heap \<Rightarrow> bool" where
  "own_buffer c h \<longleftrightarrow> (\<exists>b base. inbound_buffer c = In_pool (b, base) \<and> data_block c h b \<and>
     base + target_size c \<le> length (content h b) \<and>
     target_size c = frame_total (chunk base HEADER_SIZE (content h b)) \<and>
     size_ok (frame_max c) (chunk base HEADER_SIZE (content h b)))"

definition base_ok :: "amqp_connection_state_t \<Rightarrow> heap \<Rightarrow> bool" where
  "base_ok c h \<longleftrightarrow> pools_ok c h \<and> length (header_buffer c) = 8"

definition input_ok :: "amqp_connection_state_t \<Rightarrow> heap \<Rightarrow> bool" where
  "input_ok c h \<longleftrightarrow> base_ok c h \<and> inbound_offset c < target_size c \<and>
     (case state c of
        CONNECTION_STATE_IDLE \<Rightarrow>
          inbound_buffer c = In_header_buffer \<and> inbound_offset c = 0 \<and> target_size c = HEADER_SIZE
      | CONNECTION_STATE_INITIAL \<Rightarrow> inbound_buffer c = In_header_buffer \<and> target_size c = 8
      | CONNECTION_STATE_HEADER \<Rightarrow> inbound_buffer c = In_header_buffer \<and> target_size c = HEADER_SIZE
      | CONNECTION_STATE_BODY \<Rightarrow> HEADER_SIZE \<le> inbound_offset c \<and> own_buffer c h)"

lemma input_okD:
  assumes "input_ok c h"
  shows "base_ok c h" and "pools_ok c h" and "length (header_buffer c) = 8"
    and "inbound_offset c < target_size c"
  using assms by (auto simp: input_ok_def base_ok_def)

section \<open>Collecting bytes\<close>

text \<open>What is wanted fits into the buffer.\<close>

definition room :: "amqp_connection_state_t \<Rightarrow> heap \<Rightarrow> bool" where
  "room c h \<longleftrightarrow> inbound_offset c \<le> target_size c \<and>
    (case inbound_buffer c of
       In_header_buffer \<Rightarrow> target_size c \<le> length (header_buffer c)
     | In_pool (b, base) \<Rightarrow> base + target_size c \<le> length (content h b)
     | In_null \<Rightarrow> False)"

lemma input_ok_room: "input_ok c h \<Longrightarrow> room c h"
  by (auto simp: input_ok_def base_ok_def room_def own_buffer_def frame_sizes
      split: amqp_connection_state_enum.splits)

text \<open>\<open>fill c new h\<close>: the state after the bytes \<open>new\<close> went into the buffer.\<close>

definition fill :: "amqp_connection_state_t \<Rightarrow> byte list \<Rightarrow> amqp_connection_state_t" where
  "fill c new = c\<lparr>inbound_offset := inbound_offset c + length new,
     header_buffer := (if inbound_buffer c = In_header_buffer
       then write_at (header_buffer c) (inbound_offset c) new else header_buffer c)\<rparr>"

definition fill_heap :: "amqp_connection_state_t \<Rightarrow> byte list \<Rightarrow> heap \<Rightarrow> heap" where
  "fill_heap c new h = (case inbound_buffer c of
     In_pool (b, base) \<Rightarrow>
       h\<lparr>content := (content h)(b := write_at (content h b) (base + inbound_offset c) new)\<rparr>
   | _ \<Rightarrow> h)"

lemma consume_room:
  assumes "room c h" and n: "n = min (length d) (target_size c - inbound_offset c)"
  shows "consume_data c d h = Some (n, drop n d, fill c (take n d), fill_heap c (take n d) h)"
  using assms
  by (auto simp: consume_data_def room_def fill_def fill_heap_def size_t_sub_def Let_def
      split: inbound_t.splits)

lemma fill_simps [simp]:
  "state (fill c w) = state c" "target_size (fill c w) = target_size c"
  "inbound_offset (fill c w) = inbound_offset c + length w"
  "inbound_buffer (fill c w) = inbound_buffer c" "pool_table (fill c w) = pool_table c"
  "frame_max (fill c w) = frame_max c" "first_queued_frame (fill c w) = first_queued_frame c"
  "fails (fill_heap c w h) = fails h" "live (fill_heap c w h) = live h"
  by (simp_all add: fill_def fill_heap_def split: inbound_t.splits)

lemma fill_pool [simp]: "amqp_get_channel_pool (fill c w) ch = amqp_get_channel_pool c ch"
  by (simp add: amqp_get_channel_pool_def)

lemma fill_append:
  assumes "room c h" and "inbound_offset c + length w1 + length w2 \<le> target_size c"
  shows "fill (fill c w1) w2 = fill c (w1 @ w2)"
    and "fill_heap (fill c w1) w2 (fill_heap c w1 h) = fill_heap c (w1 @ w2) h"
proof -
  show "fill (fill c w1) w2 = fill c (w1 @ w2)"
    using assms write_at_append [of "inbound_offset c" w1 w2 "header_buffer c"]
    by (auto simp: fill_def room_def add.assoc)
  show "fill_heap (fill c w1) w2 (fill_heap c w1 h) = fill_heap c (w1 @ w2) h"
  proof (cases "inbound_buffer c")
    case (In_pool a)
    obtain b base where "a = (b, base)" by fastforce
    with assms In_pool write_at_append [of "base + inbound_offset c" w1 w2 "content h b"] show ?thesis
      by (auto simp: fill_heap_def room_def add.assoc)
  qed (use assms in \<open>simp_all add: fill_heap_def\<close>)
qed

lemma room_fill:
  assumes "room c h" and "inbound_offset c + length w \<le> target_size c"
  shows "room (fill c w) (fill_heap c w h)"
  using assms by (auto simp: room_def fill_def fill_heap_def split: inbound_t.splits)

lemma update_same_entry:
  "find (\<lambda>e. entry_channel e = ch) es = Some e \<Longrightarrow> update_entry ch (entry_pool e) es = es"
  by (induction es) (auto split: if_splits)

lemma set_same_pool:
  "amqp_get_channel_pool c ch = Some pool \<Longrightarrow> set_channel_pool ch pool c = c"
  by (auto simp: amqp_get_channel_pool_def set_channel_pool_def update_same_entry)

lemma fill_ok:
  assumes b: "base_ok c h" and s: "state c = CONNECTION_STATE_BODY" and o: "own_buffer c h"
    and le: "HEADER_SIZE \<le> inbound_offset c" "inbound_offset c + length w \<le> target_size c"
  shows "base_ok (fill c w) (fill_heap c w h)" and "own_buffer (fill c w) (fill_heap c w h)"
proof -
  from o obtain bl base where P: "inbound_buffer c = In_pool (bl, base)" "data_block c h bl"
      "base + target_size c \<le> length (content h bl)"
      "target_size c = frame_total (chunk base HEADER_SIZE (content h bl))"
      "size_ok (frame_max c) (chunk base HEADER_SIZE (content h bl))"
    by (auto simp: own_buffer_def)
  have head: "chunk base HEADER_SIZE (content (fill_heap c w h) bl) = chunk base HEADER_SIZE (content h bl)"
    using P(1,3) le by (simp add: fill_heap_def chunk_write_at_before)
  show "own_buffer (fill c w) (fill_heap c w h)"
    unfolding own_buffer_def
    by (intro exI [of _ bl] exI [of _ base]) (use P le head in \<open>simp add: fill_heap_def data_block_def\<close>)
  have "pools_ok c (fill_heap c w h)"
    using pools_ok_write [of c h "write_at (content h bl) (base + inbound_offset c) w" bl] P le b
    by (simp add: fill_heap_def base_ok_def)
  with b P show "base_ok (fill c w) (fill_heap c w h)"
    using pools_ok_cong [of "fill c w" c] by (simp add: base_ok_def fill_def)
qed

lemma base_ok_fill:
  assumes ok: "input_ok c h" and le: "inbound_offset c + length w \<le> target_size c"
  shows "base_ok (fill c w) (fill_heap c w h)"
proof (cases "state c = CONNECTION_STATE_BODY")
  case True
  with ok fill_ok(1) [OF input_okD(1) [OF ok] True] le show ?thesis by (simp add: input_ok_def)
next
  case False
  with ok have "inbound_buffer c = In_header_buffer"
    by (auto simp: input_ok_def split: amqp_connection_state_enum.splits)
  with input_okD [OF ok] input_ok_room [OF ok] le show ?thesis
    using pools_ok_cong [of "fill c w" c]
    by (auto simp: base_ok_def fill_def fill_heap_def room_def)
qed

section \<open>A complete frame\<close>

text \<open>What the functions for a complete frame and for a header promise.\<close>

definition stays_ok :: "input_result \<Rightarrow> bool" where
  "stays_ok res \<longleftrightarrow> (case res of (r, c, h, f) \<Rightarrow>
     pools_ok c h \<and> (\<forall>n. r = Returns n \<longrightarrow> input_ok c h))"

lemma idle_input_ok: "base_ok c h \<Longrightarrow> input_ok (return_to_idle c) h"
  using pools_ok_cong [of "return_to_idle c" c h]
  by (simp add: input_ok_def base_ok_def return_to_idle_def frame_sizes)

lemma header_buffer_set [simp]: "header_buffer (set_channel_pool ch pool c) = header_buffer c"
  by (simp add: set_channel_pool_def)

lemma decode_payload_ok:
  assumes b: "base_ok c h" and g: "amqp_get_channel_pool c (channel f) = Some pool"
    and d: "dec_mem d"
  shows "stays_ok (decode_payload d wrap encoded pool n c h f)"
proof -
  obtain r s where ds: "d encoded \<lparr>doff = 0, dpool = pool, dheap = h\<rparr> = (r, s)" by fastforce
  have P: "pools_ok c h" and hb: "length (header_buffer c) = 8" using b by (simp_all add: base_ok_def)
  let ?c = "set_channel_pool (channel f) (dpool s) c"
  have "pools_ok ?c (dheap s)"
    by (rule pools_ok_step [OF P g pool_step_decoder [OF d pools_okD(3) [OF P g] ds]])
  with hb have ok: "base_ok ?c (dheap s)" by (simp add: base_ok_def)
  with idle_input_ok [OF ok] show ?thesis
    by (cases r) (simp_all add: decode_payload_def ds Let_def stays_ok_def base_ok_def input_okD(2))
qed


lemma stays_ok_same: "base_ok c h \<Longrightarrow> (\<And>n. r \<noteq> Returns n) \<Longrightarrow> stays_ok (r, c, h, f)"
  by (simp add: stays_ok_def base_ok_def)

lemma stays_ok_idle: "base_ok c h \<Longrightarrow> stays_ok (r, return_to_idle c, h, f)"
  using idle_input_ok [of c h] by (auto simp: stays_ok_def input_okD(2))

lemma decode_frames_ok:
  assumes "base_ok c h" and "amqp_get_channel_pool c (channel f) = Some pool"
  shows "stays_ok (decode_method_frame raw pool n c h f)"
    and "stays_ok (decode_header_frame p0 raw pool n c h f)"
    and "stays_ok (decode_raw_frame p0 raw pool n c h f)"
proof -
  show 1: "stays_ok (decode_method_frame raw pool n c h f)" "stays_ok (decode_header_frame p0 raw pool n c h f)"
    using decode_payload_ok [OF assms dec_mem_method] decode_payload_ok [OF assms dec_mem_properties] assms(1)
    by (simp_all add: decode_method_frame_def decode_header_frame_def Let_def stays_ok_same)
  show "stays_ok (decode_raw_frame p0 raw pool n c h f)"
    using 1 assms(1) by (simp add: decode_raw_frame_def Let_def stays_ok_idle)
qed

lemma get_or_create_base_ok:
  assumes b: "base_ok c h" and g: "amqp_get_or_create_channel_pool c ch h = (r, c', h')"
  shows "base_ok c' h'" and "r = Some pool \<Longrightarrow> amqp_get_channel_pool c' ch = Some pool"
proof -
  have P: "pools_ok c h" using b by (simp add: base_ok_def)
  have "header_buffer c' = header_buffer c" 
    using arg_cong [OF get_or_create_fields [OF g], of header_buffer] by simp
  with b get_or_create_ok(1) [OF P g] show "base_ok c' h'" by (simp add: base_ok_def)
  show "r = Some pool \<Longrightarrow> amqp_get_channel_pool c' ch = Some pool" by (rule get_or_create_ok(2) [OF P g])
qed

lemma handle_body_ok:
  assumes b: "base_ok c h"
  shows "stays_ok (handle_body p0 n c h f)"
proof (cases "inbound_buffer c")
  case (In_pool a)
  obtain bl base where a: "a = (bl, base)" by fastforce
  let ?raw = "chunk base (target_size c) (content h bl)"
  let ?f = "f\<lparr>frame_type := amqp_d8 is_bigendian (chunk 0 1 ?raw), channel := amqp_d16 is_bigendian (chunk 1 2 ?raw)\<rparr>"
  obtain r c1 h1 where g: "amqp_get_or_create_channel_pool c (channel ?f) h = (r, c1, h1)"
    by (metis prod_cases3)
  note B = get_or_create_base_ok [OF b g]
  show ?thesis
  proof (cases r)
    case (Some pool)
    then have "amqp_get_channel_pool c1 (channel ?f) = Some pool" by (rule B(2))
    from decode_frames_ok(3) [OF B(1) this] show ?thesis
      using g Some b unfolding handle_body_def In_pool a by (simp add: Let_def stays_ok_same)
  qed (use b B(1) g In_pool a in \<open>simp add: handle_body_def Let_def stays_ok_same\<close>)
qed (use b in \<open>simp_all add: handle_body_def stays_ok_same\<close>)


section \<open>A complete header\<close>

text \<open>The state in which a frame was opened: it has a buffer of its own, which holds the header.\<close>

definition opened :: "amqp_connection_state_t \<Rightarrow> amqp_connection_state_t \<Rightarrow> heap \<Rightarrow> bool" where
  "opened c c' h' \<longleftrightarrow> base_ok c' h' \<and> own_buffer c' h' \<and> state c' = CONNECTION_STATE_BODY \<and>
     inbound_offset c' = inbound_offset c \<and> header_buffer c' = header_buffer c \<and>
     target_size c' = frame_total (take HEADER_SIZE (header_buffer c)) \<and>
     (\<exists>b base. inbound_buffer c' = In_pool (b, base) \<and>
       chunk base HEADER_SIZE (content h' b) = take HEADER_SIZE (header_buffer c))"

lemma alloc_buffer_ok:
  assumes b: "base_ok c h" and get: "amqp_get_channel_pool c ch = Some pool"
    and a: "amqp_pool_alloc pool (target_size c) h = (Some (bl, base), pool', h1)"
    and t: "target_size c = frame_total (take HEADER_SIZE (header_buffer c))"
      "size_ok (frame_max c) (take HEADER_SIZE (header_buffer c))"
    and c': "c' = (set_channel_pool ch pool' c)\<lparr>inbound_buffer := In_pool (bl, base), state := CONNECTION_STATE_BODY\<rparr>"
    and h': "h' = h1\<lparr>content := (content h1)(bl := write_at (content h1 bl) base (take HEADER_SIZE (header_buffer c)))\<rparr>"
  shows "base_ok c' h'" and "own_buffer c' h'"
    and "chunk base HEADER_SIZE (content h' bl) = take HEADER_SIZE (header_buffer c)"
proof -
  let ?c = "set_channel_pool ch pool' c"
  have P: "pools_ok c h" using b by (simp add: base_ok_def)
  note po = pools_okD(3) [OF P get]
  have P1: "pools_ok ?c h1" by (rule pools_ok_step [OF P get pool_step_alloc [OF po a]])
  have get1: "amqp_get_channel_pool ?c ch = Some pool'"
    using get_set_channel_pool [OF pools_okD(1) [OF P] get] by simp
  have reg: "base + target_size c \<le> length (content h1 bl)"
    using pool_alloc_region [OF po _ a] t by (simp add: frame_total_def size_ok_def INT32_MAX_def frame_sizes)
  have hb: "length (take HEADER_SIZE (header_buffer c)) = HEADER_SIZE"
    using b by (simp add: base_ok_def frame_sizes)
  with reg t have len: "base + length (take HEADER_SIZE (header_buffer c)) \<le> length (content h1 bl)"
    by (simp add: frame_total_def)
  have own: "data_block ?c h' bl"
    using data_block_alloc [OF P get a] by (simp add: h' data_block_def)
  have "pools_ok ?c h'" unfolding h' by (rule pools_ok_write [OF P1]) (use len in simp)
  then show "base_ok c' h'"
    using pools_ok_cong [of c' ?c h'] b by (simp add: base_ok_def c')
  show head: "chunk base HEADER_SIZE (content h' bl) = take HEADER_SIZE (header_buffer c)"
    using chunk_write_at_same [OF len] hb by (simp add: h')
  have "base + target_size c \<le> length (content h' bl)" using reg len by (simp add: h')
  then show "own_buffer c' h'"
    unfolding own_buffer_def
    by (intro exI [of _ bl] exI [of _ base])
      (use own head t in \<open>simp add: c' data_block_def amqp_get_channel_pool_def set_channel_pool_def\<close>)
qed

lemma open_frame_ok:
  assumes b: "base_ok c h" and e: "open_frame c h = (r, c', h')"
  shows "pools_ok c' h' \<and> (r = None \<longrightarrow> opened c c' h')"
proof -
  let ?ch = "amqp_d16 is_bigendian (chunk 1 2 (header_buffer c))"
  let ?size = "frame_size (header_buffer c)"
  have sz: "frame_size (take HEADER_SIZE (header_buffer c)) = ?size"
    by (simp add: frame_size_def chunk_def frame_sizes drop_take)
  let ?c1 = "c\<lparr>target_size := ?size + HEADER_SIZE + FOOTER_SIZE\<rparr>"
  have b1: "base_ok ?c1 h" using b pools_ok_cong [of ?c1 c] by (simp add: base_ok_def)
  show ?thesis
  proof (cases "?size \<ge> INT32_MAX \<or> size_t_of_int (frame_max ?c1) < target_size ?c1")
    case True
    with e b b1 show ?thesis by (auto simp: open_frame_def frame_size_def [symmetric] base_ok_def Let_def split: if_splits)
  next
    case False
    obtain q c2 h2 where g: "amqp_get_or_create_channel_pool ?c1 ?ch h = (q, c2, h2)"
      by (metis prod_cases3)
    note B = get_or_create_base_ok [OF b1 g]
    note F = get_or_create_fields [OF g]
    have t2: "target_size c2 = ?size + HEADER_SIZE + FOOTER_SIZE" "inbound_offset c2 = inbound_offset c"
        "header_buffer c2 = header_buffer c" "frame_max c2 = frame_max c"
      using arg_cong [OF F, of frame_max] arg_cong [OF F, of target_size] arg_cong [OF F, of inbound_offset] arg_cong [OF F, of header_buffer]
      by simp_all
    show ?thesis
    proof (cases q)
      case None
      with False e g B(1) show ?thesis by (auto simp: open_frame_def frame_size_def [symmetric] Let_def base_ok_def)
    next
      case (Some pool)
      note get = B(2) [OF Some]
      have P2: "pools_ok c2 h2" using B(1) by (simp add: base_ok_def)
      obtain p pool3 h3 where a: "amqp_pool_alloc pool (target_size c2) h2 = (p, pool3, h3)"
        by (metis prod_cases3)
      show ?thesis
      proof (cases p)
        case None
        have "pools_ok (set_channel_pool ?ch pool3 c2) h3"
          by (rule pools_ok_step [OF P2 get pool_step_alloc [OF pools_okD(3) [OF P2 get] a]])
        with False e g Some a None show ?thesis
          using pools_ok_cong [of c' "set_channel_pool ?ch pool3 c2" h3]
          by (auto simp: open_frame_def frame_size_def [symmetric] Let_def amqp_pool_alloc_bytes_def simp del: not_le)
      next
        case (Some x)
        obtain bl base where x: "p = Some (bl, base)" using Some by (cases x) auto
        have t: "target_size c2 = frame_total (take HEADER_SIZE (header_buffer c2))"
            "size_ok (frame_max c2) (take HEADER_SIZE (header_buffer c2))"
          using False t2 sz by (simp_all add: frame_total_def size_ok_def not_le not_less)
        have "r = None"
            "c' = (set_channel_pool ?ch pool3 c2)\<lparr>inbound_buffer := In_pool (bl, base), state := CONNECTION_STATE_BODY\<rparr>"
            "h' = h3\<lparr>content := (content h3)(bl := write_at (content h3 bl) base (take HEADER_SIZE (header_buffer c2)))\<rparr>"
          using False e g x a \<open>q = Some pool\<close>
          by (auto simp: open_frame_def frame_size_def [symmetric] Let_def amqp_pool_alloc_bytes_def simp del: not_le)
        with alloc_buffer_ok [OF B(1) get a [unfolded x] t this(2,3)] t2 show ?thesis
          by (simp add: opened_def set_channel_pool_def base_ok_def frame_total_def sz)
      qed
    qed
  qed
qed

section \<open>The state machine\<close>

text \<open>A frame leaves the connection idle; otherwise all data was taken.\<close>

definition counts :: "nat \<Rightarrow> byte list \<Rightarrow> input_result \<Rightarrow> bool" where
  "counts n d res \<longleftrightarrow> (case res of (r, c, h, f) \<Rightarrow>
     \<forall>k. r = Returns k \<longrightarrow> n \<le> k \<and> k \<le> n + length d \<and>
       (k = n + length d \<or> state c = CONNECTION_STATE_IDLE))"

lemma decode_payload_returns:
  assumes "decode_payload d w v pool n c h f = (Returns k, c', h', f')"
  shows "k = n \<and> state c' = CONNECTION_STATE_IDLE"
  using assms by (auto simp: decode_payload_def return_to_idle_def Let_def split: prod.splits dres.splits)

lemma decode_frames_return:
  "decode_method_frame raw pool n c h f = (Returns k, c', h', f') \<Longrightarrow> k = n \<and> state c' = CONNECTION_STATE_IDLE"
  "decode_header_frame p0 raw pool n c h f = (Returns k, c', h', f') \<Longrightarrow> k = n \<and> state c' = CONNECTION_STATE_IDLE"
  "decode_raw_frame p0 raw pool n c h f = (Returns k, c', h', f') \<Longrightarrow> k = n \<and> state c' = CONNECTION_STATE_IDLE"
proof -
  show 1: "decode_method_frame raw pool n c h f = (Returns k, c', h', f') \<Longrightarrow> k = n \<and> state c' = CONNECTION_STATE_IDLE"
    and 2: "decode_header_frame p0 raw pool n c h f = (Returns k, c', h', f') \<Longrightarrow> k = n \<and> state c' = CONNECTION_STATE_IDLE"
    by (auto simp: decode_method_frame_def decode_header_frame_def Let_def split: if_splits
        dest: decode_payload_returns)
  assume "decode_raw_frame p0 raw pool n c h f = (Returns k, c', h', f')"
  with 1 2 show "k = n \<and> state c' = CONNECTION_STATE_IDLE"
    by (auto simp: decode_raw_frame_def Let_def return_to_idle_def split: if_split_asm)
qed

lemma handle_body_returns:
  assumes e: "handle_body p0 n c h f = (Returns k, c', h', f')"
  shows "k = n \<and> state c' = CONNECTION_STATE_IDLE"
  using e
  by (auto simp: handle_body_def Let_def split: inbound_t.splits prod.splits option.splits if_split_asm
      dest: decode_frames_return(3))

lemma counts_body_add: "m \<le> length d \<Longrightarrow> counts n d (handle_body p0 (n + m) c h f)"
  unfolding counts_def by (auto split: prod.split dest: handle_body_returns)

text \<open>A buffer that belongs to the frame is filled up to the frame or until the data ends.\<close>

lemma own_buffer_room: "own_buffer c h \<Longrightarrow> inbound_offset c \<le> target_size c \<Longrightarrow> room c h"
  by (auto simp: own_buffer_def room_def)

lemma collect_body_ok:
  assumes b: "base_ok c h" "own_buffer c h" "state c = CONNECTION_STATE_BODY"
    and o: "HEADER_SIZE \<le> inbound_offset c" "inbound_offset c \<le> target_size c"
  shows "stays_ok (collect_body p0 n d c h f)" and "counts n d (collect_body p0 n d c h f)"
proof -
  let ?m = "min (length d) (target_size c - inbound_offset c)"
  let ?c = "fill c (take ?m d)" and ?h = "fill_heap c (take ?m d) h"
  note F = fill_ok [OF b(1,3,2) o(1), of "take ?m d"]
  have e: "consume_data c d h = Some (?m, drop ?m d, ?c, ?h)"
    by (rule consume_room [OF own_buffer_room [OF b(2) o(2)] refl])
  have le: "inbound_offset c + length (take ?m d) \<le> target_size c" using o(2) by simp
  have more: "inbound_offset ?c < target_size ?c \<longleftrightarrow> inbound_offset c + length d < target_size c"
    using o(2) by (auto simp: min_def)
  show "stays_ok (collect_body p0 n d c h f)"
  proof (cases "inbound_offset ?c < target_size ?c")
    case True
    then have "input_ok ?c ?h" using F [OF le] b(3) o(1) by (simp add: input_ok_def)
    with True show ?thesis by (simp add: collect_body_def e stays_ok_def input_okD(2) del: fill_simps)
  next
    case False
    with handle_body_ok [OF F(1) [OF le]] show ?thesis by (simp add: collect_body_def e del: fill_simps)
  qed
  show "counts n d (collect_body p0 n d c h f)"
    using counts_body_add [of ?m d n p0 ?c ?h f] more o(2)
    by (auto simp: collect_body_def e counts_def min_def simp del: fill_simps)
qed

lemma handle_header_ok:
  assumes b: "base_ok c h" and o: "HEADER_SIZE \<le> inbound_offset c" "inbound_offset c \<le> HEADER_SIZE + FOOTER_SIZE"
  shows "stays_ok (handle_header p0 n d c h f)" and "counts n d (handle_header p0 n d c h f)"
proof -
  obtain r c' h' where e: "open_frame c h = (r, c', h')" by (metis prod_cases3)
  note O = open_frame_ok [OF b e]
  have "stays_ok (handle_header p0 n d c h f) \<and> counts n d (handle_header p0 n d c h f)"
  proof (cases r)
    case None
    with O have "opened c c' h'" by simp
    with collect_body_ok(1) [of c' h' p0 n d f] collect_body_ok(2) [of c' h' n d p0 f] o None e show ?thesis
      by (auto simp: handle_header_def opened_def frame_total_def)
  qed (use O e in \<open>simp add: handle_header_def stays_ok_def counts_def\<close>)
  then show "stays_ok (handle_header p0 n d c h f)" "counts n d (handle_header p0 n d c h f)" by simp_all
qed

lemma handle_initial_ok:
  assumes "base_ok c h" and "inbound_offset c = HEADER_SIZE + FOOTER_SIZE"
  shows "stays_ok (handle_initial p0 n d c h f)" and "counts n d (handle_initial p0 n d c h f)"
  using handle_header_ok(1) [OF assms(1), of p0 n d f] handle_header_ok(2) [OF assms(1), of n d p0 f]
    assms(2) stays_ok_idle [OF assms(1)]
  by (auto simp: handle_initial_def Let_def counts_def return_to_idle_def)

text \<open>The state after the first bytes of a header.\<close>

definition begin_input :: "amqp_connection_state_t \<Rightarrow> amqp_connection_state_t" where
  "begin_input c = (if state c = CONNECTION_STATE_IDLE then c\<lparr>state := CONNECTION_STATE_HEADER\<rparr> else c)"

lemma begin_input_ok: "input_ok c h \<Longrightarrow> input_ok (begin_input c) h"
  using pools_ok_cong [of "c\<lparr>state := CONNECTION_STATE_HEADER\<rparr>" c h]
  by (auto simp: begin_input_def input_ok_def base_ok_def split: amqp_connection_state_enum.splits)

lemma begin_input_state [simp]: "state (begin_input c) \<noteq> CONNECTION_STATE_IDLE"
  by (simp add: begin_input_def)

text \<open>\<open>advance\<close>: what happens to the data once it is there.\<close>

definition advance ::
  "amqp_basic_properties_t \<Rightarrow> amqp_connection_state_t \<Rightarrow> byte list \<Rightarrow> heap \<Rightarrow> amqp_frame_t \<Rightarrow> input_result" where
  "advance p0 c d h f =
    (let n = min (length d) (target_size c - inbound_offset c);
         c' = fill c (take n d); h' = fill_heap c (take n d) h in
     if inbound_offset c + length d < target_size c then (Returns (length d), c', h', f)
     else case state c of
       CONNECTION_STATE_INITIAL \<Rightarrow> handle_initial p0 n (drop n d) c' h' f
     | CONNECTION_STATE_HEADER \<Rightarrow> handle_header p0 n (drop n d) c' h' f
     | _ \<Rightarrow> handle_body p0 n c' h' f)"

lemma handle_input_advance:
  assumes ok: "input_ok c h" and d: "d \<noteq> []"
  shows "amqp_handle_input p0 c d h f = advance p0 (begin_input c) d h (f\<lparr>frame_type := 0\<rparr>)"
proof -
  have ok1: "input_ok (begin_input c) h" by (rule begin_input_ok [OF ok])
  note C = consume_room [OF input_ok_room [OF ok1] refl, of d]
  have "inbound_offset (begin_input c) < target_size (begin_input c)" by (rule input_okD(4) [OF ok1])
  then show ?thesis
    using begin_input_state [of c] C d
    by (auto simp: amqp_handle_input_def begin_input_def [symmetric] advance_def Let_def min_def not_less
        split: amqp_connection_state_enum.splits)
qed

definition takes :: "byte list \<Rightarrow> input_result \<Rightarrow> bool" where
  "takes d res \<longleftrightarrow> (case res of (r, c, h, f) \<Rightarrow>
     \<forall>k. r = Returns k \<longrightarrow> k \<le> length d \<and> (d \<noteq> [] \<longrightarrow> 0 < k) \<and>
       (k = length d \<or> state c = CONNECTION_STATE_IDLE))"

lemma counts_takes: "counts n (drop n d) res \<Longrightarrow> 0 < n \<Longrightarrow> n \<le> length d \<Longrightarrow> takes d res"
  by (auto simp: counts_def takes_def)

lemma advance_ok:
  assumes ok: "input_ok c h" and s: "state c \<noteq> CONNECTION_STATE_IDLE"
  shows "stays_ok (advance p0 c d h f)" and "takes d (advance p0 c d h f)"
proof -
  let ?n = "min (length d) (target_size c - inbound_offset c)"
  let ?c = "fill c (take ?n d)" and ?h = "fill_heap c (take ?n d) h"
  note D = input_okD [OF ok]
  have b: "base_ok ?c ?h" by (rule base_ok_fill [OF ok]) (use D(4) in auto)
  have "stays_ok (advance p0 c d h f) \<and> takes d (advance p0 c d h f)"
  proof (cases "inbound_offset c + length d < target_size c")
    case True
    then have "?n = length d" by simp
    with True fill_ok(2) [OF D(1), of d] ok b s have "input_ok ?c ?h"
      by (auto simp: input_ok_def split: amqp_connection_state_enum.splits)
    with True show ?thesis by (simp add: advance_def Let_def stays_ok_def takes_def input_okD(2))
  next
    case False
    then have "?n = target_size c - inbound_offset c" "target_size c - inbound_offset c \<le> length d" by arith+
    then have full: "inbound_offset ?c = target_size c" using D(4) by simp
    have e: "advance p0 c d h f = (case state c of
       CONNECTION_STATE_INITIAL \<Rightarrow> handle_initial p0 ?n (drop ?n d) ?c ?h f
     | CONNECTION_STATE_HEADER \<Rightarrow> handle_header p0 ?n (drop ?n d) ?c ?h f
     | _ \<Rightarrow> handle_body p0 ?n ?c ?h f)" using False by (simp only: advance_def Let_def if_False)
    have c: "counts ?n (drop ?n d) res \<Longrightarrow> takes d res" for res
      by (rule counts_takes) (use D(4) False in auto)
    show ?thesis
      unfolding e
      using s ok full handle_initial_ok(1) [OF b, of p0 ?n "drop ?n d" f] handle_header_ok(1) [OF b, of p0 ?n "drop ?n d" f]
        handle_initial_ok(2) [OF b, of ?n "drop ?n d" p0 f] handle_header_ok(2) [OF b, of ?n "drop ?n d" p0 f]
        handle_body_ok [OF b, of p0 ?n f] counts_body_add [of 0 "drop ?n d" ?n p0 ?c ?h f] c
      by (auto simp: input_ok_def frame_sizes split: amqp_connection_state_enum.splits)
  qed
  then show "stays_ok (advance p0 c d h f)" "takes d (advance p0 c d h f)" by simp_all
qed

section \<open>Data in pieces\<close>

text \<open>\<open>shift m\<close> adds \<open>m\<close> bytes that were consumed before.\<close>

definition shift :: "nat \<Rightarrow> input_result \<Rightarrow> input_result" where
  "shift m res = (case res of (r, c, h, f) \<Rightarrow> (map_dres (\<lambda>n. m + n) r, c, h, f))"

lemma shift_simps [simp]:
  "shift m (Returns n, x) = (Returns (m + n), x)" "shift m (Fails err, x) = (Fails err, x)"
  "shift m (Undefined, x) = (Undefined, x)" "shift m (OutOfFuel, x) = (OutOfFuel, x)"
  by (cases x; simp add: shift_def)+

lemma shift_payload: "decode_payload d w v pool (m + n) c h f = shift m (decode_payload d w v pool n c h f)"
  by (auto simp: decode_payload_def Let_def split: prod.splits dres.splits)

lemma shift_body: "handle_body p0 (m + n) c h f = shift m (handle_body p0 n c h f)"
proof -
  have "decode_raw_frame p0 raw pool (m + n) c h f = shift m (decode_raw_frame p0 raw pool n c h f)" for raw pool c h f
    by (simp add: decode_raw_frame_def decode_method_frame_def decode_header_frame_def Let_def shift_payload)
  then show ?thesis
    by (auto simp: handle_body_def Let_def split: inbound_t.splits prod.splits option.splits)
qed

lemma shift_collect: "collect_body p0 (m + n) d c h f = shift m (collect_body p0 n d c h f)"
  by (auto simp: collect_body_def add.assoc shift_body split: option.splits prod.splits)

lemma shift_header: "handle_header p0 (m + n) d c h f = shift m (handle_header p0 n d c h f)"
  by (auto simp: handle_header_def shift_collect split: option.splits prod.splits)

lemma shift_initial: "handle_initial p0 (m + n) d c h f = shift m (handle_initial p0 n d c h f)"
  by (simp add: handle_initial_def shift_header Let_def)

lemma collect_body_append:
  assumes r: "room c h" and e: "collect_body p0 n d1 c h f = (Returns k, c1, h1, f1)"
    and s: "state c1 \<noteq> CONNECTION_STATE_IDLE"
  shows "state c1 = state c \<and> room c1 h1 \<and> f1 = f \<and> k = n + length d1 \<and>
    collect_body p0 n (d1 @ d2) c h f = shift k (collect_body p0 0 d2 c1 h1 f1)"
proof -
  let ?n1 = "min (length d1) (target_size c - inbound_offset c)"
  have more: "inbound_offset c + length d1 < target_size c"
  proof (rule ccontr)
    assume "\<not> ?thesis"
    with r have "\<not> inbound_offset (fill c (take ?n1 d1)) < target_size (fill c (take ?n1 d1))"
      by (auto simp: room_def)
    with e have "handle_body p0 (n + ?n1) (fill c (take ?n1 d1)) (fill_heap c (take ?n1 d1) h) f = (Returns k, c1, h1, f1)"
      by (simp add: collect_body_def consume_room [OF r refl] del: fill_simps)
    with handle_body_returns s show False by blast
  qed
  then have 1: "k = n + length d1" "c1 = fill c d1" "h1 = fill_heap c d1 h" "f1 = f"
    using e by (auto simp: collect_body_def consume_room [OF r refl])
  have le: "inbound_offset c + length d1 \<le> target_size c" using more by simp
  note r1 = room_fill [OF r le]
  let ?n2 = "min (length d2) (target_size c - (inbound_offset c + length d1))"
  have n: "min (length (d1 @ d2)) (target_size c - inbound_offset c) = length d1 + ?n2"
    using more by (simp add: min_def) arith
  have t: "take (length d1 + ?n2) (d1 @ d2) = d1 @ take ?n2 d2" by simp
  have fa: "fill (fill c d1) (take ?n2 d2) = fill c (d1 @ take ?n2 d2)"
    "fill_heap (fill c d1) (take ?n2 d2) (fill_heap c d1 h) = fill_heap c (d1 @ take ?n2 d2) h"
    using fill_append [OF r, of d1 "take ?n2 d2"] le by simp_all
  have c2: "consume_data c (d1 @ d2) h = Some (length d1 + ?n2, drop ?n2 d2,
      fill c (d1 @ take ?n2 d2), fill_heap c (d1 @ take ?n2 d2) h)"
    using consume_room [OF r refl, of "d1 @ d2"] unfolding n t by simp
  have c3: "consume_data (fill c d1) d2 (fill_heap c d1 h) = Some (?n2, drop ?n2 d2,
      fill c (d1 @ take ?n2 d2), fill_heap c (d1 @ take ?n2 d2) h)"
    using consume_room [OF r1 refl, of d2] fa by simp
  show ?thesis
    using 1 r1 by (simp add: collect_body_def c2 c3 shift_body [symmetric] add.assoc del: fill_simps(3))
qed


lemma advance_body:
  assumes "room c h" and "state c = CONNECTION_STATE_BODY"
  shows "advance p0 c d h f = collect_body p0 0 d c h f"
proof -
  have "inbound_offset c \<le> target_size c" using assms(1) by (simp add: room_def)
  then show ?thesis
    using assms(2) by (auto simp: advance_def collect_body_def consume_room [OF assms(1) refl] Let_def min_def)
qed

lemma handle_header_append:
  assumes b: "base_ok c h" and o: "HEADER_SIZE \<le> inbound_offset c" "inbound_offset c \<le> HEADER_SIZE + FOOTER_SIZE"
    and e: "handle_header p0 n d1 c h f = (Returns k, c1, h1, f1)" and s: "state c1 \<noteq> CONNECTION_STATE_IDLE"
  shows "f1 = f \<and> k = n + length d1 \<and> handle_header p0 n (d1 @ d2) c h f = shift k (advance p0 c1 d2 h1 f1)"
proof -
  obtain c' h' where op: "open_frame c h = (None, c', h')" and e': "collect_body p0 n d1 c' h' f = (Returns k, c1, h1, f1)"
    using e by (auto simp: handle_header_def split: option.splits prod.splits)
  have O: "opened c c' h'" using open_frame_ok [OF b op] by simp
  then have "room c' h'" using o by (intro own_buffer_room) (auto simp: opened_def frame_total_def)
  note C = collect_body_append [OF this e' s, of d2]
  then show ?thesis
    using O by (simp add: handle_header_def op advance_body opened_def)
qed

text \<open>What happens when the wanted bytes are all there.\<close>

lemma advance_enough:
  assumes n: "n = target_size c - inbound_offset c" and le: "n \<le> length d1"
  shows "advance p0 c (d1 @ x) h f = (case state c of
       CONNECTION_STATE_INITIAL \<Rightarrow>
         handle_initial p0 n (drop n d1 @ x) (fill c (take n d1)) (fill_heap c (take n d1) h) f
     | CONNECTION_STATE_HEADER \<Rightarrow>
         handle_header p0 n (drop n d1 @ x) (fill c (take n d1)) (fill_heap c (take n d1) h) f
     | _ \<Rightarrow> handle_body p0 n (fill c (take n d1)) (fill_heap c (take n d1) h) f)"
proof -
  have "min (length (d1 @ x)) n = n" "take n (d1 @ x) = take n d1" "drop n (d1 @ x) = drop n d1 @ x"
      "\<not> inbound_offset c + length (d1 @ x) < target_size c"
    using assms by simp_all
  then show ?thesis unfolding advance_def Let_def n [symmetric] by (simp only: if_False)
qed

lemma advance_append:
  assumes ok: "input_ok c h" and st: "state c \<noteq> CONNECTION_STATE_IDLE"
    and e: "advance p0 c d1 h f = (Returns k, c1, h1, f1)" and s: "state c1 \<noteq> CONNECTION_STATE_IDLE"
  shows "f1 = f \<and> k = length d1 \<and> advance p0 c (d1 @ d2) h f = shift k (advance p0 c1 d2 h1 f1)"
proof (cases "inbound_offset c + length d1 < target_size c")
  case True
  define n2 where n2: "n2 = min (length d2) (target_size c - (inbound_offset c + length d1))"
  have n: "min (length (d1 @ d2)) (target_size c - inbound_offset c) = length d1 + n2"
    using True by (simp add: n2 min_def) arith
  have n': "min (length d2) (target_size (fill c d1) - inbound_offset (fill c d1)) = n2"
    by (simp add: n2)
  have t: "take (length d1 + n2) (d1 @ d2) = d1 @ take n2 d2" "drop (length d1 + n2) (d1 @ d2) = drop n2 d2"
    by simp_all
  have 1: "k = length d1" "c1 = fill c d1" "h1 = fill_heap c d1 h" "f1 = f"
    using e True by (auto simp: advance_def Let_def)
  have fa: "fill (fill c d1) (take n2 d2) = fill c (d1 @ take n2 d2)"
      "fill_heap (fill c d1) (take n2 d2) (fill_heap c d1 h) = fill_heap c (d1 @ take n2 d2) h"
    using fill_append [OF input_ok_room [OF ok], of d1 "take n2 d2"] True by (simp_all add: n2)
  have m: "inbound_offset (fill c d1) + length d2 < target_size (fill c d1) \<longleftrightarrow>
      inbound_offset c + length (d1 @ d2) < target_size c" by (simp add: add.assoc)
  have a: "advance p0 c1 d2 h1 f1 = (if inbound_offset c + length (d1 @ d2) < target_size c
      then (Returns (length d2), fill c (d1 @ take n2 d2), fill_heap c (d1 @ take n2 d2) h, f)
      else case state c of
        CONNECTION_STATE_INITIAL \<Rightarrow> handle_initial p0 n2 (drop n2 d2) (fill c (d1 @ take n2 d2)) (fill_heap c (d1 @ take n2 d2) h) f
      | CONNECTION_STATE_HEADER \<Rightarrow> handle_header p0 n2 (drop n2 d2) (fill c (d1 @ take n2 d2)) (fill_heap c (d1 @ take n2 d2) h) f
      | _ \<Rightarrow> handle_body p0 n2 (fill c (d1 @ take n2 d2)) (fill_heap c (d1 @ take n2 d2) h) f)"
    unfolding 1 advance_def Let_def n' fa m by (simp only: fill_simps)
  show ?thesis
    using 1(1,4) unfolding a unfolding advance_def Let_def n t
    by (simp add: shift_body [of p0 "length d1"] shift_header [of p0 "length d1"] shift_initial [of p0 "length d1"]
        split: amqp_connection_state_enum.split)
next
  case False
  let ?n = "target_size c - inbound_offset c"
  let ?c = "fill c (take ?n d1)" and ?h = "fill_heap c (take ?n d1) h"
  have le: "?n \<le> length d1" using False by arith
  have b: "base_ok ?c ?h" by (rule base_ok_fill [OF ok]) (use input_okD(4) [OF ok] in auto)
  have off: "inbound_offset ?c = target_size c" using le input_okD(4) [OF ok] by simp
  note a1 = advance_enough [OF refl le, of p0 "[]" h f, unfolded append_Nil2]
  note a2 = advance_enough [OF refl le, of p0 d2 h f]
  have header: ?thesis if h: "handle_header p0 ?n (drop ?n d1) ?c ?h f = (Returns k, c1, h1, f1)"
      and a: "advance p0 c (d1 @ d2) h f = handle_header p0 ?n (drop ?n d1 @ d2) ?c ?h f"
      and t: "HEADER_SIZE \<le> target_size c" "target_size c \<le> HEADER_SIZE + FOOTER_SIZE"
    using handle_header_append [OF b _ _ h s, of d2] off t le by (simp add: a)
  show ?thesis
  proof (cases "state c")
    case CONNECTION_STATE_INITIAL
    with e s have m: "chunk 0 4 (header_buffer ?c) \<noteq> AMQP_magic"
      by (auto simp: a1 handle_initial_def return_to_idle_def Let_def)
    have i: "handle_initial p0 n x ?c ?h f = handle_header p0 n x ?c ?h f" for n x
      using m by (simp only: handle_initial_def Let_def if_False)
    show ?thesis
    proof (rule header)
      show "handle_header p0 ?n (drop ?n d1) ?c ?h f = (Returns k, c1, h1, f1)"
        and "advance p0 c (d1 @ d2) h f = handle_header p0 ?n (drop ?n d1 @ d2) ?c ?h f"
        using e a1 a2 CONNECTION_STATE_INITIAL i by simp_all
    qed (use ok CONNECTION_STATE_INITIAL in \<open>simp_all add: input_ok_def frame_sizes\<close>)
  next
    case CONNECTION_STATE_HEADER
    show ?thesis
    proof (rule header)
      show "handle_header p0 ?n (drop ?n d1) ?c ?h f = (Returns k, c1, h1, f1)"
        and "advance p0 c (d1 @ d2) h f = handle_header p0 ?n (drop ?n d1 @ d2) ?c ?h f"
        using e a1 a2 CONNECTION_STATE_HEADER by simp_all
    qed (use ok CONNECTION_STATE_HEADER in \<open>simp_all add: input_ok_def frame_sizes\<close>)
  next
    case CONNECTION_STATE_BODY
    then have "handle_body p0 ?n ?c ?h f = (Returns k, c1, h1, f1)" using e by (simp add: a1)
    from handle_body_returns [OF this] s show ?thesis by blast
  qed (use st in simp)
qed

lemma begin_input_twice [simp]: "state c \<noteq> CONNECTION_STATE_IDLE \<Longrightarrow> begin_input c = c"
  by (simp add: begin_input_def)

lemma handle_input_append:
  assumes ok: "input_ok c h" and e: "amqp_handle_input p0 c d1 h f = (Returns k, c1, h1, f1)"
    and s: "state c1 \<noteq> CONNECTION_STATE_IDLE" and d: "d1 \<noteq> []" "d2 \<noteq> []"
  shows "k = length d1 \<and> amqp_handle_input p0 c (d1 @ d2) h f = shift k (amqp_handle_input p0 c1 d2 h1 f1)"
proof -
  note b = begin_input_ok [OF ok]
  let ?f = "f\<lparr>frame_type := 0\<rparr>"
  have e': "advance p0 (begin_input c) d1 h ?f = (Returns k, c1, h1, f1)"
    using e handle_input_advance [OF ok d(1)] by simp
  note A = advance_append [OF b begin_input_state e' s, of d2]
  have "stays_ok (Returns k, c1, h1, f1)"
    using advance_ok(1) [OF b begin_input_state, of p0 d1 ?f] by (simp add: e')
  then have ok1: "input_ok c1 h1" by (simp add: stays_ok_def)
  have "f1\<lparr>frame_type := 0\<rparr> = f1" using A by simp
  then show ?thesis
    using A handle_input_advance [OF ok, of "d1 @ d2"] handle_input_advance [OF ok1 d(2)] s d by simp
qed

text \<open>A call that ends a frame, or fails, does not depend on the data behind it.\<close>

definition incomplete :: "input_result \<Rightarrow> bool" where
  "incomplete res \<longleftrightarrow> (case res of (r, c, h, f) \<Rightarrow> (\<exists>k. r = Returns k) \<and> state c \<noteq> CONNECTION_STATE_IDLE)"

lemma collect_body_stop:
  assumes r: "room c h" and s: "state c \<noteq> CONNECTION_STATE_IDLE" and e: "\<not> incomplete (collect_body p0 n d1 c h f)"
  shows "collect_body p0 n (d1 @ d2) c h f = collect_body p0 n d1 c h f"
proof -
  have le: "inbound_offset c \<le> target_size c" using r by (simp add: room_def)
  have "\<not> inbound_offset c + length d1 < target_size c"
  proof
    assume "inbound_offset c + length d1 < target_size c"
    with e s show False by (simp add: collect_body_def consume_room [OF r refl] incomplete_def)
  qed
  with le have "min (length d1) (target_size c - inbound_offset c) = target_size c - inbound_offset c"
    "min (length (d1 @ d2)) (target_size c - inbound_offset c) = target_size c - inbound_offset c"
    "take (target_size c - inbound_offset c) (d1 @ d2) = take (target_size c - inbound_offset c) d1"
    "target_size c - inbound_offset c \<le> length d1"
    by simp_all
  then show ?thesis
    using le consume_room [OF r refl, of d1] consume_room [OF r refl, of "d1 @ d2"]
    by (simp add: collect_body_def)
qed

lemma handle_header_stop:
  assumes b: "base_ok c h" and o: "HEADER_SIZE \<le> inbound_offset c" "inbound_offset c \<le> HEADER_SIZE + FOOTER_SIZE"
    and e: "\<not> incomplete (handle_header p0 n d1 c h f)"
  shows "handle_header p0 n (d1 @ d2) c h f = handle_header p0 n d1 c h f"
proof -
  obtain r c' h' where op: "open_frame c h = (r, c', h')" by (metis prod_cases3)
  show ?thesis
  proof (cases r)
    case None
    then have O: "opened c c' h'" using open_frame_ok [OF b op] by simp
    then have "room c' h'" using o by (intro own_buffer_room) (auto simp: opened_def frame_total_def)
    from collect_body_stop [OF this] O e None show ?thesis
      by (simp add: handle_header_def op opened_def)
  qed (simp add: handle_header_def op)
qed

lemma advance_stop:
  assumes ok: "input_ok c h" and st: "state c \<noteq> CONNECTION_STATE_IDLE"
    and e: "\<not> incomplete (advance p0 c d1 h f)"
  shows "advance p0 c (d1 @ d2) h f = advance p0 c d1 h f"
proof -
  let ?n = "target_size c - inbound_offset c"
  let ?c = "fill c (take ?n d1)" and ?h = "fill_heap c (take ?n d1) h"
  have "\<not> inbound_offset c + length d1 < target_size c"
    using e st by (auto simp: advance_def Let_def incomplete_def)
  then have le: "?n \<le> length d1" by arith
  have b: "base_ok ?c ?h" by (rule base_ok_fill [OF ok]) (use input_okD(4) [OF ok] in auto)
  have off: "inbound_offset ?c = target_size c" using le input_okD(4) [OF ok] by simp
  note a = advance_enough [OF refl le, of p0 _ h f]
  have h: "handle_header p0 ?n (drop ?n d1 @ d2) ?c ?h f = handle_header p0 ?n (drop ?n d1) ?c ?h f"
    if "\<not> incomplete (handle_header p0 ?n (drop ?n d1) ?c ?h f)"
      and "HEADER_SIZE \<le> target_size c" "target_size c \<le> HEADER_SIZE + FOOTER_SIZE"
    by (rule handle_header_stop [OF b]) (use that off in simp_all)
  show ?thesis
  proof (cases "state c")
    case CONNECTION_STATE_INITIAL
    then have t: "target_size c = HEADER_SIZE + FOOTER_SIZE" using ok by (simp add: input_ok_def frame_sizes)
    show ?thesis
      using a [of d2] a [of "[]"] e h t CONNECTION_STATE_INITIAL
      by (cases "chunk 0 4 (header_buffer ?c) = AMQP_magic") (simp_all add: handle_initial_def Let_def)
  next
    case CONNECTION_STATE_HEADER
    then show ?thesis using a [of d2] a [of "[]"] e h ok by (simp add: input_ok_def)
  next
    case CONNECTION_STATE_BODY
    then show ?thesis using a [of d2] a [of "[]"] by simp
  qed (use st in simp)
qed

section \<open>Pieces of a frame\<close>

text \<open>
  What a caller does with the pieces of data it receives: pass one after the other, until
  a frame is complete.
\<close>

fun feed ::
  "amqp_basic_properties_t \<Rightarrow> amqp_connection_state_t \<Rightarrow> byte list list \<Rightarrow> heap \<Rightarrow> amqp_frame_t \<Rightarrow> input_result" where
  "feed p0 c [] h f = (Returns 0, c, h, f\<lparr>frame_type := 0\<rparr>)"
| "feed p0 c (d # ds) h f =
    (case amqp_handle_input p0 c d h f of (r, c', h', f') \<Rightarrow>
      case r of
        Returns n \<Rightarrow> if state c' = CONNECTION_STATE_IDLE then (Returns n, c', h', f')
          else shift n (feed p0 c' ds h' f')
      | _ \<Rightarrow> (r, c', h', f'))"

lemma handle_input_ok:
  assumes "input_ok c h"
  shows "stays_ok (amqp_handle_input p0 c d h f)" and "takes d (amqp_handle_input p0 c d h f)"
proof -
  have "stays_ok (amqp_handle_input p0 c d h f) \<and> takes d (amqp_handle_input p0 c d h f)"
  proof (cases "d = []")
    case True
    then show ?thesis
      using assms by (simp add: amqp_handle_input_def stays_ok_def takes_def input_okD(2))
  next
    case False
    then show ?thesis
      unfolding handle_input_advance [OF assms False]
      by (intro conjI advance_ok [OF begin_input_ok [OF assms] begin_input_state])
  qed
  then show "stays_ok (amqp_handle_input p0 c d h f)" and "takes d (amqp_handle_input p0 c d h f)" by simp_all
qed

lemma handle_input_stop:
  assumes "input_ok c h" and "d1 \<noteq> []" and "\<not> incomplete (amqp_handle_input p0 c d1 h f)"
  shows "amqp_handle_input p0 c (d1 @ d2) h f = amqp_handle_input p0 c d1 h f"
  using advance_stop [OF begin_input_ok [OF assms(1)] begin_input_state] handle_input_advance [OF assms(1)] assms(2,3)
  by simp

lemma incomplete_frame:
  assumes ok: "input_ok c h" and d: "d \<noteq> []"
    and e: "amqp_handle_input p0 c d h f = (Returns k, c1, h1, f1)" and s: "state c1 \<noteq> CONNECTION_STATE_IDLE"
  shows "f1 = f\<lparr>frame_type := 0\<rparr>"
proof -
  have "advance p0 (begin_input c) d h (f\<lparr>frame_type := 0\<rparr>) = (Returns k, c1, h1, f1)"
    using e handle_input_advance [OF ok d] by simp
  from advance_append [OF begin_input_ok [OF ok] begin_input_state this s, of "[]"] show ?thesis by simp
qed

lemma feed_concat:
  assumes "input_ok c h" and "[] \<notin> set ds" and "ds \<noteq> []"
  shows "feed p0 c ds h f = amqp_handle_input p0 c (concat ds) h f"
  using assms
proof (induction ds arbitrary: c h f)
  case (Cons d ds)
  have d: "d \<noteq> []" using Cons.prems by auto
  obtain r c1 h1 f1 where e: "amqp_handle_input p0 c d h f = (r, c1, h1, f1)" by (metis prod_cases4)
  show ?case
  proof (cases "incomplete (r, c1, h1, f1)")
    case False
    with handle_input_stop [OF Cons.prems(1) d, of p0 f "concat ds"] e show ?thesis
      by (cases r) (auto simp: incomplete_def)
  next
    case True
    then obtain k where r: "r = Returns k" and s: "state c1 \<noteq> CONNECTION_STATE_IDLE" by (auto simp: incomplete_def)
    have ok1: "input_ok c1 h1" using handle_input_ok(1) [OF Cons.prems(1), of p0 d f] e r by (simp add: stays_ok_def)
    show ?thesis
    proof (cases "ds = []")
      case True
      have "f1\<lparr>frame_type := 0\<rparr> = f1"
        using incomplete_frame [OF Cons.prems(1) d e [unfolded r] s] by simp
      then show ?thesis using True e r s by simp
    next
      case False
      have "concat ds \<noteq> []" using Cons.prems(2) False by (cases ds) auto
      with handle_input_append [OF Cons.prems(1) e [unfolded r] s d this] Cons.IH [OF ok1 _ False] Cons.prems(2) s e r
      show ?thesis by simp
    qed
  qed
qed simp

section \<open>Releasing\<close>

lemma release_cases:
  assumes r: "amqp_maybe_release_buffers_on_channel c ch h = (c', h')"
  obtains (kept) "c' = c" "h' = h"
  | (recycled) pool pool' where "state c = CONNECTION_STATE_IDLE" "amqp_get_channel_pool c ch = Some pool"
      "recycle_amqp_pool pool h = (pool', h')" "c' = set_channel_pool ch pool' c"
proof (cases "state c \<noteq> CONNECTION_STATE_IDLE \<or> (\<exists>f \<in> set (first_queued_frame c). channel f = ch)")
  case True
  then have "amqp_maybe_release_buffers_on_channel c ch h = (c, h)"
    unfolding amqp_maybe_release_buffers_on_channel_def by metis
  with r show thesis by (intro kept) simp_all
next
  case False
  show thesis
  proof (cases "amqp_get_channel_pool c ch")
    case None
    with r False have "c' = c" "h' = h" by (auto simp: amqp_maybe_release_buffers_on_channel_def)
    then show thesis by (rule kept)
  next
    case (Some pool)
    obtain pool' h1 where "recycle_amqp_pool pool h = (pool', h1)" by fastforce
    with r False Some show thesis
      by (intro recycled [of pool pool']) (auto simp: amqp_maybe_release_buffers_on_channel_def)
  qed
qed

text \<open>Releasing happens between frames only, when the buffer of the input is not in use.\<close>

lemma release_input_ok:
  assumes ok: "input_ok c h" and r: "amqp_maybe_release_buffers_on_channel c ch h = (c', h')"
  shows "input_ok c' h'"
  using r
proof (cases rule: release_cases)
  case (recycled pool pool')
  note P = input_okD(2) [OF ok]
  note R = recycle_amqp_pool_ok [OF pools_okD(3) [OF P recycled(2)] recycled(3)]
  have "bl_owned (large_blocks pool) \<subseteq> pool_touched pool" "pool_touched pool' \<subseteq> pool_touched pool"
    using R by (auto simp: pool_touched_def pool_owned_def)
  then have "pool_step pool h pool' h'" using R by (auto simp: pool_step_def)
  from pools_ok_step [OF P recycled(2) this] have "pools_ok c' h'" by (simp add: recycled(4))
  with ok recycled(1) show ?thesis
    by (simp add: input_ok_def base_ok_def recycled(4)) (simp add: set_channel_pool_def)
qed (use ok in simp)

end
