(* ===== verification/Connection_Memory.thy ===== *)
theory Connection_Memory
  imports Amqp_Lifecycle Input_Machine
begin

text \<open>
  The memory of a connection over its life: what it owns stays apart while it receives and
  releases frames, and destroying it frees exactly that.
\<close>

section \<open>Receiving\<close>

text \<open>
  \<open>owned C S c h\<close>: the blocks of the connection \<open>C\<close> are apart when its fields are \<open>c\<close>, and as
  long as no allocation is refused the blocks that are not its own are \<open>S\<close>.
\<close>

abbreviation owned :: "amqp_connection \<Rightarrow> nat set \<Rightarrow> amqp_connection_state_t \<Rightarrow> heap \<Rightarrow> bool" where
  "owned C S c h \<equiv> connection_ok (C\<lparr>obj := c\<rparr>) h \<and> (roomy h \<longrightarrow> strangers (C\<lparr>obj := c\<rparr>) h = S)"

text \<open>After undefined behaviour nothing is said about the blocks that are not owned.\<close>

definition still_owned :: "amqp_connection \<Rightarrow> nat set \<Rightarrow> input_result \<Rightarrow> bool" where
  "still_owned C S res \<longleftrightarrow> (case res of (r, c, h, f) \<Rightarrow>
     connection_ok (C\<lparr>obj := c\<rparr>) h \<and>
     (defined_result r \<longrightarrow> roomy h \<longrightarrow> strangers (C\<lparr>obj := c\<rparr>) h = S))"

lemma still_owned_simp: "owned C S c h \<Longrightarrow> still_owned C S (r, c, h, f)"
  by (simp add: still_owned_def)

lemma owned_cong:
  assumes "pool_table c' = pool_table c" and "outbound_block c' = outbound_block c"
    and "sock_inbound_block c' = sock_inbound_block c" and "properties_pool c' = properties_pool c"
    and "live h' = live h" and "next_id h' = next_id h" and "bad_free h' = bad_free h" and "fails h' = fails h"
  shows "owned C S c' h' = owned C S c h"
proof -
  have "connection_ok (C\<lparr>obj := c'\<rparr>) h' = connection_ok (C\<lparr>obj := c\<rparr>) h"
    by (rule connection_ok_cong) (use assms in simp_all)
  moreover have "strangers (C\<lparr>obj := c'\<rparr>) h' = strangers (C\<lparr>obj := c\<rparr>) h"
    using assms by (simp add: strangers_def connection_blocks_def parts_def other_parts_def)
  ultimately show ?thesis using roomy_cong [OF assms(8)] by simp
qed

lemma owned_write: "owned C S c (h\<lparr>content := x\<rparr>) = owned C S c h"
  by (rule owned_cong) simp_all

lemma owned_idle: "owned C S (return_to_idle c) h = owned C S c h"
  by (rule owned_cong) (simp_all add: return_to_idle_def)

lemma owned_fill: "owned C S (fill c w) (fill_heap c w h) = owned C S c h"
  by (rule owned_cong) (auto simp: fill_def fill_heap_def split: inbound_t.splits)

lemma owned_get_or_create:
  assumes "owned C S c h" and "base_ok c h" and "amqp_get_or_create_channel_pool c ch h = (r, c', h')"
  shows "owned C S c' h'"
proof -
  have P: "pools_ok c h" using assms(2) by (simp add: base_ok_def)
  show ?thesis
    using connection_ok_get_or_create [of "C\<lparr>obj := c\<rparr>" h ch r c' h'] assms pools_okD(1) [OF P]
      roomy_cong [OF get_or_create_ok(4) [OF P assms(3)]]
    by simp
qed

lemma owned_in_pool:
  assumes o: "owned C S c h" and p: "pools_ok c h" and g: "amqp_get_channel_pool c ch = Some pool"
    and p': "pool_ok pool' h'" "fails h' = fails h" "live h - pool_owned pool \<subseteq> live h' - pool_owned pool'"
  shows "connection_ok (C\<lparr>obj := set_channel_pool ch pool' c\<rparr>) h'"
    and "(roomy h \<Longrightarrow> live h' - pool_owned pool' = live h - pool_owned pool) \<Longrightarrow> owned C S (set_channel_pool ch pool' c) h'"
proof -
  show k: "connection_ok (C\<lparr>obj := set_channel_pool ch pool' c\<rparr>) h'"
    using connection_ok_in_pool [of "C\<lparr>obj := c\<rparr>" h ch pool pool' h'] o pools_okD(1) [OF p] g p' by simp
  show "owned C S (set_channel_pool ch pool' c) h'"
    if "roomy h \<Longrightarrow> live h' - pool_owned pool' = live h - pool_owned pool"
    using k that strangers_in_pool [of "C\<lparr>obj := c\<rparr>" ch pool h' pool' h] o pools_okD(1) [OF p] g roomy_cong [OF p'(2)]
    by simp
qed

lemma owned_alloc:
  assumes o: "owned C S c h" and p: "pools_ok c h" and g: "amqp_get_channel_pool c ch = Some pool"
    and a: "amqp_pool_alloc pool n h = (r, pool', h')"
  shows "owned C S (set_channel_pool ch pool' c) h'"
proof -
  note ok = pools_okD(3) [OF p g]
  show ?thesis
    by (rule owned_in_pool(2) [OF o p g pool_alloc_invariant [OF ok a] fails_pool_alloc [OF a]])
      (use pool_alloc_foreign [OF ok a] in blast)+
qed

lemma owned_payload:
  assumes o: "owned C S c h" and b: "base_ok c h" and g: "amqp_get_channel_pool c (channel f) = Some pool"
    and d: "dec_mem d"
  shows "still_owned C S (decode_payload d wrap encoded pool n c h f)"
proof -
  obtain r s where ds: "d encoded \<lparr>doff = 0, dpool = pool, dheap = h\<rparr> = (r, s)" by fastforce
  have P: "pools_ok c h" using b by (simp add: base_ok_def)
  have m: "mem_step {} \<lparr>doff = 0, dpool = pool, dheap = h\<rparr> (defined_result r) s"
    by (rule dec_memD [OF d _ ds]) (simp add: pools_okD(3) [OF P g])
  then have s: "pool_ok (dpool s) (dheap s)" "fails (dheap s) = fails h"
      "live h - pool_owned pool \<subseteq> live (dheap s) - pool_owned (dpool s)"
    by (auto simp: mem_step_def foreign_def)
  note K = owned_in_pool [OF o P g s]
  have "defined_result r \<Longrightarrow> owned C S (set_channel_pool (channel f) (dpool s) c) (dheap s)"
    by (rule K(2)) (use m in \<open>auto simp: mem_step_def foreign_def\<close>)
  with K(1) owned_idle [where C = C and S = S and c = "set_channel_pool (channel f) (dpool s) c" and h = "dheap s"] show ?thesis
    by (cases r) (simp_all add: decode_payload_def ds Let_def still_owned_def)
qed

lemma owned_raw_frame:
  assumes "owned C S c h" and "base_ok c h" and "amqp_get_channel_pool c (channel f) = Some pool"
  shows "still_owned C S (decode_raw_frame p0 raw pool n c h f)"
  using owned_payload [OF assms dec_mem_method] owned_payload [OF assms dec_mem_properties] assms(1)
    owned_idle [where C = C and S = S and c = c and h = h]
  by (simp add: decode_raw_frame_def decode_method_frame_def decode_header_frame_def Let_def still_owned_simp)

lemma owned_body:
  assumes o: "owned C S c h" and b: "base_ok c h"
  shows "still_owned C S (handle_body p0 n c h f)"
proof (cases "inbound_buffer c")
  case (In_pool a)
  obtain bl base where a: "a = (bl, base)" by fastforce
  let ?raw = "chunk base (target_size c) (content h bl)"
  let ?f = "f\<lparr>frame_type := amqp_d8 is_bigendian (chunk 0 1 ?raw), channel := amqp_d16 is_bigendian (chunk 1 2 ?raw)\<rparr>"
  obtain r c1 h1 where g: "amqp_get_or_create_channel_pool c (channel ?f) h = (r, c1, h1)"
    by (metis prod_cases3)
  note B = get_or_create_base_ok [OF b g]
  have o1: "owned C S c1 h1" by (rule owned_get_or_create [OF o b g])
  show ?thesis
  proof (cases r)
    case (Some pool)
    then have "amqp_get_channel_pool c1 (channel ?f) = Some pool" by (rule B(2))
    from owned_raw_frame [OF o1 B(1) this] show ?thesis
      using g Some o unfolding handle_body_def In_pool a by (simp add: Let_def still_owned_simp)
  qed (use o o1 g In_pool a in \<open>simp add: handle_body_def Let_def still_owned_simp\<close>)
qed (use o in \<open>simp_all add: handle_body_def still_owned_simp\<close>)

lemma owned_open_frame:
  assumes o: "owned C S c h" and b: "base_ok c h" and e: "open_frame c h = (r, c', h')"
  shows "owned C S c' h'"
proof -
  let ?ch = "amqp_d16 is_bigendian (chunk 1 2 (header_buffer c))"
  let ?size = "unat (amqp_d32 is_bigendian (chunk 3 4 (header_buffer c)))"
  let ?c1 = "c\<lparr>target_size := ?size + HEADER_SIZE + FOOTER_SIZE\<rparr>"
  have b1: "base_ok ?c1 h" using b pools_ok_cong [of ?c1 c] by (simp add: base_ok_def)
  have o1: "owned C S ?c1 h" using o owned_cong [where c' = ?c1 and c = c and h' = h and h = h and C = C and S = S] by simp
  obtain q c2 h2 where g: "amqp_get_or_create_channel_pool ?c1 ?ch h = (q, c2, h2)"
    by (metis prod_cases3)
  note B = get_or_create_base_ok [OF b1 g]
  have o2: "owned C S c2 h2" by (rule owned_get_or_create [OF o1 b1 g])
  show ?thesis
  proof (cases q)
    case None
    with e g have "c' = c \<and> h' = h \<or> c' = ?c1 \<and> h' = h \<or> c' = c2 \<and> h' = h2"
      by (auto simp: open_frame_def Let_def split: if_splits)
    with o o1 o2 show ?thesis by blast
  next
    case (Some pool)
    obtain p pool3 h3 where a: "amqp_pool_alloc pool (target_size c2) h2 = (p, pool3, h3)"
      by (metis prod_cases3)
    let ?c3 = "set_channel_pool ?ch pool3 c2"
    have P2: "pools_ok c2 h2" using B(1) by (simp add: base_ok_def)
    have o3: "owned C S ?c3 h3" by (rule owned_alloc [OF o2 P2 B(2) [OF Some] a])
    from e g a Some have "c' = c \<and> h' = h \<or> c' = ?c1 \<and> h' = h \<or>
        pool_table c' = pool_table ?c3 \<and> outbound_block c' = outbound_block ?c3 \<and>
        sock_inbound_block c' = sock_inbound_block ?c3 \<and> properties_pool c' = properties_pool ?c3 \<and>
        live h' = live h3 \<and> next_id h' = next_id h3 \<and> bad_free h' = bad_free h3 \<and> fails h' = fails h3"
      by (auto simp: open_frame_def Let_def amqp_pool_alloc_bytes_def split: if_splits option.splits)
    with o o1 o3 owned_cong [where c' = c' and c = ?c3 and h' = h' and h = h3 and C = C and S = S] show ?thesis by blast
  qed
qed

lemma owned_collect:
  assumes o: "owned C S c h" and b: "base_ok c h" "own_buffer c h" "state c = CONNECTION_STATE_BODY"
    and le: "HEADER_SIZE \<le> inbound_offset c" "inbound_offset c \<le> target_size c"
  shows "still_owned C S (collect_body p0 n d c h f)"
proof -
  let ?m = "min (length d) (target_size c - inbound_offset c)"
  let ?c = "fill c (take ?m d)" and ?h = "fill_heap c (take ?m d) h"
  have e: "consume_data c d h = Some (?m, drop ?m d, ?c, ?h)"
    by (rule consume_room [OF own_buffer_room [OF b(2) le(2)] refl])
  have "base_ok ?c ?h" by (rule fill_ok(1) [OF b(1,3,2) le(1)]) (use le(2) in simp)
  moreover have o1: "owned C S ?c ?h" unfolding owned_fill by (rule o)
  ultimately show ?thesis
    using owned_body still_owned_simp [OF o1] by (simp add: collect_body_def e del: fill_simps)
qed

lemma owned_header:
  assumes o: "owned C S c h" and b: "base_ok c h"
    and le: "HEADER_SIZE \<le> inbound_offset c" "inbound_offset c \<le> HEADER_SIZE + FOOTER_SIZE"
  shows "still_owned C S (handle_header p0 n d c h f)"
proof -
  obtain r c' h' where e: "open_frame c h = (r, c', h')" by (metis prod_cases3)
  have o': "owned C S c' h'" by (rule owned_open_frame [OF o b e])
  show ?thesis
  proof (cases r)
    case None
    with open_frame_ok [OF b e] have p: "opened c c' h'" by simp
    have "still_owned C S (collect_body p0 n d c' h' f)"
      by (rule owned_collect [OF o']) (use p le in \<open>auto simp: opened_def frame_total_def\<close>)
    with e None show ?thesis by (simp add: handle_header_def)
  qed (use e o' in \<open>simp add: handle_header_def still_owned_simp\<close>)
qed

lemma owned_input:
  assumes o: "owned C S c h" and ok: "input_ok c h"
  shows "still_owned C S (amqp_handle_input p0 c d h f)"
proof (cases "d = []")
  case True
  with o show ?thesis by (simp add: amqp_handle_input_def still_owned_simp Let_def)
next
  case False
  let ?c = "begin_input c" and ?f = "f\<lparr>frame_type := 0\<rparr>"
  let ?n = "min (length d) (target_size ?c - inbound_offset ?c)"
  let ?c1 = "fill ?c (take ?n d)" and ?h1 = "fill_heap ?c (take ?n d) h"
  have "owned C S ?c h" using o owned_cong [where c' = ?c and c = c and h' = h and h = h and C = C and S = S] by (simp add: begin_input_def)
  then have o1: "owned C S ?c1 ?h1" unfolding owned_fill .
  have ok1: "input_ok ?c h" by (rule begin_input_ok [OF ok])
  have le: "inbound_offset ?c < target_size ?c" using input_okD(4) [OF ok1] .
  have b: "base_ok ?c1 ?h1" by (rule base_ok_fill [OF ok1]) (use le in auto)
  have "still_owned C S (advance p0 ?c d h ?f)"
  proof (cases "inbound_offset ?c + length d < target_size ?c")
    case True
    then have "?n = length d" by simp
    with True still_owned_simp [OF o1] show ?thesis by (simp add: advance_def Let_def)
  next
    case False
    then have full: "inbound_offset ?c1 = target_size ?c" using le by auto
    have e: "advance p0 ?c d h ?f = (case state ?c of
       CONNECTION_STATE_INITIAL \<Rightarrow> handle_initial p0 ?n (drop ?n d) ?c1 ?h1 ?f
     | CONNECTION_STATE_HEADER \<Rightarrow> handle_header p0 ?n (drop ?n d) ?c1 ?h1 ?f
     | _ \<Rightarrow> handle_body p0 ?n ?c1 ?h1 ?f)" using False by (simp only: advance_def Let_def if_False)
    have "owned C S (return_to_idle ?c1) ?h1" unfolding owned_idle by (rule o1)
    then have "still_owned C S (handle_initial p0 ?n (drop ?n d) ?c1 ?h1 ?f)"
      if "HEADER_SIZE \<le> inbound_offset ?c1" "inbound_offset ?c1 \<le> HEADER_SIZE + FOOTER_SIZE"
      using owned_header [OF o1 b that, of p0 ?n "drop ?n d" ?f]
      by (simp add: handle_initial_def Let_def still_owned_simp)
    with owned_header [OF o1 b, of p0 ?n "drop ?n d" ?f] owned_body [OF o1 b, of p0 ?n ?f] full ok1
    show ?thesis unfolding e
      by (cases "state ?c") (simp_all add: input_ok_def frame_sizes)
  qed
  then show ?thesis by (simp add: handle_input_advance [OF ok False])
qed

section \<open>Releasing\<close>

lemma owned_release:
  assumes o: "owned C S c h" and ok: "input_ok c h"
    and r: "amqp_maybe_release_buffers_on_channel c ch h = (c', h')"
  shows "owned C S c' h'"
  using r
proof (cases rule: release_cases)
  case (recycled pool pool')
  note p = input_okD(2) [OF ok]
  note rec = recycle_amqp_pool_ok [OF pools_okD(3) [OF p recycled(2)] recycled(3)]
  have "live h' - pool_owned pool' = live h - pool_owned pool"
    using rec pool_owned_live [OF pools_okD(3) [OF p recycled(2)]] by (auto simp: pool_owned_def)
  then show ?thesis
    unfolding recycled(4) using rec by (intro owned_in_pool(2) [OF o p recycled(2)]) auto
qed (use o in simp)

section \<open>A whole life\<close>

text \<open>
  What the owner of a connection may do between creating and destroying it: give it data
  that was received, and release the memory of a channel.  The sequence ends at the first
  error; the last component says that nothing undefined has happened.
\<close>

datatype event = Receive "byte list" | Release amqp_channel_t

fun run_events ::
  "amqp_basic_properties_t \<Rightarrow> event list \<Rightarrow> amqp_connection_state_t \<Rightarrow> heap \<Rightarrow> amqp_frame_t \<Rightarrow>
    bool \<times> amqp_connection_state_t \<times> heap" where
  "run_events p0 [] c h f = (True, c, h)"
| "run_events p0 (Receive d # es) c h f =
    (case amqp_handle_input p0 c d h f of (r, c', h', f') \<Rightarrow>
      case r of
        Returns n \<Rightarrow> run_events p0 es c' h' f'
      | Fails err \<Rightarrow> (True, c', h')
      | _ \<Rightarrow> (False, c', h'))"
| "run_events p0 (Release ch # es) c h f =
    (case amqp_maybe_release_buffers_on_channel c ch h of (c', h') \<Rightarrow> run_events p0 es c' h' f)"

lemma owned_events:
  assumes "owned C S c h" and "input_ok c h" and "run_events p0 es c h f = (defined, c', h')"
  shows "connection_ok (C\<lparr>obj := c'\<rparr>) h' \<and> (defined \<longrightarrow> roomy h' \<longrightarrow> strangers (C\<lparr>obj := c'\<rparr>) h' = S)"
  using assms
proof (induction p0 es c h f rule: run_events.induct)
  case (2 p0 d es c h f)
  obtain r c1 h1 f1 where e: "amqp_handle_input p0 c d h f = (r, c1, h1, f1)" by (metis prod_cases4)
  have o: "still_owned C S (r, c1, h1, f1)" using owned_input [OF 2(2,3), of p0 d f] by (simp add: e)
  show ?case
  proof (cases r)
    case (Returns n)
    have "input_ok c1 h1" using handle_input_ok(1) [OF 2(3), of p0 d f] by (simp add: e Returns stays_ok_def)
    from 2(1) [OF e [symmetric] refl refl Returns _ this] show ?thesis
      using o 2(4) by (simp add: e Returns still_owned_def)
  qed (use o 2(4) e in \<open>auto simp: still_owned_def\<close>)
next
  case (3 p0 ch es c h f)
  obtain c1 h1 where e: "amqp_maybe_release_buffers_on_channel c ch h = (c1, h1)" by fastforce
  from 3(1) [OF e [symmetric] owned_release [OF 3(2,3) e] release_input_ok [OF 3(3) e]] 3(4) show ?case
    by (simp add: e)
qed simp

lemma new_input_ok:
  assumes "heap_ok h" and n: "amqp_new_connection h = (Some c, h')"
  shows "input_ok (obj c) h'"
  using n
proof (cases rule: new_connection_cases)
  case made
  then have c: "obj c = obj (new_object (next_id h) (Suc (next_id h)) (Suc (Suc (next_id h))))" by simp
  have "heap_ok h'" using assms made by (auto simp: heap_ok_def)
  moreover have "amqp_get_channel_pool (obj c) ch = None" for ch
    by (simp add: c new_object_def zeroed_connection_def amqp_get_channel_pool_def pool_index_def POOL_TABLE_SIZE_def)
  ultimately have "pools_ok (obj c) h'"
    by (simp add: pools_ok_def table_ok_def) (simp add: c new_object_def zeroed_connection_def)
  then show ?thesis
    by (simp add: input_ok_def base_ok_def) (simp add: c new_object_def zeroed_connection_def frame_sizes)
qed simp_all

lemma destroy_frees:
  assumes ok: "connection_ok c h" and d: "amqp_destroy_connection (Some c) h = (status, closed, h')"
  shows "status = AMQP_STATUS_OK \<and> live h' = strangers c h \<and> \<not> bad_free h' \<and> heap_ok h' \<and>
    closed = (case socket c of Some s \<Rightarrow> if socket_fd s = -1 then [] else [socket_fd s] | None \<Rightarrow> [])"
proof -
  have b: "connection_blocks c \<subseteq> live h" "heap_ok h" using ok by (simp_all add: connection_ok_def)
  have h': "h' = snd (snd (amqp_destroy_connection (Some c) h))" using d by simp
  have "status = AMQP_STATUS_OK" using d by (simp add: amqp_destroy_connection_def)
  moreover have "closed = (case socket c of Some s \<Rightarrow> if socket_fd s = -1 then [] else [socket_fd s] | None \<Rightarrow> [])"
    using d by (auto simp: amqp_destroy_connection_def Let_def amqp_socket_delete_def amqp_tcp_socket_delete_def
        split: prod.splits option.splits if_splits)
  moreover note releasesD(1-3) [OF releases_connection [OF ok] b(1), folded h']
  ultimately show ?thesis using b(2) by (auto simp: strangers_def heap_ok_def)
qed

text \<open>A freed block that is freed again is noticed, whatever follows.\<close>

lemma bad_free_stays:
  "bad_free h \<Longrightarrow> bad_free (free p h)" "bad_free h \<Longrightarrow> bad_free (snd (amqp_socket_delete s h))"
  "bad_free h \<Longrightarrow> bad_free (snd (empty_amqp_pool pool h))"
proof -
  show f: "bad_free h \<Longrightarrow> bad_free (free p h)" for p h by (simp add: free_def split: option.split)
  then show "bad_free h \<Longrightarrow> bad_free (snd (amqp_socket_delete s h))"
    by (simp add: amqp_socket_delete_def amqp_tcp_socket_delete_def split: option.split)
  have "bad_free h \<Longrightarrow> bad_free (free_all bs h)" for bs h
    by (induction bs h rule: free_all.induct) (simp_all add: f)
  then have "bad_free h \<Longrightarrow> bad_free (snd (empty_blocklist x h))" for x h
    by (simp add: empty_blocklist_def f)
  then show "bad_free h \<Longrightarrow> bad_free (snd (empty_amqp_pool pool h))"
    by (simp add: empty_amqp_pool_def recycle_amqp_pool_def split: prod.splits) (metis snd_conv)
qed

section \<open>Properties\<close>

definition first_heap :: "(nat \<Rightarrow> nat \<Rightarrow> bool) \<Rightarrow> heap" where
  "first_heap fails' = \<lparr>next_id = 0, fails = fails', live = {}, bad_free = False, content = \<lambda>_. []\<rparr>"

lemma first_heap_ok [simp]: "heap_ok (first_heap fails')"
  by (simp add: first_heap_def heap_ok_def)

lemmas new_eval = new_connection_allocs calloc_def malloc_def Let_def first_heap_def free_def



text \<open>
  C10: A connection keeps its memory together: whatever it receives, releases, is tuned to
  (but for \<open>frame_max\<close> 0) or gets as its socket, no two parts of it share a block, every
  block it owns is live, and no block was freed that was not.
\<close>

theorem connection_memory_kept:
  assumes "connection_ok c h" and "input_ok (obj c) h"
  shows "(\<forall>p0 d f. case amqp_handle_input p0 (obj c) d h f of (r, c', h', f') \<Rightarrow> connection_ok (c\<lparr>obj := c'\<rparr>) h') \<and>
    (\<forall>ch. case amqp_maybe_release_buffers_on_channel (obj c) ch h of (c', h') \<Rightarrow> connection_ok (c\<lparr>obj := c'\<rparr>) h') \<and>
    (\<forall>t t' cm fm hb. size_t_of_int fm = 0 \<or> (case amqp_tune_connection t t' cm fm hb (obj c) h of
        None \<Rightarrow> state (obj c) \<noteq> CONNECTION_STATE_IDLE \<or> 2 ^ 30 \<le> hb
      | Some (res, c', h') \<Rightarrow> connection_ok (c\<lparr>obj := c'\<rparr>) h')) \<and>
    (case amqp_tcp_socket_new c h of (s, closed, c', h') \<Rightarrow> connection_ok c' h')"
proof (intro conjI allI)
  have o: "owned c (strangers c h) (obj c) h" using assms(1) by simp
  show "case amqp_handle_input p0 (obj c) d h f of (r, c', h', f') \<Rightarrow> connection_ok (c\<lparr>obj := c'\<rparr>) h'" for p0 d f
    using owned_input [OF o assms(2), of p0 d f] by (auto simp: still_owned_def split: prod.splits)
  show "case amqp_maybe_release_buffers_on_channel (obj c) ch h of (c', h') \<Rightarrow> connection_ok (c\<lparr>obj := c'\<rparr>) h'" for ch
    using owned_release [OF o assms(2)] by (auto split: prod.splits)
  show "size_t_of_int fm = 0 \<or> (case amqp_tune_connection t t' cm fm hb (obj c) h of
        None \<Rightarrow> state (obj c) \<noteq> CONNECTION_STATE_IDLE \<or> 2 ^ 30 \<le> hb
      | Some (res, c', h') \<Rightarrow> connection_ok (c\<lparr>obj := c'\<rparr>) h')" for t t' cm fm hb
  proof (cases "amqp_tune_connection t t' cm fm hb (obj c) h")
    case None
    then show ?thesis by (auto simp: amqp_tune_connection_def amqp_heartbeat_recv_def Let_def split: if_splits option.splits prod.splits)
  next
    case (Some x)
    then obtain res c' h' where x: "amqp_tune_connection t t' cm fm hb (obj c) h = Some (res, c', h')" by (cases x) auto
    show ?thesis
    proof (cases "size_t_of_int fm = 0")
      case False
      with connection_ok_tune [OF assms(1) x] x show ?thesis by simp
    qed simp
  qed
  show "case amqp_tcp_socket_new c h of (s, closed, c', h') \<Rightarrow> connection_ok c' h'"
    using connection_ok_socket_new [OF assms(1)] by (auto split: prod.splits)
qed

theorem connection_memory_kept_witness:
  "\<exists>c h. amqp_new_connection (first_heap (\<lambda>k n. False)) = (Some c, h) \<and>
    (case amqp_tcp_socket_new c h of (s, closed, c', h') \<Rightarrow> connection_ok c' h')"
proof -
  obtain h1 where 1: "amqp_new_connection (first_heap (\<lambda>k n. False)) = (Some (new_object 0 (Suc 0) (Suc (Suc 0))), h1)"
    by (simp add: new_eval)
  have "connection_ok (new_object 0 (Suc 0) (Suc (Suc 0))) h1" "input_ok (obj (new_object 0 (Suc 0) (Suc (Suc 0)))) h1"
    using new_connection_some [OF first_heap_ok 1] new_input_ok [OF first_heap_ok 1] by simp_all
  note K = connection_memory_kept [OF this]
  have "case amqp_tcp_socket_new (new_object 0 (Suc 0) (Suc (Suc 0))) h1 of (s, closed, c', h') \<Rightarrow> connection_ok c' h'"
    using K by (elim conjE)
  with 1 show ?thesis by (intro exI conjI)
qed

text \<open>
  C9: Nothing is lost and nothing is freed twice over the life of a connection: after it was
  created, was given any data in any pieces, released its channels at any time, up to the
  first error, and was destroyed, the live blocks are those from before, as long as no
  allocation was refused and the data led to nothing undefined.
\<close>

theorem connection_life_leaks_nothing:
  assumes "heap_ok h" and "amqp_new_connection h = (Some c, h1)"
    and "run_events p0 es (obj c) h1 f = (True, c', h2)" and "roomy h2"
    and "amqp_destroy_connection (Some (c\<lparr>obj := c'\<rparr>)) h2 = (status, closed, h3)"
  shows "status = AMQP_STATUS_OK \<and> live h3 = live h \<and> \<not> bad_free h3"
proof -
  note N = new_connection_some [OF assms(1,2)]
  have "strangers c h1 = live h" using N by (auto simp: strangers_def)
  with N have "owned c (live h) (obj c) h1" by simp
  from owned_events [OF this new_input_ok [OF assms(1,2)] assms(3)] assms(4)
  have "connection_ok (c\<lparr>obj := c'\<rparr>) h2" "strangers (c\<lparr>obj := c'\<rparr>) h2 = live h" by simp_all
  with destroy_frees [OF this(1) assms(5)] show ?thesis by simp
qed

abbreviation protocol_header :: "byte list" where
  "protocol_header \<equiv> [65, 77, 81, 80, 0, 0, 9, 1]"

theorem connection_life_leaks_nothing_witness:
  "\<forall>p0 f. \<exists>c h1 c' h2 closed h3. amqp_new_connection (first_heap (\<lambda>k n. False)) = (Some c, h1) \<and>
    run_events p0 [Receive protocol_header, Release 0] (obj c) h1 f = (True, c', h2) \<and>
    amqp_destroy_connection (Some (c\<lparr>obj := c'\<rparr>)) h2 = (AMQP_STATUS_OK, closed, h3) \<and> live h3 = {}"
proof (intro allI)
  fix p0 :: amqp_basic_properties_t and f :: amqp_frame_t
  let ?c = "new_object 0 (Suc 0) (Suc (Suc 0))"
  obtain h1 where 1: "amqp_new_connection (first_heap (\<lambda>k n. False)) = (Some ?c, h1)" "fails h1 = (\<lambda>k n. False)"
    by (simp add: new_eval)
  obtain c' where 2: "run_events p0 [Receive protocol_header, Release 0] (obj ?c) h1 f = (True, c', h1)"
    by (simp add: new_object_def zeroed_connection_def amqp_handle_input_def consume_data_def size_t_sub_def Let_def
        handle_initial_def AMQP_magic_def chunk_def write_at_def frame_sizes return_to_idle_def
        amqp_maybe_release_buffers_on_channel_def amqp_get_channel_pool_def pool_index_def POOL_TABLE_SIZE_def)
  obtain s closed h3 where 3: "amqp_destroy_connection (Some (?c\<lparr>obj := c'\<rparr>)) h1 = (s, closed, h3)"
    by (metis prod_cases3)
  have "roomy h1" using 1(2) by (simp add: roomy_def)
  from connection_life_leaks_nothing [OF first_heap_ok 1(1) 2 this 3] 1 2 3
  show "\<exists>c h1 c' h2 closed h3. amqp_new_connection (first_heap (\<lambda>k n. False)) = (Some c, h1) \<and>
    run_events p0 [Receive protocol_header, Release 0] (obj c) h1 f = (True, c', h2) \<and>
    amqp_destroy_connection (Some (c\<lparr>obj := c'\<rparr>)) h2 = (AMQP_STATUS_OK, closed, h3) \<and> live h3 = {}"
    by (auto simp: first_heap_def)
qed

text \<open>
  C40: Tuning a connection to \<open>frame_max\<close> 0 is answered with an error, and after it the
  connection cannot be destroyed: the outbound buffer was freed by \<open>realloc\<close> and is freed
  again (with a C library whose \<open>realloc\<close> frees a block that is resized to 0 bytes).
\<close>

theorem tune_zero_then_destroy:
  assumes "connection_ok c h" and "state (obj c) = CONNECTION_STATE_IDLE" and "outbound_block (obj c) = Some b"
  shows "\<exists>c' h' closed h''. amqp_tune_connection now now' cm 0 0 (obj c) h = Some (AMQP_STATUS_NO_MEMORY, c', h') \<and>
    amqp_destroy_connection (Some (c\<lparr>obj := c'\<rparr>)) h' = (AMQP_STATUS_OK, closed, h'') \<and> bad_free h''"
proof -
  from tune_zero_frees_twice [OF assms] obtain c' h' where
    t: "amqp_tune_connection now now' cm 0 0 (obj c) h = Some (AMQP_STATUS_NO_MEMORY, c', h')"
       "outbound_block c' = Some b" "h' = free (Some b) h" "pool_table c' = pool_table (obj c)" by blast
  let ?T = "\<Union> (set (table_parts (pool_table (obj c))))"
  note ok = assms(1) [unfolded connection_ok_def parts_def separate_append connection_blocks_def]
  have T: "?T \<subseteq> live h'" "b \<notin> live h'" using ok assms(3) t(3) by (auto simp: other_parts_def free_def)
  let ?h1 = "empty_table (pool_table c') h'"
  have "live ?h1 = live h' - ?T"
    unfolding t(4) by (rule releasesD(1) [OF releases_table T(1)]) (use ok in auto)
  with T(2) have "bad_free (free (Some b) ?h1)" by (simp add: free_def)
  then have "bad_free (snd (snd (amqp_destroy_connection (Some (c\<lparr>obj := c'\<rparr>)) h')))"
    by (simp add: amqp_destroy_connection_def Let_def case_prod_unfold t(2) bad_free_stays)
  moreover have "fst (amqp_destroy_connection (Some (c\<lparr>obj := c'\<rparr>)) h') = AMQP_STATUS_OK"
    by (simp add: amqp_destroy_connection_def)
  ultimately show ?thesis using t(1) by (metis prod.collapse)
qed

theorem tune_zero_then_destroy_witness:
  "\<exists>c h. amqp_new_connection (first_heap (\<lambda>k n. False)) = (Some c, h) \<and>
    (\<exists>c' h' closed h''. amqp_tune_connection 1 2 0 0 0 (return_to_idle (obj c)) h = Some (AMQP_STATUS_NO_MEMORY, c', h') \<and>
      amqp_destroy_connection (Some (c\<lparr>obj := c'\<rparr>)) h' = (AMQP_STATUS_OK, closed, h'') \<and> bad_free h'')"
proof -
  let ?c = "new_object 0 (Suc 0) (Suc (Suc 0))"
  obtain h1 where 1: "amqp_new_connection (first_heap (\<lambda>k n. False)) = (Some ?c, h1)"
    by (simp add: new_eval)
  have ok: "connection_ok (?c\<lparr>obj := return_to_idle (obj ?c)\<rparr>) h1"
    using new_connection_some [OF first_heap_ok 1] owned_idle [where C = ?c and c = "obj ?c" and h = h1 and S = "strangers ?c h1"]
      owned_idle [where C = ?c and c = "obj ?c" and h = h1 and S = "strangers (?c\<lparr>obj := return_to_idle (obj ?c)\<rparr>) h1"] by auto
  have "\<exists>c' h' closed h''. amqp_tune_connection 1 2 0 0 0 (return_to_idle (obj ?c)) h1 = Some (AMQP_STATUS_NO_MEMORY, c', h') \<and>
      amqp_destroy_connection (Some (?c\<lparr>obj := c'\<rparr>)) h' = (AMQP_STATUS_OK, closed, h'') \<and> bad_free h''"
    using tune_zero_then_destroy [OF ok, of 1 1 2 0] by (simp add: return_to_idle_def new_object_def)
  with 1 show ?thesis by blast
qed

end
