(* ===== verification/Input_Stream.thy ===== *)
theory Input_Stream
  imports Input_Machine
begin

text \<open>
  What \<open>amqp_handle_input\<close> computes: the specification \<open>stream_head\<close> says what a stream of
  bytes holds, and the state machine finds the same, from the bytes collected before
  (\<open>pending\<close>) and the new ones.
\<close>

section \<open>The bytes collected so far\<close>

definition pending :: "amqp_connection_state_t \<Rightarrow> heap \<Rightarrow> byte list" where
  "pending c h = (case inbound_buffer c of
     In_header_buffer \<Rightarrow> take (inbound_offset c) (header_buffer c)
   | In_pool (b, base) \<Rightarrow> chunk base (inbound_offset c) (content h b)
   | In_null \<Rightarrow> [])"

lemma take_write_at_end:
  "off + length w \<le> length buf \<Longrightarrow> take (off + length w) (write_at buf off w) = take off buf @ w"
  by (simp add: write_at_def)

lemma chunk_write_at_end:
  "base + off + length w \<le> length buf \<Longrightarrow>
    chunk base (off + length w) (write_at buf (base + off) w) = chunk base off buf @ w"
  by (cases w) (auto simp: chunk_def write_at_def min_def drop_take add.assoc)

lemma pending_fill:
  assumes "room c h" and "inbound_offset c + length w \<le> target_size c"
  shows "pending (fill c w) (fill_heap c w h) = pending c h @ w"
proof (cases "inbound_buffer c")
  case In_header_buffer
  then show ?thesis
    using assms take_write_at_end [of "inbound_offset c" w "header_buffer c"]
    by (simp add: pending_def fill_def fill_heap_def room_def)
next
  case (In_pool a)
  then show ?thesis
    using assms chunk_write_at_end [of "snd a" "inbound_offset c" w "content h (fst a)"]
    by (cases a) (simp add: pending_def fill_def fill_heap_def room_def)
next
  case In_null
  with assms show ?thesis by (simp add: room_def)
qed

lemma pending_length: "room c h \<Longrightarrow> length (pending c h) = inbound_offset c"
  by (auto simp: pending_def room_def split: inbound_t.splits)

lemma pending_idle: "input_ok c h \<Longrightarrow> state c = CONNECTION_STATE_IDLE \<Longrightarrow> pending c h = []"
  by (simp add: input_ok_def pending_def)

lemma pending_begin [simp]: "pending (begin_input c) h = pending c h"
  by (simp add: pending_def begin_input_def split: inbound_t.split)

section \<open>The stream of frames\<close>

text \<open>
  The specification: what a stream of bytes holds for a connection with a given
  \<open>frame_max\<close>.  It needs more bytes, or starts with a frame that is refused, or with a
  whole frame of some number of bytes.
\<close>

datatype stream_head = Need_more | Refused | Whole nat

definition stream_head :: "int \<Rightarrow> byte list \<Rightarrow> stream_head" where
  "stream_head fm s =
    (if length s < HEADER_SIZE then Need_more
     else if \<not> size_ok fm s then Refused
     else if length s < frame_total s then Need_more
     else Whole (frame_total s))"

text \<open>\<open>frame_in c h raw\<close>: the buffer of the connection holds the whole frame \<open>raw\<close>.\<close>

definition frame_in :: "amqp_connection_state_t \<Rightarrow> heap \<Rightarrow> byte list \<Rightarrow> bool" where
  "frame_in c h raw \<longleftrightarrow> base_ok c h \<and> length raw = frame_total raw \<and> target_size c = length raw \<and>
    (\<exists>b base. inbound_buffer c = In_pool (b, base) \<and> chunk base (length raw) (content h b) = raw)"

lemma frame_size_prefix: "HEADER_SIZE \<le> k \<Longrightarrow> frame_size (take k s) = frame_size s"
  by (simp add: frame_size_def chunk_def frame_sizes drop_take)

lemma frame_size_append: "HEADER_SIZE \<le> length s \<Longrightarrow> frame_size (s @ t) = frame_size s"
  by (simp add: frame_size_def chunk_def frame_sizes)

lemma own_buffer_pending:
  assumes "own_buffer c h" and "HEADER_SIZE \<le> inbound_offset c"
  shows "target_size c = frame_total (pending c h)" and "size_ok (frame_max c) (pending c h)"
proof -
  obtain b base where o: "inbound_buffer c = In_pool (b, base)"
      "target_size c = frame_total (chunk base HEADER_SIZE (content h b))"
      "size_ok (frame_max c) (chunk base HEADER_SIZE (content h b))"
    using assms(1) by (auto simp: own_buffer_def)
  have "frame_size (pending c h) = frame_size (chunk base HEADER_SIZE (content h b))"
    using frame_size_prefix [OF assms(2), of "drop base (content h b)"]
      frame_size_prefix [of HEADER_SIZE "drop base (content h b)"]
    by (simp add: pending_def o(1) chunk_def)
  with o show "target_size c = frame_total (pending c h)" and "size_ok (frame_max c) (pending c h)"
    by (simp_all add: frame_total_def size_ok_def)
qed

lemma frame_in_filled:
  assumes "base_ok c h" and "own_buffer c h" and o: "inbound_offset c = target_size c"
  shows "frame_in c h (pending c h)"
proof -
  have r: "room c h" using assms by (intro own_buffer_room) simp_all
  have l: "HEADER_SIZE \<le> inbound_offset c" using assms by (auto simp: own_buffer_def frame_total_def)
  obtain b base where "inbound_buffer c = In_pool (b, base)" using assms(2) by (auto simp: own_buffer_def)
  then show ?thesis
    using own_buffer_pending(1) [OF assms(2) l] pending_length [OF r] o assms(1)
    by (auto simp: frame_in_def pending_def)
qed

text \<open>Collecting the body of a frame, seen from the stream.\<close>

lemma collect_body_stream:
  assumes b: "base_ok c h" "own_buffer c h" "state c = CONNECTION_STATE_BODY"
    and o: "HEADER_SIZE \<le> inbound_offset c" "inbound_offset c \<le> target_size c"
  shows "case stream_head (frame_max c) (pending c h @ d) of
      Need_more \<Rightarrow> \<exists>c' h'. collect_body p0 n d c h f = (Returns (n + length d), c', h', f) \<and>
        pending c' h' = pending c h @ d \<and> state c' = CONNECTION_STATE_BODY \<and> fails h' = fails h
    | Refused \<Rightarrow> False
    | Whole k \<Rightarrow> \<exists>c' h'. collect_body p0 n d c h f = handle_body p0 (n + (k - length (pending c h))) c' h' f \<and>
        length (pending c h) \<le> k \<and> frame_in c' h' (take k (pending c h @ d)) \<and> fails h' = fails h"
proof -
  have r: "room c h" by (rule own_buffer_room [OF b(2) o(2)])
  note op = own_buffer_pending [OF b(2) o(1)]
  note pl = pending_length [OF r]
  have fs: "frame_size (pending c h @ d) = frame_size (pending c h)"
    using o(1) pl by (intro frame_size_append) simp
  then have T: "frame_total (pending c h @ d) = target_size c" and S: "size_ok (frame_max c) (pending c h @ d)"
    using op by (simp_all add: frame_total_def size_ok_def)
  let ?n = "min (length d) (target_size c - inbound_offset c)"
  have e: "consume_data c d h = Some (?n, drop ?n d, fill c (take ?n d), fill_heap c (take ?n d) h)"
    by (rule consume_room [OF r refl])
  show ?thesis
  proof (cases "inbound_offset c + length d < target_size c")
    case True
    have "stream_head (frame_max c) (pending c h @ d) = Need_more"
      using True T S pl o(1) by (simp add: stream_head_def)
    moreover have "?n = length d" using True by simp
    ultimately show ?thesis using True e b(3) pending_fill [OF r, of d] by (simp add: collect_body_def)
  next
    case False
    define m where "m = target_size c - inbound_offset c"
    have m: "?n = m" "m \<le> length d" "inbound_offset c + m = target_size c" using False o(2) by (simp_all add: m_def)
    let ?c = "fill c (take m d)" and ?h = "fill_heap c (take m d) h"
    have sh: "stream_head (frame_max c) (pending c h @ d) = Whole (target_size c)"
      using False T S pl o(1) by (simp add: stream_head_def)
    have le: "inbound_offset c + length (take m d) \<le> target_size c" using m by simp
    have "frame_in ?c ?h (pending ?c ?h)"
      by (rule frame_in_filled) (use fill_ok [OF b(1,3,2) o(1) le] m in simp_all)
    moreover have "pending ?c ?h = take (target_size c) (pending c h @ d)"
      using pending_fill [OF r le] m pl by simp
    moreover have "collect_body p0 n d c h f = handle_body p0 (n + m) ?c ?h f"
      using e m by (simp add: collect_body_def)
    ultimately show ?thesis using sh pl o(2) m
      by (auto intro!: exI [of _ ?c] exI [of _ ?h] simp: m_def)
  qed
qed


text \<open>Opening a frame when memory does not run out.\<close>

lemma get_or_create_fails:
  assumes "amqp_get_or_create_channel_pool c ch h = (r, c', h')"
  shows "fails h' = fails h"
  using assms by (cases rule: malloc_cases [of SIZEOF_POOL_TABLE_ENTRY h])
    (auto simp: amqp_get_or_create_channel_pool_def Let_def split: option.splits)

lemma get_or_create_roomy:
  assumes "amqp_get_or_create_channel_pool c ch h = (r, c', h')" and "roomy h"
  shows "\<exists>pool. r = Some pool"
proof (cases "amqp_get_channel_pool c ch")
  case None
  with assms show ?thesis
    by (cases rule: malloc_cases [of SIZEOF_POOL_TABLE_ENTRY h])
      (auto simp: amqp_get_or_create_channel_pool_def Let_def)
next
  case (Some pool)
  with assms(1) have "(Some pool, c, h) = (r, c', h')" by (simp add: amqp_get_or_create_channel_pool_def)
  then show ?thesis by auto
qed

lemma open_frame_roomy:
  assumes e: "open_frame c h = (r, c', h')" and room: "roomy h"
  shows "r = (if size_ok (frame_max c) (header_buffer c) then None else Some AMQP_STATUS_BAD_AMQP_DATA) \<and>
    frame_max c' = frame_max c \<and> fails h' = fails h"
proof -
  let ?ch = "amqp_d16 is_bigendian (chunk 1 2 (header_buffer c))"
  let ?c1 = "c\<lparr>target_size := frame_size (header_buffer c) + HEADER_SIZE + FOOTER_SIZE\<rparr>"
  have fs: "unat (amqp_d32 is_bigendian (chunk 3 4 (header_buffer c))) = frame_size (header_buffer c)"
    by (simp add: frame_size_def)
  show ?thesis
  proof (cases "size_ok (frame_max c) (header_buffer c)")
    case False
    with e show ?thesis
      by (auto simp: open_frame_def fs size_ok_def frame_total_def Let_def not_le not_less split: if_splits)
  next
    case True
    obtain q c2 h2 where g: "amqp_get_or_create_channel_pool ?c1 ?ch h = (q, c2, h2)" by (metis prod_cases3)
    obtain pool where q: "q = Some pool" using get_or_create_roomy [OF g room] by blast
    have h2: "fails h2 = fails h" by (rule get_or_create_fails [OF g])
    then have r2: "roomy h2" using room roomy_cong by blast
    obtain p pool3 h3 where a: "amqp_pool_alloc pool (target_size c2) h2 = (p, pool3, h3)" by (metis prod_cases3)
    have t2: "target_size c2 \<noteq> 0" "frame_max c2 = frame_max c"
      using arg_cong [OF get_or_create_fields [OF g], of target_size]
        arg_cong [OF get_or_create_fields [OF g], of frame_max] by (simp_all add: frame_sizes)
    obtain b base where "p = Some (b, base)" using pool_alloc_roomy [OF a r2] t2(1) by (cases p) auto
    with True e g q a h2 fails_pool_alloc [OF a] t2(2) show ?thesis
      by (auto simp: open_frame_def fs size_ok_def frame_total_def Let_def amqp_pool_alloc_bytes_def
          set_channel_pool_def simp del: not_le)
  qed
qed

lemma opened_pending:
  assumes "opened c c' h'" and "inbound_offset c = HEADER_SIZE"
  shows "pending c' h' = take HEADER_SIZE (header_buffer c)"
  using assms by (auto simp: opened_def pending_def)

lemma handle_header_stream:
  assumes b: "base_ok c h" and o: "inbound_offset c = HEADER_SIZE" and room: "roomy h"
    and p: "p = take HEADER_SIZE (header_buffer c)"
  shows "case stream_head (frame_max c) (p @ d) of
      Need_more \<Rightarrow> \<exists>c' h'. handle_header p0 n d c h f = (Returns (n + length d), c', h', f) \<and>
        pending c' h' = p @ d \<and> state c' \<noteq> CONNECTION_STATE_IDLE \<and> fails h' = fails h
    | Refused \<Rightarrow> \<exists>c' h'. handle_header p0 n d c h f = (Fails AMQP_STATUS_BAD_AMQP_DATA, c', h', f)
    | Whole k \<Rightarrow> \<exists>c' h'. handle_header p0 n d c h f = handle_body p0 (n + (k - HEADER_SIZE)) c' h' f \<and>
        HEADER_SIZE \<le> k \<and> frame_in c' h' (take k (p @ d)) \<and> fails h' = fails h"
proof -
  obtain r c' h' where op: "open_frame c h = (r, c', h')" by (metis prod_cases3)
  note R = open_frame_roomy [OF op room]
  have len: "length p = HEADER_SIZE" using b p by (simp add: base_ok_def frame_sizes)
  have fs: "frame_size (p @ d) = frame_size (header_buffer c)"
    using frame_size_append [of p d] frame_size_prefix [of HEADER_SIZE "header_buffer c"] len p by simp
  have so: "size_ok (frame_max c) (p @ d) = size_ok (frame_max c) (header_buffer c)"
    by (simp add: size_ok_def frame_total_def fs)
  show ?thesis
  proof (cases "size_ok (frame_max c) (header_buffer c)")
    case False
    then have "stream_head (frame_max c) (p @ d) = Refused" using so len by (simp add: stream_head_def)
    with False R op show ?thesis by (simp add: handle_header_def)
  next
    case True
    then have O: "opened c c' h'" using R open_frame_ok [OF b op] by simp
    have pd: "pending c' h' = p" using opened_pending [OF O o] p by simp
    have "HEADER_SIZE \<le> inbound_offset c'" "inbound_offset c' \<le> target_size c'"
      using O o by (simp_all add: opened_def frame_total_def)
    with O collect_body_stream [where c = c' and h = h' and d = d and n = n and f = f and ?p0.0 = p0] True R op pd len show ?thesis
      by (simp add: opened_def handle_header_def split: stream_head.splits) auto
  qed
qed

text \<open>The state machine implements the specification.\<close>

lemma handle_input_stream:
  assumes ok: "input_ok c h" and s: "state c \<noteq> CONNECTION_STATE_INITIAL" and d: "d \<noteq> []" and room: "roomy h"
  shows "case stream_head (frame_max c) (pending c h @ d) of
      Need_more \<Rightarrow> \<exists>c' h'. amqp_handle_input p0 c d h f = (Returns (length d), c', h', f\<lparr>frame_type := 0\<rparr>) \<and>
        pending c' h' = pending c h @ d \<and> state c' \<noteq> CONNECTION_STATE_IDLE \<and> fails h' = fails h
    | Refused \<Rightarrow> \<exists>c' h'. amqp_handle_input p0 c d h f =
        (Fails AMQP_STATUS_BAD_AMQP_DATA, c', h', f\<lparr>frame_type := 0\<rparr>)
    | Whole k \<Rightarrow> \<exists>c' h'. amqp_handle_input p0 c d h f =
          handle_body p0 (k - length (pending c h)) c' h' (f\<lparr>frame_type := 0\<rparr>) \<and>
        length (pending c h) \<le> k \<and> frame_in c' h' (take k (pending c h @ d)) \<and> fails h' = fails h"
proof -
  let ?c = "begin_input c" and ?f = "f\<lparr>frame_type := 0\<rparr>"
  have ok1: "input_ok ?c h" by (rule begin_input_ok [OF ok])
  note e = handle_input_advance [OF ok d, of p0 f]
  note r = input_ok_room [OF ok1]
  have fm: "frame_max ?c = frame_max c" by (simp add: begin_input_def)
  show ?thesis
  proof (cases "state ?c = CONNECTION_STATE_BODY")
    case True
    then have c: "?c = c" by (auto simp: begin_input_def split: if_splits)
    with True ok have "own_buffer c h" "HEADER_SIZE \<le> inbound_offset c" "inbound_offset c \<le> target_size c"
      by (simp_all add: input_ok_def)
    with collect_body_stream [OF input_okD(1) [OF ok], where d = d and n = 0 and f = ?f and ?p0.0 = p0] True c advance_body [OF r True] e show ?thesis
      by (simp split: stream_head.splits) auto
  next
    case False
    with s have hd: "state ?c = CONNECTION_STATE_HEADER"
      by (cases "state c") (auto simp: begin_input_def)
    with ok1 have t: "target_size ?c = HEADER_SIZE" "inbound_buffer ?c = In_header_buffer"
        "inbound_offset ?c < HEADER_SIZE" by (simp_all add: input_ok_def)
    note pl = pending_length [OF r, unfolded pending_begin]
    define m where "m = HEADER_SIZE - inbound_offset ?c"
    show ?thesis
    proof (cases "inbound_offset ?c + length d < HEADER_SIZE")
      case True
      then have "stream_head (frame_max c) (pending c h @ d) = Need_more" using pl by (simp add: stream_head_def)
      with True e t hd pending_fill [OF r, of d] show ?thesis by (simp add: advance_def Let_def)
    next
      case False
      let ?c1 = "fill ?c (take m d)" and ?h1 = "fill_heap ?c (take m d) h"
      have le: "m \<le> length d" "inbound_offset ?c + m = HEADER_SIZE" using False t(3) by (simp_all add: m_def)
      have a: "advance p0 ?c d h ?f = handle_header p0 m (drop m d) ?c1 ?h1 ?f"
        using advance_enough [of m ?c d p0 "[]" h ?f] le(1) t(1) hd by (simp add: m_def)
      have b: "base_ok ?c1 ?h1" by (rule base_ok_fill [OF ok1]) (use le t in simp)
      have o: "inbound_offset ?c1 = HEADER_SIZE" using le by simp
      have "pending ?c1 ?h1 = pending c h @ take m d"
        using pending_fill [OF r, of "take m d"] le t by simp
      then have p: "pending c h @ take m d = take HEADER_SIZE (header_buffer ?c1)"
        using t(2) o by (simp add: pending_def del: fill_simps(3))
      have rm: "roomy ?h1" using room by (simp add: roomy_def)
      have ml: "m + length (drop m d) = length d" "inbound_offset ?c = length (pending c h)" using le pl by simp_all
      have q: "(pending c h @ take m d) @ drop m d = pending c h @ d" by simp
      have fl: "m + (k - HEADER_SIZE) = k - length (pending c h)" if "HEADER_SIZE \<le> k" for k
        using le(2) that ml(2) by arith
      note H = handle_header_stream [OF b o rm p, where d = "drop m d" and n = m and f = ?f and ?p0.0 = p0, unfolded q]
      show ?thesis
      proof (cases "stream_head (frame_max c) (pending c h @ d)")
        case (Whole k)
        with H obtain c' h' where "handle_header p0 m (drop m d) ?c1 ?h1 ?f = handle_body p0 (m + (k - HEADER_SIZE)) c' h' ?f"
            "HEADER_SIZE \<le> k" "frame_in c' h' (take k (pending c h @ d))" "fails h' = fails h"
          by (auto simp: fm simp del: take_append)
        with Whole fl [of k] ml(2) le(2) show ?thesis unfolding e a
          by (auto simp del: take_append intro!: exI [of _ c'] exI [of _ h'])
      qed (use H le(1) in \<open>simp_all add: e a fm\<close>)
    qed
  qed
qed

end
