(* ===== verification/Amqp_Output.thy ===== *)
theory Amqp_Output
  imports Amqp_State Amqp_Framing
begin

text \<open>
  Output of a connection: \<open>amqp_frame_to_bytes\<close> of \<open>amqp_connection.c\<close>.
\<close>

section \<open>Writing a frame\<close>

text \<open>
  \<open>put off w k\<close> writes \<open>w\<close> at offset \<open>off\<close> of the buffer and goes on with \<open>k\<close>; a write that does
  not lie in the buffer is \<open>Undefined\<close>.  Results are the encoded bytes, a prefix of the
  buffer, and the buffer.
\<close>

type_synonym output_result = "byte list dres \<times> byte list"

definition put :: "nat \<Rightarrow> byte list \<Rightarrow> (byte list \<Rightarrow> output_result) \<Rightarrow> byte list \<Rightarrow> output_result" where
  "put off w k buf =
    (if off + length w \<le> length buf then k (write_at buf off w) else (Undefined, buf))"

text \<open>The common end: size and frame end, \<open>out_frame_len\<close> being the size of the payload.\<close>

definition finish_frame :: "nat \<Rightarrow> byte list \<Rightarrow> output_result" where
  "finish_frame out_frame_len =
    put 3 (amqp_e32 is_bigendian (of_nat out_frame_len))
    (put (HEADER_SIZE + out_frame_len) (amqp_e8 is_bigendian (word_of_int AMQP_FRAME_END)) (\<lambda>buf.
      (Returns (take (out_frame_len + HEADER_SIZE + FOOTER_SIZE) buf), buf)))"

text \<open>
  \<open>encode_payload off enc\<close>: an encoder works on the buffer from \<open>off\<close> on, one byte less than
  there is; a buffer without that byte makes the length of \<open>size_t\<close> wrap around, and is
  treated as an access outside of it.
\<close>

definition encode_payload ::
  "nat \<Rightarrow> (byte list \<Rightarrow> (amqp_status_enum + nat) \<times> byte list) \<Rightarrow> byte list \<Rightarrow> output_result" where
  "encode_payload off enc buf =
    (if length buf < HEADER_SIZE + off + FOOTER_SIZE then (Undefined, buf)
     else case enc (chunk (HEADER_SIZE + off) (length buf - HEADER_SIZE - off - FOOTER_SIZE) buf) of
       (Inl err, out) \<Rightarrow> (Fails err, write_at buf (HEADER_SIZE + off) out)
     | (Inr res, out) \<Rightarrow> finish_frame (res + off) (write_at buf (HEADER_SIZE + off) out))"

text \<open>
  The payload is read through the member of the union that the type of the frame selects;
  \<open>Undefined\<close> when another one was stored, or properties of another class.
\<close>

definition amqp_frame_to_bytes :: "amqp_frame_t \<Rightarrow> byte list \<Rightarrow> output_result" where
  "amqp_frame_to_bytes frame =
    put 0 (amqp_e8 is_bigendian (frame_type frame))
    (put 1 (amqp_e16 is_bigendian (channel frame)) (\<lambda>buf.
      let ty = uint (frame_type frame) in
      if ty = AMQP_FRAME_BODY then
        (case payload frame of
           Body_payload body \<Rightarrow> put HEADER_SIZE body (finish_frame (length body)) buf
         | _ \<Rightarrow> (Undefined, buf))
      else if ty = AMQP_FRAME_METHOD then
        (case payload frame of
           Method_payload m \<Rightarrow>
             put HEADER_SIZE (amqp_e32 is_bigendian (method_number m))
               (encode_payload 4 (amqp_encode_method m)) buf
         | _ \<Rightarrow> (Undefined, buf))
      else if ty = AMQP_FRAME_HEADER then
        (case payload frame of
           Properties_payload cls body decoded raw \<Rightarrow>
             if cls \<noteq> properties_class decoded then (Undefined, buf)
             else put HEADER_SIZE (amqp_e16 is_bigendian cls)
               (put (HEADER_SIZE + 2) (amqp_e16 is_bigendian 0)
               (put (HEADER_SIZE + 4) (amqp_e64 is_bigendian body)
                 (encode_payload 12 (amqp_encode_properties decoded)))) buf
         | _ \<Rightarrow> (Undefined, buf))
      else if ty = AMQP_FRAME_HEARTBEAT then finish_frame 0 buf
      else (Fails AMQP_STATUS_INVALID_PARAMETER, buf)))"

end
