(* ===== verification/Frame_Travel.thy ===== *)
theory Frame_Travel
  imports Input_Stream Amqp_Output
begin

text \<open>
  Frames there and back: the image of a frame on the wire, what \<open>amqp_frame_to_bytes\<close>
  writes, what \<open>amqp_handle_input\<close> makes of it, and both together (\<open>frame_travels\<close>).
\<close>

section \<open>Frames on the wire\<close>

definition frame_image :: "u8 \<Rightarrow> amqp_channel_t \<Rightarrow> byte list \<Rightarrow> byte list" where
  "frame_image ty ch p = w8 ty @ w16 ch @ w32 (of_nat (length p)) @ p @ w8 (word_of_int AMQP_FRAME_END)"

lemma decoded_wire [simp]:
  "amqp_d8 is_bigendian (w8 a) = a" "amqp_d16 is_bigendian (w16 b) = b"
  "amqp_d32 is_bigendian (w32 c) = c" "amqp_d64 is_bigendian (w64 d) = d"
  using codec8.d_e [of is_bigendian a] codec16.d_e [of is_bigendian b] codec32.d_e [of is_bigendian c] codec64.d_e [of is_bigendian d]
  by (simp_all add: amqp_e_be w8_def w16_def w32_def w64_def)

lemma chunk_middle: "off = length xs \<Longrightarrow> n = length ys \<Longrightarrow> chunk off n (xs @ ys @ zs) = ys"
  by (simp add: chunk_def)

lemma length_frame_image [simp]: "length (frame_image ty ch p) = length p + HEADER_SIZE + FOOTER_SIZE"
  by (simp add: frame_image_def frame_sizes)

lemma frame_image_parts:
  "chunk 0 1 (frame_image ty ch p) = w8 ty" "chunk 1 2 (frame_image ty ch p) = w16 ch"
  "chunk 3 4 (frame_image ty ch p) = w32 (of_nat (length p))"
  "chunk HEADER_SIZE (length p) (frame_image ty ch p) = p"
  "chunk (length (frame_image ty ch p) - 1) 1 (frame_image ty ch p) = w8 (word_of_int AMQP_FRAME_END)"
  "drop HEADER_SIZE (frame_image ty ch p) = p @ w8 (word_of_int AMQP_FRAME_END)"
proof -
  show "chunk 0 1 (frame_image ty ch p) = w8 ty"
    unfolding frame_image_def using chunk_middle [of 0 "[]" 1 "w8 ty"] by simp
  show "chunk 1 2 (frame_image ty ch p) = w16 ch"
    unfolding frame_image_def by (rule chunk_middle) simp_all
  show "chunk 3 4 (frame_image ty ch p) = w32 (of_nat (length p))"
    unfolding frame_image_def using chunk_middle [of 3 "w8 ty @ w16 ch" 4 "w32 (of_nat (length p))"] by simp
  show "chunk HEADER_SIZE (length p) (frame_image ty ch p) = p"
    unfolding frame_image_def using chunk_middle [of HEADER_SIZE "w8 ty @ w16 ch @ w32 (of_nat (length p))" "length p" p]
    by (simp add: frame_sizes)
  show "chunk (length (frame_image ty ch p) - 1) 1 (frame_image ty ch p) = w8 (word_of_int AMQP_FRAME_END)"
    unfolding length_frame_image unfolding frame_image_def
    using chunk_middle [of _ "w8 ty @ w16 ch @ w32 (of_nat (length p)) @ p" 1 "w8 (word_of_int AMQP_FRAME_END)" "[]"]
    by (simp add: frame_sizes)
  show "drop HEADER_SIZE (frame_image ty ch p) = p @ w8 (word_of_int AMQP_FRAME_END)"
    by (simp add: frame_image_def frame_sizes)
qed

lemma frame_image_size:
  assumes "length p < INT32_MAX"
  shows "frame_size (frame_image ty ch p) = length p" "frame_total (frame_image ty ch p) = length (frame_image ty ch p)"
proof -
  show "frame_size (frame_image ty ch p) = length p"
    using assms by (simp add: frame_size_def frame_image_parts unat_of_nat INT32_MAX_def take_bit_eq_mod)
  then show "frame_total (frame_image ty ch p) = length (frame_image ty ch p)"
    by (simp add: frame_total_def)
qed

text \<open>A stream that starts with the image of a frame.\<close>

lemma stream_head_image:
  assumes "length p < INT32_MAX" and "length p + HEADER_SIZE + FOOTER_SIZE \<le> size_t_of_int fm"
  shows "stream_head fm (frame_image ty ch p @ rest) = Whole (length (frame_image ty ch p))"
    and "k < length (frame_image ty ch p) \<Longrightarrow> stream_head fm (take k (frame_image ty ch p)) = Need_more"
proof -
  let ?i = "frame_image ty ch p"
  have fs: "frame_size (?i @ rest) = length p"
    using frame_size_append [of ?i rest] frame_image_size [OF assms(1)] by simp
  show "stream_head fm (?i @ rest) = Whole (length ?i)"
    using assms fs by (simp add: stream_head_def size_ok_def frame_total_def)
  assume k: "k < length ?i"
  have "frame_size (take k ?i) = length p" if "HEADER_SIZE \<le> k"
    using frame_size_prefix [OF that] frame_image_size [OF assms(1)] by simp
  with k assms show "stream_head fm (take k ?i) = Need_more"
    by (auto simp: stream_head_def size_ok_def frame_total_def)
qed

section \<open>What a whole frame becomes\<close>

lemma handle_body_frame:
  assumes i: "frame_in c h raw" and room: "roomy h" and f': "f' = f\<lparr>frame_type := amqp_d8 is_bigendian (chunk 0 1 raw),
      channel := amqp_d16 is_bigendian (chunk 1 2 raw)\<rparr>"
    and fe: "amqp_d8 is_bigendian (chunk (length raw - 1) 1 raw) = word_of_int AMQP_FRAME_END"
  obtains pool c1 h1 where "handle_body p0 n c h f = decode_raw_frame p0 raw pool n c1 h1 f'"
    and "base_ok c1 h1" and "amqp_get_channel_pool c1 (channel f') = Some pool" and "roomy h1"
    and "target_size c1 = length raw"
proof -
  obtain b base where o: "inbound_buffer c = In_pool (b, base)" "chunk base (length raw) (content h b) = raw"
      "target_size c = length raw" "base_ok c h"
    using i by (auto simp: frame_in_def)
  obtain q c1 h1 where g: "amqp_get_or_create_channel_pool c (channel f') h = (q, c1, h1)" by (metis prod_cases3)
  obtain pool where q: "q = Some pool" using get_or_create_roomy [OF g room] by blast
  have "uint (word_of_int AMQP_FRAME_END :: u8) = AMQP_FRAME_END" by (simp add: AMQP_FRAME_END_def)
  then have e: "handle_body p0 n c h f = decode_raw_frame p0 raw pool n c1 h1 f'"
    using o g fe q by (simp add: handle_body_def Let_def f')
  have "target_size c1 = length raw"
    using arg_cong [OF get_or_create_fields [OF g], of target_size] o(3) by simp
  moreover have "roomy h1" using room roomy_cong [OF get_or_create_fails [OF g]] by simp
  ultimately show ?thesis
    using that [OF e] get_or_create_base_ok [OF o(4) g] q by blast
qed

text \<open>A payload that a decoder reads to its end, followed by the end of the frame.\<close>

lemma decode_payload_reads:
  assumes "reads d w x" and "roomy h" and "encoded = \<lparr>vmem = w @ tail, vlen = length w\<rparr>"
  shows "\<exists>c' h'. decode_payload d wrap encoded pool n c h f = (Returns n, c', h', f\<lparr>payload := wrap x\<rparr>) \<and>
    state c' = CONNECTION_STATE_IDLE \<and> roomy h' \<and> inbound_offset c' = 0"
proof -
  let ?s = "\<lparr>doff = 0, dpool = pool, dheap = h\<rparr>"
  have "at encoded (doff ?s) w" by (simp add: at_def honest_def assms(3) chunk_def)
  from readsE [OF assms(1) this] assms(2) obtain s' where "d encoded ?s = (Returns x, s')" "roomy (dheap s')" by auto
  then show ?thesis by (simp add: decode_payload_def Let_def return_to_idle_def)
qed


section \<open>Frames there and back\<close>

text \<open>
  \<open>payload_bytes p0 F p\<close>: the payload of \<open>F\<close> is the bytes \<open>p\<close> on the wire, and a receiver
  decodes it from there.
\<close>

definition payload_bytes :: "amqp_basic_properties_t \<Rightarrow> amqp_frame_t \<Rightarrow> byte list \<Rightarrow> bool" where
  "payload_bytes p0 F p \<longleftrightarrow> (
    if uint (frame_type F) = AMQP_FRAME_METHOD then
      \<exists>m w. payload F = Method_payload m \<and> p = w32 (method_number m) @ w \<and>
        emits (encode_method_body m) w \<and> reads (amqp_decode_method (method_number m)) w m
    else if uint (frame_type F) = AMQP_FRAME_HEADER then
      \<exists>cls body q raw w. payload F = Properties_payload cls body q raw \<and> cls = properties_class q \<and>
        p = w16 cls @ w16 0 @ w64 body @ w \<and>
        emits (enc_seqs (encode_flags (properties_flags q) @ [encode_properties_body q])) w \<and>
        reads (amqp_decode_properties p0 cls) w (as_decoded p0 q)
    else if uint (frame_type F) = AMQP_FRAME_BODY then payload F = Body_payload p
    else uint (frame_type F) = AMQP_FRAME_HEARTBEAT \<and> p = [])"

definition valid_frame :: "amqp_frame_t \<Rightarrow> bool" where
  "valid_frame F \<longleftrightarrow> (
    if uint (frame_type F) = AMQP_FRAME_METHOD then
      (case payload F of Method_payload m \<Rightarrow> valid_method m | _ \<Rightarrow> False)
    else if uint (frame_type F) = AMQP_FRAME_HEADER then
      (case payload F of Properties_payload cls body q raw \<Rightarrow> cls = properties_class q \<and> valid_properties q | _ \<Rightarrow> False)
    else if uint (frame_type F) = AMQP_FRAME_BODY then
      (case payload F of Body_payload body \<Rightarrow> True | _ \<Rightarrow> False)
    else uint (frame_type F) = AMQP_FRAME_HEARTBEAT)"

lemma valid_frame_payload: "valid_frame F \<Longrightarrow> \<exists>p. payload_bytes p0 F p"
  using agree_method agree_properties [where ?p0.0 = p0]
  by (auto simp: valid_frame_def payload_bytes_def agree_def split: if_splits amqp_payload_t.splits)

text \<open>The frame as it is received; what the wire does not hold comes from the receiver.\<close>

definition as_received :: "amqp_basic_properties_t \<Rightarrow> amqp_frame_t \<Rightarrow> amqp_frame_t \<Rightarrow> byte list \<Rightarrow> amqp_frame_t" where
  "as_received p0 old F p = F\<lparr>payload :=
    (if uint (frame_type F) = AMQP_FRAME_HEARTBEAT then payload old
     else case payload F of
       Properties_payload cls body q raw \<Rightarrow> Properties_payload cls body (as_decoded p0 q) (drop 12 p)
     | x \<Rightarrow> x)\<rparr>"

lemmas frame_types = AMQP_FRAME_METHOD_def AMQP_FRAME_HEADER_def AMQP_FRAME_BODY_def AMQP_FRAME_HEARTBEAT_def

lemma size_t_sub_le [simp]: "b \<le> a \<Longrightarrow> size_t_sub a b = a - b"
  by (simp add: size_t_sub_def)

lemma receive_method:
  assumes p: "p = w32 (method_number m) @ w" and r: "reads (amqp_decode_method (method_number m)) w m"
    and "roomy h" and t: "target_size c = length (frame_image ty ch p)" and ty: "uint (frame_type f) = AMQP_FRAME_METHOD"
  shows "\<exists>c' h'. decode_raw_frame p0 (frame_image ty ch p) pool n c h f = (Returns n, c', h', f\<lparr>payload := Method_payload m\<rparr>) \<and>
    state c' = CONNECTION_STATE_IDLE"
proof -
  let ?raw = "frame_image ty ch p"
  have d: "drop HEADER_SIZE ?raw = w32 (method_number m) @ w @ w8 (word_of_int AMQP_FRAME_END)"
    using frame_image_parts(6) [of ty ch p] p by simp
  then have 1: "chunk HEADER_SIZE 4 ?raw = w32 (method_number m)"
    by (simp add: chunk_def)
  have 2: "drop (HEADER_SIZE + 4) ?raw = w @ w8 (word_of_int AMQP_FRAME_END)"
    using arg_cong [OF d, of "drop 4"] by (simp add: add.commute)
  let ?v = "\<lparr>vmem = drop (HEADER_SIZE + 4) ?raw, vlen = size_t_sub (target_size c) (HEADER_SIZE + 4 + FOOTER_SIZE)\<rparr>"
  have len: "\<not> length ?raw < HEADER_SIZE + 4" using p by simp
  have v: "?v = \<lparr>vmem = w @ w8 (word_of_int AMQP_FRAME_END), vlen = length w\<rparr>"
    using p t 2 by simp
  have "decode_raw_frame p0 ?raw pool n c h f =
      decode_payload (amqp_decode_method (method_number m)) Method_payload ?v pool n c h f"
    by (simp add: decode_raw_frame_def decode_method_frame_def 1 ty len del: length_frame_image)
  with decode_payload_reads [OF r assms(3) v] show ?thesis by metis
qed

lemma receive_header:
  assumes p: "p = w16 cls @ w16 0 @ w64 body @ w" and r: "reads (amqp_decode_properties p0 cls) w q"
    and "roomy h" and t: "target_size c = length (frame_image ty ch p)" and ty: "uint (frame_type f) = AMQP_FRAME_HEADER"
  shows "\<exists>c' h'. decode_raw_frame p0 (frame_image ty ch p) pool n c h f =
      (Returns n, c', h', f\<lparr>payload := Properties_payload cls body q w\<rparr>) \<and>
    state c' = CONNECTION_STATE_IDLE"
proof -
  let ?raw = "frame_image ty ch p"
  have d: "drop HEADER_SIZE ?raw = w16 cls @ w16 0 @ w64 body @ w @ w8 (word_of_int AMQP_FRAME_END)"
    using frame_image_parts(6) [of ty ch p] p by simp
  then have 1: "chunk HEADER_SIZE 2 ?raw = w16 cls" by (simp add: chunk_def)
  have "drop (HEADER_SIZE + 4) ?raw = w64 body @ w @ w8 (word_of_int AMQP_FRAME_END)"
    using arg_cong [OF d, of "drop 4"] by (simp add: add.commute)
  then have 2: "chunk (HEADER_SIZE + 4) 8 ?raw = w64 body" by (simp add: chunk_def)
  have 3: "drop (HEADER_SIZE + 12) ?raw = w @ w8 (word_of_int AMQP_FRAME_END)"
    using arg_cong [OF d, of "drop 12"] by (simp add: add.commute)
  let ?v = "\<lparr>vmem = drop (HEADER_SIZE + 12) ?raw, vlen = size_t_sub (target_size c) (HEADER_SIZE + 12 + FOOTER_SIZE)\<rparr>"
  have len: "\<not> length ?raw < HEADER_SIZE + 12" using p by simp
  have v: "?v = \<lparr>vmem = w @ w8 (word_of_int AMQP_FRAME_END), vlen = length w\<rparr>"
    using p t 3 by simp
  then have w: "take (vlen ?v) (vmem ?v) = w" by simp
  have "decode_raw_frame p0 ?raw pool n c h f =
      decode_payload (amqp_decode_properties p0 cls) (\<lambda>q. Properties_payload cls body q w) ?v pool n c h f"
    using w by (simp add: decode_raw_frame_def decode_header_frame_def 1 2 ty frame_types Let_def len del: length_frame_image)
  with decode_payload_reads [OF r assms(3) v] show ?thesis by metis
qed

lemma receive_frame:
  assumes i: "frame_in c h (frame_image (frame_type F) (channel F) p)" and room: "roomy h"
    and p: "payload_bytes p0 F p"
  shows "\<exists>c' h'. handle_body p0 n c h f = (Returns n, c', h', as_received p0 f F p) \<and>
    state c' = CONNECTION_STATE_IDLE"
proof -
  let ?raw = "frame_image (frame_type F) (channel F) p" and ?f = "f\<lparr>frame_type := frame_type F, channel := channel F\<rparr>"
  note parts = frame_image_parts [where ty = "frame_type F" and ch = "channel F" and p = p]
  have e: "amqp_d8 is_bigendian (chunk (length ?raw - 1) 1 ?raw) = word_of_int AMQP_FRAME_END"
    by (simp only: parts decoded_wire)
  obtain pool c1 h1 where b: "handle_body p0 n c h f = decode_raw_frame p0 ?raw pool n c1 h1 ?f"
      "roomy h1" "target_size c1 = length ?raw"
    by (rule handle_body_frame [OF i room _ e, where f = f and n = n and ?p0.0 = p0 and f' = ?f])
      (simp_all only: parts decoded_wire)
  consider (meth) m w where "uint (frame_type F) = AMQP_FRAME_METHOD" "payload F = Method_payload m"
      "p = w32 (method_number m) @ w" "reads (amqp_decode_method (method_number m)) w m"
    | (header) body q raw w where "uint (frame_type F) = AMQP_FRAME_HEADER"
      "payload F = Properties_payload (properties_class q) body q raw"
      "p = w16 (properties_class q) @ w16 0 @ w64 body @ w"
      "reads (amqp_decode_properties p0 (properties_class q)) w (as_decoded p0 q)"
    | (body) "uint (frame_type F) = AMQP_FRAME_BODY" "payload F = Body_payload p"
    | (heartbeat) "uint (frame_type F) = AMQP_FRAME_HEARTBEAT"
    using p by (auto simp: payload_bytes_def split: if_splits)
  then show ?thesis
  proof cases
    case meth
    then show ?thesis
      using b(1) receive_method [OF meth(3,4) b(2,3), of ?f p0 pool n]
      by (cases F; cases f) (simp add: as_received_def frame_types)
  next
    case header
    then show ?thesis
      using b(1) receive_header [OF header(3,4) b(2,3), of ?f pool n]
      by (cases F; cases f) (simp add: as_received_def frame_types)
  next
    case body
    then show ?thesis
      using b(1) parts(4) b(3) by (cases F; cases f) (simp add: decode_raw_frame_def as_received_def frame_types return_to_idle_def)
  next
    case heartbeat
    then show ?thesis
      using b(1) by (cases F; cases f) (simp add: decode_raw_frame_def as_received_def frame_types return_to_idle_def)
  qed
qed


section \<open>Writing frames\<close>

lemma finish_frame_fits:
  assumes "length x = 4" and "length y = 1"
  shows "finish_frame (length p) (w8 ty @ w16 ch @ x @ p @ y @ rest) =
    (Returns (frame_image ty ch p), frame_image ty ch p @ rest)"
  using assms
  by (simp add: finish_frame_def put_def write_at_def amqp_e32_be amqp_e8_be w32_def w8_def w16_def
      frame_image_def frame_sizes)

lemma finish_frame_short: "length buf < n + HEADER_SIZE + FOOTER_SIZE \<Longrightarrow> fst (finish_frame n buf) = Undefined"
  by (simp add: finish_frame_def put_def frame_sizes amqp_e_be)

lemma write_at_chunk_rest:
  assumes "k + length w \<le> k + n" and "k + n \<le> length buf"
  shows "write_at buf k (w @ drop (length w) (chunk k n buf)) = write_at buf k w"
proof -
  define d where "d = drop k buf"
  have n: "length w \<le> n" "n \<le> length d" using assms by (simp_all add: d_def)
  have "drop (length w) d = drop (length w) (take n d @ drop n d)" by simp
  also have "\<dots> = drop (length w) (take n d) @ drop n d" unfolding drop_append using n by simp
  finally have "drop (k + length w) buf = drop (length w) (chunk k n buf) @ drop (k + n) buf"
    by (simp add: d_def chunk_def add.commute)
  then show ?thesis using assms by (simp add: write_at_def chunk_def)
qed

lemma encode_payload_fits:
  assumes e: "emits e w" and len: "length pre = HEADER_SIZE + off" "length x = length w" "length rest > 0"
  shows "encode_payload off (\<lambda>b. enc_result (e \<lparr>ebuf = b, eoff = 0\<rparr>)) (pre @ x @ rest) =
    finish_frame (length w + off) (pre @ w @ rest)"
proof -
  let ?buf = "pre @ x @ rest"
  let ?n = "length ?buf - HEADER_SIZE - off - FOOTER_SIZE"
  have n: "length w \<le> ?n" "HEADER_SIZE + off + ?n \<le> length ?buf" using len by (cases rest; simp add: frame_sizes)+
  have "length w \<le> length (chunk (HEADER_SIZE + off) ?n ?buf)" using n by simp
  note E = encode_fits [OF e this]
  have "write_at ?buf (HEADER_SIZE + off) (w @ drop (length w) (chunk (HEADER_SIZE + off) ?n ?buf)) = pre @ w @ rest"
    using write_at_chunk_rest [of "HEADER_SIZE + off" w ?n ?buf] n len by (simp add: write_at_def)
  with E len show ?thesis by (simp add: encode_payload_def frame_sizes)
qed

lemma encode_payload_short:
  assumes e: "emits e w" and len: "length buf < HEADER_SIZE + off + length w + FOOTER_SIZE"
  shows "\<exists>out. encode_payload off (\<lambda>b. enc_result (e \<lparr>ebuf = b, eoff = 0\<rparr>)) buf = (Undefined, out) \<or>
    (\<exists>err. encode_payload off (\<lambda>b. enc_result (e \<lparr>ebuf = b, eoff = 0\<rparr>)) buf = (Fails err, out))"
proof (cases "length buf < HEADER_SIZE + off + FOOTER_SIZE")
  case False
  let ?b = "chunk (HEADER_SIZE + off) (length buf - HEADER_SIZE - off - FOOTER_SIZE) buf"
  have "length ?b < length w" using False len by simp
  from encode_overflow [OF e this] False show ?thesis by (auto simp: encode_payload_def)
qed (simp add: encode_payload_def)


lemma put_fits: "off = length a \<Longrightarrow> length b = length w \<Longrightarrow> put off w k (a @ b @ t) = k (a @ w @ t)"
  by (simp add: put_def write_at_def)

lemma e_wire: "amqp_e8 is_bigendian x8 = w8 x8" "amqp_e16 is_bigendian x16 = w16 x16"
  "amqp_e32 is_bigendian x32 = w32 x32" "amqp_e64 is_bigendian x64 = w64 x64"
  by (simp_all add: amqp_e_be w8_def w16_def w32_def w64_def)

lemma drop_split: "k' = k + m \<Longrightarrow> drop k xs = chunk k m xs @ drop k' xs"
  by (metis append_take_drop_id chunk_def drop_drop add.commute)

lemma buffer_parts:
  assumes "n + HEADER_SIZE + FOOTER_SIZE \<le> length buf"
  obtains a b x z y rest where "buf = a @ b @ x @ z @ y @ rest" "length a = 1" "length b = 2" "length x = 4"
    "length z = n" "length y = 1" "rest = drop (n + HEADER_SIZE + FOOTER_SIZE) buf"
proof
  show "buf = chunk 0 1 buf @ chunk 1 2 buf @ chunk 3 4 buf @ chunk 7 n buf @ chunk (7 + n) 1 buf @ drop (n + HEADER_SIZE + FOOTER_SIZE) buf"
  proof -
    have "drop 0 buf = chunk 0 1 buf @ drop 1 buf" "drop 1 buf = chunk 1 2 buf @ drop 3 buf"
      "drop 3 buf = chunk 3 4 buf @ drop 7 buf" "drop 7 buf = chunk 7 n buf @ drop (7 + n) buf"
      "drop (7 + n) buf = chunk (7 + n) 1 buf @ drop (n + HEADER_SIZE + FOOTER_SIZE) buf"
      by (rule drop_split; simp add: frame_sizes)+
    then show ?thesis by (metis drop0)
  qed
qed (use assms in \<open>simp_all add: frame_sizes\<close>)

lemma frame_to_bytes_fits:
  assumes p: "payload_bytes p0 F p" and len: "length p + HEADER_SIZE + FOOTER_SIZE \<le> length buf"
  shows "amqp_frame_to_bytes F buf = (Returns (frame_image (frame_type F) (channel F) p),
    frame_image (frame_type F) (channel F) p @ drop (length p + HEADER_SIZE + FOOTER_SIZE) buf)"
proof -
  let ?ty = "frame_type F" and ?ch = "channel F"
  obtain a b x z y rest where B: "buf = a @ b @ x @ z @ y @ rest" "length a = 1" "length b = 2" "length x = 4"
      "length z = length p" "length y = 1" "rest = drop (length p + HEADER_SIZE + FOOTER_SIZE) buf"
    by (rule buffer_parts [OF len])
  have head: "put 0 (w8 ?ty) (put 1 (w16 ?ch) k) buf = k (w8 ?ty @ w16 ?ch @ x @ z @ y @ rest)" for k
    using put_fits [of 0 "[]" a "w8 ?ty"] put_fits [of 1 "w8 ?ty" b "w16 ?ch"] B(2,3)
    unfolding B(1) by simp
  have bput: "put HEADER_SIZE w k (w8 ?ty @ w16 ?ch @ x @ u @ t) = k (w8 ?ty @ w16 ?ch @ x @ w @ t)"
    if "length u = length w" for u w t k
    using put_fits [of HEADER_SIZE "w8 ?ty @ w16 ?ch @ x" u w] B(4) that by (simp add: frame_sizes)
  note fin = finish_frame_fits [OF B(4,6), of p ?ty ?ch rest]
  consider (meth) m w where "uint ?ty = AMQP_FRAME_METHOD" "payload F = Method_payload m"
      "p = w32 (method_number m) @ w" "emits (encode_method_body m) w"
    | (header) bd q raw w where "uint ?ty = AMQP_FRAME_HEADER"
      "payload F = Properties_payload (properties_class q) bd q raw"
      "p = w16 (properties_class q) @ w16 0 @ w64 bd @ w"
      "emits (enc_seqs (encode_flags (properties_flags q) @ [encode_properties_body q])) w"
    | (body) "uint ?ty = AMQP_FRAME_BODY" "payload F = Body_payload p"
    | (heartbeat) "uint ?ty = AMQP_FRAME_HEARTBEAT" "p = []"
    using p by (auto simp: payload_bytes_def split: if_splits)
  then show ?thesis
  proof cases
    case meth
    obtain z1 z2 where z: "z = z1 @ z2" "length z1 = 4" "length z2 = length w"
    proof
      show "z = take 4 z @ drop 4 z" by simp
    qed (use B(5) meth(3) in simp_all)
    have enc: "amqp_encode_method m = (\<lambda>b. enc_result (encode_method_body m \<lparr>ebuf = b, eoff = 0\<rparr>))"
      by (simp add: amqp_encode_method_def fun_eq_iff)
    show ?thesis
      using head bput [of z1 "w32 (method_number m)"] fin meth z B(4,6,7)
        encode_payload_fits [OF meth(4), of "w8 ?ty @ w16 ?ch @ x @ w32 (method_number m)" 4 z2 "y @ rest"]
      by (simp add: amqp_frame_to_bytes_def e_wire frame_types enc frame_sizes add.commute)
  next
    case header
    let ?h = "w16 (properties_class q) @ w16 0 @ w64 bd"
    obtain z1 z2 z3 z4 where z: "z = z1 @ z2 @ z3 @ z4" "length z1 = 2" "length z2 = 2" "length z3 = 8" "length z4 = length w"
    proof
      have "drop 0 z = chunk 0 2 z @ drop 2 z" "drop 2 z = chunk 2 2 z @ drop 4 z" "drop 4 z = chunk 4 8 z @ drop 12 z"
        by (rule drop_split; simp)+
      then show "z = chunk 0 2 z @ chunk 2 2 z @ chunk 4 8 z @ drop 12 z" by (metis drop0)
    qed (use B(5) header(3) in simp_all)
    have enc: "amqp_encode_properties q =
        (\<lambda>b. enc_result (enc_seqs (encode_flags (properties_flags q) @ [encode_properties_body q]) \<lparr>ebuf = b, eoff = 0\<rparr>))"
      by (simp add: amqp_encode_properties_def fun_eq_iff)
    let ?pre = "w8 ?ty @ w16 ?ch @ x @ w16 (properties_class q)"
    have 1: "put (HEADER_SIZE + 2) (w16 0) k (?pre @ z2 @ t) = k (?pre @ w16 0 @ t)" for k t
      by (rule put_fits) (use B(4) z in \<open>simp_all add: frame_sizes\<close>)
    have 2: "put (HEADER_SIZE + 4) (w64 bd) k ((?pre @ w16 0) @ z3 @ t) = k ((?pre @ w16 0) @ w64 bd @ t)" for k t
      by (rule put_fits) (use B(4) z in \<open>simp_all add: frame_sizes\<close>)
    show ?thesis
      using head bput [of z1 "w16 (properties_class q)"] 1 2 fin header z B(4,6,7)
        encode_payload_fits [OF header(4), of "?pre @ w16 0 @ w64 bd" 12 z4 "y @ rest"]
      by (simp add: amqp_frame_to_bytes_def e_wire frame_types enc frame_sizes add.commute)
  next
    case body
    with head bput [of z p] fin B(5,7) show ?thesis
      by (simp add: amqp_frame_to_bytes_def e_wire frame_types Let_def)
  next
    case heartbeat
    with head fin B(5,7) show ?thesis
      by (simp add: amqp_frame_to_bytes_def e_wire frame_types Let_def)
  qed
qed


text \<open>A frame is only written when all of it fits.\<close>

lemma put_Returns:
  assumes "put off w k buf = (Returns b, buf')"
  shows "k (write_at buf off w) = (Returns b, buf') \<and> length (write_at buf off w) = length buf"
  using assms by (auto simp: put_def split: if_splits)

lemma finish_frame_Returns: "finish_frame n buf = (Returns b, buf') \<Longrightarrow> n + HEADER_SIZE + FOOTER_SIZE \<le> length buf"
  using finish_frame_short [of buf n] by (rule_tac ccontr) simp

lemma frame_to_bytes_only:
  assumes p: "payload_bytes p0 F p" and e: "amqp_frame_to_bytes F buf = (Returns bytes, buf')"
  shows "length p + HEADER_SIZE + FOOTER_SIZE \<le> length buf"
proof -
  have enc: "amqp_encode_method m = (\<lambda>b. enc_result (encode_method_body m \<lparr>ebuf = b, eoff = 0\<rparr>))" for m
    by (simp add: amqp_encode_method_def fun_eq_iff)
  have enc': "amqp_encode_properties q =
      (\<lambda>b. enc_result (enc_seqs (encode_flags (properties_flags q) @ [encode_properties_body q]) \<lparr>ebuf = b, eoff = 0\<rparr>))" for q
    by (simp add: amqp_encode_properties_def fun_eq_iff)
  have short: "HEADER_SIZE + off + length w + FOOTER_SIZE \<le> length b"
    if "emits en w" and "encode_payload off (\<lambda>b. enc_result (en \<lparr>ebuf = b, eoff = 0\<rparr>)) b = (Returns bytes, buf')" for en w off b
    using encode_payload_short [OF that(1), of b off] that(2) by (rule_tac ccontr) auto
  show ?thesis
    using p e
    by (auto simp: payload_bytes_def amqp_frame_to_bytes_def enc enc' Let_def frame_types split: if_splits
        dest!: put_Returns finish_frame_Returns short)
qed

text \<open>A frame that was written is received, whatever the pieces in which it arrives.\<close>

lemma frame_travels:
  assumes F: "payload_bytes p0 F p" and e: "amqp_frame_to_bytes F buf = (Returns bytes, buf')"
    and ok: "input_ok c h" and idle: "state c = CONNECTION_STATE_IDLE" and room: "roomy h"
    and fm: "length bytes \<le> size_t_of_int (frame_max c)" and len: "length bytes < INT32_MAX"
    and ds: "[] \<notin> set ds" "concat ds = bytes @ rest"
  shows "\<exists>c' h'. feed p0 c ds h f = (Returns (length bytes), c', h', as_received p0 (f\<lparr>frame_type := 0\<rparr>) F p) \<and>
    state c' = CONNECTION_STATE_IDLE \<and> input_ok c' h'"
proof -
  have b: "bytes = frame_image (frame_type F) (channel F) p"
    using frame_to_bytes_fits [OF F frame_to_bytes_only [OF F e]] e by simp
  have l: "length p < INT32_MAX" "length p + HEADER_SIZE + FOOTER_SIZE \<le> size_t_of_int (frame_max c)"
    using fm len by (simp_all add: b)
  have ne: "concat ds \<noteq> []" "ds \<noteq> []" using ds(2) by (auto simp: b frame_image_def w8_def be_bytes_def)
  have s: "state c \<noteq> CONNECTION_STATE_INITIAL" using idle by simp
  have pd: "pending c h @ concat ds = frame_image (frame_type F) (channel F) p @ rest"
    using pending_idle [OF ok idle] ds(2) b by simp
  obtain c1 h1 where 1: "amqp_handle_input p0 c (concat ds) h f = handle_body p0 (length bytes) c1 h1 (f\<lparr>frame_type := 0\<rparr>)"
      "frame_in c1 h1 bytes" "fails h1 = fails h"
    using handle_input_stream [OF ok s ne(1) room, of p0 f] stream_head_image(1) [OF l, of "frame_type F" "channel F" rest]
      pending_idle [OF ok idle]
    unfolding pd by (auto simp: b)
  have "roomy h1" using room 1(3) roomy_cong by blast
  from receive_frame [OF 1(2) [unfolded b] this F, of "length bytes" "f\<lparr>frame_type := 0\<rparr>"]
  obtain c' h' where 2: "amqp_handle_input p0 c (concat ds) h f = (Returns (length bytes), c', h', as_received p0 (f\<lparr>frame_type := 0\<rparr>) F p)"
      "state c' = CONNECTION_STATE_IDLE"
    using 1(1) by auto
  have "stays_ok (amqp_handle_input p0 c (concat ds) h f)" by (rule handle_input_ok [OF ok])
  with 2 have "input_ok c' h'" by (simp add: stays_ok_def)
  then show ?thesis using feed_concat [OF ok ds(1) ne(2), of p0 f] 2 by simp
qed

end
