(* ===== verification/Wire_Properties.thy ===== *)
theory Wire_Properties
  imports Amqp_Framing
begin

text \<open>
  Properties of the wire format: integer codecs, pools, field tables, methods and
  content properties, each with an instance at concrete values.
\<close>

section \<open>Concrete states\<close>

definition fresh_heap :: heap where
  "fresh_heap = \<lparr>next_id = 0, fails = (\<lambda>_ _. False), live = {}, bad_free = False, content = (\<lambda>_. [])\<rparr>"

definition fresh_state :: dec_state where
  "fresh_state = \<lparr>doff = 0, dpool = init_amqp_pool 4096, dheap = fresh_heap\<rparr>"

lemma fresh_state_simps [simp]:
  "roomy (dheap fresh_state)" "doff fresh_state = 0" "heap_ok fresh_heap" "roomy fresh_heap"
  "pool_ok (dpool fresh_state) (dheap fresh_state)"
  by (simp_all add: fresh_state_def fresh_heap_def roomy_def heap_ok_def pool_ok_init)

text \<open>How a short encoding is evaluated.\<close>

lemmas enc_eval = enc_seqs.simps enc_check_def amqp_encode_8_def amqp_encode_16_def amqp_encode_32_def
  amqp_encode_64_def amqp_encode_base_def amqp_encode_bytes_def Let_def amqp_e_be be_bytes_def
  upt_rec write_at_def enc_result_def

section \<open>Encoders stay inside the buffer\<close>

lemma frame_strings [enc_frame_intros]: "enc_frame (enc_shortstr b)" "enc_frame (enc_longstr b)"
  unfolding enc_shortstr_def enc_longstr_def
  by (auto intro!: frame_seqs_list enc_frame_intros)

lemma frame_method: "enc_frame (encode_method_body m)"
  by (cases m) (auto simp: method_encoders intro!: frame_seqs_list frame_strings frame_table frame_8 frame_16 frame_32
      frame_64 frame_fail)


section \<open>Methods\<close>

text \<open>
  C23: A method written by \<open>amqp_encode_method\<close> is read back by \<open>amqp_decode_method\<close> from
  the bytes it reports, for every method of the protocol whose strings fit their length
  fields and whose flags are 0 or 1.
\<close>

theorem method_roundtrip:
  assumes "valid_method m" and "amqp_encode_method m buf = (Inr n, out)"
    and "roomy (dheap s)" and "doff s = 0"
  shows "\<exists>s'. amqp_decode_method (method_number m) \<lparr>vmem = take n out, vlen = n\<rparr> s = (Returns m, s') \<and>
    doff s' = n"
  using encode_decode [OF agree_method [OF assms(1)]] assms(2-4) by (simp add: amqp_encode_method_def)

theorem method_roundtrip_witness:
  "\<exists>s'. amqp_decode_method AMQP_BASIC_QOS_METHOD
      \<lparr>vmem = [0, 0, 0, 0, 0, 10, 1], vlen = 7\<rparr> fresh_state =
    (Returns (M_basic_qos \<lparr>prefetch_size = 0, prefetch_count = 10, global = 1\<rparr>), s') \<and> doff s' = 7"
proof -
  let ?m = "M_basic_qos \<lparr>prefetch_size = 0, prefetch_count = 10, global = 1\<rparr>"
  have "amqp_encode_method ?m (replicate 8 0) = (Inr 7, [0, 0, 0, 0, 0, 10, 1, 0])"
    by (simp add: amqp_encode_method_def encode_basic_qos_def bit_buffer_def enc_eval)
  from method_roundtrip [OF _ this, of fresh_state] show ?thesis
    by (simp add: is_flag_def)
qed

text \<open>
  C33: Encoding a valid method depends on the buffer only through its size: there are bytes
  that are written whenever they fit, with the rest of the buffer left alone, and when
  they do not fit the result is an error.  What is returned is the number of these bytes
  (\<open>framing.h\<close> says 0; the callers in the library use the number).
\<close>

theorem encode_method_exact:
  assumes "valid_method m"
  shows "\<exists>w. \<forall>buf. if length w \<le> length buf
    then amqp_encode_method m buf = (Inr (length w), w @ drop (length w) buf)
    else \<exists>err out. amqp_encode_method m buf = (Inl err, out)"
proof -
  obtain w where w: "emits (encode_method_body m) w"
    using agree_method [OF assms] by (auto simp: agree_def)
  show ?thesis
    using encode_fits [OF w] encode_overflow [OF w]
    by (intro exI [of _ w]) (auto simp: amqp_encode_method_def)
qed

theorem encode_method_exact_witness:
  "\<exists>w. \<forall>buf. if length w \<le> length buf
    then amqp_encode_method (M_channel_flow \<lparr>amqp_channel_flow_t.active = 1\<rparr>) buf =
      (Inr (length w), w @ drop (length w) buf)
    else \<exists>err out. amqp_encode_method (M_channel_flow \<lparr>amqp_channel_flow_t.active = 1\<rparr>) buf = (Inl err, out)"
  by (rule encode_method_exact) (simp add: is_flag_def)

text \<open>
  C34: Whatever the method and the buffer, valid or not, encoding never writes outside the
  buffer and never reports more bytes than the buffer has.
\<close>

theorem encode_method_bounds:
  "case amqp_encode_method m buf of (r, out) \<Rightarrow>
    length out = length buf \<and> (case r of Inr n \<Rightarrow> n \<le> length buf | Inl err \<Rightarrow> err \<noteq> AMQP_STATUS_OK)"
proof (cases "encode_method_body m \<lparr>ebuf = buf, eoff = 0\<rparr>")
  case (Pair r s)
  from enc_frameD [OF frame_method Pair] show ?thesis
    by (auto simp: amqp_encode_method_def enc_result_def Pair)
qed

text \<open>
  C24: Decoding arbitrary bytes as a method is safe: when the length passed is not larger
  than the memory, no byte outside of it is read, the recursion of nested tables ends, and
  a method that is returned has the number that was asked for and lies within the length.
\<close>

theorem decode_method_safe:
  assumes "honest v" and "doff s \<le> vlen v" and "amqp_decode_method n v s = (r, s')"
  shows "defined_result r \<and>
    (case r of Returns m \<Rightarrow> method_number m = n \<and> doff s' \<le> vlen v | _ \<Rightarrow> True)"
proof -
  note d = dec_soundD [OF dec_sound_method assms(1,3)]
  show ?thesis
  proof (cases r)
    case (Returns m)
    then have "method_number m = n"
      using yields_method [of n] assms(3) by (auto simp: yields_def)
    then show ?thesis using d(4) [OF Returns assms(2)] Returns by simp
  qed (use d(1,2) in auto)
qed

theorem decode_method_safe_witness:
  "\<exists>r s'. amqp_decode_method AMQP_CONNECTION_START_METHOD \<lparr>vmem = [0, 9, 255, 255, 255, 255], vlen = 6\<rparr> fresh_state =
    (r, s') \<and> defined_result r"
proof -
  let ?v = "\<lparr>vmem = [0, 9, 255, 255, 255, 255], vlen = 6\<rparr>"
  obtain r s' where d: "amqp_decode_method AMQP_CONNECTION_START_METHOD ?v fresh_state = (r, s')"
    by fastforce
  from decode_method_safe [OF _ _ d] have "defined_result r" by (simp add: honest_def)
  with d show ?thesis by blast
qed

text \<open>
  C25: Decoding a method leaks and double-frees nothing: the pool stays well formed, blocks
  that do not belong to it survive, and as long as no allocation is refused the blocks
  outside the pool are exactly those from before.
\<close>

theorem decode_method_memory:
  assumes "honest v" and "pool_ok (dpool s) (dheap s)" and "amqp_decode_method n v s = (r, s')"
  shows "pool_ok (dpool s') (dheap s') \<and> foreign s \<subseteq> foreign s' \<and>
    (roomy (dheap s) \<longrightarrow> foreign s' = foreign s)"
  using dec_memD [OF dec_mem_method assms(2,3)] dec_soundD(1,2) [OF dec_sound_method assms(1,3)]
  by (auto simp: mem_step_def defined_result_def)

theorem decode_method_memory_witness:
  "\<exists>r s'. amqp_decode_method AMQP_QUEUE_BIND_METHOD \<lparr>vmem = [0, 0, 1, 113, 0, 0], vlen = 6\<rparr> fresh_state = (r, s') \<and>
    foreign s' = foreign fresh_state"
proof -
  let ?v = "\<lparr>vmem = [0, 0, 1, 113, 0, 0], vlen = 6\<rparr>"
  obtain r s' where d: "amqp_decode_method AMQP_QUEUE_BIND_METHOD ?v fresh_state = (r, s')"
    by fastforce
  from decode_method_memory [OF _ _ d] have "foreign s' = foreign fresh_state" by (simp add: honest_def)
  with d show ?thesis by blast
qed

section \<open>Content properties\<close>

text \<open>
  C31: Content properties written by \<open>amqp_encode_properties\<close> are read back by
  \<open>amqp_decode_properties\<close>: the class, the flags and every member whose flag is set.  The
  other members of the struct are whatever its memory held (\<open>p0\<close>).
\<close>

theorem properties_roundtrip:
  assumes "valid_properties p" and "amqp_encode_properties p buf = (Inr n, out)"
    and "roomy (dheap s)" and "doff s = 0"
  shows "\<exists>s'. amqp_decode_properties p0 (properties_class p) \<lparr>vmem = take n out, vlen = n\<rparr> s =
    (Returns (as_decoded p0 p), s')"
  using encode_decode [OF agree_properties [OF assms(1)]] assms(2-4)
  unfolding amqp_encode_properties_def by blast

theorem properties_roundtrip_witness:
  "\<forall>p0. \<exists>s'. amqp_decode_properties p0 40 \<lparr>vmem = [128, 0], vlen = 2\<rparr> fresh_state =
    (Returns (P_exchange 0x8000), s')"
proof -
  have "encode_flags 0x8000 = [enc_16 0x8000]"
    by (subst encode_flags.simps) (simp add: flag_word_def drop_bit_eq_div)
  then have "amqp_encode_properties (P_exchange 0x8000) [0, 0, 0] = (Inr 2, [128, 0, 0])"
    by (simp add: amqp_encode_properties_def enc_eval)
  moreover have "valid_properties (P_exchange 0x8000)" by (simp add: plain_flags_def drop_bit_eq_div)
  ultimately show ?thesis
    using properties_roundtrip [of "P_exchange 0x8000" "[0, 0, 0]" 2 "[128, 0, 0]" fresh_state] by fastforce
qed

text \<open>
  C32: Decoding content properties is safe except in exactly two situations: the first flag
  word announces a second one whose highest bit is set, or the first two both announce
  another one and a third one follows.  The shift of that word is undefined in C: the word is
  promoted to \<open>int\<close>, where \<open>0x8000 << 16\<close> does not fit, and a shift by 32 is as wide as the
  type.
\<close>

theorem decode_properties_undefined:
  assumes "honest v" and "amqp_decode_properties p0 cls v s = (r, s')"
  shows "defined_result r \<longleftrightarrow> \<not> bad_flag_words v (doff s)"
  using properties_undefined [OF assms(1), of p0 cls s] assms(2) by (auto simp: defined_result_def)

theorem decode_properties_undefined_witness:
  "\<forall>p0. \<exists>s'. amqp_decode_properties p0 60 \<lparr>vmem = [0, 1, 128, 0], vlen = 4\<rparr> fresh_state = (Undefined, s')"
proof
  fix p0
  let ?v = "\<lparr>vmem = [0, 1, 128, 0], vlen = 4\<rparr>"
  obtain r s' where d: "amqp_decode_properties p0 60 ?v fresh_state = (r, s')" by fastforce
  have "bad_flag_words ?v 0"
    unfolding bad_flag_words_def
    by (intro exI [of _ 1] exI [of _ 32768]) (simp add: at_def honest_def chunk_def w16_def be_bytes_def upt_rec)
  with decode_properties_undefined [OF _ d] have "\<not> defined_result r" by (simp add: honest_def)
  moreover have "r \<noteq> OutOfFuel"
    using properties_undefined(2) [of ?v p0 60 fresh_state] d by (simp add: honest_def)
  ultimately show "\<exists>s'. amqp_decode_properties p0 60 ?v fresh_state = (Undefined, s')"
    using d by (auto simp: defined_result_def)
qed

section \<open>Field tables\<close>

text \<open>
  C26: A field table that was encoded at some offset of a buffer is decoded from there, for
  all nestings of tables and arrays whose lengths fit the length fields.
\<close>

theorem table_roundtrip:
  assumes "valid_table t" and "eoff s \<le> length (ebuf s)"
    and "amqp_encode_table t s = (AMQP_STATUS_OK, s')"
    and "roomy (dheap d)" and "doff d = eoff s"
  shows "\<exists>d'. amqp_decode_table \<lparr>vmem = ebuf s', vlen = length (ebuf s')\<rparr> d = (Returns t, d') \<and>
    doff d' = eoff s'"
proof -
  have fits: "eoff s' \<le> length (ebuf s')"
    using enc_frameD(1,4) [OF frame_table assms(3)] assms(2) by simp
  show ?thesis
    by (rule table_field.put_get [OF assms(1-3)]) (use assms fits in \<open>simp_all add: honest_def\<close>)
qed

theorem table_roundtrip_witness:
  "\<exists>d'. amqp_decode_table \<lparr>vmem = [0, 0, 0, 3, 1, 107, 86], vlen = 7\<rparr> fresh_state =
    (Returns [Entry [107] Fv_void], d') \<and> doff d' = 7"
proof -
  let ?t = "[Entry [107] Fv_void]"
  let ?s = "\<lparr>ebuf = replicate 7 0, eoff = 0\<rparr>"
  have e: "amqp_encode_table ?t ?s =
      (AMQP_STATUS_OK, \<lparr>ebuf = [0, 0, 0, 3, 1, 107, 86], eoff = 7\<rparr>)"
    by (simp add: amqp_encode_table_def enc_sized_def amqp_encode_field_value.simps kind_code_def enc_eval)
  have w: "wire_table_entries ?t = [1, 107, 86]"
    by (simp add: wire_field_value.simps kind_code_def w8_def be_bytes_def)
  have v: "valid_table ?t" by (simp add: valid_table_def w del: wire_table_entries.simps)
  show ?thesis using table_roundtrip [OF v _ e, of fresh_state] by (simp add: eval_nat_numeral)
qed

text \<open>
  C27: The table decoder returns on every input: the fuel of the mutual recursion, twice the
  size of the memory plus two, never runs out, and no byte outside the memory is read.
\<close>

theorem table_decoder_terminates:
  assumes "honest v"
  shows "\<exists>r s'. amqp_decode_table v s = (r, s') \<and> defined_result r \<and> doff s \<le> doff s'"
  using dec_soundD(1-3) [OF dec_sound_table assms, of s]
  by (cases "amqp_decode_table v s") (auto simp: defined_result_def)

theorem table_decoder_terminates_witness:
  "\<exists>r s'. amqp_decode_table \<lparr>vmem = [0, 0, 0, 9, 0, 70, 0, 0, 0, 4, 0, 70, 0], vlen = 13\<rparr> fresh_state = (r, s') \<and>
    defined_result r \<and> doff fresh_state \<le> doff s'"
  by (rule table_decoder_terminates) (simp add: honest_def)

text \<open>
  The encoder truncates the length of a key to one byte: a key of 256 bytes is written
  with length 0, without an error.
\<close>

lemma table_long_key:
  "emits (amqp_encode_table [Entry (replicate 256 k) Fv_void])
    (w32 258 @ w8 0 @ replicate 256 k @ w8 (kind_code AMQP_FIELD_KIND_VOID))"
proof -
  have "(of_nat 256 :: u8) = 0" by (simp only: word_of_nat_eq_0_iff) simp
  then have zero: "(256 :: u8) = 0" by simp
  have "wire_table_entries [Entry (replicate 256 k) Fv_void] =
      w8 0 @ replicate 256 k @ w8 (kind_code AMQP_FIELD_KIND_VOID)"
    by (simp add: wire_field_value.simps) (simp only: zero)
  then show ?thesis
    using emits_table [of "[Entry (replicate 256 k) Fv_void]"]
    by (simp add: wire_table_def del: wire_table_entries.simps)
qed

section \<open>Integers\<close>

text \<open>
  C38: The integer codecs do not depend on the byte order of the host: on big- and
  little-endian hosts they produce the same bytes, most significant first, and read the
  value back.
\<close>

theorem integer_codecs_portable:
  "amqp_e16 be a = [ucast (drop_bit 8 a), ucast a] \<and> amqp_d16 be (amqp_e16 be' a) = a \<and>
   amqp_e32 be b = [ucast (drop_bit 24 b), ucast (drop_bit 16 b), ucast (drop_bit 8 b), ucast b] \<and>
   amqp_d32 be (amqp_e32 be' b) = b \<and>
   amqp_e64 be c = amqp_e32 be (ucast (drop_bit 32 c)) @ amqp_e32 be (ucast c) \<and>
   amqp_d64 be (amqp_e64 be' c) = c"
proof -
  have 1: "amqp_e16 be a = [ucast (drop_bit 8 a), ucast a]"
    and 2: "amqp_e32 be b = [ucast (drop_bit 24 b), ucast (drop_bit 16 b), ucast (drop_bit 8 b), ucast b]"
    by (simp_all add: amqp_e_be be_bytes_def upt_rec)
  have "be_bytes 8 c = be_bytes 4 (ucast (drop_bit 32 c) :: u32) @ be_bytes 4 (ucast c :: u32)"
    unfolding be_bytes_def upt_widths
    by simp (intro conjI; rule bit_word_eqI; auto simp: bit_simps)
  then have 3: "amqp_e64 be c = amqp_e32 be (ucast (drop_bit 32 c)) @ amqp_e32 be (ucast c)"
    by (simp add: amqp_e_be)
  have 4: "amqp_d16 be (amqp_e16 be' a) = a" "amqp_d32 be (amqp_e32 be' b) = b"
      "amqp_d64 be (amqp_e64 be' c) = c"
    by (simp_all add: amqp_e_be amqp_d_be be_value_be_bytes)
  show ?thesis by (intro conjI 1 2 3 4)
qed

section \<open>Pools\<close>

text \<open>
  C35: Any sequence of requests to a pool obtains regions that do not overlap, whatever
  pages and large blocks they come from and wherever the heap refuses memory in between.
\<close>

theorem pool_regions_disjoint:
  assumes "pool_ok pool h" and "\<forall>n \<in> set ns. n + 7 < 2 ^ 64"
    and "i < j" and "j < length (regions pool_request ns (pool, h))"
  shows "apart (regions pool_request ns (pool, h) ! i) (regions pool_request ns (pool, h) ! j)"
  using pool_allocator.regions_pairwise_apart [of "(pool, h)" ns i j] assms
  by (simp add: pool_size_ok_def)

theorem pool_regions_disjoint_witness:
  "apart (regions pool_request [10, 5000] (init_amqp_pool 4096, fresh_heap) ! 0)
    (regions pool_request [10, 5000] (init_amqp_pool 4096, fresh_heap) ! 1)"
proof -
  have "length (regions pool_request [10, 5000] (init_amqp_pool 4096, fresh_heap)) = 2"
    by (simp add: pool_request_def amqp_pool_alloc_def init_amqp_pool_def fresh_heap_def round_up_8_eq
        calloc_def malloc_def record_pool_block_def realloc_def free_def Let_def)
  then show ?thesis
    using pool_regions_disjoint [of "init_amqp_pool 4096" fresh_heap "[10, 5000]" 0 1]
    by (simp add: pool_ok_init)
qed



text \<open>
  C37: Emptying a pool frees every block the pool owns, each once, and nothing else.
\<close>

theorem empty_pool_frees_all:
  assumes "pool_ok pool h" and "empty_amqp_pool pool h = (pool', h')"
  shows "live h' = live h - pool_owned pool \<and> pool_owned pool' = {} \<and> \<not> bad_free h'"
  using empty_amqp_pool_frees [OF assms] by (simp add: pool_ok_iff heap_ok_def)

theorem empty_pool_frees_all_witness:
  "\<exists>pool h. pool_owned pool \<noteq> {} \<and>
    (case empty_amqp_pool pool h of (pool', h') \<Rightarrow> live h' = live h - pool_owned pool)"
proof -
  obtain r pool h where a: "amqp_pool_alloc (init_amqp_pool 512) 8 fresh_heap = (r, pool, h)"
    by (metis prod_cases3)
  have "pool_owned pool \<noteq> {}"
    using a by (auto simp: amqp_pool_alloc_def init_amqp_pool_def fresh_heap_def round_up_8_eq
        calloc_def malloc_def record_pool_block_def Let_def pool_owned_def bl_owned_def)
  moreover obtain pool' h' where e: "empty_amqp_pool pool h = (pool', h')" by fastforce
  moreover have "live h' = live h - pool_owned pool"
    using empty_pool_frees_all [OF pool_alloc_invariant [OF pool_ok_init a] e] by simp
  ultimately show ?thesis by fastforce
qed

section \<open>Status codes\<close>

text \<open>
  Every status code has an error string of its own, in both functions, and the
  deprecated function accepts the positive code as well.
\<close>

lemma error_strings_complete:
  "amqp_error_string2 (word_of_int (status_code st)) \<noteq> unknown_error_string \<and>
   amqp_error_string (word_of_int (- status_code st)) = amqp_error_string2 (word_of_int (status_code st))"
  by (cases st) (simp_all add: error_string_defs drop_bit_eq_div word_sless_alt)

end
