(* ===== verification/Input_Failures.thy ===== *)
theory Input_Failures
  imports Input_Machine
begin

text \<open>
  What a failure of \<open>amqp_handle_input\<close> leaves behind (\<open>amqp_connection.c\<close>): none of its early
  returns resets the state machine, so the invariant of the input is lost for good.
\<close>

text \<open>After a failure the collected bytes are complete or the wanted size has no place.\<close>

definition stuck :: "amqp_connection_state_t \<Rightarrow> bool" where
  "stuck c \<longleftrightarrow> target_size c \<le> inbound_offset c \<or>
    (state c = CONNECTION_STATE_HEADER \<and> target_size c \<noteq> HEADER_SIZE) \<or>
    (state c = CONNECTION_STATE_INITIAL \<and> target_size c \<noteq> 8)"

definition fails_stuck :: "input_result \<Rightarrow> bool" where
  "fails_stuck res \<longleftrightarrow> (case res of (Fails st, c, h, f) \<Rightarrow> stuck c | _ \<Rightarrow> True)"

lemma stuck_not_ok: "stuck c \<Longrightarrow> \<not> input_ok c h"
  by (auto simp: stuck_def input_ok_def)

lemma stuck_pools [simp]:
  "stuck (set_channel_pool ch pool c) = stuck c" "stuck (add_pool_entry b ch pool c) = stuck c"
  by (simp_all add: stuck_def set_channel_pool_def add_pool_entry_def)

lemma get_or_create_stuck: "amqp_get_or_create_channel_pool c ch h = (p, c', h') \<Longrightarrow> stuck c' = stuck c"
  by (auto simp: amqp_get_or_create_channel_pool_def Let_def split: option.splits prod.splits)

lemma decode_raw_frame_stuck: "stuck c \<Longrightarrow> fails_stuck (decode_raw_frame p0 raw pool n c h f)"
  by (auto simp: fails_stuck_def decode_raw_frame_def decode_method_frame_def decode_header_frame_def
      decode_payload_def Let_def split: prod.splits dres.splits)

lemma handle_body_stuck:
  assumes "stuck c"
  shows "fails_stuck (handle_body p0 n c h f)"
proof (cases "inbound_buffer c")
  case (In_pool a)
  obtain b base where a: "a = (b, base)" by fastforce
  let ?raw = "chunk base (target_size c) (content h b)"
  let ?f = "f\<lparr>frame_type := amqp_d8 is_bigendian (chunk 0 1 ?raw), channel := amqp_d16 is_bigendian (chunk 1 2 ?raw)\<rparr>"
  obtain p c1 h1 where g: "amqp_get_or_create_channel_pool c (channel ?f) h = (p, c1, h1)"
    by (cases "amqp_get_or_create_channel_pool c (channel ?f) h")
  have s: "stuck c1" using get_or_create_stuck [OF g] assms by simp
  show ?thesis
    using decode_raw_frame_stuck [OF s, of p0 ?raw "the p" n h1 ?f] g s assms
    by (auto simp: handle_body_def In_pool a Let_def fails_stuck_def split: option.splits)
qed (simp_all add: handle_body_def fails_stuck_def)

lemma collect_body_stuck: "fails_stuck (collect_body p0 n d c h f)"
proof (cases "consume_data c d h")
  case None
  then show ?thesis by (simp add: collect_body_def fails_stuck_def)
next
  case (Some x)
  obtain m rest c2 h2 where x: "x = (m, rest, c2, h2)" by (cases x)
  show ?thesis
  proof (cases "inbound_offset c2 < target_size c2")
    case True
    then show ?thesis by (simp add: collect_body_def Some x fails_stuck_def)
  next
    case False
    then have "stuck c2" by (simp add: stuck_def)
    from handle_body_stuck [OF this, of p0 "n + m" h2 f] False show ?thesis
      by (simp add: collect_body_def Some x)
  qed
qed

lemma open_frame_stuck:
  assumes "target_size c \<le> inbound_offset c" and "state c = CONNECTION_STATE_INITIAL \<Longrightarrow> target_size c = 8"
    and "state c = CONNECTION_STATE_INITIAL \<or> state c = CONNECTION_STATE_HEADER" and "open_frame c h = (Some st, c', h')"
  shows "stuck c'"
proof -
  have "stuck (c\<lparr>target_size := fs + HEADER_SIZE + FOOTER_SIZE\<rparr>)" for fs
    using assms(1-3) by (auto simp: stuck_def frame_sizes)
  then have s: "stuck (c\<lparr>target_size := fs + HEADER_SIZE + FOOTER_SIZE\<rparr>)"
      "stuck (c\<lparr>target_size := fs + HEADER_SIZE + FOOTER_SIZE, inbound_buffer := i\<rparr>)" for fs i
    by (simp_all add: stuck_def)
  have g: "stuck c2 \<and> stuck (c2\<lparr>inbound_buffer := i\<rparr>)"
    if "amqp_get_or_create_channel_pool (c\<lparr>target_size := fs + HEADER_SIZE + FOOTER_SIZE\<rparr>) ch h = (p, c2, h2)" for p c2 h2 fs ch i
    using get_or_create_stuck [OF that] s(1) by (simp add: stuck_def)
  have g': "stuck ((set_channel_pool ch' pool c2)\<lparr>inbound_buffer := i\<rparr>)"
    if "amqp_get_or_create_channel_pool (c\<lparr>target_size := fs + HEADER_SIZE + FOOTER_SIZE\<rparr>) ch h = (p, c2, h2)" for p c2 h2 fs ch ch' pool i
    using g [OF that] by (simp add: stuck_def set_channel_pool_def)
  have c: "stuck c" using assms(1) by (simp add: stuck_def)
  from assms(4) c show ?thesis
    unfolding open_frame_def Let_def
    by (auto split: if_splits prod.splits option.splits intro: s c dest: g g')
qed

lemma handle_header_stuck:
  assumes "target_size c \<le> inbound_offset c" and "state c = CONNECTION_STATE_INITIAL \<Longrightarrow> target_size c = 8"
    and "state c = CONNECTION_STATE_INITIAL \<or> state c = CONNECTION_STATE_HEADER"
  shows "fails_stuck (handle_header p0 n d c h f)"
proof -
  obtain r c' h' where o: "open_frame c h = (r, c', h')" by (cases "open_frame c h")
  show ?thesis
    using open_frame_stuck [OF assms] collect_body_stuck [of p0 n d c' h' f] o
    by (cases r) (auto simp: handle_header_def fails_stuck_def)
qed

lemma advance_stuck:
  assumes ok: "input_ok c h" and s: "state c \<noteq> CONNECTION_STATE_IDLE"
  shows "fails_stuck (advance p0 c d h f)"
proof (cases "inbound_offset c + length d < target_size c")
  case True
  then show ?thesis by (simp add: advance_def Let_def fails_stuck_def)
next
  case False
  let ?n = "min (length d) (target_size c - inbound_offset c)"
  let ?c = "fill c (take ?n d)"
  have full: "target_size ?c \<le> inbound_offset ?c" "state ?c = state c"
    using False by (simp_all add: fill_def)
  moreover have "state c = CONNECTION_STATE_INITIAL \<Longrightarrow> target_size ?c = 8"
    using ok by (simp add: input_ok_def fill_def)
  ultimately show ?thesis
    using False s handle_header_stuck [of ?c p0 ?n "drop ?n d" "fill_heap c (take ?n d) h" f]
      handle_body_stuck [of ?c p0 ?n "fill_heap c (take ?n d) h" f]
    by (auto simp: advance_def Let_def handle_initial_def fails_stuck_def stuck_def simp del: fill_simps
        split: amqp_connection_state_enum.splits)
qed

lemma handle_input_stuck:
  assumes "input_ok c h"
  shows "fails_stuck (amqp_handle_input p0 c d h f)"
proof (cases "d = []")
  case True
  then show ?thesis by (simp add: amqp_handle_input_def fails_stuck_def Let_def)
next
  case False
  then show ?thesis
    using advance_stuck [OF begin_input_ok [OF assms] begin_input_state] handle_input_advance [OF assms] by simp
qed

end
