(* ===== verification/Input_Properties.thy ===== *)
theory Input_Properties
  imports Frame_Travel Wire_Properties Input_Failures
begin

text \<open>
  Properties of frame input and output: the invariant of the input state machine, its
  specification, and the round trip of frames, each with an instance.
\<close>

section \<open>A concrete connection\<close>

definition no_reply :: amqp_rpc_reply_t where
  "no_reply = \<lparr>reply_type = AMQP_RESPONSE_NONE, reply = None, library_error = 0\<rparr>"

definition idle_connection :: amqp_connection_state_t where
  "idle_connection = \<lparr>pool_table = replicate 16 [], state = CONNECTION_STATE_IDLE, channel_max = 0,
     frame_max = 4096, heartbeat = 0, next_recv_heartbeat = amqp_time_infinite,
     next_send_heartbeat = amqp_time_infinite, header_buffer = replicate 8 0,
     inbound_buffer = In_header_buffer, inbound_offset = 0, target_size = 7, outbound_block = None,
     outbound_buffer = replicate 4096 0, sock_inbound_block = None, sock_inbound_buffer = [],
     sock_inbound_offset = 0, sock_inbound_limit = 0, first_queued_frame = [],
     most_recent_api_result = no_reply, server_properties = [], client_properties = [],
     properties_pool = init_amqp_pool 512, handshake_timeout = None, rpc_timeout = None\<rparr>"

definition empty_frame :: amqp_frame_t where
  "empty_frame = \<lparr>frame_type = 0, channel = 0, payload = No_payload\<rparr>"

lemma idle_connection_ok [simp]:
  "input_ok idle_connection fresh_heap" "state idle_connection = CONNECTION_STATE_IDLE"
  "frame_max idle_connection = 4096" "pending idle_connection fresh_heap = []"
  by (simp_all add: idle_connection_def input_ok_def base_ok_def pools_ok_def table_ok_def
      amqp_get_channel_pool_def POOL_TABLE_SIZE_def frame_sizes pool_index_def pending_def)

section \<open>The input state machine\<close>

text \<open>
  C3: Every call of \<open>amqp_handle_input\<close> that returns a count keeps the invariant of the
  connection and makes progress: it takes a byte at least, and all of them unless it ends
  with a complete frame.  A call that fails breaks the invariant, since no error path resets
  the collected bytes: only the pools are still in order, and the next call may not be made
  (\<open>amqp.h\<close> demands to shut the connection down).  Whatever the result, the pools stay in
  order.
\<close>

theorem input_invariant:
  assumes "input_ok c h" and "amqp_handle_input p0 c d h f = (r, c', h', f')"
  shows "pools_ok c' h' \<and>
    (case r of
       Returns n \<Rightarrow> input_ok c' h' \<and> n \<le> length d \<and> (d \<noteq> [] \<longrightarrow> 0 < n) \<and>
         (n = length d \<or> state c' = CONNECTION_STATE_IDLE)
     | Fails st \<Rightarrow> \<not> input_ok c' h'
     | _ \<Rightarrow> True)"
  using handle_input_ok [OF assms(1), where d = d and f = f and ?p0.0 = p0]
    handle_input_stuck [OF assms(1), where d = d and f = f and ?p0.0 = p0] assms(2)
  by (auto simp: stays_ok_def takes_def fails_stuck_def stuck_not_ok split: dres.splits)

theorem input_invariant_witness:
  "\<forall>p0. case amqp_handle_input p0 idle_connection [1, 0, 1, 0, 0] fresh_heap empty_frame of
    (r, c', h', f') \<Rightarrow> pools_ok c' h' \<and>
      (case r of Returns n \<Rightarrow> input_ok c' h' \<and> 0 < n | Fails st \<Rightarrow> \<not> input_ok c' h' | _ \<Rightarrow> True)"
proof
  fix p0
  obtain r c' h' f' where e: "amqp_handle_input p0 idle_connection [1, 0, 1, 0, 0] fresh_heap empty_frame = (r, c', h', f')"
    by (cases "amqp_handle_input p0 idle_connection [1, 0, 1, 0, 0] fresh_heap empty_frame")
  from input_invariant [OF idle_connection_ok(1) e] e
  show "case amqp_handle_input p0 idle_connection [1, 0, 1, 0, 0] fresh_heap empty_frame of
    (r, c', h', f') \<Rightarrow> pools_ok c' h' \<and>
      (case r of Returns n \<Rightarrow> input_ok c' h' \<and> 0 < n | Fails st \<Rightarrow> \<not> input_ok c' h' | _ \<Rightarrow> True)"
    by (auto split: dres.splits)
qed

text \<open>
  C4: How the bytes are cut into pieces does not matter: feeding them piece by piece gives
  the same result, the same connection, the same heap and the same frame as one call with
  all of them.
\<close>

theorem chunking_irrelevant:
  assumes "input_ok c h" and "[] \<notin> set ds" and "ds \<noteq> []"
  shows "feed p0 c ds h f = amqp_handle_input p0 c (concat ds) h f"
  by (rule feed_concat [OF assms])

theorem chunking_irrelevant_witness:
  "\<forall>p0. feed p0 idle_connection [[8, 0], [0, 0, 0, 0, 0], [206]] fresh_heap empty_frame =
    amqp_handle_input p0 idle_connection [8, 0, 0, 0, 0, 0, 0, 206] fresh_heap empty_frame"
  using chunking_irrelevant [OF idle_connection_ok(1), of "[[8, 0], [0, 0, 0, 0, 0], [206]]"] by simp

text \<open>
  C2: The state machine refines the specification of a stream of frames: with the bytes it
  holds already (\<open>pending\<close>) it waits exactly as long as the stream holds no whole frame,
  refuses exactly the frames whose size field exceeds \<open>frame_max\<close> or \<open>INT32_MAX\<close>, and
  otherwise decodes the first whole frame and takes no byte behind it.
\<close>

theorem input_refines_stream:
  assumes "input_ok c h" and "state c \<noteq> CONNECTION_STATE_INITIAL" and "d \<noteq> []" and "roomy h"
  shows "case stream_head (frame_max c) (pending c h @ d) of
      Need_more \<Rightarrow> \<exists>c' h'. amqp_handle_input p0 c d h f = (Returns (length d), c', h', f\<lparr>frame_type := 0\<rparr>) \<and>
        pending c' h' = pending c h @ d \<and> state c' \<noteq> CONNECTION_STATE_IDLE \<and> fails h' = fails h
    | Refused \<Rightarrow> \<exists>c' h'. amqp_handle_input p0 c d h f =
        (Fails AMQP_STATUS_BAD_AMQP_DATA, c', h', f\<lparr>frame_type := 0\<rparr>)
    | Whole k \<Rightarrow> \<exists>c' h'. amqp_handle_input p0 c d h f =
          handle_body p0 (k - length (pending c h)) c' h' (f\<lparr>frame_type := 0\<rparr>) \<and>
        length (pending c h) \<le> k \<and> frame_in c' h' (take k (pending c h @ d)) \<and> fails h' = fails h"
  by (rule handle_input_stream [OF assms])

theorem input_refines_stream_witness:
  "\<forall>p0. \<exists>c' h'. amqp_handle_input p0 idle_connection [3, 0, 1, 255, 255, 255, 255] fresh_heap empty_frame =
    (Fails AMQP_STATUS_BAD_AMQP_DATA, c', h', empty_frame)"
proof -
  have "stream_head 4096 [3, 0, 1, 255, 255, 255, 255] = Refused"
    by (simp add: stream_head_def size_ok_def frame_size_def chunk_def frame_sizes amqp_d32_be be_value_def INT32_MAX_def)
  then show ?thesis
    using input_refines_stream [of idle_connection fresh_heap "[3, 0, 1, 255, 255, 255, 255]" _ empty_frame]
    by (simp add: empty_frame_def)
qed

text \<open>
  C1: A frame written by \<open>amqp_frame_to_bytes\<close> is received by \<open>amqp_handle_input\<close>: type,
  channel and payload come back, the connection is idle again and no byte of what follows
  is taken, for every valid frame and every way the bytes are cut into pieces.
\<close>

theorem frame_roundtrip:
  assumes "valid_frame F" and "amqp_frame_to_bytes F buf = (Returns bytes, buf')"
    and "input_ok c h" and "state c = CONNECTION_STATE_IDLE" and "roomy h"
    and "length bytes \<le> size_t_of_int (frame_max c)" and "length bytes < INT32_MAX"
    and "[] \<notin> set ds" and "concat ds = bytes @ rest"
  shows "\<exists>c' h' p. feed p0 c ds h f = (Returns (length bytes), c', h', as_received p0 (f\<lparr>frame_type := 0\<rparr>) F p) \<and>
    payload_bytes p0 F p \<and> state c' = CONNECTION_STATE_IDLE \<and> input_ok c' h'"
proof -
  obtain p where p: "payload_bytes p0 F p" using valid_frame_payload [OF assms(1)] by blast
  from frame_travels [OF p assms(2-9)] p show ?thesis by blast
qed

theorem frame_roundtrip_witness:
  "\<forall>p0. \<exists>c' h'. feed p0 idle_connection [[3, 0, 7, 0, 0], [0, 2, 104, 105, 206, 1, 2]] fresh_heap empty_frame =
    (Returns 10, c', h', \<lparr>frame_type = 3, channel = 7, payload = Body_payload [104, 105]\<rparr>)"
proof
  fix p0
  let ?F = "\<lparr>frame_type = 3, channel = 7, payload = Body_payload [104, 105]\<rparr>"
  have w: "amqp_frame_to_bytes ?F (replicate 10 0) =
      (Returns [3, 0, 7, 0, 0, 0, 2, 104, 105, 206], [3, 0, 7, 0, 0, 0, 2, 104, 105, 206])"
    using frame_to_bytes_fits [of p0 ?F "[104, 105]" "replicate 10 0"]
    by (simp add: payload_bytes_def frame_types frame_sizes frame_image_def AMQP_FRAME_END_def
        w8_def w16_def w32_def be_bytes_def upt_rec)
  have "\<exists>c' h' p. feed p0 idle_connection [[3, 0, 7, 0, 0], [0, 2, 104, 105, 206, 1, 2]] fresh_heap empty_frame =
      (Returns (length [3, 0, 7, 0, 0, 0, 2, 104, 105, 206 :: byte]), c', h', as_received p0 (empty_frame\<lparr>frame_type := 0\<rparr>) ?F p) \<and>
      payload_bytes p0 ?F p \<and> state c' = CONNECTION_STATE_IDLE \<and> input_ok c' h'"
    by (rule frame_roundtrip [OF _ w idle_connection_ok(1), where rest = "[1, 2]"])
      (simp_all add: valid_frame_def frame_types size_t_of_int_def INT32_MAX_def)
  then show "\<exists>c' h'. feed p0 idle_connection [[3, 0, 7, 0, 0], [0, 2, 104, 105, 206, 1, 2]] fresh_heap empty_frame =
    (Returns 10, c', h', ?F)"
    by (auto simp: as_received_def frame_types)
qed

end
