(* ===== verification/Amqp_Socket.thy ===== *)
theory Amqp_Socket
  imports Amqp_Input Amqp_Output
begin

text \<open>
  The socket layer: \<open>amqp_tcp_socket.c\<close>, polling, sending and receiving with deadlines and
  heartbeats (\<open>amqp_socket.c\<close>, \<open>amqp_send_frame_inner\<close> of \<open>amqp_connection.c\<close>).

  The answers of the operating system are lists in the state: what each call of \<open>poll\<close>,
  \<open>send\<close> and \<open>recv\<close> will say, in order.  A call for which there is no answer left is still
  waiting, \<open>Waiting\<close>.  Every round of a loop takes an answer, so the number of answers is
  fuel enough: a loop without fuel has no answers left either.
\<close>

section \<open>The outside\<close>

datatype poll_answer = Poll_ready | Poll_timeout | Poll_interrupted | Poll_failed
datatype send_answer = Os_sent nat | Send_interrupted | Send_would_block | Send_failed
datatype recv_answer = Os_data "byte list" | Recv_interrupted | Recv_would_block | Recv_failed

text \<open>
  \<open>clock\<close> is what the monotonic clock shows at each reading (0: failed), \<open>ticks\<close> the number
  of readings so far (a reading whose result is not used may be one too many); \<open>close_fails\<close>
  says whether \<open>close\<close> reports an error; \<open>sent\<close> is what the peer has got; \<open>spare\<close> is what
  the memory of a decoded struct of basic properties holds before it is filled.
\<close>

record world =
  conn :: amqp_connection_state_t
  mem :: heap
  sockfd :: "int option"
  clock :: "nat \<Rightarrow> u64"
  ticks :: nat
  polls :: "poll_answer list"
  sends :: "send_answer list"
  recvs :: "recv_answer list"
  close_fails :: bool
  sent :: "byte list"
  spare :: amqp_basic_properties_t

text \<open>
  Results of functions that return a status: \<open>Done\<close> for \<open>AMQP_STATUS_OK\<close> or a count,
  \<open>Error\<close> with the code for the others, \<open>Crash\<close> for undefined behaviour and aborts.
\<close>

datatype 'a outcome = Done 'a | Error int | Waiting | Crash

type_synonym 'a io = "world \<Rightarrow> 'a outcome \<times> world"

definition io_return :: "'a \<Rightarrow> 'a io" where
  "io_return x w = (Done x, w)"

definition io_error :: "int \<Rightarrow> 'a io" where
  "io_error code w = (Error code, w)"

definition io_fail :: "amqp_status_enum \<Rightarrow> 'a io" where
  "io_fail st = io_error (status_code st)"

definition io_bind :: "'a io \<Rightarrow> ('a \<Rightarrow> 'b io) \<Rightarrow> 'b io" where
  "io_bind m k w =
    (case m w of
       (Done x, w') \<Rightarrow> k x w'
     | (Error code, w') \<Rightarrow> (Error code, w')
     | (Waiting, w') \<Rightarrow> (Waiting, w')
     | (Crash, w') \<Rightarrow> (Crash, w'))"

text \<open>\<open>io_catch m handler\<close> goes on after an error.\<close>

definition io_catch :: "'a io \<Rightarrow> (int \<Rightarrow> 'a io) \<Rightarrow> 'a io" where
  "io_catch m handler w = (case m w of (Error code, w') \<Rightarrow> handler code w' | r \<Rightarrow> r)"

definition change_conn :: "(amqp_connection_state_t \<Rightarrow> amqp_connection_state_t) \<Rightarrow> unit io" where
  "change_conn f w = (Done (), w\<lparr>conn := f (conn w)\<rparr>)"

definition get_conn :: "(amqp_connection_state_t \<Rightarrow> 'a) \<Rightarrow> 'a io" where
  "get_conn f w = (Done (f (conn w)), w)"

lemmas io_defs = io_return_def io_error_def io_fail_def io_bind_def io_catch_def change_conn_def get_conn_def

section \<open>Time\<close>

definition read_clock :: "u64 io" where
  "read_clock w = (Done (clock w (ticks w)), w\<lparr>ticks := Suc (ticks w)\<rparr>)"

text \<open>A time function that gives a status and perhaps a point in time.\<close>

definition timed :: "amqp_status_enum \<times> 'a option \<Rightarrow> ('a \<Rightarrow> unit io) \<Rightarrow> unit io" where
  "timed r store =
    (case r of (st, t) \<Rightarrow>
      io_bind (case t of None \<Rightarrow> io_return () | Some x \<Rightarrow> store x) (\<lambda>_.
        if st = AMQP_STATUS_OK then io_return () else io_fail st))"

definition schedule_send_heartbeat :: "unit io" where
  "schedule_send_heartbeat =
    io_bind read_clock (\<lambda>now. io_bind (get_conn amqp_heartbeat_send) (\<lambda>s.
      timed (amqp_time_s_from_now now s) (\<lambda>t. change_conn (\<lambda>c. c\<lparr>next_send_heartbeat := t\<rparr>))))"

definition schedule_recv_heartbeat :: "unit io" where
  "schedule_recv_heartbeat =
    io_bind (get_conn amqp_heartbeat_recv) (\<lambda>seconds.
      case seconds of
        None \<Rightarrow> (\<lambda>w. (Crash, w))
      | Some s \<Rightarrow> io_bind read_clock (\<lambda>now.
          timed (amqp_time_s_from_now now s) (\<lambda>t. change_conn (\<lambda>c. c\<lparr>next_recv_heartbeat := t\<rparr>))))"

text \<open>The deadline of an optional timeout.\<close>

definition deadline_from :: "timeval option \<Rightarrow> amqp_time_t io" where
  "deadline_from timeout =
    io_bind read_clock (\<lambda>now.
      case amqp_time_from_now now timeout of
        (st, Some t) \<Rightarrow> if st = AMQP_STATUS_OK then io_return t else io_fail st
      | (st, None) \<Rightarrow> io_fail st)"

section \<open>TCP sockets\<close>

text \<open>What a socket operation returns: a count or data, one of the two private codes, or a status.\<close>

datatype 'a sock = Moved 'a | Need_read | Need_write | Sock_fails amqp_status_enum

fun tcp_send_loop :: "send_answer list \<Rightarrow> nat \<Rightarrow> nat sock option \<times> send_answer list" where
  "tcp_send_loop [] len = (None, [])"
| "tcp_send_loop (Send_interrupted # as) len = tcp_send_loop as len"
| "tcp_send_loop (Send_would_block # as) len = (Some Need_write, as)"
| "tcp_send_loop (Send_failed # as) len = (Some (Sock_fails AMQP_STATUS_SOCKET_ERROR), as)"
| "tcp_send_loop (Os_sent n # as) len = (Some (Moved (min n len)), as)"

definition amqp_tcp_socket_send :: "byte list \<Rightarrow> nat sock io" where
  "amqp_tcp_socket_send buf w =
    (if sockfd w = None then (Done (Sock_fails AMQP_STATUS_SOCKET_CLOSED), w)
     else case tcp_send_loop (sends w) (length buf) of
       (None, as) \<Rightarrow> (Waiting, w\<lparr>sends := as\<rparr>)
     | (Some (Moved n), as) \<Rightarrow> (Done (Moved n), w\<lparr>sends := as, sent := sent w @ take n buf\<rparr>)
     | (Some r, as) \<Rightarrow> (Done r, w\<lparr>sends := as\<rparr>))"

fun tcp_recv_loop :: "recv_answer list \<Rightarrow> nat \<Rightarrow> byte list sock option \<times> recv_answer list" where
  "tcp_recv_loop [] len = (None, [])"
| "tcp_recv_loop (Recv_interrupted # as) len = tcp_recv_loop as len"
| "tcp_recv_loop (Recv_would_block # as) len = (Some Need_read, as)"
| "tcp_recv_loop (Recv_failed # as) len = (Some (Sock_fails AMQP_STATUS_SOCKET_ERROR), as)"
| "tcp_recv_loop (Os_data bs # as) len =
    (Some (if take len bs = [] then Sock_fails AMQP_STATUS_CONNECTION_CLOSED else Moved (take len bs)), as)"

definition amqp_tcp_socket_recv :: "nat \<Rightarrow> byte list sock io" where
  "amqp_tcp_socket_recv len w =
    (if sockfd w = None then (Done (Sock_fails AMQP_STATUS_SOCKET_CLOSED), w)
     else case tcp_recv_loop (recvs w) len of
       (None, as) \<Rightarrow> (Waiting, w\<lparr>recvs := as\<rparr>)
     | (Some r, as) \<Rightarrow> (Done r, w\<lparr>recvs := as\<rparr>))"

definition amqp_tcp_socket_close :: "unit io" where
  "amqp_tcp_socket_close w =
    (if sockfd w = None then (Error (status_code AMQP_STATUS_SOCKET_CLOSED), w)
     else if close_fails w then (Error (status_code AMQP_STATUS_SOCKET_ERROR), w)
     else (Done (), w\<lparr>sockfd := None\<rparr>))"

text \<open>Callers ignore the result of closing.\<close>

definition amqp_socket_close :: "unit io" where
  "amqp_socket_close = io_catch amqp_tcp_socket_close (\<lambda>_. io_return ())"

section \<open>Polling\<close>

fun poll_loop :: "amqp_time_t \<Rightarrow> poll_answer list \<Rightarrow> unit io" where
  "poll_loop deadline as w =
    (let timeout_ms = amqp_time_ms_until (clock w (ticks w)) deadline;
         w1 = w\<lparr>ticks := Suc (ticks w), polls := as\<rparr> in
     if - 1 > timeout_ms then (Error timeout_ms, w1)
     else case as of
       [] \<Rightarrow> (Waiting, w1)
     | a # as' \<Rightarrow>
         (case a of
            Poll_ready \<Rightarrow> (Done (), w1\<lparr>polls := as'\<rparr>)
          | Poll_timeout \<Rightarrow> (Error (status_code AMQP_STATUS_TIMEOUT), w1\<lparr>polls := as'\<rparr>)
          | Poll_interrupted \<Rightarrow> poll_loop deadline as' w1
          | Poll_failed \<Rightarrow> (Error (status_code AMQP_STATUS_SOCKET_ERROR), w1\<lparr>polls := as'\<rparr>)))"

definition amqp_poll :: "amqp_time_t \<Rightarrow> unit io" where
  "amqp_poll deadline w = poll_loop deadline (polls w) w"

text \<open>\<open>do_poll\<close>; a positive or zero result is handed back as it is, here only 0.\<close>

definition do_poll :: "nat sock \<Rightarrow> amqp_time_t \<Rightarrow> unit io" where
  "do_poll res deadline w =
    (if sockfd w = None then io_fail AMQP_STATUS_SOCKET_CLOSED w
     else case res of
       Need_read \<Rightarrow> amqp_poll deadline w
     | Need_write \<Rightarrow> amqp_poll deadline w
     | Sock_fails st \<Rightarrow> io_fail st w
     | Moved _ \<Rightarrow> (Done (), w))"

section \<open>Sending\<close>

text \<open>
  \<open>amqp_try_send\<close> returns the number of bytes that were sent before the deadline.
  \<open>send_pause\<close> waits after a send without progress; \<open>Some\<close> is a result at the deadline.
\<close>

definition send_pause :: "nat sock \<Rightarrow> nat \<Rightarrow> amqp_time_t \<Rightarrow> nat option io" where
  "send_pause res gone deadline =
    io_catch (io_bind (do_poll res deadline) (\<lambda>_. io_return None)) (\<lambda>code.
      if code = status_code AMQP_STATUS_TIMEOUT then io_return (Some gone) else io_error code)"

fun try_send_loop :: "nat \<Rightarrow> byte list \<Rightarrow> nat \<Rightarrow> amqp_time_t \<Rightarrow> nat io" where
  "try_send_loop 0 buf gone deadline w = (Waiting, w)"
| "try_send_loop (Suc n) buf gone deadline w =
    io_bind (amqp_tcp_socket_send (drop gone buf)) (\<lambda>res.
      case res of
        Moved (Suc k) \<Rightarrow>
          if gone + Suc k = length buf then io_return (length buf)
          else try_send_loop n buf (gone + Suc k) deadline
      | _ \<Rightarrow> io_bind (send_pause res gone deadline) (\<lambda>r.
          case r of None \<Rightarrow> try_send_loop n buf gone deadline | Some so_far \<Rightarrow> io_return so_far)) w"

definition amqp_try_send :: "byte list \<Rightarrow> amqp_time_t \<Rightarrow> nat io" where
  "amqp_try_send buf deadline w = try_send_loop (Suc (length (sends w))) buf 0 deadline w"

text \<open>
  The protocol header of AMQP 0-9-1.  A part that was sent is returned as its count; the
  count 0, nothing was sent before the deadline, is the code of \<open>AMQP_STATUS_OK\<close>.
\<close>

definition send_header_inner :: "amqp_time_t \<Rightarrow> unit io" where
  "send_header_inner deadline =
    (let header = AMQP_magic @ [0, 0, 9, 1] in
     io_bind (amqp_try_send header deadline) (\<lambda>res.
       if res = length header \<or> res = 0 then io_return () else io_error (int res)))"

section \<open>Receiving\<close>

fun recv_loop :: "nat \<Rightarrow> amqp_time_t \<Rightarrow> byte list io" where
  "recv_loop 0 timeout w = (Waiting, w)"
| "recv_loop (Suc n) timeout w =
    io_bind (amqp_tcp_socket_recv (length (sock_inbound_buffer (conn w)))) (\<lambda>res.
      case res of
        Moved bs \<Rightarrow> io_return bs
      | _ \<Rightarrow> (\<lambda>w.
          if sockfd w = None then io_fail AMQP_STATUS_CONNECTION_CLOSED w
          else case res of
            Sock_fails st \<Rightarrow> io_fail st w
          | _ \<Rightarrow> io_bind (amqp_poll timeout) (\<lambda>_. recv_loop n timeout) w)) w"

definition recv_with_timeout :: "amqp_time_t \<Rightarrow> unit io" where
  "recv_with_timeout timeout =
    io_bind (\<lambda>w. recv_loop (Suc (length (recvs w))) timeout w) (\<lambda>bs.
    io_bind (change_conn (\<lambda>c. c\<lparr>sock_inbound_buffer := write_at (sock_inbound_buffer c) 0 bs,
        sock_inbound_limit := length bs, sock_inbound_offset := 0\<rparr>)) (\<lambda>_.
    schedule_recv_heartbeat))"

definition amqp_data_in_buffer :: "amqp_connection_state_t \<Rightarrow> bool" where
  "amqp_data_in_buffer c \<longleftrightarrow> sock_inbound_offset c < sock_inbound_limit c"

definition consume_one_frame :: "amqp_frame_t \<Rightarrow> amqp_frame_t io" where
  "consume_one_frame decoded_frame w =
    (let c = conn w;
         buffer = chunk (sock_inbound_offset c) (sock_inbound_limit c - sock_inbound_offset c) (sock_inbound_buffer c) in
     case amqp_handle_input (spare w) c buffer (mem w) decoded_frame of (r, c', h', f) \<Rightarrow>
       let w' = w\<lparr>conn := c', mem := h'\<rparr> in
       case r of
         Returns n \<Rightarrow> (Done f, w'\<lparr>conn := c'\<lparr>sock_inbound_offset := sock_inbound_offset c' + n\<rparr>\<rparr>)
       | Fails st \<Rightarrow> (Error (status_code st), w')
       | _ \<Rightarrow> (Crash, w'))"

section \<open>The queue of frames\<close>

definition SIZEOF_FRAME :: nat where "SIZEOF_FRAME = 48"
definition SIZEOF_LINK :: nat where "SIZEOF_LINK = 16"

text \<open>Memory from the pool of a channel, for the objects of the given sizes.\<close>

fun pool_allocs :: "nat list \<Rightarrow> amqp_pool_t \<Rightarrow> heap \<Rightarrow> bool \<times> amqp_pool_t \<times> heap" where
  "pool_allocs [] pool h = (True, pool, h)"
| "pool_allocs (n # ns) pool h =
    (case amqp_pool_alloc pool n h of (p, pool1, h1) \<Rightarrow>
      case pool_allocs ns pool1 h1 of (ok, pool2, h2) \<Rightarrow> (p \<noteq> None \<and> ok, pool2, h2))"

definition channel_allocs :: "amqp_channel_t \<Rightarrow> nat list \<Rightarrow> unit io" where
  "channel_allocs ch ns w =
    (case amqp_get_or_create_channel_pool (conn w) ch (mem w) of
       (None, c, h) \<Rightarrow> (Error (status_code AMQP_STATUS_NO_MEMORY), w\<lparr>conn := c, mem := h\<rparr>)
     | (Some pool, c, h) \<Rightarrow>
         (case pool_allocs ns pool h of (ok, pool', h') \<Rightarrow>
           let w' = w\<lparr>conn := set_channel_pool ch pool' c, mem := h'\<rparr> in
           if ok then (Done (), w') else (Error (status_code AMQP_STATUS_NO_MEMORY), w')))"

definition amqp_create_link_for_frame :: "amqp_frame_t \<Rightarrow> unit io" where
  "amqp_create_link_for_frame frame = channel_allocs (channel frame) [SIZEOF_LINK, SIZEOF_FRAME]"

definition append_frame :: "amqp_frame_t \<Rightarrow> unit io" where
  "append_frame frame = change_conn (\<lambda>c. c\<lparr>first_queued_frame := first_queued_frame c @ [frame]\<rparr>)"

definition amqp_queue_frame :: "amqp_frame_t \<Rightarrow> unit io" where
  "amqp_queue_frame frame = io_bind (amqp_create_link_for_frame frame) (\<lambda>_. append_frame frame)"

definition amqp_put_back_frame :: "amqp_frame_t \<Rightarrow> unit io" where
  "amqp_put_back_frame frame =
    io_bind (amqp_create_link_for_frame frame) (\<lambda>_.
      change_conn (\<lambda>c. c\<lparr>first_queued_frame := frame # first_queued_frame c\<rparr>))"

definition amqp_frames_enqueued :: "amqp_connection_state_t \<Rightarrow> bool" where
  "amqp_frames_enqueued c \<longleftrightarrow> first_queued_frame c \<noteq> []"

text \<open>The copies of the same code in \<open>amqp_try_recv\<close> and \<open>simple_rpc_inner\<close>, with the other order of allocations.\<close>

definition enqueue_copy :: "amqp_frame_t \<Rightarrow> unit io" where
  "enqueue_copy frame =
    io_bind (channel_allocs (channel frame) [SIZEOF_FRAME, SIZEOF_LINK]) (\<lambda>_. append_frame frame)"

section \<open>Frames and heartbeats\<close>

text \<open>A local variable of type \<open>amqp_frame_t\<close>; its fields are written before they are read.\<close>

definition fresh_frame :: amqp_frame_t where
  "fresh_frame = \<lparr>frame_type = 0, channel = 0, payload = No_payload\<rparr>"

text \<open>
  \<open>amqp_try_recv\<close> queues the frames in the buffer and receives without waiting.  A round of
  its loop takes a byte at least, so the bytes of the buffer are the fuel; a round that
  takes none would be repeated forever.
\<close>

fun queue_buffered :: "nat \<Rightarrow> unit io" where
  "queue_buffered 0 w = (if amqp_data_in_buffer (conn w) then (Waiting, w) else (Done (), w))"
| "queue_buffered (Suc n) w =
    (if amqp_data_in_buffer (conn w)
     then io_bind (consume_one_frame fresh_frame) (\<lambda>frame.
       io_bind (if frame_type frame \<noteq> 0 then enqueue_copy frame else io_return ()) (\<lambda>_. queue_buffered n)) w
     else (Done (), w))"

definition buffered :: "world \<Rightarrow> nat" where
  "buffered w = sock_inbound_limit (conn w) - sock_inbound_offset (conn w)"

definition amqp_try_recv :: "unit io" where
  "amqp_try_recv =
    io_bind (\<lambda>w. queue_buffered (buffered w) w) (\<lambda>_.
    io_bind read_clock (\<lambda>now.
      case amqp_time_s_from_now now 0 of
        (st, Some t) \<Rightarrow> if st = AMQP_STATUS_OK then recv_with_timeout t else io_fail st
      | (st, None) \<Rightarrow> io_fail st))"

fun send_frame_loop :: "nat \<Rightarrow> byte list \<Rightarrow> amqp_time_t \<Rightarrow> unit io" where
  "send_frame_loop 0 encoded deadline w = (Waiting, w)"
| "send_frame_loop (Suc n) encoded deadline w =
    (let next_timeout = amqp_time_first deadline (next_recv_heartbeat (conn w)) in
     io_bind (amqp_try_send encoded next_timeout) (\<lambda>k.
       if k = length encoded then schedule_send_heartbeat
       else if amqp_time_equal next_timeout deadline then io_fail AMQP_STATUS_TIMEOUT
       else io_bind (io_catch amqp_try_recv (\<lambda>code.
           if code = status_code AMQP_STATUS_TIMEOUT then io_fail AMQP_STATUS_HEARTBEAT_TIMEOUT
           else io_error code)) (\<lambda>_.
         send_frame_loop n (drop k encoded) deadline)) w)"

definition amqp_send_frame_inner :: "amqp_frame_t \<Rightarrow> amqp_time_t \<Rightarrow> unit io" where
  "amqp_send_frame_inner frame deadline w =
    (case amqp_frame_to_bytes frame (outbound_buffer (conn w)) of (r, buf) \<Rightarrow>
      let w' = w\<lparr>conn := (conn w)\<lparr>outbound_buffer := buf\<rparr>\<rparr> in
      case r of
        Returns encoded \<Rightarrow> send_frame_loop (Suc (length (sends w'))) encoded deadline w'
      | Fails st \<Rightarrow> (Error (status_code st), w')
      | _ \<Rightarrow> (Crash, w'))"

definition amqp_send_frame :: "amqp_frame_t \<Rightarrow> unit io" where
  "amqp_send_frame frame = amqp_send_frame_inner frame amqp_time_infinite"

section \<open>Waiting for a frame\<close>

text \<open>
  \<open>wait_buffered\<close>: the frames that are in the buffer.  \<open>Some\<close> is a frame for the caller,
  \<open>None\<close> says that the buffer is used up; the second component is \<open>decoded_frame\<close>.
\<close>

fun wait_buffered :: "nat \<Rightarrow> amqp_frame_t \<Rightarrow> (bool \<times> amqp_frame_t) io" where
  "wait_buffered 0 f w = (if amqp_data_in_buffer (conn w) then (Waiting, w) else (Done (False, f), w))"
| "wait_buffered (Suc n) f w =
    (if amqp_data_in_buffer (conn w)
     then io_bind (consume_one_frame f) (\<lambda>frame.
       if uint (frame_type frame) = AMQP_FRAME_HEARTBEAT
       then (\<lambda>w. case amqp_maybe_release_buffers_on_channel (conn w) 0 (mem w) of (c, h) \<Rightarrow>
         wait_buffered n frame (w\<lparr>conn := c, mem := h\<rparr>))
       else if frame_type frame \<noteq> 0 then io_return (True, frame)
       else wait_buffered n frame) w
     else (Done (False, f), w))"

text \<open>The heartbeat that is due, the deadline of the next wait, and what its end means.\<close>

definition send_due_heartbeat :: "unit io" where
  "send_due_heartbeat =
    io_bind read_clock (\<lambda>now. io_bind (get_conn next_send_heartbeat) (\<lambda>t.
      let res = amqp_time_has_past now t in
      if res = AMQP_STATUS_TIMER_FAILURE then io_fail res
      else if res = AMQP_STATUS_TIMEOUT
        then amqp_send_frame (fresh_frame\<lparr>frame_type := word_of_int AMQP_FRAME_HEARTBEAT\<rparr>)
      else io_return ()))"

definition recv_deadline :: "amqp_time_t \<Rightarrow> amqp_connection_state_t \<Rightarrow> amqp_time_t" where
  "recv_deadline timeout_deadline c =
    amqp_time_first timeout_deadline (amqp_time_first (next_recv_heartbeat c) (next_send_heartbeat c))"

text \<open>
  Going back to \<open>beginrecv\<close> is a round of the loop that leaves out the frames in the
  buffer.  Each round receives once at least, so the answers of \<open>recv\<close> are the fuel.
\<close>

fun wait_frame_loop :: "nat \<Rightarrow> bool \<Rightarrow> amqp_frame_t \<Rightarrow> amqp_time_t \<Rightarrow> amqp_frame_t io" where
  "wait_frame_loop 0 scan f timeout_deadline w = (Waiting, w)"
| "wait_frame_loop (Suc n) scan f timeout_deadline w =
    io_bind (if scan then wait_buffered (buffered w) f else io_return (False, f)) (\<lambda>(complete, frame).
      if complete then io_return frame
      else io_bind send_due_heartbeat (\<lambda>_.
        io_bind (get_conn (recv_deadline timeout_deadline)) (\<lambda>deadline.
        io_bind (io_catch (io_bind (recv_with_timeout deadline) (\<lambda>_. io_return True)) (\<lambda>code.
          if code = status_code AMQP_STATUS_TIMEOUT
          then (\<lambda>w.
            if amqp_time_equal deadline (next_recv_heartbeat (conn w))
            then io_bind amqp_socket_close (\<lambda>_. io_fail AMQP_STATUS_HEARTBEAT_TIMEOUT) w
            else if amqp_time_equal deadline timeout_deadline then io_fail AMQP_STATUS_TIMEOUT w
            else if amqp_time_equal deadline (next_send_heartbeat (conn w)) then (Done False, w)
            else (Crash, w))
          else io_error code)) (\<lambda>scan.
        wait_frame_loop n scan frame timeout_deadline)))) w"

definition wait_frame_inner :: "amqp_frame_t \<Rightarrow> amqp_time_t \<Rightarrow> amqp_frame_t io" where
  "wait_frame_inner decoded_frame timeout_deadline w =
    wait_frame_loop (Suc (length (recvs w))) True decoded_frame timeout_deadline w"

definition amqp_simple_wait_frame_noblock :: "amqp_frame_t \<Rightarrow> timeval option \<Rightarrow> amqp_frame_t io" where
  "amqp_simple_wait_frame_noblock decoded_frame timeout =
    io_bind (deadline_from timeout) (\<lambda>deadline w.
      case first_queued_frame (conn w) of
        f # fs \<Rightarrow> (Done f, w\<lparr>conn := (conn w)\<lparr>first_queued_frame := fs\<rparr>\<rparr>)
      | [] \<Rightarrow> wait_frame_inner decoded_frame deadline w)"

definition amqp_simple_wait_frame :: "amqp_frame_t \<Rightarrow> amqp_frame_t io" where
  "amqp_simple_wait_frame decoded_frame = amqp_simple_wait_frame_noblock decoded_frame None"

text \<open>
  A queued frame of the channel: the queue goes on behind it, so the frames in front of it
  are no longer in the queue.
\<close>

fun queued_on_channel :: "amqp_channel_t \<Rightarrow> amqp_frame_t list \<Rightarrow> (amqp_frame_t \<times> amqp_frame_t list) option" where
  "queued_on_channel ch [] = None"
| "queued_on_channel ch (f # fs) = (if ch = channel f then Some (f, fs) else queued_on_channel ch fs)"

fun wait_channel_loop :: "nat \<Rightarrow> amqp_channel_t \<Rightarrow> amqp_frame_t \<Rightarrow> amqp_frame_t io" where
  "wait_channel_loop 0 ch f w = (Waiting, w)"
| "wait_channel_loop (Suc n) ch f w =
    io_bind (wait_frame_inner f amqp_time_infinite) (\<lambda>frame.
      if ch = channel frame then io_return frame
      else io_bind (amqp_queue_frame frame) (\<lambda>_. wait_channel_loop n ch frame)) w"

text \<open>Each frame is made of at least one byte that was received, buffered or not.\<close>

definition bytes_to_come :: "world \<Rightarrow> nat" where
  "bytes_to_come w = buffered w +
    sum_list (map (\<lambda>a. case a of Os_data bs \<Rightarrow> length bs | _ \<Rightarrow> 0) (recvs w))"

definition amqp_simple_wait_frame_on_channel :: "amqp_channel_t \<Rightarrow> amqp_frame_t \<Rightarrow> amqp_frame_t io" where
  "amqp_simple_wait_frame_on_channel ch decoded_frame w =
    (case queued_on_channel ch (first_queued_frame (conn w)) of
       Some (f, fs) \<Rightarrow> (Done f, w\<lparr>conn := (conn w)\<lparr>first_queued_frame := fs\<rparr>\<rparr>)
     | None \<Rightarrow> wait_channel_loop (Suc (bytes_to_come w)) ch decoded_frame w)"

end
