(* ===== verification/Amqp_Rpc.thy ===== *)
theory Amqp_Rpc
  imports Amqp_Socket
begin

text \<open>
  Requests and replies: waiting for methods and remote procedure calls (\<open>amqp_socket.c\<close>),
  and the functions for the single methods at the end of \<open>amqp_framing.c\<close>, which return
  the decoded reply or NULL (\<open>None\<close>).
\<close>

section \<open>Sending a method\<close>

definition amqp_send_method_inner :: "amqp_channel_t \<Rightarrow> amqp_method_t \<Rightarrow> amqp_time_t \<Rightarrow> unit io" where
  "amqp_send_method_inner ch m deadline =
    amqp_send_frame_inner
      \<lparr>frame_type = word_of_int AMQP_FRAME_METHOD, channel = ch, payload = Method_payload m\<rparr> deadline"

definition amqp_send_method :: "amqp_channel_t \<Rightarrow> amqp_method_t \<Rightarrow> unit io" where
  "amqp_send_method ch m = amqp_send_method_inner ch m amqp_time_infinite"

section \<open>Waiting for a method\<close>

text \<open>Lists of method numbers are written without the 0 that ends them.\<close>

fun amqp_id_in_reply_list :: "amqp_method_number_t \<Rightarrow> amqp_method_number_t list \<Rightarrow> bool" where
  "amqp_id_in_reply_list expected [] = False"
| "amqp_id_in_reply_list expected (x # xs) = (x = expected \<or> amqp_id_in_reply_list expected xs)"

text \<open>The timeout that is left until a deadline.\<close>

definition timeout_until :: "amqp_time_t \<Rightarrow> timeval option io" where
  "timeout_until deadline =
    io_bind read_clock (\<lambda>now.
      case amqp_time_tv_until now deadline of
        (st, Some tvp) \<Rightarrow> if st = AMQP_STATUS_OK then io_return tvp else io_fail st
      | (st, None) \<Rightarrow> io_fail st)"

definition amqp_simple_wait_method_list ::
  "amqp_channel_t \<Rightarrow> amqp_method_number_t list \<Rightarrow> amqp_time_t \<Rightarrow> amqp_method_t io" where
  "amqp_simple_wait_method_list expected_channel expected_methods deadline =
    io_bind (timeout_until deadline) (\<lambda>tvp.
    io_bind (amqp_simple_wait_frame_noblock fresh_frame tvp) (\<lambda>frame.
      case payload frame of
        Method_payload m \<Rightarrow>
          if uint (frame_type frame) \<noteq> AMQP_FRAME_METHOD \<or> expected_channel \<noteq> channel frame \<or>
            \<not> amqp_id_in_reply_list (method_number m) expected_methods
          then io_fail AMQP_STATUS_WRONG_METHOD
          else io_return m
      | _ \<Rightarrow>
          if uint (frame_type frame) \<noteq> AMQP_FRAME_METHOD \<or> expected_channel \<noteq> channel frame
          then io_fail AMQP_STATUS_WRONG_METHOD
          else (\<lambda>w. (Crash, w))))"

definition simple_wait_method_inner ::
  "amqp_channel_t \<Rightarrow> amqp_method_number_t \<Rightarrow> amqp_time_t \<Rightarrow> amqp_method_t io" where
  "simple_wait_method_inner expected_channel expected_method deadline =
    amqp_simple_wait_method_list expected_channel [expected_method] deadline"

definition amqp_simple_wait_method :: "amqp_channel_t \<Rightarrow> amqp_method_number_t \<Rightarrow> amqp_method_t io" where
  "amqp_simple_wait_method expected_channel expected_method =
    simple_wait_method_inner expected_channel expected_method amqp_time_infinite"

section \<open>Remote procedure calls\<close>

definition amqp_rpc_reply_error :: "int \<Rightarrow> amqp_rpc_reply_t" where
  "amqp_rpc_reply_error status =
    \<lparr>reply_type = AMQP_RESPONSE_LIBRARY_EXCEPTION, reply = None, library_error = status\<rparr>"

text \<open>Functions with a reply never end with \<open>Error\<close>: errors are in the reply.\<close>

definition with_reply :: "amqp_rpc_reply_t io \<Rightarrow> amqp_rpc_reply_t io" where
  "with_reply m = io_catch m (\<lambda>code. io_return (amqp_rpc_reply_error code))"

text \<open>The frames that end a call on a channel; all others are queued.\<close>

definition ends_rpc :: "amqp_channel_t \<Rightarrow> amqp_method_number_t list \<Rightarrow> amqp_frame_t \<Rightarrow> amqp_method_t option" where
  "ends_rpc ch expected_reply_ids frame =
    (if uint (frame_type frame) = AMQP_FRAME_METHOD
     then (case payload frame of
        Method_payload m \<Rightarrow>
          if (channel frame = ch \<and>
              (amqp_id_in_reply_list (method_number m) expected_reply_ids \<or>
               method_number m = AMQP_CHANNEL_CLOSE_METHOD)) \<or>
            (channel frame = 0 \<and> method_number m = AMQP_CONNECTION_CLOSE_METHOD)
          then Some m else None
      | _ \<Rightarrow> None)
     else None)"

fun rpc_loop :: "nat \<Rightarrow> amqp_channel_t \<Rightarrow> amqp_method_number_t list \<Rightarrow> amqp_time_t \<Rightarrow> amqp_frame_t \<Rightarrow> amqp_rpc_reply_t io" where
  "rpc_loop 0 ch expected_reply_ids deadline frame0 w = (Waiting, w)"
| "rpc_loop (Suc n) ch expected_reply_ids deadline frame0 w =
    io_bind (io_catch (wait_frame_inner frame0 deadline) (\<lambda>status.
        if status = status_code AMQP_STATUS_TIMEOUT
        then io_bind amqp_socket_close (\<lambda>_. io_error status)
        else io_error status)) (\<lambda>frame.
      case ends_rpc ch expected_reply_ids frame of
        None \<Rightarrow> io_bind (enqueue_copy frame) (\<lambda>_. rpc_loop n ch expected_reply_ids deadline frame)
      | Some m \<Rightarrow> io_return
          \<lparr>reply_type = (if amqp_id_in_reply_list (method_number m) expected_reply_ids
             then AMQP_RESPONSE_NORMAL else AMQP_RESPONSE_SERVER_EXCEPTION),
           reply = Some m, library_error = 0\<rparr>) w"

definition simple_rpc_inner ::
  "amqp_channel_t \<Rightarrow> amqp_method_number_t list \<Rightarrow> amqp_method_t \<Rightarrow> amqp_time_t \<Rightarrow> amqp_rpc_reply_t io" where
  "simple_rpc_inner ch expected_reply_ids request deadline =
    with_reply (io_bind (amqp_send_method ch request) (\<lambda>_ w.
      rpc_loop (Suc (bytes_to_come w)) ch expected_reply_ids deadline fresh_frame w))"

definition amqp_simple_rpc ::
  "amqp_channel_t \<Rightarrow> amqp_method_number_t list \<Rightarrow> amqp_method_t \<Rightarrow> amqp_rpc_reply_t io" where
  "amqp_simple_rpc ch expected_reply_ids request =
    with_reply (io_bind (get_conn rpc_timeout) (\<lambda>t. io_bind (deadline_from t)
      (simple_rpc_inner ch expected_reply_ids request)))"

definition amqp_simple_rpc_decoded ::
  "amqp_channel_t \<Rightarrow> amqp_method_number_t \<Rightarrow> amqp_method_t \<Rightarrow> amqp_method_t option io" where
  "amqp_simple_rpc_decoded ch reply_id request =
    io_bind (amqp_simple_rpc ch [reply_id] request) (\<lambda>r.
    io_bind (change_conn (\<lambda>c. c\<lparr>most_recent_api_result := r\<rparr>)) (\<lambda>_.
    io_return (if reply_type r = AMQP_RESPONSE_NORMAL then reply r else None)))"

definition amqp_get_rpc_reply :: "amqp_connection_state_t \<Rightarrow> amqp_rpc_reply_t" where
  "amqp_get_rpc_reply c = most_recent_api_result c"

section \<open>The functions for single methods\<close>

definition amqp_connection_update_secret :: "amqp_channel_t \<Rightarrow> amqp_bytes_t \<Rightarrow> amqp_bytes_t \<Rightarrow> amqp_method_t option io" where
  "amqp_connection_update_secret ch new_secret' reason' =
    amqp_simple_rpc_decoded ch AMQP_CONNECTION_UPDATE_SECRET_OK_METHOD
      (M_connection_update_secret \<lparr>amqp_connection_update_secret_t.new_secret = new_secret', amqp_connection_update_secret_t.reason = reason'\<rparr>)"

definition amqp_channel_open :: "amqp_channel_t \<Rightarrow> amqp_method_t option io" where
  "amqp_channel_open ch =
    amqp_simple_rpc_decoded ch AMQP_CHANNEL_OPEN_OK_METHOD
      (M_channel_open \<lparr>amqp_channel_open_t.out_of_band = []\<rparr>)"

definition amqp_channel_flow :: "amqp_channel_t \<Rightarrow> amqp_boolean_t \<Rightarrow> amqp_method_t option io" where
  "amqp_channel_flow ch active' =
    amqp_simple_rpc_decoded ch AMQP_CHANNEL_FLOW_OK_METHOD
      (M_channel_flow \<lparr>amqp_channel_flow_t.active = active'\<rparr>)"

definition amqp_exchange_declare :: "amqp_channel_t \<Rightarrow> amqp_bytes_t \<Rightarrow> amqp_bytes_t \<Rightarrow> amqp_boolean_t \<Rightarrow> amqp_boolean_t \<Rightarrow> amqp_boolean_t \<Rightarrow> amqp_boolean_t \<Rightarrow> amqp_table_t \<Rightarrow> amqp_method_t option io" where
  "amqp_exchange_declare ch exchange' type' passive' durable' auto_delete' internal' arguments' =
    amqp_simple_rpc_decoded ch AMQP_EXCHANGE_DECLARE_OK_METHOD
      (M_exchange_declare \<lparr>amqp_exchange_declare_t.ticket = 0, amqp_exchange_declare_t.exchange = exchange', amqp_exchange_declare_t.type = type', amqp_exchange_declare_t.passive = passive', amqp_exchange_declare_t.durable = durable', amqp_exchange_declare_t.auto_delete = auto_delete', amqp_exchange_declare_t.internal = internal', amqp_exchange_declare_t.nowait = 0, amqp_exchange_declare_t.arguments = arguments'\<rparr>)"

definition amqp_exchange_delete :: "amqp_channel_t \<Rightarrow> amqp_bytes_t \<Rightarrow> amqp_boolean_t \<Rightarrow> amqp_method_t option io" where
  "amqp_exchange_delete ch exchange' if_unused' =
    amqp_simple_rpc_decoded ch AMQP_EXCHANGE_DELETE_OK_METHOD
      (M_exchange_delete \<lparr>amqp_exchange_delete_t.ticket = 0, amqp_exchange_delete_t.exchange = exchange', amqp_exchange_delete_t.if_unused = if_unused', amqp_exchange_delete_t.nowait = 0\<rparr>)"

definition amqp_exchange_bind :: "amqp_channel_t \<Rightarrow> amqp_bytes_t \<Rightarrow> amqp_bytes_t \<Rightarrow> amqp_bytes_t \<Rightarrow> amqp_table_t \<Rightarrow> amqp_method_t option io" where
  "amqp_exchange_bind ch destination' source' routing_key' arguments' =
    amqp_simple_rpc_decoded ch AMQP_EXCHANGE_BIND_OK_METHOD
      (M_exchange_bind \<lparr>amqp_exchange_bind_t.ticket = 0, amqp_exchange_bind_t.destination = destination', amqp_exchange_bind_t.source = source', amqp_exchange_bind_t.routing_key = routing_key', amqp_exchange_bind_t.nowait = 0, amqp_exchange_bind_t.arguments = arguments'\<rparr>)"

definition amqp_exchange_unbind :: "amqp_channel_t \<Rightarrow> amqp_bytes_t \<Rightarrow> amqp_bytes_t \<Rightarrow> amqp_bytes_t \<Rightarrow> amqp_table_t \<Rightarrow> amqp_method_t option io" where
  "amqp_exchange_unbind ch destination' source' routing_key' arguments' =
    amqp_simple_rpc_decoded ch AMQP_EXCHANGE_UNBIND_OK_METHOD
      (M_exchange_unbind \<lparr>amqp_exchange_unbind_t.ticket = 0, amqp_exchange_unbind_t.destination = destination', amqp_exchange_unbind_t.source = source', amqp_exchange_unbind_t.routing_key = routing_key', amqp_exchange_unbind_t.nowait = 0, amqp_exchange_unbind_t.arguments = arguments'\<rparr>)"

definition amqp_queue_declare :: "amqp_channel_t \<Rightarrow> amqp_bytes_t \<Rightarrow> amqp_boolean_t \<Rightarrow> amqp_boolean_t \<Rightarrow> amqp_boolean_t \<Rightarrow> amqp_boolean_t \<Rightarrow> amqp_table_t \<Rightarrow> amqp_method_t option io" where
  "amqp_queue_declare ch queue' passive' durable' exclusive' auto_delete' arguments' =
    amqp_simple_rpc_decoded ch AMQP_QUEUE_DECLARE_OK_METHOD
      (M_queue_declare \<lparr>amqp_queue_declare_t.ticket = 0, amqp_queue_declare_t.queue = queue', amqp_queue_declare_t.passive = passive', amqp_queue_declare_t.durable = durable', amqp_queue_declare_t.exclusive = exclusive', amqp_queue_declare_t.auto_delete = auto_delete', amqp_queue_declare_t.nowait = 0, amqp_queue_declare_t.arguments = arguments'\<rparr>)"

definition amqp_queue_bind :: "amqp_channel_t \<Rightarrow> amqp_bytes_t \<Rightarrow> amqp_bytes_t \<Rightarrow> amqp_bytes_t \<Rightarrow> amqp_table_t \<Rightarrow> amqp_method_t option io" where
  "amqp_queue_bind ch queue' exchange' routing_key' arguments' =
    amqp_simple_rpc_decoded ch AMQP_QUEUE_BIND_OK_METHOD
      (M_queue_bind \<lparr>amqp_queue_bind_t.ticket = 0, amqp_queue_bind_t.queue = queue', amqp_queue_bind_t.exchange = exchange', amqp_queue_bind_t.routing_key = routing_key', amqp_queue_bind_t.nowait = 0, amqp_queue_bind_t.arguments = arguments'\<rparr>)"

definition amqp_queue_purge :: "amqp_channel_t \<Rightarrow> amqp_bytes_t \<Rightarrow> amqp_method_t option io" where
  "amqp_queue_purge ch queue' =
    amqp_simple_rpc_decoded ch AMQP_QUEUE_PURGE_OK_METHOD
      (M_queue_purge \<lparr>amqp_queue_purge_t.ticket = 0, amqp_queue_purge_t.queue = queue', amqp_queue_purge_t.nowait = 0\<rparr>)"

definition amqp_queue_delete :: "amqp_channel_t \<Rightarrow> amqp_bytes_t \<Rightarrow> amqp_boolean_t \<Rightarrow> amqp_boolean_t \<Rightarrow> amqp_method_t option io" where
  "amqp_queue_delete ch queue' if_unused' if_empty' =
    amqp_simple_rpc_decoded ch AMQP_QUEUE_DELETE_OK_METHOD
      (M_queue_delete \<lparr>amqp_queue_delete_t.ticket = 0, amqp_queue_delete_t.queue = queue', amqp_queue_delete_t.if_unused = if_unused', amqp_queue_delete_t.if_empty = if_empty', amqp_queue_delete_t.nowait = 0\<rparr>)"

definition amqp_queue_unbind :: "amqp_channel_t \<Rightarrow> amqp_bytes_t \<Rightarrow> amqp_bytes_t \<Rightarrow> amqp_bytes_t \<Rightarrow> amqp_table_t \<Rightarrow> amqp_method_t option io" where
  "amqp_queue_unbind ch queue' exchange' routing_key' arguments' =
    amqp_simple_rpc_decoded ch AMQP_QUEUE_UNBIND_OK_METHOD
      (M_queue_unbind \<lparr>amqp_queue_unbind_t.ticket = 0, amqp_queue_unbind_t.queue = queue', amqp_queue_unbind_t.exchange = exchange', amqp_queue_unbind_t.routing_key = routing_key', amqp_queue_unbind_t.arguments = arguments'\<rparr>)"

definition amqp_basic_qos :: "amqp_channel_t \<Rightarrow> u32 \<Rightarrow> u16 \<Rightarrow> amqp_boolean_t \<Rightarrow> amqp_method_t option io" where
  "amqp_basic_qos ch prefetch_size' prefetch_count' global' =
    amqp_simple_rpc_decoded ch AMQP_BASIC_QOS_OK_METHOD
      (M_basic_qos \<lparr>amqp_basic_qos_t.prefetch_size = prefetch_size', amqp_basic_qos_t.prefetch_count = prefetch_count', amqp_basic_qos_t.global = global'\<rparr>)"

definition amqp_basic_consume :: "amqp_channel_t \<Rightarrow> amqp_bytes_t \<Rightarrow> amqp_bytes_t \<Rightarrow> amqp_boolean_t \<Rightarrow> amqp_boolean_t \<Rightarrow> amqp_boolean_t \<Rightarrow> amqp_table_t \<Rightarrow> amqp_method_t option io" where
  "amqp_basic_consume ch queue' consumer_tag' no_local' no_ack' exclusive' arguments' =
    amqp_simple_rpc_decoded ch AMQP_BASIC_CONSUME_OK_METHOD
      (M_basic_consume \<lparr>amqp_basic_consume_t.ticket = 0, amqp_basic_consume_t.queue = queue', amqp_basic_consume_t.consumer_tag = consumer_tag', amqp_basic_consume_t.no_local = no_local', amqp_basic_consume_t.no_ack = no_ack', amqp_basic_consume_t.exclusive = exclusive', amqp_basic_consume_t.nowait = 0, amqp_basic_consume_t.arguments = arguments'\<rparr>)"

definition amqp_basic_cancel :: "amqp_channel_t \<Rightarrow> amqp_bytes_t \<Rightarrow> amqp_method_t option io" where
  "amqp_basic_cancel ch consumer_tag' =
    amqp_simple_rpc_decoded ch AMQP_BASIC_CANCEL_OK_METHOD
      (M_basic_cancel \<lparr>amqp_basic_cancel_t.consumer_tag = consumer_tag', amqp_basic_cancel_t.nowait = 0\<rparr>)"

definition amqp_basic_recover :: "amqp_channel_t \<Rightarrow> amqp_boolean_t \<Rightarrow> amqp_method_t option io" where
  "amqp_basic_recover ch requeue' =
    amqp_simple_rpc_decoded ch AMQP_BASIC_RECOVER_OK_METHOD
      (M_basic_recover \<lparr>amqp_basic_recover_t.requeue = requeue'\<rparr>)"

definition amqp_tx_select :: "amqp_channel_t \<Rightarrow> amqp_method_t option io" where
  "amqp_tx_select ch =
    amqp_simple_rpc_decoded ch AMQP_TX_SELECT_OK_METHOD
      (M_tx_select)"

definition amqp_tx_commit :: "amqp_channel_t \<Rightarrow> amqp_method_t option io" where
  "amqp_tx_commit ch =
    amqp_simple_rpc_decoded ch AMQP_TX_COMMIT_OK_METHOD
      (M_tx_commit)"

definition amqp_tx_rollback :: "amqp_channel_t \<Rightarrow> amqp_method_t option io" where
  "amqp_tx_rollback ch =
    amqp_simple_rpc_decoded ch AMQP_TX_ROLLBACK_OK_METHOD
      (M_tx_rollback)"

definition amqp_confirm_select :: "amqp_channel_t \<Rightarrow> amqp_method_t option io" where
  "amqp_confirm_select ch =
    amqp_simple_rpc_decoded ch AMQP_CONFIRM_SELECT_OK_METHOD
      (M_confirm_select \<lparr>amqp_confirm_select_t.nowait = 0\<rparr>)"

end
