(* ===== verification/Amqp_Api.thy ===== *)
theory Amqp_Api
  imports Amqp_Rpc
begin

text \<open>
  The functions of \<open>amqp_api.c\<close> on top of frames and remote procedure calls: publishing a
  message, closing channels and connections, acknowledging and getting messages.
\<close>

section \<open>Publishing\<close>

text \<open>Basic properties after \<open>memset\<close>: the default of \<open>amqp_basic_publish\<close>.\<close>

definition zero_properties :: amqp_basic_properties_t where
  "zero_properties = \<lparr>props_flags = 0, content_type = [], content_encoding = [], headers = [],
     delivery_mode = 0, priority = 0, correlation_id = [], reply_to = [], expiration = [],
     message_id = [], timestamp = 0, type = [], user_id = [], app_id = [], cluster_id = []\<rparr>"

definition AMQP_BASIC_CLASS :: u16 where "AMQP_BASIC_CLASS = 60"

text \<open>
  The deadline of the peer is tested first, and what has arrived is read if it is over; a
  timeout of that reading is a heartbeat timeout.
\<close>

definition check_recv_heartbeat :: "unit io" where
  "check_recv_heartbeat =
    io_bind read_clock (\<lambda>now. io_bind (get_conn next_recv_heartbeat) (\<lambda>t.
      let res = amqp_time_has_past now t in
      if res = AMQP_STATUS_TIMER_FAILURE then io_fail res
      else if res = AMQP_STATUS_TIMEOUT then
        io_catch amqp_try_recv (\<lambda>code.
          if code = status_code AMQP_STATUS_TIMEOUT then io_fail AMQP_STATUS_HEARTBEAT_TIMEOUT
          else io_error code)
      else io_return ()))"

definition header_frame :: "amqp_channel_t \<Rightarrow> amqp_basic_properties_t \<Rightarrow> nat \<Rightarrow> amqp_frame_t" where
  "header_frame ch props body_size =
    \<lparr>frame_type = word_of_int AMQP_FRAME_HEADER, channel = ch,
     payload = Properties_payload AMQP_BASIC_CLASS (of_nat body_size) (P_basic props) []\<rparr>"

definition body_frame :: "amqp_channel_t \<Rightarrow> amqp_bytes_t \<Rightarrow> amqp_frame_t" where
  "body_frame ch fragment =
    \<lparr>frame_type = word_of_int AMQP_FRAME_BODY, channel = ch, payload = Body_payload fragment\<rparr>"

text \<open>
  The loop over the body from \<open>body_offset\<close> on.  Each round sends a frame, which takes an
  answer of \<open>send\<close> at least, so the number of answers is fuel enough.
\<close>

fun publish_loop :: "nat \<Rightarrow> amqp_channel_t \<Rightarrow> nat \<Rightarrow> amqp_bytes_t \<Rightarrow> nat \<Rightarrow> unit io" where
  "publish_loop 0 ch usable body body_offset w =
    (if body_offset < length body then (Waiting, w) else (Done (), w))"
| "publish_loop (Suc n) ch usable body body_offset w =
    (if body_offset < length body then
      let remaining = length body - body_offset;
          len = (if remaining \<ge> usable then usable else remaining)
      in io_bind (amqp_send_frame_inner (body_frame ch (chunk body_offset len body)) amqp_time_infinite)
          (\<lambda>_. publish_loop n ch usable body (body_offset + len)) w
     else (Done (), w))"

definition usable_body_payload_size :: "amqp_connection_state_t \<Rightarrow> nat" where
  "usable_body_payload_size c = size_t_of_int (frame_max c - int (HEADER_SIZE + FOOTER_SIZE))"

definition publish_method ::
  "amqp_bytes_t \<Rightarrow> amqp_bytes_t \<Rightarrow> amqp_boolean_t \<Rightarrow> amqp_boolean_t \<Rightarrow> amqp_method_t" where
  "publish_method exchange' routing_key' mandatory' immediate' =
    M_basic_publish \<lparr>amqp_basic_publish_t.ticket = 0, amqp_basic_publish_t.exchange = exchange',
      amqp_basic_publish_t.routing_key = routing_key', amqp_basic_publish_t.mandatory = mandatory',
      amqp_basic_publish_t.immediate = immediate'\<rparr>"

definition amqp_basic_publish ::
  "amqp_channel_t \<Rightarrow> amqp_bytes_t \<Rightarrow> amqp_bytes_t \<Rightarrow> amqp_boolean_t \<Rightarrow> amqp_boolean_t \<Rightarrow>
    amqp_basic_properties_t option \<Rightarrow> amqp_bytes_t \<Rightarrow> unit io" where
  "amqp_basic_publish ch exchange' routing_key' mandatory' immediate' properties body =
    io_bind (get_conn usable_body_payload_size) (\<lambda>usable.
    io_bind check_recv_heartbeat (\<lambda>_.
    io_bind (amqp_send_method_inner ch (publish_method exchange' routing_key' mandatory' immediate') amqp_time_infinite) (\<lambda>_.
    let props = (case properties of None \<Rightarrow> zero_properties | Some p \<Rightarrow> p) in
    io_bind (amqp_send_frame_inner (header_frame ch props (length body)) amqp_time_infinite) (\<lambda>_ w.
      publish_loop (Suc (length (sends w))) ch usable body 0 w))))"

section \<open>Closing\<close>

text \<open>\<open>sprintf(codestr, "%d", code)\<close> of a number that is not negative.\<close>

fun decimal :: "nat \<Rightarrow> amqp_bytes_t" where
  "decimal n = (if n < 10 then [48 + of_nat n] else decimal (n div 10) @ [48 + of_nat (n mod 10)])"

declare decimal.simps [simp del]

text \<open>
  Both functions fill a struct for \<open>channel.close\<close>; the one for \<open>connection.close\<close> has the
  same fields in the same order.
\<close>

definition amqp_channel_close :: "amqp_channel_t \<Rightarrow> int \<Rightarrow> amqp_rpc_reply_t io" where
  "amqp_channel_close ch code =
    (if code < 0 \<or> code > 65535 then io_return (amqp_rpc_reply_error (status_code AMQP_STATUS_INVALID_PARAMETER))
     else amqp_simple_rpc ch [AMQP_CHANNEL_CLOSE_OK_METHOD]
       (M_channel_close \<lparr>amqp_channel_close_t.reply_code = word_of_int code,
         amqp_channel_close_t.reply_text = decimal (nat code), amqp_channel_close_t.class_id = 0,
         amqp_channel_close_t.method_id = 0\<rparr>))"

definition amqp_connection_close :: "int \<Rightarrow> amqp_rpc_reply_t io" where
  "amqp_connection_close code =
    (if code < 0 \<or> code > 65535 then io_return (amqp_rpc_reply_error (status_code AMQP_STATUS_INVALID_PARAMETER))
     else amqp_simple_rpc 0 [AMQP_CONNECTION_CLOSE_OK_METHOD]
       (M_connection_close \<lparr>amqp_connection_close_t.reply_code = word_of_int code,
         amqp_connection_close_t.reply_text = decimal (nat code), amqp_connection_close_t.class_id = 0,
         amqp_connection_close_t.method_id = 0\<rparr>))"

section \<open>Acknowledging and getting\<close>

definition amqp_basic_ack :: "amqp_channel_t \<Rightarrow> u64 \<Rightarrow> amqp_boolean_t \<Rightarrow> unit io" where
  "amqp_basic_ack ch delivery_tag' multiple' =
    amqp_send_method ch (M_basic_ack
      \<lparr>amqp_basic_ack_t.delivery_tag = delivery_tag', amqp_basic_ack_t.multiple = multiple'\<rparr>)"

definition amqp_basic_get :: "amqp_channel_t \<Rightarrow> amqp_bytes_t \<Rightarrow> amqp_boolean_t \<Rightarrow> amqp_rpc_reply_t io" where
  "amqp_basic_get ch queue' no_ack' =
    io_bind (amqp_simple_rpc ch [AMQP_BASIC_GET_OK_METHOD, AMQP_BASIC_GET_EMPTY_METHOD]
      (M_basic_get \<lparr>amqp_basic_get_t.ticket = 0, amqp_basic_get_t.queue = queue', amqp_basic_get_t.no_ack = no_ack'\<rparr>)) (\<lambda>r.
    io_bind (change_conn (\<lambda>c. c\<lparr>most_recent_api_result := r\<rparr>)) (\<lambda>_. io_return r))"

definition amqp_basic_reject :: "amqp_channel_t \<Rightarrow> u64 \<Rightarrow> amqp_boolean_t \<Rightarrow> unit io" where
  "amqp_basic_reject ch delivery_tag' requeue' =
    amqp_send_method ch (M_basic_reject
      \<lparr>amqp_basic_reject_t.delivery_tag = delivery_tag', amqp_basic_reject_t.requeue = requeue'\<rparr>)"

definition amqp_basic_nack :: "amqp_channel_t \<Rightarrow> u64 \<Rightarrow> amqp_boolean_t \<Rightarrow> amqp_boolean_t \<Rightarrow> unit io" where
  "amqp_basic_nack ch delivery_tag' multiple' requeue' =
    amqp_send_method ch (M_basic_nack
      \<lparr>amqp_basic_nack_t.delivery_tag = delivery_tag', amqp_basic_nack_t.multiple = multiple',
       amqp_basic_nack_t.requeue = requeue'\<rparr>)"

end
