(* ===== verification/Amqp_Table_Ops.thy ===== *)
theory Amqp_Table_Ops
  imports Amqp_Pools
begin

text \<open>
  What the library does with field tables beside coding them (\<open>amqp_table.c\<close>, and
  \<open>amqp_merge_capabilities\<close> of \<open>amqp_socket.c\<close>): comparing entries, looking up a key,
  making entries, copying a table into a pool and merging two tables.  Copying has the
  shape of a decoder that reads nothing, so that the laws of decoders apply to it: what it
  returns, and that it leaks nothing.
\<close>

section \<open>Comparing\<close>

text \<open>
  \<open>memcmp\<close>: the sign of the first difference, as unsigned bytes.  The C standard fixes the
  sign only; \<open>1\<close> and \<open>- 1\<close> stand for the number the C library returns.
\<close>

fun memcmp :: "byte list \<Rightarrow> byte list \<Rightarrow> nat \<Rightarrow> int" where
  "memcmp (a # as) (b # bs) (Suc n) = (if a < b then -1 else if b < a then 1 else memcmp as bs n)"
| "memcmp as bs n = 0"

text \<open>The conversion of a \<open>size_t\<close> to \<open>int\<close>.\<close>

definition int_of_size_t :: "nat \<Rightarrow> int" where
  "int_of_size_t n = sint (of_nat n :: u32)"

definition amqp_table_entry_cmp :: "amqp_table_entry_t \<Rightarrow> amqp_table_entry_t \<Rightarrow> int" where
  "amqp_table_entry_cmp p1 p2 =
    (let minlen = min (length (key p1)) (length (key p2));
         d = memcmp (key p1) (key p2) minlen
     in if d \<noteq> 0 then d else int_of_size_t (length (key p1)) - int_of_size_t (length (key p2)))"

lemma int_of_size_t: "n < 2 ^ 31 \<Longrightarrow> int_of_size_t n = int n"
  by (simp add: int_of_size_t_def sint_uint unsigned_of_nat take_bit_eq_mod signed_take_bit_int_eq_self)


text \<open>The comparison is the lexicographic order of the keys.\<close>

lemma memcmp_less:
  "memcmp as bs (min (length as) (length bs)) < 0 \<or>
     memcmp as bs (min (length as) (length bs)) = 0 \<and> length as < length bs \<longleftrightarrow> ord_class.lexordp as bs"
proof (induction as arbitrary: bs)
  case Nil
  then show ?case by (cases bs) auto
next
  case (Cons a as)
  then show ?case by (cases bs) (auto simp: not_less)
qed

lemma memcmp_sym: "memcmp bs as n = - memcmp as bs n"
  by (induction as bs n rule: memcmp.induct) (auto split: list.splits)

lemma entry_cmp_less:
  assumes "length (key e1) < 2 ^ 31" and "length (key e2) < 2 ^ 31"
  shows "amqp_table_entry_cmp e1 e2 < 0 \<longleftrightarrow> ord_class.lexordp (key e1) (key e2)"
  using assms memcmp_less [of "key e1" "key e2"] by (auto simp: amqp_table_entry_cmp_def Let_def int_of_size_t)

lemma entry_cmp_sym: "amqp_table_entry_cmp e2 e1 = - amqp_table_entry_cmp e1 e2"
  using memcmp_sym [of "key e2" "key e1"] by (simp add: amqp_table_entry_cmp_def Let_def min.commute)

lemma entry_cmp_equal:
  assumes "length (key e1) < 2 ^ 31" and "length (key e2) < 2 ^ 31"
  shows "amqp_table_entry_cmp e1 e2 = 0 \<longleftrightarrow> key e1 = key e2"
proof -
  have "\<not> ord_class.lexordp (key e1) (key e1)" by (rule order_class.lexordp_irreflexive')
  with linorder_class.lexordp_linear [of "key e1" "key e2"] order_class.lexordp_antisym [of "key e1" "key e2"]
  have "key e1 = key e2 \<longleftrightarrow> \<not> ord_class.lexordp (key e1) (key e2) \<and> \<not> ord_class.lexordp (key e2) (key e1)"
    by auto
  also have "\<dots> \<longleftrightarrow> \<not> amqp_table_entry_cmp e1 e2 < 0 \<and> \<not> amqp_table_entry_cmp e2 e1 < 0"
    using entry_cmp_less [OF assms] entry_cmp_less [OF assms(2,1)] by simp
  finally show ?thesis using entry_cmp_sym [of e2 e1] by auto
qed

section \<open>Looking up\<close>

text \<open>The loop of \<open>amqp_table_get_entry_by_key\<close>: the index of the first entry with the key.\<close>

fun entry_index :: "amqp_table_t \<Rightarrow> amqp_bytes_t \<Rightarrow> nat option" where
  "entry_index [] k = None"
| "entry_index (e # es) k = (if amqp_bytes_equal (key e) k then Some 0 else map_option Suc (entry_index es k))"

definition amqp_table_get_entry_by_key :: "amqp_table_t \<Rightarrow> amqp_bytes_t \<Rightarrow> amqp_table_entry_t option" where
  "amqp_table_get_entry_by_key t k = map_option (\<lambda>i. t ! i) (entry_index t k)"

lemma entry_index_Some: "entry_index t k = Some i \<Longrightarrow> i < length t \<and> key (t ! i) = k"
  by (induction t arbitrary: i) (auto split: if_splits)

lemma entry_index_None: "entry_index t k = None \<longleftrightarrow> k \<notin> key ` set t"
  by (induction t) auto

lemma get_entry_simps [simp]:
  "amqp_table_get_entry_by_key [] k = None"
  "amqp_table_get_entry_by_key (e # es) k = (if key e = k then Some e else amqp_table_get_entry_by_key es k)"
  by (auto simp: amqp_table_get_entry_by_key_def option.map_comp o_def)

lemma get_entry_None: "amqp_table_get_entry_by_key t k = None \<longleftrightarrow> k \<notin> key ` set t"
  by (induction t) auto

lemma get_entry_Some: "amqp_table_get_entry_by_key t k = Some e \<Longrightarrow> e \<in> set t \<and> key e = k"
  by (induction t) (auto split: if_splits)

section \<open>Making entries\<close>

definition amqp_table_construct_utf8_entry :: "string \<Rightarrow> string \<Rightarrow> amqp_table_entry_t" where
  "amqp_table_construct_utf8_entry k x = Entry (amqp_cstring_bytes k) (Fv_utf8 (amqp_cstring_bytes x))"

definition amqp_table_construct_table_entry :: "string \<Rightarrow> amqp_table_t \<Rightarrow> amqp_table_entry_t" where
  "amqp_table_construct_table_entry k x = Entry (amqp_cstring_bytes k) (Fv_table x)"

definition amqp_table_construct_bool_entry :: "string \<Rightarrow> amqp_boolean_t \<Rightarrow> amqp_table_entry_t" where
  "amqp_table_construct_bool_entry k x = Entry (amqp_cstring_bytes k) (Fv_boolean x)"

section \<open>Copying\<close>

text \<open>
  \<open>clone_bytes\<close>: \<open>n\<close> bytes of the pool, filled by \<open>memcpy\<close>.  \<open>clone_elements\<close>: an array of
  the pool for the elements, which the loop then copies; no elements, no array.  Strings and
  tables are values here, not addresses: what the model shows of a copy is that it
  is allocated, may be refused, and has the content it should have; that the bytes are those
  of the new block is the \<open>memcpy\<close> itself.
\<close>

definition clone_bytes :: "amqp_bytes_t \<Rightarrow> amqp_bytes_t decoder" where
  "clone_bytes bs = dec_bind (dec_alloc (length bs)) (\<lambda>_. dec_return bs)"

definition clone_elements :: "nat \<Rightarrow> 'a list \<Rightarrow> 'a list decoder \<Rightarrow> 'a list decoder" where
  "clone_elements elem xs loop =
    (if xs = [] then dec_return [] else dec_bind (dec_alloc (length xs * elem)) (\<lambda>_. loop))"

fun amqp_field_value_clone :: "amqp_field_value_t \<Rightarrow> amqp_field_value_t decoder"
and clone_values :: "amqp_field_value_t list \<Rightarrow> amqp_field_value_t list decoder"
and amqp_table_entry_clone :: "amqp_table_entry_t \<Rightarrow> amqp_table_entry_t decoder"
and clone_entries :: "amqp_table_entry_t list \<Rightarrow> amqp_table_entry_t list decoder" where
  "amqp_field_value_clone original =
    (case original of
       Fv_utf8 bs \<Rightarrow> if bs = [] then dec_return (Fv_utf8 []) else dec_bind (clone_bytes bs) (\<lambda>bs'. dec_return (Fv_utf8 bs'))
     | Fv_bytes bs \<Rightarrow> if bs = [] then dec_return (Fv_bytes []) else dec_bind (clone_bytes bs) (\<lambda>bs'. dec_return (Fv_bytes bs'))
     | Fv_array xs \<Rightarrow> dec_bind (clone_elements SIZEOF_FIELD_VALUE xs (clone_values xs)) (\<lambda>xs'. dec_return (Fv_array xs'))
     | Fv_table es \<Rightarrow> dec_bind (clone_elements SIZEOF_TABLE_ENTRY es (clone_entries es)) (\<lambda>es'. dec_return (Fv_table es'))
     | Fv_other _ \<Rightarrow> dec_fail AMQP_STATUS_INVALID_PARAMETER
     | _ \<Rightarrow> dec_return original)"
| "clone_values [] = dec_return []"
| "clone_values (x # xs) = dec_bind (amqp_field_value_clone x) (\<lambda>x'. dec_bind (clone_values xs) (\<lambda>xs'. dec_return (x' # xs')))"
| "amqp_table_entry_clone (Entry k x) =
    (if k = [] then dec_fail AMQP_STATUS_INVALID_PARAMETER
     else dec_bind (clone_bytes k) (\<lambda>k'. dec_bind (amqp_field_value_clone x) (\<lambda>x'. dec_return (Entry k' x'))))"
| "clone_entries [] = dec_return []"
| "clone_entries (e # es) =
    dec_bind (amqp_table_entry_clone e) (\<lambda>e'. dec_bind (clone_entries es) (\<lambda>es'. dec_return (e' # es')))"

definition amqp_table_clone :: "amqp_table_t \<Rightarrow> amqp_table_t decoder" where
  "amqp_table_clone original = clone_elements SIZEOF_TABLE_ENTRY original (clone_entries original)"

text \<open>What can be copied: values of known kinds, under keys that are not empty, at every depth.\<close>

fun clonable :: "amqp_field_value_t \<Rightarrow> bool" where
  "clonable (Fv_other _) = False"
| "clonable (Fv_array xs) = (\<forall>x \<in> set xs. clonable x)"
| "clonable (Fv_table es) = (\<forall>e \<in> set es. case e of Entry k x \<Rightarrow> k \<noteq> [] \<and> clonable x)"
| "clonable _ = True"

text \<open>The result of copying when memory is there: a copy, or the refusal of the table.\<close>

definition copies :: "'a decoder \<Rightarrow> bool \<Rightarrow> 'a \<Rightarrow> bool" where
  "copies d ok x \<longleftrightarrow> (\<forall>v s. roomy (dheap s) \<longrightarrow> (\<exists>s'. roomy (dheap s') \<and> doff s' = doff s \<and>
     d v s = (if ok then Returns x else Fails AMQP_STATUS_INVALID_PARAMETER, s')))"

lemma copies_return: "copies (dec_return x) True x"
  by (simp add: copies_def dec_return_def)

lemma copies_fail: "copies (dec_fail AMQP_STATUS_INVALID_PARAMETER) False x"
  by (simp add: copies_def dec_fail_def)

lemma copies_alloc: "n > 0 \<Longrightarrow> copies d ok x \<Longrightarrow> copies (dec_bind (dec_alloc n) (\<lambda>_. d)) ok x"
  unfolding copies_def
proof (intro allI impI)
  fix v and s :: dec_state
  assume n: "n > 0" and r: "roomy (dheap s)"
    and d: "\<forall>v s. roomy (dheap s) \<longrightarrow> (\<exists>s'. roomy (dheap s') \<and> doff s' = doff s \<and>
      d v s = (if ok then Returns x else Fails AMQP_STATUS_INVALID_PARAMETER, s'))"
  obtain p pool h where al: "amqp_pool_alloc (dpool s) n (dheap s) = (p, pool, h)"
    by (metis prod_cases3)
  with pool_alloc_roomy [OF al r] n obtain q where "p = Some q" "roomy h" by auto
  with d [rule_format, of "s\<lparr>dpool := pool, dheap := h\<rparr>" v] al
  show "\<exists>s'. roomy (dheap s') \<and> doff s' = doff s \<and>
      dec_bind (dec_alloc n) (\<lambda>_. d) v s = (if ok then Returns x else Fails AMQP_STATUS_INVALID_PARAMETER, s')"
    by (simp add: dec_bind_def dec_alloc_def)
qed

lemma copies_bind:
  assumes "copies d ok x" and "copies (f x) ok' y"
  shows "copies (dec_bind d f) (ok \<and> ok') y"
  unfolding copies_def
proof (intro allI impI)
  fix v and s :: dec_state
  assume "roomy (dheap s)"
  with assms(1) obtain s1 where 1: "roomy (dheap s1)" "doff s1 = doff s"
      "d v s = (if ok then Returns x else Fails AMQP_STATUS_INVALID_PARAMETER, s1)"
    unfolding copies_def by blast
  with assms(2) obtain s2 where "roomy (dheap s2)" "doff s2 = doff s1"
      "f x v s1 = (if ok' then Returns y else Fails AMQP_STATUS_INVALID_PARAMETER, s2)"
    unfolding copies_def by blast
  with 1 show "\<exists>s'. roomy (dheap s') \<and> doff s' = doff s \<and>
      dec_bind d f v s = (if ok \<and> ok' then Returns y else Fails AMQP_STATUS_INVALID_PARAMETER, s')"
    by (cases ok) (simp_all add: dec_bind_def)
qed

lemma copies_map: "copies d ok x \<Longrightarrow> copies (dec_bind d (\<lambda>a. dec_return (how a))) ok (how x)"
  using copies_bind [OF _ copies_return] by fastforce

lemma copies_bytes: "bs \<noteq> [] \<Longrightarrow> copies (clone_bytes bs) True bs"
  unfolding clone_bytes_def by (rule copies_alloc) (simp_all add: copies_return)

lemma copies_elements: "elem > 0 \<Longrightarrow> copies loop (P xs) xs \<Longrightarrow> P [] \<Longrightarrow> copies (clone_elements elem xs loop) (P xs) xs"
  by (auto simp: clone_elements_def copies_return intro: copies_alloc)

lemma copies_eq: "copies d ok x \<Longrightarrow> ok = ok' \<Longrightarrow> copies d ok' x"
  by simp

declare amqp_field_value_clone.simps [simp del]

lemma copies_field_value:
  "copies (amqp_field_value_clone x) (clonable x) x"
  "copies (clone_values xs) (clonable (Fv_array xs)) xs"
  "copies (amqp_table_entry_clone e) (clonable (Fv_table [e])) e"
  "copies (clone_entries es) (clonable (Fv_table es)) es"
proof (induction x and xs and e and es rule: amqp_field_value_clone_clone_values_amqp_table_entry_clone_clone_entries.induct)
  case (1 x)
  have a: "copies (clone_elements SIZEOF_FIELD_VALUE xs (clone_values xs)) (clonable (Fv_array xs)) xs" if "x = Fv_array xs" for xs
    by (rule copies_elements [where P = "\<lambda>xs. clonable (Fv_array xs)"]) (use 1(1) that in \<open>simp_all add: SIZEOF_FIELD_VALUE_def\<close>)
  have t: "copies (clone_elements SIZEOF_TABLE_ENTRY es (clone_entries es)) (clonable (Fv_table es)) es" if "x = Fv_table es" for es
    by (rule copies_elements [where P = "\<lambda>es. clonable (Fv_table es)"]) (use 1(2) that in \<open>simp_all add: SIZEOF_TABLE_ENTRY_def\<close>)
  show ?case
    by (cases x)
      (auto simp: amqp_field_value_clone.simps copies_return copies_fail intro!: copies_map copies_bytes
        simp del: clonable.simps(2,3) dest: a t)
next
  case (4 k x)
  show ?case
    by (auto simp: copies_fail intro!: copies_eq [OF copies_bind [OF copies_bytes copies_map [OF 4]]])
next
  case (3 x xs)
  show ?case
    by (auto intro!: copies_eq [OF copies_bind [OF 3(1) copies_map [OF 3(2)]]])
next
  case (6 e es)
  show ?case
    by (auto intro!: copies_eq [OF copies_bind [OF 6(1) copies_map [OF 6(2)]]])
qed (auto simp: copies_return)

lemma copies_table: "copies (amqp_table_clone t) (clonable (Fv_table t)) t"
  unfolding amqp_table_clone_def
  by (rule copies_elements [where P = "\<lambda>t. clonable (Fv_table t)"])
    (simp_all add: SIZEOF_TABLE_ENTRY_def copies_field_value del: clonable.simps(3), simp)

lemma dec_mem_clone_bytes [dec_mem_intros]: "dec_mem (clone_bytes bs)"
  unfolding clone_bytes_def by (intro dec_mem_intros)

lemma dec_mem_clone_elements: "dec_mem loop \<Longrightarrow> dec_mem (clone_elements elem xs loop)"
  by (auto simp: clone_elements_def intro!: dec_mem_intros)

lemma dec_mem_clone:
  "dec_mem (amqp_field_value_clone x)" "dec_mem (clone_values xs)"
  "dec_mem (amqp_table_entry_clone e)" "dec_mem (clone_entries es)"
proof (induction x and xs and e and es rule: amqp_field_value_clone_clone_values_amqp_table_entry_clone_clone_entries.induct)
  case (1 x)
  show ?case
    by (cases x) (auto simp: amqp_field_value_clone.simps 1 intro!: dec_mem_intros dec_mem_clone_elements)
qed (auto intro!: dec_mem_intros)

lemma dec_mem_table_clone [dec_mem_intros]: "dec_mem (amqp_table_clone t)"
  unfolding amqp_table_clone_def by (intro dec_mem_clone_elements dec_mem_clone)

section \<open>Merging\<close>

text \<open>
  \<open>with_temp_pool n d f\<close>: a pool of its own for \<open>d\<close>; what \<open>d\<close> returns goes to \<open>f\<close>, which
  allocates from the pool of the caller; the pool of \<open>d\<close> is emptied at the end, after an
  error as well.
\<close>

definition with_temp_pool :: "nat \<Rightarrow> 'a decoder \<Rightarrow> ('a \<Rightarrow> 'b decoder) \<Rightarrow> 'b decoder" where
  "with_temp_pool n d f v s =
    (case d v (s\<lparr>dpool := init_amqp_pool n\<rparr>) of (r, s1) \<Rightarrow>
     case dec_bind (\<lambda>_ s. (r, s)) f v (s1\<lparr>dpool := dpool s\<rparr>) of (r', s2) \<Rightarrow>
       (r', s2\<lparr>dheap := snd (empty_amqp_pool (dpool s1) (dheap s2))\<rparr>))"

text \<open>
  The loop over the entries to add: \<open>temp\<close> is the array \<open>temp_result\<close>.  When two tables
  meet, the one of the base is looked up again in \<open>base\<close>; that it is a table there, or is
  there at all, is not checked (\<open>Undefined\<close>: a NULL pointer or the wrong union member is
  read).
\<close>

fun amqp_merge_capabilities :: "amqp_table_t \<Rightarrow> amqp_table_t option \<Rightarrow> amqp_table_t decoder"
and merge_entries :: "amqp_table_t \<Rightarrow> amqp_table_t \<Rightarrow> amqp_table_entry_t list \<Rightarrow> amqp_table_t decoder" where
  "amqp_merge_capabilities base None = amqp_table_clone base"
| "amqp_merge_capabilities base (Some add) =
    with_temp_pool 4096
      (dec_bind (dec_alloc (SIZEOF_TABLE_ENTRY * (length base + length add))) (\<lambda>_. merge_entries base base add))
      amqp_table_clone"
| "merge_entries base temp [] = dec_return temp"
| "merge_entries base temp (Entry k x # add) =
    (case entry_index temp k of
       Some i \<Rightarrow>
         (case (x, entry_value (temp ! i)) of
            (Fv_table t, Fv_table _) \<Rightarrow>
              (case amqp_table_get_entry_by_key base k of
                 Some (Entry _ (Fv_table b)) \<Rightarrow>
                   dec_bind (amqp_merge_capabilities b (Some t)) (\<lambda>m.
                   merge_entries base (temp[i := Entry (key (temp ! i)) (Fv_table m)]) add)
               | _ \<Rightarrow> (\<lambda>v s. (Undefined, s)))
          | _ \<Rightarrow> merge_entries base (temp[i := Entry (key (temp ! i)) x]) add)
     | None \<Rightarrow> merge_entries base (temp @ [Entry k x]) add)"

lemma size_entry_value [termination_simp]: "a \<in> set add \<Longrightarrow> size (entry_value a) < size_list size add"
  by (induction add) (auto, metis amqp_table_entry_t.exhaust_sel amqp_table_entry_t.size(2) add_Suc_right less_add_Suc2 less_add_Suc1 trans_less_add1 le_add1 le_imp_less_Suc)

lemma size_entry_found [termination_simp]: "find P add = Some a \<Longrightarrow> size (entry_value a) < size_list size add"
  by (rule size_entry_value) (auto simp: find_Some_iff)

text \<open>
  The reference: the entries of the base in their order, each with the value merged with the
  one under the same key, then the added entries with new keys, in their order.
\<close>

fun merged :: "amqp_table_t \<Rightarrow> amqp_table_t \<Rightarrow> amqp_table_t"
and merged_value :: "amqp_field_value_t \<Rightarrow> amqp_field_value_t \<Rightarrow> amqp_field_value_t" where
  "merged base add =
    map (\<lambda>e. case find (\<lambda>a. key a = key e) add of
           None \<Rightarrow> e
         | Some a \<Rightarrow> Entry (key e) (merged_value (entry_value e) (entry_value a))) base @
    filter (\<lambda>a. key a \<notin> key ` set base) add"
| "merged_value (Fv_table b) (Fv_table t) = Fv_table (merged b t)"
| "merged_value _ x = x"

text \<open>
  Tables that merge: no key occurs twice, and there is an entry in one of the two, at every
  depth where two tables meet.
\<close>

fun mergeable :: "amqp_table_t \<Rightarrow> amqp_table_t \<Rightarrow> bool"
and mergeable_value :: "amqp_field_value_t \<Rightarrow> amqp_field_value_t \<Rightarrow> bool" where
  "mergeable base add =
    (distinct (map key base) \<and> distinct (map key add) \<and> base @ add \<noteq> [] \<and>
     (\<forall>a \<in> set add. \<forall>e \<in> set base. key e = key a \<longrightarrow> mergeable_value (entry_value e) (entry_value a)))"
| "mergeable_value (Fv_table b) (Fv_table t) = mergeable b t"
| "mergeable_value _ x = True"

lemma fails_free_all [simp]: "fails (free_all bs h) = fails h"
  by (induction bs h rule: free_all.induct) simp_all

lemma fails_empty_pool [simp]: "fails (snd (empty_amqp_pool pool h)) = fails h"
  by (simp add: empty_amqp_pool_def recycle_amqp_pool_def empty_blocklist_def split: prod.splits)

lemma copies_temp_pool:
  assumes d: "copies d ok x" and f: "copies (f x) ok' y"
  shows "copies (with_temp_pool n d f) (ok \<and> ok') y"
  unfolding copies_def
proof (intro allI impI)
  fix v and s :: dec_state
  assume "roomy (dheap s)"
  with d [unfolded copies_def, rule_format, of "s\<lparr>dpool := init_amqp_pool n\<rparr>" v]
  obtain s1 where 1: "roomy (dheap s1)" "doff s1 = doff s"
      "d v (s\<lparr>dpool := init_amqp_pool n\<rparr>) = (if ok then Returns x else Fails AMQP_STATUS_INVALID_PARAMETER, s1)"
    by auto
  with f [unfolded copies_def, rule_format, of "s1\<lparr>dpool := dpool s\<rparr>" v]
  obtain s2 where "roomy (dheap s2)" "doff s2 = doff s"
      "f x v (s1\<lparr>dpool := dpool s\<rparr>) = (if ok' then Returns y else Fails AMQP_STATUS_INVALID_PARAMETER, s2)"
    by auto
  with 1 show "\<exists>s'. roomy (dheap s') \<and> doff s' = doff s \<and>
      with_temp_pool n d f v s = (if ok \<and> ok' then Returns y else Fails AMQP_STATUS_INVALID_PARAMETER, s')"
    by (cases ok) (simp_all add: with_temp_pool_def dec_bind_def roomy_cong [OF fails_empty_pool])
qed

declare merged.simps [simp del] mergeable.simps [simp del] amqp_merge_capabilities.simps [simp del]

lemma entry_index_base:
  assumes "distinct (map key base)" and "i < length base" and "\<And>j. j < length base \<Longrightarrow> key (g (base ! j)) = key (base ! j)"
  shows "entry_index (map g base @ new) (key (base ! i)) = Some i"
  using assms
proof (induction base arbitrary: i)
  case (Cons e base)
  have g: "key (g (base ! j)) = key (base ! j)" if "j < length base" for j
    using Cons.prems(3) [of "Suc j"] that by simp
  show ?case
  proof (cases i)
    case (Suc j)
    have "key (g e) = key e" using Cons.prems(3) [of 0] by simp
    moreover have "key (base ! j) \<in> key ` set base" using Suc Cons.prems(2) by simp
    then have "key (base ! j) \<noteq> key e" using Cons.prems(1) by auto
    ultimately show ?thesis using Suc Cons.prems Cons.IH [OF _ _ g, of j] by auto
  qed (use Cons.prems(3) [of 0] in simp)
qed simp

text \<open>One round of the loop keeps the temporary table the merge of the base and what was added.\<close>

lemma find_append: "find P (xs @ ys) = (case find P xs of None \<Rightarrow> find P ys | Some x \<Rightarrow> Some x)"
  by (induction xs) auto

lemma merged_new:
  assumes "k \<notin> key ` set base"
  shows "merged base (added @ [Entry k x]) = merged base added @ [Entry k x]"
proof -
  have "find (\<lambda>a. key a = key e) (added @ [Entry k x]) = find (\<lambda>a. key a = key e) added" if "e \<in> set base" for e
    using that assms by (auto simp: find_append split: option.splits)
  with assms show ?thesis by (simp add: merged.simps cong: map_cong)
qed

lemma merged_old:
  assumes "distinct (map key base)" and "distinct (map key (added @ [Entry k x]))"
    and i: "i < length base" "key (base ! i) = k"
  shows "merged base (added @ [Entry k x]) =
      (merged base added)[i := Entry k (merged_value (entry_value (base ! i)) x)]"
    and "merged base added ! i = base ! i"
proof -
  have n: "find (\<lambda>a. key a = k) added = None" using assms(2) by (auto simp: find_None_iff)
  have k: "k \<in> key ` set base" using imageI [OF nth_mem, of i base key] i by simp
  have o: "find (\<lambda>a. key a = key (base ! j)) (added @ [Entry k x]) = find (\<lambda>a. key a = key (base ! j)) added"
    if "j < length base" "j \<noteq> i" for j
    using that assms(1) i by (auto simp: find_append distinct_conv_nth split: option.splits)
  show "merged base (added @ [Entry k x]) =
      (merged base added)[i := Entry k (merged_value (entry_value (base ! i)) x)]"
    using i k n o by (auto simp: merged.simps find_append list_update_append intro!: nth_equalityI simp: nth_list_update nth_append)
  show "merged base added ! i = base ! i"
    using i n by (simp add: merged.simps nth_append)
qed

lemma entry_index_merged:
  assumes "distinct (map key base)" and "k \<notin> key ` set added"
  shows "entry_index (merged base added) k = entry_index base k"
proof (cases "entry_index base k")
  case None
  then have "k \<notin> key ` set base" by (simp add: entry_index_None)
  then have "k \<notin> key ` set (merged base added)" using assms(2)
    by (auto simp: merged.simps split: option.splits)
  then show ?thesis using None entry_index_None by metis
next
  case (Some i)
  with entry_index_Some have i: "i < length base" "key (base ! i) = k" by auto
  have "entry_index (merged base added) (key (base ! i)) = Some i"
    unfolding merged.simps by (rule entry_index_base [OF assms(1) i(1)]) (simp split: option.split)
  with Some i show ?thesis by simp
qed

lemma get_entry_index: "entry_index t k = Some i \<Longrightarrow> amqp_table_get_entry_by_key t k = Some (t ! i)"
  by (simp add: amqp_table_get_entry_by_key_def)

text \<open>The tables that were merged and copied on the way occur in the result.\<close>

fun merge_copied :: "amqp_field_value_t \<Rightarrow> amqp_field_value_t \<Rightarrow> bool" where
  "merge_copied (Fv_table b) (Fv_table t) = clonable (Fv_table (merged b t))"
| "merge_copied _ x = True"

definition merges_copied :: "amqp_table_t \<Rightarrow> amqp_table_entry_t list \<Rightarrow> bool" where
  "merges_copied base add \<longleftrightarrow>
    (\<forall>a \<in> set add. \<forall>e \<in> set base. key e = key a \<longrightarrow> merge_copied (entry_value e) (entry_value a))"

lemma not_both_tables:
  assumes "\<not> (\<exists>b t. u = Fv_table b \<and> x = Fv_table t)"
  shows "merge_copied u x" and "merged_value u x = x"
proof -
  have "merge_copied u x \<and> merged_value u x = x"
  proof (cases u)
    case (Fv_table b)
    with assms show ?thesis by (cases x) simp_all
  qed simp_all
  then show "merge_copied u x" and "merged_value u x = x" by blast+
qed

lemma copies_merge_entries:
  assumes sub: "\<And>e a b t. e \<in> set base \<Longrightarrow> a \<in> set add \<Longrightarrow> key e = key a \<Longrightarrow> entry_value e = Fv_table b \<Longrightarrow>
        entry_value a = Fv_table t \<Longrightarrow>
        copies (amqp_merge_capabilities b (Some t)) (clonable (Fv_table (merged b t))) (merged b t)"
    and d: "distinct (map key base)" "distinct (map key (added @ add))"
  shows "copies (merge_entries base (merged base added) add) (merges_copied base add) (merged base (added @ add))"
  using sub d(2)
proof (induction add arbitrary: added)
  case Nil
  then show ?case by (simp add: copies_return merges_copied_def)
next
  case (Cons a add)
  obtain k x where a: "a = Entry k x" by (cases a)
  have k: "k \<notin> key ` set added" using Cons.prems(2) a by auto
  have IH: "copies (merge_entries base (merged base (added @ [a])) add) (merges_copied base add)
      (merged base (added @ a # add))"
    using Cons.IH [of "added @ [a]"] Cons.prems(2) Cons.prems(1) [OF _ list.set_intros(2)] by simp
  show ?case
  proof (cases "entry_index base k")
    case None
    then have n: "k \<notin> key ` set base" by (simp add: entry_index_None)
    then have "merges_copied base add = merges_copied base (a # add)"
      by (auto simp: merges_copied_def a)
    with None IH entry_index_merged [OF d(1) k] merged_new [OF n] show ?thesis by (simp add: a)
  next
    case (Some i)
    with entry_index_Some have i: "i < length base" "key (base ! i) = k" by auto
    have "distinct (map key (added @ [Entry k x]))" using Cons.prems(2) a by auto
    note m = merged_old [OF d(1) this i]
    have e: "e = base ! i" if "e \<in> set base" "key e = k" for e
      using that i d(1) by (metis distinct_map inj_onD nth_mem)
    have "(\<forall>e \<in> set base. key e = k \<longrightarrow> Q e) \<longleftrightarrow> Q (base ! i)" for Q
      using e i nth_mem by metis
    then have mc: "merges_copied base (a # add) \<longleftrightarrow> merge_copied (entry_value (base ! i)) x \<and> merges_copied base add"
      by (simp add: merges_copied_def a)
    show ?thesis
    proof (cases "\<exists>b t. entry_value (base ! i) = Fv_table b \<and> x = Fv_table t")
      case True
      then obtain b t where bt: "entry_value (base ! i) = Fv_table b" "x = Fv_table t" by blast
      have g: "amqp_table_get_entry_by_key base k = Some (Entry k (Fv_table b))"
        using get_entry_index [OF Some] i bt by (metis amqp_table_entry_t.collapse)
      have c: "copies (amqp_merge_capabilities b (Some t)) (clonable (Fv_table (merged b t))) (merged b t)"
        by (rule Cons.prems(1) [of "base ! i" a]) (use i bt a in simp_all)
      show ?thesis
        using copies_bind [OF c, where f = "\<lambda>m. merge_entries base ((merged base added)[i := Entry k (Fv_table m)]) add"] IH
          entry_index_merged [OF d(1) k] Some m i bt g mc
        by (simp add: a)
    next
      case False
      have "merge_entries base (merged base added) (a # add) =
          merge_entries base ((merged base added)[i := Entry k x]) add"
      proof (cases x)
        case (Fv_table t)
        with False show ?thesis
          by (cases "entry_value (base ! i)") (simp_all add: a entry_index_merged [OF d(1) k] Some m(2) i)
      qed (simp_all add: a entry_index_merged [OF d(1) k] Some m(2) i)
      with IH m i mc not_both_tables [OF False] show ?thesis by (simp add: a)
    qed
  qed
qed

lemma merges_copied:
  assumes d: "distinct (map key base)" "distinct (map key add)" and c: "clonable (Fv_table (merged base add))"
  shows "merges_copied base add"
  unfolding merges_copied_def
proof (intro ballI impI)
  fix a e assume a: "a \<in> set add" and e: "e \<in> set base" "key e = key a"
  have "find (\<lambda>a. key a = key e) add = Some a"
    using a e d(2) by (induction add) (auto simp: image_iff)
  with e have "Entry (key e) (merged_value (entry_value e) (entry_value a)) \<in> set (merged base add)"
    by (force simp: merged.simps)
  with c have "clonable (merged_value (entry_value e) (entry_value a))" by fastforce
  then show "merge_copied (entry_value e) (entry_value a)"
    by (cases "(entry_value e, entry_value a)" rule: merge_copied.cases) simp_all
qed

lemma merged_empty: "merged base [] = base"
  by (simp add: merged.simps map_idI)

lemma copies_merge:
  "mergeable base add \<Longrightarrow>
    copies (amqp_merge_capabilities base (Some add)) (clonable (Fv_table (merged base add))) (merged base add)"
proof (induction "size_list size add" arbitrary: base add rule: less_induct)
  case less
  note m = less.prems [unfolded mergeable.simps [of base add]]
  have sub: "copies (amqp_merge_capabilities b (Some t)) (clonable (Fv_table (merged b t))) (merged b t)"
    if "e \<in> set base" "a \<in> set add" "key e = key a" "entry_value e = Fv_table b" "entry_value a = Fv_table t" for e a b t
  proof (rule less.hyps)
    show "size_list size t < size_list size add"
      using size_entry_value [OF that(2)] that(5) by simp
    from m that have "mergeable_value (entry_value e) (entry_value a)" by blast
    then show "mergeable b t" using that by simp
  qed
  have "copies (merge_entries base (merged base []) add) (merges_copied base add) (merged base ([] @ add))"
    by (rule copies_merge_entries [OF sub]) (use m in simp_all)
  then have "copies (merge_entries base base add) (merges_copied base add) (merged base add)"
    by (simp add: merged_empty)
  then have "copies (dec_bind (dec_alloc (SIZEOF_TABLE_ENTRY * (length base + length add))) (\<lambda>_. merge_entries base base add))
      (merges_copied base add) (merged base add)"
    using m by (intro copies_alloc) (auto simp: SIZEOF_TABLE_ENTRY_def)
  from copies_temp_pool [OF this, where f = amqp_table_clone, OF copies_table] show ?case
    unfolding amqp_merge_capabilities.simps by (rule copies_eq) (use merges_copied m in blast)
qed

text \<open>Memory: the temporary pool is gone afterwards, whatever happened.\<close>

lemma empty_blocklist_content [simp]: "content (snd (empty_blocklist x h)) = content h"
  by (auto simp: empty_blocklist_def free_all_fields free_def split: option.splits)

lemma empty_pool_content: "content (snd (empty_amqp_pool pool h)) = content h"
  using empty_blocklist_content [of "large_blocks pool" h]
  by (auto simp: empty_amqp_pool_def recycle_amqp_pool_def split: prod.splits dest: arg_cong [of _ _ snd] simp del: empty_blocklist_content)
    (metis empty_blocklist_content snd_conv)

lemma dec_mem_temp_pool [dec_mem_intros]:
  assumes d: "dec_mem d" and f: "\<And>x. dec_mem (f x)"
  shows "dec_mem (with_temp_pool n d f)"
proof (rule dec_memI)
  fix v and s :: dec_state and r s'
  assume ok: "pool_ok (dpool s) (dheap s)" and w: "with_temp_pool n d f v s = (r, s')"
  let ?s0 = "s\<lparr>dpool := init_amqp_pool n\<rparr>"
  obtain r1 s1 where 1: "d v ?s0 = (r1, s1)" by fastforce
  obtain s2 where 2: "dec_bind (\<lambda>_ s. (r1, s)) f v (s1\<lparr>dpool := dpool s\<rparr>) = (r, s2)"
    and s': "s' = s2\<lparr>dheap := snd (empty_amqp_pool (dpool s1) (dheap s2))\<rparr>"
    using w 1 by (auto simp: with_temp_pool_def split: prod.splits)
  have heap: "heap_ok (dheap s)" using ok by (simp add: pool_ok_iff)
  have m1: "mem_step {} ?s0 (defined_result r1) s1"
    by (rule dec_memD [OF d _ 1]) (simp add: pool_ok_init [OF heap])
  let ?t = "dpool s1" and ?p = "dpool s" and ?h = "dheap s" and ?h1 = "dheap s1" and ?h2 = "dheap s2"
  have t1: "pool_ok ?t ?h1" using m1 by (rule mem_step_ok)
  have init: "foreign ?s0 = live ?h" "private_blocks ?s0 = live ?h"
    by (simp_all add: foreign_def private_blocks_def init_amqp_pool_def pool_owned_def bl_owned_def)
  have sep: "live ?h \<subseteq> live ?h1 - pool_touched ?t"
    and c1: "\<And>b. b \<in> live ?h \<Longrightarrow> content ?h1 b = content ?h b"
    using m1 unfolding mem_step_def init contents_kept_def
    by (auto simp: private_blocks_def foreign_def pool_touched_def)
  have p1: "pool_ok ?p ?h1"
    by (rule pool_ok_elsewhere [OF ok]) (use t1 sep c1 pool_touched_live [OF ok] in \<open>auto simp: pool_ok_iff\<close>)
  let ?s1 = "s1\<lparr>dpool := ?p\<rparr>"
  have f': "dec_mem (dec_bind (\<lambda>_ s. (r1, s)) f)"
    by (intro dec_mem_bind f) (auto intro!: dec_memI simp: mem_step_def contents_kept_def)
  have m2: "mem_step {} ?s1 (defined_result r) s2"
    by (rule dec_memD [OF f' _ 2]) (simp add: p1)
  let ?p2 = "dpool s2"
  have p2: "pool_ok ?p2 ?h2" using m2 by (rule mem_step_ok)
  have tp: "pool_touched ?t \<subseteq> private_blocks ?s1"
    using pool_touched_live [OF t1] pool_touched_live [OF ok] sep
    by (auto simp: private_blocks_def foreign_def pool_touched_def)
  then have tp2: "pool_touched ?t \<subseteq> private_blocks s2"
    and c2: "\<And>b. b \<in> private_blocks ?s1 \<Longrightarrow> content ?h2 b = content ?h1 b"
    using m2 by (auto simp: mem_step_def contents_kept_def)
  have t2: "pool_ok ?t ?h2"
    by (rule pool_ok_elsewhere [OF t1]) (use p2 tp tp2 c2 in \<open>auto simp: pool_ok_iff private_blocks_def foreign_def\<close>)
  obtain t3 h3 where e: "empty_amqp_pool ?t ?h2 = (t3, h3)" by fastforce
  note free = empty_amqp_pool_frees [OF t2 e]
  have h3: "heap_ok h3" "live h3 = live ?h2 - pool_owned ?t" "content h3 = content ?h2" "fails h3 = fails ?h2"
    using free e empty_pool_content [of ?t ?h2] fails_empty_pool [of ?t ?h2] by (auto simp: pool_ok_iff)
  have owned: "pool_owned ?t \<subseteq> pool_touched ?t" by (auto simp: pool_touched_def)
  have away: "pool_owned ?t \<inter> pool_touched ?p2 = {}"
    using tp2 owned by (auto simp: private_blocks_def foreign_def pool_touched_def)
  have "pool_ok ?p2 h3"
    by (rule pool_ok_elsewhere [OF p2 h3(1)]) (use h3 away pool_touched_live [OF p2] in auto)
  moreover have F: "foreign s' = foreign s2 - pool_owned ?t" "private_blocks s' = private_blocks s2 - pool_owned ?t"
    using e h3 by (auto simp: s' foreign_def private_blocks_def)
  have F1: "foreign s \<subseteq> foreign ?s1" "private_blocks s \<subseteq> private_blocks ?s1" "foreign s \<inter> pool_owned ?t = {}"
    using sep owned by (auto simp: foreign_def private_blocks_def)
  then have "foreign s \<subseteq> foreign s'" and "private_blocks s \<subseteq> private_blocks s'"
    using m2 F by (auto simp: mem_step_def private_blocks_def)
  moreover have "contents_kept {} s s'"
    using F1(2) c1 c2 h3 e by (auto simp: contents_kept_def s' private_blocks_def foreign_def)
  moreover have "foreign s' = foreign s" if "roomy ?h" "defined_result r"
  proof -
    have "defined_result r1" using that(2) 2 by (cases r1) (auto simp: dec_bind_def)
    then have "foreign s1 = live ?h" using m1 that(1) init by (simp add: mem_step_def)
    moreover have "roomy ?h1" using m1 that(1) by (simp add: mem_step_def roomy_def)
    then have "foreign s2 = foreign ?s1" using m2 that(2) by (simp add: mem_step_def)
    ultimately show ?thesis using F(1) by (auto simp: foreign_def)
  qed
  moreover have "fails (dheap s') = fails ?h" using m1 m2 h3 e by (simp add: s' mem_step_def)
  ultimately show "mem_step {} s (defined_result r) s'"
    using e by (simp add: mem_step_def s')
qed

lemma dec_mem_undef_here: "dec_mem (\<lambda>v s. (Undefined, s))"
  by (auto intro!: dec_memI simp: mem_step_def contents_kept_def)

lemma dec_mem_merge_entries:
  assumes "\<And>a b t. a \<in> set add \<Longrightarrow> entry_value a = Fv_table t \<Longrightarrow> dec_mem (amqp_merge_capabilities b (Some t))"
  shows "dec_mem (merge_entries base temp add)"
  using assms
proof (induction add arbitrary: temp)
  case (Cons a add)
  obtain k x where a: "a = Entry k x" by (cases a)
  have IH: "dec_mem (merge_entries base temp' add)" for temp'
    by (rule Cons.IH) (blast intro: Cons.prems [OF list.set_intros(2)])
  show ?case
  proof (cases "entry_index temp k")
    case i: (Some i)
    show ?thesis
    proof (cases x)
      case t: (Fv_table t)
      have sub: "dec_mem (amqp_merge_capabilities b (Some t))" for b
        by (rule Cons.prems [of a]) (simp_all add: a t)
      show ?thesis
      proof (cases "entry_value (temp ! i)")
        case v: (Fv_table v)
        show ?thesis
        proof (cases "amqp_table_get_entry_by_key base k")
          case (Some e)
          obtain k' y where "e = Entry k' y" by (cases e)
          with Some show ?thesis
            by (cases y) (simp_all add: a i t v dec_mem_undef_here dec_mem_bind IH sub)
        qed (simp add: a i t v dec_mem_undef_here)
      qed (simp_all add: a i t IH)
    qed (simp_all add: a i IH)
  qed (simp add: a IH)
qed (simp add: dec_mem_return)

lemma dec_mem_merge [dec_mem_intros]: "dec_mem (amqp_merge_capabilities base add)"
proof -
  have "dec_mem (amqp_merge_capabilities base (Some add))" for base add
  proof (induction "size_list size add" arbitrary: base add rule: less_induct)
    case less
    have "dec_mem (merge_entries base base add)"
      by (rule dec_mem_merge_entries, rule less) (use size_entry_value in fastforce)
    then show ?case
      unfolding amqp_merge_capabilities.simps by (intro dec_mem_intros)
  qed
  then show ?thesis
    by (cases add) (simp_all add: amqp_merge_capabilities.simps dec_mem_table_clone)
qed

section \<open>Properties\<close>

definition no_view :: amqp_view where
  "no_view = \<lparr>vmem = [], vlen = 0\<rparr>"

definition new_state :: dec_state where
  "new_state = \<lparr>doff = 0, dpool = init_amqp_pool 4096,
     dheap = \<lparr>next_id = 0, fails = \<lambda>_ _. False, live = {}, bad_free = False, content = \<lambda>_. []\<rparr>\<rparr>"

lemma new_state_ok: "roomy (dheap new_state)" "pool_ok (dpool new_state) (dheap new_state)"
  by (auto simp: new_state_def roomy_def heap_ok_def intro!: pool_ok_init)

lemma get_entry_append:
  "amqp_table_get_entry_by_key (t @ u) k =
    (case amqp_table_get_entry_by_key t k of Some e \<Rightarrow> Some e | None \<Rightarrow> amqp_table_get_entry_by_key u k)"
  by (induction t) auto

lemma get_entry_find: "amqp_table_get_entry_by_key t k = find (\<lambda>a. key a = k) t"
  by (induction t) auto

text \<open>Looking up in the reference merge: a key of one table, or the merged values of both.\<close>

lemma lookup_merged:
  "map_option entry_value (amqp_table_get_entry_by_key (merged base add) k) =
    (case amqp_table_get_entry_by_key base k of
       None \<Rightarrow> map_option entry_value (amqp_table_get_entry_by_key add k)
     | Some e \<Rightarrow> Some (case amqp_table_get_entry_by_key add k of
         None \<Rightarrow> entry_value e
       | Some a \<Rightarrow> merged_value (entry_value e) (entry_value a)))"
proof -
  let ?g = "\<lambda>e. case find (\<lambda>a. key a = key e) add of None \<Rightarrow> e
    | Some a \<Rightarrow> Entry (key e) (merged_value (entry_value e) (entry_value a))"
  have "amqp_table_get_entry_by_key (map ?g t) k = map_option ?g (amqp_table_get_entry_by_key t k)" for t
    by (induction t) (auto split: option.splits)
  moreover have "amqp_table_get_entry_by_key (filter (\<lambda>a. key a \<notin> S) t) k = amqp_table_get_entry_by_key t k"
    if "k \<notin> S" for S t
    using that by (induction t) auto
  ultimately show ?thesis
    using get_entry_Some [of base k] get_entry_None [of base k] get_entry_find [of add k]
    by (auto simp: merged.simps get_entry_append split: option.splits)
qed


abbreviation capabilities :: "string \<Rightarrow> amqp_table_t" where
  "capabilities name \<equiv> [Entry (amqp_cstring_bytes ''capabilities'')
     (Fv_table [amqp_table_construct_bool_entry name 1])]"




text \<open>
  \<open>amqp_table_entry_cmp\<close> orders the entries of a table by their keys, as byte strings in
  lexicographic order: the sign of its result says which key comes first, it is \<open>0\<close> for equal
  keys only, and exchanging the entries changes the sign (for keys shorter than \<open>2 ^ 31\<close>).
  \<open>amqp.h\<close> promises to compare the kinds and the values too: the code does not.
\<close>

lemma table_entry_cmp_orders:
  assumes "length (key e1) < 2 ^ 31" and "length (key e2) < 2 ^ 31"
  shows "(amqp_table_entry_cmp e1 e2 < 0 \<longleftrightarrow> ord_class.lexordp (key e1) (key e2)) \<and>
    (amqp_table_entry_cmp e1 e2 = 0 \<longleftrightarrow> key e1 = key e2) \<and>
    amqp_table_entry_cmp e2 e1 = - amqp_table_entry_cmp e1 e2"
  using entry_cmp_less [OF assms] entry_cmp_equal [OF assms] entry_cmp_sym by blast

lemma table_entry_cmp_orders_example:
  "amqp_table_entry_cmp (amqp_table_construct_bool_entry ''a'' 1) (amqp_table_construct_bool_entry ''ab'' 1) < 0"
  using table_entry_cmp_orders [of "amqp_table_construct_bool_entry ''a'' 1" "amqp_table_construct_bool_entry ''ab'' 1"]
  by (simp add: amqp_table_construct_bool_entry_def amqp_cstring_bytes_def)

text \<open>Two empty tables are not merged: no memory is the answer.\<close>

lemma merge_empty_refused:
  "fst (amqp_merge_capabilities [] (Some []) v s) = Fails AMQP_STATUS_NO_MEMORY"
  by (simp add: amqp_merge_capabilities.simps with_temp_pool_def dec_bind_def dec_alloc_def amqp_pool_alloc_def)

text \<open>A table that is added under a key twice, to a base without this key, is not safe.\<close>

lemma merge_twice_undefined:
  "fst (amqp_merge_capabilities [] (Some (capabilities ''a'' @ capabilities ''b'')) no_view new_state) = Undefined"
  by (simp add: amqp_merge_capabilities.simps with_temp_pool_def dec_bind_def dec_alloc_def amqp_pool_alloc_def
      new_state_def init_amqp_pool_def round_up_8_eq SIZEOF_TABLE_ENTRY_def calloc_def malloc_def record_pool_block_def
      amqp_cstring_bytes_def)

end
