(* ===== verification/Amqp_Consumer.thy ===== *)
theory Amqp_Consumer
  imports Amqp_Api Amqp_Table_Ops
begin

text \<open>
  Messages that arrive, \<open>amqp_consumer.c\<close>: copying the properties of a header frame,
  putting a body together from its frames, and consuming a delivery; with the byte strings
  of \<open>amqp_mem.c\<close> that have a block of their own.
\<close>

section \<open>Byte strings from malloc\<close>

text \<open>An \<open>amqp_bytes_t\<close> that owns its memory; the bytes are the content of the block.\<close>

record owned_bytes =
  bytes_len :: nat
  bytes_block :: "nat option"

definition empty_owned :: owned_bytes where
  "empty_owned = \<lparr>bytes_len = 0, bytes_block = None\<rparr>"

definition amqp_bytes_malloc :: "nat \<Rightarrow> heap \<Rightarrow> owned_bytes \<times> heap" where
  "amqp_bytes_malloc amount h =
    (case malloc amount h of (p, h') \<Rightarrow> (\<lparr>bytes_len = amount, bytes_block = p\<rparr>, h'))"

definition amqp_bytes_malloc_dup :: "amqp_bytes_t \<Rightarrow> heap \<Rightarrow> owned_bytes \<times> heap" where
  "amqp_bytes_malloc_dup src h =
    (case malloc (length src) h of
       (None, h') \<Rightarrow> (\<lparr>bytes_len = length src, bytes_block = None\<rparr>, h')
     | (Some b, h') \<Rightarrow> (\<lparr>bytes_len = length src, bytes_block = Some b\<rparr>, h'\<lparr>content := (content h')(b := src)\<rparr>))"

definition amqp_bytes_free :: "owned_bytes \<Rightarrow> heap \<Rightarrow> heap" where
  "amqp_bytes_free bs h = free (bytes_block bs) h"

definition amqp_bytes_malloc_dup_failed :: "owned_bytes \<Rightarrow> bool" where
  "amqp_bytes_malloc_dup_failed bs \<longleftrightarrow> bytes_len bs \<noteq> 0 \<and> bytes_block bs = None"

section \<open>Copying properties\<close>

text \<open>\<open>CLONE_BYTES_POOL\<close> under the test of its flag; without it the field stays zero.\<close>

definition clone_field :: "bool \<Rightarrow> amqp_bytes_t \<Rightarrow> amqp_bytes_t decoder" where
  "clone_field present original =
    (if \<not> present then dec_return [] else if original = [] then dec_return [] else clone_bytes original)"

definition amqp_basic_properties_clone :: "amqp_basic_properties_t \<Rightarrow> amqp_basic_properties_t decoder" where
  "amqp_basic_properties_clone p =
    dec_bind (clone_field (has_prop p AMQP_BASIC_CONTENT_TYPE_FLAG) (amqp_basic_properties_t.content_type p)) (\<lambda>content_type'.
    dec_bind (clone_field (has_prop p AMQP_BASIC_CONTENT_ENCODING_FLAG) (amqp_basic_properties_t.content_encoding p)) (\<lambda>content_encoding'.
    dec_bind (if has_prop p AMQP_BASIC_HEADERS_FLAG then amqp_table_clone (amqp_basic_properties_t.headers p) else dec_return []) (\<lambda>headers'.
    dec_bind (clone_field (has_prop p AMQP_BASIC_CORRELATION_ID_FLAG) (amqp_basic_properties_t.correlation_id p)) (\<lambda>correlation_id'.
    dec_bind (clone_field (has_prop p AMQP_BASIC_REPLY_TO_FLAG) (amqp_basic_properties_t.reply_to p)) (\<lambda>reply_to'.
    dec_bind (clone_field (has_prop p AMQP_BASIC_EXPIRATION_FLAG) (amqp_basic_properties_t.expiration p)) (\<lambda>expiration'.
    dec_bind (clone_field (has_prop p AMQP_BASIC_MESSAGE_ID_FLAG) (amqp_basic_properties_t.message_id p)) (\<lambda>message_id'.
    dec_bind (clone_field (has_prop p AMQP_BASIC_TYPE_FLAG) (amqp_basic_properties_t.type p)) (\<lambda>type'.
    dec_bind (clone_field (has_prop p AMQP_BASIC_USER_ID_FLAG) (amqp_basic_properties_t.user_id p)) (\<lambda>user_id'.
    dec_bind (clone_field (has_prop p AMQP_BASIC_APP_ID_FLAG) (amqp_basic_properties_t.app_id p)) (\<lambda>app_id'.
    dec_bind (clone_field (has_prop p AMQP_BASIC_CLUSTER_ID_FLAG) (amqp_basic_properties_t.cluster_id p)) (\<lambda>cluster_id'.
    dec_return \<lparr>props_flags = props_flags p,
      amqp_basic_properties_t.content_type = content_type',
      amqp_basic_properties_t.content_encoding = content_encoding',
      amqp_basic_properties_t.headers = headers',
      amqp_basic_properties_t.delivery_mode =
        (if has_prop p AMQP_BASIC_DELIVERY_MODE_FLAG then amqp_basic_properties_t.delivery_mode p else 0),
      amqp_basic_properties_t.priority =
        (if has_prop p AMQP_BASIC_PRIORITY_FLAG then amqp_basic_properties_t.priority p else 0),
      amqp_basic_properties_t.correlation_id = correlation_id',
      amqp_basic_properties_t.reply_to = reply_to',
      amqp_basic_properties_t.expiration = expiration',
      amqp_basic_properties_t.message_id = message_id',
      amqp_basic_properties_t.timestamp =
        (if has_prop p AMQP_BASIC_TIMESTAMP_FLAG then amqp_basic_properties_t.timestamp p else 0),
      amqp_basic_properties_t.type = type',
      amqp_basic_properties_t.user_id = user_id',
      amqp_basic_properties_t.app_id = app_id',
      amqp_basic_properties_t.cluster_id = cluster_id'\<rparr>)))))))))))"

text \<open>
  The code takes the properties of any header frame for basic properties, without a look at
  the class.  The structs of the other classes hold the flags only, so with one of the flags
  of basic properties set the code reads past their end: \<open>None\<close>.
\<close>

definition basic_flags :: amqp_flags_t where
  "basic_flags = 0xFFFC"

definition as_basic_properties :: "amqp_properties_t \<Rightarrow> amqp_basic_properties_t option" where
  "as_basic_properties decoded =
    (case decoded of
       P_basic p \<Rightarrow> Some p
     | _ \<Rightarrow> if properties_flags decoded AND basic_flags = 0
            then Some (zero_properties\<lparr>props_flags := properties_flags decoded\<rparr>) else None)"

section \<open>Messages\<close>

record amqp_message_t =
  message_properties :: amqp_basic_properties_t
  message_body :: owned_bytes
  message_pool :: amqp_pool_t

text \<open>After \<open>memset\<close>.\<close>

definition zero_message :: amqp_message_t where
  "zero_message = \<lparr>message_properties = zero_properties, message_body = empty_owned,
    message_pool = \<lparr>pagesize = 0, pages = empty_bl, large_blocks = empty_bl, next_page = 0,
      alloc_block = None, alloc_used = 0\<rparr>\<rparr>"

definition amqp_destroy_message :: "amqp_message_t \<Rightarrow> heap \<Rightarrow> heap" where
  "amqp_destroy_message msg h =
    amqp_bytes_free (message_body msg) (snd (empty_amqp_pool (message_pool msg) h))"

text \<open>The outcome of a function whose status is tested, and the replies of this file.\<close>

definition attempt :: "'a io \<Rightarrow> (int + 'a) io" where
  "attempt m = io_catch (io_bind m (\<lambda>x. io_return (Inr x))) (\<lambda>code. io_return (Inl code))"

definition reply_normal :: amqp_rpc_reply_t where
  "reply_normal = \<lparr>reply_type = AMQP_RESPONSE_NORMAL, reply = None, library_error = 0\<rparr>"

definition reply_server_exception :: "amqp_method_t \<Rightarrow> amqp_rpc_reply_t" where
  "reply_server_exception m = \<lparr>reply_type = AMQP_RESPONSE_SERVER_EXCEPTION, reply = Some m, library_error = 0\<rparr>"

text \<open>A method with which the server closes the channel or the connection.\<close>

definition closing_method :: "amqp_frame_t \<Rightarrow> amqp_method_t option" where
  "closing_method frame =
    (if uint (frame_type frame) = AMQP_FRAME_METHOD
     then (case payload frame of
        Method_payload m \<Rightarrow>
          if method_number m = AMQP_CHANNEL_CLOSE_METHOD \<or> method_number m = AMQP_CONNECTION_CLOSE_METHOD
          then Some m else None
      | _ \<Rightarrow> None)
     else None)"

definition crash :: "'a io" where
  "crash w = (Crash, w)"

definition on_heap :: "(heap \<Rightarrow> 'a \<times> heap) \<Rightarrow> 'a io" where
  "on_heap f w = (case f (mem w) of (x, h) \<Rightarrow> (Done x, w\<lparr>mem := h\<rparr>))"

definition clone_in_pool :: "amqp_basic_properties_t \<Rightarrow> amqp_pool_t \<Rightarrow> heap \<Rightarrow> (amqp_basic_properties_t dres \<times> amqp_pool_t) \<times> heap" where
  "clone_in_pool p pool h =
    (case amqp_basic_properties_clone p \<lparr>vmem = [], vlen = 0\<rparr> \<lparr>doff = 0, dpool = pool, dheap = h\<rparr> of
       (r, s) \<Rightarrow> ((r, dpool s), dheap s))"

definition copy_fragment :: "nat option \<Rightarrow> nat \<Rightarrow> byte list \<Rightarrow> heap \<Rightarrow> unit \<times> heap" where
  "copy_fragment block off fragment h =
    (case block of
       None \<Rightarrow> ((), h)
     | Some b \<Rightarrow> ((), h\<lparr>content := (content h)(b := write_at (content h b) off fragment)\<rparr>))"

text \<open>
  The loop over the frames of the body; each round takes a frame, from the queue or made of
  bytes to come.  \<open>body\<close> has a block whenever there is something to copy.
\<close>

fun read_body :: "nat \<Rightarrow> amqp_channel_t \<Rightarrow> owned_bytes \<Rightarrow> nat \<Rightarrow> amqp_frame_t \<Rightarrow> amqp_rpc_reply_t io" where
  "read_body 0 ch body body_read frame0 w =
    (if body_read < bytes_len body then (Waiting, w) else (Done reply_normal, w))"
| "read_body (Suc n) ch body body_read frame0 w =
    (if body_read < bytes_len body then
      io_bind (attempt (amqp_simple_wait_frame_on_channel ch frame0)) (\<lambda>r.
        case r of
          Inl code \<Rightarrow> io_return (amqp_rpc_reply_error code)
        | Inr frame \<Rightarrow>
            if uint (frame_type frame) \<noteq> AMQP_FRAME_BODY then
              (case closing_method frame of
                 Some m \<Rightarrow> io_return (reply_server_exception m)
               | None \<Rightarrow> io_return (amqp_rpc_reply_error (status_code AMQP_STATUS_BAD_AMQP_DATA)))
            else
              (case payload frame of
                 Body_payload fragment \<Rightarrow>
                   if body_read + length fragment > bytes_len body
                   then io_return (amqp_rpc_reply_error (status_code AMQP_STATUS_BAD_AMQP_DATA))
                   else io_bind (on_heap (copy_fragment (bytes_block body) body_read fragment)) (\<lambda>_.
                     read_body n ch body (body_read + length fragment) frame)
               | _ \<Rightarrow> crash)) w
     else (Done reply_normal, w))"

definition frames_to_come :: "world \<Rightarrow> nat" where
  "frames_to_come w = bytes_to_come w + length (first_queued_frame (conn w))"

text \<open>
  The part after the header frame.  The memory of the pool is not released when there is none
  for the body, as in the code.
\<close>

definition read_content ::
  "amqp_channel_t \<Rightarrow> amqp_frame_t \<Rightarrow> nat \<Rightarrow> amqp_basic_properties_t \<Rightarrow> (amqp_rpc_reply_t \<times> amqp_message_t) io" where
  "read_content ch frame body_size p =
    io_bind (on_heap (clone_in_pool p (init_amqp_pool 4096))) (\<lambda>(r, pool).
      case r of
        Returns q \<Rightarrow>
          if body_size = 0
          then io_return (reply_normal, \<lparr>message_properties = q, message_body = empty_owned, message_pool = pool\<rparr>)
          else io_bind (on_heap (amqp_bytes_malloc body_size)) (\<lambda>body.
            let msg = \<lparr>message_properties = q, message_body = body, message_pool = pool\<rparr> in
            if bytes_block body = None
            then io_return (amqp_rpc_reply_error (status_code AMQP_STATUS_NO_MEMORY), msg)
            else io_bind (\<lambda>w. read_body (Suc (frames_to_come w)) ch body 0 frame w) (\<lambda>ret.
              if reply_type ret = AMQP_RESPONSE_NORMAL then io_return (ret, msg)
              else io_bind (on_heap (\<lambda>h. ((), amqp_bytes_free body h))) (\<lambda>_.
                io_bind (on_heap (empty_amqp_pool pool)) (\<lambda>pool'.
                io_return (ret, msg\<lparr>message_pool := pool'\<rparr>)))))
      | Fails st \<Rightarrow> io_bind (on_heap (empty_amqp_pool pool)) (\<lambda>pool'.
          io_return (amqp_rpc_reply_error (status_code st), zero_message\<lparr>message_pool := pool'\<rparr>))
      | _ \<Rightarrow> crash)"

definition amqp_read_message :: "amqp_channel_t \<Rightarrow> (amqp_rpc_reply_t \<times> amqp_message_t) io" where
  "amqp_read_message ch =
    io_bind (attempt (amqp_simple_wait_frame_on_channel ch fresh_frame)) (\<lambda>r.
      case r of
        Inl code \<Rightarrow> io_return (amqp_rpc_reply_error code, zero_message)
      | Inr frame \<Rightarrow>
          if uint (frame_type frame) \<noteq> AMQP_FRAME_HEADER then
            (case closing_method frame of
               Some m \<Rightarrow> io_return (reply_server_exception m, zero_message)
             | None \<Rightarrow> io_bind (attempt (amqp_put_back_frame frame)) (\<lambda>_.
                 io_return (amqp_rpc_reply_error (status_code AMQP_STATUS_UNEXPECTED_STATE), zero_message)))
          else
            (case payload frame of
               Properties_payload cls body_size decoded raw \<Rightarrow>
                 (case as_basic_properties decoded of
                    None \<Rightarrow> crash
                  | Some p \<Rightarrow> read_content ch frame (unat body_size) p)
             | _ \<Rightarrow> crash))"

section \<open>Deliveries\<close>

record amqp_envelope_t =
  envelope_channel :: amqp_channel_t
  envelope_consumer_tag :: owned_bytes
  envelope_delivery_tag :: u64
  envelope_redelivered :: amqp_boolean_t
  envelope_exchange :: owned_bytes
  envelope_routing_key :: owned_bytes
  envelope_message :: amqp_message_t

definition zero_envelope :: amqp_envelope_t where
  "zero_envelope = \<lparr>envelope_channel = 0, envelope_consumer_tag = empty_owned, envelope_delivery_tag = 0,
    envelope_redelivered = 0, envelope_exchange = empty_owned, envelope_routing_key = empty_owned,
    envelope_message = zero_message\<rparr>"

definition free_envelope_bytes :: "amqp_envelope_t \<Rightarrow> heap \<Rightarrow> heap" where
  "free_envelope_bytes e h =
    amqp_bytes_free (envelope_consumer_tag e) (amqp_bytes_free (envelope_exchange e) (amqp_bytes_free (envelope_routing_key e) h))"

definition amqp_destroy_envelope :: "amqp_envelope_t \<Rightarrow> heap \<Rightarrow> heap" where
  "amqp_destroy_envelope e h = free_envelope_bytes e (amqp_destroy_message (envelope_message e) h)"

definition delivery_of :: "amqp_frame_t \<Rightarrow> amqp_basic_deliver_t option" where
  "delivery_of frame =
    (if uint (frame_type frame) = AMQP_FRAME_METHOD
     then (case payload frame of Method_payload (M_basic_deliver d) \<Rightarrow> Some d | _ \<Rightarrow> None)
     else None)"

definition amqp_consume_message :: "timeval option \<Rightarrow> (amqp_rpc_reply_t \<times> amqp_envelope_t) io" where
  "amqp_consume_message timeout =
    io_bind (attempt (amqp_simple_wait_frame_noblock fresh_frame timeout)) (\<lambda>r.
      case r of
        Inl code \<Rightarrow> io_return (amqp_rpc_reply_error code, zero_envelope)
      | Inr frame \<Rightarrow>
          (case delivery_of frame of
             None \<Rightarrow> io_bind (attempt (amqp_put_back_frame frame)) (\<lambda>_.
               io_return (amqp_rpc_reply_error (status_code AMQP_STATUS_UNEXPECTED_STATE), zero_envelope))
           | Some d \<Rightarrow>
               io_bind (on_heap (amqp_bytes_malloc_dup (amqp_basic_deliver_t.consumer_tag d))) (\<lambda>tag.
               io_bind (on_heap (amqp_bytes_malloc_dup (amqp_basic_deliver_t.exchange d))) (\<lambda>ex.
               io_bind (on_heap (amqp_bytes_malloc_dup (amqp_basic_deliver_t.routing_key d))) (\<lambda>key.
               let e = zero_envelope\<lparr>envelope_channel := channel frame, envelope_consumer_tag := tag,
                   envelope_delivery_tag := amqp_basic_deliver_t.delivery_tag d,
                   envelope_redelivered := amqp_basic_deliver_t.redelivered d,
                   envelope_exchange := ex, envelope_routing_key := key\<rparr> in
               if amqp_bytes_malloc_dup_failed tag \<or> amqp_bytes_malloc_dup_failed ex \<or> amqp_bytes_malloc_dup_failed key
               then io_bind (on_heap (\<lambda>h. ((), free_envelope_bytes e h))) (\<lambda>_.
                 io_return (amqp_rpc_reply_error (status_code AMQP_STATUS_NO_MEMORY), e))
               else io_bind (amqp_read_message (channel frame)) (\<lambda>(ret, msg).
                 let e' = e\<lparr>envelope_message := msg\<rparr> in
                 if reply_type ret \<noteq> AMQP_RESPONSE_NORMAL
                 then io_bind (on_heap (\<lambda>h. ((), free_envelope_bytes e' h))) (\<lambda>_. io_return (ret, e'))
                 else io_return (ret, e')))))))"

end
