(* ===== verification/Io_Laws.thy ===== *)
theory Io_Laws
  imports Amqp_Rpc
begin

text \<open>
  What the functions of the socket layer keep.  A condition on the world is kept by a
  function when its basic steps keep it: the locale \<open>io_clock\<close> has the steps of the clock,
  \<open>io_receive\<close> adds the steps of receiving, \<open>io_atoms\<close> has all steps that send nothing,
  \<open>io_bytes\<close> adds the sending of bytes, \<open>io_frames\<close> the sending of whole frames.
  The lemmas of the locales carry a condition from the steps to the calls of the API.
\<close>

section \<open>Keeping a condition\<close>

text \<open>\<open>keep I J m\<close>: from \<open>I\<close>, the function \<open>m\<close> leads to \<open>I\<close> when it is done and to \<open>J\<close> otherwise.\<close>

definition keep :: "(world \<Rightarrow> bool) \<Rightarrow> (world \<Rightarrow> bool) \<Rightarrow> 'a io \<Rightarrow> bool" where
  "keep I J m \<longleftrightarrow> (\<forall>w. I w \<longrightarrow> (case m w of (Done _, w') \<Rightarrow> I w' | (_, w') \<Rightarrow> J w'))"

lemma keepD: "keep I J m \<Longrightarrow> I w \<Longrightarrow> m w = (Done x, w') \<Longrightarrow> I w'"
  by (fastforce simp: keep_def)

lemma keepE: "keep I J m \<Longrightarrow> I w \<Longrightarrow> m w = (r, w') \<Longrightarrow> (\<And>x. r \<noteq> Done x) \<Longrightarrow> J w'"
  by (cases r) (fastforce simp: keep_def)+

lemma keepI:
  assumes "\<And>w x w'. I w \<Longrightarrow> m w = (Done x, w') \<Longrightarrow> I w'"
    and "\<And>w r w'. I w \<Longrightarrow> m w = (r, w') \<Longrightarrow> (\<And>x. r \<noteq> Done x) \<Longrightarrow> J w'"
  shows "keep I J m"
  unfolding keep_def
proof (intro allI impI)
  fix w assume i: "I w"
  obtain r w' where m: "m w = (r, w')" by (cases "m w")
  show "case m w of (Done _, w') \<Rightarrow> I w' | (_, w') \<Rightarrow> J w'"
    using assms(1) [OF i] assms(2) [OF i m] m by (cases r) auto
qed

lemma keep_at_end: "keep I I m \<Longrightarrow> I w \<Longrightarrow> I (snd (m w))"
  by (cases "m w"; cases "fst (m w)") (auto dest: keepD keepE)

lemma keep_at:
  assumes "\<And>w. I w \<Longrightarrow> keep (\<lambda>w'. I w' \<and> w' = w) J (g w)"
  shows "keep I J (\<lambda>w. g w w)"
  using assms by (fastforce simp: keep_def split: outcome.splits prod.splits)

lemma keep_fun: "(\<And>x. keep I J (g x)) \<Longrightarrow> keep I J (\<lambda>w. g (v w) w)"
  by (simp add: keep_def)

lemma keep_bind: "keep I J m \<Longrightarrow> (\<And>x. keep I J (k x)) \<Longrightarrow> keep I J (io_bind m k)"
  by (fastforce simp: keep_def io_bind_def split: outcome.splits prod.splits)

lemma keep_case_prod: "(\<And>a b. keep I J (k a b)) \<Longrightarrow> keep I J (case p of (a, b) \<Rightarrow> k a b)"
  by (cases p) simp

lemma keep_if: "keep I J a \<Longrightarrow> keep I J b \<Longrightarrow> keep I J (if c then a else b)"
  by simp

lemma keep_if_at: "keep I J a \<Longrightarrow> keep I J b \<Longrightarrow> keep I J (\<lambda>w. if c w then a w else b w)"
  by (simp add: keep_def)

lemma keep_option: "keep I J a \<Longrightarrow> (\<And>x. keep I J (b x)) \<Longrightarrow> keep I J (case_option a b p)"
  by (cases p) simp_all

lemma io_catch_cases:
  assumes "io_catch m hl w = (r, w')"
  obtains "m w = (r, w')" "\<And>c. r \<noteq> Error c" | c w1 where "m w = (Error c, w1)" "hl c w1 = (r, w')"
  using assms by (cases "m w"; cases "fst (m w)") (auto simp: io_catch_def)

lemma bind_Done:
  assumes "io_bind m k w = (Done y, w')"
  obtains x w1 where "m w = (Done x, w1)" "k x w1 = (Done y, w')"
  using assms by (auto simp: io_bind_def split: prod.splits outcome.splits)

lemma keep_catch_same:
  assumes m: "keep I I m" and h: "\<And>c. keep I J (hl c)" and ij: "\<And>w. I w \<Longrightarrow> J w"
  shows "keep I J (io_catch m hl)"
proof (rule keepI)
  fix w x w' assume i: "I w" and r: "io_catch m hl w = (Done x, w')"
  from r show "I w'"
    by (cases rule: io_catch_cases) (use i in \<open>auto dest: keepD [OF m] keepE [OF m] keepD [OF h]\<close>)
next
  fix w r w' assume i: "I w" and r: "io_catch m hl w = (r, w')" and n: "\<And>x. r \<noteq> Done x"
  from r show "J w'"
  proof (cases rule: io_catch_cases)
    case 1
    with keepE [OF m i 1(1) n] ij show ?thesis by blast
  next
    case (2 c w1)
    from keepE [OF m i 2(1)] have "I w1" by simp
    from keepE [OF h this 2(2) n] show ?thesis .
  qed
qed

lemma keep_catch_error:
  assumes m: "keep I J m" and h: "\<And>c w. J w \<Longrightarrow> (\<forall>x. fst (hl c w) \<noteq> Done x) \<and> J (snd (hl c w))"
  shows "keep I J (io_catch m hl)"
proof (rule keepI)
  fix w x w' assume i: "I w" and r: "io_catch m hl w = (Done x, w')"
  from r show "I w'"
  proof (cases rule: io_catch_cases)
    case 1
    with keepD [OF m i] show ?thesis by blast
  next
    case (2 c w1)
    from keepE [OF m i 2(1)] have "J w1" by simp
    from h [OF this, of c] 2(2) show ?thesis by (metis fst_conv)
  qed
next
  fix w r w' assume i: "I w" and r: "io_catch m hl w = (r, w')" and n: "\<And>x. r \<noteq> Done x"
  from r show "J w'"
  proof (cases rule: io_catch_cases)
    case 1
    from keepE [OF m i 1(1) n] show ?thesis .
  next
    case (2 c w1)
    from keepE [OF m i 2(1)] have "J w1" by simp
    from h [OF this, of c] 2(2) show ?thesis by (metis snd_conv)
  qed
qed

lemma keep_weaken: "keep I J m \<Longrightarrow> (\<And>w. J w \<Longrightarrow> K w) \<Longrightarrow> keep I K m"
  by (fastforce simp: keep_def split: outcome.splits prod.splits)

lemma keep_snd: "(\<And>w. I w \<Longrightarrow> I (snd (m w))) \<Longrightarrow> keep I I m"
  by (rule keepI) (metis snd_conv)+

lemmas keep_rules = keep_bind keep_if keep_if_at keep_case_prod keep_option

text \<open>What \<open>recv\<close> delivers fits into the buffer.\<close>

lemma tcp_recv_length: "tcp_recv_loop as len = (Some (Moved bs), as') \<Longrightarrow> bs \<noteq> [] \<and> length bs \<le> len \<and> length as' < length as"
  by (induction as len rule: tcp_recv_loop.induct) (auto split: if_splits)

lemma tcp_recv_shorter: "tcp_recv_loop as len = (Some r, as') \<Longrightarrow> length as' < length as"
  by (induction as len rule: tcp_recv_loop.induct) auto

lemma tcp_recv_le: "tcp_recv_loop as len = (r, as') \<Longrightarrow> length as' \<le> length as"
  by (induction as len rule: tcp_recv_loop.induct) auto

lemma poll_loop_changes: "\<exists>n ps. snd (poll_loop d as w) = w\<lparr>ticks := n, polls := ps\<rparr>"
proof (induction d as w rule: poll_loop.induct)
  case (1 d as w)
  show ?case
  proof (cases "- 1 > amqp_time_ms_until (clock w (ticks w)) d")
    case True
    then show ?thesis by (simp add: Let_def) blast
  next
    case False
    show ?thesis
    proof (cases as)
      case Nil
      with False show ?thesis by (simp add: Let_def) blast
    next
      case (Cons p ps)
      show ?thesis
      proof (cases "p = Poll_interrupted")
        case True
        from 1 [OF refl refl False Cons True] False Cons True show ?thesis by (auto simp: Let_def)
      next
        case other: False
        with False Cons show ?thesis by (cases p) (simp_all add: Let_def, blast+)
      qed
    qed
  qed
qed

lemma poll_changes:
  assumes "amqp_poll d w = (r, w')"
  obtains n ps where "w' = w\<lparr>ticks := n, polls := ps\<rparr>"
  using poll_loop_changes [of d "polls w" w] assms by (auto simp: amqp_poll_def)

lemma tcp_recv_changes:
  assumes "amqp_tcp_socket_recv n w = (r, w')"
  obtains rs where "w' = w\<lparr>recvs := rs\<rparr>" "length rs \<le> length (recvs w)"
    "\<And>bs. r = Done (Moved bs) \<Longrightarrow> bs \<noteq> [] \<and> length bs \<le> n"
    "\<And>x. r = Done x \<Longrightarrow> length rs < length (recvs w) \<or> sockfd w = None \<and> x = Sock_fails AMQP_STATUS_SOCKET_CLOSED"
proof (cases "sockfd w = None")
  case True
  with assms that [of "recvs w"] show ?thesis by (auto simp: amqp_tcp_socket_recv_def)
next
  case False
  obtain x as where t: "tcp_recv_loop (recvs w) n = (x, as)" by fastforce
  have l: "length as \<le> length (recvs w)" by (rule tcp_recv_le [OF t])
  show ?thesis
  proof (cases x)
    case None
    with t l assms False that [of as] show ?thesis by (auto simp: amqp_tcp_socket_recv_def)
  next
    case (Some y)
    with t l assms False that [of as] tcp_recv_shorter [of "recvs w" n y as]
    show ?thesis by (auto simp: amqp_tcp_socket_recv_def dest: tcp_recv_length)
  qed
qed

lemma recv_loop_changes:
  assumes "recv_loop n d w = (r, w')"
  shows "\<exists>t ps rs. w' = w\<lparr>ticks := t, polls := ps, recvs := rs\<rparr> \<and> length rs \<le> length (recvs w) \<and>
    (\<forall>bs. r = Done bs \<longrightarrow> bs \<noteq> [] \<and> length bs \<le> length (sock_inbound_buffer (conn w)))"
  using assms
proof (induction n arbitrary: w)
  case 0
  then have "w' = w\<lparr>ticks := ticks w, polls := polls w, recvs := recvs w\<rparr>" by simp
  with 0 show ?case by (intro exI [of _ "ticks w"] exI [of _ "polls w"] exI [of _ "recvs w"]) simp
next
  case (Suc n)
  obtain x w1 where x: "amqp_tcp_socket_recv (length (sock_inbound_buffer (conn w))) w = (x, w1)" by fastforce
  obtain rs where w1: "w1 = w\<lparr>recvs := rs\<rparr>" and l: "length rs \<le> length (recvs w)"
    and m: "\<And>bs. x = Done (Moved bs) \<Longrightarrow> bs \<noteq> [] \<and> length bs \<le> length (sock_inbound_buffer (conn w))"
    by (rule tcp_recv_changes [OF x]) blast
  have base: ?case if "w' = w1" "\<And>bs. r = Done bs \<Longrightarrow> x = Done (Moved bs)"
    using that w1 l m
    by (intro exI [of _ "ticks w"] exI [of _ "polls w"] exI [of _ rs]) auto
  show ?case
  proof (cases "\<exists>y. x = Done y \<and> (y = Need_read \<or> y = Need_write) \<and> sockfd w \<noteq> None")
    case False
    with Suc.prems x base show ?thesis
      by (auto simp: io_defs w1 split: outcome.splits sock.splits if_splits)
  next
    case True
    obtain z w2 where z: "amqp_poll d w1 = (z, w2)" by fastforce
    obtain t ps where w2: "w2 = w1\<lparr>ticks := t, polls := ps\<rparr>" by (rule poll_changes [OF z])
    show ?thesis
    proof (cases "\<exists>u. z = Done u")
      case finished: True
      with True Suc.prems x z w1 have "recv_loop n d w2 = (r, w')"
        by (auto simp: io_defs)
      from Suc.IH [OF this] w2 w1 l show ?thesis
        by (auto intro: le_trans)
    next
      case stop: False
      with True Suc.prems x z w1 have "w' = w2" "\<And>bs. r \<noteq> Done bs"
        by (cases z; auto simp: io_defs)+
      with w2 w1 l show ?thesis
        by (intro exI [of _ t] exI [of _ ps] exI [of _ rs]) auto
    qed
  qed
qed

section \<open>The basic steps\<close>

text \<open>The steps of the clock.\<close>

locale io_clock =
  fixes I J :: "world \<Rightarrow> bool"
  assumes weaker: "I w \<Longrightarrow> J w"
    and clock_step: "I w \<Longrightarrow> I (w\<lparr>ticks := n\<rparr>)"
    and poll_step: "I w \<Longrightarrow> I (w\<lparr>polls := ps\<rparr>)"
    and next_send_step: "I w \<Longrightarrow> I (w\<lparr>conn := (conn w)\<lparr>next_send_heartbeat := t\<rparr>\<rparr>)"
    and next_recv_step: "I w \<Longrightarrow> I (w\<lparr>conn := (conn w)\<lparr>next_recv_heartbeat := t\<rparr>\<rparr>)"
begin

lemma keep_solid: "keep I I m \<Longrightarrow> keep I J m"
  using keep_weaken weaker by blast

lemma keep_return [simp]: "keep I J (io_return x)" "keep I I (io_return x)"
  by (simp_all add: keep_def io_return_def)

lemma keep_error [simp]: "keep I J (io_error c)" "keep I I (io_error c)" "keep I J (io_fail st)" "keep I I (io_fail st)"
  by (simp_all add: keep_def io_error_def io_fail_def weaker)

lemma keep_get [simp]: "keep I I (get_conn g)"
  by (simp add: keep_def get_conn_def)

lemma keep_get_J [simp]: "keep I J (get_conn g)"
  by (simp add: keep_def get_conn_def)

lemma keep_clock [simp]: "keep I I read_clock"
  by (simp add: keep_def read_clock_def clock_step)

lemma keep_clock_J [simp]: "keep I J read_clock"
  by (rule keep_solid) simp

lemma keep_timed: "(\<And>t. keep I I (store t)) \<Longrightarrow> keep I I (timed r store)"
  by (auto simp: timed_def split: prod.split option.split intro!: keep_bind)

lemma keep_next [simp]:
  "keep I I (change_conn (\<lambda>c. c\<lparr>next_send_heartbeat := t\<rparr>))"
  "keep I I (change_conn (\<lambda>c. c\<lparr>next_recv_heartbeat := t\<rparr>))"
  by (simp_all add: keep_def change_conn_def next_send_step next_recv_step)

lemma keep_schedule [simp]: "keep I I schedule_send_heartbeat" "keep I I schedule_recv_heartbeat"
proof -
  show "keep I I schedule_send_heartbeat"
    by (simp add: schedule_send_heartbeat_def keep_bind keep_timed)
  have "keep I I (case s of None \<Rightarrow> (\<lambda>w. (Crash, w))
      | Some s \<Rightarrow> io_bind read_clock (\<lambda>now.
          timed (amqp_time_s_from_now now s) (\<lambda>t. change_conn (\<lambda>c. c\<lparr>next_recv_heartbeat := t\<rparr>))))" for s
    by (cases s) (simp_all add: keep_bind keep_timed keep_def [of I I "\<lambda>w. (Crash, w)"])
  then show "keep I I schedule_recv_heartbeat"
    by (simp add: schedule_recv_heartbeat_def keep_bind)
qed

lemma keep_poll [simp]: "keep I I (amqp_poll d)"
proof (rule keep_snd)
  fix w assume "I w"
  moreover obtain r w' where p: "amqp_poll d w = (r, w')" by fastforce
  obtain n ps where "w' = w\<lparr>ticks := n, polls := ps\<rparr>" by (rule poll_changes [OF p])
  ultimately show "I (snd (amqp_poll d w))"
    using poll_step [OF clock_step] p by simp
qed

lemma keep_do_poll [simp]: "keep I I (do_poll res d)"
  unfolding do_poll_def
  by (rule keep_if_at; cases res) (simp_all add: keep_def [of I I "\<lambda>w. (Done (), w)"])

end

section \<open>Receiving\<close>

text \<open>Conditions for which answers may be used up and the buffer may be filled.\<close>

locale io_receive = io_clock +
  assumes recv_step: "I w \<Longrightarrow> length rs \<le> length (recvs w) \<Longrightarrow> I (w\<lparr>recvs := rs\<rparr>)"
    and inbound_step: "I w \<Longrightarrow> length bs \<le> length (sock_inbound_buffer (conn w)) \<Longrightarrow>
      I (w\<lparr>conn := (conn w)\<lparr>sock_inbound_buffer := write_at (sock_inbound_buffer (conn w)) 0 bs,
        sock_inbound_limit := length bs, sock_inbound_offset := 0\<rparr>\<rparr>)"
begin

lemma receive_keeps: "keep I I (recv_with_timeout d)"
proof (rule keep_snd)
  fix w assume i: "I w"
  obtain r w1 where r: "recv_loop (Suc (length (recvs w))) d w = (r, w1)" by fastforce
  from recv_loop_changes [OF this] obtain t ps rs
    where w1: "w1 = w\<lparr>ticks := t, polls := ps, recvs := rs\<rparr>" and l: "length rs \<le> length (recvs w)"
      and b: "\<And>bs. r = Done bs \<Longrightarrow> length bs \<le> length (sock_inbound_buffer (conn w))" by blast
  have i1: "I w1"
    using recv_step [OF poll_step [OF clock_step [OF i, of t], of ps], of rs] l w1 by simp
  show "I (snd (recv_with_timeout d w))"
  proof (cases r)
    case (Done bs)
    let ?w2 = "w1\<lparr>conn := (conn w1)\<lparr>sock_inbound_buffer := write_at (sock_inbound_buffer (conn w1)) 0 bs,
        sock_inbound_limit := length bs, sock_inbound_offset := 0\<rparr>\<rparr>"
    have "I ?w2" using inbound_step [OF i1] b [OF Done] w1 by simp
    moreover have "recv_with_timeout d w = schedule_recv_heartbeat ?w2"
      using r Done by (simp add: recv_with_timeout_def io_bind_def change_conn_def del: recv_loop.simps)
    ultimately show ?thesis
      using keep_at_end [OF keep_schedule(2)] by simp
  qed (use r i1 in \<open>simp_all add: recv_with_timeout_def io_bind_def del: recv_loop.simps\<close>)
qed

end

text \<open>All steps of the functions that wait; receiving is one of them.\<close>

locale io_atoms = io_clock +
  assumes close_step: "J w \<Longrightarrow> J (w\<lparr>sockfd := None\<rparr>)"
    and outbound_step: "I w \<Longrightarrow> I (w\<lparr>conn := (conn w)\<lparr>outbound_buffer := buf\<rparr>\<rparr>)"
    and result_step: "J w \<Longrightarrow> J (w\<lparr>conn := (conn w)\<lparr>most_recent_api_result := res\<rparr>\<rparr>)"
    and receive_step: "keep I I (recv_with_timeout d)"
    and input_step: "keep I J (consume_one_frame f)"
    and alloc_step: "keep I I (channel_allocs ch [SIZEOF_LINK, SIZEOF_FRAME])"
      "keep I I (channel_allocs ch [SIZEOF_FRAME, SIZEOF_LINK])"
    and append_step: "keep I I (append_frame f)"
    and release_step: "I w \<Longrightarrow> amqp_maybe_release_buffers_on_channel (conn w) ch (mem w) = (c, h) \<Longrightarrow>
      I (w\<lparr>conn := c, mem := h\<rparr>)"
begin

lemma keep_enqueue [simp]:
  "keep I I (amqp_queue_frame f)" "keep I I (enqueue_copy f)"
  by (simp_all add: amqp_queue_frame_def amqp_create_link_for_frame_def enqueue_copy_def
      keep_bind alloc_step append_step)

lemma keep_enqueue_J [simp]: "keep I J (amqp_queue_frame f)" "keep I J (enqueue_copy f)"
  by (rule keep_solid, simp)+

lemma keep_queue_buffered: "keep I J (queue_buffered n)"
proof (induction n)
  case 0
  show ?case by (simp add: keep_def weaker)
next
  case (Suc n)
  have "keep I J (io_bind (consume_one_frame fresh_frame) (\<lambda>frame.
      io_bind (if frame_type frame \<noteq> 0 then enqueue_copy frame else io_return ()) (\<lambda>_. queue_buffered n)))"
    by (intro keep_rules input_step Suc.IH keep_enqueue_J keep_return)
  then show ?case by (simp add: keep_def)
qed

lemma keep_try_recv: "keep I J amqp_try_recv"
proof -
  have a: "keep I J (\<lambda>w. queue_buffered (buffered w) w)"
    by (rule keep_fun) (rule keep_queue_buffered)
  show ?thesis
    unfolding amqp_try_recv_def
    by (intro keep_rules a keep_clock_J keep_solid [OF receive_step] keep_error(3))
qed

section \<open>Frames in the buffer\<close>

lemma keep_wait_buffered: "keep I J (wait_buffered n f)"
proof (induction n arbitrary: f)
  case 0
  show ?case by (simp add: keep_def weaker)
next
  case (Suc n)
  have rel: "keep I J (\<lambda>w. case amqp_maybe_release_buffers_on_channel (conn w) 0 (mem w) of (c, h) \<Rightarrow>
      wait_buffered n frame (w\<lparr>conn := c, mem := h\<rparr>))" for frame
    using Suc.IH [of frame] release_step by (fastforce simp: keep_def split: prod.split)
  have "keep I J (io_bind (consume_one_frame f) (\<lambda>frame.
       if uint (frame_type frame) = AMQP_FRAME_HEARTBEAT
       then (\<lambda>w. case amqp_maybe_release_buffers_on_channel (conn w) 0 (mem w) of (c, h) \<Rightarrow>
         wait_buffered n frame (w\<lparr>conn := c, mem := h\<rparr>))
       else if frame_type frame \<noteq> 0 then io_return (True, frame)
       else wait_buffered n frame))"
    by (intro keep_rules input_step Suc.IH rel keep_return)
  then show ?case by (simp add: keep_def)
qed

lemma close_error: "J w \<Longrightarrow> (\<forall>x. fst (io_bind amqp_socket_close (\<lambda>_. io_error c) w) \<noteq> Done x) \<and>
    J (snd (io_bind amqp_socket_close (\<lambda>_. io_error c) w))"
  by (auto simp: io_defs amqp_socket_close_def amqp_tcp_socket_close_def close_step)

end

section \<open>Sending\<close>

locale io_bytes = io_atoms +
  assumes send_step: "I w \<Longrightarrow> I (w\<lparr>sends := ss, sent := sent w @ bs\<rparr>)"
begin

lemma keep_tcp_send [simp]: "keep I I (amqp_tcp_socket_send buf)"
proof (rule keep_snd)
  fix w assume i: "I w"
  have "I (w\<lparr>sends := ss\<rparr>)" for ss using send_step [OF i, where ss = ss and bs = "[]"] by simp
  with send_step [OF i] i show "I (snd (amqp_tcp_socket_send buf w))"
    by (auto simp: amqp_tcp_socket_send_def split: option.splits prod.splits sock.splits)
qed

lemma keep_send_pause [simp]: "keep I I (send_pause res gone d)"
  unfolding send_pause_def
  by (intro keep_catch_same keep_bind keep_if keep_do_poll keep_return keep_error)

lemma keep_try_send_loop: "keep I I (try_send_loop n buf gone d)"
proof (induction n arbitrary: gone)
  case 0
  show ?case by (simp add: keep_def)
next
  case (Suc n)
  have e: "keep I I (io_bind (send_pause res gone d) (\<lambda>r.
      case r of None \<Rightarrow> try_send_loop n buf gone d | Some so_far \<Rightarrow> io_return so_far))" for res
    by (intro keep_bind keep_send_pause keep_option Suc.IH keep_return)
  have "keep I I (io_bind (amqp_tcp_socket_send (drop gone buf)) (\<lambda>res.
      case res of
        Moved (Suc k) \<Rightarrow>
          if gone + Suc k = length buf then io_return (length buf)
          else try_send_loop n buf (gone + Suc k) d
      | _ \<Rightarrow> io_bind (send_pause res gone d) (\<lambda>r.
          case r of None \<Rightarrow> try_send_loop n buf gone d | Some so_far \<Rightarrow> io_return so_far)))"
    using e Suc.IH by (intro keep_bind keep_tcp_send) (simp split: sock.split nat.split)
  then show ?case by (simp add: keep_def)
qed

lemma keep_try_send [simp]: "keep I I (amqp_try_send buf d)"
  using keep_fun [where g = "\<lambda>n. try_send_loop n buf 0 d" and v = "\<lambda>w. Suc (length (sends w))" and I = I and J = I]
  by (simp add: keep_try_send_loop amqp_try_send_def [abs_def] del: try_send_loop.simps)

lemma keep_send_frame_loop: "keep I J (send_frame_loop n encoded d)"
proof (induction n arbitrary: encoded)
  case 0
  show ?case by (simp add: keep_def weaker)
next
  case (Suc n)
  have r: "keep I J (io_catch amqp_try_recv (\<lambda>code.
      if code = status_code AMQP_STATUS_TIMEOUT then io_fail AMQP_STATUS_HEARTBEAT_TIMEOUT else io_error code))"
    by (rule keep_catch_error [OF keep_try_recv]) (simp add: io_defs)
  have "keep I J (io_bind (amqp_try_send encoded t) (\<lambda>k.
       if k = length encoded then schedule_send_heartbeat
       else if amqp_time_equal t d then io_fail AMQP_STATUS_TIMEOUT
       else io_bind (io_catch amqp_try_recv (\<lambda>code.
           if code = status_code AMQP_STATUS_TIMEOUT then io_fail AMQP_STATUS_HEARTBEAT_TIMEOUT
           else io_error code)) (\<lambda>_.
         send_frame_loop n (drop k encoded) d)))" for t
    by (intro keep_bind keep_if keep_solid [OF keep_try_send] keep_solid [OF keep_schedule(1)] keep_error r Suc.IH)
  then show ?case by (simp add: keep_def Let_def)
qed

lemma keep_send_frame_inner: "keep I J (amqp_send_frame_inner f d)"
proof -
  have "case amqp_send_frame_inner f d w of (Done _, w') \<Rightarrow> I w' | (_, w') \<Rightarrow> J w'" if i: "I w" for w
  proof -
    obtain r buf where e: "amqp_frame_to_bytes f (outbound_buffer (conn w)) = (r, buf)" by fastforce
    have i': "I (w\<lparr>conn := (conn w)\<lparr>outbound_buffer := buf\<rparr>\<rparr>)" by (rule outbound_step [OF i])
    show ?thesis
      using keep_send_frame_loop i' weaker [OF i'] unfolding keep_def
      by (simp add: amqp_send_frame_inner_def e Let_def del: send_frame_loop.simps split: dres.split)
  qed
  then show ?thesis by (simp add: keep_def)
qed

end

text \<open>Conditions that only whole frames keep: the functions that wait send heartbeats.\<close>

locale io_frames = io_atoms +
  assumes heartbeat_step: "keep I J (amqp_send_frame (fresh_frame\<lparr>frame_type := word_of_int AMQP_FRAME_HEARTBEAT\<rparr>))"
begin

lemma keep_send_due_heartbeat: "keep I J send_due_heartbeat"
  unfolding send_due_heartbeat_def Let_def
  by (intro keep_bind keep_if keep_clock_J keep_get_J keep_error keep_return heartbeat_step)

lemma keep_receive: "keep I J (io_catch (io_bind (recv_with_timeout deadline) (\<lambda>_. io_return True)) (\<lambda>code.
    if code = status_code AMQP_STATUS_TIMEOUT
    then (\<lambda>w.
      if amqp_time_equal deadline (next_recv_heartbeat (conn w))
      then io_bind amqp_socket_close (\<lambda>_. io_fail AMQP_STATUS_HEARTBEAT_TIMEOUT) w
      else if amqp_time_equal deadline t then io_fail AMQP_STATUS_TIMEOUT w
      else if amqp_time_equal deadline (next_send_heartbeat (conn w)) then (Done False, w)
      else (Crash, w))
    else io_error code))"
proof (rule keep_catch_same)
  show "keep I I (io_bind (recv_with_timeout deadline) (\<lambda>_. io_return True))"
    by (intro keep_bind receive_step keep_return)
  have c: "keep I J (io_bind amqp_socket_close (\<lambda>_. io_fail AMQP_STATUS_HEARTBEAT_TIMEOUT) :: bool io)"
    by (auto simp: keep_def io_defs amqp_socket_close_def amqp_tcp_socket_close_def dest: weaker close_step)
  have d: "keep I J (\<lambda>w. (Done False, w))" "keep I J (\<lambda>w. (Crash, w) :: bool outcome \<times> world)"
    by (simp_all add: keep_def weaker)
  show "keep I J (if code = status_code AMQP_STATUS_TIMEOUT
    then (\<lambda>w.
      if amqp_time_equal deadline (next_recv_heartbeat (conn w))
      then io_bind amqp_socket_close (\<lambda>_. io_fail AMQP_STATUS_HEARTBEAT_TIMEOUT) w
      else if amqp_time_equal deadline t then io_fail AMQP_STATUS_TIMEOUT w
      else if amqp_time_equal deadline (next_send_heartbeat (conn w)) then (Done False, w)
      else (Crash, w))
    else io_error code)" for code
    by (intro keep_if keep_if_at c d keep_error)
qed (rule weaker)

lemma keep_wait_frame_loop: "keep I J (wait_frame_loop n scan f t)"
proof (induction n arbitrary: scan f)
  case 0
  show ?case by (simp add: keep_def weaker)
next
  case (Suc n)
  have s: "keep I J (\<lambda>w. (if scan then wait_buffered (buffered w) f else io_return (False, f)) w)"
    by (rule keep_fun) (intro keep_if keep_wait_buffered keep_return)
  have "keep I J (io_bind (\<lambda>w. (if scan then wait_buffered (buffered w) f else io_return (False, f)) w)
      (\<lambda>(complete, frame).
      if complete then io_return frame
      else io_bind send_due_heartbeat (\<lambda>_.
        io_bind (get_conn (recv_deadline t)) (\<lambda>deadline.
        io_bind (io_catch (io_bind (recv_with_timeout deadline) (\<lambda>_. io_return True)) (\<lambda>code.
          if code = status_code AMQP_STATUS_TIMEOUT
          then (\<lambda>w.
            if amqp_time_equal deadline (next_recv_heartbeat (conn w))
            then io_bind amqp_socket_close (\<lambda>_. io_fail AMQP_STATUS_HEARTBEAT_TIMEOUT) w
            else if amqp_time_equal deadline t then io_fail AMQP_STATUS_TIMEOUT w
            else if amqp_time_equal deadline (next_send_heartbeat (conn w)) then (Done False, w)
            else (Crash, w))
          else io_error code)) (\<lambda>scan.
        wait_frame_loop n scan frame t)))))"
    by (intro keep_bind keep_case_prod keep_if keep_return s keep_send_due_heartbeat keep_get_J keep_receive Suc.IH)
  then show ?case by (simp add: keep_def io_bind_def)
qed

lemma keep_wait_frame: "keep I J (wait_frame_inner f t)"
proof -
  have "keep I J (\<lambda>w. wait_frame_loop (Suc (length (recvs w))) True f t w)"
    by (rule keep_fun) (rule keep_wait_frame_loop)
  then show ?thesis by (simp add: wait_frame_inner_def [abs_def] del: wait_frame_loop.simps)
qed

lemma keep_rpc_loop: "keep I J (rpc_loop n ch ids t f)"
proof (induction n arbitrary: f)
  case 0
  show ?case by (simp add: keep_def weaker)
next
  case (Suc n)
  have w: "keep I J (io_catch (wait_frame_inner f t) (\<lambda>status.
        if status = status_code AMQP_STATUS_TIMEOUT
        then io_bind amqp_socket_close (\<lambda>_. io_error status)
        else io_error status))"
    by (rule keep_catch_error [OF keep_wait_frame]) (simp add: close_error io_error_def)
  have "keep I J (io_bind (io_catch (wait_frame_inner f t) (\<lambda>status.
        if status = status_code AMQP_STATUS_TIMEOUT
        then io_bind amqp_socket_close (\<lambda>_. io_error status)
        else io_error status)) (\<lambda>frame.
      case ends_rpc ch ids frame of
        None \<Rightarrow> io_bind (enqueue_copy frame) (\<lambda>_. rpc_loop n ch ids t frame)
      | Some m \<Rightarrow> io_return
          \<lparr>reply_type = (if amqp_id_in_reply_list (method_number m) ids
             then AMQP_RESPONSE_NORMAL else AMQP_RESPONSE_SERVER_EXCEPTION),
           reply = Some m, library_error = 0\<rparr>))"
    by (intro keep_bind w keep_option keep_enqueue_J Suc.IH keep_return)
  then show ?case by (simp add: keep_def)
qed

text \<open>Calls with a reply never fail; \<open>J\<close> is what is left when the reply is an error.\<close>

lemma rpc_after_request:
  assumes sent: "amqp_send_method ch m w = (x, w1)" and req: "case x of Done _ \<Rightarrow> I w1 | _ \<Rightarrow> J w1"
    and r: "simple_rpc_inner ch ids m t w = (r, w')"
  shows "J w'"
proof -
  have k: "keep I J (\<lambda>w. rpc_loop (Suc (bytes_to_come w)) ch ids t fresh_frame w)"
    by (rule keep_fun) (rule keep_rpc_loop)
  let ?m = "io_bind (amqp_send_method ch m) (\<lambda>_ w. rpc_loop (Suc (bytes_to_come w)) ch ids t fresh_frame w)"
  have j: "J w2" if "?m w = (y, w2)" for y w2
  proof (cases x)
    case (Done u)
    with that sent have "rpc_loop (Suc (bytes_to_come w1)) ch ids t fresh_frame w1 = (y, w2)"
      by (simp add: io_bind_def del: rpc_loop.simps)
    moreover have "I w1" using req Done by simp
    ultimately show ?thesis
      using keepD [OF k] keepE [OF k] weaker by (metis outcome.exhaust)
  qed (use that sent req in \<open>auto simp: io_bind_def\<close>)
  show ?thesis
    using r unfolding simple_rpc_inner_def with_reply_def
    by (auto elim!: io_catch_cases simp: io_return_def simp del: rpc_loop.simps dest: j)
qed

end

sublocale io_bytes \<subseteq> io_frames
  by unfold_locales (simp add: amqp_send_frame_def keep_send_frame_inner)

context io_bytes
begin

lemma keep_send_method: "keep I J (amqp_send_method ch m)"
  by (simp add: amqp_send_method_def amqp_send_method_inner_def keep_send_frame_inner)

lemma rpc_keeps:
  assumes "I w" and "simple_rpc_inner ch ids m t w = (r, w')"
  shows "J w'"
proof -
  obtain x w1 where s: "amqp_send_method ch m w = (x, w1)" by fastforce
  have "case x of Done _ \<Rightarrow> I w1 | _ \<Rightarrow> J w1"
    using keepD [OF keep_send_method assms(1)] keepE [OF keep_send_method assms(1) s] s by (cases x) auto
  from rpc_after_request [OF s this assms(2)] show ?thesis .
qed

text \<open>The calls that ask and wait for one reply.\<close>

lemma simple_rpc_keeps:
  assumes "I w" and "amqp_simple_rpc ch ids m w = (r, w')"
  shows "J w'"
proof -
  have f: "I w1" if "(io_bind (get_conn rpc_timeout) deadline_from) w = (y, w1)" for y w1
  proof -
    have "keep I I (io_bind (get_conn rpc_timeout) deadline_from)"
      unfolding deadline_from_def
      by (intro keep_bind keep_get keep_clock)
        (auto split: prod.split option.split)
    from keepD [OF this assms(1)] keepE [OF this assms(1) that] that show ?thesis
      by (cases y) auto
  qed
  have j: "J w2" if "io_bind (get_conn rpc_timeout) (\<lambda>t. io_bind (deadline_from t) (simple_rpc_inner ch ids m)) w = (y, w2)"
    for y w2
  proof -
    obtain z w1 where d: "deadline_from (rpc_timeout (conn w)) w = (z, w1)" by fastforce
    then have "I w1" using f by (simp add: io_bind_def get_conn_def)
    with that d weaker [of w1] rpc_keeps show ?thesis
      by (cases z) (auto simp: io_bind_def get_conn_def)
  qed
  show ?thesis
    using assms(2) unfolding amqp_simple_rpc_def with_reply_def
    by (auto elim!: io_catch_cases simp: io_return_def dest: j)
qed

text \<open>A call that got an answer of the server ends where the connection can go on.\<close>

lemma rpc_answered_keeps:
  assumes "I w" and "simple_rpc_inner ch ids m t w = (Done r, w')" and "reply_type r \<noteq> AMQP_RESPONSE_LIBRARY_EXCEPTION"
  shows "I w'"
proof -
  let ?m = "io_bind (amqp_send_method ch m) (\<lambda>_ w. rpc_loop (Suc (bytes_to_come w)) ch ids t fresh_frame w)"
  have k: "keep I J ?m"
    by (rule keep_bind [OF keep_send_method], rule keep_fun, rule keep_rpc_loop)
  from assms(2) show ?thesis
    unfolding simple_rpc_inner_def with_reply_def
  proof (cases rule: io_catch_cases)
    case 1
    from keepD [OF k assms(1) 1(1)] show ?thesis .
  next
    case (2 c w1)
    with assms(3) show ?thesis by (auto simp: io_return_def amqp_rpc_reply_error_def)
  qed
qed

lemma simple_rpc_answered_keeps:
  assumes "I w" and "amqp_simple_rpc ch ids m w = (Done r, w')" and "reply_type r \<noteq> AMQP_RESPONSE_LIBRARY_EXCEPTION"
  shows "I w'"
proof -
  have f: "keep I I (deadline_from t)" for t
    unfolding deadline_from_def
    by (intro keep_bind keep_clock) (auto split: prod.split option.split)
  from assms(2) show ?thesis
    unfolding amqp_simple_rpc_def with_reply_def
  proof (cases rule: io_catch_cases)
    case 1
    then obtain d w1 where d: "deadline_from (rpc_timeout (conn w)) w = (Done d, w1)"
      and r: "simple_rpc_inner ch ids m d w1 = (Done r, w')"
      by (auto simp: io_bind_def get_conn_def split: prod.splits outcome.splits)
    from keepD [OF f assms(1) d] have "I w1" .
    from rpc_answered_keeps [OF this r assms(3)] show ?thesis .
  next
    case (2 c w1)
    with assms(3) show ?thesis by (auto simp: io_return_def amqp_rpc_reply_error_def)
  qed
qed

lemma simple_rpc_decoded_keeps:
  assumes "I w" and "amqp_simple_rpc_decoded ch rid m w = (r, w')"
  shows "J w'"
proof -
  obtain x w1 where s: "amqp_simple_rpc ch [rid] m w = (x, w1)" by fastforce
  have "J w1" by (rule simple_rpc_keeps [OF assms(1) s])
  with result_step assms(2) s show ?thesis
    by (cases x) (auto simp: amqp_simple_rpc_decoded_def io_bind_def change_conn_def io_return_def)
qed

end

end
