(* ===== verification/World_Invariant.thy ===== *)
theory World_Invariant
  imports Io_Laws Input_Stream
begin

text \<open>
  The invariant of a connection in use, and interpretations of the locales of \<open>Io_Laws\<close>:
  the invariant is kept by every function of the socket layer; \<open>amqp_try_recv\<close> sends
  nothing; receiving only uses up answers.
\<close>

section \<open>What the input leaves alone\<close>

definition outside :: "amqp_connection_state_t \<Rightarrow> (int \<times> int \<times> int) \<times> (amqp_time_t \<times> amqp_time_t) \<times>
    byte list \<times> (byte list \<times> nat \<times> nat) \<times> amqp_frame_t list \<times> amqp_rpc_reply_t \<times> timeval option" where
  "outside c = ((channel_max c, frame_max c, heartbeat c), (next_recv_heartbeat c, next_send_heartbeat c),
     outbound_buffer c, (sock_inbound_buffer c, sock_inbound_offset c, sock_inbound_limit c),
     first_queued_frame c, most_recent_api_result c, rpc_timeout c)"

lemma outside_simps [simp]:
  "outside (return_to_idle c) = outside c" "outside (set_channel_pool ch pool c) = outside c"
  "outside (c\<lparr>target_size := n\<rparr>) = outside c" "outside (c\<lparr>inbound_buffer := i\<rparr>) = outside c"
  "outside (c\<lparr>state := s\<rparr>) = outside c" "outside (c\<lparr>header_buffer := bs\<rparr>) = outside c"
  "outside (c\<lparr>inbound_offset := k\<rparr>) = outside c" "outside (add_pool_entry b ch pool c) = outside c"
  by (simp_all add: outside_def return_to_idle_def set_channel_pool_def add_pool_entry_def)

text \<open>Nor does it go back to the state in which a protocol header may come.\<close>

definition leaves_outside :: "amqp_connection_state_t \<Rightarrow> input_result \<Rightarrow> bool" where
  "leaves_outside c res \<longleftrightarrow> (case res of (r, c', h', f') \<Rightarrow> outside c' = outside c \<and>
     (state c \<noteq> CONNECTION_STATE_INITIAL \<longrightarrow> state c' \<noteq> CONNECTION_STATE_INITIAL))"

lemma state_simps [simp]:
  "state (return_to_idle c) = CONNECTION_STATE_IDLE" "state (set_channel_pool ch pool c) = state c"
  "state (add_pool_entry b ch pool c) = state c"
  by (simp_all add: return_to_idle_def set_channel_pool_def add_pool_entry_def)

lemma decode_raw_frame_outside: "leaves_outside c (decode_raw_frame p0 raw pool n c h f)"
  by (auto simp: leaves_outside_def decode_raw_frame_def decode_method_frame_def decode_header_frame_def
      decode_payload_def Let_def split: prod.splits dres.splits)

lemma get_or_create_outside: "amqp_get_or_create_channel_pool c ch h = (p, c', h') \<Longrightarrow>
    outside c' = outside c \<and> state c' = state c"
  by (auto simp: amqp_get_or_create_channel_pool_def Let_def split: option.splits prod.splits)

lemma handle_body_outside: "leaves_outside c (handle_body p0 n c h f)"
proof (cases "inbound_buffer c")
  case (In_pool a)
  obtain b base where a: "a = (b, base)" by fastforce
  let ?raw = "chunk base (target_size c) (content h b)"
  let ?f = "f\<lparr>frame_type := amqp_d8 is_bigendian (chunk 0 1 ?raw), channel := amqp_d16 is_bigendian (chunk 1 2 ?raw)\<rparr>"
  obtain p c1 h1 where g: "amqp_get_or_create_channel_pool c (channel ?f) h = (p, c1, h1)"
    by (cases "amqp_get_or_create_channel_pool c (channel ?f) h")
  show ?thesis
    using get_or_create_outside [OF g] decode_raw_frame_outside [of c1 p0 ?raw "the p" n h1 ?f] g
    by (auto simp: handle_body_def In_pool a Let_def leaves_outside_def split: option.splits)
qed (simp_all add: handle_body_def leaves_outside_def)

lemma consume_data_outside: "consume_data c d h = Some (n, rest, c', h') \<Longrightarrow> outside c' = outside c \<and> state c' = state c"
  by (auto simp: consume_data_def Let_def split: inbound_t.splits if_splits)

lemma collect_body_outside: "leaves_outside c (collect_body p0 n d c h f)"
  using handle_body_outside consume_data_outside
  by (fastforce simp: collect_body_def leaves_outside_def split: option.splits prod.splits)

lemma open_frame_outside: "open_frame c h = (r, c', h') \<Longrightarrow>
    outside c' = outside c \<and> (state c' = state c \<or> state c' = CONNECTION_STATE_BODY)"
  using get_or_create_outside
  by (fastforce simp: open_frame_def Let_def split: if_splits prod.splits option.splits)

lemma handle_header_outside: "leaves_outside c (handle_header p0 n d c h f)"
proof -
  obtain r c' h' where o: "open_frame c h = (r, c', h')" by (cases "open_frame c h")
  show ?thesis
    using open_frame_outside [OF o] collect_body_outside [of c' p0 n d h' f] o
    by (auto simp: handle_header_def leaves_outside_def split: option.splits)
qed

lemma handle_initial_outside: "leaves_outside c (handle_initial p0 n d c h f)"
  using handle_header_outside by (simp add: handle_initial_def leaves_outside_def Let_def)

lemma handle_input_outside: "leaves_outside c (amqp_handle_input p0 c d h f)"
proof -
  let ?c = "if state c = CONNECTION_STATE_IDLE then c\<lparr>state := CONNECTION_STATE_HEADER\<rparr> else c"
  show ?thesis
  proof (cases "consume_data ?c d h")
    case None
    then show ?thesis by (simp add: amqp_handle_input_def leaves_outside_def Let_def)
  next
    case (Some x)
    obtain n rest c2 h2 where x: "x = (n, rest, c2, h2)" by (cases x)
    have o: "outside c2 = outside c" "state c \<noteq> CONNECTION_STATE_INITIAL \<longrightarrow> state c2 \<noteq> CONNECTION_STATE_INITIAL"
      using consume_data_outside [of ?c d h n rest c2 h2] Some x by (simp_all split: if_splits)
    have t: "leaves_outside c2 res \<Longrightarrow> leaves_outside c res" for res
      using o by (auto simp: leaves_outside_def split: prod.splits)
    have r: "leaves_outside c2 (y, c2, h2, g)" for y g by (simp add: leaves_outside_def)
    note all = t [OF handle_initial_outside] t [OF handle_header_outside] t [OF handle_body_outside] t [OF r]
    show ?thesis
    proof (cases "d = []")
      case True
      then show ?thesis by (simp add: amqp_handle_input_def leaves_outside_def Let_def)
    next
      case False
      then show ?thesis
        by (simp add: amqp_handle_input_def Some x Let_def all split: amqp_connection_state_enum.split)
    qed
  qed
qed

section \<open>The invariant\<close>

text \<open>
  \<open>world_ok\<close>: the state machine of the input is in order and the positions in the receive
  buffer are inside of it.  After an error only \<open>world_safe\<close> is left: the pools are in order.
\<close>

definition buffer_ok :: "amqp_connection_state_t \<Rightarrow> bool" where
  "buffer_ok c \<longleftrightarrow> sock_inbound_offset c \<le> sock_inbound_limit c \<and>
     sock_inbound_limit c \<le> length (sock_inbound_buffer c)"

definition world_ok :: "world \<Rightarrow> bool" where
  "world_ok w \<longleftrightarrow> input_ok (conn w) (mem w) \<and> buffer_ok (conn w)"

definition world_safe :: "world \<Rightarrow> bool" where
  "world_safe w \<longleftrightarrow> pools_ok (conn w) (mem w) \<and> buffer_ok (conn w)"

lemma buffer_ok_outside: "outside c' = outside c \<Longrightarrow> buffer_ok c' = buffer_ok c"
  by (simp add: outside_def buffer_ok_def)

text \<open>\<open>input_ok\<close> depends on the fields of the input only.\<close>

definition input_fields :: "amqp_connection_state_t \<Rightarrow> amqp_pool_table_entry_t list list \<times>
    amqp_connection_state_enum \<times> int \<times> byte list \<times> inbound_t \<times> nat \<times> nat" where
  "input_fields c = (pool_table c, state c, frame_max c, header_buffer c, inbound_buffer c, inbound_offset c, target_size c)"

lemma input_ok_cong: "input_fields c' = input_fields c \<Longrightarrow> input_ok c' h = input_ok c h"
  using pools_ok_cong [of c' c h]
  by (auto simp: input_fields_def input_ok_def base_ok_def own_buffer_def data_block_def amqp_get_channel_pool_def
      split: amqp_connection_state_enum.splits)

lemma consume_one_frame_world:
  assumes w: "world_ok w" and r: "consume_one_frame f w = (r, w')"
  shows "world_safe w' \<and> (\<forall>x. r = Done x \<longrightarrow> world_ok w')"
proof -
  let ?d = "chunk (sock_inbound_offset (conn w)) (sock_inbound_limit (conn w) - sock_inbound_offset (conn w))
      (sock_inbound_buffer (conn w))"
  obtain x c' h' g where i: "amqp_handle_input (spare w) (conn w) ?d (mem w) f = (x, c', h', g)"
    by (cases "amqp_handle_input (spare w) (conn w) ?d (mem w) f")
  have o: "outside c' = outside (conn w)"
    using handle_input_outside [of "conn w" "spare w" ?d "mem w" f] i by (simp add: leaves_outside_def)
  have b: "buffer_ok (conn w)" "input_ok (conn w) (mem w)" using w by (simp_all add: world_ok_def)
  have b': "buffer_ok c'" using buffer_ok_outside [OF o] b by simp
  have st: "stays_ok (x, c', h', g)" "takes ?d (x, c', h', g)"
    using handle_input_ok [OF b(2), where ?p0.0 = "spare w" and d = ?d and f = f] i by simp_all
  show ?thesis
  proof (cases x)
    case (Returns n)
    with st have n: "n \<le> length ?d" and ok: "input_ok c' h'" and p: "pools_ok c' h'"
      by (auto simp: takes_def stays_ok_def)
    have "n \<le> sock_inbound_limit c' - sock_inbound_offset c'"
      using n o by (simp add: outside_def chunk_def)
    then have "buffer_ok (c'\<lparr>sock_inbound_offset := sock_inbound_offset c' + n\<rparr>)"
      using b' by (auto simp: buffer_ok_def)
    with ok p r i Returns input_ok_cong [of "c'\<lparr>sock_inbound_offset := sock_inbound_offset c' + n\<rparr>" c' h']
      pools_ok_cong [of "c'\<lparr>sock_inbound_offset := sock_inbound_offset c' + n\<rparr>" c' h']
    show ?thesis by (auto simp: consume_one_frame_def world_ok_def world_safe_def input_fields_def)
  qed (use st b' r i in \<open>auto simp: consume_one_frame_def world_safe_def stays_ok_def\<close>)
qed

section \<open>Memory for queued frames\<close>

lemma pool_allocs_step:
  assumes "pool_ok pool h" and "pool_allocs ns pool h = (ok, pool', h')"
  shows "pool_step pool h pool' h' \<and>
    (\<forall>b. b \<in> live h \<longrightarrow> b \<notin> pool_arrays pool \<longrightarrow> b \<in> live h' \<and> b \<notin> pool_arrays pool' \<and> content h' b = content h b)"
  using assms
proof (induction ns arbitrary: pool h ok)
  case Nil
  then show ?case by (auto simp: pool_step_def)
next
  case (Cons n ns)
  obtain p pool1 h1 where a: "amqp_pool_alloc pool n h = (p, pool1, h1)" by (cases "amqp_pool_alloc pool n h")
  obtain k where r: "pool_allocs ns pool1 h1 = (k, pool', h')"
    using Cons.prems(2) a by (cases "pool_allocs ns pool1 h1") auto
  have s: "pool_step pool h pool1 h1" by (rule pool_step_alloc [OF Cons.prems(1) a])
  then have ok1: "pool_ok pool1 h1" by (simp add: pool_step_def)
  from Cons.IH [OF ok1 r] s pool_alloc_stays [OF Cons.prems(1) a] show ?case
    by (auto intro: pool_step_trans)
qed

lemma input_ok_keep:
  assumes "input_ok c h" and "pools_ok c' h'"
    and "c' = c\<lparr>pool_table := t\<rparr>"
    and "\<And>b. data_block c h b \<Longrightarrow> data_block c' h' b \<and> content h' b = content h b"
  shows "input_ok c' h'"
proof -
  have f: "state c' = state c" "frame_max c' = frame_max c" "header_buffer c' = header_buffer c"
    "inbound_buffer c' = inbound_buffer c" "inbound_offset c' = inbound_offset c" "target_size c' = target_size c"
    by (simp_all add: assms(3))
  have "own_buffer c h \<Longrightarrow> own_buffer c' h'"
    using assms(4) by (fastforce simp: own_buffer_def f)
  with assms(1,2) show ?thesis
    by (simp add: input_ok_def base_ok_def f split: amqp_connection_state_enum.splits)
qed

lemma channel_allocs_world:
  assumes "world_ok w" and "channel_allocs ch ns w = (r, w')"
  shows "world_ok w'"
proof -
  obtain p c1 h1 where g: "amqp_get_or_create_channel_pool (conn w) ch (mem w) = (p, c1, h1)"
    by (cases "amqp_get_or_create_channel_pool (conn w) ch (mem w)")
  have ok: "input_ok (conn w) (mem w)" "buffer_ok (conn w)" using assms(1) by (simp_all add: world_ok_def)
  note G = get_or_create_ok [OF input_okD(2) [OF ok(1)] g]
  obtain t where fields: "c1 = (conn w)\<lparr>pool_table := t\<rparr>" using get_or_create_fields [OF g] by blast
  have ok1: "input_ok c1 h1"
    by (rule input_ok_keep [OF ok(1) G(1) fields]) (rule data_block_get_or_create [OF input_okD(2) [OF ok(1)] g])
  have b1: "buffer_ok c1" using buffer_ok_outside [of c1 "conn w"] get_or_create_outside [OF g] ok by simp
  show ?thesis
  proof (cases p)
    case None
    with assms(2) g ok1 b1 show ?thesis by (auto simp: channel_allocs_def world_ok_def)
  next
    case (Some pool)
    obtain k pool' h2 where a: "pool_allocs ns pool h1 = (k, pool', h2)" by (cases "pool_allocs ns pool h1")
    have get: "amqp_get_channel_pool c1 ch = Some pool" by (rule G(2) [OF Some])
    note st = pool_allocs_step [OF pools_okD(3) [OF G(1) get] a]
    have p2: "pools_ok (set_channel_pool ch pool' c1) h2" using pools_ok_step [OF G(1) get] st by blast
    have "input_ok (set_channel_pool ch pool' c1) h2"
    proof (rule input_ok_keep [OF ok1 p2])
      show "set_channel_pool ch pool' c1 = c1\<lparr>pool_table := (pool_table c1)
          [pool_index ch := update_entry ch pool' (pool_table c1 ! pool_index ch)]\<rparr>" by (simp add: set_channel_pool_def)
      fix b assume d: "data_block c1 h1 b"
      then have "b \<in> live h1" "b \<notin> pool_arrays pool" using get by (auto simp: data_block_def)
      with st have s: "b \<in> live h2 \<and> b \<notin> pool_arrays pool'" "content h2 b = content h1 b" by auto
      from data_block_set [OF G(1) get d s(1)] s(2)
      show "data_block (set_channel_pool ch pool' c1) h2 b \<and> content h2 b = content h1 b" by simp
    qed
    moreover have "buffer_ok (set_channel_pool ch pool' c1)" 
      using b1 buffer_ok_outside [of "set_channel_pool ch pool' c1" c1] by simp
    ultimately show ?thesis using assms(2) g Some a 
      by (auto simp: channel_allocs_def world_ok_def Let_def split: if_splits)
  qed
qed

text \<open>Releasing happens between frames only, when the buffer of the input is not in use.\<close>

lemma release_world:
  assumes "world_ok w" and r: "amqp_maybe_release_buffers_on_channel (conn w) ch (mem w) = (c, h)"
  shows "world_ok (w\<lparr>conn := c, mem := h\<rparr>)"
proof -
  have ok: "input_ok (conn w) (mem w)" "buffer_ok (conn w)" using assms(1) by (simp_all add: world_ok_def)
  have "buffer_ok c"
    using r by (cases rule: release_cases) (use ok(2) buffer_ok_outside [of c "conn w"] in simp_all)
  with release_input_ok [OF ok(1) r] show ?thesis by (simp add: world_ok_def)
qed

lemma world_ok_same:
  assumes "world_ok w" and "mem w' = mem w" and "input_fields (conn w') = input_fields (conn w)"
    and "buffer_ok (conn w) \<Longrightarrow> buffer_ok (conn w')"
  shows "world_ok w'"
  using assms input_ok_cong [OF assms(3), of "mem w"] by (simp add: world_ok_def)

lemma world_safe_same:
  assumes "world_safe w" and "mem w' = mem w" and "pool_table (conn w') = pool_table (conn w)"
    and "buffer_ok (conn w) \<Longrightarrow> buffer_ok (conn w')"
  shows "world_safe w'"
  using assms pools_ok_cong [OF assms(3), of "mem w"] by (simp add: world_safe_def)

interpretation inv_receive: io_receive world_ok world_safe
proof unfold_locales
  fix w assume "world_ok w"
  then show "world_safe w" by (simp add: world_ok_def world_safe_def input_okD)
qed (auto elim!: world_ok_same simp: input_fields_def buffer_ok_def)

interpretation inv: io_bytes world_ok world_safe
proof unfold_locales
  fix d show "keep world_ok world_ok (recv_with_timeout d)" by (rule inv_receive.receive_keeps)
next
  fix f show "keep world_ok world_safe (consume_one_frame f)"
    by (rule keepI) (use consume_one_frame_world in blast)+
next
  fix ch
  show "keep world_ok world_ok (channel_allocs ch [SIZEOF_LINK, SIZEOF_FRAME])"
    "keep world_ok world_ok (channel_allocs ch [SIZEOF_FRAME, SIZEOF_LINK])"
    by (rule keepI; use channel_allocs_world in blast)+
next
  fix w ch c h assume "world_ok w" and "amqp_maybe_release_buffers_on_channel (conn w) ch (mem w) = (c, h)"
  then show "world_ok (w\<lparr>conn := c, mem := h\<rparr>)" by (rule release_world)
next
  fix f show "keep world_ok world_ok (append_frame f)"
    unfolding keep_def append_frame_def change_conn_def
    by (auto elim!: world_ok_same simp: input_fields_def buffer_ok_def)
qed (auto elim!: world_ok_same world_safe_same simp: input_fields_def buffer_ok_def)

end
