(* ===== verification/Frame_Sending.thy ===== *)
theory Frame_Sending
  imports World_Invariant Frame_Travel
begin

text \<open>
  What a connection sends.  A frame is sent completely or the call fails, and then a prefix
  of it was sent; nothing comes between two frames; while it waits, the client sends
  heartbeats only.
\<close>

section \<open>Conditions on what is outside of the connection\<close>

lemma consume_one_frame_inside:
  assumes "consume_one_frame f w = (r, w')"
  obtains c h where "w' = w\<lparr>conn := c, mem := h\<rparr>"
proof -
  have "w' = w\<lparr>conn := conn w', mem := mem w'\<rparr>"
    using assms by (auto simp: consume_one_frame_def Let_def split: prod.splits dres.splits)
  then show ?thesis by (rule that)
qed

lemma channel_allocs_inside:
  assumes "channel_allocs ch ns w = (r, w')"
  obtains c h where "w' = w\<lparr>conn := c, mem := h\<rparr>"
proof -
  have "w' = w\<lparr>conn := conn w', mem := mem w'\<rparr>"
    using assms by (auto simp: channel_allocs_def Let_def split: prod.splits option.splits if_splits)
  then show ?thesis by (rule that)
qed

locale outside_condition =
  fixes I :: "world \<Rightarrow> bool"
  assumes inside: "I w \<Longrightarrow> I (w\<lparr>conn := c, mem := h\<rparr>)"
    and clock_free: "I w \<Longrightarrow> I (w\<lparr>ticks := n\<rparr>)"
    and poll_free: "I w \<Longrightarrow> I (w\<lparr>polls := ps\<rparr>)"
    and recv_fewer: "I w \<Longrightarrow> length rs \<le> length (recvs w) \<Longrightarrow> I (w\<lparr>recvs := rs\<rparr>)"
    and socket_free: "I w \<Longrightarrow> I (w\<lparr>sockfd := None\<rparr>)"
begin

lemma inside_conn: "I w \<Longrightarrow> I (w\<lparr>conn := c\<rparr>)"
  using inside [where h = "mem w"] by fastforce

end

sublocale outside_condition \<subseteq> io_receive I I
  by unfold_locales (simp_all add: inside_conn clock_free poll_free recv_fewer)

sublocale outside_condition \<subseteq> io_atoms I I
proof unfold_locales
  fix d show "keep I I (recv_with_timeout d)" by (rule receive_keeps)
next
  fix f show "keep I I (consume_one_frame f)"
    by (rule keepI; erule consume_one_frame_inside; simp add: inside)
next
  fix ch
  show "keep I I (channel_allocs ch [SIZEOF_LINK, SIZEOF_FRAME])"
    "keep I I (channel_allocs ch [SIZEOF_FRAME, SIZEOF_LINK])"
    by (rule keepI; erule channel_allocs_inside; simp add: inside)+
next
  fix f show "keep I I (append_frame f)"
    by (simp add: keep_def append_frame_def change_conn_def inside_conn)
qed (simp_all add: inside inside_conn socket_free)

interpretation quiet: outside_condition "\<lambda>w. sent w = s" for s
  by unfold_locales simp_all

section \<open>Bytes\<close>

lemma tcp_send_loop_le: "tcp_send_loop as len = (Some (Moved n), as') \<Longrightarrow> n \<le> len"
  by (induction as len rule: tcp_send_loop.induct) auto

lemma tcp_send_sends:
  assumes "amqp_tcp_socket_send buf w = (r, w')"
  shows "\<exists>k \<le> length buf. sent w' = sent w @ take k buf \<and> conn w' = conn w \<and>
    (\<forall>n. r = Done (Moved n) \<longrightarrow> n = k) \<and> (\<forall>x. r = Done x \<longrightarrow> (\<forall>n. x \<noteq> Moved n) \<longrightarrow> k = 0)"
  using assms
  by (auto simp: amqp_tcp_socket_send_def split: if_splits option.splits prod.splits sock.splits
      dest: tcp_send_loop_le intro: exI [of _ 0])

lemma poll_sends: "amqp_poll d w = (r, w') \<Longrightarrow> sent w' = sent w \<and> conn w' = conn w"
  by (erule poll_changes) simp

lemma do_poll_sends: "do_poll res d w = (r, w') \<Longrightarrow> sent w' = sent w \<and> conn w' = conn w"
  using poll_sends [of d w r w'] by (cases res) (auto simp: do_poll_def io_defs split: if_splits)

lemma send_pause_sends: "send_pause res gone d w = (r, w') \<Longrightarrow>
    sent w' = sent w \<and> conn w' = conn w \<and> (\<forall>n. r = Done (Some n) \<longrightarrow> n = gone)"
proof -
  assume r: "send_pause res gone d w = (r, w')"
  obtain a w1 where a: "do_poll res d w = (a, w1)" by fastforce
  with do_poll_sends [OF a] r show ?thesis
    by (cases a) (auto simp: send_pause_def io_bind_def io_catch_def io_return_def io_error_def split: if_splits)
qed

lemma try_send_loop_sends:
  assumes "try_send_loop n buf gone d w = (r, w')" and "gone \<le> length buf"
  shows "\<exists>k. gone + k \<le> length buf \<and> sent w' = sent w @ take k (drop gone buf) \<and> conn w' = conn w \<and>
    (\<forall>m. r = Done m \<longrightarrow> m = gone + k)"
  using assms
proof (induction n arbitrary: gone w)
  case 0
  then show ?case by (intro exI [of _ 0]) auto
next
  case (Suc n)
  obtain x w1 where x: "amqp_tcp_socket_send (drop gone buf) w = (x, w1)" by fastforce
  obtain k where k: "k \<le> length (drop gone buf)" "sent w1 = sent w @ take k (drop gone buf)" "conn w1 = conn w"
    "\<And>j. x = Done (Moved j) \<Longrightarrow> j = k" "\<And>y. x = Done y \<Longrightarrow> (\<And>j. y \<noteq> Moved j) \<Longrightarrow> k = 0"
    using tcp_send_sends [OF x] by blast
  show ?case
  proof (cases x)
    case (Done res)
    show ?thesis
    proof (cases "\<exists>j. res = Moved (Suc j)")
      case True
      then obtain j where j: "res = Moved (Suc j)" by blast
      with k(4) Done have kj: "k = Suc j" by simp
      show ?thesis
      proof (cases "gone + Suc j = length buf")
        case True
        with Suc.prems x Done j k kj show ?thesis
          by (intro exI [of _ k]) (auto simp: io_defs)
      next
        case False
        with Suc.prems x Done j have r: "try_send_loop n buf (gone + Suc j) d w1 = (r, w')"
          by (auto simp: io_defs)
        have le: "gone + Suc j \<le> length buf" using k(1) kj Suc.prems(2) by simp
        from Suc.IH [OF r le] obtain k2 where k2: "gone + Suc j + k2 \<le> length buf"
          "sent w' = sent w1 @ take k2 (drop (gone + Suc j) buf)" "conn w' = conn w1"
          "\<And>m. r = Done m \<Longrightarrow> m = gone + Suc j + k2" by blast
        have "take k (drop gone buf) @ take k2 (drop (gone + Suc j) buf) = take (k + k2) (drop gone buf)"
          using take_add [of k k2 "drop gone buf"] by (simp add: kj add.commute)
        with k2 k kj show ?thesis by (intro exI [of _ "k + k2"]) auto
      qed
    next
      case False
      have "k = 0"
        using k(4) k(5) [of res] Done False by (cases res; cases k) auto
      obtain y w2 where y: "send_pause res gone d w1 = (y, w2)" by fastforce
      note P = send_pause_sends [OF y]
      have step: "try_send_loop (Suc n) buf gone d w = io_bind (send_pause res gone d) (\<lambda>r.
          case r of None \<Rightarrow> try_send_loop n buf gone d | Some so_far \<Rightarrow> io_return so_far) w1"
        using x Done False by (cases res) (auto simp: io_bind_def split: nat.split)
      show ?thesis
      proof (cases "y = Done None")
        case True
        with Suc.prems step y have "try_send_loop n buf gone d w2 = (r, w')" by (simp add: io_bind_def)
        from Suc.IH [OF this Suc.prems(2)] P k \<open>k = 0\<close> show ?thesis by auto
      next
        case other: False
        with Suc.prems step y have "w' = w2" "\<And>m. r = Done m \<Longrightarrow> y = Done (Some m)"
          by (cases y; auto simp: io_bind_def io_return_def split: option.splits)+
        with P k \<open>k = 0\<close> Suc.prems(2) show ?thesis by (intro exI [of _ 0]) auto
      qed
    qed
  qed (use Suc.prems x k in \<open>auto simp: io_bind_def intro!: exI [of _ k]\<close>)
qed

lemma try_send_sends:
  assumes "amqp_try_send buf d w = (r, w')"
  shows "\<exists>k \<le> length buf. sent w' = sent w @ take k buf \<and> conn w' = conn w \<and> (\<forall>m. r = Done m \<longrightarrow> m = k)"
  using try_send_loop_sends [of "Suc (length (sends w))" buf 0 d w r w'] assms
  by (auto simp: amqp_try_send_def simp del: try_send_loop.simps)

section \<open>Frames\<close>

lemma schedule_send_quiet: "sent (snd (schedule_send_heartbeat w)) = sent w"
  using keep_at_end [OF quiet.keep_schedule(1) refl] .

lemma send_frame_loop_sends:
  assumes "send_frame_loop n bytes d w = (r, w')"
  shows "\<exists>k \<le> length bytes. sent w' = sent w @ take k bytes \<and> (r = Done () \<longrightarrow> k = length bytes)"
  using assms
proof (induction n arbitrary: bytes w)
  case 0
  then show ?case by (intro exI [of _ 0]) auto
next
  case (Suc n)
  let ?t = "amqp_time_first d (next_recv_heartbeat (conn w))"
  obtain x w1 where x: "amqp_try_send bytes ?t w = (x, w1)" by fastforce
  obtain k where k: "k \<le> length bytes" "sent w1 = sent w @ take k bytes" "\<And>m. x = Done m \<Longrightarrow> m = k"
    using try_send_sends [OF x] by blast
  show ?case
  proof (cases x)
    case (Done m)
    with k have m: "m = k" by simp
    show ?thesis
    proof (cases "k = length bytes")
      case True
      with Suc.prems x Done m have "schedule_send_heartbeat w1 = (r, w')" by (simp add: io_bind_def Let_def)
      with schedule_send_quiet [of w1] k True show ?thesis by (intro exI [of _ k]) auto
    next
      case False
      let ?recv = "io_catch amqp_try_recv (\<lambda>code.
          if code = status_code AMQP_STATUS_TIMEOUT then io_fail AMQP_STATUS_HEARTBEAT_TIMEOUT else io_error code)"
      have "keep (\<lambda>w. sent w = sent w1) (\<lambda>w. sent w = sent w1) ?recv"
        by (rule keep_catch_error [OF quiet.keep_try_recv]) (simp add: io_defs)
      from keep_at_end [OF this refl] have q: "sent (snd (?recv w1)) = sent w1" .
      obtain y w2 where y: "?recv w1 = (y, w2)" by fastforce
      show ?thesis
      proof (cases "amqp_time_equal ?t d")
        case True
        with Suc.prems x Done m False have "w' = w1" "r \<noteq> Done ()"
          by (auto simp: io_bind_def Let_def io_fail_def io_error_def)
        with k show ?thesis by blast
      next
        case late: False
        have step: "send_frame_loop (Suc n) bytes d w = io_bind ?recv (\<lambda>_. send_frame_loop n (drop k bytes) d) w1"
          using x Done m False late by (simp add: io_bind_def Let_def)
        show ?thesis
        proof (cases "y = Done ()")
          case True
          with Suc.prems step y have "send_frame_loop n (drop k bytes) d w2 = (r, w')" by (simp add: io_bind_def)
          from Suc.IH [OF this] obtain k2 where k2: "k2 \<le> length (drop k bytes)"
            "sent w' = sent w2 @ take k2 (drop k bytes)" "r = Done () \<Longrightarrow> k2 = length (drop k bytes)" by blast
          have "take k bytes @ take k2 (drop k bytes) = take (k + k2) bytes"
            using take_add [of k k2 bytes] by simp
          with k k2 q y show ?thesis by (intro exI [of _ "k + k2"]) auto
        next
          case other: False
          with Suc.prems step y have "w' = w2" "r \<noteq> Done ()" by (cases y; auto simp: io_bind_def)+
          with q y k show ?thesis by (intro exI [of _ k]) auto
        qed
      qed
    qed
  qed (use Suc.prems x k in \<open>auto simp: io_bind_def Let_def intro!: exI [of _ k]\<close>)
qed

lemma send_frame_sends:
  assumes "amqp_send_frame_inner f d w = (r, w')"
    and "amqp_frame_to_bytes f (outbound_buffer (conn w)) = (x, buf)"
  shows "case x of
      Returns bytes \<Rightarrow> \<exists>k \<le> length bytes. sent w' = sent w @ take k bytes \<and> (r = Done () \<longrightarrow> k = length bytes)
    | _ \<Rightarrow> sent w' = sent w \<and> r \<noteq> Done ()"
  using assms send_frame_loop_sends [of "Suc (length (sends w))" _ d "w\<lparr>conn := (conn w)\<lparr>outbound_buffer := buf\<rparr>\<rparr>"]
  by (auto simp: amqp_send_frame_inner_def Let_def simp del: send_frame_loop.simps split: dres.splits)

section \<open>Heartbeats\<close>

definition heartbeat_image :: "byte list" where
  "heartbeat_image = frame_image (word_of_int AMQP_FRAME_HEARTBEAT) 0 []"

text \<open>Heartbeats that went out after \<open>s\<close>, the last one perhaps in part.\<close>

definition beats_after :: "byte list \<Rightarrow> byte list \<Rightarrow> bool" where
  "beats_after s out \<longleftrightarrow> (\<exists>n. out = s @ concat (replicate n heartbeat_image))"

definition beats_cut :: "byte list \<Rightarrow> byte list \<Rightarrow> bool" where
  "beats_cut s out \<longleftrightarrow> (\<exists>n k. out = s @ concat (replicate n heartbeat_image) @ take k heartbeat_image)"

lemma beats_step: "beats_after s out \<Longrightarrow> beats_cut s (out @ take k heartbeat_image)"
  unfolding beats_after_def beats_cut_def by (metis append.assoc)

lemma beats_weaker: "beats_after s out \<Longrightarrow> beats_cut s out"
  using beats_step [of s out 0] by simp

lemma concat_replicate_snoc: "concat (replicate n xs) @ xs = concat (replicate (Suc n) xs)"
  by (induction n) auto

lemma beats_more: "beats_after s out \<Longrightarrow> beats_after s (out @ heartbeat_image)"
  unfolding beats_after_def using concat_replicate_snoc by (metis append.assoc)

lemma heartbeat_bytes:
  assumes "amqp_frame_to_bytes (fresh_frame\<lparr>frame_type := word_of_int AMQP_FRAME_HEARTBEAT\<rparr>) buf = (Returns bytes, buf')"
  shows "bytes = heartbeat_image"
proof -
  have p: "payload_bytes p0 (fresh_frame\<lparr>frame_type := word_of_int AMQP_FRAME_HEARTBEAT\<rparr>) []" for p0
    by (simp add: payload_bytes_def frame_types)
  from frame_to_bytes_fits [OF p frame_to_bytes_only [OF p assms]] assms show ?thesis
    by (simp add: heartbeat_image_def fresh_frame_def)
qed

lemma heartbeat_keeps:
  "keep (\<lambda>w. beats_after s (sent w)) (\<lambda>w. beats_cut s (sent w))
    (amqp_send_frame (fresh_frame\<lparr>frame_type := word_of_int AMQP_FRAME_HEARTBEAT\<rparr>))"
proof (rule keepI)
  fix w x w'
  assume b: "beats_after s (sent w)"
    and r: "amqp_send_frame (fresh_frame\<lparr>frame_type := word_of_int AMQP_FRAME_HEARTBEAT\<rparr>) w = (Done x, w')"
  obtain y buf where e: "amqp_frame_to_bytes (fresh_frame\<lparr>frame_type := word_of_int AMQP_FRAME_HEARTBEAT\<rparr>)
      (outbound_buffer (conn w)) = (y, buf)" by fastforce
  from send_frame_sends [OF r [unfolded amqp_send_frame_def] e] heartbeat_bytes [of "outbound_buffer (conn w)" _ buf] e
  have "sent w' = sent w @ heartbeat_image" by (cases y) auto
  then show "beats_after s (sent w')" using beats_more [OF b] by simp
next
  fix w r w'
  assume b: "beats_after s (sent w)"
    and r: "amqp_send_frame (fresh_frame\<lparr>frame_type := word_of_int AMQP_FRAME_HEARTBEAT\<rparr>) w = (r, w')"
  obtain y buf where e: "amqp_frame_to_bytes (fresh_frame\<lparr>frame_type := word_of_int AMQP_FRAME_HEARTBEAT\<rparr>)
      (outbound_buffer (conn w)) = (y, buf)" by fastforce
  from send_frame_sends [OF r [unfolded amqp_send_frame_def] e] heartbeat_bytes [of "outbound_buffer (conn w)" _ buf] e
  obtain k where "sent w' = sent w @ take k heartbeat_image" by (cases y) (auto intro: that [of 0])
  then show "beats_cut s (sent w')" using beats_step [OF b] by simp
qed

interpretation beating_receive: io_receive "\<lambda>w. beats_after s (sent w)" "\<lambda>w. beats_cut s (sent w)" for s
  by unfold_locales (simp_all add: beats_weaker)

interpretation beating: io_frames "\<lambda>w. beats_after s (sent w)" "\<lambda>w. beats_cut s (sent w)" for s
proof unfold_locales
  fix d
  show "keep (\<lambda>w. beats_after s (sent w)) (\<lambda>w. beats_after s (sent w)) (recv_with_timeout d)"
    by (rule beating_receive.receive_keeps)
next
  fix f
  show "keep (\<lambda>w. beats_after s (sent w)) (\<lambda>w. beats_cut s (sent w)) (consume_one_frame f)"
    by (rule keepI; erule consume_one_frame_inside; simp add: beats_weaker)
next
  fix ch
  show "keep (\<lambda>w. beats_after s (sent w)) (\<lambda>w. beats_after s (sent w)) (channel_allocs ch [SIZEOF_LINK, SIZEOF_FRAME])"
    "keep (\<lambda>w. beats_after s (sent w)) (\<lambda>w. beats_after s (sent w)) (channel_allocs ch [SIZEOF_FRAME, SIZEOF_LINK])"
    by (rule keepI; erule channel_allocs_inside; simp)+
next
  fix f
  show "keep (\<lambda>w. beats_after s (sent w)) (\<lambda>w. beats_after s (sent w)) (append_frame f)"
    by (simp add: keep_def append_frame_def change_conn_def)
qed (simp_all add: beats_weaker heartbeat_keeps)

text \<open>
  A remote procedure call sends the request, whole before anything else, and then
  heartbeats; what is cut off is at the end.
\<close>

lemma rpc_sends:
  assumes "simple_rpc_inner ch ids m t w = (r, w')"
    and "amqp_frame_to_bytes \<lparr>frame_type = word_of_int AMQP_FRAME_METHOD, channel = ch, payload = Method_payload m\<rparr>
      (outbound_buffer (conn w)) = (Returns request, buf)"
  shows "(\<exists>k. sent w' = sent w @ take k request) \<or> beats_cut (sent w @ request) (sent w')"
proof -
  obtain x w1 where s: "amqp_send_method ch m w = (x, w1)" by fastforce
  have "amqp_send_frame_inner \<lparr>frame_type = word_of_int AMQP_FRAME_METHOD, channel = ch, payload = Method_payload m\<rparr>
      amqp_time_infinite w = (x, w1)"
    using s by (simp add: amqp_send_method_def amqp_send_method_inner_def)
  from send_frame_sends [OF this assms(2)] obtain k
    where k: "sent w1 = sent w @ take k request" "x = Done () \<Longrightarrow> k = length request" by auto
  show ?thesis
  proof (cases "x = Done ()")
    case True
    with k have "beats_after (sent w @ request) (sent w1)" by (auto simp: beats_after_def intro: exI [of _ 0])
    with beating.rpc_after_request [OF s _ assms(1)] True show ?thesis by simp
  next
    case False
    then have "w' = w1"
      using assms(1) s unfolding simple_rpc_inner_def with_reply_def
      by (cases x) (auto simp: io_bind_def io_catch_def io_return_def)
    with k show ?thesis by blast
  qed
qed

end
