(* ===== verification/Frame_Receiving.thy ===== *)
theory Frame_Receiving
  imports Frame_Sending
begin

text \<open>
  What a connection receives: a frame that arrives in pieces of any size is handed to the
  caller of \<open>wait_frame_inner\<close>.
\<close>

section \<open>Pieces of a frame\<close>

lemma handle_input_rest:
  assumes "amqp_handle_input p0 c d h f = (Returns n, c', h', f')" and "input_ok c h"
    and "state c \<noteq> CONNECTION_STATE_INITIAL"
  shows "input_ok c' h' \<and> outside c' = outside c \<and> state c' \<noteq> CONNECTION_STATE_INITIAL"
  using handle_input_ok(1) [OF assms(2), of p0 d f] handle_input_outside [of c p0 d h f] assms(1,3)
  by (simp add: stays_ok_def leaves_outside_def)

lemma frame_partial:
  assumes l: "length p < INT32_MAX" "length p + HEADER_SIZE + FOOTER_SIZE \<le> size_t_of_int (frame_max c)"
    and c: "input_ok c h" "state c \<noteq> CONNECTION_STATE_INITIAL" "roomy h"
    and d: "d \<noteq> []" "(pending c h @ d) @ later = frame_image ty ch p @ rest"
      "length (pending c h @ d) < length (frame_image ty ch p)"
  shows "\<exists>c' h'. amqp_handle_input p0 c d h f = (Returns (length d), c', h', f\<lparr>frame_type := 0\<rparr>) \<and>
    input_ok c' h' \<and> outside c' = outside c \<and> state c' \<noteq> CONNECTION_STATE_INITIAL \<and> roomy h' \<and>
    pending c' h' = pending c h @ d"
proof -
  let ?s = "pending c h @ d"
  have "take (length ?s) (?s @ later) = take (length ?s) (frame_image ty ch p @ rest)" by (simp only: d(2))
  then have s: "?s = take (length ?s) (frame_image ty ch p)" using d(3) by simp
  have "stream_head (frame_max c) ?s = Need_more"
    using stream_head_image(2) [OF l d(3)] s by simp
  with handle_input_stream [OF c(1,2) d(1) c(3), of p0 f] obtain c' h'
    where r: "amqp_handle_input p0 c d h f = (Returns (length d), c', h', f\<lparr>frame_type := 0\<rparr>)"
      "pending c' h' = ?s" "fails h' = fails h" by auto
  from handle_input_rest [OF r(1) c(1,2)] r roomy_cong [OF r(3)] c(3) show ?thesis by blast
qed

lemma frame_complete:
  assumes F: "payload_bytes p0 F p"
    and l: "length p < INT32_MAX" "length p + HEADER_SIZE + FOOTER_SIZE \<le> size_t_of_int (frame_max c)"
    and c: "input_ok c h" "state c \<noteq> CONNECTION_STATE_INITIAL" "roomy h"
    and d: "d \<noteq> []" "pending c h @ d = frame_image (frame_type F) (channel F) p @ rest"
  shows "\<exists>c' h'. amqp_handle_input p0 c d h f =
      (Returns (length d - length rest), c', h', as_received p0 (f\<lparr>frame_type := 0\<rparr>) F p) \<and>
    input_ok c' h' \<and> outside c' = outside c \<and> state c' = CONNECTION_STATE_IDLE \<and> length rest \<le> length d"
proof -
  let ?i = "frame_image (frame_type F) (channel F) p"
  obtain c1 h1 where 1: "amqp_handle_input p0 c d h f = handle_body p0 (length ?i - length (pending c h)) c1 h1 (f\<lparr>frame_type := 0\<rparr>)"
      "length (pending c h) \<le> length ?i" "frame_in c1 h1 ?i" "fails h1 = fails h"
    using handle_input_stream [OF c(1,2) d(1) c(3), of p0 f] stream_head_image(1) [OF l, of "frame_type F" "channel F" rest]
    unfolding d(2) by auto
  have "roomy h1" using c(3) roomy_cong [OF 1(4)] by simp
  from receive_frame [OF 1(3) this F] obtain c' h'
    where 2: "amqp_handle_input p0 c d h f =
        (Returns (length ?i - length (pending c h)), c', h', as_received p0 (f\<lparr>frame_type := 0\<rparr>) F p)"
      "state c' = CONNECTION_STATE_IDLE" using 1(1) by fastforce
  have "length (pending c h) + length d = length ?i + length rest"
    using arg_cong [OF d(2), of length] by (simp del: length_frame_image)
  then have "length ?i - length (pending c h) = length d - length rest" "length rest \<le> length d"
    using 1(2) by (simp_all del: length_frame_image)
  with 2 handle_input_rest [OF 2(1) c(1,2)] show ?thesis by auto
qed

section \<open>A world in which a frame arrives\<close>

text \<open>
  \<open>listening\<close>: the connection is between pieces, the socket is open, heartbeats are off.
\<close>

definition unread :: "world \<Rightarrow> byte list" where
  "unread w = chunk (sock_inbound_offset (conn w)) (sock_inbound_limit (conn w) - sock_inbound_offset (conn w))
     (sock_inbound_buffer (conn w))"

definition listening :: "world \<Rightarrow> bool" where
  "listening w \<longleftrightarrow> world_ok w \<and> roomy (mem w) \<and> state (conn w) \<noteq> CONNECTION_STATE_INITIAL \<and>
     sockfd w \<noteq> None \<and> heartbeat (conn w) = 0 \<and> next_send_heartbeat (conn w) = amqp_time_infinite"

text \<open>What the receiving of a frame leaves alone.\<close>

definition untouched :: "world \<Rightarrow> world \<Rightarrow> bool" where
  "untouched w w' \<longleftrightarrow> sent w' = sent w \<and> spare w' = spare w \<and> frame_max (conn w') = frame_max (conn w) \<and>
     length (sock_inbound_buffer (conn w')) = length (sock_inbound_buffer (conn w)) \<and>
     first_queued_frame (conn w') = first_queued_frame (conn w)"

lemma untouched_trans: "untouched w w1 \<Longrightarrow> untouched w1 w2 \<Longrightarrow> untouched w w2"
  by (simp add: untouched_def)

lemma recv_piece:
  assumes "recvs w = Os_data d # rs" and "d \<noteq> []" and "length d \<le> length (sock_inbound_buffer (conn w))"
    and "sockfd w \<noteq> None" and "heartbeat (conn w) = 0"
  shows "recv_with_timeout t w = (Done (), w\<lparr>recvs := rs, ticks := Suc (ticks w),
    conn := (conn w)\<lparr>sock_inbound_buffer := write_at (sock_inbound_buffer (conn w)) 0 d,
      sock_inbound_limit := length d, sock_inbound_offset := 0, next_recv_heartbeat := amqp_time_infinite\<rparr>\<rparr>)"
proof -
  have "take (length (sock_inbound_buffer (conn w))) d = d" using assms(3) by simp
  then have r: "amqp_tcp_socket_recv (length (sock_inbound_buffer (conn w))) w = (Done (Moved d), w\<lparr>recvs := rs\<rparr>)"
    using assms(1,2,4) by (auto simp: amqp_tcp_socket_recv_def)
  then have "recv_loop (Suc (length (recvs w))) t w = (Done d, w\<lparr>recvs := rs\<rparr>)"
    by (simp add: io_bind_def io_return_def)
  then show ?thesis
    using assms(5)
    by (simp add: recv_with_timeout_def io_bind_def change_conn_def schedule_recv_heartbeat_def read_clock_def
        get_conn_def timed_def amqp_heartbeat_recv_def amqp_time_s_from_now_def io_return_def del: recv_loop.simps)
qed

lemma no_heartbeat_due:
  "next_send_heartbeat (conn w) = amqp_time_infinite \<Longrightarrow> send_due_heartbeat w = (Done (), w\<lparr>ticks := Suc (ticks w)\<rparr>)"
  by (simp add: send_due_heartbeat_def read_clock_def get_conn_def io_bind_def io_return_def Let_def
      amqp_time_has_past_def amqp_time_infinite_def)

lemma unread_empty: "unread w = [] \<longleftrightarrow> \<not> amqp_data_in_buffer (conn w)" if "buffer_ok (conn w)"
  using that by (auto simp: unread_def amqp_data_in_buffer_def buffer_ok_def chunk_def)

lemma length_unread: "buffer_ok (conn w) \<Longrightarrow> length (unread w) = buffered w"
  by (auto simp: unread_def buffered_def buffer_ok_def chunk_def min_def)

text \<open>One piece of the frame in the buffer is consumed.\<close>

lemma consume_result:
  assumes "amqp_handle_input (spare w) (conn w) (unread w) (mem w) f = (Returns n, c', h', f')"
  shows "consume_one_frame f w = (Done f', w\<lparr>conn := c'\<lparr>sock_inbound_offset := sock_inbound_offset c' + n\<rparr>, mem := h'\<rparr>)"
  using assms by (simp add: consume_one_frame_def unread_def Let_def)

lemma unread_after:
  assumes "outside c' = outside (conn w)" and "buffer_ok (conn w)" and "n \<le> length (unread w)"
    and "w' = w\<lparr>conn := c'\<lparr>sock_inbound_offset := sock_inbound_offset c' + n\<rparr>, mem := h'\<rparr>"
  shows "unread w' = drop n (unread w)"
proof -
  have "sock_inbound_offset c' = sock_inbound_offset (conn w)" "sock_inbound_limit c' = sock_inbound_limit (conn w)"
    "sock_inbound_buffer c' = sock_inbound_buffer (conn w)" using assms(1) by (simp_all add: outside_def)
  then show ?thesis by (simp add: unread_def assms(4) chunk_def drop_take add.commute)
qed

lemma input_ok_offset: "input_ok (c\<lparr>sock_inbound_offset := n\<rparr>) h = input_ok c h"
  by (rule input_ok_cong) (simp add: input_fields_def)

lemma pending_offset: "pending (c\<lparr>sock_inbound_offset := n\<rparr>) h = pending c h"
  by (simp add: pending_def split: inbound_t.split)

lemma consume_partial:
  assumes L: "listening w" and l: "length p < INT32_MAX" "length p + HEADER_SIZE + FOOTER_SIZE \<le> size_t_of_int (frame_max (conn w))"
    and d: "unread w \<noteq> []" "(pending (conn w) (mem w) @ unread w) @ later = frame_image ty ch p @ rest"
      "length (pending (conn w) (mem w) @ unread w) < length (frame_image ty ch p)"
  shows "\<exists>w'. consume_one_frame f w = (Done (f\<lparr>frame_type := 0\<rparr>), w') \<and> listening w' \<and> unread w' = [] \<and>
    pending (conn w') (mem w') = pending (conn w) (mem w) @ unread w \<and>
    recvs w' = recvs w \<and> untouched w w'"
proof -
  have ok: "input_ok (conn w) (mem w)" "buffer_ok (conn w)" "state (conn w) \<noteq> CONNECTION_STATE_INITIAL" "roomy (mem w)"
    using L by (simp_all add: listening_def world_ok_def)
  obtain c' h' where r: "amqp_handle_input (spare w) (conn w) (unread w) (mem w) f =
      (Returns (length (unread w)), c', h', f\<lparr>frame_type := 0\<rparr>)"
    and i: "input_ok c' h'" and o: "outside c' = outside (conn w)" and s: "state c' \<noteq> CONNECTION_STATE_INITIAL"
    and rm: "roomy h'" and p: "pending c' h' = pending (conn w) (mem w) @ unread w"
    using frame_partial [OF l ok(1,3,4) d, of "spare w" f] by blast
  let ?w = "w\<lparr>conn := c'\<lparr>sock_inbound_offset := sock_inbound_offset c' + length (unread w)\<rparr>, mem := h'\<rparr>"
  note c = consume_result [OF r]
  have b: "buffer_ok (conn ?w)"
    using o ok(2) length_unread [OF ok(2)] by (simp add: outside_def buffer_ok_def buffered_def)
  have "unread ?w = []" using unread_after [OF o ok(2) _ refl, of "length (unread w)" h'] by simp
  moreover have "listening ?w"
    using L i s rm b o by (simp add: listening_def world_ok_def input_ok_offset outside_def)
  ultimately show ?thesis
    using c p o by (intro exI [of _ ?w]) (simp add: pending_offset outside_def untouched_def)
qed

lemma consume_complete:
  assumes L: "listening w" and F: "payload_bytes (spare w) F p"
    and l: "length p < INT32_MAX" "length p + HEADER_SIZE + FOOTER_SIZE \<le> size_t_of_int (frame_max (conn w))"
    and d: "unread w \<noteq> []" "pending (conn w) (mem w) @ unread w = frame_image (frame_type F) (channel F) p @ rest"
  shows "\<exists>w'. consume_one_frame f w = (Done (as_received (spare w) (f\<lparr>frame_type := 0\<rparr>) F p), w') \<and> world_ok w' \<and>
    unread w' = rest \<and> state (conn w') = CONNECTION_STATE_IDLE \<and> recvs w' = recvs w \<and> untouched w w'"
proof -
  have ok: "input_ok (conn w) (mem w)" "buffer_ok (conn w)" "state (conn w) \<noteq> CONNECTION_STATE_INITIAL" "roomy (mem w)"
    using L by (simp_all add: listening_def world_ok_def)
  let ?n = "length (unread w) - length rest"
  obtain c' h' where r: "amqp_handle_input (spare w) (conn w) (unread w) (mem w) f =
      (Returns ?n, c', h', as_received (spare w) (f\<lparr>frame_type := 0\<rparr>) F p)"
    and i: "input_ok c' h'" and o: "outside c' = outside (conn w)" and s: "state c' = CONNECTION_STATE_IDLE"
    and le: "length rest \<le> length (unread w)"
    using frame_complete [OF F l ok(1,3,4) d, of f] by blast
  let ?w = "w\<lparr>conn := c'\<lparr>sock_inbound_offset := sock_inbound_offset c' + ?n\<rparr>, mem := h'\<rparr>"
  note c = consume_result [OF r]
  have "world_ok ?w" using consume_one_frame_world [OF _ c] L by (simp add: listening_def)
  moreover have "unread ?w = rest"
  proof -
    have "unread ?w = drop ?n (unread w)" by (rule unread_after [OF o ok(2) _ refl]) simp
    also have "\<dots> = drop (length (pending (conn w) (mem w)) + ?n) (pending (conn w) (mem w) @ unread w)" by simp
    also have "length (pending (conn w) (mem w)) + ?n = length (frame_image (frame_type F) (channel F) p)"
      using arg_cong [OF d(2), of length] le by (simp del: length_frame_image)
    finally show ?thesis by (simp add: d(2) del: length_frame_image)
  qed
  ultimately show ?thesis using c s o by (intro exI [of _ ?w]) (simp add: outside_def untouched_def)
qed

section \<open>Waiting for the frame\<close>

lemma wait_nothing:
  "unread w = [] \<Longrightarrow> buffer_ok (conn w) \<Longrightarrow> wait_buffered n f w = (Done (False, f), w)"
  using unread_empty [of w] by (cases n) simp_all

lemma wait_buffered_start:
  assumes "unread w \<noteq> []" and "buffer_ok (conn w)"
  shows "wait_buffered (buffered w) f w = io_bind (consume_one_frame f) (\<lambda>frame.
       if uint (frame_type frame) = AMQP_FRAME_HEARTBEAT
       then (\<lambda>w1. case amqp_maybe_release_buffers_on_channel (conn w1) 0 (mem w1) of (c, h) \<Rightarrow>
         wait_buffered (buffered w - 1) frame (w1\<lparr>conn := c, mem := h\<rparr>))
       else if frame_type frame \<noteq> 0 then io_return (True, frame)
       else wait_buffered (buffered w - 1) frame) w"
proof -
  obtain n where n: "buffered w = Suc n" using length_unread [OF assms(2)] assms(1) by (cases "buffered w") auto
  have "amqp_data_in_buffer (conn w)" using unread_empty [OF assms(2)] assms(1) by simp
  then show ?thesis by (simp add: n cong: if_cong)
qed

text \<open>The loop with a piece of a frame in the buffer is the loop that waits for the next one.\<close>

lemma wait_loop_partial:
  assumes L: "listening w" and l: "length p < INT32_MAX" "length p + HEADER_SIZE + FOOTER_SIZE \<le> size_t_of_int (frame_max (conn w))"
    and d: "unread w \<noteq> []" "(pending (conn w) (mem w) @ unread w) @ later = frame_image ty ch p @ rest"
      "length (pending (conn w) (mem w) @ unread w) < length (frame_image ty ch p)"
  shows "\<exists>w'. wait_frame_loop (Suc n) True f t w = wait_frame_loop (Suc n) True (f\<lparr>frame_type := 0\<rparr>) t w' \<and>
    listening w' \<and> unread w' = [] \<and> pending (conn w') (mem w') = pending (conn w) (mem w) @ unread w \<and>
    recvs w' = recvs w \<and> untouched w w'"
proof -
  let ?f = "f\<lparr>frame_type := 0\<rparr>"
  obtain w' where c: "consume_one_frame f w = (Done ?f, w')" and w': "listening w'" "unread w' = []"
      "pending (conn w') (mem w') = pending (conn w) (mem w) @ unread w"
      "recvs w' = recvs w" "untouched w w'"
    using consume_partial [OF L l d, of f] by blast
  have b: "buffer_ok (conn w)" "buffer_ok (conn w')" using L w'(1) by (simp_all add: listening_def world_ok_def)
  have "wait_buffered (buffered w) f w = (Done (False, ?f), w')"
    by (simp add: wait_buffered_start [OF d(1) b(1)] io_bind_def c wait_nothing [OF w'(2) b(2)] AMQP_FRAME_HEARTBEAT_def)
  moreover have "wait_buffered (buffered w') ?f w' = (Done (False, ?f), w')" by (rule wait_nothing [OF w'(2) b(2)])
  ultimately have "wait_frame_loop (Suc n) True f t w = wait_frame_loop (Suc n) True ?f t w'"
    by (simp add: io_bind_def)
  with w' show ?thesis by blast
qed

lemma wait_loop_complete:
  assumes L: "listening w" and F: "payload_bytes (spare w) F p" "uint (frame_type F) \<noteq> AMQP_FRAME_HEARTBEAT"
    and l: "length p < INT32_MAX" "length p + HEADER_SIZE + FOOTER_SIZE \<le> size_t_of_int (frame_max (conn w))"
    and d: "unread w \<noteq> []" "pending (conn w) (mem w) @ unread w = frame_image (frame_type F) (channel F) p @ rest"
  shows "\<exists>w'. wait_frame_loop (Suc n) True f t w = (Done (as_received (spare w) fresh_frame F p), w') \<and>
    world_ok w' \<and> unread w' = rest \<and> state (conn w') = CONNECTION_STATE_IDLE \<and> recvs w' = recvs w \<and> untouched w w'"
proof -
  let ?F = "as_received (spare w) (f\<lparr>frame_type := 0\<rparr>) F p"
  obtain w' where c: "consume_one_frame f w = (Done ?F, w')" and w': "world_ok w'" "unread w' = rest"
      "state (conn w') = CONNECTION_STATE_IDLE" "recvs w' = recvs w" "untouched w w'"
    using consume_complete [OF L F(1) l d, of f] by blast
  have b: "buffer_ok (conn w)" using L by (simp add: listening_def world_ok_def)
  have same: "?F = as_received (spare w) fresh_frame F p" using F(2) by (simp add: as_received_def)
  have ty: "frame_type ?F = frame_type F" by (simp add: as_received_def)
  have "uint (frame_type F) \<noteq> 0" using F by (auto simp: payload_bytes_def frame_types split: if_splits)
  then have "frame_type F \<noteq> 0" by auto
  then have "wait_buffered (buffered w) f w = (Done (True, ?F), w')"
    using F(2) by (simp add: wait_buffered_start [OF d(1) b] io_bind_def c ty io_return_def)
  then have "wait_frame_loop (Suc n) True f t w = (Done ?F, w')"
    by (simp add: io_bind_def io_return_def)
  with w' same show ?thesis by simp
qed

text \<open>A round that receives a piece.\<close>

lemma wait_loop_receive:
  assumes L: "listening w" and u: "unread w = []" and r: "recvs w = Os_data d # rs" "d \<noteq> []"
      "length d \<le> length (sock_inbound_buffer (conn w))"
  shows "\<exists>w'. wait_frame_loop (Suc n) True f t w = wait_frame_loop n True f t w' \<and> listening w' \<and> unread w' = d \<and>
    recvs w' = rs \<and> pending (conn w') (mem w') = pending (conn w) (mem w) \<and>
    untouched w w'"
proof -
  have b: "buffer_ok (conn w)" "heartbeat (conn w) = 0" "sockfd w \<noteq> None"
      "next_send_heartbeat (conn w) = amqp_time_infinite"
    using L by (simp_all add: listening_def world_ok_def)
  let ?w1 = "w\<lparr>ticks := Suc (ticks w)\<rparr>"
  let ?w = "?w1\<lparr>recvs := rs, ticks := Suc (ticks ?w1),
    conn := (conn w)\<lparr>sock_inbound_buffer := write_at (sock_inbound_buffer (conn w)) 0 d,
      sock_inbound_limit := length d, sock_inbound_offset := 0, next_recv_heartbeat := amqp_time_infinite\<rparr>\<rparr>"
  have "recv_with_timeout x ?w1 = (Done (), ?w)" for x
    using recv_piece [of ?w1 d rs x] r b by simp
  then have e: "wait_frame_loop (Suc n) True f t w = wait_frame_loop n True f t ?w"
    by (simp add: io_bind_def io_catch_def wait_nothing [OF u b(1)] no_heartbeat_due [OF b(4)] get_conn_def io_return_def
        del: wait_buffered.simps)
  have i: "input_ok (conn ?w) (mem w) = input_ok (conn w) (mem w)"
    by (rule input_ok_cong) (simp add: input_fields_def)
  have "buffer_ok (conn ?w)" using r(3) by (simp add: buffer_ok_def)
  then have "listening ?w" using L i by (simp add: listening_def world_ok_def)
  moreover have "unread ?w = d" using chunk_write_at_same [of 0 d "sock_inbound_buffer (conn w)"] r(3) by (simp add: unread_def)
  moreover have "pending (conn ?w) (mem ?w) = pending (conn w) (mem w)"
    by (simp add: pending_def split: inbound_t.split)
  ultimately show ?thesis using e r(3) by (intro exI [of _ ?w]) (simp add: untouched_def)
qed

lemma wait_loop_pieces:
  assumes "listening w" and F: "payload_bytes (spare w) F p" "uint (frame_type F) \<noteq> AMQP_FRAME_HEARTBEAT"
    and l: "length p < INT32_MAX" "length p + HEADER_SIZE + FOOTER_SIZE \<le> size_t_of_int (frame_max (conn w))"
    and "unread w = []" and "recvs w = map Os_data ds @ rs" and "[] \<notin> set ds" and "ds \<noteq> []"
    and "\<forall>d \<in> set ds. length d \<le> length (sock_inbound_buffer (conn w))"
    and "pending (conn w) (mem w) @ concat ds = frame_image (frame_type F) (channel F) p @ rest"
    and "length (pending (conn w) (mem w) @ concat (butlast ds)) < length (frame_image (frame_type F) (channel F) p)"
    and "length ds < n"
  shows "\<exists>w'. wait_frame_loop n True f t w = (Done (as_received (spare w) fresh_frame F p), w') \<and>
    world_ok w' \<and> unread w' = rest \<and> state (conn w') = CONNECTION_STATE_IDLE \<and> recvs w' = rs \<and> untouched w w'"
  using assms
proof (induction ds arbitrary: w n f)
  case Nil
  then show ?case by simp
next
  case (Cons d ds)
  note P = Cons.prems
  let ?i = "frame_image (frame_type F) (channel F) p"
  obtain m where n: "n = Suc (Suc m)" using P(13) by (cases n; cases "n - 1") auto
  obtain w1 where w1: "wait_frame_loop n True f t w = wait_frame_loop (Suc m) True f t w1" "listening w1" "unread w1 = d"
      "recvs w1 = map Os_data ds @ rs" "pending (conn w1) (mem w1) = pending (conn w) (mem w)"
      "untouched w w1"
    using wait_loop_receive [OF P(1) P(6), of d "map Os_data ds @ rs" "Suc m" f t] P(7,8,10) n by auto
  have l1: "length p + HEADER_SIZE + FOOTER_SIZE \<le> size_t_of_int (frame_max (conn w1))" using P(5) w1(6) by (simp add: untouched_def)
  have F1: "payload_bytes (spare w1) F p" using P(2) w1(6) by (simp add: untouched_def)
  have u1: "unread w1 \<noteq> []" using P(8) w1(3) by auto
  show ?case
  proof (cases "ds = []")
    case True
    have "pending (conn w1) (mem w1) @ unread w1 = ?i @ rest" using P(11) True w1(3,5) by simp
    from wait_loop_complete [OF w1(2) F1 P(3) P(4) l1 u1 this, of m f t] w1 True show ?thesis
      by (auto simp: untouched_def)
  next
    case False
    have a: "(pending (conn w1) (mem w1) @ unread w1) @ concat ds = ?i @ rest" using P(11) w1(3,5) by simp
    have b: "length (pending (conn w1) (mem w1) @ unread w1) < length ?i"
      using P(12) False w1(3,5) by simp
    obtain w2 where w2: "wait_frame_loop (Suc m) True f t w1 = wait_frame_loop (Suc m) True (f\<lparr>frame_type := 0\<rparr>) t w2"
        "listening w2" "unread w2 = []" "pending (conn w2) (mem w2) = pending (conn w1) (mem w1) @ unread w1"
        "recvs w2 = recvs w1" "untouched w1 w2"
      using wait_loop_partial [OF w1(2) P(4) l1 u1 a b, of m f t] by blast
    have u: "untouched w w2" by (rule untouched_trans [OF w1(6) w2(6)])
    then have s: "spare w2 = spare w" by (simp add: untouched_def)
    from Cons.IH [OF w2(2) _ P(3,4) _ w2(3), of "Suc m" "f\<lparr>frame_type := 0\<rparr>"] w1(1,3-5) w2(1,4,5) u P n False
    show ?thesis by (auto simp: s) (simp_all add: untouched_def)
  qed
qed

text \<open>The frame is handed to the caller, and the bytes behind it stay in the buffer.\<close>

lemma wait_frame_receives:
  assumes "listening w" and "unread w = []" and F: "payload_bytes (spare w) F p" "uint (frame_type F) \<noteq> AMQP_FRAME_HEARTBEAT"
    and l: "length p < INT32_MAX" "length p + HEADER_SIZE + FOOTER_SIZE \<le> size_t_of_int (frame_max (conn w))"
    and "recvs w = map Os_data ds @ rs" and "[] \<notin> set ds" and "ds \<noteq> []"
    and "\<forall>d \<in> set ds. length d \<le> length (sock_inbound_buffer (conn w))"
    and "pending (conn w) (mem w) @ concat ds = frame_image (frame_type F) (channel F) p @ rest"
    and "length (pending (conn w) (mem w) @ concat (butlast ds)) < length (frame_image (frame_type F) (channel F) p)"
  shows "\<exists>w'. wait_frame_inner f t w = (Done (as_received (spare w) fresh_frame F p), w') \<and>
    world_ok w' \<and> unread w' = rest \<and> state (conn w') = CONNECTION_STATE_IDLE \<and> recvs w' = rs \<and> untouched w w'"
  unfolding wait_frame_inner_def
  by (rule wait_loop_pieces [OF assms(1) F l assms(2,7-12)]) (simp add: assms(7))

end
