(* ===== verification/Rpc_Laws.thy ===== *)
theory Rpc_Laws
  imports Frame_Receiving "HOL-Library.Sublist"
begin

text \<open>
  Replies: what \<open>amqp_simple_rpc\<close> returns, the order of the queue of frames, and a call
  that is answered.
\<close>

section \<open>Received methods\<close>

text \<open>
  A frame of type \<open>AMQP_FRAME_METHOD\<close> that is handed out carries a method that was decoded,
  so the code reads the member of the union that was stored.
\<close>

definition known :: "amqp_method_t \<Rightarrow> bool" where
  "known m \<longleftrightarrow> (\<forall>k. m \<noteq> M_unknown k)"

definition decoded_frame :: "amqp_frame_t \<Rightarrow> bool" where
  "decoded_frame f \<longleftrightarrow>
    (uint (frame_type f) = AMQP_FRAME_METHOD \<longrightarrow> (\<exists>m. payload f = Method_payload m \<and> known m))"

definition hands_out :: "input_result \<Rightarrow> bool" where
  "hands_out res \<longleftrightarrow> (case res of (r, c, h, f) \<Rightarrow> \<forall>n. r = Returns n \<longrightarrow> decoded_frame f)"

lemma hands_out_simps [simp]:
  "hands_out (Fails err, x)" "hands_out (Undefined, x)" "hands_out (OutOfFuel, x)"
  "hands_out (Returns n, c, h, f) \<longleftrightarrow> decoded_frame f"
  by (cases x; simp add: hands_out_def)+

lemma decode_payload_out:
  assumes "decode_payload d wrap v pool n c h f = (Returns k, c', h', f')"
  obtains x s s' where "d v s = (Returns x, s')" "f' = f\<lparr>payload := wrap x\<rparr>"
  using assms by (auto simp: decode_payload_def Let_def split: prod.splits dres.splits)

lemma decode_method_known: "amqp_decode_method n v s = (Returns x, s') \<Longrightarrow> known x"
  using yields_method [of n] unfolding yields_def known_def by blast

lemma decode_raw_frame_out: "hands_out (decode_raw_frame p0 raw pool n c h f)"
proof (cases "uint (frame_type f) = AMQP_FRAME_METHOD")
  case True
  have "decoded_frame f'" if "decode_method_frame raw pool n c h f = (Returns k, c', h', f')" for k c' h' f'
    using that
    by (auto simp: decode_method_frame_def decoded_frame_def elim!: decode_payload_out dest: decode_method_known
        split: if_splits)
  with True show ?thesis by (auto simp: hands_out_def decode_raw_frame_def Let_def)
next
  case False
  have "decoded_frame f'" if "decode_header_frame p0 raw pool n c h f = (Returns k, c', h', f')" for k c' h' f'
    using that False
    by (auto simp: decode_header_frame_def decoded_frame_def Let_def elim!: decode_payload_out split: if_splits)
  with False show ?thesis
    by (auto simp: hands_out_def decode_raw_frame_def Let_def decoded_frame_def frame_types)
qed

lemma handle_body_out: "hands_out (handle_body p0 n c h f)"
proof (cases "inbound_buffer c")
  case (In_pool a)
  obtain b base where a: "a = (b, base)" by fastforce
  let ?raw = "chunk base (target_size c) (content h b)"
  let ?f = "f\<lparr>frame_type := amqp_d8 is_bigendian (chunk 0 1 ?raw), channel := amqp_d16 is_bigendian (chunk 1 2 ?raw)\<rparr>"
  obtain p c1 h1 where g: "amqp_get_or_create_channel_pool c (channel ?f) h = (p, c1, h1)"
    by (cases "amqp_get_or_create_channel_pool c (channel ?f) h")
  show ?thesis
    using decode_raw_frame_out [of p0 ?raw "the p" n c1 h1 ?f] g
    by (auto simp: handle_body_def In_pool a Let_def hands_out_def split: option.splits)
qed (simp_all add: handle_body_def hands_out_def)

text \<open>Before a frame is complete its type is 0.\<close>

lemma type_0_out [simp]: "frame_type f = 0 \<Longrightarrow> decoded_frame f"
  by (simp add: decoded_frame_def frame_types)

lemma collect_body_out: "frame_type f = 0 \<Longrightarrow> hands_out (collect_body p0 n d c h f)"
  by (simp add: collect_body_def handle_body_out split: option.split prod.split)

lemma handle_header_out: "frame_type f = 0 \<Longrightarrow> hands_out (handle_header p0 n d c h f)"
  by (simp add: handle_header_def collect_body_out split: option.split prod.split)

lemma handle_initial_out: "frame_type f = 0 \<Longrightarrow> hands_out (handle_initial p0 n d c h f)"
  by (simp add: handle_initial_def handle_header_out Let_def)
    (simp add: decoded_frame_def frame_types AMQP_PSEUDOFRAME_PROTOCOL_HEADER_def)

lemma handle_input_out: "hands_out (amqp_handle_input p0 c d h f)"
proof -
  show ?thesis
    by (simp add: amqp_handle_input_def Let_def handle_initial_out handle_header_out handle_body_out
        split: option.split prod.split amqp_connection_state_enum.split)
qed

lemma consume_out: "consume_one_frame f w = (Done g, w') \<Longrightarrow> decoded_frame g"
  using handle_input_out [of "spare w" "conn w" "unread w" "mem w" f]
  by (auto simp: consume_one_frame_def unread_def hands_out_def Let_def split: prod.splits dres.splits)

lemma wait_buffered_out: "wait_buffered n f w = (Done (True, g), w') \<Longrightarrow> decoded_frame g"
proof (induction n arbitrary: f w)
  case (Suc n)
  from Suc.prems have "amqp_data_in_buffer (conn w)" by (auto split: if_splits)
  with Suc.prems obtain x w1 where c: "consume_one_frame f w = (Done x, w1)"
    and k: "(if uint (frame_type x) = AMQP_FRAME_HEARTBEAT
        then (\<lambda>w. case amqp_maybe_release_buffers_on_channel (conn w) 0 (mem w) of (c, h) \<Rightarrow>
          wait_buffered n x (w\<lparr>conn := c, mem := h\<rparr>))
        else if frame_type x \<noteq> 0 then io_return (True, x) else wait_buffered n x) w1 = (Done (True, g), w')"
    by (auto elim!: bind_Done)
  then show ?case
    using consume_out [OF c] Suc.IH by (auto simp: io_return_def split: if_splits prod.splits)
qed (simp split: if_splits)

lemma wait_frame_out: "wait_frame_loop n scan f t w = (Done g, w') \<Longrightarrow> decoded_frame g"
proof (induction n arbitrary: scan f w)
  case (Suc n)
  from Suc.prems obtain p w1
    where s: "(if scan then wait_buffered (buffered w) f else io_return (False, f)) w = (Done p, w1)"
      and k: "(case p of (complete, frame) \<Rightarrow>
      if complete then io_return frame
      else io_bind send_due_heartbeat (\<lambda>_.
        io_bind (get_conn (recv_deadline t)) (\<lambda>deadline.
        io_bind (io_catch (io_bind (recv_with_timeout deadline) (\<lambda>_. io_return True)) (\<lambda>code.
          if code = status_code AMQP_STATUS_TIMEOUT
          then (\<lambda>w.
            if amqp_time_equal deadline (next_recv_heartbeat (conn w))
            then io_bind amqp_socket_close (\<lambda>_. io_fail AMQP_STATUS_HEARTBEAT_TIMEOUT) w
            else if amqp_time_equal deadline t then io_fail AMQP_STATUS_TIMEOUT w
            else if amqp_time_equal deadline (next_send_heartbeat (conn w)) then (Done False, w)
            else (Crash, w))
          else io_error code)) (\<lambda>scan.
        wait_frame_loop n scan frame t)))) w1 = (Done g, w')"
    unfolding wait_frame_loop.simps by (rule bind_Done)
  obtain b x where p: "p = (b, x)" by fastforce
  show ?case
  proof (cases b)
    case True
    then have "scan" "g = x" using s k p by (auto simp: io_return_def split: if_splits)
    with s p True wait_buffered_out show ?thesis by auto
  next
    case False
    with k p obtain w2 where "\<exists>c. wait_frame_loop n c x t w2 = (Done g, w')"
      by (auto elim!: bind_Done)
    with Suc.IH show ?thesis by blast
  qed
qed simp

section \<open>Replies\<close>

lemma id_in_reply_list: "amqp_id_in_reply_list x xs \<longleftrightarrow> x \<in> set xs"
  by (induction xs) auto

text \<open>\<open>proper_reply ids r\<close>: the reply has the form that its type says.\<close>

definition proper_reply :: "amqp_method_number_t list \<Rightarrow> amqp_rpc_reply_t \<Rightarrow> bool" where
  "proper_reply ids r \<longleftrightarrow> (case reply_type r of
     AMQP_RESPONSE_NORMAL \<Rightarrow> \<exists>m. reply r = Some m \<and> known m \<and> method_number m \<in> set ids
   | AMQP_RESPONSE_SERVER_EXCEPTION \<Rightarrow> \<exists>m. reply r = Some m \<and> known m \<and> method_number m \<notin> set ids \<and>
       (method_number m = AMQP_CHANNEL_CLOSE_METHOD \<or> method_number m = AMQP_CONNECTION_CLOSE_METHOD)
   | AMQP_RESPONSE_LIBRARY_EXCEPTION \<Rightarrow> reply r = None
   | AMQP_RESPONSE_NONE \<Rightarrow> False)"

lemma rpc_loop_reply: "rpc_loop n ch ids t f w = (Done r, w') \<Longrightarrow> proper_reply ids r"
proof (induction n arbitrary: f w)
  case (Suc n)
  then obtain frame w1 where x: "io_catch (wait_frame_inner f t) (\<lambda>status.
        if status = status_code AMQP_STATUS_TIMEOUT
        then io_bind amqp_socket_close (\<lambda>_. io_error status)
        else io_error status) w = (Done frame, w1)"
    and k: "(case ends_rpc ch ids frame of
        None \<Rightarrow> io_bind (enqueue_copy frame) (\<lambda>_. rpc_loop n ch ids t frame)
      | Some m \<Rightarrow> io_return
          \<lparr>reply_type = (if amqp_id_in_reply_list (method_number m) ids
             then AMQP_RESPONSE_NORMAL else AMQP_RESPONSE_SERVER_EXCEPTION),
           reply = Some m, library_error = 0\<rparr>) w1 = (Done r, w')"
    by (auto elim!: bind_Done)
  from x have "wait_frame_inner f t w = (Done frame, w1)"
    by (rule io_catch_cases) (auto simp: io_defs amqp_socket_close_def amqp_tcp_socket_close_def split: if_splits)
  then have d: "decoded_frame frame" by (auto simp: wait_frame_inner_def dest: wait_frame_out simp del: wait_frame_loop.simps)
  show ?case
  proof (cases "ends_rpc ch ids frame")
    case None
    with k Suc.IH show ?thesis by (auto elim!: bind_Done)
  next
    case (Some m)
    with k have r: "r = \<lparr>reply_type = (if amqp_id_in_reply_list (method_number m) ids
             then AMQP_RESPONSE_NORMAL else AMQP_RESPONSE_SERVER_EXCEPTION),
           reply = Some m, library_error = 0\<rparr>"
      by (simp add: io_return_def)
    with Some d show ?thesis
      by (auto simp: proper_reply_def ends_rpc_def decoded_frame_def id_in_reply_list split: if_splits amqp_payload_t.splits)
  qed
qed simp

lemma with_reply_total: "with_reply m w = (r, w') \<Longrightarrow> (\<forall>c. r \<noteq> Error c) \<and>
    (\<forall>x. r = Done x \<longrightarrow> m w = (Done x, w') \<or> (\<exists>c. m w = (Error c, w') \<and> x = amqp_rpc_reply_error c))"
  by (cases "m w"; cases "fst (m w)") (auto simp: with_reply_def io_catch_def io_return_def)

lemma error_reply: "proper_reply ids (amqp_rpc_reply_error c)"
  by (simp add: proper_reply_def amqp_rpc_reply_error_def)

lemma rpc_inner_reply: "simple_rpc_inner ch ids m t w = (Done r, w') \<Longrightarrow> proper_reply ids r"
proof -
  assume a: "simple_rpc_inner ch ids m t w = (Done r, w')"
  let ?m = "io_bind (amqp_send_method ch m) (\<lambda>_ w. rpc_loop (Suc (bytes_to_come w)) ch ids t fresh_frame w)"
  have "proper_reply ids r" if d: "?m w = (Done r, w')"
  proof -
    obtain x w1 where s: "amqp_send_method ch m w = (x, w1)" by fastforce
    with d have "rpc_loop (Suc (bytes_to_come w1)) ch ids t fresh_frame w1 = (Done r, w')"
      by (cases x) (simp_all add: io_bind_def del: rpc_loop.simps)
    then show ?thesis by (rule rpc_loop_reply)
  qed
  with with_reply_total [OF a [unfolded simple_rpc_inner_def]] error_reply show ?thesis
    by (auto simp del: rpc_loop.simps)
qed

lemma rpc_reply:
  assumes "amqp_simple_rpc ch ids m w = (r, w')"
  shows "(\<forall>c. r \<noteq> Error c) \<and> (\<forall>x. r = Done x \<longrightarrow> proper_reply ids x)"
proof -
  let ?m = "io_bind (get_conn rpc_timeout) (\<lambda>t. io_bind (deadline_from t) (simple_rpc_inner ch ids m))"
  have "proper_reply ids x" if d: "?m w = (Done x, w')" for x
  proof -
    obtain y w1 where s: "deadline_from (rpc_timeout (conn w)) w = (y, w1)" by fastforce
    with d obtain t where "simple_rpc_inner ch ids m t w1 = (Done x, w')"
      by (cases y) (auto simp: io_bind_def get_conn_def)
    then show ?thesis by (rule rpc_inner_reply)
  qed
  with with_reply_total [OF assms [unfolded amqp_simple_rpc_def]] error_reply show ?thesis by blast
qed

text \<open>A decoded reply is of the type that was asked for.\<close>

lemma rpc_decoded_reply:
  assumes "amqp_simple_rpc_decoded ch rid m w = (Done (Some x), w')"
  shows "method_number x = rid \<and> known x"
proof -
  obtain r w1 where r: "amqp_simple_rpc ch [rid] m w = (r, w1)" by fastforce
  with assms obtain y where y: "r = Done y" and n: "reply_type y = AMQP_RESPONSE_NORMAL" "reply y = Some x"
    by (cases r) (auto simp: amqp_simple_rpc_decoded_def io_bind_def io_return_def change_conn_def split: if_splits)
  from rpc_reply [OF r] y n show ?thesis by (auto simp: proper_reply_def)
qed

section \<open>The queue of frames\<close>

text \<open>The functions on the queue as operations that may fail for want of memory.\<close>

definition succeeds :: "unit outcome \<times> world \<Rightarrow> world option" where
  "succeeds res = (case res of (Done _, w) \<Rightarrow> Some w | _ \<Rightarrow> None)"

lemma succeeds_Some: "succeeds res = Some w \<longleftrightarrow> res = (Done (), w)"
proof -
  obtain x w1 where "res = (x, w1)" by fastforce
  then show ?thesis by (cases x) (simp_all add: succeeds_def)
qed

lemma channel_allocs_outside:
  assumes "channel_allocs ch ns w = (r, w')"
  shows "outside (conn w') = outside (conn w)"
proof -
  obtain p c h where g: "amqp_get_or_create_channel_pool (conn w) ch (mem w) = (p, c, h)"
    by (cases "amqp_get_or_create_channel_pool (conn w) ch (mem w)")
  with get_or_create_outside [OF g] assms show ?thesis
    by (auto simp: channel_allocs_def Let_def split: option.splits prod.splits if_splits)
qed

lemma queue_frame_done:
  assumes "amqp_queue_frame f w = (Done (), w')"
  shows "first_queued_frame (conn w') = first_queued_frame (conn w) @ [f]"
proof -
  obtain r w1 where a: "channel_allocs (channel f) [SIZEOF_LINK, SIZEOF_FRAME] w = (r, w1)" by fastforce
  with channel_allocs_outside [OF a] assms show ?thesis
    by (cases r) (auto simp: amqp_queue_frame_def amqp_create_link_for_frame_def append_frame_def
        change_conn_def io_bind_def outside_def)
qed

lemma put_back_frame_done:
  assumes "amqp_put_back_frame f w = (Done (), w')"
  shows "first_queued_frame (conn w') = f # first_queued_frame (conn w)"
proof -
  obtain r w1 where a: "channel_allocs (channel f) [SIZEOF_LINK, SIZEOF_FRAME] w = (r, w1)" by fastforce
  with channel_allocs_outside [OF a] assms show ?thesis
    by (cases r) (auto simp: amqp_put_back_frame_def amqp_create_link_for_frame_def
        change_conn_def io_bind_def outside_def)
qed

text \<open>Memory is the only reason for a failure.\<close>

lemma pool_allocs_roomy:
  assumes "roomy h" and "0 \<notin> set ns"
  shows "fst (pool_allocs ns pool h)"
  using assms
proof (induction ns arbitrary: pool h)
  case (Cons n ns)
  obtain p pool1 h1 where a: "amqp_pool_alloc pool n h = (p, pool1, h1)" by (cases "amqp_pool_alloc pool n h")
  have "p \<noteq> None" using pool_alloc_roomy [OF a Cons.prems(1)] Cons.prems(2) by auto
  moreover have "roomy h1" using Cons.prems(1) roomy_cong [OF fails_pool_alloc [OF a]] by simp
  ultimately show ?case using Cons a by (auto split: prod.split)
qed simp

lemma channel_allocs_roomy:
  assumes "roomy (mem w)" and "pools_ok (conn w) (mem w)" and "0 \<notin> set ns"
  shows "\<exists>w'. channel_allocs ch ns w = (Done (), w')"
proof -
  obtain p c h where g: "amqp_get_or_create_channel_pool (conn w) ch (mem w) = (p, c, h)"
    by (cases "amqp_get_or_create_channel_pool (conn w) ch (mem w)")
  note G = get_or_create_ok [OF assms(2) g]
  obtain pool where p: "p = Some pool" using G(3) [OF assms(1)] by blast
  have "roomy h" using assms(1) roomy_cong [OF G(4)] by simp
  from pool_allocs_roomy [OF this assms(3), of pool] g p show ?thesis
    by (cases "pool_allocs ns pool h") (simp add: channel_allocs_def Let_def)
qed

text \<open>
  Frames that are queued stay queued, in order, whatever a call does: new ones go behind.
\<close>

interpretation kept_receive: io_receive "\<lambda>w :: world. prefix q (first_queued_frame (conn w))"
  "\<lambda>w :: world. prefix q (first_queued_frame (conn w))" for q
  by unfold_locales simp_all

interpretation kept_queue: io_bytes "\<lambda>w :: world. prefix q (first_queued_frame (conn w))"
  "\<lambda>w :: world. prefix q (first_queued_frame (conn w))" for q
proof unfold_locales
  fix d
  show "keep (\<lambda>w :: world. prefix q (first_queued_frame (conn w)))
      (\<lambda>w :: world. prefix q (first_queued_frame (conn w))) (recv_with_timeout d)"
    by (rule kept_receive.receive_keeps)
next
  fix f
  show "keep (\<lambda>w :: world. prefix q (first_queued_frame (conn w))) (\<lambda>w :: world. prefix q (first_queued_frame (conn w))) (consume_one_frame f)"
  proof (rule keep_snd)
    fix w :: world assume p: "prefix q (first_queued_frame (conn w))"
    let ?d = "chunk (sock_inbound_offset (conn w)) (sock_inbound_limit (conn w) - sock_inbound_offset (conn w))
      (sock_inbound_buffer (conn w))"
    have "first_queued_frame (conn (snd (consume_one_frame f w))) = first_queued_frame (conn w)"
      using handle_input_outside [of "conn w" "spare w" ?d "mem w" f]
      by (auto simp: consume_one_frame_def Let_def leaves_outside_def outside_def split: prod.splits dres.splits)
    with p show "prefix q (first_queued_frame (conn (snd (consume_one_frame f w))))" by simp
  qed
next
  fix ch
  show "keep (\<lambda>w :: world. prefix q (first_queued_frame (conn w))) (\<lambda>w :: world. prefix q (first_queued_frame (conn w)))
      (channel_allocs ch [SIZEOF_LINK, SIZEOF_FRAME])"
    "keep (\<lambda>w :: world. prefix q (first_queued_frame (conn w))) (\<lambda>w :: world. prefix q (first_queued_frame (conn w)))
      (channel_allocs ch [SIZEOF_FRAME, SIZEOF_LINK])"
    by (rule keepI; drule channel_allocs_outside; simp add: outside_def)+
next
  fix f
  show "keep (\<lambda>w :: world. prefix q (first_queued_frame (conn w))) (\<lambda>w :: world. prefix q (first_queued_frame (conn w))) (append_frame f)"
    by (auto simp: keep_def append_frame_def change_conn_def)
next
  fix w :: world and ch c h assume "prefix q (first_queued_frame (conn w))"
    and r: "amqp_maybe_release_buffers_on_channel (conn w) ch (mem w) = (c, h)"
  moreover have "first_queued_frame c = first_queued_frame (conn w)"
    using r by (auto simp: amqp_maybe_release_buffers_on_channel_def set_channel_pool_def
        split: if_splits option.splits prod.splits)
  ultimately show "prefix q (first_queued_frame (conn (w\<lparr>conn := c, mem := h\<rparr>)))" by simp
qed simp_all

section \<open>A call that is answered\<close>

lemma send_at_once:
  assumes e: "amqp_frame_to_bytes f (outbound_buffer (conn w)) = (Returns bytes, buf)" and b: "bytes \<noteq> []"
    and s: "sends w = Os_sent k # ss" "length bytes \<le> k" "sockfd w \<noteq> None" and h: "heartbeat (conn w) = 0"
  shows "amqp_send_frame_inner f d w = (Done (), w\<lparr>sends := ss, sent := sent w @ bytes, ticks := Suc (ticks w),
    conn := (conn w)\<lparr>outbound_buffer := buf, next_send_heartbeat := amqp_time_infinite\<rparr>\<rparr>)"
proof -
  let ?w = "w\<lparr>conn := (conn w)\<lparr>outbound_buffer := buf\<rparr>\<rparr>"
  have m: "min k (length bytes) = length bytes" using s(2) by simp
  obtain n where n: "length bytes = Suc n" using b by (cases bytes) auto
  have "amqp_tcp_socket_send bytes ?w = (Done (Moved (length bytes)), ?w\<lparr>sends := ss, sent := sent w @ bytes\<rparr>)"
    using s m by (auto simp: amqp_tcp_socket_send_def)
  then have "amqp_try_send bytes t ?w = (Done (length bytes), ?w\<lparr>sends := ss, sent := sent w @ bytes\<rparr>)" for t
    using n by (simp add: amqp_try_send_def io_bind_def io_return_def)
  then show ?thesis
    using h by (simp add: amqp_send_frame_inner_def e Let_def io_bind_def schedule_send_heartbeat_def read_clock_def
        get_conn_def timed_def amqp_heartbeat_send_def amqp_time_s_from_now_def change_conn_def io_return_def)
qed

lemma frame_bytes_image:
  assumes "payload_bytes p0 F p" and "amqp_frame_to_bytes F buf = (Returns bytes, buf')"
  shows "bytes = frame_image (frame_type F) (channel F) p"
  using frame_to_bytes_fits [OF assms(1) frame_to_bytes_only [OF assms]] assms(2) by simp

definition method_frame :: "amqp_channel_t \<Rightarrow> amqp_method_t \<Rightarrow> amqp_frame_t" where
  "method_frame ch m = \<lparr>frame_type = word_of_int AMQP_FRAME_METHOD, channel = ch, payload = Method_payload m\<rparr>"

lemma method_frame_simps [simp]:
  "uint (frame_type (method_frame ch m)) = AMQP_FRAME_METHOD" "channel (method_frame ch m) = ch"
  "payload (method_frame ch m) = Method_payload m" "as_received p0 old (method_frame ch m) p = method_frame ch m"
  by (simp_all add: method_frame_def AMQP_FRAME_METHOD_def as_received_def frame_types)

text \<open>
  \<open>delivers w bytes rest ds rs\<close>: the next answers of \<open>recv\<close> are the non-empty pieces \<open>ds\<close>,
  which hold \<open>bytes\<close> and, in the last piece, the first bytes \<open>rest\<close> of what follows.
\<close>

definition delivers :: "world \<Rightarrow> byte list \<Rightarrow> byte list \<Rightarrow> byte list list \<Rightarrow> recv_answer list \<Rightarrow> bool" where
  "delivers w bytes rest ds rs \<longleftrightarrow> recvs w = map Os_data ds @ rs \<and> ds \<noteq> [] \<and> [] \<notin> set ds \<and>
     (\<forall>d \<in> set ds. length d \<le> length (sock_inbound_buffer (conn w))) \<and>
     concat ds = bytes @ rest \<and> length (concat (butlast ds)) < length bytes"

lemma wait_frame_delivered:
  assumes L: "listening w" "unread w = []" "state (conn w) = CONNECTION_STATE_IDLE"
    and F: "valid_frame F" "uint (frame_type F) \<noteq> AMQP_FRAME_HEARTBEAT"
    and e: "amqp_frame_to_bytes F buf = (Returns bytes, buf')"
    and l: "length bytes < INT32_MAX" "length bytes \<le> size_t_of_int (frame_max (conn w))"
    and d: "delivers w bytes rest ds rs"
  shows "\<exists>w' p. wait_frame_inner f t w = (Done (as_received (spare w) fresh_frame F p), w') \<and>
    payload_bytes (spare w) F p \<and> world_ok w' \<and> unread w' = rest \<and> state (conn w') = CONNECTION_STATE_IDLE \<and>
    recvs w' = rs \<and> untouched w w'"
proof -
  obtain p where p: "payload_bytes (spare w) F p" using valid_frame_payload [OF F(1)] by blast
  note b = frame_bytes_image [OF p e]
  have "pending (conn w) (mem w) = []"
    using L pending_idle by (auto simp: listening_def world_ok_def)
  with wait_frame_receives [OF L(1,2) p F(2), of ds rs rest f t] l d p show ?thesis
    unfolding delivers_def b by auto
qed

text \<open>The reply to a call that is answered as it should be.\<close>

definition normal_reply :: "amqp_method_t \<Rightarrow> amqp_rpc_reply_t" where
  "normal_reply m = \<lparr>reply_type = AMQP_RESPONSE_NORMAL, reply = Some m, library_error = 0\<rparr>"

lemma rpc_returns_answer:
  assumes L: "listening w" "unread w = []" "state (conn w) = CONNECTION_STATE_IDLE"
    and tm: "rpc_timeout (conn w) = None"
    and req: "amqp_frame_to_bytes (method_frame ch m) (outbound_buffer (conn w)) = (Returns request, buf)" "request \<noteq> []"
    and s: "sends w = Os_sent k # ss" "length request \<le> k"
    and ans: "amqp_frame_to_bytes (method_frame ch m') buf2 = (Returns answer, buf3)" "valid_method m'"
      "length answer < INT32_MAX" "length answer \<le> size_t_of_int (frame_max (conn w))"
    and d: "delivers w answer rest ds rs"
  shows "\<exists>w'. amqp_simple_rpc ch [method_number m'] m w = (Done (normal_reply m'), w') \<and>
    sent w' = sent w @ request \<and> world_ok w' \<and> unread w' = rest \<and> state (conn w') = CONNECTION_STATE_IDLE \<and>
    recvs w' = rs \<and> first_queued_frame (conn w') = first_queued_frame (conn w)"
proof -
  have l: "sockfd w \<noteq> None" "heartbeat (conn w) = 0" using L(1) by (simp_all add: listening_def)
  let ?w0 = "w\<lparr>ticks := Suc (ticks w)\<rparr>"
  let ?w1 = "?w0\<lparr>sends := ss, sent := sent ?w0 @ request, ticks := Suc (ticks ?w0),
    conn := (conn ?w0)\<lparr>outbound_buffer := buf, next_send_heartbeat := amqp_time_infinite\<rparr>\<rparr>"
  have sd: "amqp_send_method ch m ?w0 = (Done (), ?w1)"
    unfolding amqp_send_method_def amqp_send_method_inner_def method_frame_def [symmetric]
    by (rule send_at_once) (use req s l in simp_all)
  have i: "input_ok (conn ?w1) (mem w) = input_ok (conn w) (mem w)" by (rule input_ok_cong) (simp add: input_fields_def)
  have L1: "listening ?w1" using L(1) i by (simp add: listening_def world_ok_def buffer_ok_def)
  have "valid_frame (method_frame ch m')" using ans(2) by (simp add: valid_frame_def)
  from wait_frame_delivered [OF L1 _ _ this _ ans(1,3), of rest ds rs fresh_frame amqp_time_infinite] L d ans(4)
  obtain w2 where w2: "wait_frame_inner fresh_frame amqp_time_infinite ?w1 = (Done (method_frame ch m'), w2)" "world_ok w2"
      "unread w2 = rest" "state (conn w2) = CONNECTION_STATE_IDLE" "recvs w2 = rs" "untouched ?w1 w2"
    by (auto simp: unread_def delivers_def frame_types)
  have "ends_rpc ch [method_number m'] (method_frame ch m') = Some m'" by (simp add: ends_rpc_def)
  then have rl: "rpc_loop (Suc n) ch [method_number m'] amqp_time_infinite fresh_frame ?w1 = (Done (normal_reply m'), w2)" for n
    using w2(1) by (simp add: io_bind_def io_catch_def io_return_def normal_reply_def)
  have "amqp_simple_rpc ch [method_number m'] m w = (Done (normal_reply m'), w2)"
    using sd rl tm
    by (simp add: amqp_simple_rpc_def simple_rpc_inner_def with_reply_def io_catch_def io_bind_def get_conn_def
        deadline_from_def read_clock_def amqp_time_from_now_def io_return_def del: rpc_loop.simps)
  with w2 show ?thesis by (simp add: untouched_def)
qed

lemma rpc_answered_lemma:
  assumes "listening w" "unread w = []" "state (conn w) = CONNECTION_STATE_IDLE"
    and "rpc_timeout (conn w) = None"
    and "amqp_frame_to_bytes (method_frame ch m) (outbound_buffer (conn w)) = (Returns request, buf)" "request \<noteq> []"
    and "sends w = Os_sent k # ss" "length request \<le> k"
    and "amqp_frame_to_bytes (method_frame ch m') buf2 = (Returns answer, buf3)" "valid_method m'"
      "length answer < INT32_MAX" "length answer \<le> size_t_of_int (frame_max (conn w))"
    and "delivers w answer rest ds rs"
  shows "\<exists>w'. amqp_simple_rpc_decoded ch (method_number m') m w = (Done (Some m'), w') \<and>
    sent w' = sent w @ request \<and> world_ok w' \<and> unread w' = rest \<and> state (conn w') = CONNECTION_STATE_IDLE \<and>
    recvs w' = rs \<and> first_queued_frame (conn w') = first_queued_frame (conn w)"
proof -
  from rpc_returns_answer [OF assms] obtain w2 where w2: "amqp_simple_rpc ch [method_number m'] m w = (Done (normal_reply m'), w2)"
      "sent w2 = sent w @ request" "world_ok w2" "unread w2 = rest" "state (conn w2) = CONNECTION_STATE_IDLE"
      "recvs w2 = rs" "first_queued_frame (conn w2) = first_queued_frame (conn w)" by blast
  let ?w' = "w2\<lparr>conn := (conn w2)\<lparr>most_recent_api_result := normal_reply m'\<rparr>\<rparr>"
  have e: "amqp_simple_rpc_decoded ch (method_number m') m w = (Done (Some m'), ?w')"
    using w2(1) by (simp add: amqp_simple_rpc_decoded_def io_bind_def change_conn_def io_return_def normal_reply_def)
  have "input_ok (conn ?w') (mem w2) = input_ok (conn w2) (mem w2)"
    by (rule input_ok_cong) (simp add: input_fields_def)
  with w2 have "world_ok ?w'" by (simp add: world_ok_def buffer_ok_def)
  with e w2 show ?thesis by (simp add: unread_def)
qed

end
