(* ===== verification/Wait_Termination.thy ===== *)
theory Wait_Termination
  imports Rpc_Laws
begin

text \<open>
  The loops end: each round of \<open>wait_frame_inner\<close> uses up an answer of \<open>recv\<close>, and each
  frame takes a byte at least from what was or will be received.  So the fuel chosen in the
  definitions is never what stops a loop: with more fuel the result is the same.
\<close>

section \<open>Answers are used up\<close>

interpretation spent: outside_condition "\<lambda>w. length (recvs w) \<le> n" for n
  by unfold_locales simp_all

interpretation spent: io_bytes "\<lambda>w. length (recvs w) \<le> n" "\<lambda>w. length (recvs w) \<le> n" for n
  by unfold_locales simp

lemma recv_loop_progress:
  assumes "recv_loop n d w = (r, w')" and "sockfd w \<noteq> None"
  shows "length (recvs w') < length (recvs w) \<or> r = Waiting"
  using assms
proof (cases n)
  case (Suc m)
  obtain x w1 where x: "amqp_tcp_socket_recv (length (sock_inbound_buffer (conn w))) w = (x, w1)" by fastforce
  from tcp_recv_changes [OF x] obtain rs where w1: "w1 = w\<lparr>recvs := rs\<rparr>"
      "\<And>y. x = Done y \<Longrightarrow> length rs < length (recvs w) \<or> sockfd w = None \<and> y = Sock_fails AMQP_STATUS_SOCKET_CLOSED"
    by metis
  show ?thesis
  proof (cases x)
    case (Done y)
    have l: "length rs < length (recvs w)" using w1(2) [OF Done] assms(2) by simp
    show ?thesis
    proof (cases "y = Need_read \<or> y = Need_write")
      case False
      with assms Suc x Done w1 l show ?thesis by (cases y) (auto simp: io_defs)
    next
      case True
      obtain z w2 where z: "amqp_poll d w1 = (z, w2)" by fastforce
      obtain t ps where w2: "w2 = w1\<lparr>ticks := t, polls := ps\<rparr>" by (rule poll_changes [OF z])
      show ?thesis
      proof (cases z)
        case (Done u)
        with True assms Suc x \<open>x = Done y\<close> z w1 have "recv_loop m d w2 = (r, w')" by (auto simp: io_defs)
        from recv_loop_changes [OF this] obtain t' ps' rs' where "w' = w2\<lparr>ticks := t', polls := ps', recvs := rs'\<rparr>"
          "length rs' \<le> length (recvs w2)" by blast
        with l w1 w2 show ?thesis by simp
      qed (use True assms Suc x Done z w1 w2 l in \<open>auto simp: io_defs\<close>)
    qed
  qed (use assms Suc x in \<open>auto simp: io_defs amqp_tcp_socket_recv_def split: if_splits option.splits prod.splits\<close>)
qed simp

lemma recv_progress:
  assumes r: "recv_with_timeout d w = (r, w')" and n: "r = Done () \<or> r = Error (status_code AMQP_STATUS_TIMEOUT)"
  shows "length (recvs w') < length (recvs w)"
proof (cases "sockfd w = None")
  case True
  then have "amqp_tcp_socket_recv (length (sock_inbound_buffer (conn w))) w = (Done (Sock_fails AMQP_STATUS_SOCKET_CLOSED), w)"
    by (simp add: amqp_tcp_socket_recv_def)
  with True r n show ?thesis by (auto simp: recv_with_timeout_def io_defs)
next
  case False
  obtain x w1 where x: "recv_loop (Suc (length (recvs w))) d w = (x, w1)" by fastforce
  note p = recv_loop_progress [OF x False]
  show ?thesis
  proof (cases x)
    case (Done bs)
    let ?w2 = "w1\<lparr>conn := (conn w1)\<lparr>sock_inbound_buffer := write_at (sock_inbound_buffer (conn w1)) 0 bs,
        sock_inbound_limit := length bs, sock_inbound_offset := 0\<rparr>\<rparr>"
    have "schedule_recv_heartbeat ?w2 = (r, w')"
      using r x Done by (simp add: recv_with_timeout_def io_bind_def change_conn_def del: recv_loop.simps)
    with keep_at_end [OF spent.keep_schedule(2), of ?w2 "length (recvs ?w2)"] p Done show ?thesis by simp
  qed (use r n x p in \<open>auto simp: recv_with_timeout_def io_bind_def simp del: recv_loop.simps\<close>)
qed

section \<open>Rounds of \<open>wait_frame_inner\<close>\<close>

text \<open>The second half of a round: a heartbeat that is due, and receiving.\<close>

definition wait_round :: "amqp_time_t \<Rightarrow> bool io" where
  "wait_round timeout_deadline =
    io_bind send_due_heartbeat (\<lambda>_.
      io_bind (get_conn (recv_deadline timeout_deadline)) (\<lambda>deadline.
        io_catch (io_bind (recv_with_timeout deadline) (\<lambda>_. io_return True)) (\<lambda>code.
          if code = status_code AMQP_STATUS_TIMEOUT
          then (\<lambda>w.
            if amqp_time_equal deadline (next_recv_heartbeat (conn w))
            then io_bind amqp_socket_close (\<lambda>_. io_fail AMQP_STATUS_HEARTBEAT_TIMEOUT) w
            else if amqp_time_equal deadline timeout_deadline then io_fail AMQP_STATUS_TIMEOUT w
            else if amqp_time_equal deadline (next_send_heartbeat (conn w)) then (Done False, w)
            else (Crash, w))
          else io_error code)))"

definition scan_buffer :: "bool \<Rightarrow> amqp_frame_t \<Rightarrow> (bool \<times> amqp_frame_t) io" where
  "scan_buffer scan f w = (if scan then wait_buffered (buffered w) f else io_return (False, f)) w"

lemma bind_cong:
  "m w = m' w' \<Longrightarrow> (\<And>x w1. m w = (Done x, w1) \<Longrightarrow> k x w1 = k' x w1) \<Longrightarrow> io_bind m k w = io_bind m' k' w'"
  by (auto simp: io_bind_def split: prod.split outcome.split)

lemma bind_assoc: "io_bind (io_bind m k) l w = io_bind m (\<lambda>x. io_bind (k x) l) w"
  by (simp add: io_bind_def split: prod.split outcome.split)

lemma wait_loop_round:
  "wait_frame_loop (Suc n) scan f t w = io_bind (scan_buffer scan f) (\<lambda>(complete, frame).
    if complete then io_return frame
    else io_bind (wait_round t) (\<lambda>scan. wait_frame_loop n scan frame t)) w"
  unfolding wait_frame_loop.simps
  by (rule bind_cong) (auto simp: scan_buffer_def wait_round_def bind_assoc intro!: bind_cong split: prod.split)

lemma scan_spent:
  assumes "scan_buffer scan f w = (Done x, w')"
  shows "length (recvs w') \<le> length (recvs w)"
proof (cases scan)
  case True
  with assms have "wait_buffered (buffered w) f w = (Done x, w')" by (simp add: scan_buffer_def)
  from keepD [OF spent.keep_wait_buffered _ this, of "length (recvs w)"] show ?thesis by simp
qed (use assms in \<open>simp add: scan_buffer_def io_return_def\<close>)

lemma wait_round_progress:
  assumes "wait_round t w = (Done b, w')"
  shows "length (recvs w') < length (recvs w)"
proof -
  obtain u w1 where h: "send_due_heartbeat w = (Done u, w1)" using assms unfolding wait_round_def by (rule bind_Done)
  have le: "length (recvs w1) \<le> length (recvs w)"
    using keepD [OF spent.keep_send_due_heartbeat _ h, of "length (recvs w)"] by simp
  let ?d = "recv_deadline t (conn w1)"
  obtain x w2 where r: "recv_with_timeout ?d w1 = (x, w2)" by fastforce
  have rest: "io_catch (io_bind (recv_with_timeout ?d) (\<lambda>_. io_return True)) (\<lambda>code.
          if code = status_code AMQP_STATUS_TIMEOUT
          then (\<lambda>w.
            if amqp_time_equal ?d (next_recv_heartbeat (conn w))
            then io_bind amqp_socket_close (\<lambda>_. io_fail AMQP_STATUS_HEARTBEAT_TIMEOUT) w
            else if amqp_time_equal ?d t then io_fail AMQP_STATUS_TIMEOUT w
            else if amqp_time_equal ?d (next_send_heartbeat (conn w)) then (Done False, w)
            else (Crash, w))
          else io_error code) w1 = (Done b, w')"
    using assms h by (simp add: wait_round_def io_bind_def get_conn_def)
  show ?thesis
  proof (cases x)
    case (Done v)
    with rest r have "w' = w2" by (simp add: io_bind_def io_catch_def io_return_def)
    with recv_progress [OF r] Done le show ?thesis by simp
  next
    case (Error code)
    have "code = status_code AMQP_STATUS_TIMEOUT"
      using rest r Error by (auto simp: io_bind_def io_catch_def io_error_def split: if_splits)
    with recv_progress [OF r] Error le have l: "length (recvs w2) < length (recvs w)" by simp
    have "w' = w2"
      using rest r Error
      by (auto simp: io_defs amqp_socket_close_def amqp_tcp_socket_close_def split: if_splits)
    with l show ?thesis by simp
  qed (use rest r in \<open>auto simp: io_bind_def io_catch_def\<close>)
qed

lemma wait_frame_fuel:
  "length (recvs w) < n \<Longrightarrow> length (recvs w) < m \<Longrightarrow>
    wait_frame_loop n scan f t w = wait_frame_loop m scan f t w"
proof (induction n arbitrary: m scan f w)
  case (Suc n)
  obtain k where m: "m = Suc k" using Suc.prems(2) by (cases m) auto
  show ?case
    unfolding m wait_loop_round
  proof (rule bind_cong [OF refl], clarsimp split: prod.split)
    fix g w1 assume s: "scan_buffer scan f w = (Done (False, g), w1)"
    show "io_bind (wait_round t) (\<lambda>scan. wait_frame_loop n scan g t) w1 =
        io_bind (wait_round t) (\<lambda>scan. wait_frame_loop k scan g t) w1"
    proof (rule bind_cong [OF refl])
      fix b w2 assume "wait_round t w1 = (Done b, w2)"
      from wait_round_progress [OF this] scan_spent [OF s] Suc.prems m
      show "wait_frame_loop n b g t w2 = wait_frame_loop k b g t w2" by (intro Suc.IH) simp_all
    qed
  qed
qed simp

section \<open>Bytes\<close>

definition answer_bytes :: "recv_answer list \<Rightarrow> nat" where
  "answer_bytes as = sum_list (map (\<lambda>a. case a of Os_data bs \<Rightarrow> length bs | _ \<Rightarrow> 0) as)"

lemma bytes_to_come_eq: "bytes_to_come w = buffered w + answer_bytes (recvs w)"
  by (simp add: bytes_to_come_def answer_bytes_def)

lemma tcp_recv_bytes: "tcp_recv_loop as len = (r, as') \<Longrightarrow>
    answer_bytes as' + (case r of Some (Moved bs) \<Rightarrow> length bs | _ \<Rightarrow> 0) \<le> answer_bytes as"
proof (induction as len arbitrary: r rule: tcp_recv_loop.induct)
  case (5 bs as len)
  then show ?case by (auto simp: answer_bytes_def min_def split: if_splits)
qed (auto simp: answer_bytes_def)

lemma recv_loop_bytes:
  assumes "recv_loop n d w = (r, w')"
  shows "conn w' = conn w \<and> answer_bytes (recvs w') + (case r of Done bs \<Rightarrow> length bs | _ \<Rightarrow> 0) \<le> answer_bytes (recvs w)"
  using assms
proof (induction n arbitrary: w)
  case (Suc n)
  obtain x w1 where x: "amqp_tcp_socket_recv (length (sock_inbound_buffer (conn w))) w = (x, w1)" by fastforce
  have 1: "conn w1 = conn w"
    "answer_bytes (recvs w1) + (case x of Done (Moved bs) \<Rightarrow> length bs | _ \<Rightarrow> 0) \<le> answer_bytes (recvs w)"
    using x tcp_recv_bytes [of "recvs w" "length (sock_inbound_buffer (conn w))"]
    by (auto simp: amqp_tcp_socket_recv_def split: if_splits option.splits prod.splits)
  show ?case
  proof (cases "\<exists>y. x = Done y \<and> (y = Need_read \<or> y = Need_write) \<and> sockfd w1 \<noteq> None")
    case False
    with Suc.prems x 1 show ?thesis
      by (auto simp: io_defs split: outcome.splits sock.splits if_splits)
  next
    case True
    obtain z w2 where z: "amqp_poll d w1 = (z, w2)" by fastforce
    obtain t ps where w2: "w2 = w1\<lparr>ticks := t, polls := ps\<rparr>" by (rule poll_changes [OF z])
    show ?thesis
    proof (cases z)
      case (Done u)
      with True Suc.prems x z have "recv_loop n d w2 = (r, w')" by (auto simp: io_defs)
      from Suc.IH [OF this] w2 1 True show ?thesis by auto
    qed (use True Suc.prems x z w2 1 in \<open>auto simp: io_defs\<close>)
  qed
qed simp

text \<open>Receiving puts no more bytes into the buffer than it takes from the answers.\<close>

lemma recv_bytes:
  assumes "recv_with_timeout d w = (r, w')"
  shows "bytes_to_come w' \<le> bytes_to_come w"
proof -
  obtain x w1 where x: "recv_loop (Suc (length (recvs w))) d w = (x, w1)" by fastforce
  note b = recv_loop_bytes [OF x]
  show ?thesis
  proof (cases x)
    case (Done bs)
    let ?w2 = "w1\<lparr>conn := (conn w1)\<lparr>sock_inbound_buffer := write_at (sock_inbound_buffer (conn w1)) 0 bs,
        sock_inbound_limit := length bs, sock_inbound_offset := 0\<rparr>\<rparr>"
    have s: "schedule_recv_heartbeat ?w2 = (r, w')"
      using assms x Done by (simp add: recv_with_timeout_def io_bind_def change_conn_def del: recv_loop.simps)
    then have "bytes_to_come w' = bytes_to_come ?w2"
      by (auto simp: schedule_recv_heartbeat_def timed_def io_defs read_clock_def bytes_to_come_eq buffered_def
          split: prod.splits option.splits if_splits)
    with b Done show ?thesis by (simp add: bytes_to_come_eq buffered_def)
  qed (use assms x b in \<open>auto simp: recv_with_timeout_def io_bind_def bytes_to_come_eq buffered_def simp del: recv_loop.simps\<close>)
qed

text \<open>A frame takes a byte at least.\<close>

lemma consume_bytes:
  assumes w: "world_ok w" and r: "consume_one_frame f w = (Done g, w')"
  shows "recvs w' = recvs w \<and> buffered w' \<le> buffered w \<and> (amqp_data_in_buffer (conn w) \<longrightarrow> buffered w' < buffered w)"
proof -
  have b: "buffer_ok (conn w)" "input_ok (conn w) (mem w)" using w by (simp_all add: world_ok_def)
  obtain x c' h' g' where i: "amqp_handle_input (spare w) (conn w) (unread w) (mem w) f = (x, c', h', g')"
    by (cases "amqp_handle_input (spare w) (conn w) (unread w) (mem w) f")
  obtain n where x: "x = Returns n"
    using r i by (cases x) (auto simp: consume_one_frame_def unread_def Let_def)
  have o: "outside c' = outside (conn w)"
    using handle_input_outside [of "conn w" "spare w" "unread w" "mem w" f] i by (simp add: leaves_outside_def)
  have n: "unread w \<noteq> [] \<longrightarrow> 0 < n"
    using handle_input_ok(2) [OF b(2), of "unread w" "spare w" f] i x by (simp add: takes_def)
  have w': "w' = w\<lparr>conn := c'\<lparr>sock_inbound_offset := sock_inbound_offset c' + n\<rparr>, mem := h'\<rparr>"
    using consume_result [OF i [unfolded x]] r by simp
  show ?thesis
    using n o unread_empty [OF b(1)] w' b(1) by (auto simp: buffered_def outside_def amqp_data_in_buffer_def)
qed

lemma channel_allocs_bytes: "channel_allocs ch ns w = (r, w') \<Longrightarrow> bytes_to_come w' = bytes_to_come w"
  using channel_allocs_outside [of ch ns w r w']
  by (auto elim!: channel_allocs_inside simp: outside_def bytes_to_come_eq buffered_def)

lemma release_buffered: "amqp_maybe_release_buffers_on_channel c ch h = (c', h') \<Longrightarrow> outside c' = outside c"
  by (auto simp: amqp_maybe_release_buffers_on_channel_def split: if_splits option.splits prod.splits)

interpretation shrinking: io_bytes "\<lambda>w. world_ok w \<and> bytes_to_come w \<le> n" "\<lambda>w. True" for n
proof unfold_locales
  fix d
  show "keep (\<lambda>w. world_ok w \<and> bytes_to_come w \<le> n) (\<lambda>w. world_ok w \<and> bytes_to_come w \<le> n) (recv_with_timeout d)"
  proof (rule keep_snd)
    fix w assume w: "world_ok w \<and> bytes_to_come w \<le> n"
    obtain r w' where r: "recv_with_timeout d w = (r, w')" by fastforce
    from recv_bytes [OF r] keep_at_end [OF inv_receive.receive_keeps, of w d] w r
    show "world_ok (snd (recv_with_timeout d w)) \<and> bytes_to_come (snd (recv_with_timeout d w)) \<le> n" by simp
  qed
next
  fix f
  show "keep (\<lambda>w. world_ok w \<and> bytes_to_come w \<le> n) (\<lambda>w. True) (consume_one_frame f)"
    by (rule keepI) (auto dest: consume_bytes consume_one_frame_world simp: bytes_to_come_eq)
next
  fix ch
  show "keep (\<lambda>w. world_ok w \<and> bytes_to_come w \<le> n) (\<lambda>w. world_ok w \<and> bytes_to_come w \<le> n)
      (channel_allocs ch [SIZEOF_LINK, SIZEOF_FRAME])"
    "keep (\<lambda>w. world_ok w \<and> bytes_to_come w \<le> n) (\<lambda>w. world_ok w \<and> bytes_to_come w \<le> n)
      (channel_allocs ch [SIZEOF_FRAME, SIZEOF_LINK])"
    by (rule keepI; use channel_allocs_world channel_allocs_bytes in fastforce)+
next
  fix f
  show "keep (\<lambda>w. world_ok w \<and> bytes_to_come w \<le> n) (\<lambda>w. world_ok w \<and> bytes_to_come w \<le> n) (append_frame f)"
    using inv.append_step [of f]
    by (auto simp: keep_def append_frame_def change_conn_def bytes_to_come_eq buffered_def)
next
  fix w ch c h assume w: "world_ok w \<and> bytes_to_come w \<le> n"
    and r: "amqp_maybe_release_buffers_on_channel (conn w) ch (mem w) = (c, h)"
  from release_world [OF _ r] release_buffered [OF r] w
  show "world_ok (w\<lparr>conn := c, mem := h\<rparr>) \<and> bytes_to_come (w\<lparr>conn := c, mem := h\<rparr>) \<le> n"
    by (simp add: outside_def bytes_to_come_eq buffered_def)
next
  fix w ss bs assume w: "world_ok w \<and> bytes_to_come w \<le> n"
  then show "world_ok (w\<lparr>sends := ss, sent := sent w @ bs\<rparr>) \<and> bytes_to_come (w\<lparr>sends := ss, sent := sent w @ bs\<rparr>) \<le> n"
    by (simp add: world_ok_def bytes_to_come_eq buffered_def)
qed (auto elim!: world_ok_same simp: input_fields_def buffer_ok_def bytes_to_come_eq buffered_def)

section \<open>Rounds over the buffer\<close>

lemma release_world_buffered:
  assumes "world_ok w" and "amqp_maybe_release_buffers_on_channel (conn w) ch (mem w) = (c, h)"
  shows "world_ok (w\<lparr>conn := c, mem := h\<rparr>)" and "buffered (w\<lparr>conn := c, mem := h\<rparr>) = buffered w"
  using release_world [OF assms] release_buffered [OF assms(2)] by (simp_all add: outside_def buffered_def)

lemma wait_buffered_fuel:
  "world_ok w \<Longrightarrow> buffered w \<le> n \<Longrightarrow> buffered w \<le> m \<Longrightarrow> wait_buffered n f w = wait_buffered m f w"
proof (induction n arbitrary: m f w)
  case 0
  then have "\<not> amqp_data_in_buffer (conn w)" by (simp add: amqp_data_in_buffer_def buffered_def)
  then show ?case by (cases m) simp_all
next
  case (Suc n)
  show ?case
  proof (cases "amqp_data_in_buffer (conn w)")
    case False
    then show ?thesis by (cases m) simp_all
  next
    case True
    then obtain k where m: "m = Suc k" using Suc.prems(3) by (cases m) (auto simp: amqp_data_in_buffer_def buffered_def)
    have "io_bind (consume_one_frame f) (\<lambda>frame.
        if uint (frame_type frame) = AMQP_FRAME_HEARTBEAT
        then (\<lambda>w. case amqp_maybe_release_buffers_on_channel (conn w) 0 (mem w) of (c, h) \<Rightarrow>
          wait_buffered n frame (w\<lparr>conn := c, mem := h\<rparr>))
        else if frame_type frame \<noteq> 0 then io_return (True, frame) else wait_buffered n frame) w =
      io_bind (consume_one_frame f) (\<lambda>frame.
        if uint (frame_type frame) = AMQP_FRAME_HEARTBEAT
        then (\<lambda>w. case amqp_maybe_release_buffers_on_channel (conn w) 0 (mem w) of (c, h) \<Rightarrow>
          wait_buffered k frame (w\<lparr>conn := c, mem := h\<rparr>))
        else if frame_type frame \<noteq> 0 then io_return (True, frame) else wait_buffered k frame) w"
    proof (rule bind_cong [OF refl])
      fix g w1 assume c: "consume_one_frame f w = (Done g, w1)"
      from consume_one_frame_world [OF Suc.prems(1) c] have ok: "world_ok w1" by simp
      have l: "buffered w1 \<le> n" "buffered w1 \<le> k" using consume_bytes [OF Suc.prems(1) c] True Suc.prems m by simp_all
      obtain c' h' where r: "amqp_maybe_release_buffers_on_channel (conn w1) 0 (mem w1) = (c', h')" by fastforce
      show "(if uint (frame_type g) = AMQP_FRAME_HEARTBEAT
        then (\<lambda>w. case amqp_maybe_release_buffers_on_channel (conn w) 0 (mem w) of (c, h) \<Rightarrow>
          wait_buffered n g (w\<lparr>conn := c, mem := h\<rparr>))
        else if frame_type g \<noteq> 0 then io_return (True, g) else wait_buffered n g) w1 =
       (if uint (frame_type g) = AMQP_FRAME_HEARTBEAT
        then (\<lambda>w. case amqp_maybe_release_buffers_on_channel (conn w) 0 (mem w) of (c, h) \<Rightarrow>
          wait_buffered k g (w\<lparr>conn := c, mem := h\<rparr>))
        else if frame_type g \<noteq> 0 then io_return (True, g) else wait_buffered k g) w1"
        using Suc.IH [OF ok l] Suc.IH [OF release_world_buffered(1) [OF ok r], of k] release_world_buffered(2) [OF ok r] l r
        by simp
    qed
    then show ?thesis using True by (simp only: m wait_buffered.simps if_True)
  qed
qed

lemma wait_buffered_takes:
  "world_ok w \<Longrightarrow> wait_buffered n f w = (Done (True, g), w') \<Longrightarrow> bytes_to_come w' < bytes_to_come w"
proof (induction n arbitrary: f w)
  case 0
  then show ?case by (simp split: if_splits)
next
  case (Suc n)
  from Suc.prems(2) have data: "amqp_data_in_buffer (conn w)" by (auto split: if_splits)
  with Suc.prems(2) obtain x w1 where c: "consume_one_frame f w = (Done x, w1)"
    and k: "(if uint (frame_type x) = AMQP_FRAME_HEARTBEAT
        then (\<lambda>w. case amqp_maybe_release_buffers_on_channel (conn w) 0 (mem w) of (c, h) \<Rightarrow>
          wait_buffered n x (w\<lparr>conn := c, mem := h\<rparr>))
        else if frame_type x \<noteq> 0 then io_return (True, x) else wait_buffered n x) w1 = (Done (True, g), w')"
    by (auto elim!: bind_Done)
  have l: "bytes_to_come w1 < bytes_to_come w"
    using consume_bytes [OF Suc.prems(1) c] data by (simp add: bytes_to_come_eq)
  have ok: "world_ok w1" using consume_one_frame_world [OF Suc.prems(1) c] by simp
  obtain c' h' where r: "amqp_maybe_release_buffers_on_channel (conn w1) 0 (mem w1) = (c', h')" by fastforce
  have "bytes_to_come w' \<le> bytes_to_come w1"
    using k r Suc.IH [OF release_world_buffered(1) [OF ok r]] Suc.IH [OF ok] release_world_buffered(2) [OF ok r]
    by (fastforce simp: io_return_def bytes_to_come_eq split: if_splits)
  with l show ?case by simp
qed

lemma scan_shrinks:
  assumes "world_ok w" and "scan_buffer scan f w = (Done (b, g), w')"
  shows "world_ok w' \<and> bytes_to_come w' \<le> bytes_to_come w \<and> (b \<longrightarrow> bytes_to_come w' < bytes_to_come w)"
proof (cases scan)
  case True
  with assms(2) have s: "wait_buffered (buffered w) f w = (Done (b, g), w')" by (simp add: scan_buffer_def)
  from keepD [OF shrinking.keep_wait_buffered _ s, of "bytes_to_come w"] wait_buffered_takes [OF assms(1), of "buffered w" f g w'] assms(1) s
  show ?thesis by auto
qed (use assms in \<open>simp add: scan_buffer_def io_return_def\<close>)

lemma wait_round_keep: "keep (\<lambda>w. world_ok w \<and> bytes_to_come w \<le> n) (\<lambda>w. True) (wait_round t)"
  unfolding wait_round_def
  by (intro keep_bind shrinking.keep_send_due_heartbeat shrinking.keep_get_J shrinking.keep_receive)

lemma wait_frame_takes:
  "world_ok w \<Longrightarrow> wait_frame_loop n scan f t w = (Done g, w') \<Longrightarrow> world_ok w' \<and> bytes_to_come w' < bytes_to_come w"
proof (induction n arbitrary: scan f w)
  case (Suc n)
  from Suc.prems(2) obtain p w1 where s: "scan_buffer scan f w = (Done p, w1)"
    and k: "(case p of (complete, frame) \<Rightarrow> if complete then io_return frame
      else io_bind (wait_round t) (\<lambda>scan. wait_frame_loop n scan frame t)) w1 = (Done g, w')"
    unfolding wait_loop_round by (rule bind_Done)
  obtain b h where p: "p = (b, h)" by fastforce
  note S = scan_shrinks [OF Suc.prems(1) s [unfolded p]]
  show ?case
  proof (cases b)
    case True
    with k p S show ?thesis by (simp add: io_return_def)
  next
    case False
    with k p have "io_bind (wait_round t) (\<lambda>scan. wait_frame_loop n scan h t) w1 = (Done g, w')" by simp
    then obtain c w2 where r: "wait_round t w1 = (Done c, w2)" and l: "wait_frame_loop n c h t w2 = (Done g, w')"
      by (rule bind_Done)
    from keepD [OF wait_round_keep _ r, of "bytes_to_come w1"] S have "world_ok w2" "bytes_to_come w2 \<le> bytes_to_come w1" by auto
    with Suc.IH [OF _ l] S show ?thesis by auto
  qed
qed simp

lemma rpc_fuel:
  "world_ok w \<Longrightarrow> bytes_to_come w < n \<Longrightarrow> bytes_to_come w < m \<Longrightarrow> rpc_loop n ch ids t f w = rpc_loop m ch ids t f w"
proof (induction n arbitrary: m f w)
  case (Suc n)
  obtain k where m: "m = Suc k" using Suc.prems(3) by (cases m) auto
  show ?case
    unfolding m rpc_loop.simps
  proof (rule bind_cong [OF refl])
    fix g w1
    assume "io_catch (wait_frame_inner f t) (\<lambda>status.
        if status = status_code AMQP_STATUS_TIMEOUT
        then io_bind amqp_socket_close (\<lambda>_. io_error status)
        else io_error status) w = (Done g, w1)"
    then have "wait_frame_inner f t w = (Done g, w1)"
      by (rule io_catch_cases) (auto simp: io_defs amqp_socket_close_def amqp_tcp_socket_close_def split: if_splits)
    from wait_frame_takes [OF Suc.prems(1) this [unfolded wait_frame_inner_def]]
    have w1: "world_ok w1" "bytes_to_come w1 < bytes_to_come w" by auto
    show "(case ends_rpc ch ids g of
        None \<Rightarrow> io_bind (enqueue_copy g) (\<lambda>_. rpc_loop n ch ids t g)
      | Some m \<Rightarrow> io_return
          \<lparr>reply_type = (if amqp_id_in_reply_list (method_number m) ids
             then AMQP_RESPONSE_NORMAL else AMQP_RESPONSE_SERVER_EXCEPTION),
           reply = Some m, library_error = 0\<rparr>) w1 =
      (case ends_rpc ch ids g of
        None \<Rightarrow> io_bind (enqueue_copy g) (\<lambda>_. rpc_loop k ch ids t g)
      | Some m \<Rightarrow> io_return
          \<lparr>reply_type = (if amqp_id_in_reply_list (method_number m) ids
             then AMQP_RESPONSE_NORMAL else AMQP_RESPONSE_SERVER_EXCEPTION),
           reply = Some m, library_error = 0\<rparr>) w1"
    proof (cases "ends_rpc ch ids g")
      case None
      have "io_bind (enqueue_copy g) (\<lambda>_. rpc_loop n ch ids t g) w1 = io_bind (enqueue_copy g) (\<lambda>_. rpc_loop k ch ids t g) w1"
      proof (rule bind_cong [OF refl])
        fix u w2 assume e: "enqueue_copy g w1 = (Done u, w2)"
        from keepD [OF shrinking.keep_enqueue(2) _ e, of "bytes_to_come w1"] w1
        have "world_ok w2" "bytes_to_come w2 \<le> bytes_to_come w1" by auto
        with w1 Suc.prems m show "rpc_loop n ch ids t g w2 = rpc_loop k ch ids t g w2"
          by (intro Suc.IH) simp_all
      qed
      with None show ?thesis by simp
    qed simp
  qed
qed simp

end
