(* ===== verification/Publishing.thy ===== *)
theory Publishing
  imports Amqp_Api Rpc_Laws Wait_Termination
begin

text \<open>
  What \<open>amqp_basic_publish\<close> sends: the frames of one message, one after the other, cut off
  at most at the end; and how many rounds its loop takes.
\<close>

section \<open>Sending exactly some bytes\<close>

text \<open>\<open>sends_only bs m\<close>: \<open>m\<close> sends \<open>bs\<close> if it succeeds, and a prefix of \<open>bs\<close> in any case.\<close>

definition sends_only :: "byte list \<Rightarrow> unit io \<Rightarrow> bool" where
  "sends_only bs m \<longleftrightarrow> (\<forall>w r w'. m w = (r, w') \<longrightarrow>
    (\<exists>k \<le> length bs. sent w' = sent w @ take k bs \<and> (r = Done () \<longrightarrow> k = length bs)))"

lemma sends_onlyD:
  assumes "sends_only bs m" and "m w = (r, w')"
  obtains k where "k \<le> length bs" "sent w' = sent w @ take k bs" "r = Done () \<Longrightarrow> k = length bs"
  using assms unfolding sends_only_def by blast

lemma sends_only_bind_at:
  assumes m: "sends_only as m" and k: "\<And>w1. sends_only bs (k w1)"
  shows "sends_only (as @ bs) (io_bind m (\<lambda>_ w1. k w1 w1))"
  unfolding sends_only_def
proof (intro allI impI)
  fix w r w' assume b: "io_bind m (\<lambda>_ w1. k w1 w1) w = (r, w')"
  obtain x w1 where x: "m w = (x, w1)" by fastforce
  obtain i where i: "i \<le> length as" "sent w1 = sent w @ take i as" "x = Done () \<Longrightarrow> i = length as"
    using m x unfolding sends_only_def by blast
  show "\<exists>j \<le> length (as @ bs). sent w' = sent w @ take j (as @ bs) \<and> (r = Done () \<longrightarrow> j = length (as @ bs))"
  proof (cases x)
    case (Done u)
    with b x have "k w1 w1 = (r, w')" by (simp add: io_bind_def)
    obtain j where "j \<le> length bs" "sent w' = sent w1 @ take j bs" "r = Done () \<Longrightarrow> j = length bs"
      using k [of w1] \<open>k w1 w1 = (r, w')\<close> unfolding sends_only_def by blast
    with i Done show ?thesis by (intro exI [of _ "length as + j"]) auto
  qed (use b x i in \<open>auto simp: io_bind_def intro!: exI [of _ i]\<close>)
qed

lemma sends_only_bind:
  "sends_only as m \<Longrightarrow> sends_only bs k \<Longrightarrow> sends_only (as @ bs) (io_bind m (\<lambda>_. k))"
  using sends_only_bind_at [of as m bs "\<lambda>_. k"] by simp

lemma sends_only_done: "sends_only [] (\<lambda>w. (Done (), w))"
  by (simp add: sends_only_def)

text \<open>Something that sends nothing before.\<close>

lemma sends_only_after:
  assumes q: "\<And>s. keep (\<lambda>w. sent w = s) (\<lambda>w. sent w = s) m" and k: "\<And>x. sends_only bs (k x)"
  shows "sends_only bs (io_bind m k)"
  unfolding sends_only_def
proof (intro allI impI)
  fix w r w' assume b: "io_bind m k w = (r, w')"
  obtain x w1 where x: "m w = (x, w1)" by fastforce
  have s: "sent w1 = sent w" using keep_at_end [OF q [of "sent w"], of w] x by simp
  show "\<exists>j \<le> length bs. sent w' = sent w @ take j bs \<and> (r = Done () \<longrightarrow> j = length bs)"
  proof (cases x)
    case (Done y)
    with b x have "k y w1 = (r, w')" by (simp add: io_bind_def)
    from sends_onlyD [OF k this] s show ?thesis by metis
  qed (use b x s in \<open>auto simp: io_bind_def intro!: exI [of _ 0]\<close>)
qed

text \<open>The bytes of a frame, whatever buffer they are encoded in.\<close>

definition encoded :: "amqp_frame_t \<Rightarrow> byte list \<Rightarrow> bool" where
  "encoded F bs \<longleftrightarrow> (\<exists>buf buf'. amqp_frame_to_bytes F buf = (Returns bs, buf'))"

lemma encoded_unique:
  assumes "valid_frame F" and "encoded F bs" and "amqp_frame_to_bytes F buf = (Returns bs', buf')"
  shows "bs' = bs"
proof -
  obtain p where "payload_bytes undefined F p" using valid_frame_payload [OF assms(1)] by blast
  from frame_bytes_image [OF this] assms(2,3) show ?thesis unfolding encoded_def by metis
qed

lemma send_frame_only:
  assumes "valid_frame F" and "encoded F bs"
  shows "sends_only bs (amqp_send_frame_inner F d)"
  unfolding sends_only_def
proof (intro allI impI)
  fix w r w' assume s: "amqp_send_frame_inner F d w = (r, w')"
  obtain x buf where e: "amqp_frame_to_bytes F (outbound_buffer (conn w)) = (x, buf)" by fastforce
  from send_frame_sends [OF s e] encoded_unique [OF assms, of "outbound_buffer (conn w)" _ buf] e
  show "\<exists>k \<le> length bs. sent w' = sent w @ take k bs \<and> (r = Done () \<longrightarrow> k = length bs)"
    by (cases x) (auto intro: exI [of _ 0])
qed

section \<open>The frames of a message\<close>

fun pieces :: "nat \<Rightarrow> 'a list \<Rightarrow> 'a list list" where
  "pieces n xs = (if n = 0 \<or> xs = [] then [] else take n xs # pieces n (drop n xs))"

declare pieces.simps [simp del]

lemma pieces_concat: "n > 0 \<Longrightarrow> concat (pieces n xs) = xs"
  by (induction n xs rule: pieces.induct) (subst pieces.simps, simp)

lemma pieces_short: "p \<in> set (pieces n xs) \<Longrightarrow> p \<noteq> [] \<and> length p \<le> n"
  by (induction n xs rule: pieces.induct) (subst (asm) (2) pieces.simps, auto split: if_splits)

lemma pieces_step:
  "n > 0 \<Longrightarrow> off < length xs \<Longrightarrow>
    pieces n (drop off xs) = chunk off (min n (length xs - off)) xs # pieces n (drop (off + min n (length xs - off)) xs)"
  by (subst pieces.simps) (auto simp: chunk_def min_def add.commute)

definition message_frames ::
  "amqp_channel_t \<Rightarrow> amqp_method_t \<Rightarrow> amqp_basic_properties_t \<Rightarrow> amqp_bytes_t \<Rightarrow> nat \<Rightarrow> amqp_frame_t list" where
  "message_frames ch m props body n =
    method_frame ch m # header_frame ch props (length body) # map (body_frame ch) (pieces n body)"

lemma valid_body_frame: "valid_frame (body_frame ch p)"
  by (simp add: valid_frame_def body_frame_def frame_types)

lemma publish_loop_sends:
  assumes "usable > 0" and "list_all2 encoded (map (body_frame ch) (pieces usable (drop off body))) bss"
  shows "sends_only (concat bss) (publish_loop n ch usable body off)"
  using assms(2)
proof (induction n arbitrary: off bss)
  case 0
  show ?case
  proof (cases "off < length body")
    case False
    then have "pieces usable (drop off body) = []" by (simp add: pieces.simps)
    with 0 False show ?thesis by (simp add: sends_only_def)
  qed (auto simp: sends_only_def intro: exI [of _ 0])
next
  case (Suc n)
  show ?case
  proof (cases "off < length body")
    case False
    then have "pieces usable (drop off body) = []" by (simp add: pieces.simps)
    with Suc.prems False show ?thesis by (simp add: sends_only_def)
  next
    case True
    let ?len = "min usable (length body - off)"
    from Suc.prems obtain bs rest where b: "bss = bs # rest" "encoded (body_frame ch (chunk off ?len body)) bs"
        "list_all2 encoded (map (body_frame ch) (pieces usable (drop (off + ?len) body))) rest"
      by (auto simp: pieces_step [OF assms(1) True] list_all2_Cons1)
    have l: "(if usable \<le> length body - off then usable else length body - off) = ?len" by simp
    have "publish_loop (Suc n) ch usable body off =
        io_bind (amqp_send_frame_inner (body_frame ch (chunk off ?len body)) amqp_time_infinite)
          (\<lambda>_. publish_loop n ch usable body (off + ?len))"
      using True by (simp add: fun_eq_iff l Let_def)
    with sends_only_bind [OF send_frame_only [OF valid_body_frame b(2)] Suc.IH [OF b(3)]] b(1)
    show ?thesis by simp
  qed
qed

lemma check_recv_quiet: "keep (\<lambda>w. sent w = s) (\<lambda>w. sent w = s) check_recv_heartbeat"
  unfolding check_recv_heartbeat_def Let_def
  by (intro keep_rules quiet.keep_clock quiet.keep_get keep_catch_error [OF quiet.keep_try_recv])
    (simp_all add: io_defs)

lemma usable_size: "8 < frame_max c \<Longrightarrow> frame_max c < 2 ^ 31 \<Longrightarrow> usable_body_payload_size c = nat (frame_max c) - 8"
  by (simp add: usable_body_payload_size_def size_t_of_int_def frame_sizes nat_diff_distrib)

lemma get_bind: "io_bind (get_conn g) k w = k (g (conn w)) w"
  by (simp add: io_bind_def get_conn_def)

lemma publish_sends:
  assumes m: "8 < frame_max (conn w)" "frame_max (conn w) < 2 ^ 31"
    and v: "valid_frame (method_frame ch (publish_method ex rk man imm))"
      "valid_frame (header_frame ch (case props of None \<Rightarrow> zero_properties | Some p \<Rightarrow> p) (length body))"
    and e: "list_all2 encoded (message_frames ch (publish_method ex rk man imm)
        (case props of None \<Rightarrow> zero_properties | Some p \<Rightarrow> p) body (nat (frame_max (conn w)) - 8)) bss"
    and r: "amqp_basic_publish ch ex rk man imm props body w = (r, w')"
  shows "\<exists>k \<le> length (concat bss). sent w' = sent w @ take k (concat bss) \<and> (r = Done () \<longrightarrow> k = length (concat bss))"
proof -
  let ?p = "case props of None \<Rightarrow> zero_properties | Some p \<Rightarrow> p" and ?u = "nat (frame_max (conn w)) - 8"
  let ?m = "publish_method ex rk man imm"
  let ?go = "io_bind check_recv_heartbeat (\<lambda>_. io_bind (amqp_send_method_inner ch ?m amqp_time_infinite) (\<lambda>_.
      io_bind (amqp_send_frame_inner (header_frame ch ?p (length body)) amqp_time_infinite) (\<lambda>_ w.
        publish_loop (Suc (length (sends w))) ch ?u body 0 w)))"
  from e obtain b1 b2 bs where b: "bss = b1 # b2 # bs" "encoded (method_frame ch ?m) b1"
      "encoded (header_frame ch ?p (length body)) b2"
      "list_all2 encoded (map (body_frame ch) (pieces ?u (drop 0 body))) bs"
    by (auto simp: message_frames_def list_all2_Cons1)
  have "?u > 0" using m(1) by simp
  then have "sends_only (b2 @ concat bs) (io_bind (amqp_send_frame_inner (header_frame ch ?p (length body)) amqp_time_infinite)
      (\<lambda>_ w. publish_loop (Suc (length (sends w))) ch ?u body 0 w))"
    by (intro sends_only_bind_at [where k = "\<lambda>w. publish_loop (Suc (length (sends w))) ch ?u body 0"]
      send_frame_only [OF v(2) b(3)] publish_loop_sends [OF _ b(4)])
  from sends_only_bind [OF send_frame_only [OF v(1) b(2)] this]
  have "sends_only (b1 @ b2 @ concat bs) (io_bind (amqp_send_method_inner ch ?m amqp_time_infinite) (\<lambda>_.
      io_bind (amqp_send_frame_inner (header_frame ch ?p (length body)) amqp_time_infinite) (\<lambda>_ w.
        publish_loop (Suc (length (sends w))) ch ?u body 0 w)))"
    unfolding amqp_send_method_inner_def method_frame_def .
  from sends_only_after [OF check_recv_quiet this] have "sends_only (b1 @ b2 @ concat bs) ?go" .
  moreover have "?go w = (r, w')"
    using r unfolding amqp_basic_publish_def get_bind usable_size [OF m] Let_def .
  ultimately have "\<exists>k \<le> length (b1 @ b2 @ concat bs). sent w' = sent w @ take k (b1 @ b2 @ concat bs) \<and>
      (r = Done () \<longrightarrow> k = length (b1 @ b2 @ concat bs))"
    unfolding sends_only_def [of "b1 @ b2 @ concat bs"] by presburger
  then show ?thesis unfolding b(1) by simp
qed

section \<open>The rounds of the loop\<close>

text \<open>Nothing but sending takes answers of \<open>send\<close>, and sending a frame takes one at least.\<close>

interpretation answers: outside_condition "\<lambda>w. length (sends w) \<le> n" for n
  by unfold_locales simp_all

lemma tcp_send_loop_answers: "tcp_send_loop as len = (r, as') \<Longrightarrow>
    length as' \<le> length as \<and> (r \<noteq> None \<longrightarrow> length as' < length as)"
  by (induction as len rule: tcp_send_loop.induct) auto

lemma tcp_send_answers: "amqp_tcp_socket_send buf w = (Done res, w') \<Longrightarrow>
    sockfd w' = sockfd w \<and> (sockfd w \<noteq> None \<longrightarrow> length (sends w') < length (sends w)) \<and>
    (sockfd w = None \<longrightarrow> res = Sock_fails AMQP_STATUS_SOCKET_CLOSED)"
  by (auto simp: amqp_tcp_socket_send_def split: if_splits option.splits prod.splits sock.splits
      dest: tcp_send_loop_answers)

lemma send_pause_answers: "send_pause res gone d w = (Done x, w') \<Longrightarrow> sockfd w \<noteq> None \<and> length (sends w') \<le> length (sends w)"
proof -
  assume r: "send_pause res gone d w = (Done x, w')"
  obtain a w1 where a: "do_poll res d w = (a, w1)" by fastforce
  have "length (sends w1) \<le> length (sends w)"
    using keep_at_end [OF answers.keep_do_poll [of "length (sends w)" res d], of w] a by simp
  with r a show ?thesis
    by (cases a) (auto simp: send_pause_def do_poll_def io_bind_def io_catch_def io_return_def io_error_def io_fail_def
        split: if_splits)
qed

lemma try_send_loop_answers:
  "try_send_loop n buf gone d w = (Done m, w') \<Longrightarrow> length (sends w') < length (sends w)"
proof (induction n arbitrary: gone w)
  case (Suc n)
  from Suc.prems obtain res w1 where x: "amqp_tcp_socket_send (drop gone buf) w = (Done res, w1)"
    and k: "(case res of
        Moved (Suc k) \<Rightarrow>
          if gone + Suc k = length buf then io_return (length buf)
          else try_send_loop n buf (gone + Suc k) d
      | _ \<Rightarrow> io_bind (send_pause res gone d) (\<lambda>r.
          case r of None \<Rightarrow> try_send_loop n buf gone d | Some so_far \<Rightarrow> io_return so_far)) w1 = (Done m, w')"
    unfolding try_send_loop.simps by (rule bind_Done)
  note T = tcp_send_answers [OF x]
  show ?case
  proof (cases "\<exists>j. res = Moved (Suc j)")
    case True
    with k T Suc.IH show ?thesis by (fastforce simp: io_return_def split: if_splits)
  next
    case False
    with k have "io_bind (send_pause res gone d) (\<lambda>r.
          case r of None \<Rightarrow> try_send_loop n buf gone d | Some so_far \<Rightarrow> io_return so_far) w1 = (Done m, w')"
      by (cases res) (auto split: nat.splits)
    then obtain y w2 where y: "send_pause res gone d w1 = (Done y, w2)"
      and e: "(case y of None \<Rightarrow> try_send_loop n buf gone d | Some so_far \<Rightarrow> io_return so_far) w2 = (Done m, w')"
      by (rule bind_Done)
    from e Suc.IH [of gone w2] have "length (sends w') \<le> length (sends w2)"
      by (cases y) (auto simp: io_return_def)
    with send_pause_answers [OF y] T show ?thesis by simp
  qed
qed simp

lemma send_frame_loop_answers:
  "send_frame_loop n bytes d w = (Done (), w') \<Longrightarrow> length (sends w') < length (sends w)"
proof (induction n arbitrary: bytes w)
  case (Suc n)
  let ?t = "amqp_time_first d (next_recv_heartbeat (conn w))"
  let ?recv = "io_catch amqp_try_recv (\<lambda>code.
      if code = status_code AMQP_STATUS_TIMEOUT then io_fail AMQP_STATUS_HEARTBEAT_TIMEOUT else io_error code)"
  from Suc.prems obtain k w1 where x: "amqp_try_send bytes ?t w = (Done k, w1)"
    and e: "(if k = length bytes then schedule_send_heartbeat
       else if amqp_time_equal ?t d then io_fail AMQP_STATUS_TIMEOUT
       else io_bind ?recv (\<lambda>_. send_frame_loop n (drop k bytes) d)) w1 = (Done (), w')"
    unfolding send_frame_loop.simps Let_def by (rule bind_Done)
  have less: "length (sends w1) < length (sends w)"
    using x try_send_loop_answers by (simp add: amqp_try_send_def del: try_send_loop.simps)
  have recv: "keep (\<lambda>w. length (sends w) \<le> length (sends w1)) (\<lambda>w. length (sends w) \<le> length (sends w1)) ?recv"
    by (rule keep_catch_error [OF answers.keep_try_recv]) (simp add: io_defs)
  consider "schedule_send_heartbeat w1 = (Done (), w')"
    | "io_bind ?recv (\<lambda>_. send_frame_loop n (drop k bytes) d) w1 = (Done (), w')"
    using e by (auto simp: io_fail_def io_error_def split: if_splits)
  then show ?case
  proof cases
    case 1
    from keep_at_end [OF answers.keep_schedule(1) [of "length (sends w1)"], of w1] 1 less show ?thesis by simp
  next
    case 2
    then obtain u w2 where "?recv w1 = (Done u, w2)" and s: "send_frame_loop n (drop k bytes) d w2 = (Done (), w')"
      by (rule bind_Done)
    with keepD [OF recv, of w1 u w2] Suc.IH [OF s] less show ?thesis by simp
  qed
qed simp

lemma send_frame_answers:
  "amqp_send_frame_inner f d w = (Done (), w') \<Longrightarrow> length (sends w') < length (sends w)"
  using send_frame_loop_answers [of "Suc (length (sends w))" _ d "w\<lparr>conn := (conn w)\<lparr>outbound_buffer := _\<rparr>\<rparr>" w']
  by (fastforce simp: amqp_send_frame_inner_def Let_def simp del: send_frame_loop.simps split: dres.splits prod.splits)

text \<open>So the fuel never ends the loop: more of it gives the same.\<close>

lemma publish_fuel:
  "length (sends w) < n \<Longrightarrow> length (sends w) < m \<Longrightarrow>
    publish_loop n ch usable body off w = publish_loop m ch usable body off w"
proof (induction n arbitrary: m off w)
  case (Suc n)
  obtain m' where m: "m = Suc m'" using Suc.prems(2) by (cases m) auto
  have "io_bind (amqp_send_frame_inner F d) (\<lambda>_. publish_loop n ch usable body off') w =
      io_bind (amqp_send_frame_inner F d) (\<lambda>_. publish_loop m' ch usable body off') w" for F d off'
  proof (rule bind_cong [OF refl])
    fix x w1 assume "amqp_send_frame_inner F d w = (Done x, w1)"
    then have "length (sends w1) < length (sends w)" using send_frame_answers [of F d w w1] by simp
    with Suc.prems m show "publish_loop n ch usable body off' w1 = publish_loop m' ch usable body off' w1"
      by (intro Suc.IH) simp_all
  qed
  then show ?case unfolding m by (simp add: Let_def)
qed simp

text \<open>A frame that cannot hold a byte of the body is sent again and again.\<close>

lemma publish_loop_stuck: "off < length body \<Longrightarrow> publish_loop n ch 0 body off w \<noteq> (Done (), w')"
proof (induction n arbitrary: w)
  case (Suc n)
  then show ?case by (auto simp: Let_def elim!: bind_Done)
qed simp

lemma publish_8_never_done:
  assumes "frame_max (conn w) = 8" and "body \<noteq> []"
  shows "amqp_basic_publish ch ex rk man imm props body w \<noteq> (Done (), w')"
proof -
  have "usable_body_payload_size (conn w) = 0"
    using assms(1) by (simp add: usable_body_payload_size_def size_t_of_int_def frame_sizes)
  with assms(2) publish_loop_stuck [of 0 body] show ?thesis
    by (auto simp: amqp_basic_publish_def get_bind Let_def elim!: bind_Done simp del: publish_loop.simps)
qed

section \<open>Publishing succeeds\<close>

text \<open>
  \<open>accepts w bss\<close>: the socket takes the frames with the bytes \<open>bss\<close>, each at once, and they fit
  into the buffer they are encoded in; no heartbeats were agreed on.
\<close>

definition accepts :: "world \<Rightarrow> byte list list \<Rightarrow> bool" where
  "accepts w bss \<longleftrightarrow> sockfd w \<noteq> None \<and> heartbeat (conn w) = 0 \<and> next_recv_heartbeat (conn w) = amqp_time_infinite \<and>
    (\<exists>ks ss. sends w = map Os_sent ks @ ss \<and> list_all2 (\<lambda>bs k. length bs \<le> k) bss ks) \<and>
    (\<forall>bs \<in> set bss. bs \<noteq> [] \<and> length bs \<le> length (outbound_buffer (conn w)))"

lemma frame_in_buffer:
  assumes "valid_frame F" and "encoded F bs" and "length bs \<le> length buf"
  shows "\<exists>buf'. amqp_frame_to_bytes F buf = (Returns bs, buf') \<and> length buf' = length buf"
proof -
  obtain p where p: "payload_bytes undefined F p" using valid_frame_payload [OF assms(1)] by blast
  then have "bs = frame_image (frame_type F) (channel F) p"
    using assms(2) frame_bytes_image [OF p] unfolding encoded_def by blast
  with frame_to_bytes_fits [OF p, of buf] assms(3) show ?thesis by simp
qed

lemma send_accepted:
  assumes "valid_frame F" and "encoded F bs" and a: "accepts w (bs # bss)"
  shows "\<exists>w'. amqp_send_frame_inner F d w = (Done (), w') \<and> accepts w' bss"
proof -
  from a obtain k ks ss where s: "sends w = Os_sent k # map Os_sent ks @ ss" "length bs \<le> k"
      "list_all2 (\<lambda>bs k. length bs \<le> k) bss ks"
    by (auto simp: accepts_def list_all2_Cons1)
  obtain buf where "amqp_frame_to_bytes F (outbound_buffer (conn w)) = (Returns bs, buf)"
    and l: "length buf = length (outbound_buffer (conn w))"
    using frame_in_buffer [OF assms(1,2)] a by (auto simp: accepts_def)
  from send_at_once [OF this(1) _ s(1,2)] a l s(3) show ?thesis
    by (auto simp: accepts_def)
qed

lemma publish_loop_completes:
  assumes "usable > 0" and "list_all2 encoded (map (body_frame ch) (pieces usable (drop off body))) bss"
    and "accepts w bss" and "length bss \<le> n"
  shows "\<exists>w'. publish_loop n ch usable body off w = (Done (), w')"
  using assms(2-)
proof (induction n arbitrary: off bss w)
  case 0
  then show ?case using pieces_step [OF assms(1), of off body] by (cases "off < length body") auto
next
  case (Suc n)
  show ?case
  proof (cases "off < length body")
    case True
    let ?len = "min usable (length body - off)"
    from Suc.prems obtain bs rest where b: "bss = bs # rest" "encoded (body_frame ch (chunk off ?len body)) bs"
        "list_all2 encoded (map (body_frame ch) (pieces usable (drop (off + ?len) body))) rest"
      by (auto simp: pieces_step [OF assms(1) True] list_all2_Cons1)
    obtain w1 where "amqp_send_frame_inner (body_frame ch (chunk off ?len body)) amqp_time_infinite w = (Done (), w1)"
      and "accepts w1 rest"
      using send_accepted [OF valid_body_frame b(2)] Suc.prems(2) b(1) by blast
    moreover have "(if usable \<le> length body - off then usable else length body - off) = ?len" by simp
    ultimately show ?thesis using Suc.IH [OF b(3), of w1] Suc.prems(3) b(1) True by (simp add: io_bind_def Let_def)
  qed simp
qed

lemma publish_completes:
  assumes m: "8 < frame_max (conn w)" "frame_max (conn w) < 2 ^ 31"
    and v: "valid_frame (method_frame ch (publish_method ex rk man imm))"
      "valid_frame (header_frame ch (case props of None \<Rightarrow> zero_properties | Some p \<Rightarrow> p) (length body))"
    and e: "list_all2 encoded (message_frames ch (publish_method ex rk man imm)
        (case props of None \<Rightarrow> zero_properties | Some p \<Rightarrow> p) body (nat (frame_max (conn w)) - 8)) bss"
    and a: "accepts w bss"
  shows "\<exists>w'. amqp_basic_publish ch ex rk man imm props body w = (Done (), w')"
proof -
  let ?p = "case props of None \<Rightarrow> zero_properties | Some p \<Rightarrow> p" and ?u = "nat (frame_max (conn w)) - 8"
  let ?m = "publish_method ex rk man imm"
  from e obtain b1 b2 bs where b: "bss = b1 # b2 # bs" "encoded (method_frame ch ?m) b1"
      "encoded (header_frame ch ?p (length body)) b2"
      "list_all2 encoded (map (body_frame ch) (pieces ?u (drop 0 body))) bs"
    by (auto simp: message_frames_def list_all2_Cons1)
  let ?w0 = "w\<lparr>ticks := Suc (ticks w)\<rparr>"
  have chk: "check_recv_heartbeat w = (Done (), ?w0)"
    using a by (simp add: check_recv_heartbeat_def accepts_def io_bind_def read_clock_def get_conn_def io_return_def
        amqp_time_has_past_def amqp_time_infinite_def Let_def)
  have "accepts ?w0 (b1 # b2 # bs)" using a b(1) by (simp add: accepts_def)
  then obtain w1 where w1: "amqp_send_frame_inner (method_frame ch ?m) amqp_time_infinite ?w0 = (Done (), w1)"
    and "accepts w1 (b2 # bs)" using send_accepted [OF v(1) b(2)] by blast
  then obtain w2 where w2: "amqp_send_frame_inner (header_frame ch ?p (length body)) amqp_time_infinite w1 = (Done (), w2)"
    and a2: "accepts w2 bs" using send_accepted [OF v(2) b(3)] by blast
  have "length bs \<le> Suc (length (sends w2))" using a2 by (auto simp: accepts_def dest: list_all2_lengthD)
  moreover have "?u > 0" using m(1) by simp
  ultimately obtain w' where "publish_loop (Suc (length (sends w2))) ch ?u body 0 w2 = (Done (), w')"
    using publish_loop_completes [OF _ b(4) a2] by blast
  then show ?thesis using chk w1 w2
    by (simp add: amqp_basic_publish_def get_conn_def usable_size [OF m] amqp_send_method_inner_def method_frame_def
        Let_def io_bind_def del: publish_loop.simps)
qed

end
