(* ===== verification/Message_Reading.thy ===== *)
theory Message_Reading
  imports Amqp_Consumer Publishing
begin

text \<open>
  Messages that are read: the copy of the properties, the body that is put together from its
  fragments, and the memory of a message, which \<open>amqp_destroy_message\<close> gives back.
\<close>

section \<open>Properties\<close>

lemma copies_clone_field: "copies (clone_field c x) True (if c then x else [])"
  by (simp add: clone_field_def copies_return copies_bytes)

lemma copies_headers:
  "copies (if c then amqp_table_clone t else dec_return []) (c \<longrightarrow> clonable (Fv_table t)) (if c then t else [])"
  using copies_table [of t] by (simp add: copies_return)

lemma copies_final: "x = y \<Longrightarrow> copies (dec_return x) True y"
  by (simp add: copies_return)

lemma copies_properties:
  "copies (amqp_basic_properties_clone p) (has_prop p AMQP_BASIC_HEADERS_FLAG \<longrightarrow> clonable (Fv_table (headers p)))
    (present_properties p zero_properties)"
  unfolding amqp_basic_properties_clone_def
  by (rule copies_eq, (rule copies_bind copies_clone_field copies_headers)+, rule copies_final)
    (simp_all add: present_properties_def zero_properties_def)

lemma dec_mem_clone_field [dec_mem_intros]: "dec_mem (clone_field c x)"
  unfolding clone_field_def by (intro dec_mem_intros)

lemma dec_mem_properties_clone [dec_mem_intros]: "dec_mem (amqp_basic_properties_clone p)"
  unfolding amqp_basic_properties_clone_def by (intro dec_mem_intros)

text \<open>The copy of the properties of a message, in a pool of its own.\<close>

lemma clone_in_pool_copies:
  assumes "roomy h" and "heap_ok h"
    and "has_prop p AMQP_BASIC_HEADERS_FLAG \<longrightarrow> clonable (Fv_table (headers p))"
  obtains pool h' where "clone_in_pool p (init_amqp_pool 4096) h = ((Returns (present_properties p zero_properties), pool), h')"
    "pool_ok pool h'" "live h' - pool_owned pool = live h" "roomy h'"
proof -
  let ?s = "\<lparr>doff = 0, dpool = init_amqp_pool 4096, dheap = h\<rparr>" and ?v = "\<lparr>vmem = [], vlen = 0\<rparr> :: amqp_view"
  obtain s' where s': "roomy (dheap s')"
      "amqp_basic_properties_clone p ?v ?s = (Returns (present_properties p zero_properties), s')"
    using copies_properties [of p, unfolded copies_def, rule_format, of ?s ?v] assms(1,3) by auto
  have "pool_ok (dpool ?s) (dheap ?s)" using pool_ok_init [OF assms(2)] by simp
  from dec_memD [OF dec_mem_properties_clone this s'(2)] assms(1)
  have "pool_ok (dpool s') (dheap s')" "foreign s' = foreign ?s"
    by (simp_all add: mem_step_def defined_result_def)
  moreover have "foreign ?s = live h" by (simp add: foreign_def pool_owned_def bl_owned_def init_amqp_pool_def)
  ultimately show ?thesis using s' by (intro that [of "dpool s'" "dheap s'"]) (simp_all add: clone_in_pool_def foreign_def)
qed

section \<open>The body\<close>

lemma wait_on_channel_queued:
  assumes "first_queued_frame (conn w) = f # fs" and "channel f = ch"
  shows "attempt (amqp_simple_wait_frame_on_channel ch old) w =
    (Done (Inr f), w\<lparr>conn := (conn w)\<lparr>first_queued_frame := fs\<rparr>\<rparr>)"
  using assms by (simp add: attempt_def amqp_simple_wait_frame_on_channel_def io_defs)

lemma body_frame_simps [simp]:
  "uint (frame_type (body_frame ch p)) = AMQP_FRAME_BODY" "channel (body_frame ch p) = ch"
  "payload (body_frame ch p) = Body_payload p"
  by (simp_all add: body_frame_def AMQP_FRAME_BODY_def)

text \<open>
  \<open>filled c off xs c'\<close>: the bytes \<open>xs\<close> come behind the first \<open>off\<close> bytes.
\<close>

lemma read_body_joins:
  assumes "first_queued_frame (conn w) = map (body_frame ch) frags @ rest" and "[] \<notin> set frags"
    and "off + length (concat frags) = bytes_len body" and "bytes_block body = Some b"
    and "length frags \<le> n" and "off \<le> length (content (mem w) b)"
  shows "\<exists>c. read_body n ch body off old w = (Done reply_normal, w\<lparr>conn := (conn w)\<lparr>first_queued_frame := rest\<rparr>,
      mem := (mem w)\<lparr>content := (content (mem w))(b := c)\<rparr>\<rparr>) \<and>
    take (bytes_len body) c = take off (content (mem w) b) @ concat frags"
  using assms
proof (induction frags arbitrary: n off old w)
  case Nil
  then have "read_body n ch body off old w = (Done reply_normal, w)" by (cases n) simp_all
  with Nil show ?case
    by (intro exI [of _ "content (mem w) b"]) simp
next
  case (Cons x xs)
  obtain m where n: "n = Suc m" using Cons.prems(5) by (cases n) auto
  let ?f = "body_frame ch x"
  let ?c = "write_at (content (mem w) b) off x"
  let ?w = "w\<lparr>conn := (conn w)\<lparr>first_queued_frame := map (body_frame ch) xs @ rest\<rparr>,
      mem := (mem w)\<lparr>content := (content (mem w))(b := ?c)\<rparr>\<rparr>"
  have "x \<noteq> []" using Cons.prems(2) by auto
  have "off + length x + length (concat xs) = bytes_len body" using Cons.prems(3) by simp
  note more = this Cons.prems(4)
  have less: "off < bytes_len body" using more(1) \<open>x \<noteq> []\<close> by (cases x) auto
  have q: "first_queued_frame (conn w) = ?f # (map (body_frame ch) xs @ rest)" using Cons.prems(1) by simp
  have step: "read_body n ch body off old w = read_body m ch body (off + length x) ?f ?w"
    using more less
    by (simp add: n io_bind_def wait_on_channel_queued [OF q] on_heap_def copy_fragment_def)
  have c: "take (off + length x) ?c = take off (content (mem w) b) @ x" "off + length x \<le> length ?c"
    using Cons.prems(6) by (simp_all add: write_at_def)
  have "\<exists>c. read_body m ch body (off + length x) ?f ?w = (Done reply_normal, ?w\<lparr>conn := (conn ?w)\<lparr>first_queued_frame := rest\<rparr>,
      mem := (mem ?w)\<lparr>content := (content (mem ?w))(b := c)\<rparr>\<rparr>) \<and>
    take (bytes_len body) c = take (off + length x) (content (mem ?w) b) @ concat xs"
    by (rule Cons.IH) (use Cons.prems more n c in simp_all)
  then obtain c' where c': "read_body m ch body (off + length x) ?f ?w = (Done reply_normal, ?w\<lparr>conn := (conn ?w)\<lparr>first_queued_frame := rest\<rparr>,
      mem := (mem ?w)\<lparr>content := (content (mem ?w))(b := c')\<rparr>\<rparr>)"
    "take (bytes_len body) c' = take (off + length x) ?c @ concat xs"
    by auto
  with c(1) step show ?case by (intro exI [of _ c']) (simp add: fun_upd_def cong: if_cong)
qed

section \<open>Whole messages\<close>

text \<open>The bytes of a byte string that owns its memory.\<close>

definition owned_content :: "owned_bytes \<Rightarrow> heap \<Rightarrow> byte list" where
  "owned_content bs h = (case bytes_block bs of None \<Rightarrow> [] | Some b \<Rightarrow> take (bytes_len bs) (content h b))"

definition content_header :: "amqp_channel_t \<Rightarrow> u16 \<Rightarrow> nat \<Rightarrow> amqp_basic_properties_t \<Rightarrow> byte list \<Rightarrow> amqp_frame_t" where
  "content_header ch cls n p raw =
    \<lparr>frame_type = word_of_int AMQP_FRAME_HEADER, channel = ch, payload = Properties_payload cls (of_nat n) (P_basic p) raw\<rparr>"

lemma content_header_simps [simp]:
  "uint (frame_type (content_header ch cls n p raw)) = AMQP_FRAME_HEADER" "channel (content_header ch cls n p raw) = ch"
  "payload (content_header ch cls n p raw) = Properties_payload cls (of_nat n) (P_basic p) raw"
  by (simp_all add: content_header_def AMQP_FRAME_HEADER_def)

text \<open>What is given back with a message: its pool, and the block of its body.\<close>

lemma destroy_message_frees:
  assumes "pool_ok (message_pool msg) h" and "bytes_block (message_body msg) = Some b"
    and "b \<in> live h" and "b \<notin> pool_owned (message_pool msg)"
  shows "live (amqp_destroy_message msg h) = live h - pool_owned (message_pool msg) - {b} \<and>
    \<not> bad_free (amqp_destroy_message msg h)"
proof -
  obtain pool' h' where e: "empty_amqp_pool (message_pool msg) h = (pool', h')" by fastforce
  from empty_amqp_pool_frees [OF assms(1) e] have "pool_ok pool' h'" "live h' = live h - pool_owned (message_pool msg)"
    by simp_all
  with assms e show ?thesis
    by (simp add: amqp_destroy_message_def amqp_bytes_free_def free_def pool_ok_iff heap_ok_def)
qed

lemma destroy_message_without_body:
  assumes "pool_ok (message_pool msg) h" and "bytes_block (message_body msg) = None"
  shows "live (amqp_destroy_message msg h) = live h - pool_owned (message_pool msg) \<and>
    \<not> bad_free (amqp_destroy_message msg h)"
proof -
  obtain pool' h' where e: "empty_amqp_pool (message_pool msg) h = (pool', h')" by fastforce
  from empty_amqp_pool_frees [OF assms(1) e] have "pool_ok pool' h'" "live h' = live h - pool_owned (message_pool msg)"
    by simp_all
  with assms e show ?thesis
    by (simp add: amqp_destroy_message_def amqp_bytes_free_def free_def pool_ok_iff heap_ok_def)
qed

lemma read_content_joins:
  assumes q: "first_queued_frame (conn w) = map (body_frame ch) frags @ rest" and ne: "[] \<notin> set frags"
    and r: "roomy (mem w)" and h: "heap_ok (mem w)"
    and p: "has_prop p AMQP_BASIC_HEADERS_FLAG \<longrightarrow> clonable (Fv_table (headers p))"
  shows "\<exists>msg w'. read_content ch frame (length (concat frags)) p w = (Done (reply_normal, msg), w') \<and>
    message_properties msg = present_properties p zero_properties \<and>
    bytes_len (message_body msg) = length (concat frags) \<and>
    owned_content (message_body msg) (mem w') = concat frags \<and>
    first_queued_frame (conn w') = rest \<and>
    live (amqp_destroy_message msg (mem w')) = live (mem w) \<and> \<not> bad_free (amqp_destroy_message msg (mem w'))"
proof -
  let ?q = "present_properties p zero_properties" and ?n = "length (concat frags)"
  obtain pool h1 where c: "clone_in_pool p (init_amqp_pool 4096) (mem w) = ((Returns ?q, pool), h1)"
    and P: "pool_ok pool h1" "live h1 - pool_owned pool = live (mem w)" "roomy h1"
    by (rule clone_in_pool_copies [OF r h p])
  let ?w1 = "w\<lparr>mem := h1\<rparr>"
  show ?thesis
  proof (cases "frags = []")
    case True
    let ?msg = "\<lparr>message_properties = ?q, message_body = empty_owned, message_pool = pool\<rparr>"
    have "read_content ch frame ?n p w = (Done (reply_normal, ?msg), ?w1)"
      using True by (simp add: read_content_def on_heap_def io_bind_def c io_return_def)
    with destroy_message_without_body [of ?msg h1] P q True show ?thesis
      by (intro exI [of _ ?msg] exI [of _ ?w1]) (simp add: owned_content_def empty_owned_def)
  next
    case False
    then have n0: "?n \<noteq> 0" using ne by (cases frags) auto
    obtain b h2 where m: "malloc ?n h1 = (Some b, h2)"
      and b: "b = next_id h1" "h2 = h1\<lparr>next_id := Suc (next_id h1), live := insert (next_id h1) (live h1)\<rparr>"
      using P(3) by (cases rule: malloc_cases [of ?n h1]) auto
    let ?body = "\<lparr>bytes_len = ?n, bytes_block = Some b\<rparr>"
    let ?msg = "\<lparr>message_properties = ?q, message_body = ?body, message_pool = pool\<rparr>"
    let ?w2 = "w\<lparr>mem := h2\<rparr>"
    have "length frags \<le> Suc (frames_to_come ?w2)" using q by (simp add: frames_to_come_def)
    from read_body_joins [of ?w2 ch frags rest 0 ?body b "Suc (frames_to_come ?w2)" frame, OF _ ne _ _ this]
    obtain cs where cs: "read_body (Suc (frames_to_come ?w2)) ch ?body 0 frame ?w2 =
        (Done reply_normal, ?w2\<lparr>conn := (conn ?w2)\<lparr>first_queued_frame := rest\<rparr>, mem := h2\<lparr>content := (content h2)(b := cs)\<rparr>\<rparr>)"
      "take ?n cs = concat frags"
      using q by auto
    let ?h3 = "h2\<lparr>content := (content h2)(b := cs)\<rparr>"
    let ?w3 = "?w2\<lparr>conn := (conn ?w2)\<lparr>first_queued_frame := rest\<rparr>, mem := ?h3\<rparr>"
    have run: "read_content ch frame ?n p w = (Done (reply_normal, ?msg), ?w3)"
      using cs(1)
      by (simp add: if_not_P [OF n0] read_content_def on_heap_def io_bind_def c io_return_def amqp_bytes_malloc_def m Let_def
          reply_normal_def del: read_body.simps length_concat length_0_conv)
    have fresh: "b \<notin> live h1" using P(1) b(1) by (auto simp: pool_ok_iff heap_ok_def)
    have out: "b \<notin> pool_owned pool" "alloc_block pool \<noteq> Some b"
      using P(1) fresh by (auto simp: pool_ok_iff bl_ok_def pool_owned_def alloc_block_ok_def)
    have "pool_ok pool ?h3"
      by (rule pool_ok_content) (use pool_ok_add [OF P(1)] b out in auto)
    from destroy_message_frees [of ?msg ?h3 b] this out fresh b P(2)
    have "live (amqp_destroy_message ?msg ?h3) = live (mem w) \<and> \<not> bad_free (amqp_destroy_message ?msg ?h3)"
      by auto
    with run cs(2) show ?thesis
      by (intro exI [of _ ?msg] exI [of _ ?w3]) (simp add: owned_content_def)
  qed
qed

lemma read_message_joins:
  assumes q: "first_queued_frame (conn w) = content_header ch cls (length (concat frags)) p raw # map (body_frame ch) frags @ rest"
    and ne: "[] \<notin> set frags" and len: "length (concat frags) < 2 ^ 64"
    and r: "roomy (mem w)" and h: "heap_ok (mem w)"
    and p: "has_prop p AMQP_BASIC_HEADERS_FLAG \<longrightarrow> clonable (Fv_table (headers p))"
  shows "\<exists>msg w'. amqp_read_message ch w = (Done (reply_normal, msg), w') \<and>
    message_properties msg = present_properties p zero_properties \<and>
    bytes_len (message_body msg) = length (concat frags) \<and>
    owned_content (message_body msg) (mem w') = concat frags \<and>
    first_queued_frame (conn w') = rest \<and>
    live (amqp_destroy_message msg (mem w')) = live (mem w) \<and> \<not> bad_free (amqp_destroy_message msg (mem w'))"
proof -
  let ?f = "content_header ch cls (length (concat frags)) p raw"
  let ?w = "w\<lparr>conn := (conn w)\<lparr>first_queued_frame := map (body_frame ch) frags @ rest\<rparr>\<rparr>"
  have u: "unat (of_nat (length (concat frags)) :: u64) = length (concat frags)"
    using len by (simp add: unat_of_nat take_bit_eq_mod del: length_concat)
  have "amqp_read_message ch w = read_content ch ?f (length (concat frags)) p ?w"
    by (simp add: amqp_read_message_def io_bind_def wait_on_channel_queued [OF q] as_basic_properties_def u del: length_concat)
  with read_content_joins [of ?w ch frags rest p ?f] ne r h p show ?thesis by (simp del: length_concat)
qed

section \<open>Two ways in which it goes wrong\<close>

text \<open>When there is no memory for the body, the blocks of the pool stay allocated.\<close>

lemma body_refused_leaks:
  assumes c: "clone_in_pool p (init_amqp_pool 4096) (mem w) = ((Returns q, pool), h1)" and P: "pool_ok pool h1"
    and n: "n \<noteq> 0" "fails h1 (next_id h1) n"
  shows "\<exists>msg w'. read_content ch frame n p w = (Done (amqp_rpc_reply_error (status_code AMQP_STATUS_NO_MEMORY), msg), w') \<and>
    message_pool msg = pool \<and> pool_owned pool \<subseteq> live (mem w')"
proof -
  have "amqp_bytes_malloc n h1 = (\<lparr>bytes_len = n, bytes_block = None\<rparr>, h1\<lparr>next_id := Suc (next_id h1)\<rparr>)"
    using n(2) by (simp add: amqp_bytes_malloc_def malloc_def Let_def)
  then show ?thesis
    using n(1) pool_owned_live [OF P]
    by (simp add: read_content_def on_heap_def io_bind_def c io_return_def Let_def)
qed

text \<open>
  A header frame of another class with a flag of the basic properties makes the code read
  past the end of its struct.
\<close>

lemma foreign_header_crashes:
  assumes "first_queued_frame (conn w) = f # fs" and "channel f = ch"
    and "uint (frame_type f) = AMQP_FRAME_HEADER"
    and "payload f = Properties_payload 10 n (P_connection flags) raw" and "flags AND basic_flags \<noteq> 0"
  shows "fst (amqp_read_message ch w) = Crash"
  using assms
  by (simp add: amqp_read_message_def io_bind_def wait_on_channel_queued [OF assms(1,2)] as_basic_properties_def crash_def)

end
