(* ===== verification/Socket_Properties.thy ===== *)
theory Socket_Properties
  imports Wait_Termination Input_Properties
begin

text \<open>
  Properties of the socket layer and of remote procedure calls, each with an instance.
\<close>

section \<open>A concrete world\<close>

text \<open>A client that opens channel 1; the peer answers in two pieces, and a byte follows.\<close>

definition open_image :: "byte list" where
  "open_image = [1, 0, 1, 0, 0, 0, 5, 0, 20, 0, 10, 0, 206]"

definition open_ok_image :: "byte list" where
  "open_ok_image = [1, 0, 1, 0, 0, 0, 8, 0, 20, 0, 11, 0, 0, 0, 0, 206]"

definition blank_properties :: amqp_basic_properties_t where
  "blank_properties = \<lparr>amqp_basic_properties_t.props_flags = 0,
     amqp_basic_properties_t.content_type = [], amqp_basic_properties_t.content_encoding = [],
     amqp_basic_properties_t.headers = [], amqp_basic_properties_t.delivery_mode = 0,
     amqp_basic_properties_t.priority = 0, amqp_basic_properties_t.correlation_id = [],
     amqp_basic_properties_t.reply_to = [], amqp_basic_properties_t.expiration = [],
     amqp_basic_properties_t.message_id = [], amqp_basic_properties_t.timestamp = 0,
     amqp_basic_properties_t.type = [], amqp_basic_properties_t.user_id = [],
     amqp_basic_properties_t.app_id = [], amqp_basic_properties_t.cluster_id = []\<rparr>"

definition client :: world where
  "client = \<lparr>conn = idle_connection\<lparr>outbound_buffer := replicate 32 0, sock_inbound_buffer := replicate 32 0\<rparr>,
     mem = fresh_heap, sockfd = Some 3, clock = (\<lambda>_. 1), ticks = 0, polls = [], sends = [Os_sent 100],
     recvs = [Os_data [1, 0, 1], Os_data [0, 0, 0, 8, 0, 20, 0, 11, 0, 0, 0, 0, 206, 8]],
     close_fails = False, sent = [], spare = blank_properties\<rparr>"

abbreviation channel_1_open :: amqp_method_t where
  "channel_1_open \<equiv> M_channel_open \<lparr>amqp_channel_open_t.out_of_band = []\<rparr>"

abbreviation channel_1_open_ok :: amqp_method_t where
  "channel_1_open_ok \<equiv> M_channel_open_ok \<lparr>amqp_channel_open_ok_t.channel_id = []\<rparr>"

lemma client_ok [simp]:
  "world_ok client" "listening client" "unread client = []" "mem client = fresh_heap"
  "state (conn client) = CONNECTION_STATE_IDLE"
proof -
  have "input_ok (conn client) fresh_heap = input_ok idle_connection fresh_heap"
    by (rule input_ok_cong) (simp add: client_def input_fields_def)
  then have i: "input_ok (conn client) fresh_heap" by simp
  then show w: "world_ok client"
    by (simp add: world_ok_def buffer_ok_def) (simp add: client_def idle_connection_def)
  then show "listening client"
    by (simp add: listening_def) (simp add: client_def idle_connection_def)
qed (simp_all add: client_def idle_connection_def unread_def chunk_def)

lemma client_fields [simp]:
  "outbound_buffer (conn client) = replicate 32 0" "sends client = [Os_sent 100]" "sent client = []"
  "rpc_timeout (conn client) = None" "frame_max (conn client) = 4096"
  "sock_inbound_buffer (conn client) = replicate 32 0" "first_queued_frame (conn client) = []"
  "recvs client = [Os_data [1, 0, 1], Os_data [0, 0, 0, 8, 0, 20, 0, 11, 0, 0, 0, 0, 206, 8]]"
  by (simp_all add: client_def idle_connection_def)

lemma open_bytes:
  "amqp_frame_to_bytes (method_frame 1 channel_1_open) (replicate 32 0) =
    (Returns open_image, open_image @ replicate 19 0)"
  "amqp_frame_to_bytes (method_frame 1 channel_1_open_ok) (replicate 32 0) =
    (Returns open_ok_image, open_ok_image @ replicate 16 0)"
  by (simp_all add: open_image_def open_ok_image_def method_frame_def amqp_frame_to_bytes_def put_def
      encode_payload_def finish_frame_def amqp_encode_method_def frame_types frame_sizes method_numbers
      chunk_def AMQP_FRAME_END_def encode_channel_open_def encode_channel_open_ok_def
      enc_shortstr_def enc_longstr_def enc_eval)
    (simp_all add: numeral_eq_Suc)

section \<open>Calls\<close>

text \<open>
  C7: A remote procedure call that is answered returns the answer: when the socket takes the
  request and the peer's reply arrives, cut into any pieces and followed by anything,
  \<open>amqp_simple_rpc_decoded\<close> returns the decoded reply.  It has sent the request and nothing
  else, has queued nothing, and the bytes behind the reply are still to be read.
\<close>

theorem rpc_answered:
  assumes "listening w" and "unread w = []" and "state (conn w) = CONNECTION_STATE_IDLE"
    and "rpc_timeout (conn w) = None"
    and "amqp_frame_to_bytes (method_frame ch m) (outbound_buffer (conn w)) = (Returns request, buf)" and "request \<noteq> []"
    and "sends w = Os_sent k # ss" and "length request \<le> k"
    and "amqp_frame_to_bytes (method_frame ch m') buf2 = (Returns answer, buf3)" and "valid_method m'"
    and "length answer < INT32_MAX" and "length answer \<le> size_t_of_int (frame_max (conn w))"
    and "delivers w answer rest ds rs"
  shows "\<exists>w'. amqp_simple_rpc_decoded ch (method_number m') m w = (Done (Some m'), w') \<and>
    sent w' = sent w @ request \<and> world_ok w' \<and> unread w' = rest \<and> state (conn w') = CONNECTION_STATE_IDLE \<and>
    recvs w' = rs \<and> first_queued_frame (conn w') = first_queued_frame (conn w)"
  by (rule rpc_answered_lemma [OF assms])

text \<open>The answer to the client's request to open a channel.\<close>

lemmas client_hears = client_ok client_fields open_bytes open_image_def open_ok_image_def
  INT32_MAX_def size_t_of_int_def longstr_def

lemma client_delivers:
  "delivers client open_ok_image [8] [[1, 0, 1], [0, 0, 0, 8, 0, 20, 0, 11, 0, 0, 0, 0, 206, 8]] []"
  by (simp add: delivers_def open_ok_image_def)

theorem rpc_answered_witness:
  "\<exists>w'. amqp_channel_open 1 client = (Done (Some channel_1_open_ok), w') \<and>
    sent w' = open_image \<and> unread w' = [8]"
proof -
  have "\<exists>w'. amqp_simple_rpc_decoded 1 (method_number channel_1_open_ok) channel_1_open client =
        (Done (Some channel_1_open_ok), w') \<and>
      sent w' = sent client @ open_image \<and> world_ok w' \<and> unread w' = [8] \<and>
      state (conn w') = CONNECTION_STATE_IDLE \<and> recvs w' = [] \<and>
      first_queued_frame (conn w') = first_queued_frame (conn client)"
    by (rule rpc_answered [where k = 100 and ss = "[]" and buf = "open_image @ replicate 19 0" and
          ?buf2.0 = "replicate 32 0" and ?buf3.0 = "open_ok_image @ replicate 16 0", OF _ _ _ _ _ _ _ _ open_bytes(2) _ _ _ client_delivers])
      (simp_all add: client_hears)
  then show ?thesis by (auto simp: amqp_channel_open_def)
qed

text \<open>
  C14: What \<open>amqp_simple_rpc\<close> returns has the form its type says: a normal reply is one of the
  methods asked for, a server exception is the closing of the channel or of the connection,
  and everything else is a library exception without a method; the call itself never fails.
\<close>

theorem rpc_reply_proper:
  assumes "amqp_simple_rpc ch ids m w = (r, w')"
  shows "(\<forall>c. r \<noteq> Error c) \<and> (\<forall>x. r = Done x \<longrightarrow> proper_reply ids x)"
  by (rule rpc_reply [OF assms])

theorem rpc_reply_proper_witness:
  "\<exists>w'. amqp_simple_rpc 1 [AMQP_CHANNEL_OPEN_OK_METHOD] channel_1_open client =
      (Done (normal_reply channel_1_open_ok), w') \<and>
    proper_reply [AMQP_CHANNEL_OPEN_OK_METHOD] (normal_reply channel_1_open_ok)"
proof -
  have "\<exists>w'. amqp_simple_rpc 1 [method_number channel_1_open_ok] channel_1_open client =
        (Done (normal_reply channel_1_open_ok), w') \<and>
      sent w' = sent client @ open_image \<and> world_ok w' \<and> unread w' = [8] \<and>
      state (conn w') = CONNECTION_STATE_IDLE \<and> recvs w' = [] \<and>
      first_queued_frame (conn w') = first_queued_frame (conn client)"
    by (rule rpc_returns_answer [where k = 100 and ss = "[]" and buf = "open_image @ replicate 19 0" and
          ?buf2.0 = "replicate 32 0" and ?buf3.0 = "open_ok_image @ replicate 16 0", OF _ _ _ _ _ _ _ _ open_bytes(2) _ _ _ client_delivers])
      (simp_all add: client_hears)
  then obtain w' where "amqp_simple_rpc 1 [AMQP_CHANNEL_OPEN_OK_METHOD] channel_1_open client =
      (Done (normal_reply channel_1_open_ok), w')" by auto
  with rpc_reply_proper [OF this] show ?thesis by blast
qed

text \<open>The number of a reply tells its type.\<close>

lemma reply_types:
  "method_number x = AMQP_CONNECTION_UPDATE_SECRET_OK_METHOD \<Longrightarrow> known x \<Longrightarrow> x = M_connection_update_secret_ok"
  "method_number x = AMQP_CHANNEL_OPEN_OK_METHOD \<Longrightarrow> known x \<Longrightarrow> \<exists>y. x = M_channel_open_ok y"
  "method_number x = AMQP_CHANNEL_FLOW_OK_METHOD \<Longrightarrow> known x \<Longrightarrow> \<exists>y. x = M_channel_flow_ok y"
  "method_number x = AMQP_EXCHANGE_DECLARE_OK_METHOD \<Longrightarrow> known x \<Longrightarrow> x = M_exchange_declare_ok"
  "method_number x = AMQP_EXCHANGE_DELETE_OK_METHOD \<Longrightarrow> known x \<Longrightarrow> x = M_exchange_delete_ok"
  "method_number x = AMQP_EXCHANGE_BIND_OK_METHOD \<Longrightarrow> known x \<Longrightarrow> x = M_exchange_bind_ok"
  "method_number x = AMQP_EXCHANGE_UNBIND_OK_METHOD \<Longrightarrow> known x \<Longrightarrow> x = M_exchange_unbind_ok"
  "method_number x = AMQP_QUEUE_DECLARE_OK_METHOD \<Longrightarrow> known x \<Longrightarrow> \<exists>y. x = M_queue_declare_ok y"
  "method_number x = AMQP_QUEUE_BIND_OK_METHOD \<Longrightarrow> known x \<Longrightarrow> x = M_queue_bind_ok"
  "method_number x = AMQP_QUEUE_PURGE_OK_METHOD \<Longrightarrow> known x \<Longrightarrow> \<exists>y. x = M_queue_purge_ok y"
  "method_number x = AMQP_QUEUE_DELETE_OK_METHOD \<Longrightarrow> known x \<Longrightarrow> \<exists>y. x = M_queue_delete_ok y"
  "method_number x = AMQP_QUEUE_UNBIND_OK_METHOD \<Longrightarrow> known x \<Longrightarrow> x = M_queue_unbind_ok"
  "method_number x = AMQP_BASIC_QOS_OK_METHOD \<Longrightarrow> known x \<Longrightarrow> x = M_basic_qos_ok"
  "method_number x = AMQP_BASIC_CONSUME_OK_METHOD \<Longrightarrow> known x \<Longrightarrow> \<exists>y. x = M_basic_consume_ok y"
  "method_number x = AMQP_BASIC_CANCEL_OK_METHOD \<Longrightarrow> known x \<Longrightarrow> \<exists>y. x = M_basic_cancel_ok y"
  "method_number x = AMQP_BASIC_RECOVER_OK_METHOD \<Longrightarrow> known x \<Longrightarrow> x = M_basic_recover_ok"
  "method_number x = AMQP_TX_SELECT_OK_METHOD \<Longrightarrow> known x \<Longrightarrow> x = M_tx_select_ok"
  "method_number x = AMQP_TX_COMMIT_OK_METHOD \<Longrightarrow> known x \<Longrightarrow> x = M_tx_commit_ok"
  "method_number x = AMQP_TX_ROLLBACK_OK_METHOD \<Longrightarrow> known x \<Longrightarrow> x = M_tx_rollback_ok"
  "method_number x = AMQP_CONFIRM_SELECT_OK_METHOD \<Longrightarrow> known x \<Longrightarrow> x = M_confirm_select_ok"
  by (cases x; simp add: method_numbers known_def)+

text \<open>\<open>returns_only P call\<close>: every reply that the call returns satisfies \<open>P\<close>.\<close>

definition returns_only :: "(amqp_method_t \<Rightarrow> bool) \<Rightarrow> amqp_method_t option io \<Rightarrow> bool" where
  "returns_only P call \<longleftrightarrow> (\<forall>w x w'. call w = (Done (Some x), w') \<longrightarrow> P x)"

lemma rpc_returns_only: "(\<And>x. method_number x = rid \<Longrightarrow> known x \<Longrightarrow> P x) \<Longrightarrow> returns_only P (amqp_simple_rpc_decoded ch rid m)"
  unfolding returns_only_def using rpc_decoded_reply by blast

text \<open>
  C15: The functions for single methods return the type their callers cast the reply to:
  whatever the peer sends, a reply that is returned is the one that belongs to the request.
\<close>

theorem replies_have_their_type:
  "returns_only (\<lambda>x. x = M_connection_update_secret_ok)
      (amqp_connection_update_secret ch new_secret' reason') \<and>
    returns_only (\<lambda>x. \<exists>y. x = M_channel_open_ok y)
      (amqp_channel_open ch) \<and>
    returns_only (\<lambda>x. \<exists>y. x = M_channel_flow_ok y)
      (amqp_channel_flow ch active') \<and>
    returns_only (\<lambda>x. x = M_exchange_declare_ok)
      (amqp_exchange_declare ch exchange' type' passive' durable' auto_delete' internal' arguments') \<and>
    returns_only (\<lambda>x. x = M_exchange_delete_ok)
      (amqp_exchange_delete ch exchange' if_unused') \<and>
    returns_only (\<lambda>x. x = M_exchange_bind_ok)
      (amqp_exchange_bind ch destination' source' routing_key' arguments') \<and>
    returns_only (\<lambda>x. x = M_exchange_unbind_ok)
      (amqp_exchange_unbind ch destination' source' routing_key' arguments') \<and>
    returns_only (\<lambda>x. \<exists>y. x = M_queue_declare_ok y)
      (amqp_queue_declare ch queue' passive' durable' exclusive' auto_delete' arguments') \<and>
    returns_only (\<lambda>x. x = M_queue_bind_ok)
      (amqp_queue_bind ch queue' exchange' routing_key' arguments') \<and>
    returns_only (\<lambda>x. \<exists>y. x = M_queue_purge_ok y)
      (amqp_queue_purge ch queue') \<and>
    returns_only (\<lambda>x. \<exists>y. x = M_queue_delete_ok y)
      (amqp_queue_delete ch queue' if_unused' if_empty') \<and>
    returns_only (\<lambda>x. x = M_queue_unbind_ok)
      (amqp_queue_unbind ch queue' exchange' routing_key' arguments') \<and>
    returns_only (\<lambda>x. x = M_basic_qos_ok)
      (amqp_basic_qos ch prefetch_size' prefetch_count' global') \<and>
    returns_only (\<lambda>x. \<exists>y. x = M_basic_consume_ok y)
      (amqp_basic_consume ch queue' consumer_tag' no_local' no_ack' exclusive' arguments') \<and>
    returns_only (\<lambda>x. \<exists>y. x = M_basic_cancel_ok y)
      (amqp_basic_cancel ch consumer_tag') \<and>
    returns_only (\<lambda>x. x = M_basic_recover_ok)
      (amqp_basic_recover ch requeue') \<and>
    returns_only (\<lambda>x. x = M_tx_select_ok)
      (amqp_tx_select ch) \<and>
    returns_only (\<lambda>x. x = M_tx_commit_ok)
      (amqp_tx_commit ch) \<and>
    returns_only (\<lambda>x. x = M_tx_rollback_ok)
      (amqp_tx_rollback ch) \<and>
    returns_only (\<lambda>x. x = M_confirm_select_ok)
      (amqp_confirm_select ch)"
  unfolding amqp_connection_update_secret_def
    amqp_channel_open_def
    amqp_channel_flow_def
    amqp_exchange_declare_def
    amqp_exchange_delete_def
    amqp_exchange_bind_def
    amqp_exchange_unbind_def
    amqp_queue_declare_def
    amqp_queue_bind_def
    amqp_queue_purge_def
    amqp_queue_delete_def
    amqp_queue_unbind_def
    amqp_basic_qos_def
    amqp_basic_consume_def
    amqp_basic_cancel_def
    amqp_basic_recover_def
    amqp_tx_select_def
    amqp_tx_commit_def
    amqp_tx_rollback_def
    amqp_confirm_select_def
  by (intro conjI; rule rpc_returns_only; erule (1) reply_types)

section \<open>Sending\<close>

text \<open>
  C11: A frame is sent whole or the call fails: when \<open>amqp_send_frame_inner\<close> succeeds, the
  bytes of the frame went out, all of them, in order and nothing else; when it fails or
  blocks, a prefix of them; and a frame that cannot be encoded sends nothing.
\<close>

theorem frame_sent_whole:
  assumes "amqp_send_frame_inner f d w = (r, w')"
  shows "case fst (amqp_frame_to_bytes f (outbound_buffer (conn w))) of
      Returns bytes \<Rightarrow> \<exists>k \<le> length bytes. sent w' = sent w @ take k bytes \<and> (r = Done () \<longrightarrow> k = length bytes)
    | _ \<Rightarrow> sent w' = sent w \<and> r \<noteq> Done ()"
  using send_frame_sends [OF assms prod.collapse [symmetric]] .

theorem frame_sent_whole_witness:
  "\<exists>k. sent (snd (amqp_send_frame_inner (method_frame 1 channel_1_open) amqp_time_infinite client)) = take k open_image"
  using frame_sent_whole [OF prod.collapse [symmetric], of "method_frame 1 channel_1_open" amqp_time_infinite client]
  by (auto simp: open_bytes)

text \<open>
  C12: What a remote procedure call sends is the request and then heartbeats, each whole but
  perhaps the last: no other bytes get between or into them, whatever the socket does.
\<close>

theorem rpc_sends_request_then_heartbeats:
  assumes "simple_rpc_inner ch ids m t w = (r, w')"
    and "amqp_frame_to_bytes (method_frame ch m) (outbound_buffer (conn w)) = (Returns request, buf)"
  shows "(\<exists>k. sent w' = sent w @ take k request) \<or>
    (\<exists>n k. sent w' = (sent w @ request) @ concat (replicate n heartbeat_image) @ take k heartbeat_image)"
  using rpc_sends [OF assms(1) assms(2) [unfolded method_frame_def]] by (simp add: beats_cut_def)

theorem rpc_sends_request_then_heartbeats_witness:
  "let w' = snd (simple_rpc_inner 1 [] channel_1_open amqp_time_infinite client) in
    (\<exists>k. sent w' = take k open_image) \<or>
    (\<exists>n k. sent w' = open_image @ concat (replicate n heartbeat_image) @ take k heartbeat_image)"
  using rpc_sends_request_then_heartbeats [OF prod.collapse [symmetric], of 1 channel_1_open client
      open_image "open_image @ replicate 19 0" "[]" amqp_time_infinite]
  by (simp add: open_bytes Let_def)

section \<open>The invariant\<close>

lemma rpc_decoded_world:
  assumes "world_ok w"
  shows "case amqp_simple_rpc_decoded ch rid m w of
       (Done _, w') \<Rightarrow>
         if reply_type (amqp_get_rpc_reply (conn w')) \<noteq> AMQP_RESPONSE_LIBRARY_EXCEPTION then world_ok w' else world_safe w'
     | (_, w') \<Rightarrow> world_safe w'"
proof (cases "amqp_simple_rpc_decoded ch rid m w")
  case (Pair r w')
  note safe = inv.simple_rpc_decoded_keeps [OF assms Pair]
  show ?thesis
  proof (cases "amqp_simple_rpc ch [rid] m w")
    case inner: (Pair x w1)
    show ?thesis
    proof (cases x)
      case (Done rep)
      with Pair inner have w': "w' = w1\<lparr>conn := (conn w1)\<lparr>most_recent_api_result := rep\<rparr>\<rparr>"
        by (auto simp: amqp_simple_rpc_decoded_def io_bind_def change_conn_def io_return_def)
      have "world_ok w'" if "reply_type rep \<noteq> AMQP_RESPONSE_LIBRARY_EXCEPTION"
        using inv.simple_rpc_answered_keeps [OF assms inner [unfolded Done] that] w'
        by (auto elim!: world_ok_same simp: input_fields_def buffer_ok_def)
      with Pair safe w' show ?thesis by (auto simp: amqp_get_rpc_reply_def split: outcome.splits)
    qed (use Pair inner safe in \<open>auto simp: amqp_simple_rpc_decoded_def io_bind_def\<close>)
  qed
qed

text \<open>
  C8: The invariant of a connection in use - the input state machine in order, the positions
  of the receive buffer inside of it, no memory shared between channels - is kept by waiting
  for a frame, by sending one and by queueing one, and by a remote procedure call that the
  server answered, whatever the operating system answers.  After an error of one of them -
  for a remote procedure call: when the reply it leaves behind is a library exception - the
  pools and the positions of the receive buffer are still in order, and no more: the input
  may be in the middle of a frame it cannot finish.
\<close>

theorem world_invariant:
  assumes "world_ok w"
  shows "(case wait_frame_inner f t w of (Done _, w') \<Rightarrow> world_ok w' | (_, w') \<Rightarrow> world_safe w') \<and>
    (case amqp_send_frame_inner f t w of (Done _, w') \<Rightarrow> world_ok w' | (_, w') \<Rightarrow> world_safe w') \<and>
    world_ok (snd (amqp_queue_frame f w)) \<and>
    (case amqp_simple_rpc_decoded ch rid m w of
       (Done _, w') \<Rightarrow>
         if reply_type (amqp_get_rpc_reply (conn w')) \<noteq> AMQP_RESPONSE_LIBRARY_EXCEPTION then world_ok w' else world_safe w'
     | (_, w') \<Rightarrow> world_safe w')"
  using inv.keep_wait_frame [of f t] inv.keep_send_frame_inner [of f t] keep_at_end [OF inv.keep_enqueue(1) assms]
    rpc_decoded_world [OF assms, of ch rid m] assms
  by (simp_all add: keep_def)

theorem world_invariant_witness:
  "case amqp_simple_rpc_decoded 1 AMQP_CHANNEL_OPEN_OK_METHOD channel_1_open client of
     (Done _, w') \<Rightarrow>
       if reply_type (amqp_get_rpc_reply (conn w')) \<noteq> AMQP_RESPONSE_LIBRARY_EXCEPTION then world_ok w' else world_safe w'
   | (_, w') \<Rightarrow> world_safe w'"
  by (rule world_invariant [OF client_ok(1), THEN conjunct2, THEN conjunct2, THEN conjunct2])

section \<open>The queue of frames\<close>

lemma queue_roomy:
  assumes "roomy (mem w)" and "world_ok w"
  shows "\<exists>w'. amqp_queue_frame f w = (Done (), w')"
proof -
  from channel_allocs_roomy [OF assms(1), of "[SIZEOF_LINK, SIZEOF_FRAME]" "channel f"] assms(2)
  obtain w' where "channel_allocs (channel f) [SIZEOF_LINK, SIZEOF_FRAME] w = (Done (), w')"
    by (auto simp: world_ok_def input_okD SIZEOF_LINK_def SIZEOF_FRAME_def)
  then show ?thesis
    by (simp add: amqp_queue_frame_def amqp_create_link_for_frame_def io_bind_def append_frame_def change_conn_def)
qed

text \<open>
  C18: A remote procedure call keeps the queue: the frames that are queued stay, in order, and
  what arrives meanwhile goes behind them, whether the call succeeds or not.
\<close>

theorem rpc_keeps_queue:
  assumes "amqp_simple_rpc_decoded ch rid m w = (r, w')"
  shows "prefix (first_queued_frame (conn w)) (first_queued_frame (conn w'))"
  by (rule kept_queue.simple_rpc_decoded_keeps [OF prefix_order.refl assms])

theorem rpc_keeps_queue_witness:
  "prefix [empty_frame] (first_queued_frame (conn (snd (amqp_channel_open 1
    (client\<lparr>conn := idle_connection\<lparr>first_queued_frame := [empty_frame]\<rparr>\<rparr>)))))"
proof -
  let ?w = "client\<lparr>conn := idle_connection\<lparr>first_queued_frame := [empty_frame]\<rparr>\<rparr>"
  from rpc_keeps_queue [OF prod.collapse [symmetric], of ?w 1 AMQP_CHANNEL_OPEN_OK_METHOD channel_1_open]
  show ?thesis by (simp add: amqp_channel_open_def)
qed

text \<open>
  C19: \<open>amqp_simple_wait_frame_on_channel\<close> takes the first queued frame of the channel out of
  the queue together with all frames in front of it: the queued frames of other channels
  that came earlier are lost.
\<close>

theorem wait_on_channel_drops:
  assumes "first_queued_frame (conn w) = gs @ f # fs" and "channel f = ch" and "ch \<notin> channel ` set gs"
  shows "\<exists>w'. amqp_simple_wait_frame_on_channel ch old w = (Done f, w') \<and> first_queued_frame (conn w') = fs"
proof -
  have "queued_on_channel ch (gs @ f # fs) = Some (f, fs)"
    using assms(2,3) by (induction gs) auto
  then show ?thesis by (simp add: amqp_simple_wait_frame_on_channel_def assms(1))
qed

theorem wait_on_channel_drops_witness:
  "let w = client\<lparr>conn := idle_connection\<lparr>first_queued_frame := [empty_frame, empty_frame\<lparr>channel := 2\<rparr>]\<rparr>\<rparr> in
    \<forall>old. \<exists>w'. amqp_simple_wait_frame_on_channel 2 old w = (Done (empty_frame\<lparr>channel := 2\<rparr>), w') \<and>
      first_queued_frame (conn w') = []"
  using wait_on_channel_drops [where gs = "[empty_frame]" and f = "empty_frame\<lparr>channel := 2\<rparr>" and fs = "[]" and ch = 2 and
      w = "client\<lparr>conn := idle_connection\<lparr>first_queued_frame := [empty_frame, empty_frame\<lparr>channel := 2\<rparr>]\<rparr>\<rparr>"]
  by (simp add: Let_def empty_frame_def)

section \<open>Termination\<close>

text \<open>
  C13: The loops of the waiting functions end by themselves: the fuel of the model is never
  what stops them, since more fuel gives the same result.  Each round of
  \<open>wait_frame_inner\<close> uses up an answer of \<open>recv\<close>, each frame in the buffer a byte of it,
  and each reply of the loop of \<open>amqp_simple_rpc\<close> a byte that was or will be received.
\<close>

theorem waiting_ends:
  assumes "world_ok w"
  shows "(length (recvs w) < n \<longrightarrow> wait_frame_loop n True f t w = wait_frame_inner f t w) \<and>
    (buffered w \<le> n \<longrightarrow> wait_buffered n f w = wait_buffered (buffered w) f w) \<and>
    (bytes_to_come w < n \<longrightarrow> rpc_loop n ch ids t f w = rpc_loop (Suc (bytes_to_come w)) ch ids t f w)"
  using wait_frame_fuel [of w n "Suc (length (recvs w))" True f t] wait_buffered_fuel [OF assms, of n "buffered w" f]
    rpc_fuel [OF assms, of n "Suc (bytes_to_come w)" ch ids t f]
  by (simp_all add: wait_frame_inner_def del: wait_frame_loop.simps rpc_loop.simps)

theorem waiting_ends_witness:
  "\<forall>t. wait_frame_loop 100 True fresh_frame t client = wait_frame_inner fresh_frame t client"
  using waiting_ends [OF client_ok(1), of 100 fresh_frame] by simp

section \<open>Deadlines\<close>

text \<open>
  C20: A deadline is the point in time that is the timeout away from now, as a number, or it is
  refused - but the timeout in nanoseconds is taken modulo \<open>2 ^ 64\<close> first: a timeout of
  \<open>2 ^ 64\<close> nanoseconds or more (584 years) wraps around before the sum is checked, and a
  short one is taken instead (18446744074 seconds become 0.29).  The earlier of two
  deadlines is the smaller number.
\<close>

theorem deadlines_exact:
  assumes "0 \<le> tv_sec tv" and "0 \<le> tv_usec tv" and "now_ns \<noteq> 0"
  shows "(amqp_time_from_now now_ns (Some tv) = (AMQP_STATUS_OK, Some t) \<longleftrightarrow>
      unat (time_point_ns t) = unat now_ns + tv_ns tv mod 2 ^ 64) \<and>
    (fst (amqp_time_from_now now_ns (Some tv)) =
      (if unat now_ns + tv_ns tv mod 2 ^ 64 < 2 ^ 64 then AMQP_STATUS_OK else AMQP_STATUS_INVALID_PARAMETER)) \<and>
    time_point_ns (amqp_time_first t d) = min (time_point_ns t) (time_point_ns d)"
  using time_from_now_wraps [OF assms] amqp_time_first_min tv_nanoseconds [OF assms(1,2)] assms
    add_no_wrap(1) [of now_ns "of_int (tv_sec tv) * AMQP_NS_PER_S + of_int (tv_usec tv) * AMQP_NS_PER_US"]
  by (auto simp: amqp_time_from_now_def Let_def)

theorem deadlines_exact_witness:
  "amqp_time_from_now 1 (Some \<lparr>tv_sec = 2, tv_usec = 5\<rparr>) = (AMQP_STATUS_OK, Some \<lparr>time_point_ns = 2000005001\<rparr>) \<and>
   amqp_time_from_now 1 (Some \<lparr>tv_sec = 18446744074, tv_usec = 0\<rparr>) = (AMQP_STATUS_OK, Some \<lparr>time_point_ns = 290448385\<rparr>)"
  using deadlines_exact [of "\<lparr>tv_sec = 2, tv_usec = 5\<rparr>" 1 "\<lparr>time_point_ns = 2000005001\<rparr>"]
    deadlines_exact [of "\<lparr>tv_sec = 18446744074, tv_usec = 0\<rparr>" 1 "\<lparr>time_point_ns = 290448385\<rparr>"]
  by (simp add: tv_ns_def)

text \<open>
  The milliseconds that are left until a deadline are reported exactly while they are fewer
  than \<open>2 ^ 31\<close>.  Beyond, they are cut to 32 bits and read as signed: \<open>amqp_poll\<close> then waits
  too short, or it does not wait at all and returns the negative number as if it were a
  status; the one value \<open>-1\<close> means to wait for ever.
\<close>

lemma poll_deadline_truncated:
  assumes "now_ns = clock w (ticks w)" and "now_ns \<noteq> 0"
    and "unat now_ns < unat (time_point_ns d)" and "unat (time_point_ns d) < 2 ^ 64 - 1"
    and "ms = (unat (time_point_ns d) - unat now_ns) div 1000000" and "k = ms mod 2 ^ 32"
  shows "(ms < 2 ^ 31 \<longrightarrow> amqp_time_ms_until now_ns d = int ms) \<and>
    (k < 2 ^ 31 \<longrightarrow> amqp_time_ms_until now_ns d = int k) \<and>
    (2 ^ 31 \<le> k \<and> k \<noteq> 2 ^ 32 - 1 \<longrightarrow> amqp_poll d w = (Error (int k - 2 ^ 32), w\<lparr>ticks := Suc (ticks w)\<rparr>))"
proof -
  have e: "amqp_time_ms_until now_ns d = (if k < 2 ^ 31 then int k else int k - 2 ^ 32)"
    using ms_until_truncated [OF assms(2-4)] assms(5,6) by (simp add: Let_def)
  have k: "k < 2 ^ 32" using assms(6) by simp
  have "ms < 2 ^ 31 \<Longrightarrow> k = ms" using assms(6) by simp
  moreover have "amqp_poll d w = (Error (int k - 2 ^ 32), w\<lparr>ticks := Suc (ticks w)\<rparr>)" if "2 ^ 31 \<le> k" "k \<noteq> 2 ^ 32 - 1"
  proof -
    have "amqp_time_ms_until (clock w (ticks w)) d = int k - 2 ^ 32" "- 1 > int k - 2 ^ 32"
      using e that k assms(1) by auto
    then show ?thesis by (simp add: amqp_poll_def Let_def)
  qed
  ultimately show ?thesis using e by auto
qed

lemma poll_deadline_truncated_example:
  "amqp_poll \<lparr>time_point_ns = 2147483648000001\<rparr> (client\<lparr>polls := [Poll_ready]\<rparr>) =
    (Error (- 2147483648), client\<lparr>polls := [Poll_ready], ticks := 1\<rparr>)"
  using poll_deadline_truncated [OF refl _ _ _ refl refl, of "client\<lparr>polls := [Poll_ready]\<rparr>" "\<lparr>time_point_ns = 2147483648000001\<rparr>"]
  by (simp add: client_def)

end
