(* ===== verification/Message_Properties.thy ===== *)
theory Message_Properties
  imports Message_Reading Socket_Properties
begin

text \<open>
  Properties of publishing and of reading messages, each with an instance.
\<close>

section \<open>Publishing\<close>

text \<open>
  C5: \<open>amqp_basic_publish\<close> sends the message and nothing else: the method frame, the header
  frame with the size of the body, and the body cut into pieces that fill a frame of
  \<open>frame_max\<close> bytes, the last one perhaps shorter.  The pieces put together are the body.  If
  the call fails or blocks, what was sent is a prefix of that, cut off at the end; and if the
  socket takes the frames, the call succeeds.
\<close>

theorem publish_sends_message:
  assumes "8 < frame_max (conn w)" and "frame_max (conn w) < 2 ^ 31"
    and "props' = (case props of None \<Rightarrow> zero_properties | Some p \<Rightarrow> p)"
    and "valid_frame (method_frame ch (publish_method ex rk man imm))"
    and "valid_frame (header_frame ch props' (length body))"
    and "list_all2 encoded (message_frames ch (publish_method ex rk man imm) props' body (nat (frame_max (conn w)) - 8)) bss"
    and "amqp_basic_publish ch ex rk man imm props body w = (r, w')"
  shows "(\<exists>k \<le> length (concat bss). sent w' = sent w @ take k (concat bss) \<and> (r = Done () \<longrightarrow> k = length (concat bss))) \<and>
    concat (pieces (nat (frame_max (conn w)) - 8) body) = body \<and>
    (\<forall>p \<in> set (pieces (nat (frame_max (conn w)) - 8) body).
      p \<noteq> [] \<and> length p + HEADER_SIZE + FOOTER_SIZE \<le> nat (frame_max (conn w))) \<and>
    (accepts w bss \<longrightarrow> r = Done ())"
  using publish_sends [OF assms(1,2) assms(4-6) [unfolded assms(3)] assms(7)] assms(7)
    publish_completes [OF assms(1,2) assms(4-6) [unfolded assms(3)]] pieces_concat [of "nat (frame_max (conn w)) - 8" body]
    pieces_short [of _ "nat (frame_max (conn w)) - 8" body] assms(1)
  by (fastforce simp: frame_sizes)

text \<open>A publisher whose frames hold two bytes of a body; it publishes three.\<close>

definition publisher :: world where
  "publisher = client\<lparr>conn := (conn client)\<lparr>frame_max := 10\<rparr>, sends := replicate 4 (Os_sent 100)\<rparr>"

definition message_image :: "byte list list" where
  "message_image = [
     [1, 0, 1, 0, 0, 0, 10, 0, 60, 0, 40, 0, 0, 0, 1, 113, 0, 206],
     [2, 0, 1, 0, 0, 0, 14, 0, 60, 0, 0, 0, 0, 0, 0, 0, 0, 0, 3, 0, 0, 206],
     [3, 0, 1, 0, 0, 0, 2, 65, 66, 206], [3, 0, 1, 0, 0, 0, 1, 67, 206]]"

lemma publisher_bytes:
  "amqp_frame_to_bytes (method_frame 1 (publish_method [] [113] 0 0)) (replicate 32 0) =
    (Returns (message_image ! 0), message_image ! 0 @ replicate 14 0)"
  "amqp_frame_to_bytes (header_frame 1 zero_properties 3) (replicate 32 0) =
    (Returns (message_image ! 1), message_image ! 1 @ replicate 10 0)"
  "amqp_frame_to_bytes (body_frame 1 [65, 66]) (replicate 32 0) = (Returns (message_image ! 2), message_image ! 2 @ replicate 22 0)"
  "amqp_frame_to_bytes (body_frame 1 [67]) (replicate 32 0) = (Returns (message_image ! 3), message_image ! 3 @ replicate 23 0)"
  using encode_flags.simps [of 0]
  by (simp_all add: message_image_def method_frame_def publish_method_def header_frame_def body_frame_def AMQP_BASIC_CLASS_def
      zero_properties_def amqp_frame_to_bytes_def put_def
      encode_payload_def finish_frame_def amqp_encode_method_def frame_types frame_sizes method_numbers
      chunk_def AMQP_FRAME_END_def encode_basic_publish_def amqp_encode_properties_def encode_basic_properties_def
      flag_word_def bit_buffer_def enc_if_def UINT8_MAX_def
      enc_shortstr_def enc_longstr_def enc_eval)
    (simp_all add: numeral_eq_Suc)

lemma encodedI: "amqp_frame_to_bytes F buf = (Returns bs, buf') \<Longrightarrow> encoded F bs"
  unfolding encoded_def by blast

lemma publisher_encoded:
  "list_all2 encoded (message_frames 1 (publish_method [] [113] 0 0) zero_properties [65, 66, 67] 2) message_image"
proof -
  have "message_frames 1 (publish_method [] [113] 0 0) zero_properties [65, 66, 67] 2 =
      [method_frame 1 (publish_method [] [113] 0 0), header_frame 1 zero_properties 3,
       body_frame 1 [65, 66], body_frame 1 [67]]"
    by (simp add: message_frames_def pieces.simps eval_nat_numeral)
  with publisher_bytes [THEN encodedI] show ?thesis by (simp add: message_image_def)
qed

theorem publish_sends_message_witness:
  "\<exists>w'. amqp_basic_publish 1 [] [113] 0 0 None [65, 66, 67] publisher = (Done (), w') \<and> sent w' = concat message_image"
proof -
  obtain r w' where r: "amqp_basic_publish 1 [] [113] 0 0 None [65, 66, 67] publisher = (r, w')" by fastforce
  have v: "valid_frame (method_frame 1 (publish_method [] [113] 0 0))" "valid_frame (header_frame 1 zero_properties (length [65, 66, 67 :: byte]))"
    by (simp_all add: valid_frame_def publish_method_def header_frame_def frame_types AMQP_BASIC_CLASS_def
        zero_properties_def plain_flags_def valid_basic_properties_def has_prop_def shortstr_def is_flag_def UINT8_MAX_def)
  have a: "accepts publisher message_image"
    by (simp add: accepts_def publisher_def client_def idle_connection_def message_image_def)
      (rule exI [of _ "replicate 4 100"], simp add: numeral_eq_Suc)
  have f: "frame_max (conn publisher) = 10" "sent publisher = []" by (simp_all add: publisher_def)
  have e: "list_all2 encoded (message_frames 1 (publish_method [] [113] 0 0) zero_properties [65, 66, 67]
      (nat (frame_max (conn publisher)) - 8)) message_image"
    using publisher_encoded by (simp add: f)
  have n: "zero_properties = (case None of None \<Rightarrow> zero_properties | Some p \<Rightarrow> p)" by simp
  have lim: "8 < frame_max (conn publisher)" "frame_max (conn publisher) < 2 ^ 31" using f by simp_all
  note P = publish_sends_message [OF lim n v e r]
  have d: "r = Done ()" using P a by (elim conjE) (rule mp)
  from P obtain k where "sent w' = sent publisher @ take k (concat message_image)" "r = Done () \<longrightarrow> k = length (concat message_image)"
    by (elim conjE exE)
  then have "sent w' = concat message_image" using d f(2) by (simp del: length_concat)
  with r d show ?thesis by (intro exI [of _ w']) simp
qed

section \<open>Reading\<close>

text \<open>
  C6: \<open>amqp_read_message\<close> puts a message together: of a header frame that announces the size of
  the body, and body frames in any division of it, it returns the properties that are present,
  all others zero, and the body in one piece, and takes exactly these frames out of the queue.
  The memory of the message is its own: \<open>amqp_destroy_message\<close> gives back all that was
  allocated for it, and nothing else.
\<close>

theorem read_message_assembles:
  assumes "first_queued_frame (conn w) =
      content_header ch cls (length (concat fragments)) p raw # map (body_frame ch) fragments @ rest"
    and "[] \<notin> set fragments" and "length (concat fragments) < 2 ^ 64"
    and "roomy (mem w)" and "heap_ok (mem w)"
    and "has_prop p AMQP_BASIC_HEADERS_FLAG \<longrightarrow> clonable (Fv_table (headers p))"
  shows "\<exists>msg w'. amqp_read_message ch w = (Done (reply_normal, msg), w') \<and>
    message_properties msg = present_properties p zero_properties \<and>
    bytes_len (message_body msg) = length (concat fragments) \<and>
    owned_content (message_body msg) (mem w') = concat fragments \<and>
    first_queued_frame (conn w') = rest \<and>
    live (amqp_destroy_message msg (mem w')) = live (mem w) \<and> \<not> bad_free (amqp_destroy_message msg (mem w'))"
  by (rule read_message_joins [OF assms])

theorem read_message_assembles_witness:
  "\<exists>msg w'. amqp_read_message 1 (client\<lparr>conn := (conn client)\<lparr>first_queued_frame :=
        [content_header 1 60 3 zero_properties [], body_frame 1 [65, 66], body_frame 1 [67]]\<rparr>\<rparr>) =
      (Done (reply_normal, msg), w') \<and>
    message_properties msg = zero_properties \<and> owned_content (message_body msg) (mem w') = [65, 66, 67]"
proof -
  let ?w = "client\<lparr>conn := (conn client)\<lparr>first_queued_frame :=
      [content_header 1 60 3 zero_properties [], body_frame 1 [65, 66], body_frame 1 [67]]\<rparr>\<rparr>"
  let ?fs = "[[65, 66], [67 :: byte]]"
  have q: "first_queued_frame (conn ?w) =
      content_header 1 60 (length (concat ?fs)) zero_properties [] # map (body_frame 1) ?fs @ []"
    by (simp add: content_header_def)
  have m: "roomy (mem ?w)" "heap_ok (mem ?w)" by (simp_all add: roomy_def heap_ok_def fresh_heap_def)
  have h: "\<not> has_prop zero_properties f" for f by (simp add: has_prop_def zero_properties_def)
  then have "present_properties zero_properties zero_properties = zero_properties"
    by (simp add: present_properties_def zero_properties_def)
  with read_message_assembles [OF q _ _ m] h show ?thesis by fastforce
qed

end
