(* ===== verification/Amqp_Login.thy ===== *)
theory Amqp_Login
  imports Amqp_Rpc Amqp_Table_Ops Amqp_Lifecycle
begin

text \<open>
  Logging in, \<open>amqp_socket.c\<close>: the SASL mechanisms and responses, the limits that client and
  server agree on, and the handshake of \<open>amqp_login_inner\<close>.
\<close>

definition amqp_send_header :: "unit io" where
  "amqp_send_header = send_header_inner amqp_time_infinite"

section \<open>SASL\<close>

datatype amqp_sasl_method_enum = AMQP_SASL_METHOD_UNDEFINED | AMQP_SASL_METHOD_PLAIN | AMQP_SASL_METHOD_EXTERNAL

text \<open>\<open>None\<close>: the program is aborted.\<close>

definition sasl_method_name :: "amqp_sasl_method_enum \<Rightarrow> amqp_bytes_t option" where
  "sasl_method_name sasl =
    (case sasl of
       AMQP_SASL_METHOD_PLAIN \<Rightarrow> Some (amqp_cstring_bytes ''PLAIN'')
     | AMQP_SASL_METHOD_EXTERNAL \<Rightarrow> Some (amqp_cstring_bytes ''EXTERNAL'')
     | AMQP_SASL_METHOD_UNDEFINED \<Rightarrow> None)"

text \<open>
  The loop of \<open>sasl_mechanism_in_list\<close> from \<open>start\<close> on: \<open>memchr\<close> finds the next blank, or the
  end is taken.
\<close>

function mechanism_in :: "amqp_bytes_t \<Rightarrow> amqp_bytes_t \<Rightarrow> bool" where
  "mechanism_in mech start =
    (let supported = takeWhile (\<lambda>c. c \<noteq> 32) start; current = dropWhile (\<lambda>c. c \<noteq> 32) start in
     if mech = supported then True
     else if current = [] then False
     else mechanism_in mech (tl current))"
  by pat_completeness auto

termination
proof (relation "measure (\<lambda>(m, s). length s)")
  fix mech start x xa :: amqp_bytes_t
  assume "xa = dropWhile (\<lambda>c. c \<noteq> 32) start" and "xa \<noteq> []"
  then show "((mech, tl xa), mech, start) \<in> measure (\<lambda>(m, s). length s)"
    using length_dropWhile_le [of "\<lambda>c. c \<noteq> 32" start] by (cases "dropWhile (\<lambda>c. c \<noteq> 32) start") simp_all
qed simp

declare mechanism_in.simps [simp del]

definition sasl_mechanism_in_list :: "amqp_bytes_t \<Rightarrow> amqp_sasl_method_enum \<Rightarrow> bool option" where
  "sasl_mechanism_in_list mechanisms' sasl =
    map_option (\<lambda>mech. mechanisms' \<noteq> [] \<and> mechanism_in mech mechanisms') (sasl_method_name sasl)"

text \<open>
  The response is put together in memory of a pool.  The variable arguments are a list of C
  strings: user name and password, or the identity; reading one that was not passed is
  undefined.
\<close>

definition sasl_response :: "amqp_sasl_method_enum \<Rightarrow> string list \<Rightarrow> amqp_bytes_t decoder" where
  "sasl_response sasl args =
    (case sasl of
       AMQP_SASL_METHOD_PLAIN \<Rightarrow>
         (case args of
            username # password # _ \<Rightarrow>
              (let u = amqp_cstring_bytes username; p = amqp_cstring_bytes password in
               dec_bind (dec_alloc (length u + length p + 2)) (\<lambda>_. dec_return (0 # u @ 0 # p)))
          | _ \<Rightarrow> (\<lambda>v s. (Undefined, s)))
     | AMQP_SASL_METHOD_EXTERNAL \<Rightarrow>
         (case args of
            identity # _ \<Rightarrow>
              (let i = amqp_cstring_bytes identity in dec_bind (dec_alloc (length i)) (\<lambda>_. dec_return i))
          | _ \<Rightarrow> (\<lambda>v s. (Undefined, s)))
     | AMQP_SASL_METHOD_UNDEFINED \<Rightarrow> (\<lambda>v s. (Undefined, s)))"

section \<open>Limits\<close>

definition agreed_channel_max :: "u16 \<Rightarrow> u16 \<Rightarrow> u16" where
  "agreed_channel_max server client =
    (if server \<noteq> 0 \<and> (server < client \<or> client = 0) then server
     else if server = 0 \<and> client = 0 then 0xFFFF else client)"

definition agreed_frame_max :: "u32 \<Rightarrow> u32 \<Rightarrow> u32" where
  "agreed_frame_max server client = (if server \<noteq> 0 \<and> server < client then server else client)"

definition agreed_heartbeat :: "u16 \<Rightarrow> u16 \<Rightarrow> u16" where
  "agreed_heartbeat server client = (if server \<noteq> 0 \<and> server < client then server else client)"

section \<open>Steps of the handshake\<close>

definition AMQP_VERSION_STRING :: string where "AMQP_VERSION_STRING = ''0.12.0-pre''"
definition AMQ_PLATFORM :: string where "AMQ_PLATFORM = ''Linux''"
definition AMQ_COPYRIGHT :: string where
  "AMQ_COPYRIGHT = ''Copyright (c) 2007-2014 VMWare Inc, Tony Garnock-Jones, and Alan Antonuk.''"

definition client_capabilities_table :: amqp_table_t where
  "client_capabilities_table =
    [amqp_table_construct_bool_entry ''authentication_failure_close'' 1,
     amqp_table_construct_bool_entry ''exchange_exchange_bindings'' 1]"

definition default_table :: amqp_table_t where
  "default_table =
    [amqp_table_construct_utf8_entry ''product'' ''rabbitmq-c'',
     amqp_table_construct_utf8_entry ''version'' AMQP_VERSION_STRING,
     amqp_table_construct_utf8_entry ''platform'' AMQ_PLATFORM,
     amqp_table_construct_utf8_entry ''copyright'' AMQ_COPYRIGHT,
     amqp_table_construct_utf8_entry ''information'' ''See https://github.com/alanxz/rabbitmq-c'',
     amqp_table_construct_table_entry ''capabilities'' client_capabilities_table]"

text \<open>Running something that allocates, with the pool of the properties or of a channel.\<close>

definition dec_outcome :: "'a dres \<Rightarrow> 'a outcome" where
  "dec_outcome r = (case r of Returns x \<Rightarrow> Done x | Fails st \<Rightarrow> Error (status_code st) | _ \<Rightarrow> Crash)"

definition in_properties_pool :: "'a decoder \<Rightarrow> 'a io" where
  "in_properties_pool d w =
    (case d \<lparr>vmem = [], vlen = 0\<rparr> \<lparr>doff = 0, dpool = properties_pool (conn w), dheap = mem w\<rparr> of (r, s) \<Rightarrow>
      (dec_outcome r, w\<lparr>conn := (conn w)\<lparr>properties_pool := dpool s\<rparr>, mem := dheap s\<rparr>))"

definition in_channel_pool :: "amqp_channel_t \<Rightarrow> 'a decoder \<Rightarrow> 'a io" where
  "in_channel_pool ch d w =
    (case amqp_get_or_create_channel_pool (conn w) ch (mem w) of
       (None, c, h) \<Rightarrow> (Error (status_code AMQP_STATUS_NO_MEMORY), w\<lparr>conn := c, mem := h\<rparr>)
     | (Some pool, c, h) \<Rightarrow>
         (case d \<lparr>vmem = [], vlen = 0\<rparr> \<lparr>doff = 0, dpool = pool, dheap = h\<rparr> of (r, s) \<Rightarrow>
           (dec_outcome r, w\<lparr>conn := set_channel_pool ch (dpool s) c, mem := dheap s\<rparr>)))"

definition abort :: "'a io" where
  "abort w = (Crash, w)"

definition release_buffers :: "(amqp_connection_state_t \<Rightarrow> heap \<Rightarrow> (amqp_connection_state_t \<times> heap) option) \<Rightarrow> unit io" where
  "release_buffers f w =
    (case f (conn w) (mem w) of None \<Rightarrow> (Crash, w) | Some (c, h) \<Rightarrow> (Done (), w\<lparr>conn := c, mem := h\<rparr>))"

definition tune :: "int \<Rightarrow> int \<Rightarrow> int \<Rightarrow> unit io" where
  "tune channel_max' frame_max' heartbeat' w =
    (case amqp_tune_connection (clock w (ticks w)) (clock w (Suc (ticks w))) channel_max' frame_max' heartbeat' (conn w) (mem w) of
       None \<Rightarrow> (Crash, w)
     | Some (st, c, h) \<Rightarrow>
         (if st = AMQP_STATUS_OK then Done () else Error (status_code st), w\<lparr>conn := c, mem := h, ticks := ticks w + 2\<rparr>))"

text \<open>The start of the handshake, up to \<open>connection.start-ok\<close>.\<close>

definition login_start :: "amqp_table_t \<Rightarrow> amqp_sasl_method_enum \<Rightarrow> string list \<Rightarrow> amqp_time_t \<Rightarrow> unit io" where
  "login_start client_properties' sasl args deadline =
    io_bind (send_header_inner deadline) (\<lambda>_.
    io_bind (simple_wait_method_inner 0 AMQP_CONNECTION_START_METHOD deadline) (\<lambda>m.
      case m of
        M_connection_start s \<Rightarrow>
          if version_major s \<noteq> 0 \<or> version_minor s \<noteq> 9 then io_fail AMQP_STATUS_INCOMPATIBLE_AMQP_VERSION
          else io_bind (in_properties_pool (amqp_table_clone (amqp_connection_start_t.server_properties s))) (\<lambda>t.
            io_bind (change_conn (\<lambda>c. c\<lparr>server_properties := t\<rparr>)) (\<lambda>_.
            case (sasl_mechanism_in_list (mechanisms s) sasl, sasl_method_name sasl) of
              (Some found, Some name) \<Rightarrow>
                if \<not> found then io_fail AMQP_STATUS_BROKER_UNSUPPORTED_SASL_METHOD
                else io_bind (in_channel_pool 0 (sasl_response sasl args)) (\<lambda>response'.
                  io_bind (in_channel_pool 0 (amqp_merge_capabilities default_table (Some client_properties'))) (\<lambda>props.
                  io_bind (change_conn (\<lambda>c. c\<lparr>client_properties := props\<rparr>)) (\<lambda>_.
                  amqp_send_method_inner 0 (M_connection_start_ok
                    \<lparr>amqp_connection_start_ok_t.client_properties = props, amqp_connection_start_ok_t.mechanism = name,
                     amqp_connection_start_ok_t.response = response',
                     amqp_connection_start_ok_t.locale = amqp_cstring_bytes ''en_US''\<rparr>) deadline)))
            | _ \<Rightarrow> abort))
      | _ \<Rightarrow> abort))"

text \<open>Tuning with what the server proposes, and opening the virtual host.\<close>

definition login_tune :: "u16 \<Rightarrow> u32 \<Rightarrow> u16 \<Rightarrow> amqp_connection_tune_t \<Rightarrow> amqp_time_t \<Rightarrow> unit io" where
  "login_tune client_channel_max client_frame_max client_heartbeat s deadline =
    (let cm = agreed_channel_max (amqp_connection_tune_t.channel_max s) client_channel_max;
         fm = agreed_frame_max (amqp_connection_tune_t.frame_max s) client_frame_max;
         hb = agreed_heartbeat (amqp_connection_tune_t.heartbeat s) client_heartbeat in
     io_bind (tune (uint cm) (uint fm) (uint hb)) (\<lambda>_.
     amqp_send_method_inner 0 (M_connection_tune_ok
       \<lparr>amqp_connection_tune_ok_t.channel_max = cm, amqp_connection_tune_ok_t.frame_max = fm,
        amqp_connection_tune_ok_t.heartbeat = hb\<rparr>) deadline))"

definition login_open :: "string \<Rightarrow> amqp_time_t \<Rightarrow> amqp_rpc_reply_t io" where
  "login_open vhost deadline =
    io_bind (simple_rpc_inner 0 [AMQP_CONNECTION_OPEN_OK_METHOD]
      (M_connection_open \<lparr>amqp_connection_open_t.virtual_host = amqp_cstring_bytes vhost,
         amqp_connection_open_t.capabilities = [], amqp_connection_open_t.insist = 1\<rparr>) deadline) (\<lambda>result.
      if reply_type result \<noteq> AMQP_RESPONSE_NORMAL then io_return result
      else io_bind (release_buffers amqp_maybe_release_buffers) (\<lambda>_.
        io_return \<lparr>reply_type = AMQP_RESPONSE_NORMAL, reply = None, library_error = 0\<rparr>))"

text \<open>After the answer of the server: it closes the connection, or proposes its limits.\<close>

definition login_answer :: "string \<Rightarrow> u16 \<Rightarrow> u32 \<Rightarrow> u16 \<Rightarrow> amqp_time_t \<Rightarrow> amqp_method_t \<Rightarrow> amqp_rpc_reply_t io" where
  "login_answer vhost client_channel_max client_frame_max client_heartbeat deadline m =
    (case m of
       M_connection_close _ \<Rightarrow> io_return \<lparr>reply_type = AMQP_RESPONSE_SERVER_EXCEPTION, reply = Some m, library_error = 0\<rparr>
     | M_connection_tune s \<Rightarrow>
         io_bind (login_tune client_channel_max client_frame_max client_heartbeat s deadline) (\<lambda>_.
         io_bind (release_buffers amqp_release_buffers) (\<lambda>_. login_open vhost deadline))
     | _ \<Rightarrow> abort)"

definition login_steps ::
  "string \<Rightarrow> u16 \<Rightarrow> u32 \<Rightarrow> u16 \<Rightarrow> amqp_table_t \<Rightarrow> timeval option \<Rightarrow> amqp_sasl_method_enum \<Rightarrow> string list \<Rightarrow> amqp_rpc_reply_t io" where
  "login_steps vhost client_channel_max client_frame_max client_heartbeat client_properties' timeout sasl args =
    io_bind (deadline_from timeout) (\<lambda>deadline.
    io_bind (login_start client_properties' sasl args deadline) (\<lambda>_.
    io_bind (release_buffers amqp_release_buffers) (\<lambda>_.
    io_bind (amqp_simple_wait_method_list 0 [AMQP_CONNECTION_TUNE_METHOD, AMQP_CONNECTION_CLOSE_METHOD] deadline) (\<lambda>m.
    login_answer vhost client_channel_max client_frame_max client_heartbeat deadline m))))"

definition amqp_login_inner ::
  "string \<Rightarrow> int \<Rightarrow> int \<Rightarrow> int \<Rightarrow> amqp_table_t \<Rightarrow> timeval option \<Rightarrow> amqp_sasl_method_enum \<Rightarrow> string list \<Rightarrow> amqp_rpc_reply_t io" where
  "amqp_login_inner vhost channel_max' frame_max' heartbeat' client_properties' timeout sasl args =
    (if channel_max' < 0 \<or> channel_max' > 65535 \<or> frame_max' < 0 \<or> heartbeat' < 0 \<or> heartbeat' > 65535
     then io_return (amqp_rpc_reply_error (status_code AMQP_STATUS_INVALID_PARAMETER))
     else io_catch
       (login_steps vhost (word_of_int channel_max') (word_of_int frame_max') (word_of_int heartbeat')
         client_properties' timeout sasl args)
       (\<lambda>code. io_bind amqp_socket_close (\<lambda>_. io_return (amqp_rpc_reply_error code))))"

definition amqp_login ::
  "string \<Rightarrow> int \<Rightarrow> int \<Rightarrow> int \<Rightarrow> amqp_sasl_method_enum \<Rightarrow> string list \<Rightarrow> amqp_rpc_reply_t io" where
  "amqp_login vhost channel_max' frame_max' heartbeat' sasl args =
    io_bind (get_conn handshake_timeout) (\<lambda>t. amqp_login_inner vhost channel_max' frame_max' heartbeat' [] t sasl args)"

definition amqp_login_with_properties ::
  "string \<Rightarrow> int \<Rightarrow> int \<Rightarrow> int \<Rightarrow> amqp_table_t \<Rightarrow> amqp_sasl_method_enum \<Rightarrow> string list \<Rightarrow> amqp_rpc_reply_t io" where
  "amqp_login_with_properties vhost channel_max' frame_max' heartbeat' client_properties' sasl args =
    io_bind (get_conn handshake_timeout)
      (\<lambda>t. amqp_login_inner vhost channel_max' frame_max' heartbeat' client_properties' t sasl args)"

end
