(* ===== verification/Login_Laws.thy ===== *)
theory Login_Laws
  imports Amqp_Login Wait_Termination Rpc_Laws
begin

text \<open>
  Logging in: which mechanisms are found in a list, what the two sides agree on, and that
  the connection works with these limits afterwards; and what a small limit does.
\<close>

section \<open>Mechanisms\<close>

text \<open>A word of a list with blanks between the words.\<close>

definition word_of :: "byte list \<Rightarrow> byte list \<Rightarrow> bool" where
  "word_of xs s \<longleftrightarrow> 32 \<notin> set xs \<and>
    (\<exists>before behind. s = before @ xs @ behind \<and> (before = [] \<or> last before = 32) \<and> (behind = [] \<or> hd behind = 32))"

lemma word_of_first:
  assumes "32 \<notin> set xs"
  shows "word_of xs s \<longleftrightarrow> xs = takeWhile (\<lambda>c. c \<noteq> 32) s \<or>
    (dropWhile (\<lambda>c. c \<noteq> 32) s \<noteq> [] \<and> word_of xs (tl (dropWhile (\<lambda>c. c \<noteq> 32) s)))"
proof
  let ?t = "takeWhile (\<lambda>c. c \<noteq> 32) s" and ?d = "dropWhile (\<lambda>c. c \<noteq> 32) s"
  assume "word_of xs s"
  then obtain before behind where s: "s = before @ xs @ behind"
    and l: "before = [] \<or> last before = 32" and r: "behind = [] \<or> hd behind = 32"
    by (auto simp: word_of_def)
  show "xs = ?t \<or> (?d \<noteq> [] \<and> word_of xs (tl ?d))"
  proof (cases "before = []")
    case True
    have "takeWhile (\<lambda>c. c \<noteq> 32) (xs @ behind) = xs"
      using assms r by (cases behind) (auto simp: takeWhile_append2 takeWhile_tail)
    with s True show ?thesis by simp
  next
    case False
    with l obtain b where b: "before = b @ [32]" by (metis append_butlast_last_id)
    let ?b = "dropWhile (\<lambda>c. c \<noteq> 32) before"
    have b32: "\<exists>x \<in> set before. \<not> x \<noteq> 32" using b by simp
    then have "?b \<noteq> []" by (simp add: dropWhile_eq_Nil_conv)
    moreover have "?d = ?b @ xs @ behind" unfolding s using b32 by (auto simp: dropWhile_append1)
    moreover have "tl ?b = [] \<or> last (tl ?b) = 32"
    proof -
      have "last ?b = 32" using b \<open>?b \<noteq> []\<close>
        by (metis dropWhile_eq_Nil_conv last_appendR last_snoc takeWhile_dropWhile_id)
      with \<open>?b \<noteq> []\<close> show ?thesis by (cases ?b) (auto split: if_splits)
    qed
    ultimately show ?thesis using assms r by (auto simp: word_of_def)
  qed
next
  let ?t = "takeWhile (\<lambda>c. c \<noteq> 32) s" and ?d = "dropWhile (\<lambda>c. c \<noteq> 32) s"
  have h: "?d \<noteq> [] \<Longrightarrow> hd ?d = 32" using hd_dropWhile [of "\<lambda>c. c \<noteq> 32" s] by auto
  assume "xs = ?t \<or> (?d \<noteq> [] \<and> word_of xs (tl ?d))"
  then show "word_of xs s"
  proof
    assume "xs = ?t"
    with assms h show ?thesis unfolding word_of_def
      by (intro conjI exI [of _ "[]"] exI [of _ ?d]) auto
  next
    assume d: "?d \<noteq> [] \<and> word_of xs (tl ?d)"
    then obtain before behind where t: "tl ?d = before @ xs @ behind"
      and l: "before = [] \<or> last before = 32" and r: "behind = [] \<or> hd behind = 32"
      by (auto simp: word_of_def)
    have "s = (?t @ 32 # before) @ xs @ behind"
      using takeWhile_dropWhile_id [of "\<lambda>c. c \<noteq> 32" s] d h t by (cases ?d) auto
    with assms l r show ?thesis unfolding word_of_def
      by (intro conjI exI [of _ "?t @ 32 # before"] exI [of _ behind]) auto
  qed
qed

lemma mechanism_in_word: "32 \<notin> set xs \<Longrightarrow> mechanism_in xs s \<longleftrightarrow> word_of xs s"
proof (induction xs s rule: mechanism_in.induct)
  case (1 mech start)
  show ?case
    by (subst mechanism_in.simps, subst word_of_first [OF "1.prems"])
      (use 1 in \<open>auto simp: Let_def\<close>)
qed

lemma mechanism_in_list:
  "sasl_mechanism_in_list mechanisms' sasl =
    map_option (\<lambda>name. word_of name mechanisms') (sasl_method_name sasl)"
proof -
  have "name \<noteq> [] \<and> 32 \<notin> set name" if "sasl_method_name sasl = Some name" for name
    using that by (cases sasl) (auto simp: sasl_method_name_def amqp_cstring_bytes_def)
  then show ?thesis
    by (cases "sasl_method_name sasl") (auto simp: sasl_mechanism_in_list_def mechanism_in_word word_of_def)
qed

section \<open>Limits\<close>

text \<open>
  What the two sides propose is agreed on as the smaller number, 0 being no limit; a frame
  size or heartbeat of 0 on the side of the client is not replaced by that of the server.
\<close>

lemma agreed_limits:
  "agreed_channel_max s c = (if s = 0 \<and> c = 0 then 0xFFFF else if s = 0 then c else if c = 0 then s else min s c)"
  "agreed_frame_max s' c' = (if s' = 0 then c' else min s' c')"
  "agreed_heartbeat s c = (if s = 0 then c else min s c)"
  by (auto simp: agreed_channel_max_def agreed_frame_max_def agreed_heartbeat_def min_def)

definition limits :: "amqp_connection_state_t \<Rightarrow> int \<times> int \<times> int" where
  "limits c = (amqp_connection_state_t.channel_max c, amqp_connection_state_t.frame_max c, amqp_connection_state_t.heartbeat c)"

lemma limits_outside: "outside c' = outside c \<Longrightarrow> limits c' = limits c"
  by (simp add: outside_def limits_def)

lemma limits_simps [simp]:
  "limits (c\<lparr>amqp_connection_state_t.next_send_heartbeat := t\<rparr>) = limits c"
  "limits (c\<lparr>amqp_connection_state_t.next_recv_heartbeat := t\<rparr>) = limits c"
  "limits (c\<lparr>outbound_buffer := buf\<rparr>) = limits c" "limits (c\<lparr>most_recent_api_result := r\<rparr>) = limits c"
  "limits (c\<lparr>first_queued_frame := q\<rparr>) = limits c"
  "limits (c\<lparr>sock_inbound_buffer := bs\<rparr>) = limits c" "limits (c\<lparr>sock_inbound_limit := n\<rparr>) = limits c"
  "limits (c\<lparr>sock_inbound_offset := k\<rparr>) = limits c"
  by (simp_all add: limits_def)

text \<open>Nothing but tuning changes them.\<close>

interpretation limited_receive: io_receive "\<lambda>w. limits (conn w) = k" "\<lambda>w. limits (conn w) = k" for k
  by unfold_locales simp_all

interpretation limited: io_bytes "\<lambda>w. limits (conn w) = k" "\<lambda>w. limits (conn w) = k" for k
proof unfold_locales
  fix d show "keep (\<lambda>w. limits (conn w) = k) (\<lambda>w. limits (conn w) = k) (recv_with_timeout d)"
    by (rule limited_receive.receive_keeps)
next
  fix f show "keep (\<lambda>w. limits (conn w) = k) (\<lambda>w. limits (conn w) = k) (consume_one_frame f)"
  proof (rule keep_snd)
    fix w :: world assume l: "limits (conn w) = k"
    let ?d = "chunk (sock_inbound_offset (conn w)) (sock_inbound_limit (conn w) - sock_inbound_offset (conn w))
      (sock_inbound_buffer (conn w))"
    have "limits (conn (snd (consume_one_frame f w))) = limits (conn w)"
      using handle_input_outside [of "conn w" "spare w" ?d "mem w" f]
      by (auto simp: consume_one_frame_def Let_def leaves_outside_def split: prod.splits dres.splits
          dest!: limits_outside)
    with l show "limits (conn (snd (consume_one_frame f w))) = k" by simp
  qed
next
  fix ch
  show "keep (\<lambda>w. limits (conn w) = k) (\<lambda>w. limits (conn w) = k) (channel_allocs ch [SIZEOF_LINK, SIZEOF_FRAME])"
    "keep (\<lambda>w. limits (conn w) = k) (\<lambda>w. limits (conn w) = k) (channel_allocs ch [SIZEOF_FRAME, SIZEOF_LINK])"
    by (rule keepI; drule channel_allocs_outside; drule limits_outside; simp)+
next
  fix f show "keep (\<lambda>w. limits (conn w) = k) (\<lambda>w. limits (conn w) = k) (append_frame f)"
    by (simp add: keep_def append_frame_def change_conn_def)
next
  fix w :: world and ch c h assume "limits (conn w) = k"
    and "amqp_maybe_release_buffers_on_channel (conn w) ch (mem w) = (c, h)"
  then show "limits (conn (w\<lparr>conn := c, mem := h\<rparr>)) = k" by (simp add: limits_outside [OF release_buffered])
qed simp_all

lemma release_channels_limits: "release_channels chs c h = (c', h') \<Longrightarrow> limits c' = limits c"
  by (induction chs c h rule: release_channels.induct) (auto split: prod.splits dest: release_buffered limits_outside)

lemma release_limits:
  assumes "release_buffers f w = (Done u, w')" and "f = amqp_release_buffers \<or> f = amqp_maybe_release_buffers"
  shows "limits (conn w') = limits (conn w)"
proof -
  obtain c h where f: "f (conn w) (mem w) = Some (c, h)" and w': "w' = w\<lparr>conn := c, mem := h\<rparr>"
    using assms(1) by (auto simp: release_buffers_def split: option.splits prod.splits)
  have "amqp_release_buffers (conn w) (mem w) = Some (c, h) \<or> c = conn w"
    using f assms(2) by (auto simp: amqp_maybe_release_buffers_def split: if_splits)
  then show ?thesis
    using release_channels_limits w' by (auto simp: amqp_release_buffers_def split: if_splits)
qed

lemma tune_limits:
  assumes "tune cm fm hb w = (Done u, w')"
  shows "limits (conn w') = (cm, fm, max 0 hb)"
  using assms
  by (auto simp: tune_def amqp_tune_connection_def Let_def limits_def split: if_splits option.splits prod.splits)

lemma login_tune_limits:
  assumes "login_tune ccm cfm chb s d w = (Done u, w')"
  shows "limits (conn w') = (uint (agreed_channel_max (amqp_connection_tune_t.channel_max s) ccm),
    uint (agreed_frame_max (amqp_connection_tune_t.frame_max s) cfm),
    uint (agreed_heartbeat (amqp_connection_tune_t.heartbeat s) chb))"
proof -
  let ?cm = "agreed_channel_max (amqp_connection_tune_t.channel_max s) ccm"
    and ?fm = "agreed_frame_max (amqp_connection_tune_t.frame_max s) cfm"
    and ?hb = "agreed_heartbeat (amqp_connection_tune_t.heartbeat s) chb"
  obtain x w1 where t: "tune (uint ?cm) (uint ?fm) (uint ?hb) w = (Done x, w1)"
    and m: "amqp_send_method_inner 0 (M_connection_tune_ok
       \<lparr>amqp_connection_tune_ok_t.channel_max = ?cm, amqp_connection_tune_ok_t.frame_max = ?fm,
        amqp_connection_tune_ok_t.heartbeat = ?hb\<rparr>) d w1 = (Done u, w')"
    using assms unfolding login_tune_def Let_def by (rule bind_Done)
  have "max 0 (uint ?hb) = uint ?hb" by simp
  with tune_limits [OF t] keepD [OF limited.keep_send_frame_inner _ m [unfolded amqp_send_method_inner_def]]
  show ?thesis by simp
qed

lemma login_open_limits:
  assumes "login_open vhost d w = (Done r, w')"
  shows "limits (conn w') = limits (conn w)"
proof -
  obtain x w1 where "simple_rpc_inner 0 [AMQP_CONNECTION_OPEN_OK_METHOD]
      (M_connection_open \<lparr>amqp_connection_open_t.virtual_host = amqp_cstring_bytes vhost,
         amqp_connection_open_t.capabilities = [], amqp_connection_open_t.insist = 1\<rparr>) d w = (Done x, w1)"
    and k: "(if reply_type x \<noteq> AMQP_RESPONSE_NORMAL then io_return x
      else io_bind (release_buffers amqp_maybe_release_buffers) (\<lambda>_.
        io_return \<lparr>reply_type = AMQP_RESPONSE_NORMAL, reply = None, library_error = 0\<rparr>)) w1 = (Done r, w')"
    using assms unfolding login_open_def by (rule bind_Done)
  with limited.rpc_keeps [OF refl, of 0] have "limits (conn w1) = limits (conn w)" by blast
  with k show ?thesis
    by (auto simp: io_return_def split: if_splits elim!: bind_Done dest!: release_limits)
qed

text \<open>A login that succeeds leaves the connection with what was agreed on with the server.\<close>

lemma login_steps_limits:
  assumes "login_steps vhost ccm cfm chb props t sasl args w = (Done r, w')" and "reply_type r = AMQP_RESPONSE_NORMAL"
  shows "\<exists>s :: amqp_connection_tune_t. limits (conn w') = (uint (agreed_channel_max (amqp_connection_tune_t.channel_max s) ccm),
    uint (agreed_frame_max (amqp_connection_tune_t.frame_max s) cfm),
    uint (agreed_heartbeat (amqp_connection_tune_t.heartbeat s) chb))"
proof -
  obtain d m w1 where k: "login_answer vhost ccm cfm chb d m w1 = (Done r, w')"
    using assms(1) unfolding login_steps_def by (auto elim!: bind_Done)
  show ?thesis
  proof (cases m)
    case (M_connection_tune s)
    with k obtain u w2 x w3 where "login_tune ccm cfm chb s d w1 = (Done u, w2)"
      "release_buffers amqp_release_buffers w2 = (Done x, w3)" "login_open vhost d w3 = (Done r, w')"
      by (auto simp: login_answer_def elim!: bind_Done)
    then have "limits (conn w') = limits (conn w2)" "limits (conn w2) = limits (conn w2)"
      using release_limits [of amqp_release_buffers w2 x w3] login_open_limits [of vhost d w3 r w'] by simp_all
    with login_tune_limits [OF \<open>login_tune ccm cfm chb s d w1 = (Done u, w2)\<close>] show ?thesis
      by (intro exI [of _ s]) simp
  qed (use k assms(2) in \<open>simp_all add: login_answer_def io_return_def abort_def\<close>, auto)
qed

lemma login_limits:
  assumes "amqp_login_inner vhost cm fm hb props t sasl args w = (Done r, w')" and "reply_type r = AMQP_RESPONSE_NORMAL"
  shows "\<exists>s :: amqp_connection_tune_t. limits (conn w') = (uint (agreed_channel_max (amqp_connection_tune_t.channel_max s) (word_of_int cm)),
    uint (agreed_frame_max (amqp_connection_tune_t.frame_max s) (word_of_int fm)),
    uint (agreed_heartbeat (amqp_connection_tune_t.heartbeat s) (word_of_int hb)))"
proof -
  have n: "reply_type (amqp_rpc_reply_error code) \<noteq> AMQP_RESPONSE_NORMAL" for code
    by (simp add: amqp_rpc_reply_error_def)
  have "login_steps vhost (word_of_int cm) (word_of_int fm) (word_of_int hb) props t sasl args w = (Done r, w')"
    using assms n unfolding amqp_login_inner_def
    by (auto simp: io_return_def split: if_splits elim!: io_catch_cases bind_Done)
  from login_steps_limits [OF this assms(2)] show ?thesis .
qed

section \<open>Small frames\<close>

text \<open>
  A limit of less than 12 bytes is accepted from the server; the answer is then encoded
  behind the end of the buffer that was made that small.
\<close>

lemma small_buffer_undefined:
  assumes "length buf < 12"
  shows "fst (amqp_frame_to_bytes (method_frame ch m) buf) = Undefined"
  using assms by (simp add: amqp_frame_to_bytes_def put_def encode_payload_def Let_def frame_sizes frame_types method_frame_def)

lemma length_resize: "length (resize n xs) = n"
  by (simp add: resize_def)

lemma tune_buffer:
  assumes "tune cm fm hb w = (Done u, w')"
  shows "length (outbound_buffer (conn w')) = size_t_of_int fm"
  using assms
  by (auto simp: tune_def amqp_tune_connection_def Let_def length_resize split: if_splits option.splits prod.splits)

lemma size_t_small: "n < 2 ^ 64 \<Longrightarrow> size_t_of_int (int n) = n"
  by (simp add: size_t_of_int_def)

lemma small_limit_crashes:
  assumes "unat (agreed_frame_max (amqp_connection_tune_t.frame_max s) cfm) < 12"
    and "login_tune ccm cfm chb s d w = (r, w')"
  shows "r \<noteq> Done u \<and> (fst (tune (uint (agreed_channel_max (amqp_connection_tune_t.channel_max s) ccm))
      (uint (agreed_frame_max (amqp_connection_tune_t.frame_max s) cfm))
      (uint (agreed_heartbeat (amqp_connection_tune_t.heartbeat s) chb)) w) = Done () \<longrightarrow> r = Crash)"
proof -
  let ?cm = "agreed_channel_max (amqp_connection_tune_t.channel_max s) ccm"
    and ?fm = "agreed_frame_max (amqp_connection_tune_t.frame_max s) cfm"
    and ?hb = "agreed_heartbeat (amqp_connection_tune_t.heartbeat s) chb"
  let ?m = "M_connection_tune_ok \<lparr>amqp_connection_tune_ok_t.channel_max = ?cm, amqp_connection_tune_ok_t.frame_max = ?fm,
        amqp_connection_tune_ok_t.heartbeat = ?hb\<rparr>"
  obtain x w1 where t: "tune (uint ?cm) (uint ?fm) (uint ?hb) w = (x, w1)" by fastforce
  show ?thesis
  proof (cases x)
    case (Done y)
    have "size_t_of_int (uint ?fm) = unat ?fm" using size_t_small [of "unat ?fm"] assms(1) by simp
    then have "length (outbound_buffer (conn w1)) < 12"
      using tune_buffer [of "uint ?cm" "uint ?fm" "uint ?hb" w y w1] t Done assms(1) by simp
    from small_buffer_undefined [OF this, of 0 ?m] have "fst (amqp_send_method_inner 0 ?m d w1) = Crash"
      by (auto simp: amqp_send_method_inner_def amqp_send_frame_inner_def method_frame_def Let_def split: prod.split)
    with assms(2) t Done show ?thesis by (auto simp: login_tune_def Let_def io_bind_def split: prod.splits)
  qed (use assms(2) t in \<open>auto simp: login_tune_def Let_def io_bind_def\<close>)
qed

text \<open>An empty identity is answered as if there were no memory: the pool hands out no empty block.\<close>

lemma empty_identity_refused:
  "fst (sasl_response AMQP_SASL_METHOD_EXTERNAL [[]] v s) = Fails AMQP_STATUS_NO_MEMORY"
  by (simp add: sasl_response_def amqp_cstring_bytes_def dec_bind_def dec_alloc_def amqp_pool_alloc_def Let_def)

end
