(* ===== verification/Login_Properties.thy ===== *)
theory Login_Properties
  imports Login_Laws Publishing Socket_Properties
begin

text \<open>
  The property of the limits that client and server agree on, with an instance.
\<close>

text \<open>
  C16: Client and server agree on the smaller of what both propose, 0 standing for no limit:
  after \<open>connection.tune\<close> was answered the connection works with these numbers.  When the
  server proposes a frame size of less than 12 bytes the library takes it, and the answer
  does not fit into the buffer any more: the call does not succeed, and it writes behind the
  end of the buffer unless tuning has failed before.
\<close>

theorem login_tune_agrees:
  assumes "login_tune client_channel_max client_frame_max client_heartbeat s deadline w = (r, w')"
    and "cm = amqp_connection_tune_t.channel_max s" and "fm = amqp_connection_tune_t.frame_max s"
    and "hb = amqp_connection_tune_t.heartbeat s"
  shows "(r = Done () \<longrightarrow>
      amqp_get_channel_max (conn w') = uint (if cm = 0 \<and> client_channel_max = 0 then 0xFFFF
        else if cm = 0 then client_channel_max else if client_channel_max = 0 then cm else min cm client_channel_max) \<and>
      amqp_get_frame_max (conn w') = uint (if fm = 0 then client_frame_max else min fm client_frame_max) \<and>
      amqp_get_heartbeat (conn w') = uint (if hb = 0 then client_heartbeat else min hb client_heartbeat)) \<and>
    (fm \<noteq> 0 \<longrightarrow> unat fm < 12 \<longrightarrow> r \<noteq> Done () \<and>
      (fst (tune (uint (agreed_channel_max cm client_channel_max)) (uint (agreed_frame_max fm client_frame_max))
        (uint (agreed_heartbeat hb client_heartbeat)) w) = Done () \<longrightarrow> r = Crash))"
proof
  show "r = Done () \<longrightarrow>
      amqp_get_channel_max (conn w') = uint (if cm = 0 \<and> client_channel_max = 0 then 0xFFFF
        else if cm = 0 then client_channel_max else if client_channel_max = 0 then cm else min cm client_channel_max) \<and>
      amqp_get_frame_max (conn w') = uint (if fm = 0 then client_frame_max else min fm client_frame_max) \<and>
      amqp_get_heartbeat (conn w') = uint (if hb = 0 then client_heartbeat else min hb client_heartbeat)"
    using login_tune_limits [of client_channel_max client_frame_max client_heartbeat s deadline w "()" w'] assms
    unfolding limits_def agreed_limits amqp_get_channel_max_def amqp_get_frame_max_def amqp_get_heartbeat_def by auto
  show "fm \<noteq> 0 \<longrightarrow> unat fm < 12 \<longrightarrow> r \<noteq> Done () \<and>
      (fst (tune (uint (agreed_channel_max cm client_channel_max)) (uint (agreed_frame_max fm client_frame_max))
        (uint (agreed_heartbeat hb client_heartbeat)) w) = Done () \<longrightarrow> r = Crash)"
  proof (intro impI)
    assume "fm \<noteq> 0" and "unat fm < 12"
    then have "unat (agreed_frame_max fm client_frame_max) < 12"
      by (auto simp: agreed_frame_max_def word_less_nat_alt)
    from small_limit_crashes [OF this [unfolded assms(3)] assms(1)] assms(2-4)
    show "r \<noteq> Done () \<and>
      (fst (tune (uint (agreed_channel_max cm client_channel_max)) (uint (agreed_frame_max fm client_frame_max))
        (uint (agreed_heartbeat hb client_heartbeat)) w) = Done () \<longrightarrow> r = Crash)" by simp
  qed
qed

definition tune_ok_image :: "byte list" where
  "tune_ok_image = [1, 0, 0, 0, 0, 0, 12, 0, 10, 0, 31, 7, 255, 0, 0, 16, 0, 0, 0, 206]"

abbreviation tune_ok :: amqp_method_t where
  "tune_ok \<equiv> M_connection_tune_ok \<lparr>amqp_connection_tune_ok_t.channel_max = 2047,
     amqp_connection_tune_ok_t.frame_max = 4096, amqp_connection_tune_ok_t.heartbeat = 0\<rparr>"

lemma tune_ok_encoded: "encoded (method_frame 0 tune_ok) tune_ok_image" "valid_frame (method_frame 0 tune_ok)"
proof -
  have "amqp_frame_to_bytes (method_frame 0 tune_ok) (replicate 32 0) = (Returns tune_ok_image, tune_ok_image @ replicate 12 0)"
    by (simp add: tune_ok_image_def method_frame_def amqp_frame_to_bytes_def put_def
        encode_payload_def finish_frame_def amqp_encode_method_def frame_types frame_sizes method_numbers
        chunk_def AMQP_FRAME_END_def encode_connection_tune_ok_def enc_eval)
      (simp add: numeral_eq_Suc)
  then show "encoded (method_frame 0 tune_ok) tune_ok_image" unfolding encoded_def by blast
  show "valid_frame (method_frame 0 tune_ok)" by (simp add: valid_frame_def)
qed

theorem login_tune_agrees_witness:
  "\<exists>w'. login_tune 2047 131072 0 \<lparr>amqp_connection_tune_t.channel_max = 0, amqp_connection_tune_t.frame_max = 4096,
      amqp_connection_tune_t.heartbeat = 60\<rparr> amqp_time_infinite client = (Done (), w') \<and>
    amqp_get_channel_max (conn w') = 2047 \<and> amqp_get_frame_max (conn w') = 4096 \<and> amqp_get_heartbeat (conn w') = 0"
proof -
  let ?s = "\<lparr>amqp_connection_tune_t.channel_max = 0, amqp_connection_tune_t.frame_max = 4096,
      amqp_connection_tune_t.heartbeat = 60\<rparr>"
  have a: "agreed_channel_max 0 2047 = 2047" "agreed_frame_max 4096 131072 = 4096" "agreed_heartbeat 60 0 = 0"
    by (simp_all add: agreed_limits)
  obtain w1 where t: "tune 2047 4096 0 client = (Done (), w1)"
    and w1: "sends w1 = [Os_sent 100]" "sockfd w1 = sockfd client" "heartbeat (conn w1) = 0"
      "next_recv_heartbeat (conn w1) = amqp_time_infinite"
    by (simp add: tune_def amqp_tune_connection_def amqp_heartbeat_recv_def amqp_heartbeat_send_def Let_def client_def idle_connection_def amqp_time_s_from_now_def
        realloc_buffer_def realloc_def malloc_def fresh_heap_def size_t_of_int_def)
  have "accepts w1 [tune_ok_image]"
    using w1 tune_buffer [OF t]
    by (simp add: accepts_def size_t_of_int_def tune_ok_image_def)
      (simp add: client_def, rule exI [of _ "[100]"], simp)
  then obtain w2 where w2: "amqp_send_frame_inner (method_frame 0 tune_ok) amqp_time_infinite w1 = (Done (), w2)"
    using send_accepted [OF tune_ok_encoded(2,1)] by blast
  have "login_tune 2047 131072 0 ?s amqp_time_infinite client = (Done (), w2)"
    using t w2 by (simp add: login_tune_def Let_def a io_bind_def amqp_send_method_inner_def method_frame_def)
  with login_tune_agrees [OF this refl refl refl] show ?thesis by simp
qed

end
