(* ===== verification/Amqp_Url.thy ===== *)
theory Amqp_Url
  imports Amqp_Status "HOL-Library.Char_ord"
begin

text \<open>
  Parsing URLs, \<open>amqp_url.c\<close>.  The code works in place: it decodes a component over its own
  encoding and ends it with 0 where the delimiter was.  What is written never gets ahead of
  what is read, so a component is a string of its own here; a C string is the part of it in
  front of the first 0, which an escape can bring in.
\<close>

section \<open>Scanning\<close>

definition cstr :: "string \<Rightarrow> string" where
  "cstr s = takeWhile (\<lambda>c. c \<noteq> CHR 0x00) s"

definition isspace :: "char \<Rightarrow> bool" where
  "isspace c \<longleftrightarrow> c = CHR 0x20 \<or> (9 \<le> (of_char c :: nat) \<and> (of_char c :: nat) \<le> 13)"

definition hex_digit :: "char \<Rightarrow> nat option" where
  "hex_digit c =
    (let n = of_char c in
     if 48 \<le> n \<and> n \<le> 57 then Some (n - 48)
     else if 97 \<le> n \<and> n \<le> 102 then Some (n - 87)
     else if 65 \<le> n \<and> n \<le> 70 then Some (n - 55)
     else None)"

text \<open>
  \<open>sscanf(from, "%2x%n", &val, &chars)\<close>: blanks are skipped and count for \<open>%n\<close>, not for the
  width; a sign counts for the width; \<open>0x\<close> is the beginning of a number, but none.
  \<open>None\<close> is a result of less than 1.
\<close>

definition scan_hex_2 :: "string \<Rightarrow> (int \<times> nat) option" where
  "scan_hex_2 from0 =
    (let blanks = length (takeWhile isspace from0); s = dropWhile isspace from0 in
     case s of
       [] \<Rightarrow> None
     | c # cs \<Rightarrow>
         if c = CHR ''+'' \<or> c = CHR ''-'' then
           (case cs of
              [] \<Rightarrow> None
            | d # _ \<Rightarrow>
                (case hex_digit d of
                   None \<Rightarrow> None
                 | Some x \<Rightarrow> Some (if c = CHR ''-'' then (- int x) mod 2 ^ 32 else int x, blanks + 2)))
         else
           (case hex_digit c of
              None \<Rightarrow> None
            | Some x \<Rightarrow>
                (case cs of
                   [] \<Rightarrow> Some (int x, blanks + 1)
                 | d # _ \<Rightarrow>
                     if c = CHR ''0'' \<and> (d = CHR ''x'' \<or> d = CHR ''X'') then None
                     else (case hex_digit d of
                        None \<Rightarrow> Some (int x, blanks + 1)
                      | Some y \<Rightarrow> Some (16 * int x + int y, blanks + 2)))))"

definition CHAR_MAX :: int where "CHAR_MAX = 127"

definition escaped :: "string \<Rightarrow> char option" where
  "escaped from0 =
    (case scan_hex_2 from0 of
       None \<Rightarrow> None
     | Some (v, chars) \<Rightarrow> if chars \<noteq> 2 \<or> v > CHAR_MAX then None else Some (char_of (nat v)))"

definition is_delim :: "bool \<Rightarrow> char \<Rightarrow> bool" where
  "is_delim colon_and_at_sign_are_delims c \<longleftrightarrow>
    (colon_and_at_sign_are_delims \<and> (c = CHR '':'' \<or> c = CHR ''@'')) \<or>
    c \<in> {CHR ''/'', CHR ''?'', CHR ''#'', CHR ''['', CHR '']''}"

text \<open>The component, the delimiter (0 at the end, \<open>%\<close> after a bad escape) and what follows.\<close>

fun find_delim :: "bool \<Rightarrow> string \<Rightarrow> string \<times> char \<times> string" where
  "find_delim d [] = ([], CHR 0x00, [])"
| "find_delim d (c # cs) =
    (if is_delim d c then ([], c, cs)
     else if c = CHR ''%'' then
       (case escaped cs of
          None \<Rightarrow> ([], CHR ''%'', cs)
        | Some x \<Rightarrow> (case find_delim d (drop 2 cs) of (s, e, r) \<Rightarrow> (x # s, e, r)))
     else (case find_delim d cs of (s, e, r) \<Rightarrow> (c # s, e, r)))"

section \<open>Numbers\<close>

definition is_digit :: "char \<Rightarrow> bool" where
  "is_digit c \<longleftrightarrow> 48 \<le> (of_char c :: nat) \<and> (of_char c :: nat) \<le> 57"

definition digits_value :: "string \<Rightarrow> int" where
  "digits_value s = foldl (\<lambda>a c. 10 * a + (of_char c - 48)) 0 s"

text \<open>
  \<open>strtol(port, &end, 10)\<close> of the whole string: \<open>None\<close> when it has no digits or something
  follows.  Values that do not fit a \<open>long\<close> are out of range for a port anyway.
\<close>

definition strtol_all :: "string \<Rightarrow> int option" where
  "strtol_all s =
    (let t = dropWhile isspace s;
         neg = (t \<noteq> [] \<and> hd t = CHR ''-'');
         ds = (if t \<noteq> [] \<and> (hd t = CHR ''-'' \<or> hd t = CHR ''+'') then tl t else t) in
     if ds = [] \<or> \<not> list_all is_digit ds then None
     else Some (if neg then - digits_value ds else digits_value ds))"

section \<open>URLs\<close>

record amqp_connection_info =
  user :: string
  password :: string
  host :: string
  vhost :: string
  port :: int
  ssl :: bool

definition amqp_default_connection_info :: amqp_connection_info where
  "amqp_default_connection_info = \<lparr>user = ''guest'', password = ''guest'', host = ''localhost'',
     vhost = ''/'', port = 5672, ssl = False\<rparr>"

text \<open>
  The scheme decides the defaults; then the user, the host, the port and the virtual host.
  Everything that is refused is \<open>Inl AMQP_STATUS_BAD_URL\<close>.
\<close>

definition BAD_URL :: "amqp_status_enum + amqp_connection_info" where
  "BAD_URL = Inl AMQP_STATUS_BAD_URL"

definition parse_vhost :: "amqp_connection_info \<Rightarrow> char \<Rightarrow> string \<Rightarrow> amqp_status_enum + amqp_connection_info" where
  "parse_vhost parsed delim url =
    (if delim = CHR ''/'' then
       (case find_delim True url of (start, delim', _) \<Rightarrow>
         if delim' \<noteq> CHR 0x00 then BAD_URL else Inr (parsed\<lparr>vhost := cstr start\<rparr>))
     else if delim = CHR 0x00 then Inr parsed
     else BAD_URL)"

definition parse_port ::
  "amqp_connection_info \<Rightarrow> string option \<Rightarrow> char \<Rightarrow> string \<Rightarrow> amqp_status_enum + amqp_connection_info" where
  "parse_port parsed number delim url =
    (case (if delim = CHR '':'' then (case find_delim True url of (p, e, r) \<Rightarrow> (Some p, e, r)) else (number, delim, url)) of
       (None, delim', url') \<Rightarrow> parse_vhost parsed delim' url'
     | (Some p, delim', url') \<Rightarrow>
         (case strtol_all (cstr p) of
            None \<Rightarrow> BAD_URL
          | Some portnum \<Rightarrow>
              if portnum < 0 \<or> portnum > 65535 then BAD_URL
              else parse_vhost (parsed\<lparr>port := portnum\<rparr>) delim' url'))"

text \<open>\<open>number\<close> is the component behind a colon that may turn out to be the port.\<close>

definition parse_host ::
  "amqp_connection_info \<Rightarrow> string \<Rightarrow> string option \<Rightarrow> char \<Rightarrow> string \<Rightarrow> amqp_status_enum + amqp_connection_info" where
  "parse_host parsed name number delim url =
    (if delim = CHR ''['' then
       if number \<noteq> None \<or> cstr name \<noteq> [] then BAD_URL
       else (case find_delim False url of (start, delim1, url1) \<Rightarrow>
         if delim1 \<noteq> CHR '']'' then BAD_URL
         else (case find_delim True url1 of (start2, delim2, url2) \<Rightarrow>
           if cstr start2 \<noteq> [] then BAD_URL
           else parse_port (parsed\<lparr>host := cstr start\<rparr>) None delim2 url2))
     else parse_port (if cstr name \<noteq> [] then parsed\<lparr>host := cstr name\<rparr> else parsed) number delim url)"

definition parse_user :: "amqp_connection_info \<Rightarrow> string \<Rightarrow> amqp_status_enum + amqp_connection_info" where
  "parse_user parsed url =
    (case find_delim True url of (name, delim, url1) \<Rightarrow>
     case (if delim = CHR '':'' then (case find_delim True url1 of (p, e, r) \<Rightarrow> (Some p, e, r)) else (None, delim, url1)) of
       (number, delim2, url2) \<Rightarrow>
         if delim2 = CHR ''@'' then
           (let parsed' = parsed\<lparr>user := cstr name, password := (case number of None \<Rightarrow> password parsed | Some p \<Rightarrow> cstr p)\<rparr> in
            case find_delim True url2 of (name', delim3, url3) \<Rightarrow> parse_host parsed' name' None delim3 url3)
         else parse_host parsed name number delim2 url2)"

definition amqp_parse_url :: "string \<Rightarrow> amqp_status_enum + amqp_connection_info" where
  "amqp_parse_url url =
    (if take 7 url = ''amqp://'' then parse_user amqp_default_connection_info (drop 7 url)
     else if take 8 url = ''amqps://'' then
       parse_user (amqp_default_connection_info\<lparr>port := 5671, ssl := True\<rparr>) (drop 8 url)
     else BAD_URL)"

end
