(* ===== verification/Frame_Queue.thy ===== *)
theory Frame_Queue
  imports Socket_Properties
begin

text \<open>
  The queue of frames as the code has it (\<open>amqp_socket.c\<close>): links in memory, each with a
  pointer to the next one, and the pointers \<open>first_queued_frame\<close> and \<open>last_queued_frame\<close>.  The
  functions of the socket layer use a list of frames instead; here the pointer operations are
  shown to do on memory what the list operations do on lists.
\<close>

section \<open>Links in memory\<close>

record amqp_link_t =
  link_next :: "addr option"
  link_data :: amqp_frame_t

record link_queue =
  links :: "addr \<Rightarrow> amqp_link_t"
  first_link :: "addr option"
  last_link :: "addr option"

definition set_next :: "addr \<Rightarrow> addr option \<Rightarrow> link_queue \<Rightarrow> link_queue" where
  "set_next a p q = q\<lparr>links := (links q)(a := (links q a)\<lparr>link_next := p\<rparr>)\<rparr>"

definition set_data :: "addr \<Rightarrow> amqp_frame_t \<Rightarrow> link_queue \<Rightarrow> link_queue" where
  "set_data a f q = q\<lparr>links := (links q)(a := (links q a)\<lparr>link_data := f\<rparr>)\<rparr>"

text \<open>
  \<open>new\<close> is the link that \<open>amqp_create_link_for_frame\<close> has made.  \<open>None\<close>: a NULL pointer is
  followed.
\<close>

definition append_link :: "addr \<Rightarrow> amqp_frame_t \<Rightarrow> link_queue \<Rightarrow> link_queue option" where
  "append_link new f q =
    (let q0 = set_data new f q in
     map_option (\<lambda>q1. (set_next new None q1)\<lparr>last_link := Some new\<rparr>)
       (case first_link q0 of
          None \<Rightarrow> Some (q0\<lparr>first_link := Some new\<rparr>)
        | Some _ \<Rightarrow> (case last_link q0 of None \<Rightarrow> None | Some a \<Rightarrow> Some (set_next a (Some new) q0))))"

text \<open>The copies in \<open>amqp_try_recv\<close> and \<open>simple_rpc_inner\<close> look at the last link instead.\<close>

definition append_link_copy :: "addr \<Rightarrow> amqp_frame_t \<Rightarrow> link_queue \<Rightarrow> link_queue" where
  "append_link_copy new f q =
    (let q0 = set_data new f (set_next new None q) in
     (case last_link q0 of
        None \<Rightarrow> q0\<lparr>first_link := Some new\<rparr>
      | Some a \<Rightarrow> set_next a (Some new) q0)\<lparr>last_link := Some new\<rparr>)"

definition put_back_link :: "addr \<Rightarrow> amqp_frame_t \<Rightarrow> link_queue \<Rightarrow> link_queue" where
  "put_back_link new f q =
    (let q0 = set_data new f q in
     if first_link q0 = None then set_next new None (q0\<lparr>first_link := Some new, last_link := Some new\<rparr>)
     else (set_next new (first_link q0) q0)\<lparr>first_link := Some new\<rparr>)"

text \<open>Unlinking at a link: the queue goes on behind it.\<close>

definition unlink_at :: "addr \<Rightarrow> link_queue \<Rightarrow> amqp_frame_t \<times> link_queue" where
  "unlink_at a q =
    (let q1 = q\<lparr>first_link := link_next (links q a)\<rparr> in
     (link_data (links q a), if first_link q1 = None then q1\<lparr>last_link := None\<rparr> else q1))"

definition take_first_link :: "link_queue \<Rightarrow> (amqp_frame_t \<times> link_queue) option" where
  "take_first_link q = map_option (\<lambda>a. unlink_at a q) (first_link q)"

text \<open>The search along the links; it would not end on a cycle.\<close>

partial_function (option) find_link ::
  "(addr \<Rightarrow> amqp_link_t) \<Rightarrow> amqp_channel_t \<Rightarrow> addr option \<Rightarrow> addr option option" where
  "find_link m ch cur =
    (case cur of
       None \<Rightarrow> Some None
     | Some a \<Rightarrow> if ch = channel (link_data (m a)) then Some (Some a) else find_link m ch (link_next (m a)))"

definition take_channel_link :: "amqp_channel_t \<Rightarrow> link_queue \<Rightarrow> (amqp_frame_t \<times> link_queue) option option" where
  "take_channel_link ch q =
    map_option (map_option (\<lambda>a. unlink_at a q)) (find_link (links q) ch (first_link q))"

section \<open>The list in the memory\<close>

text \<open>\<open>chain m p as\<close>: following the pointers from \<open>p\<close> visits the links \<open>as\<close> and ends with NULL.\<close>

fun chain :: "(addr \<Rightarrow> amqp_link_t) \<Rightarrow> addr option \<Rightarrow> addr list \<Rightarrow> bool" where
  "chain m p [] \<longleftrightarrow> p = None"
| "chain m p (a # as) \<longleftrightarrow> p = Some a \<and> chain m (link_next (m a)) as"

definition holds_frames :: "link_queue \<Rightarrow> addr list \<Rightarrow> amqp_frame_t list \<Rightarrow> bool" where
  "holds_frames q as fs \<longleftrightarrow>
    chain (links q) (first_link q) as \<and> distinct as \<and> map (\<lambda>a. link_data (links q a)) as = fs \<and>
    last_link q = (if as = [] then None else Some (last as))"

lemma chain_cong: "(\<And>a. a \<in> set as \<Longrightarrow> link_next (m a) = link_next (m' a)) \<Longrightarrow> chain m p as = chain m' p as"
  by (induction as arbitrary: p) auto

lemma chain_upd [simp]: "a \<notin> set as \<Longrightarrow> chain (m(a := x)) p as = chain m p as"
  by (rule chain_cong) auto

lemma chain_snoc:
  "chain m p (as @ [a]) \<Longrightarrow> a \<notin> set as \<Longrightarrow> new \<notin> set (as @ [a]) \<Longrightarrow>
    chain (m(a := (m a)\<lparr>link_next := Some new\<rparr>, new := x\<lparr>link_next := None\<rparr>)) p (as @ [a, new])"
  by (induction as arbitrary: p) (auto simp: fun_upd_twist)

lemma append_link_holds:
  assumes "holds_frames q as fs" and "new \<notin> set as"
  shows "\<exists>q'. append_link new f q = Some q' \<and> holds_frames q' (as @ [new]) (fs @ [f])"
proof (cases as rule: rev_cases)
  case Nil
  with assms show ?thesis
    by (auto simp: holds_frames_def append_link_def set_data_def set_next_def Let_def)
next
  case (snoc bs a)
  have c: "chain (links q) (first_link q) (bs @ [a])" and l: "last_link q = Some a" and ne: "first_link q \<noteq> None"
    using assms snoc by (auto simp: holds_frames_def split: if_splits) (cases bs; simp)+
  note d = chain_snoc [OF c, of new "(links q new)\<lparr>link_data := f\<rparr>"]
  from c l ne assms snoc d show ?thesis
    by (cases "first_link q") (auto simp: holds_frames_def append_link_def set_data_def set_next_def Let_def fun_upd_twist)
qed

lemma holds_frames_ends:
  assumes "holds_frames q as fs"
  shows "first_link q = (if as = [] then None else Some (hd as))"
    and "last_link q = (if as = [] then None else Some (last as))" and "length as = length fs"
  using assms by (cases as; auto simp: holds_frames_def)+

text \<open>The pointers of the copies agree with the pointers of \<open>amqp_queue_frame\<close>.\<close>

lemma append_link_copy_same:
  assumes "holds_frames q as fs" and "new \<notin> set as"
  shows "append_link new f q = Some (append_link_copy new f q)"
proof (cases "as = []")
  case True
  with holds_frames_ends [OF assms(1)] show ?thesis
    by (cases q; cases "links q new")
      (simp add: append_link_def append_link_copy_def set_data_def set_next_def Let_def)
next
  case False
  with assms(2) have "last as \<noteq> new" by (auto dest: last_in_set)
  with False holds_frames_ends [OF assms(1)] show ?thesis
    by (cases q; cases "links q new")
      (simp add: append_link_def append_link_copy_def set_data_def set_next_def Let_def fun_upd_twist)
qed

lemma append_link_copy_holds:
  assumes "holds_frames q as fs" and "new \<notin> set as"
  shows "holds_frames (append_link_copy new f q) (as @ [new]) (fs @ [f])"
  using append_link_holds [OF assms, of f] append_link_copy_same [OF assms, of f] by simp

lemma put_back_link_holds:
  assumes "holds_frames q as fs" and "new \<notin> set as"
  shows "holds_frames (put_back_link new f q) (new # as) (f # fs)"
  using assms by (cases as) (auto simp: holds_frames_def put_back_link_def set_data_def set_next_def Let_def)

lemma unlink_at_holds:
  assumes "chain (links q) p (bs @ a # as)" and "distinct (a # as)"
    and "last_link q = Some (last (a # as))" and "map (\<lambda>a. link_data (links q a)) (a # as) = g # gs"
  shows "\<exists>q'. unlink_at a q = (g, q') \<and> holds_frames q' as gs"
proof -
  from assms(1) have "chain (links q) (link_next (links q a)) as"
    by (induction bs arbitrary: p) auto
  with assms(2-4) show ?thesis
    by (cases as) (auto simp: unlink_at_def holds_frames_def Let_def)
qed

lemma take_first_link_holds:
  assumes "holds_frames q as (f # fs)"
  shows "\<exists>q'. take_first_link q = Some (f, q') \<and> holds_frames q' (tl as) fs"
proof -
  from assms obtain a bs where as: "as = a # bs" by (cases as) (auto simp: holds_frames_def)
  with assms unlink_at_holds [of q "Some a" "[]" a bs f fs] show ?thesis
    by (auto simp: holds_frames_def take_first_link_def)
qed

text \<open>The search ends, at the first link of a frame of the channel.\<close>

lemma find_link_chain:
  assumes "chain m p as"
  shows "find_link m ch p =
    Some (case dropWhile (\<lambda>a. channel (link_data (m a)) \<noteq> ch) as of [] \<Rightarrow> None | a # _ \<Rightarrow> Some a)"
  using assms
proof (induction as arbitrary: p)
  case Nil
  then show ?case by (simp add: find_link.simps)
next
  case (Cons a as)
  then show ?case by (subst find_link.simps) auto
qed

lemma queued_on_channel_dropWhile:
  "queued_on_channel ch fs = (case dropWhile (\<lambda>f. channel f \<noteq> ch) fs of [] \<Rightarrow> None | f # gs \<Rightarrow> Some (f, gs))"
  by (induction fs) auto

lemma take_channel_link_holds:
  assumes "holds_frames q as fs"
  shows "case queued_on_channel ch fs of
      None \<Rightarrow> take_channel_link ch q = Some None
    | Some (f, gs) \<Rightarrow> \<exists>q' bs. take_channel_link ch q = Some (Some (f, q')) \<and> holds_frames q' bs gs \<and> set bs \<subseteq> set as"
proof -
  let ?P = "\<lambda>a. channel (link_data (links q a)) \<noteq> ch"
  have c: "chain (links q) (first_link q) as" and d: "distinct as"
    and fs: "fs = map (\<lambda>a. link_data (links q a)) as" and l: "last_link q = (if as = [] then None else Some (last as))"
    using assms by (auto simp: holds_frames_def)
  have dw: "dropWhile (\<lambda>f. channel f \<noteq> ch) fs = map (\<lambda>a. link_data (links q a)) (dropWhile ?P as)"
    by (simp add: fs dropWhile_map comp_def)
  show ?thesis
  proof (cases "dropWhile ?P as")
    case Nil
    with dw have "dropWhile (\<lambda>f. channel f \<noteq> ch) fs = []" by simp
    with Nil find_link_chain [OF c, of ch] show ?thesis
      unfolding queued_on_channel_dropWhile take_channel_link_def by (simp only: list.case option.case option.map)
  next
    case (Cons a bs)
    then have as: "as = takeWhile ?P as @ a # bs" by (metis takeWhile_dropWhile_id)
    then obtain cs where cs: "as = cs @ a # bs" by blast
    with d l have "distinct (a # bs)" "last_link q = Some (last (a # bs))" "set bs \<subseteq> set as" by auto
    moreover have "chain (links q) (first_link q) (takeWhile ?P as @ a # bs)" using c as by simp
    ultimately obtain q' where "unlink_at a q = (link_data (links q a), q')"
      "holds_frames q' bs (map (\<lambda>a. link_data (links q a)) bs)" "set bs \<subseteq> set as"
      using unlink_at_holds [of q _ "takeWhile ?P as" a bs "link_data (links q a)" "map (\<lambda>a. link_data (links q a)) bs"]
      by auto
    with Cons dw find_link_chain [OF c, of ch] show ?thesis
      by (auto simp: queued_on_channel_dropWhile take_channel_link_def)
  qed
qed

section \<open>Runs\<close>

text \<open>
  What the functions do with the queue; the address is that of the new link.  A frame is taken
  when the queue holds one, for its channel in the last case; else the functions wait for
  frames of the socket, and queue what they do not return.
\<close>

datatype queue_step = Queue_frame addr amqp_frame_t | Enqueue_copy addr amqp_frame_t
  | Put_back_frame addr amqp_frame_t | Wait_frame | Wait_on_channel amqp_channel_t

fun link_step :: "queue_step \<Rightarrow> link_queue \<Rightarrow> (amqp_frame_t list \<times> link_queue) option" where
  "link_step (Queue_frame new f) q = map_option (Pair []) (append_link new f q)"
| "link_step (Enqueue_copy new f) q = Some ([], append_link_copy new f q)"
| "link_step (Put_back_frame new f) q = Some ([], put_back_link new f q)"
| "link_step Wait_frame q = map_option (apfst (\<lambda>f. [f])) (take_first_link q)"
| "link_step (Wait_on_channel ch) q =
    (case take_channel_link ch q of Some (Some (f, q')) \<Rightarrow> Some ([f], q') | _ \<Rightarrow> None)"

fun world_step :: "queue_step \<Rightarrow> world \<Rightarrow> (amqp_frame_t list \<times> world) option" where
  "world_step (Queue_frame new f) w = map_option (Pair []) (succeeds (amqp_queue_frame f w))"
| "world_step (Enqueue_copy new f) w = map_option (Pair []) (succeeds (enqueue_copy f w))"
| "world_step (Put_back_frame new f) w = map_option (Pair []) (succeeds (amqp_put_back_frame f w))"
| "world_step Wait_frame w =
    (if amqp_frames_enqueued (conn w)
     then (case amqp_simple_wait_frame fresh_frame w of (Done f, w') \<Rightarrow> Some ([f], w') | _ \<Rightarrow> None) else None)"
| "world_step (Wait_on_channel ch) w =
    (if \<exists>f \<in> set (first_queued_frame (conn w)). channel f = ch
     then (case amqp_simple_wait_frame_on_channel ch fresh_frame w of (Done f, w') \<Rightarrow> Some ([f], w') | _ \<Rightarrow> None)
     else None)"

fun run_steps :: "('x \<Rightarrow> 's \<Rightarrow> ('o list \<times> 's) option) \<Rightarrow> 'x list \<Rightarrow> 's \<Rightarrow> ('o list \<times> 's) option" where
  "run_steps step [] s = Some ([], s)"
| "run_steps step (x # xs) s =
    Option.bind (step x s) (\<lambda>(fs, s1). map_option (apfst (\<lambda>gs. fs @ gs)) (run_steps step xs s1))"

fun new_link :: "queue_step \<Rightarrow> addr list" where
  "new_link (Queue_frame new f) = [new]"
| "new_link (Enqueue_copy new f) = [new]"
| "new_link (Put_back_frame new f) = [new]"
| "new_link _ = []"

text \<open>
  A simulation of steps that give results: \<open>rel t as s\<close> says that \<open>t\<close> represents \<open>s\<close> with the
  addresses \<open>as\<close>, and \<open>news x\<close> are the addresses that the step \<open>x\<close> brings.
\<close>

locale step_simulation =
  fixes abs_step :: "'x \<Rightarrow> 's \<Rightarrow> ('o list \<times> 's) option"
    and conc_step :: "'x \<Rightarrow> 't \<Rightarrow> ('o list \<times> 't) option"
    and rel :: "'t \<Rightarrow> 'l list \<Rightarrow> 's \<Rightarrow> bool"
    and news :: "'x \<Rightarrow> 'l list"
  assumes step: "abs_step x s = Some (gs, s') \<Longrightarrow> rel t as s \<Longrightarrow> set (news x) \<inter> set as = {} \<Longrightarrow>
      \<exists>t' as'. conc_step x t = Some (gs, t') \<and> rel t' as' s' \<and> set as' \<subseteq> set as \<union> set (news x)"
    and rel_distinct: "rel t as s \<Longrightarrow> distinct as"
begin

lemma runs:
  assumes "run_steps abs_step xs s = Some (gs, s')" and "rel t as s" and "distinct (as @ concat (map news xs))"
  shows "\<exists>t' as'. run_steps conc_step xs t = Some (gs, t') \<and> rel t' as' s'"
  using assms
proof (induction xs arbitrary: s t as gs)
  case Nil
  then show ?case by auto
next
  case (Cons x xs)
  from Cons.prems(1) obtain g1 s1 g2 where a: "abs_step x s = Some (g1, s1)"
    "run_steps abs_step xs s1 = Some (g2, s')" "gs = g1 @ g2"
    by (auto simp: bind_eq_Some_conv)
  have d: "set (news x) \<inter> set as = {}" "distinct (concat (map news xs))"
    "set (concat (map news xs)) \<inter> (set as \<union> set (news x)) = {}"
    using Cons.prems(3) by auto
  from step [OF a(1) Cons.prems(2) d(1)] obtain t1 bs where
    t1: "conc_step x t = Some (g1, t1)" "rel t1 bs s1" "set bs \<subseteq> set as \<union> set (news x)" by blast
  with d rel_distinct have "distinct (bs @ concat (map news xs))" by fastforce
  from Cons.IH [OF a(2) t1(2) this] t1(1) a(3) show ?case by auto
qed

end

lemma enqueue_copy_done:
  assumes "enqueue_copy f w = (Done (), w')"
  shows "first_queued_frame (conn w') = first_queued_frame (conn w) @ [f]"
proof -
  obtain r w1 where a: "channel_allocs (channel f) [SIZEOF_FRAME, SIZEOF_LINK] w = (r, w1)" by fastforce
  with channel_allocs_outside [OF a] assms show ?thesis
    by (cases r) (auto simp: enqueue_copy_def append_frame_def change_conn_def io_bind_def outside_def)
qed

lemma wait_frame_queued:
  "first_queued_frame (conn w) = f # fs \<Longrightarrow>
    \<exists>w'. amqp_simple_wait_frame d w = (Done f, w') \<and> first_queued_frame (conn w') = fs"
  by (simp add: amqp_simple_wait_frame_def amqp_simple_wait_frame_noblock_def deadline_from_def
      amqp_time_from_now_def io_bind_def io_return_def read_clock_def)

lemma queued_on_channel_None: "queued_on_channel ch fs = None \<longleftrightarrow> (\<forall>f \<in> set fs. channel f \<noteq> ch)"
  by (induction fs) auto

text \<open>One step: the links it uses were in the queue or are new.\<close>

lemma world_step_links:
  assumes "world_step x w = Some (gs, w')" and h: "holds_frames q as (first_queued_frame (conn w))"
    and "set (new_link x) \<inter> set as = {}"
  shows "\<exists>q' as'. link_step x q = Some (gs, q') \<and> holds_frames q' as' (first_queued_frame (conn w')) \<and>
    set as' \<subseteq> set as \<union> set (new_link x)"
proof (cases x)
  case (Queue_frame new f)
  with assms append_link_holds [OF h, of new f] show ?thesis
    by (auto simp: succeeds_Some dest!: queue_frame_done intro!: exI [of _ "as @ [new]"])
next
  case (Enqueue_copy new f)
  with assms append_link_copy_holds [OF h, of new f] show ?thesis
    by (auto simp: succeeds_Some dest!: enqueue_copy_done intro!: exI [of _ "as @ [new]"])
next
  case (Put_back_frame new f)
  with assms put_back_link_holds [OF h, of new f] show ?thesis
    by (auto simp: succeeds_Some dest!: put_back_frame_done intro!: exI [of _ "new # as"])
next
  case Wait_frame
  with assms(1) obtain f fs where q: "first_queued_frame (conn w) = f # fs"
    by (cases "first_queued_frame (conn w)") (auto simp: amqp_frames_enqueued_def)
  with h have "set (tl as) \<subseteq> set as" by (cases as) auto
  with assms(1) Wait_frame q wait_frame_queued [OF q, of fresh_frame] take_first_link_holds [of q as f fs] h show ?thesis
    by (auto simp: amqp_frames_enqueued_def intro!: exI [of _ "tl as"])
next
  case (Wait_on_channel ch)
  with assms(1) queued_on_channel_None [of ch "first_queued_frame (conn w)"]
  obtain f fs where q: "queued_on_channel ch (first_queued_frame (conn w)) = Some (f, fs)"
    by (cases "queued_on_channel ch (first_queued_frame (conn w))") (auto split: if_splits)
  from take_channel_link_holds [OF h, of ch] q obtain q' bs where
    "take_channel_link ch q = Some (Some (f, q'))" "holds_frames q' bs fs" "set bs \<subseteq> set as"
    by auto
  with assms(1) q Wait_on_channel show ?thesis
    by (auto simp: amqp_simple_wait_frame_on_channel_def split: if_splits intro!: exI [of _ bs])
qed

interpretation links: step_simulation world_step link_step
  "\<lambda>q as w. holds_frames q as (first_queued_frame (conn w))" new_link
  by unfold_locales (rule world_step_links, auto simp: holds_frames_def)

text \<open>
  C17: The linked list of queued frames implements the queue of the model: along every sequence
  of steps that queue, put back and take frames, the pointers of the code give the
  frames that the functions return.
\<close>

theorem linked_queue_refines:
  assumes "run_steps world_step ss w = Some (gs, w')" and "holds_frames q as (first_queued_frame (conn w))"
    and "distinct (as @ concat (map new_link ss))"
  shows "\<exists>q' as'. run_steps link_step ss q = Some (gs, q') \<and> holds_frames q' as' (first_queued_frame (conn w'))"
  by (rule links.runs [OF assms])

text \<open>A queue without links; what is in memory does not matter.\<close>

definition no_links :: link_queue where
  "no_links = \<lparr>links = \<lambda>_. \<lparr>link_next = Some (0, 0), link_data = fresh_frame\<rparr>, first_link = None, last_link = None\<rparr>"

theorem linked_queue_refines_witness:
  "\<exists>q' w'. run_steps world_step [Queue_frame (1, 0) empty_frame, Wait_on_channel 0] client = Some ([empty_frame], w') \<and>
    run_steps link_step [Queue_frame (1, 0) empty_frame, Wait_on_channel 0] no_links = Some ([empty_frame], q') \<and>
    first_link q' = None \<and> last_link q' = None"
proof -
  let ?ss = "[Queue_frame (1, 0) empty_frame, Wait_on_channel 0]"
  obtain w1 where w1: "amqp_queue_frame empty_frame client = (Done (), w1)"
    using queue_roomy [of client empty_frame] by auto
  have ch: "channel empty_frame = 0" by (simp add: empty_frame_def)
  from queue_frame_done [OF w1] have q: "first_queued_frame (conn w1) = [empty_frame]" by simp
  then obtain w' where run: "run_steps world_step ?ss client = Some ([empty_frame], w')" and e: "first_queued_frame (conn w') = []"
    by (auto simp: w1 succeeds_def amqp_simple_wait_frame_on_channel_def ch)
  have "holds_frames no_links [] (first_queued_frame (conn client))" by (simp add: holds_frames_def no_links_def)
  from linked_queue_refines [OF run this] obtain q' as' where
    "run_steps link_step ?ss no_links = Some ([empty_frame], q')" "holds_frames q' as' (first_queued_frame (conn w'))" by auto
  with run e holds_frames_ends [of q' as'] show ?thesis by (auto simp: holds_frames_def)
qed

end
