(* ===== verification/Amqp_Connecting.thy ===== *)
theory Amqp_Connecting
  imports Io_Laws
begin

text \<open>
  Opening a TCP connection: \<open>connect_socket\<close>, \<open>amqp_open_socket_inner\<close> and its callers
  (\<open>amqp_socket.c\<close>), \<open>amqp_tcp_socket_open\<close> and \<open>amqp_tcp_socket_close\<close> over the calls of
  the operating system they make (\<open>amqp_tcp_socket.c\<close>).

  Every call is written to a log, with its arguments and what it returned; what it returns
  is the next of the recorded answers.  Which descriptors are open, and how they are set up,
  is read off the log.
\<close>

unbundle bit_operations_syntax

section \<open>Calls of the outside\<close>

record addrinfo =
  ai_family :: int
  ai_socktype :: int
  ai_protocol :: int
  ai_addr :: "byte list"

text \<open>
  The calls of the operating system, and those of OpenSSL that \<open>amqp_openssl.c\<close> makes; an
  object of OpenSSL is named by the number that its address is, 0 for NULL.
\<close>

datatype (plugins only: code) outside_call =
    Os_socket int int int
  | Os_fcntl_getfd int
  | Os_fcntl_setfd int int
  | Os_fcntl_getfl int
  | Os_fcntl_setfl int int
  | Os_set_nodelay int
  | Os_set_keepalive int
  | Os_connect int "byte list"
  | Os_socket_error int
  | Os_close int
  | Os_errno
  | Ssl_new
  | Bio_new
  | Ssl_set_host_name int string
  | Ssl_connect int
  | Ssl_get_peer_certificate int
  | Ssl_get_verify_result int
  | X509_check_host int string
  | X509_free int
  | Ssl_shutdown int
  | Ssl_free int
  | Ssl_write int nat
  | Ssl_read int nat
  | Calloc_socket
  | Ctx_new
  | Ctx_free int
  | Ctx_load_verify_locations int string
  | Ctx_use_certificate_chain_file int string
  | Ctx_use_PrivateKey_file int string
  | Ctx_use_PrivateKey int int
  | Ctx_use_RSAPrivateKey int int
  | Engine_load_private_key int string
  | Evp_free int
  | Bio_new_mem_buf "byte list"
  | Pem_read_RSAPrivateKey int
  | Bio_vfree int
  | Rsa_free int
  | Calloc_locks nat
  | Mutex_init nat
  | Mutex_destroy nat
  | Init_ssl
  | Engine_by_id string
  | Engine_set_default int
  | Engine_free int
  | Bio_meth_new
  | Bio_meth_free

text \<open>
  An answer is the result of the call and a second number: \<open>errno\<close>, the error code of
  OpenSSL, or the value that \<open>getsockopt\<close> stores.  \<open>resolve\<close> is what \<open>getaddrinfo\<close> finds for
  a host and a port, \<open>None\<close> if it fails.  The socket object is part of \<open>os_world\<close>.
\<close>

record net =
  os_world :: world
  answers :: "(int \<times> int) list"
  calls :: "(outside_call \<times> int) list"
  resolve :: "string \<Rightarrow> int \<Rightarrow> addrinfo list option"

definition os_return :: "'a \<Rightarrow> 's \<Rightarrow> 'a outcome \<times> 's" where
  "os_return x n = (Done x, n)"

definition os_fail :: "amqp_status_enum \<Rightarrow> 's \<Rightarrow> 'a outcome \<times> 's" where
  "os_fail st n = (Error (status_code st), n)"

definition os_bind ::
  "('s \<Rightarrow> 'a outcome \<times> 's) \<Rightarrow> ('a \<Rightarrow> 's \<Rightarrow> 'b outcome \<times> 's) \<Rightarrow> 's \<Rightarrow> 'b outcome \<times> 's" where
  "os_bind m k n =
    (case m n of
       (Done x, n') \<Rightarrow> k x n'
     | (Error code, n') \<Rightarrow> (Error code, n')
     | (Waiting, n') \<Rightarrow> (Waiting, n')
     | (Crash, n') \<Rightarrow> (Crash, n'))"

definition os_catch ::
  "('s \<Rightarrow> 'a outcome \<times> 's) \<Rightarrow> (int \<Rightarrow> 's \<Rightarrow> 'a outcome \<times> 's) \<Rightarrow> 's \<Rightarrow> 'a outcome \<times> 's" where
  "os_catch m handler n = (case m n of (Error code, n') \<Rightarrow> handler code n' | r \<Rightarrow> r)"

lemmas os_defs = os_return_def os_fail_def os_bind_def os_catch_def

definition os_call :: "outside_call \<Rightarrow> 'z net_scheme \<Rightarrow> (int \<times> int) outcome \<times> 'z net_scheme" where
  "os_call c n =
    (case answers n of
       [] \<Rightarrow> (Waiting, n)
     | (r, e) # as \<Rightarrow> (Done (r, e), n\<lparr>answers := as, calls := calls n @ [(c, r)]\<rparr>))"

definition in_world :: "'a io \<Rightarrow> 'z net_scheme \<Rightarrow> 'a outcome \<times> 'z net_scheme" where
  "in_world m n = (case m (os_world n) of (r, w) \<Rightarrow> (r, n\<lparr>os_world := w\<rparr>))"

section \<open>Connecting to one address\<close>

definition FD_CLOEXEC :: int where "FD_CLOEXEC = 1"
definition O_NONBLOCK :: int where "O_NONBLOCK = 2048"
definition EINPROGRESS :: int where "EINPROGRESS = 115"

text \<open>A call that must not return \<open>-1\<close>; the jump to \<open>err\<close> is the error.\<close>

definition os_flags :: "outside_call \<Rightarrow> 'z net_scheme \<Rightarrow> int outcome \<times> 'z net_scheme" where
  "os_flags c = os_bind (os_call c) (\<lambda>(r, _). if r = -1 then os_fail AMQP_STATUS_SOCKET_ERROR else os_return r)"

definition os_zero :: "outside_call \<Rightarrow> 'z net_scheme \<Rightarrow> unit outcome \<times> 'z net_scheme" where
  "os_zero c = os_bind (os_call c) (\<lambda>(r, _). if r \<noteq> 0 then os_fail AMQP_STATUS_SOCKET_ERROR else os_return ())"

definition set_up_socket :: "int \<Rightarrow> 'z net_scheme \<Rightarrow> unit outcome \<times> 'z net_scheme" where
  "set_up_socket sockfd' =
    os_bind (os_flags (Os_fcntl_getfd sockfd')) (\<lambda>flags.
    os_bind (os_flags (Os_fcntl_setfd sockfd' (flags OR FD_CLOEXEC))) (\<lambda>_.
    os_bind (os_flags (Os_fcntl_getfl sockfd')) (\<lambda>flags.
    os_bind (os_flags (Os_fcntl_setfl sockfd' (flags OR O_NONBLOCK))) (\<lambda>_.
    os_bind (os_zero (Os_set_nodelay sockfd')) (\<lambda>_.
    os_zero (Os_set_keepalive sockfd'))))))"

definition connect_and_wait ::
  "int \<Rightarrow> addrinfo \<Rightarrow> amqp_time_t \<Rightarrow> 'z net_scheme \<Rightarrow> unit outcome \<times> 'z net_scheme" where
  "connect_and_wait sockfd' addr' deadline =
    os_bind (os_call (Os_connect sockfd' (ai_addr addr'))) (\<lambda>(r, errno).
      if r = 0 then os_return ()
      else if errno \<noteq> EINPROGRESS then os_fail AMQP_STATUS_SOCKET_ERROR
      else os_bind (in_world (amqp_poll deadline)) (\<lambda>_.
        os_bind (os_call (Os_socket_error sockfd')) (\<lambda>(r, result).
          if r = -1 \<or> result \<noteq> 0 then os_fail AMQP_STATUS_SOCKET_ERROR else os_return ())))"

text \<open>A descriptor, or a status.\<close>

definition connect_socket :: "addrinfo \<Rightarrow> amqp_time_t \<Rightarrow> 'z net_scheme \<Rightarrow> int outcome \<times> 'z net_scheme" where
  "connect_socket addr' deadline =
    os_bind (os_call (Os_socket (ai_family addr') (ai_socktype addr') (ai_protocol addr'))) (\<lambda>(sockfd', _).
      if sockfd' = -1 then os_return (status_code AMQP_STATUS_SOCKET_ERROR)
      else os_catch
        (os_bind (set_up_socket sockfd') (\<lambda>_.
         os_bind (connect_and_wait sockfd' addr' deadline) (\<lambda>_. os_return sockfd')))
        (\<lambda>last_error. os_bind (os_call (Os_close sockfd')) (\<lambda>_. os_return last_error)))"

section \<open>Connecting to a host\<close>

text \<open>
  The loop over the addresses; the result is \<open>(last_error, sockfd)\<close>.  \<open>last_error\<close> is still
  0 from \<open>getaddrinfo\<close> when all addresses were tried.
\<close>

fun address_loop ::
  "addrinfo list \<Rightarrow> amqp_time_t \<Rightarrow> int \<Rightarrow> 'z net_scheme \<Rightarrow> (int \<times> int) outcome \<times> 'z net_scheme" where
  "address_loop [] deadline sockfd' = os_return (0, sockfd')"
| "address_loop (a # as) deadline sockfd' =
    os_bind (connect_socket a deadline) (\<lambda>fd.
      if fd \<ge> 0 then os_return (0, fd)
      else if fd = status_code AMQP_STATUS_TIMEOUT then os_return (fd, fd)
      else address_loop as deadline fd)"

definition amqp_open_socket_inner ::
  "string \<Rightarrow> int \<Rightarrow> amqp_time_t \<Rightarrow> 'z net_scheme \<Rightarrow> int outcome \<times> 'z net_scheme" where
  "amqp_open_socket_inner hostname portnumber deadline n =
    (case resolve n hostname portnumber of
       None \<Rightarrow> (Done (status_code AMQP_STATUS_HOSTNAME_RESOLUTION_FAILED), n)
     | Some address_list \<Rightarrow>
         os_bind (address_loop address_list deadline (-1)) (\<lambda>(last_error, fd).
           os_return (if last_error \<noteq> 0 \<or> fd = -1 then last_error else fd)) n)"

definition amqp_open_socket :: "string \<Rightarrow> int \<Rightarrow> 'z net_scheme \<Rightarrow> int outcome \<times> 'z net_scheme" where
  "amqp_open_socket hostname portnumber = amqp_open_socket_inner hostname portnumber amqp_time_infinite"

definition amqp_open_socket_noblock ::
  "string \<Rightarrow> int \<Rightarrow> timeval option \<Rightarrow> 'z net_scheme \<Rightarrow> int outcome \<times> 'z net_scheme" where
  "amqp_open_socket_noblock hostname portnumber timeout n =
    (case in_world (deadline_from timeout) n of
       (Done deadline, n') \<Rightarrow> amqp_open_socket_inner hostname portnumber deadline n'
     | (Error code, n') \<Rightarrow> (Done code, n')
     | (Waiting, n') \<Rightarrow> (Waiting, n')
     | (Crash, n') \<Rightarrow> (Crash, n'))"

definition set_sockfd :: "int option \<Rightarrow> 'z net_scheme \<Rightarrow> 'z net_scheme" where
  "set_sockfd fd n = n\<lparr>os_world := (os_world n)\<lparr>sockfd := fd\<rparr>\<rparr>"

definition amqp_tcp_socket_open ::
  "string \<Rightarrow> int \<Rightarrow> timeval option \<Rightarrow> 'z net_scheme \<Rightarrow> unit outcome \<times> 'z net_scheme" where
  "amqp_tcp_socket_open host' port' timeout n =
    (if sockfd (os_world n) \<noteq> None then os_fail AMQP_STATUS_SOCKET_INUSE n
     else os_bind (amqp_open_socket_noblock host' port' timeout) (\<lambda>fd n.
       if 0 > fd then (Error fd, set_sockfd None n) else (Done (), set_sockfd (Some fd) n)) n)"

definition amqp_socket_open :: "string \<Rightarrow> int \<Rightarrow> 'z net_scheme \<Rightarrow> unit outcome \<times> 'z net_scheme" where
  "amqp_socket_open host' port' = amqp_tcp_socket_open host' port' None"

definition amqp_socket_open_noblock ::
  "string \<Rightarrow> int \<Rightarrow> timeval option \<Rightarrow> 'z net_scheme \<Rightarrow> unit outcome \<times> 'z net_scheme" where
  "amqp_socket_open_noblock = amqp_tcp_socket_open"

end
