(* ===== verification/Connecting_Laws.thy ===== *)
theory Connecting_Laws
  imports Amqp_Connecting "HOL-Library.Multiset"
begin

text \<open>
  What opening a connection does with descriptors: whatever the calls answer, a descriptor is
  open afterwards exactly if it was handed to the caller, and then it is set up and connected.
\<close>

section \<open>What a log has acquired\<close>

text \<open>Things that a call acquires, under the number it returns, and another releases.\<close>

datatype resource = Descriptor int | Session int | Certificate int

definition acquired :: "outside_call \<times> int \<Rightarrow> resource list" where
  "acquired e =
    (case fst e of
       Os_socket _ _ _ \<Rightarrow> if snd e = -1 then [] else [Descriptor (snd e)]
     | Ssl_new \<Rightarrow> if snd e = 0 then [] else [Session (snd e)]
     | Ssl_get_peer_certificate _ \<Rightarrow> if snd e = 0 then [] else [Certificate (snd e)]
     | _ \<Rightarrow> [])"

definition released :: "outside_call \<times> int \<Rightarrow> resource list" where
  "released e =
    (case fst e of
       Os_close fd \<Rightarrow> [Descriptor fd]
     | Ssl_free h \<Rightarrow> if h = 0 then [] else [Session h]
     | X509_free cert \<Rightarrow> if cert = 0 then [] else [Certificate cert]
     | _ \<Rightarrow> [])"

definition hold :: "outside_call \<times> int \<Rightarrow> resource multiset \<Rightarrow> resource multiset" where
  "hold e held = held + mset (acquired e) - mset (released e)"

definition held :: "(outside_call \<times> int) list \<Rightarrow> resource multiset" where
  "held log = fold hold log {#}"

lemma held_append: "held (log @ es) = fold hold es (held log)"
  by (simp add: held_def)

lemmas hold_defs = hold_def acquired_def released_def

text \<open>Answers of calls that fail with \<open>-1\<close>, as POSIX promises.\<close>

definition posix_answers :: "'z net_scheme \<Rightarrow> bool" where
  "posix_answers n \<longleftrightarrow> list_all (\<lambda>(r, e). -1 \<le> r) (answers n)"

text \<open>No answer is left for a call that was made.\<close>

definition starved :: "'z net_scheme \<Rightarrow> bool" where
  "starved n \<longleftrightarrow> answers n = [] \<or> polls (os_world n) = []"

text \<open>What every step leaves alone, and the calls it makes.\<close>

definition stepped :: "'z net_scheme \<Rightarrow> (outside_call \<times> int) list \<Rightarrow> 'z net_scheme \<Rightarrow> bool" where
  "stepped n evs n' \<longleftrightarrow>
    calls n' = calls n @ evs \<and> (posix_answers n \<longrightarrow> posix_answers n') \<and> length (answers n') + length evs = length (answers n) \<and>
    resolve n' = resolve n \<and> sockfd (os_world n') = sockfd (os_world n) \<and> net.more n' = net.more n"

lemma stepped_refl [simp]: "stepped n [] n"
  by (simp add: stepped_def)

lemma stepped_trans: "stepped n es n' \<Longrightarrow> stepped n' es' n'' \<Longrightarrow> stepped n (es @ es') n''"
  by (auto simp: stepped_def)

lemma os_call_cases:
  assumes "os_call c n = (r, n')"
  obtains (waits) "r = Waiting" and "n' = n" and "starved n'" | (answer) v e where "r = Done (v, e)" and "stepped n [(c, v)] n'"
    and "posix_answers n \<Longrightarrow> -1 \<le> v" and "os_world n' = os_world n"
proof (cases "answers n")
  case Nil
  with assms waits show ?thesis by (simp add: os_call_def starved_def)
next
  case (Cons a as)
  with assms answer [of "fst a" "snd a"] show ?thesis
    by (cases a) (auto simp: os_call_def stepped_def posix_answers_def)
qed

lemma os_bind_Done [simp]: "m n = (Done x, n') \<Longrightarrow> os_bind m k n = k x n'"
  by (simp add: os_bind_def)

lemma os_bind_cases:
  assumes "os_bind m k n = (r, n')"
  obtains (result) x n1 where "m n = (Done x, n1)" and "k x n1 = (r, n')"
    | (error) code where "m n = (Error code, n')" and "r = Error code"
    | (waits) "m n = (Waiting, n')" and "r = Waiting"
    | (crash) "m n = (Crash, n')" and "r = Crash"
  using assms by (auto simp: os_bind_def split: outcome.splits prod.splits)

section \<open>Polling\<close>

definition poll_outcome :: "unit outcome \<Rightarrow> bool" where
  "poll_outcome r \<longleftrightarrow> (case r of Error code \<Rightarrow> code < -1 | Crash \<Rightarrow> False | _ \<Rightarrow> True)"

lemma poll_loop_result: "poll_outcome (fst (poll_loop d as w))"
proof (induction d as w rule: poll_loop.induct)
  case (1 d as w)
  show ?case
  proof (cases "- 1 > amqp_time_ms_until (clock w (ticks w)) d")
    case True
    then show ?thesis by (simp add: Let_def poll_outcome_def)
  next
    case False
    show ?thesis
    proof (cases as)
      case Nil
      with False show ?thesis by (simp add: Let_def poll_outcome_def)
    next
      case (Cons p ps)
      show ?thesis
      proof (cases "p = Poll_interrupted")
        case True
        from 1 [OF refl refl False Cons True] False Cons True show ?thesis by (simp add: Let_def)
      next
        case other: False
        with False Cons show ?thesis by (cases p) (simp_all add: Let_def poll_outcome_def)
      qed
    qed
  qed
qed

lemma poll_loop_waits: "fst (poll_loop d as w) = Waiting \<Longrightarrow> polls (snd (poll_loop d as w)) = []"
proof (induction d as w rule: poll_loop.induct)
  case (1 d as w)
  show ?case
  proof (cases "- 1 > amqp_time_ms_until (clock w (ticks w)) d")
    case True
    with 1(2) show ?thesis by (simp add: Let_def)
  next
    case False
    show ?thesis
    proof (cases as)
      case Nil
      with 1(2) False show ?thesis by (simp add: Let_def)
    next
      case (Cons p ps)
      show ?thesis
      proof (cases "p = Poll_interrupted")
        case True
        from 1(1) [OF refl refl False Cons True] 1(2) False Cons True show ?thesis by (simp add: Let_def)
      next
        case other: False
        with 1(2) False Cons show ?thesis by (cases p) (simp_all add: Let_def)
      qed
    qed
  qed
qed

lemma in_poll:
  assumes "in_world (amqp_poll d) n = (r, n')"
  shows "stepped n [] n'" and "r \<noteq> Crash" and "r = Error code \<Longrightarrow> code < -1" and "r = Waiting \<Longrightarrow> starved n'"
proof -
  obtain w' where w: "amqp_poll d (os_world n) = (r, w')" and n: "n' = n\<lparr>os_world := w'\<rparr>"
    using assms by (auto simp: in_world_def split: prod.splits)
  obtain k ps where "w' = (os_world n)\<lparr>ticks := k, polls := ps\<rparr>" using poll_changes [OF w] .
  with n show "stepped n [] n'" by (simp add: stepped_def posix_answers_def)
  show "r \<noteq> Crash" "r = Error code \<Longrightarrow> code < -1"
    using poll_loop_result [of d "polls (os_world n)" "os_world n"] w by (auto simp: amqp_poll_def poll_outcome_def)
  show "r = Waiting \<Longrightarrow> starved n'"
    using poll_loop_waits [of d "polls (os_world n)" "os_world n"] w n by (simp add: amqp_poll_def starved_def)
qed

section \<open>Reasoning about sequences of calls\<close>

text \<open>\<open>runs m Q\<close>: every run of \<open>m\<close> on POSIX answers has a result and a log of calls in \<open>Q\<close>.\<close>

definition runs ::
  "('z net_scheme \<Rightarrow> 'a outcome \<times> 'z net_scheme) \<Rightarrow> ('a outcome \<Rightarrow> (outside_call \<times> int) list \<Rightarrow> bool) \<Rightarrow> bool" where
  "runs m Q \<longleftrightarrow> (\<forall>n r n'. posix_answers n \<longrightarrow> m n = (r, n') \<longrightarrow> (\<exists>es. stepped n es n' \<and> Q r es \<and> (r = Waiting \<longrightarrow> starved n')))"

lemma runsI:
  "(\<And>n r n'. posix_answers n \<Longrightarrow> m n = (r, n') \<Longrightarrow> \<exists>es. stepped n es n' \<and> Q r es \<and> (r = Waiting \<longrightarrow> starved n')) \<Longrightarrow> runs m Q"
  by (simp add: runs_def)

lemma runsE:
  assumes "runs m Q" and "m n = (r, n')" and "posix_answers n"
  obtains es where "stepped n es n'" and "Q r es" and "posix_answers n'" and "r = Waiting \<longrightarrow> starved n'"
proof -
  from assms obtain es where es: "stepped n es n'" "Q r es" "r = Waiting \<longrightarrow> starved n'" unfolding runs_def by blast
  moreover from es assms have "posix_answers n'" by (simp add: stepped_def)
  ultimately show thesis using that by blast
qed

lemma runs_mono: "runs m Q \<Longrightarrow> (\<And>r es. Q r es \<Longrightarrow> R r es) \<Longrightarrow> runs m R"
  unfolding runs_def by blast

lemma runs_return: "R (Done x) [] \<Longrightarrow> runs (os_return x) R"
  by (auto simp: runs_def os_return_def intro: exI [of _ "[]"])

lemma runs_fail: "R (Error (status_code st)) [] \<Longrightarrow> runs (os_fail st) R"
  by (auto simp: runs_def os_fail_def intro: exI [of _ "[]"])

lemma runs_call:
  assumes "R Waiting []" and "\<And>v e. -1 \<le> v \<Longrightarrow> R (Done (v, e)) [(c, v)]"
  shows "runs (os_call c) R"
proof (rule runsI)
  fix n :: "'z net_scheme" and r n'
  assume "posix_answers n" and "os_call c n = (r, n')"
  from this(2) this(1) show "\<exists>es. stepped n es n' \<and> R r es \<and> (r = Waiting \<longrightarrow> starved n')"
    using assms by (cases rule: os_call_cases) (fastforce intro: stepped_refl)+
qed

lemma runs_poll:
  assumes "\<And>r. poll_outcome r \<Longrightarrow> R r []"
  shows "runs (in_world (amqp_poll d)) R"
proof (rule runsI)
  fix n :: "'z net_scheme" and r n'
  assume "in_world (amqp_poll d) n = (r, n')"
  note p = in_poll [OF this]
  then have "poll_outcome r" by (auto simp: poll_outcome_def split: outcome.splits)
  with p(1,4) assms show "\<exists>es. stepped n es n' \<and> R r es \<and> (r = Waiting \<longrightarrow> starved n')" by blast
qed

lemma runs_bind:
  assumes m: "runs m Q"
    and k: "\<And>x es. Q (Done x) es \<Longrightarrow> runs (k x) (\<lambda>r es'. R r (es @ es'))"
    and e: "\<And>code es. Q (Error code) es \<Longrightarrow> R (Error code) es"
    and w: "\<And>es. Q Waiting es \<Longrightarrow> R Waiting es"
    and c: "\<And>es. Q Crash es \<Longrightarrow> R Crash es"
  shows "runs (os_bind m k) R"
proof (rule runsI)
  fix n r n'
  assume n: "posix_answers n" and "os_bind m k n = (r, n')"
  from this(2) show "\<exists>es. stepped n es n' \<and> R r es \<and> (r = Waiting \<longrightarrow> starved n')"
  proof (cases rule: os_bind_cases)
    case (result x n1)
    obtain es where es: "stepped n es n1" "Q (Done x) es" "posix_answers n1"
      using runsE [OF m result(1) n] by metis
    obtain es' where "stepped n1 es' n'" "R r (es @ es')" "r = Waiting \<longrightarrow> starved n'" by (rule runsE [OF k [OF es(2)] result(2) es(3)])
    with stepped_trans [OF es(1)] show ?thesis by blast
  next
    case (error code)
    obtain es where "stepped n es n'" "Q (Error code) es" using runsE [OF m error(1) n] by metis
    with error e show ?thesis by blast
  next
    case waits
    obtain es where "stepped n es n'" "Q Waiting es" "starved n'" using runsE [OF m waits(1) n] by metis
    with waits w show ?thesis by blast
  next
    case crash
    obtain es where "stepped n es n'" "Q Crash es" using runsE [OF m crash(1) n] by metis
    with crash c show ?thesis by blast
  qed
qed

lemma runs_catch:
  assumes m: "runs m Q"
    and k: "\<And>code es. Q (Error code) es \<Longrightarrow> runs (h code) (\<lambda>r es'. R r (es @ es'))"
    and d: "\<And>x es. Q (Done x) es \<Longrightarrow> R (Done x) es"
    and w: "\<And>es. Q Waiting es \<Longrightarrow> R Waiting es"
    and c: "\<And>es. Q Crash es \<Longrightarrow> R Crash es"
  shows "runs (os_catch m h) R"
proof (rule runsI)
  fix n r n'
  assume n: "posix_answers n" and run: "os_catch m h n = (r, n')"
  obtain r1 n1 where 1: "m n = (r1, n1)" by fastforce
  obtain es where es: "stepped n es n1" "Q r1 es" "posix_answers n1" "r1 = Waiting \<longrightarrow> starved n1"
    by (rule runsE [OF m 1 n])
  show "\<exists>es. stepped n es n' \<and> R r es \<and> (r = Waiting \<longrightarrow> starved n')"
  proof (cases r1)
    case (Error code)
    with run 1 have 2: "h code n1 = (r, n')" by (simp add: os_catch_def)
    obtain es' where "stepped n1 es' n'" "R r (es @ es')" "r = Waiting \<longrightarrow> starved n'" by (rule runsE [OF k [OF es(2) [unfolded Error]] 2 es(3)])
    with stepped_trans [OF es(1)] show ?thesis by blast
  qed (use run 1 es d w c in \<open>auto simp: os_catch_def\<close>)
qed

lemma runs_bind_call:
  assumes "R Waiting []" and "\<And>v e. -1 \<le> v \<Longrightarrow> runs (k (v, e)) (\<lambda>r es. R r ((c, v) # es))"
  shows "runs (os_bind (os_call c) k) R"
  by (rule runs_bind, rule runs_call [where R = "\<lambda>r es. (r = Waiting \<and> es = []) \<or> (\<exists>v e. -1 \<le> v \<and> r = Done (v, e) \<and> es = [(c, v)])"])
    (use assms in auto)

lemma runs_bind_flags:
  assumes "R Waiting []" and "R (Error (status_code AMQP_STATUS_SOCKET_ERROR)) [(c, -1)]"
    and "\<And>v. v \<noteq> -1 \<Longrightarrow> runs (k v) (\<lambda>r es. R r ((c, v) # es))"
  shows "runs (os_bind (os_flags c) k) R"
proof (rule runs_bind)
  show "runs (os_flags c) (\<lambda>r es. (r = Waiting \<and> es = []) \<or>
      (r = Error (status_code AMQP_STATUS_SOCKET_ERROR) \<and> es = [(c, -1)]) \<or> (\<exists>v. v \<noteq> -1 \<and> r = Done v \<and> es = [(c, v)]))"
    unfolding os_flags_def by (rule runs_bind_call) (auto intro: runs_return runs_fail)
qed (use assms in auto)

lemma runs_zero:
  assumes "R Waiting []" and "\<And>v. v \<noteq> 0 \<Longrightarrow> R (Error (status_code AMQP_STATUS_SOCKET_ERROR)) [(c, v)]"
    and "R (Done ()) [(c, 0)]"
  shows "runs (os_zero c) R"
  unfolding os_zero_def by (rule runs_bind_call) (use assms in \<open>auto intro!: runs_return runs_fail\<close>)

lemma runs_bind_zero:
  assumes "R Waiting []" and "\<And>v. v \<noteq> 0 \<Longrightarrow> R (Error (status_code AMQP_STATUS_SOCKET_ERROR)) [(c, v)]"
    and "runs (k ()) (\<lambda>r es. R r ((c, 0) # es))"
  shows "runs (os_bind (os_zero c) k) R"
proof (rule runs_bind)
  show "runs (os_zero c) (\<lambda>r es. (r = Waiting \<and> es = []) \<or>
      (\<exists>v. v \<noteq> 0 \<and> r = Error (status_code AMQP_STATUS_SOCKET_ERROR) \<and> es = [(c, v)]) \<or> (r = Done () \<and> es = [(c, 0)]))"
    by (rule runs_zero) auto
qed (use assms in auto)

lemma runs_bind_poll:
  assumes "R Waiting []" and "\<And>code. code < -1 \<Longrightarrow> R (Error code) []" and "runs (k ()) R"
  shows "runs (os_bind (in_world (amqp_poll d)) k) R"
  by (rule runs_bind, rule runs_poll [where R = "\<lambda>r es. es = [] \<and> poll_outcome r"])
    (use assms in \<open>auto simp: poll_outcome_def\<close>)

lemma runs_if:
  "(b \<Longrightarrow> runs m R) \<Longrightarrow> (\<not> b \<Longrightarrow> runs m' R) \<Longrightarrow> runs (if b then m else m') R"
  by simp

lemma runs_pair: "runs (f a b) R \<Longrightarrow> runs (case (a, b) of (x, y) \<Rightarrow> f x y) R"
  by simp

lemmas runs_rules =
  runs_bind_call runs_bind_flags runs_bind_zero runs_bind_poll runs_zero runs_if runs_pair runs_return runs_fail

section \<open>One address\<close>

text \<open>A part of a log that acquires and releases nothing.\<close>

definition neutral :: "(outside_call \<times> int) list \<Rightarrow> bool" where
  "neutral es \<longleftrightarrow> list_all (\<lambda>e. acquired e = [] \<and> released e = []) es"

lemma neutral_fold: "neutral es \<Longrightarrow> fold hold es fds = fds"
  by (induction es arbitrary: fds) (auto simp: neutral_def hold_def)

lemma neutral_simps [simp]:
  "neutral []" "neutral ((c, v) # es) \<longleftrightarrow> neutral [(c, v)] \<and> neutral es"
  "neutral (es @ es') \<longleftrightarrow> neutral es \<and> neutral es'"
  by (auto simp: neutral_def)

definition set_up_by :: "int \<Rightarrow> (outside_call \<times> int) list \<Rightarrow> bool" where
  "set_up_by fd es \<longleftrightarrow>
    length es = 6 \<and>
    map fst es = [Os_fcntl_getfd fd, Os_fcntl_setfd fd (snd (es ! 0) OR FD_CLOEXEC),
       Os_fcntl_getfl fd, Os_fcntl_setfl fd (snd (es ! 2) OR O_NONBLOCK), Os_set_nodelay fd, Os_set_keepalive fd] \<and>
    snd (es ! 1) \<noteq> -1 \<and> snd (es ! 3) \<noteq> -1 \<and> snd (es ! 4) = 0 \<and> snd (es ! 5) = 0"

lemma runs_set_up:
  "runs (set_up_socket fd) (\<lambda>r es. poll_outcome r \<and> neutral es \<and> (r = Done () \<longrightarrow> set_up_by fd es))"
  unfolding set_up_socket_def
  by (intro runs_rules) (simp_all add: poll_outcome_def set_up_by_def neutral_def acquired_def released_def)

definition linked_by :: "int \<Rightarrow> addrinfo \<Rightarrow> (outside_call \<times> int) list \<Rightarrow> bool" where
  "linked_by fd a es \<longleftrightarrow> es \<noteq> [] \<and> fst (hd es) = Os_connect fd (ai_addr a) \<and>
    (if snd (hd es) = 0 then tl es = [] else map fst (tl es) = [Os_socket_error fd] \<and> snd (es ! 1) \<noteq> -1)"

lemma runs_connect_and_wait:
  "runs (connect_and_wait fd a d) (\<lambda>r es. poll_outcome r \<and> neutral es \<and> (r = Done () \<longrightarrow> linked_by fd a es))"
  unfolding connect_and_wait_def
  by (intro runs_rules) (simp_all add: poll_outcome_def neutral_def acquired_def released_def linked_by_def)

text \<open>The calls that make a connected descriptor.\<close>

definition connected_by :: "addrinfo \<Rightarrow> int \<Rightarrow> (outside_call \<times> int) list \<Rightarrow> bool" where
  "connected_by a fd es \<longleftrightarrow>
    es \<noteq> [] \<and> hd es = (Os_socket (ai_family a) (ai_socktype a) (ai_protocol a), fd) \<and>
    set_up_by fd (take 6 (tl es)) \<and> linked_by fd a (drop 6 (tl es))"

definition opens :: "int \<Rightarrow> (outside_call \<times> int) list \<Rightarrow> bool" where
  "opens fd es \<longleftrightarrow> (\<forall>fds. fold hold es fds = add_mset (Descriptor fd) fds)"

definition opens_nothing :: "(outside_call \<times> int) list \<Rightarrow> bool" where
  "opens_nothing es \<longleftrightarrow> (\<forall>fds. fold hold es fds = fds)"

definition connect_post :: "addrinfo \<Rightarrow> int outcome \<Rightarrow> (outside_call \<times> int) list \<Rightarrow> bool" where
  "connect_post a r es \<longleftrightarrow>
    (case r of
       Done fd \<Rightarrow> if 0 \<le> fd then connected_by a fd es \<and> opens fd es else fd < -1 \<and> opens_nothing es
     | Waiting \<Rightarrow> True
     | _ \<Rightarrow> False)"

lemma runs_connected:
  "runs (os_bind (set_up_socket fd) (\<lambda>_. os_bind (connect_and_wait fd a d) (\<lambda>_. os_return fd)))
    (\<lambda>r es. poll_outcome (case r of Done _ \<Rightarrow> Done () | Error c \<Rightarrow> Error c | Waiting \<Rightarrow> Waiting | Crash \<Rightarrow> Crash) \<and> neutral es \<and>
      (\<forall>v. r = Done v \<longrightarrow> v = fd \<and> set_up_by fd (take 6 es) \<and> linked_by fd a (drop 6 es)))"
proof (rule runs_bind [OF runs_set_up], goal_cases)
  case (1 x es)
  then have l: "length es = 6" and es: "set_up_by fd es" "neutral es" by (simp_all add: set_up_by_def)
  show ?case
    by (rule runs_bind [OF runs_connect_and_wait])
      (use es l in \<open>auto intro!: runs_return simp: poll_outcome_def\<close>)
qed (simp_all add: poll_outcome_def)

lemma runs_connect_socket: "runs (connect_socket a d) (connect_post a)"
  unfolding connect_socket_def
proof (rule runs_bind_call, goal_cases)
  case 1
  show ?case by (simp add: connect_post_def)
next
  case (2 v e)
  show ?case
  proof (intro runs_pair runs_if)
    assume "v = -1"
    then show "runs (os_return (status_code AMQP_STATUS_SOCKET_ERROR))
        (\<lambda>r es. connect_post a r ((Os_socket (ai_family a) (ai_socktype a) (ai_protocol a), v) # es))"
      by (intro runs_return) (simp add: connect_post_def opens_nothing_def hold_defs)
  next
    assume v: "v \<noteq> -1"
    with 2 have v0: "0 \<le> v" by simp
    have close: "fold hold [(Os_close v, r)] (add_mset (Descriptor v) fds) = fds" for r and fds :: "resource multiset"
      by (simp add: hold_defs)
    show "runs (os_catch
         (os_bind (set_up_socket v) (\<lambda>_. os_bind (connect_and_wait v a d) (\<lambda>_. os_return v)))
         (\<lambda>last_error. os_bind (os_call (Os_close v)) (\<lambda>_. os_return last_error)))
        (\<lambda>r es. connect_post a r ((Os_socket (ai_family a) (ai_socktype a) (ai_protocol a), v) # es))"
    proof (rule runs_catch [OF runs_connected], goal_cases)
      case (1 code es)
      then show ?case
        by (intro runs_bind_call runs_pair runs_return)
          (use v in \<open>auto simp: connect_post_def opens_nothing_def neutral_fold hold_defs poll_outcome_def\<close>)
    qed (use v v0 in \<open>auto simp: connect_post_def connected_by_def opens_def neutral_fold hold_defs poll_outcome_def\<close>)
  qed
qed

section \<open>All addresses of a host\<close>

text \<open>
  The result of \<open>address_loop\<close>: the first address that could be connected to, or the status of
  the last one that was tried.
\<close>

definition loop_post :: "addrinfo list \<Rightarrow> int \<Rightarrow> (int \<times> int) outcome \<Rightarrow> (outside_call \<times> int) list \<Rightarrow> bool" where
  "loop_post as start r es \<longleftrightarrow>
    (case r of
       Done (last_error, fd) \<Rightarrow>
         if 0 \<le> fd \<and> as \<noteq> []
         then last_error = 0 \<and> opens fd es \<and>
           (\<exists>a \<in> set as. \<exists>before es'. es = before @ es' \<and> opens_nothing before \<and> connected_by a fd es')
         else opens_nothing es \<and> (last_error = 0 \<or> last_error = fd) \<and> (if as = [] then fd = start else fd < -1)
     | Waiting \<Rightarrow> True
     | _ \<Rightarrow> False)"

lemma opens_after [simp]:
  "opens_nothing es \<Longrightarrow> opens fd (es @ es') \<longleftrightarrow> opens fd es'"
  "opens_nothing es \<Longrightarrow> opens_nothing (es @ es') \<longleftrightarrow> opens_nothing es'"
  by (auto simp: opens_def opens_nothing_def)

lemma opens_nothing_Nil [simp]: "opens_nothing []"
  by (simp add: opens_nothing_def)

lemma runs_address_loop: "runs (address_loop as d start) (loop_post as start)"
proof (induction as arbitrary: start)
  case Nil
  show ?case by (auto intro!: runs_return simp: loop_post_def)
next
  case (Cons a as)
  show ?case
    unfolding address_loop.simps
  proof (rule runs_bind [OF runs_connect_socket], goal_cases)
    case (1 fd es)
    note post = 1
    show ?case
    proof (intro runs_if runs_return, goal_cases)
      case 1
      with post show ?case by (auto simp: loop_post_def connect_post_def intro: exI [of _ "[]"])
    next
      case 2
      with post show ?case by (auto simp: loop_post_def connect_post_def)
    next
      case fd: 3
      with post have es: "opens_nothing es" "fd < -1" by (auto simp: connect_post_def)
      show ?case
      proof (rule runs_mono [OF Cons.IH])
        fix r es'
        assume "loop_post as fd r es'"
        then show "loop_post (a # as) start r (es @ es')"
          using es fd
          by (auto simp: loop_post_def split: outcome.splits if_splits)
            (metis append.assoc opens_after(2))+
      qed
    qed
  qed (simp_all add: connect_post_def loop_post_def)
qed

text \<open>
  \<open>connected_to as fd es\<close>: the calls of a search that ended with a connection to one of the
  addresses; the descriptors of the others are closed again.
\<close>

definition connected_to :: "addrinfo list \<Rightarrow> int \<Rightarrow> (outside_call \<times> int) list \<Rightarrow> bool" where
  "connected_to as fd es \<longleftrightarrow>
    opens fd es \<and> (\<exists>a \<in> set as. \<exists>before es'. es = before @ es' \<and> opens_nothing before \<and> connected_by a fd es')"

lemma connected_to_fds: "connected_to as fd es \<Longrightarrow> fold hold es fds = add_mset (Descriptor fd) fds"
  by (simp add: connected_to_def opens_def)

definition search_post :: "addrinfo list option \<Rightarrow> int outcome \<Rightarrow> (outside_call \<times> int) list \<Rightarrow> bool" where
  "search_post found r es \<longleftrightarrow>
    (case r of
       Done fd \<Rightarrow>
         if 0 \<le> fd then \<exists>as. found = Some as \<and> connected_to as fd es else fd < -1 \<and> opens_nothing es
     | Waiting \<Rightarrow> True
     | _ \<Rightarrow> False)"

lemma open_socket_inner_post:
  assumes "posix_answers n" and "resolve n h p \<noteq> Some []" and "amqp_open_socket_inner h p d n = (r, n')"
  obtains es where "stepped n es n'" and "search_post (resolve n h p) r es" and "r = Waiting \<Longrightarrow> starved n'"
proof (cases "resolve n h p")
  case None
  with assms(3) have "n' = n" "r = Done (status_code AMQP_STATUS_HOSTNAME_RESOLUTION_FAILED)"
    by (simp_all add: amqp_open_socket_inner_def)
  with that [of "[]"] show thesis by (simp add: search_post_def)
next
  case (Some as)
  with assms have as: "as \<noteq> []" and run: "os_bind (address_loop as d (-1)) (\<lambda>(last_error, fd).
      os_return (if last_error \<noteq> 0 \<or> fd = -1 then last_error else fd)) n = (r, n')"
    by (simp_all add: amqp_open_socket_inner_def)
  have "runs (os_bind (address_loop as d (-1)) (\<lambda>(last_error, fd).
      os_return (if last_error \<noteq> 0 \<or> fd = -1 then last_error else fd))) (search_post (Some as))"
    by (rule runs_bind [OF runs_address_loop])
      (use as in \<open>auto 4 4 intro!: runs_return simp: loop_post_def search_post_def connected_to_def split: prod.splits if_splits\<close>)
  from runsE [OF this run assms(1)] that Some show thesis by metis
qed

lemma deadline_from_result:
  assumes "in_world (deadline_from timeout) n = (r, n')"
  shows "stepped n [] n'" and "r = Error code \<Longrightarrow> code < -1" and "r \<noteq> Waiting" and "r \<noteq> Crash"
  using assms
  by (auto simp: in_world_def deadline_from_def io_bind_def read_clock_def stepped_def posix_answers_def
      io_return_def io_fail_def io_error_def amqp_time_from_now_def Let_def split: option.splits if_splits prod.splits)

lemma open_socket_noblock_post:
  assumes n: "posix_answers n" "resolve n h p \<noteq> Some []" and run: "amqp_open_socket_noblock h p t n = (r, n')"
  obtains es where "stepped n es n'" and "search_post (resolve n h p) r es" and "r = Waiting \<Longrightarrow> starved n'"
proof -
  obtain r1 n1 where 1: "in_world (deadline_from t) n = (r1, n1)" by fastforce
  note d = deadline_from_result [OF 1]
  then have n1: "posix_answers n1" "resolve n1 h p = resolve n h p" using n by (simp_all add: stepped_def)
  show thesis
  proof (cases r1)
    case (Done dl)
    with run 1 have "amqp_open_socket_inner h p dl n1 = (r, n')" by (simp add: amqp_open_socket_noblock_def)
    with n n1 obtain es where "stepped n1 es n'" "search_post (resolve n h p) r es" "r = Waiting \<Longrightarrow> starved n'"
      by (metis open_socket_inner_post)
    with that stepped_trans [OF d(1)] show thesis by fastforce
  next
    case (Error c)
    with run 1 d that [of "[]"] show thesis by (auto simp: amqp_open_socket_noblock_def search_post_def opens_nothing_def)
  qed (use d in simp_all)
qed

end
