(* ===== verification/Amqp_Openssl.thy ===== *)
theory Amqp_Openssl
  imports Amqp_Connecting
begin

text \<open>
  TLS sockets, \<open>amqp_openssl.c\<close> and \<open>amqp_openssl_bio.c\<close>.  OpenSSL is outside: its functions are calls
  with recorded answers, as those of the operating system are.  An answer is the result of
  the call and what \<open>SSL_get_error\<close> (or \<open>ERR_peek_error\<close>) says of it.
\<close>

section \<open>State\<close>

text \<open>
  \<open>ssl\<close> is the address of the session, 0 for NULL; \<open>ctx_options\<close> are the bits of
  \<open>SSL_CTX_set_options\<close>.
\<close>

record amqp_ssl_socket_t =
  ctx :: int
  ctx_options :: int
  ssl_sockfd :: int
  ssl :: int
  verify_peer :: bool
  verify_hostname :: bool
  internal_error :: int

datatype lock_array = No_locks | Locks nat | Freed_locks

text \<open>The static variables of the two files; \<open>openssl_engine\<close> is an address.\<close>

record ssl_library =
  do_initialize_openssl :: bool
  openssl_initialized :: bool
  openssl_bio_initialized :: bool
  openssl_connections :: int
  openssl_engine :: int
  amqp_openssl_lockarray :: lock_array
  amqp_ssl_bio_initialized :: bool

definition initial_library :: ssl_library where
  "initial_library = \<lparr>do_initialize_openssl = True, openssl_initialized = False, openssl_bio_initialized = False,
     openssl_connections = 0, openssl_engine = 0, amqp_openssl_lockarray = No_locks, amqp_ssl_bio_initialized = False\<rparr>"

text \<open>
  \<open>this\<close> is the socket that is worked on, \<open>plaintext\<close> what the server has sent and was not
  read yet, \<open>num_locks\<close> what \<open>CRYPTO_num_locks\<close> returns.
\<close>

record tls = net +
  this :: amqp_ssl_socket_t
  lib :: ssl_library
  plaintext :: "byte list"
  num_locks :: nat

definition set_this :: "(amqp_ssl_socket_t \<Rightarrow> amqp_ssl_socket_t) \<Rightarrow> tls \<Rightarrow> unit outcome \<times> tls" where
  "set_this f s = (Done (), s\<lparr>this := f (this s)\<rparr>)"

definition set_lib :: "(ssl_library \<Rightarrow> ssl_library) \<Rightarrow> tls \<Rightarrow> unit outcome \<times> tls" where
  "set_lib f s = (Done (), s\<lparr>lib := f (lib s)\<rparr>)"

definition os_error :: "int \<Rightarrow> 's \<Rightarrow> 'a outcome \<times> 's" where
  "os_error code s = (Error code, s)"

definition os_abort :: "'s \<Rightarrow> 'a outcome \<times> 's" where
  "os_abort s = (Crash, s)"

text \<open>A call whose result is not looked at.\<close>

definition os_do :: "outside_call \<Rightarrow> 'z net_scheme \<Rightarrow> unit outcome \<times> 'z net_scheme" where
  "os_do c = os_bind (os_call c) (\<lambda>_. os_return ())"

section \<open>Sending and receiving\<close>

definition INT_MAX :: nat where "INT_MAX = 2147483647"
definition SSL_ERROR_WANT_READ :: int where "SSL_ERROR_WANT_READ = 2"
definition SSL_ERROR_WANT_WRITE :: int where "SSL_ERROR_WANT_WRITE = 3"
definition SSL_ERROR_ZERO_RETURN :: int where "SSL_ERROR_ZERO_RETURN = 6"
definition X509_V_OK :: int where "X509_V_OK = 0"

lemmas ssl_numbers = INT_MAX_def SSL_ERROR_WANT_READ_def SSL_ERROR_WANT_WRITE_def SSL_ERROR_ZERO_RETURN_def X509_V_OK_def

definition ssl_error :: "int \<Rightarrow> 'a sock" where
  "ssl_error err =
    (if err = SSL_ERROR_WANT_READ then Need_read
     else if err = SSL_ERROR_WANT_WRITE then Need_write
     else if err = SSL_ERROR_ZERO_RETURN then Sock_fails AMQP_STATUS_CONNECTION_CLOSED
     else Sock_fails AMQP_STATUS_SSL_ERROR)"

text \<open>OpenSSL works on a session; without one the process dies.\<close>

definition amqp_ssl_socket_send :: "byte list \<Rightarrow> tls \<Rightarrow> nat sock outcome \<times> tls" where
  "amqp_ssl_socket_send buf s =
    (if ssl_sockfd (this s) = -1 then os_return (Sock_fails AMQP_STATUS_SOCKET_CLOSED) s
     else if length buf > INT_MAX then os_return (Sock_fails AMQP_STATUS_INVALID_PARAMETER) s
     else if ssl (this s) = 0 then os_abort s
     else os_bind (set_this (\<lambda>t. t\<lparr>internal_error := 0\<rparr>)) (\<lambda>_.
       os_bind (os_call (Ssl_write (ssl (this s)) (length buf))) (\<lambda>(res, err).
       if 0 \<ge> res then os_bind (set_this (\<lambda>t. t\<lparr>internal_error := err\<rparr>)) (\<lambda>_. os_return (ssl_error err))
       else (\<lambda>s. (Done (Moved (min (nat res) (length buf))),
         s\<lparr>os_world := (os_world s)\<lparr>sent := sent (os_world s) @ take (nat res) buf\<rparr>\<rparr>)))) s)"

definition amqp_ssl_socket_recv :: "nat \<Rightarrow> tls \<Rightarrow> byte list sock outcome \<times> tls" where
  "amqp_ssl_socket_recv len s =
    (if ssl_sockfd (this s) = -1 then os_return (Sock_fails AMQP_STATUS_SOCKET_CLOSED) s
     else if len > INT_MAX then os_return (Sock_fails AMQP_STATUS_INVALID_PARAMETER) s
     else if ssl (this s) = 0 then os_abort s
     else os_bind (set_this (\<lambda>t. t\<lparr>internal_error := 0\<rparr>)) (\<lambda>_.
       os_bind (os_call (Ssl_read (ssl (this s)) len)) (\<lambda>(received, err).
       if 0 \<ge> received then os_bind (set_this (\<lambda>t. t\<lparr>internal_error := err\<rparr>)) (\<lambda>_. os_return (ssl_error err))
       else (\<lambda>s. let k = min (nat received) len in
         if k = 0 \<or> length (plaintext s) < k then (Waiting, s)
         else (Done (Moved (take k (plaintext s))), s\<lparr>plaintext := drop k (plaintext s)\<rparr>)))) s)"

section \<open>Opening\<close>

text \<open>The handshake; each round takes an answer, so their number is fuel enough.\<close>

fun connect_loop :: "nat \<Rightarrow> int \<Rightarrow> amqp_time_t \<Rightarrow> tls \<Rightarrow> unit outcome \<times> tls" where
  "connect_loop 0 h deadline s = (Waiting, s)"
| "connect_loop (Suc k) h deadline s =
    os_bind (os_call (Ssl_connect h)) (\<lambda>(status, err).
      if status = 1 then os_return ()
      else os_bind (set_this (\<lambda>t. t\<lparr>internal_error := err\<rparr>)) (\<lambda>_.
        os_bind (if err = SSL_ERROR_WANT_READ \<or> err = SSL_ERROR_WANT_WRITE then in_world (amqp_poll deadline)
                 else os_fail AMQP_STATUS_SSL_CONNECTION_FAILED) (\<lambda>_.
        connect_loop k h deadline))) s"

definition ssl_handshake :: "int \<Rightarrow> amqp_time_t \<Rightarrow> tls \<Rightarrow> unit outcome \<times> tls" where
  "ssl_handshake h deadline s = connect_loop (Suc (length (answers s))) h deadline s"

text \<open>The two checks; an error with a certificate goes through \<open>error_out4\<close>, which frees it.\<close>

definition verify_failed :: "int \<Rightarrow> int \<Rightarrow> amqp_status_enum \<Rightarrow> tls \<Rightarrow> unit outcome \<times> tls" where
  "verify_failed cert err st =
    os_bind (set_this (\<lambda>t. t\<lparr>internal_error := err\<rparr>)) (\<lambda>_.
      if cert = 0 then os_fail st else os_bind (os_do (X509_free cert)) (\<lambda>_. os_fail st))"

definition check_peer :: "int \<Rightarrow> int \<Rightarrow> tls \<Rightarrow> unit outcome \<times> tls" where
  "check_peer h cert s =
    (if \<not> verify_peer (this s) then os_return () s
     else if cert = 0 then verify_failed cert 0 AMQP_STATUS_SSL_PEER_VERIFY_FAILED s
     else os_bind (os_call (Ssl_get_verify_result h)) (\<lambda>(result, _).
       if result \<noteq> X509_V_OK then verify_failed cert result AMQP_STATUS_SSL_PEER_VERIFY_FAILED
       else os_return ()) s)"

definition check_host :: "int \<Rightarrow> string \<Rightarrow> tls \<Rightarrow> unit outcome \<times> tls" where
  "check_host cert host' s =
    (if \<not> verify_hostname (this s) then os_return () s
     else if cert = 0 then verify_failed cert 0 AMQP_STATUS_SSL_HOSTNAME_VERIFY_FAILED s
     else os_bind (os_call (X509_check_host cert host')) (\<lambda>(r, _).
       if r \<noteq> 1 then verify_failed cert 0 AMQP_STATUS_SSL_HOSTNAME_VERIFY_FAILED
       else os_return ()) s)"

text \<open>After the handshake: an error goes through \<open>error_out3\<close>, which shuts the session down.\<close>

definition ssl_verify :: "int \<Rightarrow> string \<Rightarrow> tls \<Rightarrow> unit outcome \<times> tls" where
  "ssl_verify h host' =
    os_bind (os_call (Ssl_get_peer_certificate h)) (\<lambda>(cert, _).
    os_bind (check_peer h cert) (\<lambda>_.
    os_bind (check_host cert host') (\<lambda>_.
    os_bind (os_do (X509_free cert)) (\<lambda>_.
    set_this (\<lambda>t. t\<lparr>internal_error := 0\<rparr>)))))"

text \<open>With a descriptor: an error goes through \<open>error_out2\<close>, which closes it.\<close>

definition ssl_session :: "int \<Rightarrow> string \<Rightarrow> amqp_time_t \<Rightarrow> tls \<Rightarrow> unit outcome \<times> tls" where
  "ssl_session h host' deadline s =
    (if \<not> amqp_ssl_bio_initialized (lib s) then os_abort s
     else os_bind (os_call Bio_new) (\<lambda>(bio, _).
       if bio = 0 then os_fail AMQP_STATUS_NO_MEMORY
       else os_bind (os_call (Ssl_set_host_name h host')) (\<lambda>(status, err).
         if status = 0 then os_bind (set_this (\<lambda>t. t\<lparr>internal_error := err\<rparr>)) (\<lambda>_. os_fail AMQP_STATUS_SSL_ERROR)
         else os_bind (ssl_handshake h deadline) (\<lambda>_.
           os_catch (ssl_verify h host') (\<lambda>code. os_bind (os_do (Ssl_shutdown h)) (\<lambda>_. os_error code))))) s)"

text \<open>With a session object: an error goes through \<open>error_out1\<close>, which frees it.\<close>

definition ssl_connect_host :: "int \<Rightarrow> string \<Rightarrow> int \<Rightarrow> amqp_time_t \<Rightarrow> tls \<Rightarrow> unit outcome \<times> tls" where
  "ssl_connect_host h host' port' deadline =
    os_bind (amqp_open_socket_inner host' port' deadline) (\<lambda>fd.
      if 0 > fd
      then os_bind (os_call Os_errno) (\<lambda>(errno, _).
        os_bind (set_this (\<lambda>t. t\<lparr>internal_error := errno, ssl_sockfd := -1\<rparr>)) (\<lambda>_. os_error fd))
      else os_bind (set_this (\<lambda>t. t\<lparr>ssl_sockfd := fd\<rparr>)) (\<lambda>_.
        os_catch (ssl_session h host' deadline) (\<lambda>code.
          os_bind (os_do (Os_close fd)) (\<lambda>_. os_bind (set_this (\<lambda>t. t\<lparr>ssl_sockfd := -1\<rparr>)) (\<lambda>_. os_error code)))))"

definition amqp_ssl_socket_open :: "string \<Rightarrow> int \<Rightarrow> timeval option \<Rightarrow> tls \<Rightarrow> unit outcome \<times> tls" where
  "amqp_ssl_socket_open host' port' timeout s =
    (if ssl_sockfd (this s) \<noteq> -1 then os_fail AMQP_STATUS_SOCKET_INUSE s
     else os_bind (os_call Ssl_new) (\<lambda>(h, err).
       os_bind (set_this (\<lambda>t. t\<lparr>ssl := h\<rparr>)) (\<lambda>_.
       if h = 0 then os_bind (set_this (\<lambda>t. t\<lparr>internal_error := err\<rparr>)) (\<lambda>_. os_fail AMQP_STATUS_SSL_ERROR)
       else os_bind (in_world (deadline_from timeout)) (\<lambda>deadline.
         os_catch (ssl_connect_host h host' port' deadline) (\<lambda>code.
           os_bind (os_do (Ssl_free h)) (\<lambda>_. os_bind (set_this (\<lambda>t. t\<lparr>ssl := 0\<rparr>)) (\<lambda>_. os_error code)))))) s)"

end
