(* ===== verification/Amqp_Openssl_Library.thy ===== *)
theory Amqp_Openssl_Library
  imports Amqp_Openssl
begin

text \<open>
  The life of TLS sockets and of the OpenSSL library they share (\<open>amqp_openssl.c\<close>): the static
  variables, guarded by a mutex, so that each function is one step; the setters of a socket;
  and the method of the socket BIO (\<open>amqp_openssl_bio.c\<close>).
\<close>

section \<open>The BIO method\<close>

definition EAGAIN :: int where "EAGAIN = 11"
definition EINTR :: int where "EINTR = 4"
definition EPROTO :: int where "EPROTO = 71"
definition ENOTCONN :: int where "ENOTCONN = 107"
definition EALREADY :: int where "EALREADY = 114"

text \<open>On Linux \<open>EWOULDBLOCK\<close> is \<open>EAGAIN\<close>.\<close>

definition amqp_openssl_bio_should_retry :: "int \<Rightarrow> int \<Rightarrow> bool" where
  "amqp_openssl_bio_should_retry res err \<longleftrightarrow>
    res = -1 \<and> err \<in> {EAGAIN, ENOTCONN, EINTR, EPROTO, EINPROGRESS, EALREADY}"

text \<open>The result of \<open>send\<close> or \<open>recv\<close>, and the retry flag of the BIO afterwards.\<close>

definition amqp_openssl_bio_write :: "int \<times> int \<Rightarrow> int \<times> bool" where
  "amqp_openssl_bio_write answer' =
    (case answer' of (res, err) \<Rightarrow> (res, res \<le> 0 \<and> amqp_openssl_bio_should_retry res err))"

definition amqp_openssl_bio_read :: "int \<times> int \<Rightarrow> int \<times> bool" where
  "amqp_openssl_bio_read answer' =
    (case answer' of (res, err) \<Rightarrow> (res, res \<le> 0 \<and> amqp_openssl_bio_should_retry res err))"

definition amqp_openssl_bio_init :: "tls \<Rightarrow> unit outcome \<times> tls" where
  "amqp_openssl_bio_init s =
    (if amqp_ssl_bio_initialized (lib s) then os_abort s
     else os_bind (os_call Bio_meth_new) (\<lambda>(method', _).
       if method' = 0 then os_fail AMQP_STATUS_NO_MEMORY
       else set_lib (\<lambda>l. l\<lparr>amqp_ssl_bio_initialized := True\<rparr>)) s)"

definition amqp_openssl_bio_destroy :: "tls \<Rightarrow> unit outcome \<times> tls" where
  "amqp_openssl_bio_destroy s =
    (if \<not> amqp_ssl_bio_initialized (lib s) then os_abort s
     else os_bind (os_do Bio_meth_free) (\<lambda>_. set_lib (\<lambda>l. l\<lparr>amqp_ssl_bio_initialized := False\<rparr>)) s)"

section \<open>The library\<close>

text \<open>\<open>mutex_range from k\<close>: a call for each of the \<open>k\<close> locks from \<open>from\<close> on.\<close>

fun destroy_locks :: "nat \<Rightarrow> nat \<Rightarrow> tls \<Rightarrow> unit outcome \<times> tls" where
  "destroy_locks i 0 = os_return ()"
| "destroy_locks i (Suc k) = os_bind (os_do (Mutex_destroy i)) (\<lambda>_. destroy_locks (Suc i) k)"

text \<open>The loop of \<open>setup_openssl\<close> with \<open>k\<close> locks to go; after a failure the others are destroyed.\<close>

fun init_locks :: "nat \<Rightarrow> nat \<Rightarrow> tls \<Rightarrow> unit outcome \<times> tls" where
  "init_locks i 0 = os_return ()"
| "init_locks i (Suc k) =
    os_bind (os_call (Mutex_init i)) (\<lambda>(r, _).
      if r \<noteq> 0
      then os_bind (destroy_locks 0 i) (\<lambda>_.
        os_bind (set_lib (\<lambda>l. l\<lparr>amqp_openssl_lockarray := Freed_locks\<rparr>)) (\<lambda>_. os_fail AMQP_STATUS_SSL_ERROR))
      else init_locks (Suc i) k)"

text \<open>\<open>setup_openssl\<close> when \<open>CRYPTO_num_locks\<close> returns \<open>n\<close>.\<close>

definition setup_locks :: "nat \<Rightarrow> tls \<Rightarrow> unit outcome \<times> tls" where
  "setup_locks n =
    os_bind (os_call (Calloc_locks n)) (\<lambda>(p, _).
      if p = 0
      then os_bind (set_lib (\<lambda>l. l\<lparr>amqp_openssl_lockarray := No_locks\<rparr>)) (\<lambda>_. os_fail AMQP_STATUS_NO_MEMORY)
      else os_bind (set_lib (\<lambda>l. l\<lparr>amqp_openssl_lockarray := Locks n\<rparr>)) (\<lambda>_.
        os_bind (init_locks 0 n) (\<lambda>_.
        os_bind (os_call Init_ssl) (\<lambda>(r, _).
          if r \<le> 0 then os_fail AMQP_STATUS_SSL_ERROR else os_return ()))))"

definition setup_openssl :: "tls \<Rightarrow> unit outcome \<times> tls" where
  "setup_openssl s = setup_locks (num_locks s) s"

definition amqp_set_initialize_ssl_library :: "bool \<Rightarrow> tls \<Rightarrow> unit outcome \<times> tls" where
  "amqp_set_initialize_ssl_library do_initialize s =
    (if openssl_connections (lib s) = 0 \<and> \<not> openssl_initialized (lib s)
     then set_lib (\<lambda>l. l\<lparr>do_initialize_openssl := do_initialize\<rparr>) s else os_return () s)"

definition amqp_initialize_ssl_library :: "tls \<Rightarrow> unit outcome \<times> tls" where
  "amqp_initialize_ssl_library s =
    (if openssl_initialized (lib s) then os_return () s
     else os_bind setup_openssl (\<lambda>_. set_lib (\<lambda>l. l\<lparr>openssl_initialized := True\<rparr>)) s)"

text \<open>\<open>None\<close>: the engine is NULL.\<close>

definition free_engine :: "tls \<Rightarrow> unit outcome \<times> tls" where
  "free_engine s =
    (if openssl_engine (lib s) \<noteq> 0
     then os_bind (os_do (Engine_free (openssl_engine (lib s)))) (\<lambda>_. set_lib (\<lambda>l. l\<lparr>openssl_engine := 0\<rparr>)) s
     else os_return () s)"

definition amqp_set_ssl_engine :: "string option \<Rightarrow> tls \<Rightarrow> unit outcome \<times> tls" where
  "amqp_set_ssl_engine engine s =
    (if \<not> openssl_initialized (lib s) then os_fail AMQP_STATUS_SSL_ERROR s
     else os_bind free_engine (\<lambda>_.
       case engine of
         None \<Rightarrow> os_return ()
       | Some name \<Rightarrow> os_bind (os_call (Engine_by_id name)) (\<lambda>(e, _).
           os_bind (set_lib (\<lambda>l. l\<lparr>openssl_engine := e\<rparr>)) (\<lambda>_.
           if e = 0 then os_fail AMQP_STATUS_SSL_SET_ENGINE_FAILED
           else os_bind (os_call (Engine_set_default e)) (\<lambda>(r, _).
             if r = 0 then os_bind free_engine (\<lambda>_. os_fail AMQP_STATUS_SSL_SET_ENGINE_FAILED)
             else os_return ())))) s)"

definition initialize_ssl_and_increment_connections :: "tls \<Rightarrow> unit outcome \<times> tls" where
  "initialize_ssl_and_increment_connections s =
    os_bind (\<lambda>s. if do_initialize_openssl (lib s) \<and> \<not> openssl_initialized (lib s)
       then os_bind setup_openssl (\<lambda>_. set_lib (\<lambda>l. l\<lparr>openssl_initialized := True\<rparr>)) s else os_return () s) (\<lambda>_.
    os_bind (\<lambda>s. if \<not> openssl_bio_initialized (lib s)
       then os_bind amqp_openssl_bio_init (\<lambda>_. set_lib (\<lambda>l. l\<lparr>openssl_bio_initialized := True\<rparr>)) s else os_return () s) (\<lambda>_.
    set_lib (\<lambda>l. l\<lparr>openssl_connections := openssl_connections l + 1\<rparr>))) s"

definition decrement_ssl_connections :: "tls \<Rightarrow> unit outcome \<times> tls" where
  "decrement_ssl_connections =
    set_lib (\<lambda>l. if openssl_connections l > 0 then l\<lparr>openssl_connections := openssl_connections l - 1\<rparr> else l)"

text \<open>Destroying locks that were never made, or no longer are, is undefined.\<close>

definition amqp_uninitialize_ssl_library :: "tls \<Rightarrow> unit outcome \<times> tls" where
  "amqp_uninitialize_ssl_library s =
    (if openssl_connections (lib s) > 0 then os_fail AMQP_STATUS_SOCKET_INUSE s
     else os_bind amqp_openssl_bio_destroy (\<lambda>_.
       os_bind (set_lib (\<lambda>l. l\<lparr>openssl_bio_initialized := False\<rparr>)) (\<lambda>_.
       os_bind (\<lambda>s. case amqp_openssl_lockarray (lib s) of
           Locks k \<Rightarrow> destroy_locks 0 (num_locks s) s
         | _ \<Rightarrow> if num_locks s = 0 then os_return () s else os_abort s) (\<lambda>_.
       os_bind (set_lib (\<lambda>l. l\<lparr>amqp_openssl_lockarray := Freed_locks\<rparr>)) (\<lambda>_.
       os_bind free_engine (\<lambda>_.
       set_lib (\<lambda>l. l\<lparr>openssl_initialized := False\<rparr>)))))) s)"

section \<open>Closing and deleting a socket\<close>

datatype amqp_socket_close_enum = AMQP_SC_NONE | AMQP_SC_FORCE

text \<open>\<open>SSL_shutdown\<close> of no session is undefined; \<open>SSL_free\<close> of none does nothing.\<close>

definition amqp_ssl_socket_close :: "amqp_socket_close_enum \<Rightarrow> tls \<Rightarrow> unit outcome \<times> tls" where
  "amqp_ssl_socket_close force s =
    (if ssl_sockfd (this s) = -1 then os_fail AMQP_STATUS_SOCKET_CLOSED s
     else if force = AMQP_SC_NONE \<and> ssl (this s) = 0 then os_abort s
     else os_bind (if force = AMQP_SC_NONE then os_do (Ssl_shutdown (ssl (this s))) else os_return ()) (\<lambda>_.
       os_bind (os_do (Ssl_free (ssl (this s)))) (\<lambda>_.
       os_bind (set_this (\<lambda>t. t\<lparr>ssl := 0\<rparr>)) (\<lambda>_.
       os_bind (os_call (Os_close (ssl_sockfd (this s)))) (\<lambda>(r, _).
         if r \<noteq> 0 then os_fail AMQP_STATUS_SOCKET_ERROR
         else set_this (\<lambda>t. t\<lparr>ssl_sockfd := -1\<rparr>))))) s)"

definition amqp_ssl_socket_get_sockfd :: "tls \<Rightarrow> int" where
  "amqp_ssl_socket_get_sockfd s = ssl_sockfd (this s)"

definition amqp_ssl_socket_delete :: "tls \<Rightarrow> unit outcome \<times> tls" where
  "amqp_ssl_socket_delete s =
    os_bind (os_catch (amqp_ssl_socket_close AMQP_SC_NONE) (\<lambda>_. os_return ())) (\<lambda>_.
    os_bind (os_do (Ctx_free (ctx (this s)))) (\<lambda>_.
    decrement_ssl_connections)) s"

section \<open>Versions of TLS\<close>

definition AMQP_TLSv1 :: int where "AMQP_TLSv1 = 1"
definition AMQP_TLSv1_1 :: int where "AMQP_TLSv1_1 = 2"
definition AMQP_TLSv1_2 :: int where "AMQP_TLSv1_2 = 3"
definition AMQP_TLSv1_3 :: int where "AMQP_TLSv1_3 = 4"
definition AMQP_TLSvLATEST :: int where "AMQP_TLSvLATEST = 65535"

definition SSL_OP_NO_SSLv3 :: int where "SSL_OP_NO_SSLv3 = 2 ^ 25"
definition SSL_OP_NO_TLSv1 :: int where "SSL_OP_NO_TLSv1 = 2 ^ 26"
definition SSL_OP_NO_TLSv1_1 :: int where "SSL_OP_NO_TLSv1_1 = 2 ^ 28"
definition SSL_OP_NO_TLSv1_2 :: int where "SSL_OP_NO_TLSv1_2 = 2 ^ 27"
definition SSL_OP_NO_TLSv1_3 :: int where "SSL_OP_NO_TLSv1_3 = 2 ^ 29"

definition latest_version :: "int \<Rightarrow> int" where
  "latest_version v = (if v = AMQP_TLSvLATEST then AMQP_TLSv1_3 else v)"

definition version_options :: "int \<Rightarrow> int \<Rightarrow> int" where
  "version_options lo hi =
    (if lo > AMQP_TLSv1 then SSL_OP_NO_TLSv1 else 0) OR
    (if lo > AMQP_TLSv1_1 \<or> hi < AMQP_TLSv1_1 then SSL_OP_NO_TLSv1_1 else 0) OR
    (if hi < AMQP_TLSv1_2 then SSL_OP_NO_TLSv1_2 else 0) OR
    (if hi < AMQP_TLSv1_3 then SSL_OP_NO_TLSv1_3 else 0)"

definition amqp_ssl_socket_set_ssl_versions ::
  "int \<Rightarrow> int \<Rightarrow> amqp_ssl_socket_t \<Rightarrow> amqp_status_enum \<times> amqp_ssl_socket_t" where
  "amqp_ssl_socket_set_ssl_versions min_version max_version t =
    (let hi = latest_version max_version; lo = latest_version min_version in
     if lo > hi then (AMQP_STATUS_INVALID_PARAMETER, t)
     else if hi > AMQP_TLSv1_3 \<or> lo > AMQP_TLSv1_3 then (AMQP_STATUS_UNSUPPORTED, t)
     else let clear_options = SSL_OP_NO_TLSv1 OR SSL_OP_NO_TLSv1_1 OR SSL_OP_NO_TLSv1_2 OR SSL_OP_NO_TLSv1_3 in
       (AMQP_STATUS_OK, t\<lparr>ctx_options := (ctx_options t AND NOT clear_options) OR version_options lo hi\<rparr>))"

section \<open>Creating a socket\<close>

text \<open>
  \<open>None\<close> stands for NULL.  The options that a new context has are the second number of the
  answer of \<open>SSL_CTX_new\<close>.
\<close>

definition new_socket :: amqp_ssl_socket_t where
  "new_socket = \<lparr>ctx = 0, ctx_options = 0, ssl_sockfd = -1, ssl = 0, verify_peer = True, verify_hostname = True,
     internal_error = 0\<rparr>"

definition new_context :: "tls \<Rightarrow> unit outcome \<times> tls" where
  "new_context =
    os_bind (os_call Ctx_new) (\<lambda>(c, options).
      if c = 0 then os_fail AMQP_STATUS_SSL_ERROR
      else set_this (\<lambda>t. snd (amqp_ssl_socket_set_ssl_versions AMQP_TLSv1_2 AMQP_TLSvLATEST
        (t\<lparr>ctx := c, ctx_options := options OR SSL_OP_NO_SSLv3\<rparr>))))"

definition amqp_ssl_socket_new :: "tls \<Rightarrow> amqp_ssl_socket_t option outcome \<times> tls" where
  "amqp_ssl_socket_new =
    os_bind (os_call Calloc_socket) (\<lambda>(p, _).
      if p = 0 then os_return None
      else os_bind (set_this (\<lambda>_. new_socket)) (\<lambda>_.
        os_catch
          (os_bind initialize_ssl_and_increment_connections (\<lambda>_. os_bind new_context (\<lambda>_ s. os_return (Some (this s)) s)))
          (\<lambda>_. os_bind amqp_ssl_socket_delete (\<lambda>_. os_return None))))"

section \<open>Setting up a socket\<close>

definition amqp_ssl_socket_get_context :: "amqp_ssl_socket_t \<Rightarrow> int" where
  "amqp_ssl_socket_get_context t = ctx t"

text \<open>A call that is good if it returns 1.\<close>

definition ssl_one :: "outside_call \<Rightarrow> tls \<Rightarrow> unit outcome \<times> tls" where
  "ssl_one c = os_bind (os_call c) (\<lambda>(status, _). if status \<noteq> 1 then os_fail AMQP_STATUS_SSL_ERROR else os_return ())"

definition amqp_ssl_socket_set_cacert :: "string \<Rightarrow> tls \<Rightarrow> unit outcome \<times> tls" where
  "amqp_ssl_socket_set_cacert cafile s = ssl_one (Ctx_load_verify_locations (ctx (this s)) cafile) s"

definition amqp_ssl_socket_set_cert :: "string \<Rightarrow> tls \<Rightarrow> unit outcome \<times> tls" where
  "amqp_ssl_socket_set_cert cert s = ssl_one (Ctx_use_certificate_chain_file (ctx (this s)) cert) s"

definition amqp_ssl_socket_set_key :: "string \<Rightarrow> string \<Rightarrow> tls \<Rightarrow> unit outcome \<times> tls" where
  "amqp_ssl_socket_set_key cert pem s =
    os_bind (ssl_one (Ctx_use_certificate_chain_file (ctx (this s)) cert)) (\<lambda>_.
      ssl_one (Ctx_use_PrivateKey_file (ctx (this s)) pem)) s"

definition amqp_ssl_socket_set_key_engine :: "string \<Rightarrow> string \<Rightarrow> tls \<Rightarrow> unit outcome \<times> tls" where
  "amqp_ssl_socket_set_key_engine cert pem s =
    os_bind (ssl_one (Ctx_use_certificate_chain_file (ctx (this s)) cert)) (\<lambda>_.
    os_bind (os_call (Engine_load_private_key (openssl_engine (lib s)) pem)) (\<lambda>(pkey, _).
      if pkey = 0 then os_fail AMQP_STATUS_SSL_ERROR
      else os_bind (os_call (Ctx_use_PrivateKey (ctx (this s)) pkey)) (\<lambda>(status, _).
        os_bind (os_do (Evp_free pkey)) (\<lambda>_.
        if status \<noteq> 1 then os_fail AMQP_STATUS_SSL_ERROR else os_return ())))) s"

text \<open>
  The result is the \<open>int\<close> that is returned; the variable \<open>status\<close> holds what OpenSSL
  returned last.  \<open>buffer_key\<close> is the part between the labels: it gives \<open>(status, buf, rsa)\<close>.
\<close>

definition buffer_key :: "byte list \<Rightarrow> tls \<Rightarrow> (int \<times> int \<times> int) outcome \<times> tls" where
  "buffer_key pem s =
    os_bind (os_call (Bio_new_mem_buf pem)) (\<lambda>(buf, _).
      if buf = 0 then os_return (status_code AMQP_STATUS_SSL_ERROR, buf, 0)
      else os_bind (os_call (Pem_read_RSAPrivateKey buf)) (\<lambda>(rsa, _).
        if rsa = 0 then os_return (status_code AMQP_STATUS_SSL_ERROR, buf, rsa)
        else os_bind (os_call (Ctx_use_RSAPrivateKey (ctx (this s)) rsa)) (\<lambda>(status, _).
          os_return (if status \<noteq> 1 then status_code AMQP_STATUS_SSL_ERROR else status, buf, rsa)))) s"

definition amqp_ssl_socket_set_key_buffer :: "string \<Rightarrow> byte list \<Rightarrow> tls \<Rightarrow> int outcome \<times> tls" where
  "amqp_ssl_socket_set_key_buffer cert pem s =
    (if length pem > INT_MAX then os_return (status_code AMQP_STATUS_INVALID_PARAMETER) s
     else os_bind (os_call (Ctx_use_certificate_chain_file (ctx (this s)) cert)) (\<lambda>(status, _).
       if status \<noteq> 1 then os_return (status_code AMQP_STATUS_SSL_ERROR)
       else os_bind (buffer_key pem) (\<lambda>(status, buf, rsa).
         os_bind (os_do (Bio_vfree buf)) (\<lambda>_. os_bind (os_do (Rsa_free rsa)) (\<lambda>_. os_return status)))) s)"

definition amqp_ssl_socket_set_verify_peer :: "bool \<Rightarrow> amqp_ssl_socket_t \<Rightarrow> amqp_ssl_socket_t" where
  "amqp_ssl_socket_set_verify_peer v t = t\<lparr>verify_peer := v\<rparr>"

definition amqp_ssl_socket_set_verify_hostname :: "bool \<Rightarrow> amqp_ssl_socket_t \<Rightarrow> amqp_ssl_socket_t" where
  "amqp_ssl_socket_set_verify_hostname v t = t\<lparr>verify_hostname := v\<rparr>"

definition amqp_ssl_socket_set_verify :: "bool \<Rightarrow> amqp_ssl_socket_t \<Rightarrow> amqp_ssl_socket_t" where
  "amqp_ssl_socket_set_verify v t = amqp_ssl_socket_set_verify_hostname v (amqp_ssl_socket_set_verify_peer v t)"

section \<open>The library as a state machine\<close>

text \<open>
  What a program can do with the library: \<open>tls_reaches s k\<close> says that \<open>s\<close> can be reached and
  that \<open>k\<close> sockets are there.  Everything else a program does leaves the static variables
  alone.
\<close>

inductive tls_reaches :: "tls \<Rightarrow> nat \<Rightarrow> bool" where
  start: "lib s = initial_library \<Longrightarrow> tls_reaches s 0"
| socket_made: "tls_reaches s k \<Longrightarrow> amqp_ssl_socket_new s = (Done (Some t), s') \<Longrightarrow> tls_reaches s' (Suc k)"
| socket_refused: "tls_reaches s k \<Longrightarrow> amqp_ssl_socket_new s = (Done None, s') \<Longrightarrow> tls_reaches s' k"
| socket_deleted: "tls_reaches s (Suc k) \<Longrightarrow> amqp_ssl_socket_delete s = (Done u, s') \<Longrightarrow> tls_reaches s' k"
| initialize_set: "tls_reaches s k \<Longrightarrow> amqp_set_initialize_ssl_library v s = (r, s') \<Longrightarrow> tls_reaches s' k"
| initialized: "tls_reaches s k \<Longrightarrow> amqp_initialize_ssl_library s = (r, s') \<Longrightarrow> r \<noteq> Waiting \<Longrightarrow> tls_reaches s' k"
| engine_set: "tls_reaches s k \<Longrightarrow> amqp_set_ssl_engine e s = (r, s') \<Longrightarrow> r \<noteq> Waiting \<Longrightarrow> tls_reaches s' k"
| uninitialized: "tls_reaches s k \<Longrightarrow> amqp_uninitialize_ssl_library s = (r, s') \<Longrightarrow> r = Done u \<or> r = Error code \<Longrightarrow> tls_reaches s' k"
| other: "tls_reaches s k \<Longrightarrow> lib s' = lib s \<Longrightarrow> tls_reaches s' k"

end
