(* ===== verification/Openssl_Laws.thy ===== *)
theory Openssl_Laws
  imports Connecting_Laws Amqp_Openssl_Library
begin

text \<open>
  Laws of TLS sockets: Hoare triples over the outcomes of a step, what opening a TLS
  connection acquires and checks, and the invariant of the library's static variables.
\<close>

section \<open>Steps that keep the socket\<close>

text \<open>
  \<open>keeps t l m D E\<close>: \<open>m\<close> leaves the socket as it is, \<open>t\<close> but for \<open>internal_error\<close>, and the library
  \<open>l\<close>; the calls it makes are in \<open>D x\<close> when it returns \<open>x\<close> and in \<open>E\<close> when it fails, with a
  negative status.  It never crashes, and waits only for want of answers.
\<close>

definition core :: "tls \<Rightarrow> amqp_ssl_socket_t" where
  "core s = (this s)\<lparr>internal_error := 0\<rparr>"

definition behaved :: "'z net_scheme \<Rightarrow> bool" where
  "behaved s \<longleftrightarrow> posix_answers s \<and> (\<forall>h p. resolve s h p \<noteq> Some [])"

definition moved_to :: "tls \<Rightarrow> (outside_call \<times> int) list \<Rightarrow> amqp_ssl_socket_t \<Rightarrow> tls \<Rightarrow> bool" where
  "moved_to s es t s' \<longleftrightarrow> calls s' = calls s @ es \<and> behaved s' \<and> core s' = t \<and> lib s' = lib s"

definition ends_in :: "('a \<Rightarrow> (outside_call \<times> int) list \<Rightarrow> bool) \<Rightarrow> ((outside_call \<times> int) list \<Rightarrow> bool) \<Rightarrow>
    'a outcome \<Rightarrow> (outside_call \<times> int) list \<Rightarrow> tls \<Rightarrow> bool" where
  "ends_in D E r es s \<longleftrightarrow>
    (case r of Done x \<Rightarrow> D x es | Error code \<Rightarrow> code < 0 \<and> E es | Waiting \<Rightarrow> starved s | Crash \<Rightarrow> False)"

definition keeps ::
  "amqp_ssl_socket_t \<Rightarrow> ssl_library \<Rightarrow> (tls \<Rightarrow> 'a outcome \<times> tls) \<Rightarrow>
    ('a \<Rightarrow> (outside_call \<times> int) list \<Rightarrow> bool) \<Rightarrow> ((outside_call \<times> int) list \<Rightarrow> bool) \<Rightarrow> bool" where
  "keeps t l m D E \<longleftrightarrow>
    (\<forall>s r s'. behaved s \<longrightarrow> core s = t \<longrightarrow> lib s = l \<longrightarrow> m s = (r, s') \<longrightarrow> (\<exists>es. moved_to s es t s' \<and> ends_in D E r es s'))"

lemma keepsI:
  "(\<And>s r s'. behaved s \<Longrightarrow> core s = t \<Longrightarrow> lib s = l \<Longrightarrow> m s = (r, s') \<Longrightarrow> \<exists>es. moved_to s es t s' \<and> ends_in D E r es s') \<Longrightarrow>
    keeps t l m D E"
  by (simp add: keeps_def)

lemma keepsE:
  assumes "keeps t l m D E" and "m s = (r, s')" and "behaved s" and "core s = t" and "lib s = l"
  obtains es where "moved_to s es t s'" and "ends_in D E r es s'"
  using assms unfolding keeps_def by blast

lemma moved_to_refl: "behaved s \<Longrightarrow> core s = t \<Longrightarrow> moved_to s [] t s"
  by (simp add: moved_to_def)

lemma moved_to_trans: "moved_to s es t s1 \<Longrightarrow> moved_to s1 es' t' s2 \<Longrightarrow> moved_to s (es @ es') t' s2"
  by (simp add: moved_to_def)

lemma moved_to_stepped:
  assumes "stepped s es s'" and "behaved s"
  shows "moved_to s es (core s) s'"
  using assms by (cases s; cases s') (auto simp: moved_to_def stepped_def behaved_def core_def net.defs tls.defs)

lemma keeps_return: "D x [] \<Longrightarrow> keeps t l (os_return x) D E"
  by (rule keepsI) (auto simp: os_return_def ends_in_def intro: moved_to_refl exI [of _ "[]"])

lemma keeps_fail: "E [] \<Longrightarrow> status_code st < 0 \<Longrightarrow> keeps t l (os_fail st) D E"
  by (rule keepsI) (auto simp: os_fail_def ends_in_def intro: moved_to_refl exI [of _ "[]"])

lemma keeps_error: "E [] \<Longrightarrow> code < 0 \<Longrightarrow> keeps t l (os_error code) D E"
  by (rule keepsI) (auto simp: os_error_def ends_in_def intro: moved_to_refl exI [of _ "[]"])

lemma keeps_call:
  assumes "\<And>v e. -1 \<le> v \<Longrightarrow> D (v, e) [(c, v)]"
  shows "keeps t l (os_call c) D E"
proof (rule keepsI)
  fix s r s'
  assume s: "behaved s" "core s = t" "lib s = l" and "os_call c s = (r, s')"
  from this(4) show "\<exists>es. moved_to s es t s' \<and> ends_in D E r es s'"
  proof (cases rule: os_call_cases)
    case waits
    with s show ?thesis by (auto simp: ends_in_def intro: moved_to_refl)
  next
    case (answer v e)
    with moved_to_stepped [OF answer(2) s(1)] s assms show ?thesis
      by (auto simp: ends_in_def behaved_def)
  qed
qed

lemma keeps_poll: "D () [] \<Longrightarrow> E [] \<Longrightarrow> keeps t l (in_world (amqp_poll d)) D E"
proof (rule keepsI)
  fix s r s'
  assume DE: "D () []" "E []" and s: "behaved s" "core s = t" "lib s = l" and "in_world (amqp_poll d) s = (r, s')"
  note p = in_poll [OF this(6)]
  have "ends_in D E r [] s'"
    using DE p by (cases r) (fastforce simp: ends_in_def)+
  with moved_to_stepped [OF p(1) s(1)] s show "\<exists>es. moved_to s es t s' \<and> ends_in D E r es s'" by auto
qed

lemma keeps_set_error: "D () [] \<Longrightarrow> keeps t l (set_this (\<lambda>t. t\<lparr>internal_error := i\<rparr>)) D E"
  by (rule keepsI) (auto simp: set_this_def ends_in_def moved_to_def core_def behaved_def posix_answers_def intro: exI [of _ "[]"])

lemma keeps_bind:
  assumes m: "keeps t l m D E"
    and k: "\<And>x es. D x es \<Longrightarrow> keeps t l (k x) (\<lambda>y es'. D' y (es @ es')) (\<lambda>es'. E' (es @ es'))"
    and e: "\<And>es. E es \<Longrightarrow> E' es"
  shows "keeps t l (os_bind m k) D' E'"
proof (rule keepsI)
  fix s r s'
  assume s: "behaved s" "core s = t" "lib s = l" and "os_bind m k s = (r, s')"
  from this(4) show "\<exists>es. moved_to s es t s' \<and> ends_in D' E' r es s'"
  proof (cases rule: os_bind_cases)
    case (result x s1)
    obtain es where es: "moved_to s es t s1" "ends_in D E (Done x) es s1" by (rule keepsE [OF m result(1) s])
    then have "behaved s1" "core s1 = t" "lib s1 = l" using s by (simp_all add: moved_to_def)
    moreover have "D x es" using es by (simp add: ends_in_def)
    ultimately obtain es' where "moved_to s1 es' t s'" "ends_in (\<lambda>y es'. D' y (es @ es')) (\<lambda>es'. E' (es @ es')) r es' s'"
      using keepsE [OF k result(2)] by metis
    with moved_to_trans [OF es(1)] show ?thesis by (cases r) (auto simp: ends_in_def)
  next
    case (error code)
    obtain es where "moved_to s es t s'" "ends_in D E (Error code) es s'" by (rule keepsE [OF m error(1) s])
    with error e show ?thesis by (auto simp: ends_in_def)
  next
    case waits
    obtain es where "moved_to s es t s'" "ends_in D E Waiting es s'" by (rule keepsE [OF m waits(1) s])
    with waits show ?thesis by (auto simp: ends_in_def)
  next
    case crash
    obtain es where "ends_in D E Crash es s'" by (rule keepsE [OF m crash(1) s])
    then show ?thesis by (simp add: ends_in_def)
  qed
qed

lemma keeps_catch:
  assumes m: "keeps t l m D E"
    and k: "\<And>code es. E es \<Longrightarrow> code < 0 \<Longrightarrow> keeps t l (h code) (\<lambda>y es'. D' y (es @ es')) (\<lambda>es'. E' (es @ es'))"
    and d: "\<And>x es. D x es \<Longrightarrow> D' x es"
  shows "keeps t l (os_catch m h) D' E'"
proof (rule keepsI)
  fix s r s'
  assume s: "behaved s" "core s = t" "lib s = l" and run: "os_catch m h s = (r, s')"
  obtain r1 s1 where 1: "m s = (r1, s1)" by fastforce
  obtain es where es: "moved_to s es t s1" "ends_in D E r1 es s1" by (rule keepsE [OF m 1 s])
  show "\<exists>es. moved_to s es t s' \<and> ends_in D' E' r es s'"
  proof (cases r1)
    case (Error code)
    with run 1 have 2: "h code s1 = (r, s')" by (simp add: os_catch_def)
    have "behaved s1" "core s1 = t" "lib s1 = l" using es s by (simp_all add: moved_to_def)
    moreover have "E es" "code < 0" using es Error by (simp_all add: ends_in_def)
    ultimately obtain es' where "moved_to s1 es' t s'" "ends_in (\<lambda>y es'. D' y (es @ es')) (\<lambda>es'. E' (es @ es')) r es' s'"
      using keepsE [OF k 2] by metis
    with moved_to_trans [OF es(1)] show ?thesis by (cases r) (auto simp: ends_in_def)
  qed (use run 1 es d in \<open>auto simp: os_catch_def ends_in_def\<close>)
qed

lemma keeps_bind_call:
  "(\<And>v e. -1 \<le> v \<Longrightarrow> keeps t l (k (v, e)) (\<lambda>y es. D y ((c, v) # es)) (\<lambda>es. E ((c, v) # es))) \<Longrightarrow>
    keeps t l (os_bind (os_call c) k) D E"
  by (rule keeps_bind [where D = "\<lambda>(v, e) es. -1 \<le> v \<and> es = [(c, v)]" and E = "\<lambda>_. False"], rule keeps_call) auto

lemma keeps_bind_do:
  "(\<And>v. keeps t l (k ()) (\<lambda>y es. D y ((c, v) # es)) (\<lambda>es. E ((c, v) # es))) \<Longrightarrow> keeps t l (os_bind (os_do c) k) D E"
  unfolding os_do_def
  by (rule keeps_bind [where D = "\<lambda>_ es. \<exists>v. es = [(c, v)]" and E = "\<lambda>_. False"], rule keeps_bind_call)
    (auto intro: keeps_return)

lemma keeps_bind_set:
  "keeps t l (k ()) D E \<Longrightarrow> keeps t l (os_bind (set_this (\<lambda>t. t\<lparr>internal_error := i\<rparr>)) k) D E"
  by (rule keeps_bind [where D = "\<lambda>_ es. es = []" and E = "\<lambda>_. False"], rule keeps_set_error) auto

lemma keeps_if: "(b \<Longrightarrow> keeps t l m D E) \<Longrightarrow> (\<not> b \<Longrightarrow> keeps t l m' D E) \<Longrightarrow> keeps t l (if b then m else m') D E"
  by simp

lemma keeps_pair: "keeps t l (f a b) D E \<Longrightarrow> keeps t l (case (a, b) of (x, y) \<Rightarrow> f x y) D E"
  by simp

lemma keeps_at:
  "keeps t l m D E \<Longrightarrow> (\<And>s. core s = t \<Longrightarrow> lib s = l \<Longrightarrow> f s = m s) \<Longrightarrow> keeps t l f D E"
  by (auto simp: keeps_def)

lemmas keeps_rules = keeps_bind_call keeps_bind_do keeps_bind_set keeps_if keeps_pair keeps_return keeps_fail keeps_error
  keeps_set_error

section \<open>Handshake and verification\<close>

lemma opens_nothing_Cons [simp]:
  "acquired e = [] \<Longrightarrow> released e = [] \<Longrightarrow> opens_nothing (e # es) \<longleftrightarrow> opens_nothing es"
  by (simp add: opens_nothing_def hold_def)

lemma tls_calls_neutral [simp]:
  "acquired (Ssl_connect h, v) = []" "released (Ssl_connect h, v) = []"
  "acquired (Ssl_get_verify_result h, v) = []" "released (Ssl_get_verify_result h, v) = []"
  "acquired (X509_check_host cert host', v) = []" "released (X509_check_host cert host', v) = []"
  "acquired (Ssl_shutdown h, v) = []" "released (Ssl_shutdown h, v) = []"
  "acquired (Bio_new, v) = []" "released (Bio_new, v) = []"
  "acquired (Ssl_set_host_name h host', v) = []" "released (Ssl_set_host_name h host', v) = []"
  "acquired (Os_errno, v) = []" "released (Os_errno, v) = []"
  by (simp_all add: acquired_def released_def)

definition shaken :: "int \<Rightarrow> (outside_call \<times> int) list \<Rightarrow> bool" where
  "shaken h es \<longleftrightarrow> (Ssl_connect h, 1) \<in> set es \<and> opens_nothing es"

lemma connect_loop_post:
  assumes "behaved s" and "length (answers s) < k" and "connect_loop k h d s = (r, s')"
  shows "\<exists>es. moved_to s es (core s) s' \<and> ends_in (\<lambda>_. shaken h) opens_nothing r es s'"
  using assms
proof (induction k arbitrary: s)
  case 0
  then show ?case by simp
next
  case (Suc k)
  obtain r1 s1 where 1: "os_call (Ssl_connect h) s = (r1, s1)" by fastforce
  then show ?case
  proof (cases rule: os_call_cases)
    case waits
    with Suc.prems 1 show ?thesis
      by (auto simp: os_bind_def ends_in_def intro: moved_to_refl exI [of _ "[]"])
  next
    case (answer v e)
    note s1 = moved_to_stepped [OF answer(2) Suc.prems(1)]
    then have b1: "behaved s1" and c1: "core s1 = core s" by (simp_all add: moved_to_def)
    have l1: "length (answers s1) < k" using answer(2) Suc.prems(2) by (simp add: stepped_def)
    show ?thesis
    proof (cases "v = 1")
      case True
      with Suc.prems(3) 1 answer have "r = Done ()" "s' = s1" by (simp_all add: os_bind_def os_return_def)
      with s1 True show ?thesis by (auto simp: ends_in_def shaken_def)
    next
      case v: False
      define s2 where "s2 = s1\<lparr>this := (this s1)\<lparr>internal_error := e\<rparr>\<rparr>"
      have s2: "moved_to s1 [] (core s1) s2" and l2: "length (answers s2) < k"
        using b1 l1 by (simp_all add: s2_def moved_to_def core_def behaved_def posix_answers_def)
      then have b2: "behaved s2" by (simp add: moved_to_def)
      define m where "m = (if e = SSL_ERROR_WANT_READ \<or> e = SSL_ERROR_WANT_WRITE then in_world (amqp_poll d)
        else os_fail AMQP_STATUS_SSL_CONNECTION_FAILED :: tls \<Rightarrow> unit outcome \<times> tls)"
      have run: "os_bind m (\<lambda>_. connect_loop k h d) s2 = (r, s')"
        using Suc.prems(3) 1 answer v by (simp add: os_bind_def set_this_def s2_def m_def)
      obtain r3 s3 where 3: "m s2 = (r3, s3)" by fastforce
      have s3: "stepped s2 [] s3" "r3 \<noteq> Crash" "\<And>c. r3 = Error c \<Longrightarrow> c < 0" "r3 = Waiting \<Longrightarrow> starved s3"
        using in_poll [of d s2 r3 s3] 3 by (fastforce simp: m_def os_fail_def split: if_splits)+
      note m3 = moved_to_stepped [OF s3(1) b2]
      have to3: "moved_to s [(Ssl_connect h, v)] (core s) s3"
        using moved_to_trans [OF moved_to_trans [OF s1 s2] m3] s2 c1 by (simp add: moved_to_def)
      show ?thesis
      proof (cases r3)
        case (Done u)
        with run 3 have 4: "connect_loop k h d s3 = (r, s')" by (simp add: os_bind_def)
        have "behaved s3" "length (answers s3) < k" using m3 s3(1) l2 by (simp_all add: moved_to_def stepped_def)
        from Suc.IH [OF this 4] obtain es where es: "moved_to s3 es (core s3) s'" "ends_in (\<lambda>_. shaken h) opens_nothing r es s'"
          by blast
        have "core s3 = core s" using to3 by (simp add: moved_to_def)
        with moved_to_trans [OF to3 es(1)] es(2) show ?thesis
          by (intro exI [of _ "(Ssl_connect h, v) # es"]) (cases r, auto simp: ends_in_def shaken_def)
      qed (use run 3 s3 to3 in \<open>auto simp: os_bind_def ends_in_def\<close>)
    qed
  qed
qed

lemma keeps_handshake: "keeps t l (ssl_handshake h d) (\<lambda>_. shaken h) opens_nothing"
proof (rule keepsI)
  fix s r s'
  assume s: "behaved s" "core s = t" and "ssl_handshake h d s = (r, s')"
  then show "\<exists>es. moved_to s es t s' \<and> ends_in (\<lambda>_. shaken h) opens_nothing r es s'"
    using connect_loop_post [OF s(1), of "Suc (length (answers s))" h d r s'] by (simp add: ssl_handshake_def)
qed

text \<open>What was checked of a certificate.\<close>

definition peer_checked :: "int \<Rightarrow> (outside_call \<times> int) list \<Rightarrow> bool" where
  "peer_checked h es \<longleftrightarrow>
    (\<exists>cert. cert \<noteq> 0 \<and> (Ssl_get_peer_certificate h, cert) \<in> set es) \<and> (Ssl_get_verify_result h, X509_V_OK) \<in> set es"

definition host_checked :: "int \<Rightarrow> string \<Rightarrow> (outside_call \<times> int) list \<Rightarrow> bool" where
  "host_checked h host' es \<longleftrightarrow>
    (\<exists>cert. cert \<noteq> 0 \<and> (Ssl_get_peer_certificate h, cert) \<in> set es \<and> (X509_check_host cert host', 1) \<in> set es)"

definition checked :: "amqp_ssl_socket_t \<Rightarrow> int \<Rightarrow> string \<Rightarrow> (outside_call \<times> int) list \<Rightarrow> bool" where
  "checked t h host' es \<longleftrightarrow>
    (verify_peer t \<longrightarrow> peer_checked h es) \<and> (verify_hostname t \<longrightarrow> host_checked h host' es)"

lemma keeps_verify_failed:
  assumes "status_code st < 0" and "if cert = 0 then E [] else (\<forall>v. E [(X509_free cert, v)])"
  shows "keeps t l (verify_failed cert i st) D E"
  unfolding verify_failed_def using assms by (intro keeps_rules) simp_all

text \<open>A certificate is given back.\<close>

definition frees :: "int \<Rightarrow> (outside_call \<times> int) list \<Rightarrow> bool" where
  "frees cert es \<longleftrightarrow> (\<forall>held. fold hold es (held + mset (acquired (Ssl_get_peer_certificate 0, cert))) = held)"

lemma frees_simps:
  "frees 0 [] " "cert \<noteq> 0 \<Longrightarrow> frees cert [(X509_free cert, v)]"
  "acquired e = [] \<Longrightarrow> released e = [] \<Longrightarrow> frees cert es \<Longrightarrow> frees cert (e # es)"
  by (auto simp: frees_def hold_def acquired_def released_def)

lemma frees_append: "opens_nothing es \<Longrightarrow> frees cert es' \<Longrightarrow> frees cert (es @ es')"
  by (simp add: frees_def opens_nothing_def)

lemma core_fields:
  "core s = t \<Longrightarrow> verify_peer (this s) = verify_peer t \<and> verify_hostname (this s) = verify_hostname t \<and>
    ssl (this s) = ssl t \<and> ssl_sockfd (this s) = ssl_sockfd t \<and> ctx (this s) = ctx t"
  by (auto simp: core_def)

lemma keeps_check_peer:
  "keeps t l (check_peer h cert)
    (\<lambda>_ es. opens_nothing es \<and> (verify_peer t \<longrightarrow> cert \<noteq> 0 \<and> (Ssl_get_verify_result h, X509_V_OK) \<in> set es)) (frees cert)"
proof (rule keeps_at)
  show "keeps t l
      (if \<not> verify_peer t then os_return ()
       else if cert = 0 then verify_failed cert 0 AMQP_STATUS_SSL_PEER_VERIFY_FAILED
       else os_bind (os_call (Ssl_get_verify_result h)) (\<lambda>(result, _).
         if result \<noteq> X509_V_OK then verify_failed cert result AMQP_STATUS_SSL_PEER_VERIFY_FAILED
         else os_return ()))
      (\<lambda>_ es. opens_nothing es \<and> (verify_peer t \<longrightarrow> cert \<noteq> 0 \<and> (Ssl_get_verify_result h, X509_V_OK) \<in> set es)) (frees cert)"
    by (intro keeps_rules keeps_verify_failed) (auto simp: frees_simps)
qed (frule core_fields, simp add: check_peer_def)

lemma keeps_check_host:
  "keeps t l (check_host cert host')
    (\<lambda>_ es. opens_nothing es \<and> (verify_hostname t \<longrightarrow> cert \<noteq> 0 \<and> (X509_check_host cert host', 1) \<in> set es)) (frees cert)"
proof (rule keeps_at)
  show "keeps t l
      (if \<not> verify_hostname t then os_return ()
       else if cert = 0 then verify_failed cert 0 AMQP_STATUS_SSL_HOSTNAME_VERIFY_FAILED
       else os_bind (os_call (X509_check_host cert host')) (\<lambda>(r, _).
         if r \<noteq> 1 then verify_failed cert 0 AMQP_STATUS_SSL_HOSTNAME_VERIFY_FAILED
         else os_return ()))
      (\<lambda>_ es. opens_nothing es \<and> (verify_hostname t \<longrightarrow> cert \<noteq> 0 \<and> (X509_check_host cert host', 1) \<in> set es)) (frees cert)"
    by (intro keeps_rules keeps_verify_failed) (auto simp: frees_simps)
qed (frule core_fields, simp add: check_host_def)

lemma frees_certificate:
  "frees cert es \<Longrightarrow> opens_nothing ((Ssl_get_peer_certificate h, cert) # es)"
  by (cases "cert = 0") (simp_all add: frees_def opens_nothing_def hold_def acquired_def released_def)

lemma frees_end: "frees cert [(X509_free cert, v)]"
  by (cases "cert = 0") (simp_all add: frees_def hold_def acquired_def released_def)

lemma keeps_verify:
  "keeps t l (ssl_verify h host') (\<lambda>_ es. opens_nothing es \<and> checked t h host' es) opens_nothing"
  unfolding ssl_verify_def
proof (intro keeps_bind_call keeps_pair, goal_cases)
  case (1 cert e)
  show ?case
  proof (rule keeps_bind [OF keeps_check_peer], goal_cases)
    case peer: (1 u es)
    show ?case
    proof (rule keeps_bind [OF keeps_check_host], goal_cases)
      case host: (1 u es')
      have "opens_nothing ((Ssl_get_peer_certificate h, cert) # es @ es' @ [(X509_free cert, v)])" for v
        using peer host by (intro frees_certificate frees_append frees_end) auto
      moreover have "checked t h host' ((Ssl_get_peer_certificate h, cert) # es @ es' @ [(X509_free cert, v)])" for v
        using peer host by (auto simp: checked_def peer_checked_def host_checked_def)
      ultimately show ?case by (intro keeps_rules) simp_all
    qed (use peer in \<open>auto intro!: frees_certificate frees_append\<close>)
  qed (auto intro: frees_certificate)
qed

lemma keeps_session:
  assumes "amqp_ssl_bio_initialized l"
  shows "keeps t l (ssl_session h host' d)
    (\<lambda>_ es. opens_nothing es \<and> (Ssl_connect h, 1) \<in> set es \<and> checked t h host' es) opens_nothing"
proof (rule keeps_at)
  have more: "checked t h host' es \<Longrightarrow> checked t h host' (e # es)" "checked t h host' es \<Longrightarrow> checked t h host' (es' @ es)" for e es es'
    by (auto simp: checked_def peer_checked_def host_checked_def)
  show "keeps t l
     (os_bind (os_call Bio_new) (\<lambda>(bio, _).
       if bio = 0 then os_fail AMQP_STATUS_NO_MEMORY
       else os_bind (os_call (Ssl_set_host_name h host')) (\<lambda>(status, err).
         if status = 0 then os_bind (set_this (\<lambda>t. t\<lparr>internal_error := err\<rparr>)) (\<lambda>_. os_fail AMQP_STATUS_SSL_ERROR)
         else os_bind (ssl_handshake h d) (\<lambda>_.
           os_catch (ssl_verify h host') (\<lambda>code. os_bind (os_do (Ssl_shutdown h)) (\<lambda>_. os_error code))))))
     (\<lambda>_ es. opens_nothing es \<and> (Ssl_connect h, 1) \<in> set es \<and> checked t h host' es) opens_nothing"
  proof (intro keeps_bind_call keeps_pair keeps_if keeps_bind_set keeps_fail keeps_bind [OF keeps_handshake]
      keeps_catch [OF keeps_verify] keeps_bind_do keeps_error, goal_cases)
  qed (auto simp: shaken_def intro: more)
qed (use assms in \<open>simp add: ssl_session_def\<close>)

section \<open>Opening\<close>

text \<open>
  The calls of an opened connection: a search that ends connected to one of the addresses,
  a finished handshake, and the checks that the socket asks for.
\<close>

definition tls_opened :: "amqp_ssl_socket_t \<Rightarrow> int \<Rightarrow> string \<Rightarrow> addrinfo list \<Rightarrow> int \<Rightarrow> (outside_call \<times> int) list \<Rightarrow> bool" where
  "tls_opened t h host' as fd es \<longleftrightarrow>
    (\<exists>es1 es2. es = es1 @ es2 \<and> connected_to as fd es1 \<and> opens_nothing es2 \<and>
      (Ssl_connect h, 1) \<in> set es2 \<and> checked t h host' es2)"

definition connected_post :: "tls \<Rightarrow> int \<Rightarrow> string \<Rightarrow> int \<Rightarrow> unit outcome \<Rightarrow> (outside_call \<times> int) list \<Rightarrow> tls \<Rightarrow> bool" where
  "connected_post s h host' p r es s' \<longleftrightarrow>
    calls s' = calls s @ es \<and> behaved s' \<and> lib s' = lib s \<and>
    (case r of
       Done _ \<Rightarrow> \<exists>fd as. resolve s host' p = Some as \<and> 0 \<le> fd \<and> core s' = (core s)\<lparr>ssl_sockfd := fd\<rparr> \<and>
         tls_opened (core s) h host' as fd es
     | Error code \<Rightarrow> code < 0 \<and> core s' = (core s)\<lparr>ssl_sockfd := -1\<rparr> \<and> opens_nothing es
     | Waiting \<Rightarrow> starved s'
     | Crash \<Rightarrow> False)"

lemma set_fd:
  assumes "behaved s" and "f = (\<lambda>t. t\<lparr>ssl_sockfd := fd\<rparr>) \<or> f = (\<lambda>t. t\<lparr>internal_error := i, ssl_sockfd := fd\<rparr>)"
  shows "\<exists>s'. set_this f s = (Done (), s') \<and> calls s' = calls s \<and> behaved s' \<and> lib s' = lib s \<and>
    core s' = (core s)\<lparr>ssl_sockfd := fd\<rparr> \<and> resolve s' = resolve s"
  using assms by (auto simp: set_this_def behaved_def posix_answers_def core_def)

lemma session_closed:
  assumes "opens fd es1" and "opens_nothing es2"
  shows "opens_nothing (es1 @ es2 @ [(Os_close fd, v)])"
  using assms by (auto simp: opens_def opens_nothing_def hold_def acquired_def released_def)

lemma close_fd:
  assumes "behaved s" and "code < 0" and "os_bind (os_do (Os_close fd)) (\<lambda>_.
      os_bind (set_this (\<lambda>t. t\<lparr>ssl_sockfd := -1\<rparr>)) (\<lambda>_. os_error code)) s = (r, s')"
  shows "(\<exists>v. calls s' = calls s @ [(Os_close fd, v)] \<and> behaved s' \<and> lib s' = lib s \<and> r = Error code \<and>
      core s' = (core s)\<lparr>ssl_sockfd := -1\<rparr>) \<or>
    (calls s' = calls s \<and> behaved s' \<and> lib s' = lib s \<and> r = Waiting \<and> starved s')"
proof (cases "answers s")
  case Nil
  with assms show ?thesis by (auto simp: os_do_def os_call_def os_bind_def starved_def)
next
  case (Cons a as)
  with assms show ?thesis
    by (cases a) (auto simp: os_do_def os_call_def os_bind_def os_return_def os_error_def set_this_def behaved_def posix_answers_def core_def)
qed

lemma connect_host_post:
  assumes s: "behaved s" "amqp_ssl_bio_initialized (lib s)" and run: "ssl_connect_host h host' p d s = (r, s')"
  shows "\<exists>es. connected_post s h host' p r es s'"
proof -
  obtain r1 s1 where 1: "amqp_open_socket_inner host' p d s = (r1, s1)" by fastforce
  from s have "posix_answers s" "resolve s host' p \<noteq> Some []" by (simp_all add: behaved_def)
  from open_socket_inner_post [OF this 1] obtain es1 where
    es1: "stepped s es1 s1" "search_post (resolve s host' p) r1 es1" "r1 = Waiting \<Longrightarrow> starved s1" by blast
  note m1 = moved_to_stepped [OF es1(1) s(1)]
  then have b1: "behaved s1" by (simp add: moved_to_def)
  show ?thesis
  proof (cases r1)
    case fd: (Done fd)
    show ?thesis
    proof (cases "0 > fd")
      case True
      with fd es1(2) have c: "fd < 0" "opens_nothing es1" by (simp_all add: search_post_def)
      have run2: "os_bind (os_call Os_errno) (\<lambda>(errno, _).
        os_bind (set_this (\<lambda>t. t\<lparr>internal_error := errno, ssl_sockfd := -1\<rparr>)) (\<lambda>_. os_error fd)) s1 = (r, s')"
        using run 1 fd True by (simp add: ssl_connect_host_def)
      obtain r2 s2 where 2: "os_call Os_errno s1 = (r2, s2)" by fastforce
      then show ?thesis
      proof (cases rule: os_call_cases)
        case waits
        with run2 2 m1 show ?thesis
          by (auto simp: os_bind_def connected_post_def moved_to_def)
      next
        case (answer v e)
        note m2 = moved_to_trans [OF m1 moved_to_stepped [OF answer(2) b1]]
        then have "behaved s2" by (simp add: moved_to_def)
        from set_fd [OF this, of "\<lambda>t. t\<lparr>internal_error := v, ssl_sockfd := -1\<rparr>" "-1" v] obtain s3 where
          s3: "set_this (\<lambda>t. t\<lparr>internal_error := v, ssl_sockfd := -1\<rparr>) s2 = (Done (), s3)" "calls s3 = calls s2" "behaved s3"
            "lib s3 = lib s2" "core s3 = (core s2)\<lparr>ssl_sockfd := -1\<rparr>" by blast
        with run2 2 answer have "r = Error fd" "s' = s3" by (auto simp: os_bind_def os_error_def)
        with s3 m2 m1 c show ?thesis
          by (auto simp: connected_post_def moved_to_def)
      qed
    next
      case pos: False
      with fd es1(2) obtain as where as: "resolve s host' p = Some as" "connected_to as fd es1" by (auto simp: search_post_def)
      from set_fd [OF b1, of "\<lambda>t. t\<lparr>ssl_sockfd := fd\<rparr>" fd] obtain s2 where
        s2: "set_this (\<lambda>t. t\<lparr>ssl_sockfd := fd\<rparr>) s1 = (Done (), s2)" "calls s2 = calls s1" "behaved s2"
          "lib s2 = lib s1" "core s2 = (core s1)\<lparr>ssl_sockfd := fd\<rparr>" by blast
      have run2: "os_catch (ssl_session h host' d) (\<lambda>code.
          os_bind (os_do (Os_close fd)) (\<lambda>_. os_bind (set_this (\<lambda>t. t\<lparr>ssl_sockfd := -1\<rparr>)) (\<lambda>_. os_error code))) s2 = (r, s')"
        using run 1 fd pos s2(1) by (simp add: ssl_connect_host_def)
      have l2: "lib s2 = lib s" and c2: "core s2 = (core s)\<lparr>ssl_sockfd := fd\<rparr>" and k2: "calls s2 = calls s @ es1"
        using s2 m1 by (simp_all add: moved_to_def)
      obtain r3 s3 where 3: "ssl_session h host' d s2 = (r3, s3)" by fastforce
      obtain es3 where es3: "moved_to s2 es3 (core s2) s3"
        "ends_in (\<lambda>_ es. opens_nothing es \<and> (Ssl_connect h, 1) \<in> set es \<and> checked (core s2) h host' es) opens_nothing r3 es3 s3"
        by (rule keepsE [OF keeps_session 3 s2(3) refl refl]) (use s(2) l2 in simp)
      show ?thesis
      proof (cases r3)
        case (Done u)
        with run2 3 have "r = Done ()" "s' = s3" by (simp_all add: os_catch_def)
        moreover have "tls_opened (core s) h host' as fd (es1 @ es3)"
          unfolding tls_opened_def
          by (intro exI [of _ es1] exI [of _ es3]) (use es3(2) Done as(2) c2 in \<open>auto simp: ends_in_def checked_def\<close>)
        ultimately show ?thesis
          using es3(1) Done as pos l2 c2 k2 by (intro exI [of _ "es1 @ es3"]) (auto simp: connected_post_def moved_to_def intro!: exI [of _ fd])
      next
        case (Error code)
        with es3 have c: "code < 0" "opens_nothing es3" "behaved s3" by (simp_all add: ends_in_def moved_to_def)
        have run4: "os_bind (os_do (Os_close fd)) (\<lambda>_.
            os_bind (set_this (\<lambda>t. t\<lparr>ssl_sockfd := -1\<rparr>)) (\<lambda>_. os_error code)) s3 = (r, s')"
          using run2 3 Error by (simp add: os_catch_def)
        from as(2) have "opens fd es1" by (simp add: connected_to_def)
        with close_fd [OF c(3,1) run4] session_closed [OF _ c(2)] es3(1) l2 c2 k2 c(1) show ?thesis
          unfolding connected_post_def moved_to_def by fastforce
      qed (use run2 3 es3 l2 k2 in \<open>auto simp: os_catch_def ends_in_def connected_post_def moved_to_def\<close>)
    qed
  next
    case Waiting
    with run 1 es1 m1 show ?thesis by (auto simp: ssl_connect_host_def os_bind_def connected_post_def moved_to_def)
  qed (use es1(2) in \<open>simp_all add: search_post_def\<close>)
qed

text \<open>A failure gives the session back; so does every failure behind the handshake.\<close>

lemma free_session:
  assumes "behaved s" and "code < 0" and "os_bind (os_do (Ssl_free h)) (\<lambda>_.
      os_bind (set_this (\<lambda>t. t\<lparr>ssl := 0\<rparr>)) (\<lambda>_. os_error code)) s = (r, s')"
  shows "(\<exists>v. calls s' = calls s @ [(Ssl_free h, v)] \<and> lib s' = lib s \<and> r = Error code \<and> core s' = (core s)\<lparr>ssl := 0\<rparr>) \<or>
    (calls s' = calls s \<and> lib s' = lib s \<and> r = Waiting \<and> starved s')"
proof (cases "answers s")
  case Nil
  with assms show ?thesis by (auto simp: os_do_def os_call_def os_bind_def starved_def)
next
  case (Cons a as)
  with assms show ?thesis
    by (cases a) (auto simp: os_do_def os_call_def os_bind_def os_return_def os_error_def set_this_def core_def)
qed

definition open_post :: "tls \<Rightarrow> string \<Rightarrow> int \<Rightarrow> timeval option \<Rightarrow> unit outcome \<Rightarrow> tls \<Rightarrow> bool" where
  "open_post s host' port' timeout r s' \<longleftrightarrow>
    lib s' = lib s \<and>
    (case r of
       Done _ \<Rightarrow> \<exists>h fd as es. resolve s host' port' = Some as \<and> 0 \<le> fd \<and> h \<noteq> 0 \<and>
         core s' = (core s)\<lparr>ssl_sockfd := fd, ssl := h\<rparr> \<and>
         calls s' = calls s @ (Ssl_new, h) # es \<and> tls_opened (core s) h host' as fd es \<and>
         held (calls s') = held (calls s) + {#Descriptor fd, Session h#}
     | Error code \<Rightarrow> code < 0 \<and> ssl_sockfd (this s') = -1 \<and>
         (held (calls s') = held (calls s) \<and> ssl (this s') = 0 \<or>
          held (calls s') = add_mset (Session (ssl (this s'))) (held (calls s)) \<and>
            (\<exists>w w'. deadline_from timeout w = (Error code, w')))
     | Waiting \<Rightarrow> starved s'
     | Crash \<Rightarrow> False)"

lemma ssl_new_failed:
  assumes "os_bind (set_this (\<lambda>t. t\<lparr>ssl := 0\<rparr>)) (\<lambda>_. os_bind (set_this (\<lambda>t. t\<lparr>internal_error := e\<rparr>)) (\<lambda>_.
      os_fail AMQP_STATUS_SSL_ERROR)) s = (r, s')"
  shows "r = Error (status_code AMQP_STATUS_SSL_ERROR) \<and> lib s' = lib s \<and> calls s' = calls s \<and> ssl (this s') = 0 \<and>
    ssl_sockfd (this s') = ssl_sockfd (this s)"
  using assms by (auto simp: os_bind_def set_this_def os_fail_def)

lemma held_session:
  "h \<noteq> 0 \<Longrightarrow> held (xs @ (Ssl_new, h) # es) = fold hold es (add_mset (Session h) (held xs))"
  by (simp add: held_append hold_def acquired_def released_def)

lemma held_freed: "h \<noteq> 0 \<Longrightarrow> hold (Ssl_free h, v) (add_mset (Session h) H) = H"
  by (simp add: hold_def acquired_def released_def)

lemma tls_opened_held: "tls_opened t h host' as fd es \<Longrightarrow> fold hold es H = add_mset (Descriptor fd) H"
  by (auto simp: tls_opened_def opens_nothing_def connected_to_fds)

lemma new_session: "t\<lparr>ssl := h, internal_error := 0\<rparr> = (t\<lparr>internal_error := 0\<rparr>)\<lparr>ssl := h\<rparr>"
  by (cases t) simp

lemma ssl_socket_open_post:
  assumes s: "behaved s" "amqp_ssl_bio_initialized (lib s)" "ssl_sockfd (this s) = -1"
    and run: "amqp_ssl_socket_open host' port' timeout s = (r, s')"
  shows "open_post s host' port' timeout r s'"
proof -
  obtain r1 s1 where 1: "os_call Ssl_new s = (r1, s1)" by fastforce
  then show ?thesis
  proof (cases rule: os_call_cases)
    case waits
    with run 1 s(3) show ?thesis by (auto simp: amqp_ssl_socket_open_def os_bind_def open_post_def)
  next
    case (answer h e)
    note m1 = moved_to_stepped [OF answer(2) s(1)]
    then have c1: "calls s1 = calls s @ [(Ssl_new, h)]" "lib s1 = lib s" "core s1 = core s" "behaved s1" "resolve s1 = resolve s"
      using answer(2) by (simp_all add: moved_to_def stepped_def)
    show ?thesis
    proof (cases "h = 0")
      case True
      from run 1 answer s(3) True have
        "os_bind (set_this (\<lambda>t. t\<lparr>ssl := 0\<rparr>)) (\<lambda>_. os_bind (set_this (\<lambda>t. t\<lparr>internal_error := e\<rparr>)) (\<lambda>_.
          os_fail AMQP_STATUS_SSL_ERROR)) s1 = (r, s')"
        by (simp add: amqp_ssl_socket_open_def)
      from ssl_new_failed [OF this] c1 core_fields [OF refl, of s1] core_fields [OF refl, of s] s(3) True show ?thesis
        by (auto simp: open_post_def held_append hold_def acquired_def released_def)
    next
      case h: False
      define s2 where "s2 = s1\<lparr>this := (this s1)\<lparr>ssl := h\<rparr>\<rparr>"
      have c2: "calls s2 = calls s @ [(Ssl_new, h)]" "lib s2 = lib s" "core s2 = (core s)\<lparr>ssl := h\<rparr>" "behaved s2"
          "resolve s2 = resolve s"
        using c1 new_session [of h "this s1"] by (auto simp: s2_def core_def behaved_def posix_answers_def)
      have run2: "os_bind (in_world (deadline_from timeout)) (\<lambda>deadline.
         os_catch (ssl_connect_host h host' port' deadline) (\<lambda>code.
           os_bind (os_do (Ssl_free h)) (\<lambda>_. os_bind (set_this (\<lambda>t. t\<lparr>ssl := 0\<rparr>)) (\<lambda>_. os_error code)))) s2 = (r, s')"
        using run 1 answer s(3) h by (simp add: amqp_ssl_socket_open_def set_this_def os_bind_def s2_def)
      obtain r3 s3 where 3: "in_world (deadline_from timeout) s2 = (r3, s3)" by fastforce
      note d = deadline_from_result [OF 3]
      note m3 = moved_to_stepped [OF d(1) c2(4)]
      then have c3: "calls s3 = calls s @ [(Ssl_new, h)]" "lib s3 = lib s" "core s3 = (core s)\<lparr>ssl := h\<rparr>" "behaved s3"
          "resolve s3 = resolve s"
        using c2 d(1) by (simp_all add: moved_to_def stepped_def)
      show ?thesis
      proof (cases r3)
        case (Error code)
        obtain w' where "deadline_from timeout (os_world s2) = (Error code, w')"
          using 3 Error by (auto simp: in_world_def split: prod.splits)
        moreover have "r = Error code" "s' = s3" "code < 0" using run2 3 Error d(2) [OF Error] by (simp_all add: os_bind_def)
        ultimately show ?thesis
          using c3 h s(3) core_fields [OF refl, of s3] core_fields [OF refl, of s]
          by (auto simp: open_post_def held_session simp del: held_append)
      next
        case (Done dl)
        with run2 3 have run4: "os_catch (ssl_connect_host h host' port' dl) (\<lambda>code.
           os_bind (os_do (Ssl_free h)) (\<lambda>_. os_bind (set_this (\<lambda>t. t\<lparr>ssl := 0\<rparr>)) (\<lambda>_. os_error code))) s3 = (r, s')"
          by simp
        obtain r4 s4 where 4: "ssl_connect_host h host' port' dl s3 = (r4, s4)" by fastforce
        from connect_host_post [OF c3(4) _ 4] s(2) c3(2) obtain es where es: "connected_post s3 h host' port' r4 es s4" by auto
        show ?thesis
        proof (cases r4)
          case (Done u)
          with es c3 obtain fd as where p: "resolve s host' port' = Some as" "0 \<le> fd" "core s4 = (core s)\<lparr>ssl := h, ssl_sockfd := fd\<rparr>"
              "tls_opened ((core s)\<lparr>ssl := h\<rparr>) h host' as fd es" "calls s4 = calls s @ (Ssl_new, h) # es" "lib s4 = lib s"
            by (auto simp: connected_post_def)
          then have o: "tls_opened (core s) h host' as fd es" by (simp add: tls_opened_def checked_def)
          moreover have "core s4 = (core s)\<lparr>ssl_sockfd := fd, ssl := h\<rparr>" using p(3) by (cases "core s") simp
          moreover have "r = Done ()" "s' = s4" using run4 4 Done by (simp_all add: os_catch_def)
          moreover have "held (calls s4) = held (calls s) + {#Descriptor fd, Session h#}"
            using tls_opened_held [OF o] p(5) h by (simp add: held_session)
          ultimately show ?thesis
            using p h unfolding open_post_def by (simp del: core_def)
        next
          case (Error code)
          with es c3 have p: "code < 0" "core s4 = (core s)\<lparr>ssl := h, ssl_sockfd := -1\<rparr>" "opens_nothing es" "behaved s4"
              "calls s4 = calls s @ (Ssl_new, h) # es" "lib s4 = lib s"
            by (auto simp: connected_post_def)
          have k: "held (calls s @ (Ssl_new, h) # es @ [(Ssl_free h, v)]) = held (calls s)" for v
            using p(3) h held_session [OF h, of "calls s" "es @ [(Ssl_free h, v)]"] by (simp add: held_freed opens_nothing_def)
          from free_session [OF p(4,1), of h r s'] run4 4 Error k p core_fields [OF refl, of s'] show ?thesis
            by (auto simp: os_catch_def open_post_def)
        qed (use run4 4 es c3 in \<open>auto simp: os_catch_def open_post_def connected_post_def\<close>)
      qed (use d in simp_all)
    qed
  qed
qed

end
