(* ===== verification/Openssl_Library_Laws.thy ===== *)
theory Openssl_Library_Laws
  imports Amqp_Openssl_Library
begin

text \<open>
  What each function of \<open>amqp_openssl.c\<close> does to the static variables of the library: rules for
  sequences of steps, and the invariant that the functions keep.
\<close>

section \<open>The static variables\<close>

text \<open>\<open>lib_runs l m Q\<close>: a run of \<open>m\<close> from the static variables \<open>l\<close> ends with a result and variables in \<open>Q\<close>.\<close>

definition lib_runs :: "ssl_library \<Rightarrow> (tls \<Rightarrow> 'a outcome \<times> tls) \<Rightarrow> ('a outcome \<Rightarrow> ssl_library \<Rightarrow> bool) \<Rightarrow> bool" where
  "lib_runs l m Q \<longleftrightarrow> (\<forall>s. lib s = l \<longrightarrow> Q (fst (m s)) (lib (snd (m s))))"

lemma lib_runsD: "lib_runs l m Q \<Longrightarrow> lib s = l \<Longrightarrow> m s = (r, s') \<Longrightarrow> Q r (lib s')"
  by (force simp: lib_runs_def)

lemma lib_runs_mono: "lib_runs l m Q \<Longrightarrow> (\<And>r l'. Q r l' \<Longrightarrow> R r l') \<Longrightarrow> lib_runs l m R"
  by (simp add: lib_runs_def)

lemma lib_bind:
  assumes m: "lib_runs l m Q" and k: "\<And>x l1. Q (Done x) l1 \<Longrightarrow> lib_runs l1 (k x) R"
    and e: "\<And>c l1. Q (Error c) l1 \<Longrightarrow> R (Error c) l1" and w: "\<And>l1. Q Waiting l1 \<Longrightarrow> R Waiting l1"
    and c: "\<And>l1. Q Crash l1 \<Longrightarrow> R Crash l1"
  shows "lib_runs l (os_bind m k) R"
  unfolding lib_runs_def
proof (intro allI impI)
  fix s :: tls assume s: "lib s = l"
  obtain r s1 where 1: "m s = (r, s1)" by fastforce
  from lib_runsD [OF m s 1] k e w c 1 show "R (fst (os_bind m k s)) (lib (snd (os_bind m k s)))"
    by (cases r) (auto simp: os_bind_def lib_runs_def)
qed

lemma lib_return: "R (Done x) l \<Longrightarrow> lib_runs l (os_return x) R"
  by (simp add: lib_runs_def os_return_def)

lemma lib_fail: "R (Error (status_code st)) l \<Longrightarrow> lib_runs l (os_fail st) R"
  by (simp add: lib_runs_def os_fail_def)

lemma lib_abort: "R Crash l \<Longrightarrow> lib_runs l os_abort R"
  by (simp add: lib_runs_def os_abort_def)

lemma lib_set: "R (Done ()) (f l) \<Longrightarrow> lib_runs l (set_lib f) R"
  by (simp add: lib_runs_def set_lib_def)

lemma lib_bind_set: "lib_runs (f l) (k ()) R \<Longrightarrow> lib_runs l (os_bind (set_lib f) k) R"
  by (simp add: lib_runs_def set_lib_def os_bind_def)

lemma lib_set_this: "R (Done ()) l \<Longrightarrow> lib_runs l (set_this f) R"
  by (simp add: lib_runs_def set_this_def)

lemma lib_bind_set_this: "lib_runs l (k ()) R \<Longrightarrow> lib_runs l (os_bind (set_this f) k) R"
  by (simp add: lib_runs_def set_this_def os_bind_def)

lemma lib_os_call: "lib (snd (os_call c s)) = lib s"
  by (simp add: os_call_def split: list.split prod.split)

lemma lib_bind_call: "R Waiting l \<Longrightarrow> (\<And>v e. lib_runs l (k (v, e)) R) \<Longrightarrow> lib_runs l (os_bind (os_call c) k) R"
  by (auto simp: lib_runs_def os_bind_def os_call_def split: list.split prod.split)

lemma lib_bind_do: "R Waiting l \<Longrightarrow> lib_runs l (k ()) R \<Longrightarrow> lib_runs l (os_bind (os_do c) k) R"
  by (auto simp: lib_runs_def os_do_def os_bind_def os_return_def os_call_def split: list.split prod.split)

lemma lib_if: "(b \<Longrightarrow> lib_runs l m R) \<Longrightarrow> (\<not> b \<Longrightarrow> lib_runs l m' R) \<Longrightarrow> lib_runs l (if b then m else m') R"
  by simp

lemma lib_pair: "lib_runs l (f a b) R \<Longrightarrow> lib_runs l (case (a, b) of (x, y) \<Rightarrow> f x y) R"
  by simp

text \<open>A step that looks at the state first.\<close>

lemma lib_at: "(\<And>s. lib s = l \<Longrightarrow> \<exists>m. f s = m s \<and> lib_runs l m R) \<Longrightarrow> lib_runs l f R"
  by (metis lib_runs_def)

lemmas lib_rules = lib_bind_set lib_bind_set_this lib_bind_call lib_bind_do lib_return lib_fail lib_abort lib_set lib_set_this
  lib_if lib_pair

lemma lib_catch:
  assumes "lib_runs l m Q" and "\<And>c l1. Q (Error c) l1 \<Longrightarrow> lib_runs l1 (h c) R" and "\<And>x l1. Q (Done x) l1 \<Longrightarrow> R (Done x) l1"
    and "\<And>l1. Q Waiting l1 \<Longrightarrow> R Waiting l1" and "\<And>l1. Q Crash l1 \<Longrightarrow> R Crash l1"
  shows "lib_runs l (os_catch m h) R"
  unfolding lib_runs_def
proof (intro allI impI)
  fix s :: tls assume s: "lib s = l"
  obtain r s1 where 1: "m s = (r, s1)" by fastforce
  from lib_runsD [OF assms(1) s 1] assms(2-) 1 show "R (fst (os_catch m h s)) (lib (snd (os_catch m h s)))"
    by (cases r) (auto simp: os_catch_def lib_runs_def)
qed

text \<open>
  Everything but the array of locks: the setting up and destroying of locks changes nothing
  else, and the invariant does not speak of it.
\<close>

definition but_locks :: "ssl_library \<Rightarrow> ssl_library" where
  "but_locks l = l\<lparr>amqp_openssl_lockarray := No_locks\<rparr>"

definition same_but_locks :: "ssl_library \<Rightarrow> 'a outcome \<Rightarrow> ssl_library \<Rightarrow> bool" where
  "same_but_locks l r l' \<longleftrightarrow> but_locks l' = but_locks l"

lemma same_but_locksD:
  "same_but_locks l r l' \<Longrightarrow> do_initialize_openssl l' = do_initialize_openssl l \<and> openssl_initialized l' = openssl_initialized l \<and>
    openssl_bio_initialized l' = openssl_bio_initialized l \<and> openssl_connections l' = openssl_connections l \<and>
    openssl_engine l' = openssl_engine l \<and> amqp_ssl_bio_initialized l' = amqp_ssl_bio_initialized l"
  by (cases l; cases l') (simp add: same_but_locks_def but_locks_def)

lemma same_locks [simp]: "same_but_locks l r l" "same_but_locks l r (l'\<lparr>amqp_openssl_lockarray := a\<rparr>) \<longleftrightarrow> same_but_locks l r l'"
  by (simp_all add: same_but_locks_def but_locks_def)

lemma lib_destroy_locks: "lib_runs l (destroy_locks i k) (\<lambda>r l'. l' = l \<and> (\<forall>c. r \<noteq> Error c))"
  by (induction k arbitrary: i) (auto intro!: lib_rules)

lemma lib_init_locks: "lib_runs l (init_locks i k) (same_but_locks l)"
proof (induction k arbitrary: i)
  case (Suc k)
  show ?case
    unfolding init_locks.simps
    by (intro lib_rules lib_bind [OF lib_destroy_locks] Suc) simp_all
qed (auto intro: lib_rules)

lemma lib_setup: "lib_runs l setup_openssl (same_but_locks l)"
proof (rule lib_at)
  fix s :: tls
  have "lib_runs l (setup_locks n) (same_but_locks l)" for n
    unfolding setup_locks_def
    by (intro lib_rules lib_bind [OF lib_init_locks]) (auto simp: same_but_locks_def but_locks_def)
  then show "\<exists>m. setup_openssl s = m s \<and> lib_runs l m (same_but_locks l)"
    by (auto simp: setup_openssl_def)
qed

text \<open>
  The invariant: the number of connections is the number of sockets; while there is one, the
  method of the BIO is there, and OpenSSL is initialised if the program wants it to be; the
  two files agree on whether the method is there.
\<close>

definition lib_ok :: "nat \<Rightarrow> ssl_library \<Rightarrow> bool" where
  "lib_ok k l \<longleftrightarrow>
    openssl_connections l = int k \<and> openssl_bio_initialized l = amqp_ssl_bio_initialized l \<and>
    (0 < k \<longrightarrow> amqp_ssl_bio_initialized l \<and> (do_initialize_openssl l \<longrightarrow> openssl_initialized l))"

definition kept_lib :: "nat \<Rightarrow> 'a outcome \<Rightarrow> ssl_library \<Rightarrow> bool" where
  "kept_lib k r l \<longleftrightarrow> r \<noteq> Waiting \<longrightarrow> r \<noteq> Crash \<longrightarrow> lib_ok k l"

lemma lib_bio_init:
  "\<not> amqp_ssl_bio_initialized l \<Longrightarrow> lib_runs l amqp_openssl_bio_init
    (\<lambda>r l'. case r of Done _ \<Rightarrow> l' = l\<lparr>amqp_ssl_bio_initialized := True\<rparr> | Error c \<Rightarrow> l' = l | _ \<Rightarrow> True)"
  by (auto simp: lib_runs_def amqp_openssl_bio_init_def os_bind_def os_call_def os_fail_def set_lib_def split: list.split prod.split)

text \<open>Counting a new socket: with others there nothing can fail, without others nothing was counted.\<close>

definition counted :: "nat \<Rightarrow> unit outcome \<Rightarrow> ssl_library \<Rightarrow> bool" where
  "counted k r l \<longleftrightarrow> (case r of Done _ \<Rightarrow> lib_ok (Suc k) l | Error _ \<Rightarrow> k = 0 \<and> lib_ok 0 l | _ \<Rightarrow> True)"

lemma lib_if_at:
  assumes "b l \<Longrightarrow> lib_runs l m R" and "\<not> b l \<Longrightarrow> R (Done ()) l"
  shows "lib_runs l (\<lambda>s. if b (lib s) then m s else os_return () s) R"
  using assms by (auto simp: lib_runs_def os_return_def)

definition ssl_ready :: "nat \<Rightarrow> unit outcome \<Rightarrow> ssl_library \<Rightarrow> bool" where
  "ssl_ready k r l \<longleftrightarrow>
    (case r of
       Done _ \<Rightarrow> lib_ok k l \<and> (do_initialize_openssl l \<longrightarrow> openssl_initialized l)
     | Error _ \<Rightarrow> k = 0 \<and> lib_ok 0 l
     | _ \<Rightarrow> True)"

lemma lib_increment:
  assumes "lib_ok k l"
  shows "lib_runs l initialize_ssl_and_increment_connections (counted k)"
proof -
  have 1: "lib_runs l (\<lambda>s. if do_initialize_openssl (lib s) \<and> \<not> openssl_initialized (lib s)
      then os_bind setup_openssl (\<lambda>_. set_lib (\<lambda>l. l\<lparr>openssl_initialized := True\<rparr>)) s else os_return () s) (ssl_ready k)"
    by (rule lib_if_at, rule lib_bind [OF lib_setup], (rule lib_set)?)
      (use assms in \<open>auto simp: ssl_ready_def lib_ok_def dest: same_but_locksD\<close>)
  have 2: "lib_runs l1 (\<lambda>s. if \<not> openssl_bio_initialized (lib s)
      then os_bind amqp_openssl_bio_init (\<lambda>_. set_lib (\<lambda>l. l\<lparr>openssl_bio_initialized := True\<rparr>)) s else os_return () s)
      (\<lambda>r l2. ssl_ready k r l2 \<and> (r = Done () \<longrightarrow> amqp_ssl_bio_initialized l2))" if "ssl_ready k (Done u) l1" for l1 u
    using that
    by (intro lib_if_at lib_bind [OF lib_bio_init] lib_set) (auto simp: ssl_ready_def lib_ok_def)
  show ?thesis
    unfolding initialize_ssl_and_increment_connections_def
    by (rule lib_bind [OF 1], rule lib_bind [OF 2], assumption, rule lib_set)
      (auto simp: ssl_ready_def counted_def lib_ok_def)
qed

lemma lib_world: "lib_runs l amqp_ssl_socket_delete
    (\<lambda>r l'. r = Done () \<longrightarrow> l' = (if openssl_connections l > 0 then l\<lparr>openssl_connections := openssl_connections l - 1\<rparr> else l))"
  unfolding lib_runs_def
  by (auto simp: amqp_ssl_socket_delete_def amqp_ssl_socket_close_def decrement_ssl_connections_def os_bind_def os_do_def os_catch_def
      os_call_def os_fail_def os_return_def os_abort_def set_this_def set_lib_def split: list.split prod.split)

lemma lib_new_context: "lib_runs l new_context (\<lambda>r l'. l' = l)"
  unfolding new_context_def by (intro lib_rules) simp_all

lemma lib_new:
  assumes "lib_ok k l"
  shows "lib_runs l amqp_ssl_socket_new (\<lambda>r l'. case r of Done (Some t) \<Rightarrow> lib_ok (Suc k) l' | Done None \<Rightarrow> lib_ok k l' | _ \<Rightarrow> True)"
proof -
  let ?Q = "\<lambda>r l'. case r of Done None \<Rightarrow> False | Done (Some t) \<Rightarrow> lib_ok (Suc k) l'
    | Error c \<Rightarrow> lib_ok (Suc k) l' \<or> k = 0 \<and> lib_ok 0 l' | _ \<Rightarrow> True"
  have some: "lib_runs l1 (\<lambda>s. os_return (Some (this s)) s) ?Q" if "lib_ok (Suc k) l1" for l1
    using that by (simp add: lib_runs_def os_return_def)
  have made: "lib_runs l (os_bind initialize_ssl_and_increment_connections (\<lambda>_. os_bind new_context (\<lambda>_ s. os_return (Some (this s)) s))) ?Q"
    by (rule lib_bind [OF lib_increment [OF assms]], rule lib_bind [OF lib_new_context], rule some) (auto simp: counted_def)
  show ?thesis
    unfolding amqp_ssl_socket_new_def
    by (intro lib_rules lib_catch [OF made] lib_bind [OF lib_world])
      (use assms in \<open>auto simp: lib_ok_def split: option.splits if_splits\<close>)
qed

lemma lib_free_engine: "lib_runs l free_engine (\<lambda>r l'. same_but_locks (l\<lparr>openssl_engine := openssl_engine l'\<rparr>) r l' \<and> (\<forall>c. r \<noteq> Error c))"
  unfolding lib_runs_def
  by (auto simp: free_engine_def same_but_locks_def but_locks_def os_bind_def os_do_def os_call_def os_return_def set_lib_def
      split: list.split prod.split)

lemma lib_ok_fields:
  assumes "same_but_locks (l\<lparr>openssl_engine := e\<rparr>) r l'"
  shows "lib_ok k l' \<longleftrightarrow> lib_ok k l"
  using same_but_locksD [OF assms] by (auto simp: lib_ok_def)

text \<open>Giving the engine back and destroying the locks leave the invariant.\<close>

lemma lib_keep_free_engine: "lib_ok k l \<Longrightarrow> lib_runs l free_engine (\<lambda>r l'. lib_ok k l' \<and> (\<forall>c. r \<noteq> Error c))"
  by (rule lib_runs_mono [OF lib_free_engine]) (auto simp: lib_ok_fields)

lemma lib_set_engine:
  assumes "lib_ok k l"
  shows "lib_runs l (amqp_set_ssl_engine e) (\<lambda>r. lib_ok k)"
proof (rule lib_at)
  fix s :: tls assume s: "lib s = l"
  let ?m = "os_bind free_engine (\<lambda>_.
       case e of
         None \<Rightarrow> os_return ()
       | Some name \<Rightarrow> os_bind (os_call (Engine_by_id name)) (\<lambda>(e, _).
           os_bind (set_lib (\<lambda>l. l\<lparr>openssl_engine := e\<rparr>)) (\<lambda>_.
           if e = 0 then os_fail AMQP_STATUS_SSL_SET_ENGINE_FAILED
           else os_bind (os_call (Engine_set_default e)) (\<lambda>(r, _).
             if r = 0 then os_bind free_engine (\<lambda>_. os_fail AMQP_STATUS_SSL_SET_ENGINE_FAILED)
             else os_return ()))))"
  have e: "lib_ok k (l\<lparr>openssl_engine := x\<rparr>) \<longleftrightarrow> lib_ok k l" for l x by (simp add: lib_ok_def)
  have "lib_runs l ?m (\<lambda>r. lib_ok k)"
    by (rule lib_bind [OF lib_keep_free_engine [OF assms]], cases e)
      (auto intro!: lib_rules lib_bind [OF lib_keep_free_engine] simp: e split: prod.split)
  moreover have "lib_runs l (os_fail AMQP_STATUS_SSL_ERROR) (\<lambda>r. lib_ok k)" using assms by (intro lib_rules)
  ultimately show "\<exists>m. amqp_set_ssl_engine e s = m s \<and> lib_runs l m (\<lambda>r. lib_ok k)"
    by (cases "openssl_initialized l") (auto simp: amqp_set_ssl_engine_def s)
qed

lemma lib_initialize:
  assumes "lib_ok k l"
  shows "lib_runs l amqp_initialize_ssl_library (\<lambda>r. lib_ok k)"
proof (rule lib_at)
  fix s :: tls assume s: "lib s = l"
  have k: "lib_ok k l'" if "same_but_locks l r l'" for r :: "unit outcome" and l'
    using same_but_locksD [OF that] assms by (auto simp: lib_ok_def)
  have "lib_runs l (os_bind setup_openssl (\<lambda>_. set_lib (\<lambda>l. l\<lparr>openssl_initialized := True\<rparr>))) (\<lambda>r. lib_ok k)"
    by (rule lib_bind [OF lib_setup], rule lib_set) (auto dest!: k simp: lib_ok_def)
  moreover have "lib_runs l (os_return ()) (\<lambda>r. lib_ok k)" using assms by (intro lib_rules)
  ultimately show "\<exists>m. amqp_initialize_ssl_library s = m s \<and> lib_runs l m (\<lambda>r. lib_ok k)"
    by (cases "openssl_initialized l") (auto simp: amqp_initialize_ssl_library_def s)
qed

text \<open>With a connection there is nothing to be done; without one all of it goes.\<close>

lemma lib_destroy_all:
  "lib_runs l (\<lambda>s. case amqp_openssl_lockarray (lib s) of
       Locks k \<Rightarrow> destroy_locks 0 (num_locks s) s
     | _ \<Rightarrow> if num_locks s = 0 then os_return () s else os_abort s) (\<lambda>r l'. l' = l \<and> (\<forall>c. r \<noteq> Error c))"
proof (rule lib_at)
  fix s :: tls assume s: "lib s = l"
  have "lib_runs l os_abort (\<lambda>r l'. l' = l \<and> (\<forall>c. r \<noteq> Error c))" by (intro lib_rules) simp
  moreover have "lib_runs l (os_return ()) (\<lambda>r l'. l' = l \<and> (\<forall>c. r \<noteq> Error c))" by (intro lib_rules) simp
  ultimately show "\<exists>m. (case amqp_openssl_lockarray (lib s) of
       Locks k \<Rightarrow> destroy_locks 0 (num_locks s) s
     | _ \<Rightarrow> if num_locks s = 0 then os_return () s else os_abort s) = m s \<and>
       lib_runs l m (\<lambda>r l'. l' = l \<and> (\<forall>c. r \<noteq> Error c))"
    using lib_destroy_locks [of l 0 "num_locks s"] by (cases "amqp_openssl_lockarray (lib s)") (auto simp del: destroy_locks.simps)
qed

lemma lib_bio_destroy: "lib_runs l amqp_openssl_bio_destroy
    (\<lambda>r l'. (r = Done () \<longrightarrow> l' = l\<lparr>amqp_ssl_bio_initialized := False\<rparr>) \<and> (\<forall>c. r \<noteq> Error c))"
  by (auto simp: lib_runs_def amqp_openssl_bio_destroy_def os_bind_def os_do_def os_call_def os_return_def os_abort_def set_lib_def
      split: list.split prod.split)

lemma lib_uninitialize:
  assumes "lib_ok k l"
  shows "lib_runs l amqp_uninitialize_ssl_library (kept_lib k)"
proof -
  let ?m = "os_bind amqp_openssl_bio_destroy (\<lambda>_.
       os_bind (set_lib (\<lambda>l. l\<lparr>openssl_bio_initialized := False\<rparr>)) (\<lambda>_.
       os_bind (\<lambda>s. case amqp_openssl_lockarray (lib s) of
           Locks k \<Rightarrow> destroy_locks 0 (num_locks s) s
         | _ \<Rightarrow> if num_locks s = 0 then os_return () s else os_abort s) (\<lambda>_.
       os_bind (set_lib (\<lambda>l. l\<lparr>amqp_openssl_lockarray := Freed_locks\<rparr>)) (\<lambda>_.
       os_bind free_engine (\<lambda>_.
       set_lib (\<lambda>l. l\<lparr>openssl_initialized := False\<rparr>))))))"
  have "lib_runs l ?m (kept_lib 0)" if "k = 0"
  proof (rule lib_bind [OF lib_bio_destroy], goal_cases)
    case (1 u l1)
    with that assms have "lib_ok 0 (l1\<lparr>openssl_bio_initialized := False, amqp_openssl_lockarray := Freed_locks\<rparr>)"
      by (simp add: lib_ok_def)
    then show ?case
      by (intro lib_bind_set lib_bind [OF lib_destroy_all] lib_bind [OF lib_keep_free_engine [of 0]] lib_set)
        (auto simp: kept_lib_def lib_ok_def)
  qed (auto simp: kept_lib_def)
  moreover have "lib_runs l (os_fail AMQP_STATUS_SOCKET_INUSE) (kept_lib k :: unit outcome \<Rightarrow> _)"
    using assms by (intro lib_rules) (simp add: kept_lib_def)
  ultimately show ?thesis
    using assms by (cases "k = 0") (auto simp: lib_runs_def amqp_uninitialize_ssl_library_def lib_ok_def)
qed

lemma lib_set_initialize: "lib_ok k l \<Longrightarrow> lib_runs l (amqp_set_initialize_ssl_library v) (\<lambda>r. lib_ok k)"
  by (auto simp: lib_runs_def amqp_set_initialize_ssl_library_def set_lib_def os_return_def lib_ok_def)

end
