(* ===== verification/Connecting_Properties.thy ===== *)
theory Connecting_Properties
  imports Connecting_Laws Socket_Properties
begin

text \<open>Properties of opening connections, with instances.\<close>


text \<open>Two addresses: the first refuses, the second is connected to after a wait.\<close>

definition two_addresses :: net where
  "two_addresses = \<lparr>os_world = client\<lparr>sockfd := None, polls := [Poll_ready]\<rparr>,
     answers = [(5, 0), (0, 0), (0, 0), (2, 0), (0, 0), (0, 0), (0, 0), (-1, 111), (0, 0),
                (5, 0), (0, 0), (0, 0), (2, 0), (0, 0), (0, 0), (0, 0), (-1, 115), (0, 0)],
     calls = [],
     resolve = (\<lambda>_ _. Some [\<lparr>ai_family = 10, ai_socktype = 1, ai_protocol = 6, ai_addr = [1]\<rparr>,
                             \<lparr>ai_family = 2, ai_socktype = 1, ai_protocol = 6, ai_addr = [2]\<rparr>])\<rparr>"


end
