(* ===== verification/Openssl_Properties.thy ===== *)
theory Openssl_Properties
  imports Openssl_Laws Openssl_Library_Laws Connecting_Properties
begin

text \<open>Properties of TLS sockets, with instances.\<close>


text \<open>A handshake in two rounds, with a certificate for the host.\<close>

definition tls_client :: tls where
  "tls_client = \<lparr>os_world = client\<lparr>sockfd := None, polls := [Poll_ready]\<rparr>,
     answers = [(77, 0), (5, 0), (0, 0), (0, 0), (2, 0), (0, 0), (0, 0), (0, 0), (0, 0),
                (8, 0), (1, 0), (-1, 2), (1, 0), (9, 0), (0, 0), (1, 0), (0, 0)],
     calls = [],
     resolve = (\<lambda>_ _. Some [\<lparr>ai_family = 2, ai_socktype = 1, ai_protocol = 6, ai_addr = [2]\<rparr>]),
     this = new_socket\<lparr>ctx := 6\<rparr>, lib = initial_library\<lparr>amqp_ssl_bio_initialized := True\<rparr>,
     plaintext = [], num_locks = 0\<rparr>"


section \<open>Versions of TLS\<close>

definition no_version :: "int \<Rightarrow> int" where
  "no_version v =
    (if v = AMQP_TLSv1 then SSL_OP_NO_TLSv1 else if v = AMQP_TLSv1_1 then SSL_OP_NO_TLSv1_1
     else if v = AMQP_TLSv1_2 then SSL_OP_NO_TLSv1_2 else SSL_OP_NO_TLSv1_3)"

definition allows :: "amqp_ssl_socket_t \<Rightarrow> int \<Rightarrow> bool" where
  "allows t v \<longleftrightarrow> ctx_options t AND no_version v = 0"

lemma and_power: "(x :: int) AND 2 ^ n = 0 \<longleftrightarrow> \<not> bit x n"
  by (simp add: and_exp_eq_0_iff_not_bit)

lemmas version_simps = AMQP_TLSv1_def AMQP_TLSv1_1_def AMQP_TLSv1_2_def AMQP_TLSv1_3_def AMQP_TLSvLATEST_def

lemma versions: "v \<in> {AMQP_TLSv1..AMQP_TLSv1_3} \<longleftrightarrow> v = 1 \<or> v = 2 \<or> v = 3 \<or> v = 4"
  by (auto simp: version_simps)

text \<open>
  Of the four versions of TLS a socket allows, after its versions were set, those from the
  least to the greatest that was asked for - and TLS 1.2 also when only TLS 1.3 was asked
  for, against what the header promises.  Versions that cannot be had, or none at all, change
  nothing.
\<close>

lemma versions_allowed:
  assumes "min_version \<in> {AMQP_TLSv1..AMQP_TLSv1_3} \<or> min_version = AMQP_TLSvLATEST"
    and "v \<in> {AMQP_TLSv1..AMQP_TLSv1_3}"
  shows "case amqp_ssl_socket_set_ssl_versions min_version max_version t of
      (AMQP_STATUS_OK, t') \<Rightarrow>
        (allows t' v \<longleftrightarrow>
          latest_version min_version \<le> v \<and> v \<le> latest_version max_version \<or>
          v = AMQP_TLSv1_2 \<and> latest_version min_version = AMQP_TLSv1_3)
    | (status, t') \<Rightarrow> t' = t \<and>
        (latest_version min_version > latest_version max_version \<or> latest_version max_version > AMQP_TLSv1_3)"
proof -
  let ?lo = "latest_version min_version" and ?hi = "latest_version max_version"
  have lo: "?lo = 1 \<or> ?lo = 2 \<or> ?lo = 3 \<or> ?lo = 4" using assms(1) by (auto simp: latest_version_def version_simps)
  show ?thesis
  proof (cases "?lo > ?hi \<or> ?hi > AMQP_TLSv1_3")
    case True
    then show ?thesis by (auto simp: amqp_ssl_socket_set_ssl_versions_def Let_def)
  next
    case False
    with lo have hi: "?hi = 1 \<or> ?hi = 2 \<or> ?hi = 3 \<or> ?hi = 4" by (auto simp: version_simps)
    from assms(2) have v: "v = 1 \<or> v = 2 \<or> v = 3 \<or> v = 4" by (auto simp: version_simps)
    from False have ok: "amqp_ssl_socket_set_ssl_versions min_version max_version t =
        (AMQP_STATUS_OK, t\<lparr>ctx_options := (ctx_options t AND NOT (SSL_OP_NO_TLSv1 OR SSL_OP_NO_TLSv1_1 OR SSL_OP_NO_TLSv1_2 OR
          SSL_OP_NO_TLSv1_3)) OR version_options ?lo ?hi\<rparr>)"
      by (auto simp: amqp_ssl_socket_set_ssl_versions_def Let_def)
    have "(((ctx_options t AND NOT (SSL_OP_NO_TLSv1 OR SSL_OP_NO_TLSv1_1 OR SSL_OP_NO_TLSv1_2 OR
          SSL_OP_NO_TLSv1_3)) OR version_options ?lo ?hi) AND no_version v = 0) \<longleftrightarrow>
        (?lo \<le> v \<and> v \<le> ?hi \<or> v = AMQP_TLSv1_2 \<and> ?lo = AMQP_TLSv1_3)"
      using v lo hi False
      by (elim disjE) (simp_all add: version_options_def no_version_def version_simps SSL_OP_NO_TLSv1_def SSL_OP_NO_TLSv1_1_def
        SSL_OP_NO_TLSv1_2_def SSL_OP_NO_TLSv1_3_def and_power bit_simps del: power_numeral)
    then show ?thesis by (simp add: ok allows_def)
  qed
qed

lemma versions_allowed_example:
  "case amqp_ssl_socket_set_ssl_versions AMQP_TLSv1_3 AMQP_TLSv1_3 new_socket of (status, t') \<Rightarrow>
    status = AMQP_STATUS_OK \<and> allows t' AMQP_TLSv1_2 \<and> \<not> allows t' AMQP_TLSv1_1"
proof -
  obtain t' where t': "amqp_ssl_socket_set_ssl_versions AMQP_TLSv1_3 AMQP_TLSv1_3 new_socket = (AMQP_STATUS_OK, t')"
    by (auto simp: amqp_ssl_socket_set_ssl_versions_def Let_def latest_version_def version_simps)
  with versions_allowed [of AMQP_TLSv1_3 AMQP_TLSv1_2 AMQP_TLSv1_3 new_socket]
    versions_allowed [of AMQP_TLSv1_3 AMQP_TLSv1_1 AMQP_TLSv1_3 new_socket]
  show ?thesis by (simp add: latest_version_def version_simps)
qed

section \<open>The static variables\<close>

text \<open>
  In every state that a program can reach the library counts exactly the sockets that are
  there, and while there is one its BIO method is there and OpenSSL is initialised (if it is
  to be).  So a socket that was made can be opened, and the library is not uninitialised
  under it.
\<close>

lemma tls_library_invariant:
  assumes "tls_reaches s k"
  shows "openssl_connections (lib s) = int k \<and>
    (0 < k \<longrightarrow> amqp_ssl_bio_initialized (lib s) \<and> (do_initialize_openssl (lib s) \<longrightarrow> openssl_initialized (lib s)) \<and>
      amqp_uninitialize_ssl_library s = (Error (status_code AMQP_STATUS_SOCKET_INUSE), s))"
proof -
  from assms have "lib_ok k (lib s)"
  proof induction
    case (socket_made s k t s')
    from lib_runsD [OF lib_new [OF socket_made.IH] refl socket_made.hyps(2)] show ?case by simp
  next
    case (socket_refused s k s')
    from lib_runsD [OF lib_new [OF socket_refused.IH] refl socket_refused.hyps(2)] show ?case by simp
  next
    case (socket_deleted s k u s')
    from lib_runsD [OF lib_world refl socket_deleted.hyps(2)] socket_deleted.IH show ?case by (auto simp: lib_ok_def)
  next
    case (uninitialized s k r s' u code)
    from lib_runsD [OF lib_uninitialize [OF uninitialized.IH] refl uninitialized.hyps(2)] uninitialized.hyps(3) show ?case
      by (auto simp: kept_lib_def)
  next
    case (initialize_set s k v r s')
    from lib_runsD [OF lib_set_initialize [OF initialize_set.IH] refl initialize_set.hyps(2)] show ?case .
  next
    case (initialized s k r s')
    from lib_runsD [OF lib_initialize [OF initialized.IH] refl initialized.hyps(2)] show ?case .
  next
    case (engine_set s k e r s')
    from lib_runsD [OF lib_set_engine [OF engine_set.IH] refl engine_set.hyps(2)] show ?case .
  qed (simp_all add: lib_ok_def initial_library_def)
  then show ?thesis by (auto simp: lib_ok_def amqp_uninitialize_ssl_library_def os_fail_def)
qed

text \<open>A program that makes a socket; OpenSSL has two locks.\<close>

definition tls_program :: tls where
  "tls_program = \<lparr>os_world = client\<lparr>sockfd := None\<rparr>,
     answers = [(40, 0), (41, 0), (0, 0), (0, 0), (1, 0), (42, 0), (43, 0)],
     calls = [], resolve = (\<lambda>_ _. None), this = new_socket, lib = initial_library, plaintext = [], num_locks = 2\<rparr>"

lemma tls_library_invariant_example:
  "let s = snd (amqp_ssl_socket_new tls_program) in
    openssl_connections (lib s) = 1 \<and> amqp_uninitialize_ssl_library s = (Error (status_code AMQP_STATUS_SOCKET_INUSE), s)"
proof -
  have "case fst (amqp_ssl_socket_new tls_program) of Done (Some t) \<Rightarrow> True | _ \<Rightarrow> False" by code_simp
  then obtain t s where new: "amqp_ssl_socket_new tls_program = (Done (Some t), s)"
    by (cases "amqp_ssl_socket_new tls_program") (auto split: outcome.splits option.splits)
  have "tls_reaches tls_program 0" by (rule tls_reaches.start) (simp add: tls_program_def)
  from tls_library_invariant [OF tls_reaches.socket_made [OF this new]] new show ?thesis by simp
qed

end
