(* ===== verification/Spec2Isabelle.thy ===== *)
theory Spec2Isabelle
  imports Connection_Memory Input_Properties Message_Properties Login_Properties Url_Properties
    Frame_Queue Openssl_Properties
begin

text \<open>
  A model of the AMQP 0-9-1 client in \<open>src/Modules/RabbitMQ\<close> (the C library rabbitmq-c
  that the C++ broker classes are built on).

  \<^bold>\<open>How the parts work together.\<close>  A program makes a connection object, opens a TCP or a TLS
  socket for it and logs in.  A method is encoded into a frame and sent; bytes from the socket
  go through a buffer into a state machine that hands out frames; a remote procedure call
  sends a method and waits for the frame with its reply, while frames of other channels
  are queued and heartbeats are sent; a message is a method, a header frame and body frames.
  All of them take their memory from pools, one for each channel, that are recycled when a
  channel is released.

  \<^bold>\<open>Data and their codecs.\<close>
  \<^item> \<open>Prelude\<close>: lists updated by index, collections of simplification rules.
  \<^item> \<open>Amqp_Status\<close>: status codes (\<open>amqp.h\<close>) and error strings (\<open>amqp_api.c\<close>).
  \<^item> \<open>Amqp_Codec\<close>: the integer and string codecs of \<open>amqp_private.h\<close>, over byte lists.
  \<^item> \<open>Amqp_Mem\<close>: \<open>malloc\<close>, \<open>calloc\<close>, \<open>realloc\<close> and \<open>free\<close> over an explicit heap, and the pool
    allocator of \<open>amqp_mem.c\<close> with its invariant.
  \<^item> \<open>Amqp_Decoder\<close>: decoders as state passing over an offset, a pool and the heap, with the
    laws all decoders share (soundness, memory safety) in the locale \<open>field_codec\<close>.
  \<^item> \<open>Amqp_Table\<close>, \<open>Amqp_Table_Ops\<close>: field tables and arrays, \<open>amqp_table.c\<close>: coding,
    comparing, cloning, constructing, and \<open>amqp_merge_capabilities\<close> (\<open>amqp_socket.c\<close>).
  \<^item> \<open>Amqp_Methods\<close>, \<open>Amqp_Framing\<close>: the constants and structs of \<open>framing.h\<close> and the
    functions of \<open>amqp_framing.c\<close> for methods and content properties.
  \<^item> \<open>Amqp_Time\<close>: deadlines, \<open>amqp_time.c\<close>.
  \<^item> \<open>Amqp_Url\<close>, \<open>Url_Properties\<close>: parsing URLs, \<open>amqp_url.c\<close>.
  \<^item> \<open>Wire_Properties\<close>: the properties of the codecs and of the pools, with instances.

  \<^bold>\<open>The connection and its frames\<close> (\<open>amqp_connection.c\<close>, \<open>amqp_private.h\<close>).
  \<^item> \<open>Amqp_State\<close>, \<open>Amqp_Pools\<close>: the connection object, frames, the table of channel pools, and
    the invariant of all pools of a connection.
  \<^item> \<open>Amqp_Input\<close>, \<open>Input_Machine\<close>, \<open>Input_Stream\<close>, \<open>Input_Failures\<close>, \<open>Input_Properties\<close>:
    \<open>amqp_handle_input\<close> and the release of buffers, the invariant of the state machine, the
    stream of frames it implements, and what a failure leaves behind.
  \<^item> \<open>Amqp_Output\<close>, \<open>Frame_Travel\<close>: \<open>amqp_frame_to_bytes\<close>, and frames there and back.
  \<^item> \<open>Amqp_Lifecycle\<close>, \<open>Connection_Memory\<close>: creating, tuning and destroying a connection and
    its socket object, and who owns which block over its life.

  \<^bold>\<open>Sockets and calls\<close> (\<open>amqp_socket.c\<close>, \<open>amqp_tcp_socket.c\<close>, \<open>amqp_openssl.c\<close>).  The world is a
  record of the connection, the heap, the bytes sent, and the answers that the clock,
  \<open>poll\<close>, \<open>send\<close> and \<open>recv\<close> will give; a function maps it to an outcome (done, an error code,
  waiting for want of answers, a crash) and the world after.
  \<^item> \<open>Amqp_Socket\<close>, \<open>Amqp_Rpc\<close>: sending, receiving, heartbeats, the queue of frames, waiting
    for methods, remote procedure calls, and the functions for single methods.
  \<^item> \<open>Io_Laws\<close>, \<open>World_Invariant\<close>: what these functions keep, proved once in locales over the
    basic steps; the invariant of a connection in use.
  \<^item> \<open>Frame_Sending\<close>, \<open>Frame_Receiving\<close>, \<open>Rpc_Laws\<close>, \<open>Wait_Termination\<close>, \<open>Socket_Properties\<close>:
    what is sent, what is received, what a call returns, and that waiting ends.
  \<^item> \<open>Frame_Queue\<close>: the linked list behind the queue of frames, and that it implements it.
  \<^item> \<open>Amqp_Connecting\<close>, \<open>Connecting_Laws\<close>, \<open>Connecting_Properties\<close>: opening TCP connections,
    with a log of the calls of the operating system; descriptors are read off the log.
  \<^item> \<open>Amqp_Openssl\<close>, \<open>Amqp_Openssl_Library\<close>, \<open>Openssl_Laws\<close>, \<open>Openssl_Library_Laws\<close>,
    \<open>Openssl_Properties\<close>: TLS sockets over the recorded answers of OpenSSL, the checks of the
    certificate, and the static variables of the library as a state machine.
  \<^item> \<open>Amqp_Login\<close>, \<open>Login_Laws\<close>, \<open>Login_Properties\<close>: the handshake of \<open>amqp_login\<close>.
  \<^item> \<open>Amqp_Api\<close>, \<open>Publishing\<close>, \<open>Amqp_Consumer\<close>, \<open>Message_Reading\<close>, \<open>Message_Properties\<close>:
    publishing (\<open>amqp_api.c\<close>) and reading (\<open>amqp_consumer.c\<close>) messages.

  \<^bold>\<open>Fuel.\<close>  The recursion of nested tables has twice the size of the memory as its fuel: each
  level and each round of its loops takes a byte (\<open>table_decoder_terminates\<close>).  The loops over the socket have the number of
  answers that are left, the loops over the buffer the number of bytes in it, the loops over
  frames the number of bytes that are or will be in it, and reading a body also the number of
  queued frames; \<open>waiting_ends\<close> shows that more fuel changes nothing.  Publishing has the
  answers of \<open>send\<close> that are left, one for each frame; with \<open>frame_max\<close> 8 the loop of the code
  does not end, and the model waits.  What is not returned within the answers is \<open>Waiting\<close>.

  \<^bold>\<open>Not modelled.\<close>
  \<^item> The branches for Windows, BSD and HP-UX, and building without \<open>poll\<close>.
  \<^item> OpenSSL, the C library and the operating system: their answers are arguments.  Of OpenSSL
    the callbacks for locks, threads and passwords are left out as well.
  \<^item> The counts of entries in \<open>decode_table\<close> and \<open>decode_array\<close> are \<open>nat\<close>, in the code \<open>int\<close>: the
    product would overflow with \<open>2 ^ 30\<close> elements, an array of a gigabyte of void values.
  \<^item> Strings, tables and frames are values, so that sharing and copying look alike; what is
    allocated and freed for them is modelled.
  \<^item> The C++ classes over the library and the tools beside them.
\<close>

end
